(* ===== verification/Prelude.thy ===== *)
theory Prelude
  imports Main "HOL-Library.Sublist"
begin

section \<open>Shared vocabulary of the development\<close>

text \<open>
  What every component theory uses: the JavaScript string operations the sources call
  (\<open>trim\<close>, \<open>startsWith\<close>, \<open>includes\<close>, \<open>split\<close>, \<open>join\<close>), JavaScript values as they come out of
  \<open>JSON.parse\<close>, the outcome of one awaited call, and runs of event-driven components.

  A JavaScript string is a list of UTF-16 code units; here it is \<^typ>\<open>string\<close>, a list of the
  first 256 code units. The few literals of the sources outside that range (an em dash, an
  arrow) are written as their UTF-8 bytes; no definition measures their length.
\<close>

named_theorems js_simps \<open>evaluation rules of the JavaScript operations\<close>
named_theorems form_simps \<open>unfolding rules of the form components\<close>

subsection \<open>Strings\<close>

text \<open>\<open>s.startsWith(p)\<close> and \<open>s.endsWith(p)\<close>.\<close>

definition starts_with :: "string \<Rightarrow> string \<Rightarrow> bool" where
  "starts_with s p \<longleftrightarrow> take (length p) s = p"

definition ends_with :: "string \<Rightarrow> string \<Rightarrow> bool" where
  "ends_with s p \<longleftrightarrow> starts_with (rev s) (rev p)"

text \<open>\<open>s.includes(p)\<close>.\<close>

fun js_includes :: "string \<Rightarrow> string \<Rightarrow> bool" where
  "js_includes [] p \<longleftrightarrow> p = []"
| "js_includes (c # cs) p \<longleftrightarrow> starts_with (c # cs) p \<or> js_includes cs p"

text \<open>\<open>WhiteSpace\<close> and \<open>LineTerminator\<close> below code unit 256, and \<open>s.trim()\<close>.\<close>

definition js_space :: "char \<Rightarrow> bool" where
  "js_space c \<longleftrightarrow> c \<in> set [CHR 0x09, CHR 0x0A, CHR 0x0B, CHR 0x0C, CHR 0x0D, CHR 0x20, CHR 0xA0]"

definition js_trim :: "string \<Rightarrow> string" where
  "js_trim s = rev (dropWhile js_space (rev (dropWhile js_space s)))"

text \<open>\<open>s.split(d)\<close> for a separator of one code unit, and \<open>ws.join(sep)\<close>.\<close>

fun split_on :: "char \<Rightarrow> string \<Rightarrow> string list" where
  "split_on d [] = [[]]"
| "split_on d (c # cs) =
     (if c = d then [] # split_on d cs
      else (case split_on d cs of [] \<Rightarrow> [[c]] | w # ws \<Rightarrow> (c # w) # ws))"

fun join_with :: "string \<Rightarrow> string list \<Rightarrow> string" where
  "join_with sep [] = []"
| "join_with sep [w] = w"
| "join_with sep (w # v # ws) = w @ sep @ join_with sep (v # ws)"

text \<open>\<open>s.replace(/d+$/, "")\<close> and \<open>s.replace(/d$/, "")\<close> for one code unit \<open>d\<close>.\<close>

definition strip_trailing :: "char \<Rightarrow> string \<Rightarrow> string" where
  "strip_trailing d s = rev (dropWhile (\<lambda>c. c = d) (rev s))"

definition strip_one_trailing :: "char \<Rightarrow> string \<Rightarrow> string" where
  "strip_one_trailing d s = (if s \<noteq> [] \<and> last s = d then butlast s else s)"

lemma starts_with_Nil [simp]: "starts_with s []"
  by (simp add: starts_with_def)

lemma starts_with_empty [simp]: "starts_with [] p \<longleftrightarrow> p = []"
  by (auto simp: starts_with_def)

lemma starts_with_Cons [simp]: "starts_with (c # s) (d # p) \<longleftrightarrow> c = d \<and> starts_with s p"
  by (simp add: starts_with_def)

lemma starts_with_append [simp]: "starts_with (p @ s) p"
  by (simp add: starts_with_def)

lemma starts_with_conv: "starts_with s p \<longleftrightarrow> (\<exists>r. s = p @ r)"
  by (metis append_take_drop_id starts_with_append starts_with_def)

lemma starts_with_prefix: "starts_with s p \<longleftrightarrow> prefix p s"
  by (auto simp: starts_with_conv prefix_def)

lemma starts_with_refl [simp]: "starts_with s s"
  by (simp add: starts_with_def)

lemma js_trim_Nil [simp]: "js_trim [] = []"
  by (simp add: js_trim_def)

lemma dropWhile_head: "dropWhile P xs = y # ys \<Longrightarrow> \<not> P y"
  by (metis dropWhile_eq_Cons_conv)

lemma dropWhile_idem: "dropWhile P (dropWhile P xs) = dropWhile P xs"
  by (induction xs) auto

lemma dropWhile_rev_dropWhile:
  "dropWhile P (rev (dropWhile P (rev (dropWhile P xs)))) = rev (dropWhile P (rev (dropWhile P xs)))"
proof (cases "dropWhile P (rev (dropWhile P xs))")
  case Nil
  show ?thesis by (simp only: Nil rev.simps dropWhile.simps)
next
  case (Cons y ys)
  let ?d = "dropWhile P xs"
  obtain pre where pre: "rev ?d = pre @ y # ys"
    using Cons by (metis takeWhile_dropWhile_id)
  have d: "?d = rev ys @ y # rev pre"
    using arg_cong [OF pre, of rev] by simp
  have "\<not> P (hd (rev ys @ [y]))"
  proof -
    have "?d \<noteq> []" using d by simp
    then obtain z zs where z: "?d = z # zs" by (cases ?d) auto
    then have "\<not> P z" by (rule dropWhile_head)
    moreover have "hd (rev ys @ [y]) = z" using d z by (cases "rev ys") auto
    ultimately show ?thesis by simp
  qed
  then have "dropWhile P (rev ys @ [y]) = rev ys @ [y]"
    by (cases "rev ys @ [y]") auto
  then show ?thesis using Cons by simp
qed

text \<open>\<open>trim\<close> is idempotent: trimming what was trimmed changes nothing.\<close>

lemma js_trim_idem [simp]: "js_trim (js_trim s) = js_trim s"
  unfolding js_trim_def by (simp add: dropWhile_rev_dropWhile dropWhile_idem)

lemma set_js_trim: "set (js_trim s) \<subseteq> set s"
  by (auto simp: js_trim_def dest!: set_dropWhileD)

lemma js_trim_no_space: "(\<forall>c \<in> set s. \<not> js_space c) \<Longrightarrow> js_trim s = s"
proof -
  have drop: "dropWhile js_space xs = xs" if "\<forall>c \<in> set xs. \<not> js_space c" for xs
    using that by (cases xs) auto
  assume "\<forall>c \<in> set s. \<not> js_space c"
  then show ?thesis by (simp add: js_trim_def drop)
qed

lemma dropWhile_keeps: "c \<in> set s \<Longrightarrow> \<not> P c \<Longrightarrow> c \<in> set (dropWhile P s)"
  by (induction s) auto

lemma js_trim_keeps: "c \<in> set s \<Longrightarrow> \<not> js_space c \<Longrightarrow> c \<in> set (js_trim s)"
  by (simp add: js_trim_def dropWhile_keeps)

lemma split_on_not_Nil [simp]: "split_on d s \<noteq> []"
  by (induction s) (auto split: list.splits)

lemma split_on_no_sep: "d \<notin> set w \<Longrightarrow> split_on d w = [w]"
  by (induction w) auto

lemma split_on_append:
  "d \<notin> set w \<Longrightarrow> split_on d (w @ d # s) = w # split_on d s"
  by (induction w) auto

text \<open>\<open>split\<close> undoes \<open>join\<close> when no piece holds the separator; \<open>join\<close> always undoes \<open>split\<close>.\<close>

lemma split_join:
  "ws \<noteq> [] \<Longrightarrow> \<forall>w \<in> set ws. d \<notin> set w \<Longrightarrow> split_on d (join_with [d] ws) = ws"
  by (induction "[d]" ws rule: join_with.induct) (auto simp: split_on_no_sep split_on_append)

lemma join_Cons: "ws \<noteq> [] \<Longrightarrow> join_with sep (w # ws) = w @ sep @ join_with sep ws"
  by (cases ws) auto

lemma join_split: "join_with [d] (split_on d s) = s"
proof (induction s)
  case (Cons c s)
  then show ?case
  proof (cases "split_on d s")
    case (Cons w ws)
    then show ?thesis using \<open>join_with [d] (split_on d s) = s\<close>
      by (cases ws) (auto simp: join_Cons)
  qed simp
qed simp

lemma split_on_pieces: "w \<in> set (split_on d s) \<Longrightarrow> d \<notin> set w"
  by (induction s arbitrary: w) (auto split: list.splits if_splits)

lemma strip_trailing_idem [simp]: "strip_trailing d (strip_trailing d s) = strip_trailing d s"
  by (simp add: strip_trailing_def dropWhile_idem)

lemma strip_trailing_last: "strip_trailing d s = [] \<or> last (strip_trailing d s) \<noteq> d"
proof (cases "dropWhile (\<lambda>c. c = d) (rev s)")
  case (Cons y ys)
  then show ?thesis
    using dropWhile_head [OF Cons] by (simp add: strip_trailing_def)
qed (simp add: strip_trailing_def)

subsection \<open>JavaScript values\<close>

text \<open>
  A value as the sources see it after \<open>JSON.parse\<close> or typed \<open>unknown\<close>. Numbers are the finite
  ones, exact: the integer \<^term>\<open>Num i\<close>, or \<^term>\<open>Dec m k\<close> for the \<open>m / 10^k\<close> that is no integer (\<open>k > 0\<close>
  and the last digit of \<open>m\<close> is not zero); the rounding of doubles is left out. An object is the list
  of its own properties in order; its keys are not array indices.
\<close>

datatype jsval =
    Undefined
  | Null
  | Bool bool
  | Num int
  | Dec int nat
  | Str string
  | Arr "jsval list"
  | Obj "(string \<times> jsval) list"

text \<open>The condition of an \<open>if\<close>, of \<open>!v\<close>, \<open>&&\<close> and \<open>||\<close>.\<close>

fun truthy :: "jsval \<Rightarrow> bool" where
  "truthy Undefined = False"
| "truthy Null = False"
| "truthy (Bool b) = b"
| "truthy (Num n) = (n \<noteq> 0)"
| "truthy (Dec m k) = True"
| "truthy (Str s) = (s \<noteq> [])"
| "truthy (Arr _) = True"
| "truthy (Obj _) = True"

fun nullish :: "jsval \<Rightarrow> bool" where
  "nullish Undefined = True"
| "nullish Null = True"
| "nullish _ = False"

text \<open>\<open>v.k\<close>: a read on \<open>undefined\<close> or \<open>null\<close> throws (\<^term>\<open>None\<close>), a missing property is \<open>undefined\<close>.\<close>

fun get_prop :: "jsval \<Rightarrow> string \<Rightarrow> jsval option" where
  "get_prop Undefined k = None"
| "get_prop Null k = None"
| "get_prop (Obj ps) k = Some (case map_of ps k of None \<Rightarrow> Undefined | Some v \<Rightarrow> v)"
| "get_prop _ k = Some Undefined"

text \<open>\<open>v?.k\<close>: a nullish value short-circuits to \<open>undefined\<close>.\<close>

definition opt_prop :: "jsval \<Rightarrow> string \<Rightarrow> jsval" where
  "opt_prop v k = (case get_prop v k of None \<Rightarrow> Undefined | Some x \<Rightarrow> x)"

subsection \<open>Event-driven components\<close>

text \<open>
  A component is a step function on its state; \<open>run\<close> feeds it a list of events. The locale
  states once that what the start state has and every step keeps, every run keeps.
\<close>

definition run :: "('s \<Rightarrow> 'e \<Rightarrow> 's) \<Rightarrow> 's \<Rightarrow> 'e list \<Rightarrow> 's" where
  "run step s es = foldl step s es"

lemma run_Nil [simp]: "run step s [] = s"
  by (simp add: run_def)

lemma run_Cons [simp]: "run step s (e # es) = run step (step s e) es"
  by (simp add: run_def)

lemma run_append [simp]: "run step s (es @ fs) = run step (run step s es) fs"
  by (simp add: run_def)

locale stepper =
  fixes step :: "'s \<Rightarrow> 'e \<Rightarrow> 's"
    and inv :: "'s \<Rightarrow> bool"
  assumes step_inv: "inv s \<Longrightarrow> inv (step s e)"
begin

lemma run_inv: "inv s \<Longrightarrow> inv (run step s es)"
  by (induction es arbitrary: s) (auto intro: step_inv)

end

text \<open>A codec: what is encoded decodes to what it was. So no two values share an encoding.\<close>

locale codec =
  fixes encode :: "'a \<Rightarrow> 'b"
    and decode :: "'b \<Rightarrow> 'a option"
    and domain :: "'a \<Rightarrow> bool"
  assumes decode_encode: "domain x \<Longrightarrow> decode (encode x) = Some x"
begin

lemma encode_inj: "domain x \<Longrightarrow> domain y \<Longrightarrow> encode x = encode y \<Longrightarrow> x = y"
  by (metis decode_encode option.inject)

end

end
