(* ===== verification/View.thy ===== *)
theory View
  imports Prelude
begin

section \<open>Rendered views\<close>

text \<open>
  What a React component returns: a tree of elements. An element keeps the name of its tag or
  component and the attributes that carry meaning (names, types, values, targets, states and the
  handler a control is wired to, as a name); class names, icons, ids and ARIA labels that repeat
  a visible text are left out. A boolean attribute is present or absent, \<open>null\<close> renders nothing; a placeholder and the text of a read-only input are their children.

  A text is a message of the catalogue (\<open>t(key, args)\<close>, key with its namespace) or a literal;
  the translation of every key is taken to be a non-empty string.
\<close>

datatype msg = T string "(string \<times> string) list" | Raw string

datatype view = Txt msg | El string "(string \<times> string) list" "view list"

text \<open>A message without arguments, as text and as message.\<close>

abbreviation t0 :: "string \<Rightarrow> msg" where "t0 key \<equiv> T key []"
abbreviation tx :: "string \<Rightarrow> view" where "tx key \<equiv> Txt (T key [])"
abbreviation lit :: "string \<Rightarrow> view" where "lit s \<equiv> Txt (Raw s)"

text \<open>The em dash, as its UTF-8 bytes.\<close>

definition em_dash :: string where "em_dash = [CHR 0xE2, CHR 0x80, CHR 0x94]"

definition flag :: "string \<Rightarrow> bool \<Rightarrow> (string \<times> string) list" where
  "flag name b = (if b then [(name, ''true'')] else [])"

definition attr_opt :: "string \<Rightarrow> string option \<Rightarrow> (string \<times> string) list" where
  "attr_opt name v = (case v of None \<Rightarrow> [] | Some s \<Rightarrow> [(name, s)])"

text \<open>\<open>c ? view : null\<close>, and \<open>x ? f(x) : null\<close> for an optional message.\<close>

definition shown_if :: "bool \<Rightarrow> view list \<Rightarrow> view list" where
  "shown_if c vs = (if c then vs else [])"

definition msg_given :: "msg option \<Rightarrow> bool" where
  "msg_given m = (case m of None \<Rightarrow> False | Some (Raw s) \<Rightarrow> s \<noteq> [] | Some (T _ _) \<Rightarrow> True)"

definition shown_msg :: "msg option \<Rightarrow> (msg \<Rightarrow> view list) \<Rightarrow> view list" where
  "shown_msg m f = (if msg_given m then f (the m) else [])"

subsection \<open>Questions about a view\<close>

text \<open>The elements with a tag, in document order; the texts; and the controls a user can operate:
  those that are not disabled, by the handler they are wired to.\<close>

fun elements :: "view \<Rightarrow> view list" where
  "elements (Txt m) = []"
| "elements (El tag as vs) = El tag as vs # concat (map elements vs)"

fun tag_of :: "view \<Rightarrow> string" where
  "tag_of (Txt _) = []"
| "tag_of (El tag _ _) = tag"

fun attr_of :: "view \<Rightarrow> string \<Rightarrow> string option" where
  "attr_of (Txt _) _ = None"
| "attr_of (El _ as _) k = map_of as k"

definition tagged :: "string \<Rightarrow> view \<Rightarrow> view list" where
  "tagged tag v = filter (\<lambda>e. tag_of e = tag) (elements v)"

fun texts :: "view \<Rightarrow> msg list" where
  "texts (Txt m) = [m]"
| "texts (El _ _ vs) = concat (map texts vs)"

definition operable :: "string \<Rightarrow> string \<Rightarrow> view \<Rightarrow> bool" where
  "operable event handler v \<longleftrightarrow>
     list_ex (\<lambda>e. attr_of e event = Some handler \<and> attr_of e ''disabled'' = None) (elements v)"

lemma operable_simps:
  "\<not> operable e h (Txt m)"
  "operable e h (El tag as vs) \<longleftrightarrow>
     (map_of as e = Some h \<and> map_of as ''disabled'' = None) \<or> list_ex (operable e h) vs"
  "list_ex (operable e h) (shown_if c vs) \<longleftrightarrow> c \<and> list_ex (operable e h) vs"
  "list_ex (operable e h) (shown_msg om f) \<longleftrightarrow> msg_given om \<and> list_ex (operable e h) (f (the om))"
  "list_ex (operable e h) (map g xs) \<longleftrightarrow> list_ex (\<lambda>x. operable e h (g x)) xs"
  "map_of (flag name b @ as) e = (if b \<and> e = name then Some ''true'' else map_of as e)"
  "map_of (flag name b) e = (if b \<and> e = name then Some ''true'' else None)"
  "\<not> list_ex (\<lambda>x. False) xs"
  by (auto simp: operable_def list_ex_iff shown_if_def shown_msg_def flag_def)

subsection \<open>The shared button (\<open>apps/web/components/ui/button.tsx\<close>)\<close>

text \<open>A loading button is disabled; with \<open>render\<close> it becomes that element and loses its type.\<close>

definition Button :: "bool \<Rightarrow> bool \<Rightarrow> (string \<times> string) list \<Rightarrow> view list \<Rightarrow> view" where
  "Button loading disabled props children =
     El ''button''
       (flag ''disabled'' (loading \<or> disabled) @ flag ''data-loading'' loading @ flag ''aria-disabled'' loading
        @ props @ [(''type'', ''button'')])
       (children @ shown_if loading [El ''Spinner'' [] []])"

lemma operable_Button:
  "operable ''onClick'' h (Button loading off props children) \<longleftrightarrow>
     (\<not> loading \<and> \<not> off \<and> map_of props ''onClick'' = Some h \<and> map_of props ''disabled'' = None) \<or>
     list_ex (operable ''onClick'' h) children"
  by (auto simp: Button_def operable_simps flag_def)

definition LinkButton :: "string \<Rightarrow> (string \<times> string) list \<Rightarrow> view list \<Rightarrow> view" where
  "LinkButton href props children = El ''a'' ((''href'', href) # props) children"

end
