(* ===== verification/Page_Parts.thy ===== *)
theory Page_Parts
  imports View
begin

section \<open>Headings and sections of a page (\<open>components/common\<close>, \<open>components/settings/settings-nav.tsx\<close>)\<close>

text \<open>A title or description node is the list of its children; an absent or empty node renders nothing.\<close>

definition PageHeader :: "view list \<Rightarrow> view list \<Rightarrow> view list \<Rightarrow> view" where
  "PageHeader title description action =
     El ''div'' [(''data-slot'', ''page-header'')]
       (El ''div'' []
          (El ''h1'' [(''data-slot'', ''page-header-title'')] title #
           shown_if (description \<noteq> []) [El ''p'' [(''data-slot'', ''page-header-description'')] description]) #
        shown_if (action \<noteq> []) [El ''div'' [(''data-slot'', ''page-header-action'')] action])"

definition SettingsSection :: "view list \<Rightarrow> view list \<Rightarrow> view list \<Rightarrow> view list \<Rightarrow> view" where
  "SettingsSection title description icon children =
     El ''section'' [(''data-slot'', ''settings-section'')]
       [El ''div'' []
          (shown_if (icon \<noteq> []) [El ''div'' [(''data-slot'', ''settings-section-icon'')] icon] @
           [El ''div'' []
              (El ''h2'' [(''data-slot'', ''settings-section-title'')] title #
               shown_if (description \<noteq> []) [El ''p'' [(''data-slot'', ''settings-section-description'')] description])]),
        El ''FramePanel'' [(''data-slot'', ''settings-section-panel'')] children]"

text \<open>The document title the effect of \<open>PageTitle\<close> sets; \<open>appTitle\<close> is the translated
  \<open>common.appTitle\<close>. The dash is the em dash.\<close>

definition PageTitle :: "string \<Rightarrow> string \<Rightarrow> string option \<Rightarrow> bool \<Rightarrow> string" where
  "PageTitle appTitle title titleSuffix hideAppName =
     (let resolvedSuffix = (case titleSuffix of None \<Rightarrow> appTitle | Some s \<Rightarrow> s)
      in if hideAppName then title
         else if resolvedSuffix \<noteq> [] then title @ '' '' @ em_dash @ '' '' @ resolvedSuffix else title)"

subsection \<open>The tabs of the settings pages\<close>

definition SETTINGS_LINKS :: "(string \<times> string) list" where
  "SETTINGS_LINKS = [(''/settings'', ''general''), (''/settings/users'', ''usersNav'')]"

definition settings_link_active :: "string \<Rightarrow> string \<Rightarrow> bool" where
  "settings_link_active pathname href =
     (if href = ''/settings'' then pathname = ''/settings'' else starts_with pathname href)"

text \<open>The active link differs in its classes, kept here as \<open>data-active\<close>.\<close>

definition SettingsNav :: "string option \<Rightarrow> view" where
  "SettingsNav path =
     (let pathname = (case path of None \<Rightarrow> [] | Some p \<Rightarrow> p)
      in El ''nav'' []
        (El ''aria-label'' [] [tx ''settings.navAria''] #
         map (\<lambda>l. El ''Link'' ([(''href'', fst l), (''key'', fst l)] @ flag ''data-active'' (settings_link_active pathname (fst l)))
                     [tx (''settings.'' @ snd l)]) SETTINGS_LINKS))"

end
