(* ===== verification/Api_Types.thy ===== *)
theory Api_Types
  imports Prelude
begin

section \<open>The values the API exchanges (\<open>apps/web/lib/query/types.ts\<close>)\<close>

text \<open>
  One record per type of the source, field by field and in its order: a nullable or optional field
  is an option, an optional nullable one an option of an option (\<^term>\<open>None\<close> where the field is
  absent), a \<open>Record<string, unknown>\<close> a JavaScript value. Field names carry a prefix per type.
\<close>

record user =
  user_id :: string
  user_email :: string

record session_response =
  sess_user :: "user option"

record login_input =
  login_in_email :: string
  login_in_password :: string

record login_response =
  login_out_user :: user

record poll_run_error =
  rerr_repo_id :: string
  rerr_message :: string

record poll_run_event =
  ev_id :: string
  ev_poll_run_id :: string
  ev_monitored_repo_id :: "string option"
  ev_action :: string
  ev_detail :: "string option"
  ev_created_at :: string
  ev_source_kind :: "string option"
  ev_project_path :: "string option"
  ev_ticket_external_id :: "string option"
  ev_ticket_url :: "string option"
  ev_release_tag :: "string option"

record poll_run =
  prun_id :: string
  prun_started_at :: string
  prun_finished_at :: "string option"
  prun_status :: string
  prun_trigger_source :: string
  prun_repos_checked :: int
  prun_tickets_created :: int
  prun_tickets_superseded :: int
  prun_errors :: "poll_run_error list"
  prun_events :: "(poll_run_event list) option"

record status_repo =
  srepo_id :: string
  srepo_source_kind :: string
  srepo_project_path :: string
  srepo_ticket_project_id :: string
  srepo_ticket_project_name :: string
  srepo_enabled :: bool
  srepo_open_ticket_external_id :: "string option"
  srepo_open_ticket_tag :: "string option"
  srepo_last_known_tag :: "string option"
  srepo_last_release_published_at :: "string option"
  srepo_last_polled_at :: "string option"
  srepo_last_error :: "string option"
  srepo_repo_url :: "string option"
  srepo_release_url :: "string option"
  srepo_open_ticket_url :: "string option"

record status_response =
  sta_poll_interval_minutes :: int
  sta_last_run :: "poll_run option"
  sta_repos :: "status_repo list"
  sta_is_polling :: bool
  sta_version :: string

record settings =
  set_poll_interval_minutes :: int
  set_invite_token_expiry_hours :: int
  set_password_reset_token_expiry_minutes :: int
  set_smtp_configured :: "bool option"

text \<open>\<open>SettingsPatch\<close>: every field may be absent.\<close>

record settings_patch =
  setp_poll_interval_minutes :: "int option"
  setp_invite_token_expiry_hours :: "int option"
  setp_password_reset_token_expiry_minutes :: "int option"
  setp_smtp_configured :: "bool option"

record user_list_item =
  uli_id :: string
  uli_email :: string
  uli_created_at :: string

record list_users_response =
  users_out_items :: "user_list_item list"

record invitation =
  inv_id :: string
  inv_email :: string
  inv_expires_at :: string
  inv_created_at :: string
  inv_invited_by_user_id :: "string option"

record list_invitations_response =
  invs_out_items :: "invitation list"

record create_invitation_input =
  inv_in_email :: string

record create_invitation_response =
  inv_res_id :: string
  inv_res_email :: string
  inv_res_expires_at :: string
  inv_res_invite_url :: string

record email_change_request_input =
  ecr_new_email :: string
  ecr_current_password :: string

record password_change_input =
  pci_current_password :: string
  pci_new_password :: string

record integration =
  intg_id :: string
  intg_kind :: string
  intg_name :: string
  intg_base_url :: "string option"
  intg_has_secret :: bool
  intg_is_default :: bool
  intg_created_at :: string
  intg_updated_at :: string

record create_integration_input =
  cint_kind :: string
  cint_name :: string
  cint_base_url :: "(string option) option"
  cint_secret :: string
  cint_is_default :: "bool option"

record update_integration_input =
  uint_name :: string
  uint_base_url :: "(string option) option"
  uint_secret :: "(string option) option"
  uint_is_default :: "bool option"

record test_connection_response =
  test_success :: bool
  test_message :: "string option"

record ticket_metadata_item =
  tmi_id :: string
  tmi_name :: string
  tmi_label :: "string option"

record ticket_metadata_response =
  tmr_items :: "ticket_metadata_item list"
  tmr_message :: "string option"

record content_templates =
  ct_title :: string
  ct_description :: string
  ct_supersede_comment :: string

record ticket_project =
  tp_id :: string
  tp_integration_id :: string
  tp_external_project_id :: string
  tp_name :: string
  tp_create_config :: jsval
  tp_status_mapping :: jsval
  tp_content_templates :: content_templates
  tp_on_open_ticket_policy :: string
  tp_created_at :: string
  tp_updated_at :: string

record create_ticket_project_input =
  ctp_integration_id :: string
  ctp_external_project_id :: string
  ctp_name :: string
  ctp_create_config :: jsval
  ctp_status_mapping :: jsval
  ctp_content_templates :: content_templates
  ctp_on_open_ticket_policy :: string

record update_ticket_project_input =
  utp_name :: string
  utp_create_config :: jsval
  utp_status_mapping :: jsval
  utp_content_templates :: content_templates
  utp_on_open_ticket_policy :: string

record repo =
  repo_id :: string
  repo_source_kind :: string
  repo_project_path :: string
  repo_enabled :: bool
  repo_include_prereleases :: bool
  repo_source_integration_id :: "string option"
  repo_ticket_project_id :: string
  repo_notification_target_ids :: "string list"
  repo_open_ticket_external_id :: "string option"
  repo_open_ticket_tag :: "string option"
  repo_last_known_tag :: "string option"
  repo_last_polled_at :: "string option"
  repo_last_error :: "string option"
  repo_created_at :: string
  repo_updated_at :: string

record create_repo_input =
  crepo_source_kind :: string
  crepo_project_path :: string
  crepo_enabled :: "bool option"
  crepo_include_prereleases :: "bool option"
  crepo_source_integration_id :: "(string option) option"
  crepo_ticket_project_id :: string
  crepo_notification_target_ids :: "(string list) option"

record update_repo_input =
  urepo_source_kind :: string
  urepo_project_path :: string
  urepo_enabled :: bool
  urepo_include_prereleases :: bool
  urepo_source_integration_id :: "(string option) option"
  urepo_ticket_project_id :: string
  urepo_notification_target_ids :: "(string list) option"

record notification_target =
  nt_id :: string
  nt_name :: string
  nt_has_secret :: bool
  nt_events :: "string list"
  nt_enabled :: bool
  nt_created_at :: string
  nt_updated_at :: string

record create_notification_target_input =
  cnt_name :: string
  cnt_shoutrrr_url :: string
  cnt_events :: "(string list) option"
  cnt_enabled :: "bool option"

record update_notification_target_input =
  unt_name :: string
  unt_shoutrrr_url :: "(string option) option"
  unt_events :: "string list"
  unt_enabled :: bool

record trigger_poll_response =
  trig_run_id :: string

record poll_runs_params =
  prp_limit :: "int option"
  prp_offset :: "int option"

text \<open>What \<open>useQuery\<close> gives a component: the data once there is some, and the two flags it tests.\<close>

record 'a query =
  q_data :: "'a option"
  q_loading :: bool
  q_error :: bool

end
