(* ===== verification/Js_Url.thy ===== *)
theory Js_Url
  imports Prelude
begin

section \<open>The URL operations the sources use\<close>

text \<open>
  The part of the WHATWG URL standard behind \<open>new URL(value, base)\<close> for a value that starts
  with a slash and an http base, and behind \<open>URLSearchParams\<close>: the percent-encode sets, the
  path state with its dot segments, the query and fragment states, and the form-urlencoded
  serializer and parser. The host parser is a parameter (\<open>origin_of\<close>): given the authority part
  of a reference it returns the serialised origin, or \<^term>\<open>None\<close> where the host is invalid.
  No definition here translates a file of the repository; the component theories build on them.
\<close>

subsection \<open>Percent-encoding\<close>

definition hex_digit :: "nat \<Rightarrow> char" where
  "hex_digit n = ''0123456789ABCDEF'' ! n"

definition pct_byte :: "nat \<Rightarrow> string" where
  "pct_byte b = [CHR ''%'', hex_digit (b div 16 mod 16), hex_digit (b mod 16)]"

text \<open>UTF-8 percent-encoding of one code point below 256: one byte or two.\<close>

definition utf8_pct :: "char \<Rightarrow> string" where
  "utf8_pct c = (let n = of_char c in
     if n < 128 then pct_byte n else pct_byte (192 + n div 64) @ pct_byte (128 + n mod 64))"

definition fragment_set :: "char \<Rightarrow> bool" where
  "fragment_set c \<longleftrightarrow> of_char c \<le> (31::nat) \<or> (126::nat) < of_char c \<or> c \<in> set '' \"<>`''"

definition special_query_set :: "char \<Rightarrow> bool" where
  "special_query_set c \<longleftrightarrow>
     of_char c \<le> (31::nat) \<or> (126::nat) < of_char c \<or> c \<in> set [CHR '' '', CHR 0x22, CHR 0x23, CHR 0x3C, CHR 0x3E, CHR 0x27]"

definition path_set :: "char \<Rightarrow> bool" where
  "path_set c \<longleftrightarrow>
     of_char c \<le> (31::nat) \<or> (126::nat) < of_char c \<or> c \<in> set [CHR '' '', CHR 0x22, CHR 0x23, CHR 0x3C, CHR 0x3E, CHR 0x3F,
       CHR 0x5E, CHR 0x60, CHR 0x7B, CHR 0x7D]"

definition pct_char :: "(char \<Rightarrow> bool) \<Rightarrow> char \<Rightarrow> string" where
  "pct_char S c = (if S c then utf8_pct c else [c])"

definition pct_encode :: "(char \<Rightarrow> bool) \<Rightarrow> string \<Rightarrow> string" where
  "pct_encode S s = concat (map (pct_char S) s)"

subsection \<open>The path state\<close>

definition ascii_lower :: "char \<Rightarrow> char" where
  "ascii_lower c = (let n = of_char c in if 65 \<le> n \<and> n \<le> 90 then char_of (n + 32 :: nat) else c)"

lemma lower_code: "of_char (ascii_lower c) = (let n = of_char c :: nat in if 65 \<le> n \<and> n \<le> 90 then n + 32 else n)"
  by (simp add: ascii_lower_def Let_def char_of_mod_256)

definition single_dot :: "string \<Rightarrow> bool" where
  "single_dot s \<longleftrightarrow> map ascii_lower s \<in> set [''.'', ''%2e'']"

definition double_dot :: "string \<Rightarrow> bool" where
  "double_dot s \<longleftrightarrow> map ascii_lower s \<in> set [''..'', ''.%2e'', ''%2e.'', ''%2e%2e'']"

definition is_slash :: "char \<Rightarrow> bool" where
  "is_slash c \<longleftrightarrow> c = CHR ''/'' \<or> c = CHR 0x5C"

text \<open>What the path state does with its buffer at the end of a segment.\<close>

definition end_segment :: "bool \<Rightarrow> string list \<Rightarrow> string \<Rightarrow> string list" where
  "end_segment at_slash path buf =
     (if double_dot buf then (if at_slash then butlast path else butlast path @ [[]])
      else if single_dot buf then (if at_slash then path else path @ [[]])
      else path @ [buf])"

fun url_path :: "string list \<Rightarrow> string \<Rightarrow> string \<Rightarrow> string list \<times> string" where
  "url_path path buf [] = (end_segment False path buf, [])"
| "url_path path buf (c # cs) =
     (if is_slash c then url_path (end_segment True path buf) [] cs
      else if c = CHR ''?'' \<or> c = CHR ''#'' then (end_segment False path buf, c # cs)
      else url_path path (buf @ pct_char path_set c) cs)"

record url =
  origin :: string
  pathname :: string
  search :: string
  hash :: string

definition path_string :: "string list \<Rightarrow> string" where
  "path_string path = concat (map (\<lambda>seg. CHR ''/'' # seg) path)"

text \<open>A null and an empty query both read as the empty \<open>search\<close>; likewise for \<open>hash\<close>.\<close>

definition prefixed :: "char \<Rightarrow> string \<Rightarrow> string" where
  "prefixed c s = (if s = [] then [] else c # s)"

definition url_tail :: "string \<Rightarrow> string \<times> string" where
  "url_tail s =
     (let q = takeWhile (\<lambda>c. c \<noteq> CHR ''#'') s; f = dropWhile (\<lambda>c. c \<noteq> CHR ''#'') s
      in (if q = [] then [] else prefixed (CHR ''?'') (pct_encode special_query_set (tl q)),
          if f = [] then [] else prefixed (CHR ''#'') (pct_encode fragment_set (tl f))))"

definition url_after_origin :: "string \<Rightarrow> string \<Rightarrow> url" where
  "url_after_origin org s =
     (let (path, rest) = url_path [] [] s; (q, f) = url_tail rest
      in \<lparr>origin = org, pathname = path_string path, search = q, hash = f\<rparr>)"

lemma origin_url_after_origin [simp]: "origin (url_after_origin org s) = org"
  by (simp add: url_after_origin_def split: prod.splits)

subsection \<open>\<open>new URL(value, base)\<close> for a value that starts with a slash\<close>

definition c0_or_space :: "char \<Rightarrow> bool" where
  "c0_or_space c \<longleftrightarrow> of_char c \<le> (32::nat)"

definition url_clean :: "string \<Rightarrow> string" where
  "url_clean s =
     filter (\<lambda>c. c \<notin> set [CHR 0x09, CHR 0x0A, CHR 0x0D])
       (rev (dropWhile c0_or_space (rev (dropWhile c0_or_space s))))"

definition authority_end :: "char \<Rightarrow> bool" where
  "authority_end c \<longleftrightarrow> is_slash c \<or> c = CHR ''?'' \<or> c = CHR ''#''"

text \<open>
  After the clean-up, a second slash (or backslash) starts an authority, which the host parser
  turns into the origin of the result; otherwise the base's origin is kept and the path follows
  the first slash. \<^term>\<open>None\<close> is the \<open>TypeError\<close> of an invalid host. A reference that does not
  start with a slash is outside this function.
\<close>

definition url_parse_slash :: "(string \<Rightarrow> string option) \<Rightarrow> string \<Rightarrow> string \<Rightarrow> url option" where
  "url_parse_slash origin_of base value =
     (case url_clean value of
        [] \<Rightarrow> None
      | _ # s \<Rightarrow>
          if s \<noteq> [] \<and> is_slash (hd s) then
            (let t = dropWhile is_slash s;
                 auth = takeWhile (\<lambda>c. \<not> authority_end c) t;
                 rest = dropWhile (\<lambda>c. \<not> authority_end c) t
             in map_option (\<lambda>org. url_after_origin org
                  (if rest \<noteq> [] \<and> is_slash (hd rest) then tl rest else rest)) (origin_of auth))
          else Some (url_after_origin base s))"

subsection \<open>Form-urlencoded\<close>

definition form_safe :: "char \<Rightarrow> bool" where
  "form_safe c \<longleftrightarrow> (let n = of_char c :: nat in
     48 \<le> n \<and> n \<le> 57 \<or> 65 \<le> n \<and> n \<le> 90 \<or> 97 \<le> n \<and> n \<le> 122 \<or> c \<in> set ''*-._'')"

definition form_char :: "char \<Rightarrow> string" where
  "form_char c = (if c = CHR '' '' then ''+'' else if form_safe c then [c] else utf8_pct c)"

definition form_encode :: "string \<Rightarrow> string" where
  "form_encode s = concat (map form_char s)"

text \<open>\<open>URLSearchParams.prototype.toString\<close>.\<close>

definition params_string :: "(string \<times> string) list \<Rightarrow> string" where
  "params_string ps = join_with ''&'' (map (\<lambda>(k, v). form_encode k @ ''='' @ form_encode v) ps)"

definition hex_value :: "char \<Rightarrow> nat option" where
  "hex_value c = (let n = of_char c :: nat in
     if 48 \<le> n \<and> n \<le> 57 then Some (n - 48)
     else if 65 \<le> n \<and> n \<le> 70 then Some (n - 55)
     else if 97 \<le> n \<and> n \<le> 102 then Some (n - 87) else None)"

text \<open>
  Percent-decoding to bytes; \<open>+\<close> is a space. The UTF-8 decoding of the standard is the identity
  on ASCII bytes, the only ones the development decodes.
\<close>

fun form_decode :: "string \<Rightarrow> string" where
  "form_decode [] = []"
| "form_decode [c] = [if c = CHR ''+'' then CHR '' '' else c]"
| "form_decode [c, d] = (if c = CHR ''+'' then CHR '' '' else c) # form_decode [d]"
| "form_decode (c # d # e # cs) =
     (if c = CHR ''%'' then
        (case (hex_value d, hex_value e) of
           (Some h, Some l) \<Rightarrow> char_of (16 * h + l) # form_decode cs
         | _ \<Rightarrow> c # form_decode (d # e # cs))
      else (if c = CHR ''+'' then CHR '' '' else c) # form_decode (d # e # cs))"

definition parse_pair :: "string \<Rightarrow> string \<times> string" where
  "parse_pair s = (form_decode (takeWhile (\<lambda>c. c \<noteq> CHR ''='') s),
                   form_decode (tl (dropWhile (\<lambda>c. c \<noteq> CHR ''='') s)))"

definition params_parse :: "string \<Rightarrow> (string \<times> string) list" where
  "params_parse s = map parse_pair (filter (\<lambda>p. p \<noteq> []) (split_on (CHR ''&'') s))"

text \<open>\<open>searchParams.get(k)\<close>: the first pair with that name, else null.\<close>

definition params_get :: "(string \<times> string) list \<Rightarrow> string \<Rightarrow> string option" where
  "params_get ps k = map_of ps k"

subsection \<open>What the path state produces\<close>

definition ascii :: "string \<Rightarrow> bool" where
  "ascii s \<longleftrightarrow> (\<forall>c \<in> set s. of_char c < (128::nat))"

text \<open>A character that survives a second parse unchanged, inside a path segment.\<close>

definition plain_char :: "char \<Rightarrow> bool" where
  "plain_char c \<longleftrightarrow> \<not> path_set c \<and> \<not> is_slash c"

definition clean_seg :: "string \<Rightarrow> bool" where
  "clean_seg s \<longleftrightarrow> (\<forall>c \<in> set s. plain_char c) \<and> \<not> single_dot s \<and> \<not> double_dot s"

lemma hex_digit_cases:
  "n < 16 \<Longrightarrow> hex_digit n \<in> set ''0123456789ABCDEF''"
  unfolding hex_digit_def by (rule nth_mem) simp

lemma plain_hex: "c \<in> set ''0123456789ABCDEF'' \<Longrightarrow> plain_char c"
  by (auto simp: plain_char_def path_set_def is_slash_def)

lemma plain_pct_byte: "c \<in> set (pct_byte b) \<Longrightarrow> plain_char c"
proof -
  assume "c \<in> set (pct_byte b)"
  then have "c = CHR ''%'' \<or> c = hex_digit (b div 16 mod 16) \<or> c = hex_digit (b mod 16)"
    by (simp only: pct_byte_def) simp
  moreover have "plain_char (CHR ''%'')" by (simp add: plain_char_def path_set_def is_slash_def)
  moreover have "plain_char (hex_digit (k mod 16))" for k
    by (rule plain_hex) (rule hex_digit_cases, simp)
  ultimately show ?thesis by blast
qed

lemma plain_pct_char:
  "\<not> is_slash c \<Longrightarrow> d \<in> set (pct_char path_set c) \<Longrightarrow> plain_char d"
  by (auto simp: pct_char_def utf8_pct_def Let_def plain_char_def dest!: plain_pct_byte split: if_splits)

lemma plain_char_id: "plain_char c \<Longrightarrow> pct_char path_set c = [c]"
  by (simp add: plain_char_def pct_char_def)

lemma not_path_set_delims: "path_set (CHR ''?'')" "path_set (CHR ''#'')"
  by (simp_all add: path_set_def)

lemma plain_not_delim: "plain_char c \<Longrightarrow> c \<noteq> CHR ''?'' \<and> c \<noteq> CHR ''#'' \<and> \<not> is_slash c"
  using not_path_set_delims by (auto simp: plain_char_def)

lemma clean_seg_Nil [simp]: "clean_seg []"
  by (simp add: clean_seg_def single_dot_def double_dot_def)

lemma clean_end_segment:
  assumes path: "\<forall>s \<in> set path. clean_seg s" and buf: "\<forall>c \<in> set buf. plain_char c"
  shows "\<forall>s \<in> set (end_segment b path buf). clean_seg s"
proof -
  have "\<forall>s \<in> set (butlast path). clean_seg s" using path by (blast dest: in_set_butlastD)
  moreover have "clean_seg buf" if "\<not> single_dot buf" "\<not> double_dot buf"
    using that buf by (simp add: clean_seg_def)
  ultimately show ?thesis using path by (simp add: end_segment_def)
qed

lemma end_segment_not_Nil: "end_segment False path buf \<noteq> []"
  by (simp add: end_segment_def)

lemma clean_url_path:
  "\<forall>s \<in> set path. clean_seg s \<Longrightarrow> \<forall>c \<in> set buf. plain_char c \<Longrightarrow>
   \<forall>s \<in> set (fst (url_path path buf cs)). clean_seg s"
proof (induction path buf cs rule: url_path.induct)
  case (1 path buf)
  then show ?case by (simp add: clean_end_segment)
next
  case (2 path buf c cs)
  have seg: "\<forall>s \<in> set (end_segment b path buf). clean_seg s" for b
    by (rule clean_end_segment [OF 2(3) 2(4)])
  show ?case
  proof (cases "is_slash c")
    case True
    then show ?thesis using 2(1) [OF True seg] by simp
  next
    case slash: False
    show ?thesis
    proof (cases "c = CHR ''?'' \<or> c = CHR ''#''")
      case True
      then show ?thesis using slash seg by simp
    next
      case False
      have "\<forall>d \<in> set (buf @ pct_char path_set c). plain_char d"
        using 2(4) plain_pct_char [OF slash] by auto
      then show ?thesis using 2(2) [OF slash False 2(3)] slash False by simp
    qed
  qed
qed

lemma url_path_not_Nil: "fst (url_path path buf cs) \<noteq> []"
  by (induction path buf cs rule: url_path.induct) (auto simp: end_segment_not_Nil)

text \<open>A clean segment is read back as it is, up to the next slash, question mark, hash or the end.\<close>

lemma url_path_plain:
  "\<forall>c \<in> set w. plain_char c \<Longrightarrow> url_path path buf (w @ cs) = url_path path (buf @ w) cs"
  by (induction w arbitrary: buf) (auto simp: plain_not_delim plain_char_id)

definition at_end :: "string \<Rightarrow> bool" where
  "at_end cs \<longleftrightarrow> cs = [] \<or> hd cs = CHR ''?'' \<or> hd cs = CHR ''#''"

lemma url_path_at_end: "at_end cs \<Longrightarrow> url_path path buf cs = (end_segment False path buf, cs)"
  by (cases cs) (auto simp: at_end_def is_slash_def)

lemma end_segment_clean: "clean_seg buf \<Longrightarrow> end_segment b path buf = path @ [buf]"
  by (simp add: end_segment_def clean_seg_def)

lemma url_path_segments:
  assumes "segs \<noteq> []" and "\<forall>s \<in> set segs. clean_seg s" and "at_end cs"
  shows "url_path path [] (tl (path_string segs) @ cs) = (path @ segs, cs)"
  using assms
proof (induction segs arbitrary: path)
  case (Cons s segs)
  have plain: "\<forall>c \<in> set s. plain_char c" using Cons.prems by (simp add: clean_seg_def)
  show ?case
  proof (cases segs)
    case Nil
    then show ?thesis
      using Cons.prems plain
      by (simp add: path_string_def url_path_plain url_path_at_end end_segment_clean)
  next
    case (Cons s' segs')
    have tl: "tl (path_string (s # segs)) = s @ CHR ''/'' # tl (path_string segs)"
      by (simp add: path_string_def Cons)
    have "url_path path [] (tl (path_string (s # segs)) @ cs)
        = url_path (path @ [s]) [] (tl (path_string segs) @ cs)"
      unfolding tl using Cons.prems plain
      by (simp add: url_path_plain is_slash_def end_segment_clean)
    also have "\<dots> = (path @ s # segs, cs)"
      using Cons.IH [of "path @ [s]"] Cons.prems Cons by simp
    finally show ?thesis .
  qed
qed simp

subsection \<open>Form-urlencoded round trip\<close>

lemma form_decode_Cons:
  "c \<noteq> CHR ''%'' \<Longrightarrow> form_decode (c # cs) = (if c = CHR ''+'' then CHR '' '' else c) # form_decode cs"
  by (cases cs; cases "tl cs") auto

lemma less_16_cases:
  "(\<And>n. n \<in> set [0..<16] \<Longrightarrow> P n) \<Longrightarrow> n < (16::nat) \<Longrightarrow> P n"
  by simp

lemma hex_value_digit: "n < 16 \<Longrightarrow> hex_value (hex_digit n) = Some n"
proof (rule less_16_cases [where P = "\<lambda>n. hex_value (hex_digit n) = Some n"])
  have "\<forall>n \<in> set [0..<16]. hex_value (hex_digit n) = Some n" by code_simp
  then show "\<And>n. n \<in> set [0..<16] \<Longrightarrow> hex_value (hex_digit n) = Some n" by blast
qed

lemma form_decode_pct:
  "b < 256 \<Longrightarrow> form_decode (pct_byte b @ cs) = char_of b # form_decode cs"
  by (simp add: pct_byte_def hex_value_digit mult_div_mod_eq)

lemma utf8_pct_ascii: "of_char c < (128::nat) \<Longrightarrow> utf8_pct c = pct_byte (of_char c)"
  by (simp add: utf8_pct_def Let_def)

lemma form_safe_plain: "form_safe c \<Longrightarrow> c \<noteq> CHR ''%'' \<and> c \<noteq> CHR ''+'' \<and> c \<noteq> CHR ''&'' \<and> c \<noteq> CHR ''=''"
  by (auto simp: form_safe_def)

lemma form_decode_char:
  "of_char c < (128::nat) \<Longrightarrow> form_decode (form_char c @ cs) = c # form_decode cs"
  using form_safe_plain [of c]
  by (cases "form_safe c") (simp_all add: form_char_def form_decode_Cons utf8_pct_ascii form_decode_pct)

lemma form_decode_encode: "ascii s \<Longrightarrow> form_decode (form_encode s) = s"
  by (induction s) (simp_all add: form_encode_def ascii_def form_decode_char)

lemma pct_byte_digit: "c \<in> set (pct_byte b) \<Longrightarrow> c \<in> set ''%0123456789ABCDEF''"
proof -
  assume "c \<in> set (pct_byte b)"
  then have "c = CHR ''%'' \<or> c = hex_digit (b div 16 mod 16) \<or> c = hex_digit (b mod 16)"
    by (simp only: pct_byte_def) simp
  moreover have "hex_digit (k mod 16) \<in> set ''0123456789ABCDEF''" for k
    by (rule hex_digit_cases) simp
  ultimately show ?thesis by (metis list.set_intros)
qed

lemma utf8_pct_digit: "c \<in> set (utf8_pct d) \<Longrightarrow> c \<in> set ''%0123456789ABCDEF''"
  unfolding utf8_pct_def Let_def by (auto split: if_splits dest: pct_byte_digit simp del: list.set)

lemma digit_not_sep: "c \<in> set ''%0123456789ABCDEF'' \<Longrightarrow> c \<noteq> CHR ''&'' \<and> c \<noteq> CHR ''=''"
  by auto

lemma form_encode_no_sep: "c \<in> set (form_encode s) \<Longrightarrow> c \<noteq> CHR ''&'' \<and> c \<noteq> CHR ''=''"
proof -
  assume "c \<in> set (form_encode s)"
  then obtain d where "c \<in> set (form_char d)" by (auto simp: form_encode_def)
  then consider "c = CHR ''+''" | "c = d" "form_safe d" | "c \<in> set (utf8_pct d)"
    by (auto simp: form_char_def split: if_splits)
  then show ?thesis
    by cases (use form_safe_plain utf8_pct_digit digit_not_sep in auto)
qed

text \<open>What \<open>toString\<close> writes, the parser reads back: the pairs, in order.\<close>

lemma parse_pair_string:
  assumes "ascii k" "ascii v"
  shows "parse_pair (form_encode k @ CHR ''='' # form_encode v) = (k, v)"
proof -
  have "\<forall>c \<in> set (form_encode k). c \<noteq> CHR ''=''" using form_encode_no_sep by blast
  then show ?thesis using assms by (simp add: parse_pair_def form_decode_encode)
qed

lemma params_parse_string:
  assumes "\<forall>(k, v) \<in> set ps. ascii k \<and> ascii v" and "ps \<noteq> []"
  shows "params_parse (params_string ps) = ps"
proof -
  let ?w = "\<lambda>(k, v). form_encode k @ ''='' @ form_encode v"
  have "\<forall>w \<in> set (map ?w ps). CHR ''&'' \<notin> set w"
    using form_encode_no_sep by fastforce
  then have "split_on (CHR ''&'') (params_string ps) = map ?w ps"
    unfolding params_string_def using assms(2) by (intro split_join) simp_all
  moreover have "filter (\<lambda>p. p \<noteq> []) (map ?w ps) = map ?w ps"
    by (induction ps) auto
  moreover have "map parse_pair (map ?w ps) = ps"
    using assms(1) by (intro nth_equalityI) (auto simp: parse_pair_string split: prod.splits dest!: nth_mem)
  ultimately show ?thesis by (simp only: params_parse_def)
qed

end
