(* ===== verification/Js_Json.thy ===== *)
theory Js_Json
  imports Prelude
begin

section \<open>\<open>JSON.stringify\<close>\<close>

text \<open>
  The serialisation of the values of \<open>Prelude\<close>: the request bodies of the API client and the
  integration secrets are built with it. An undefined value has no serialisation; it is dropped
  from an object and written \<open>null\<close> in an array. \<open>json_chars\<close> reads the rest of a string
  literal back: it is the receiver's side of the round trips and models no file of the repository.
\<close>

definition quote_char :: char where "quote_char = CHR 0x22"
definition backslash :: char where "backslash = CHR 0x5C"

definition hex_lower :: "nat \<Rightarrow> char" where
  "hex_lower n = ''0123456789abcdef'' ! n"

definition json_escape :: "char \<Rightarrow> string" where
  "json_escape c =
     (if c = quote_char \<or> c = backslash then [backslash, c]
      else if c = CHR 0x08 then [backslash, CHR ''b'']
      else if c = CHR 0x09 then [backslash, CHR ''t'']
      else if c = CHR 0x0A then [backslash, CHR ''n'']
      else if c = CHR 0x0C then [backslash, CHR ''f'']
      else if c = CHR 0x0D then [backslash, CHR ''r'']
      else (let n = of_char c :: nat in
            if n < 32 then [backslash, CHR ''u'', CHR ''0'', CHR ''0'', hex_lower (n div 16), hex_lower (n mod 16)]
            else [c]))"

definition json_quote :: "string \<Rightarrow> string" where
  "json_quote s = quote_char # concat (map json_escape s) @ [quote_char]"

fun nat_string :: "nat \<Rightarrow> string" where
  "nat_string n = (if n < 10 then [hex_lower n] else nat_string (n div 10) @ [hex_lower (n mod 10)])"

declare nat_string.simps [simp del]

definition int_string :: "int \<Rightarrow> string" where
  "int_string i = (if i < 0 then CHR ''-'' # nat_string (nat (- i)) else nat_string (nat i))"

text \<open>A number with a fraction, in plain notation (\<open>k\<close> decimals).\<close>

definition decimal_text :: "int \<Rightarrow> nat \<Rightarrow> string" where
  "decimal_text m k =
     (let n = nat \<bar>m\<bar>; frac = nat_string (n mod 10 ^ k)
      in (if m < 0 then ''-'' else []) @ nat_string (n div 10 ^ k) @ ''.'' @ replicate (k - length frac) (CHR ''0'') @ frac)"

definition the_text :: "string option \<Rightarrow> string" where
  "the_text t = (case t of None \<Rightarrow> ''null'' | Some s \<Rightarrow> s)"

fun json_text :: "jsval \<Rightarrow> string option" where
  "json_text Undefined = None"
| "json_text Null = Some ''null''"
| "json_text (Bool b) = Some (if b then ''true'' else ''false'')"
| "json_text (Num i) = Some (int_string i)"
| "json_text (Dec m k) = Some (decimal_text m k)"
| "json_text (Str s) = Some (json_quote s)"
| "json_text (Arr vs) = Some (''['' @ join_with '','' (map (\<lambda>v. the_text (json_text v)) vs) @ '']'')"
| "json_text (Obj ps) =
     Some (''{'' @ join_with '',''
       (concat (map (\<lambda>(k, v). case json_text v of None \<Rightarrow> [] | Some t \<Rightarrow> [json_quote k @ '':'' @ t]) ps)) @ ''}'')"

text \<open>\<open>String(v)\<close>, the conversion the \<open>Error\<close> constructor applies to its message.\<close>

fun to_string :: "jsval \<Rightarrow> string" where
  "to_string Undefined = ''undefined''"
| "to_string Null = ''null''"
| "to_string (Bool b) = (if b then ''true'' else ''false'')"
| "to_string (Num i) = int_string i"
| "to_string (Dec m k) = decimal_text m k"
| "to_string (Str s) = s"
| "to_string (Arr vs) = join_with '','' (map (\<lambda>v. if nullish v then [] else to_string v) vs)"
| "to_string (Obj _) = ''[object Object]''"

subsection \<open>Reading string literals back\<close>

definition json_hex :: "char \<Rightarrow> nat option" where
  "json_hex c = (let n = of_char c :: nat in
     if 48 \<le> n \<and> n \<le> 57 then Some (n - 48) else if 97 \<le> n \<and> n \<le> 102 then Some (n - 87) else None)"

fun json_chars :: "string \<Rightarrow> (string \<times> string) option" where
  "json_chars [] = None"
| "json_chars (c # cs) =
     (if c = quote_char then Some ([], cs)
      else if c = backslash then
        (case cs of
           d # ds \<Rightarrow>
             (if d = quote_char \<or> d = backslash then map_option (apfst (Cons d)) (json_chars ds)
              else if d = CHR ''b'' then map_option (apfst (Cons (CHR 0x08))) (json_chars ds)
              else if d = CHR ''t'' then map_option (apfst (Cons (CHR 0x09))) (json_chars ds)
              else if d = CHR ''n'' then map_option (apfst (Cons (CHR 0x0A))) (json_chars ds)
              else if d = CHR ''f'' then map_option (apfst (Cons (CHR 0x0C))) (json_chars ds)
              else if d = CHR ''r'' then map_option (apfst (Cons (CHR 0x0D))) (json_chars ds)
              else (case ds of
                 z1 # z2 # h # l # es \<Rightarrow>
                   if d = CHR ''u'' then
                     (case (json_hex h, json_hex l) of
                        (Some a, Some b) \<Rightarrow> map_option (apfst (Cons (char_of (16 * a + b)))) (json_chars es)
                      | _ \<Rightarrow> None)
                   else None
               | _ \<Rightarrow> None))
         | [] \<Rightarrow> None)
      else map_option (apfst (Cons c)) (json_chars cs))"


lemma json_hex_lower: "n < 16 \<Longrightarrow> json_hex (hex_lower n) = Some n"
proof -
  have "\<forall>n \<in> set [0..<16]. json_hex (hex_lower n) = Some n" by code_simp
  then show "n < 16 \<Longrightarrow> json_hex (hex_lower n) = Some n" by simp
qed

lemma json_chars_escape:
  "json_chars (json_escape c @ cs) = map_option (apfst (Cons c)) (json_chars cs)"
proof -
  let ?special = "c = quote_char \<or> c = backslash \<or> c = CHR 0x08 \<or> c = CHR 0x09 \<or> c = CHR 0x0A \<or> c = CHR 0x0C \<or> c = CHR 0x0D"
  show ?thesis
  proof (cases ?special)
    case True
    then show ?thesis by (elim disjE) (simp_all add: json_escape_def quote_char_def backslash_def)
  next
    case plain: False
    show ?thesis
    proof (cases "of_char c < (32::nat)")
      case True
      let ?n = "of_char c :: nat"
      have "json_escape c = [backslash, CHR ''u'', CHR ''0'', CHR ''0'', hex_lower (?n div 16), hex_lower (?n mod 16)]"
        using plain True by (simp add: json_escape_def Let_def)
      moreover have "json_hex (hex_lower (?n div 16)) = Some (?n div 16)"
        using True by (intro json_hex_lower) simp
      moreover have "json_hex (hex_lower (?n mod 16)) = Some (?n mod 16)"
        by (intro json_hex_lower) simp
      ultimately show ?thesis
        by (simp add: quote_char_def backslash_def mult_div_mod_eq)
    next
      case False
      then show ?thesis using plain by (simp add: json_escape_def)
    qed
  qed
qed

lemma json_chars_quote:
  "json_chars (concat (map json_escape s) @ quote_char # rest) = Some (s, rest)"
  by (induction s) (simp_all add: json_chars_escape)

text \<open>Quoted strings are a prefix code: the string and what follows it can be told apart.\<close>

lemma json_quote_append: "json_quote s @ rest = quote_char # concat (map json_escape s) @ quote_char # rest"
  by (simp add: json_quote_def)

lemma json_quote_inj: "json_quote a @ x = json_quote b @ y \<longleftrightarrow> a = b \<and> x = y"
proof
  assume "json_quote a @ x = json_quote b @ y"
  then have "json_chars (concat (map json_escape a) @ quote_char # x) = json_chars (concat (map json_escape b) @ quote_char # y)"
    by (simp add: json_quote_append)
  then show "a = b \<and> x = y" by (simp add: json_chars_quote)
qed simp

end
