(* ===== verification/Query_Cache.thy ===== *)
theory Query_Cache
  imports Api_Types Js_Url Js_Json
begin

section \<open>Queries, mutations and the cache (\<open>lib/query\<close>, \<open>lib/hooks\<close>, \<open>hooks\<close>)\<close>

text \<open>
  Every hook is a list of queries (key, request path, whether it runs) and mutations (method, path,
  body, and the keys it invalidates on success). The query library keys its cache by these keys:
  two mounted queries with equal keys share one result, and an invalidation marks every cached
  query whose key the given one matches. Identifiers are the strings the components pass.
\<close>

type_synonym query_key = "jsval list"

definition nullable :: "string option \<Rightarrow> jsval" where
  "nullable v = (case v of None \<Rightarrow> Null | Some s \<Rightarrow> Str s)"

definition truthy_text :: "string option \<Rightarrow> bool" where
  "truthy_text v \<longleftrightarrow> v \<noteq> None \<and> v \<noteq> Some []"

text \<open>The defaults of the query client (\<open>lib/query/client.ts\<close>): how long a result counts as fresh, in
  milliseconds, and whether a focused window asks again.\<close>

record query_defaults =
  qd_staleTime :: int
  qd_refetchOnWindowFocus :: bool

definition createQueryClient :: query_defaults where
  "createQueryClient = \<lparr>qd_staleTime = 30000, qd_refetchOnWindowFocus = False\<rparr>"

text \<open>\<open>queryKeys\<close> (\<open>lib/query/keys.ts\<close>), one function per entry.\<close>

definition key_session :: query_key where "key_session = [Str ''session'']"
definition key_status :: query_key where "key_status = [Str ''status'']"
definition key_repos :: query_key where "key_repos = [Str ''repos'']"
definition key_integrations :: query_key where "key_integrations = [Str ''integrations'']"
definition key_ticketProjects :: "string option \<Rightarrow> query_key" where
  "key_ticketProjects integrationId = [Str ''ticket-projects'', nullable integrationId]"
definition key_notificationTargets :: query_key where "key_notificationTargets = [Str ''notification-targets'']"
definition key_settings :: query_key where "key_settings = [Str ''settings'']"
definition key_users :: query_key where "key_users = [Str ''users'']"
definition key_invitations :: query_key where "key_invitations = [Str ''invitations'']"

definition opt_entry :: "string \<Rightarrow> int option \<Rightarrow> (string \<times> jsval) list" where
  "opt_entry k v = (case v of None \<Rightarrow> [] | Some n \<Rightarrow> [(k, Num n)])"

definition key_pollRuns :: "poll_runs_params option \<Rightarrow> query_key" where
  "key_pollRuns params =
     [Str ''poll-runs'',
      Obj (case params of None \<Rightarrow> []
           | Some p \<Rightarrow> opt_entry ''limit'' (prp_limit p) @ opt_entry ''offset'' (prp_offset p))]"

definition key_pollRun :: "string \<Rightarrow> query_key" where "key_pollRun run_id = [Str ''poll-run'', Str run_id]"

definition key_ticketMetadata :: "string option \<Rightarrow> string \<Rightarrow> string option \<Rightarrow> query_key" where
  "key_ticketMetadata integrationId resource scope =
     [Str ''ticket-metadata'', nullable integrationId, Str resource, nullable scope]"

subsection \<open>Request paths\<close>

text \<open>\<open>encodeURIComponent\<close>.\<close>

definition uri_safe :: "char \<Rightarrow> bool" where
  "uri_safe c \<longleftrightarrow> (let n = of_char c :: nat in
     48 \<le> n \<and> n \<le> 57 \<or> 65 \<le> n \<and> n \<le> 90 \<or> 97 \<le> n \<and> n \<le> 122 \<or>
     c \<in> set [CHR ''-'', CHR ''_'', CHR ''.'', CHR ''!'', CHR ''~'', CHR ''*'', CHR 0x27, CHR ''('', CHR '')''])"

definition encodeURIComponent :: "string \<Rightarrow> string" where
  "encodeURIComponent s = pct_encode (\<lambda>c. \<not> uri_safe c) s"

definition ticketProjectsPath :: "string option \<Rightarrow> string" where
  "ticketProjectsPath integrationId =
     (if truthy_text integrationId then ''/ticket-projects?integrationId='' @ encodeURIComponent (the integrationId)
      else ''/ticket-projects'')"

definition pollRunsPath :: "poll_runs_params option \<Rightarrow> string" where
  "pollRunsPath params =
     (let ps = (case Option.bind params prp_limit of None \<Rightarrow> [] | Some n \<Rightarrow> [(''limit'', int_string n)]) @
               (case Option.bind params prp_offset of None \<Rightarrow> [] | Some n \<Rightarrow> [(''offset'', int_string n)]);
          query = params_string ps
      in if query \<noteq> [] then ''/poll/runs?'' @ query else ''/poll/runs'')"

text \<open>A template literal with a nullable string in it.\<close>

definition shown :: "string option \<Rightarrow> string" where
  "shown v = (case v of None \<Rightarrow> ''null'' | Some s \<Rightarrow> s)"

definition scoped_path :: "string option \<Rightarrow> string \<Rightarrow> string \<Rightarrow> string option \<Rightarrow> string" where
  "scoped_path integrationId resource param scope =
     (let query = params_string (if truthy_text scope then [(param, the scope)] else [])
      in ''/integrations/'' @ shown integrationId @ ''/ticket-metadata/'' @ resource @
         (if query \<noteq> [] then ''?'' @ query else []))"

definition metadataEnabled :: "string option \<Rightarrow> bool \<Rightarrow> bool" where
  "metadataEnabled integrationId enabled \<longleftrightarrow> enabled \<and> truthy_text integrationId"

record query_use =
  qu_key :: query_key
  qu_path :: string
  qu_enabled :: bool

definition useSession where "useSession = \<lparr>qu_key = key_session, qu_path = ''/auth/session'', qu_enabled = True\<rparr>"
definition useStatus where "useStatus = \<lparr>qu_key = key_status, qu_path = ''/status'', qu_enabled = True\<rparr>"
definition useRepos_list where "useRepos_list = \<lparr>qu_key = key_repos, qu_path = ''/repos'', qu_enabled = True\<rparr>"
definition useIntegrations_list where
  "useIntegrations_list = \<lparr>qu_key = key_integrations, qu_path = ''/integrations'', qu_enabled = True\<rparr>"
definition useNotificationTargets_list where
  "useNotificationTargets_list = \<lparr>qu_key = key_notificationTargets, qu_path = ''/notification-targets'', qu_enabled = True\<rparr>"
definition useSettings_query where "useSettings_query = \<lparr>qu_key = key_settings, qu_path = ''/settings'', qu_enabled = True\<rparr>"
definition useUsers_list where "useUsers_list = \<lparr>qu_key = key_users, qu_path = ''/users'', qu_enabled = True\<rparr>"
definition useInvitations_list where
  "useInvitations_list = \<lparr>qu_key = key_invitations, qu_path = ''/users/invitations'', qu_enabled = True\<rparr>"
definition useTicketProjects_list where
  "useTicketProjects_list integrationId =
     \<lparr>qu_key = key_ticketProjects integrationId, qu_path = ticketProjectsPath integrationId, qu_enabled = True\<rparr>"
definition usePollRuns where
  "usePollRuns params = \<lparr>qu_key = key_pollRuns params, qu_path = pollRunsPath params, qu_enabled = True\<rparr>"
definition usePollRun where
  "usePollRun run_id = \<lparr>qu_key = key_pollRun (case run_id of None \<Rightarrow> [] | Some r \<Rightarrow> r),
     qu_path = ''/poll/runs/'' @ (case run_id of None \<Rightarrow> ''undefined'' | Some r \<Rightarrow> r), qu_enabled = truthy_text run_id\<rparr>"

definition useTicketMetadataWorkspaces where
  "useTicketMetadataWorkspaces integrationId enabled =
     \<lparr>qu_key = key_ticketMetadata integrationId ''workspaces'' None,
      qu_path = ''/integrations/'' @ shown integrationId @ ''/ticket-metadata/workspaces'',
      qu_enabled = metadataEnabled integrationId enabled\<rparr>"
definition useTicketMetadataProjects where
  "useTicketMetadataProjects integrationId workspaceId enabled =
     \<lparr>qu_key = key_ticketMetadata integrationId ''projects'' workspaceId,
      qu_path = scoped_path integrationId ''projects'' ''workspaceId'' workspaceId,
      qu_enabled = metadataEnabled integrationId enabled\<rparr>"
definition useTicketMetadataStatuses where
  "useTicketMetadataStatuses integrationId externalProjectId enabled =
     \<lparr>qu_key = key_ticketMetadata integrationId ''statuses'' externalProjectId,
      qu_path = scoped_path integrationId ''statuses'' ''externalProjectId'' externalProjectId,
      qu_enabled = (metadataEnabled integrationId enabled \<and> truthy_text externalProjectId)\<rparr>"
definition useTicketMetadataPriorities where
  "useTicketMetadataPriorities integrationId externalProjectId enabled =
     \<lparr>qu_key = key_ticketMetadata integrationId ''priorities'' externalProjectId,
      qu_path = scoped_path integrationId ''priorities'' ''externalProjectId'' externalProjectId,
      qu_enabled = (metadataEnabled integrationId enabled \<and> truthy_text externalProjectId)\<rparr>"
definition useTicketMetadataIssueTypes where
  "useTicketMetadataIssueTypes integrationId externalProjectId enabled =
     \<lparr>qu_key = key_ticketMetadata integrationId ''issue-types'' externalProjectId,
      qu_path = scoped_path integrationId ''issue-types'' ''externalProjectId'' externalProjectId,
      qu_enabled = (metadataEnabled integrationId enabled \<and> truthy_text externalProjectId)\<rparr>"


subsection \<open>Mutations\<close>

record mutation =
  mu_method :: string
  mu_path :: string
  mu_body :: jsval
  mu_invalidates :: "query_key list"

definition post_m where "post_m pth body ks = \<lparr>mu_method = ''POST'', mu_path = pth, mu_body = body, mu_invalidates = ks\<rparr>"
definition patch_m where "patch_m pth body ks = \<lparr>mu_method = ''PATCH'', mu_path = pth, mu_body = body, mu_invalidates = ks\<rparr>"
definition delete_m where "delete_m pth ks = \<lparr>mu_method = ''DELETE'', mu_path = pth, mu_body = Undefined, mu_invalidates = ks\<rparr>"

definition useLogin where "useLogin input = post_m ''/auth/login'' input [key_session]"
definition useTriggerPoll where "useTriggerPoll = post_m ''/poll/trigger'' Undefined [[Str ''poll-runs''], key_status]"

definition createRepo where "createRepo input = post_m ''/repos'' input [key_repos, key_status]"
definition updateRepo where "updateRepo rid input = patch_m (''/repos/'' @ rid) input [key_repos, key_status]"
definition deleteRepo where "deleteRepo rid = delete_m (''/repos/'' @ rid) [key_repos, key_status]"

definition createIntegration where "createIntegration input = post_m ''/integrations'' input [key_integrations]"
definition updateIntegration where "updateIntegration iid input = patch_m (''/integrations/'' @ iid) input [key_integrations]"
definition deleteIntegration where "deleteIntegration iid = delete_m (''/integrations/'' @ iid) [key_integrations]"
definition testIntegration where "testIntegration iid = post_m (''/integrations/'' @ iid @ ''/test'') Undefined []"

definition createNotificationTarget where
  "createNotificationTarget input = post_m ''/notification-targets'' input [key_notificationTargets]"
definition updateNotificationTarget where
  "updateNotificationTarget nid input = patch_m (''/notification-targets/'' @ nid) input [key_notificationTargets]"
definition deleteNotificationTarget where
  "deleteNotificationTarget nid = delete_m (''/notification-targets/'' @ nid) [key_notificationTargets]"
definition testNotificationTarget where
  "testNotificationTarget nid = post_m (''/notification-targets/'' @ nid @ ''/test'') Undefined []"

definition createTicketProject where
  "createTicketProject input = post_m ''/ticket-projects'' input [[Str ''ticket-projects''], key_status]"
definition updateTicketProject where
  "updateTicketProject pid input = patch_m (''/ticket-projects/'' @ pid) input [[Str ''ticket-projects''], key_status]"
definition deleteTicketProject where
  "deleteTicketProject pid = delete_m (''/ticket-projects/'' @ pid) [[Str ''ticket-projects''], key_status]"

definition updateSettings where "updateSettings input = patch_m ''/settings'' input [key_settings, key_status]"
definition deleteUser where "deleteUser uid = delete_m (''/users/'' @ uid) [key_users]"
definition createInvitation where "createInvitation input = post_m ''/users/invitations'' input [key_invitations]"
definition revokeInvitation where "revokeInvitation iid = delete_m (''/users/invitations/'' @ iid) [key_invitations]"
definition sendInvitationEmail where
  "sendInvitationEmail iid = post_m (''/users/invitations/'' @ iid @ ''/send-email'') Undefined [key_invitations]"
definition requestEmailChange where "requestEmailChange input = post_m ''/users/me/email-change-request'' input []"
definition changePassword where "changePassword input = post_m ''/users/me/password-change'' input []"

lemmas mutation_simps = post_m_def patch_m_def delete_m_def useLogin_def useTriggerPoll_def createRepo_def
  updateRepo_def deleteRepo_def createIntegration_def updateIntegration_def deleteIntegration_def
  createNotificationTarget_def updateNotificationTarget_def deleteNotificationTarget_def
  createTicketProject_def updateTicketProject_def deleteTicketProject_def updateSettings_def
  deleteUser_def createInvitation_def revokeInvitation_def sendInvitationEmail_def

lemmas query_simps = useSession_def useStatus_def useRepos_list_def useIntegrations_list_def
  useNotificationTargets_list_def useSettings_query_def useUsers_list_def useInvitations_list_def
  useTicketProjects_list_def usePollRuns_def usePollRun_def useTicketMetadataWorkspaces_def
  useTicketMetadataProjects_def useTicketMetadataStatuses_def useTicketMetadataPriorities_def
  useTicketMetadataIssueTypes_def

lemmas key_simps = key_session_def key_status_def key_repos_def key_integrations_def key_ticketProjects_def
  key_notificationTargets_def key_settings_def key_users_def key_invitations_def key_pollRuns_def
  key_pollRun_def key_ticketMetadata_def

subsection \<open>The cache stays fresh\<close>

text \<open>
  The query library is outside the repository; the code relies on its documented rule that a
  partial key matches every key it is a prefix of. \<open>matches key pattern\<close> is that test.
\<close>

locale query_client =
  fixes matches :: "query_key \<Rightarrow> query_key \<Rightarrow> bool"
  assumes prefix_matches: "matches (pattern @ rest) pattern"
begin

definition refetches :: "mutation \<Rightarrow> query_use \<Rightarrow> bool" where
  "refetches m q \<longleftrightarrow> list_ex (matches (qu_key q)) (mu_invalidates m)"

lemma refetches_prefix: "pattern \<in> set (mu_invalidates m) \<Longrightarrow> qu_key q = pattern @ rest \<Longrightarrow> refetches m q"
  unfolding refetches_def list_ex_iff using prefix_matches by metis

end

interpretation prefix_client: query_client "\<lambda>key pattern. prefix pattern key"
  by unfold_locales simp

text \<open>The list a mutation changes, for any cache that matches keys by \<open>matches\<close>.\<close>

definition refreshes :: "(query_key \<Rightarrow> query_key \<Rightarrow> bool) \<Rightarrow> mutation \<Rightarrow> query_use list \<Rightarrow> bool" where
  "refreshes matches m qs \<longleftrightarrow> list_all (\<lambda>q. list_ex (matches (qu_key q)) (mu_invalidates m)) qs"

text \<open>After every successful create, update and delete the cached lists that show the changed
  rows are refetched, whatever their parameters: the ticket projects of every integration filter,
  every page of the poll runs, and the status page after changes to repositories, ticket projects
  and settings.\<close>

theorem mutations_refresh_lists:
  assumes "\<And>pattern rest. matches (pattern @ rest) pattern"
  shows "list_all (\<lambda>m. refreshes matches m [useRepos_list, useStatus])
           [createRepo input, updateRepo i input, deleteRepo i] \<and>
         list_all (\<lambda>m. refreshes matches m [useTicketProjects_list filter_id, useStatus])
           [createTicketProject input, updateTicketProject i input, deleteTicketProject i] \<and>
         list_all (\<lambda>m. refreshes matches m [useIntegrations_list])
           [createIntegration input, updateIntegration i input, deleteIntegration i] \<and>
         list_all (\<lambda>m. refreshes matches m [useNotificationTargets_list])
           [createNotificationTarget input, updateNotificationTarget i input, deleteNotificationTarget i] \<and>
         list_all (\<lambda>m. refreshes matches m [useInvitations_list])
           [createInvitation input, revokeInvitation i, sendInvitationEmail i] \<and>
         refreshes matches (deleteUser i) [useUsers_list] \<and>
         refreshes matches (updateSettings input) [useSettings_query, useStatus] \<and>
         refreshes matches useTriggerPoll [usePollRuns params, useStatus] \<and>
         refreshes matches (useLogin input) [useSession]"
proof -
  have same: "matches k k" for k using assms [of k "[]"] by simp
  have one: "matches [a, b] [a]" for a b using assms [of "[a]" "[b]"] by simp
  show ?thesis by (simp add: refreshes_def mutation_simps query_simps key_simps same one)
qed

theorem mutations_refresh_lists_witness:
  "refreshes (\<lambda>key pattern. prefix pattern key) (deleteTicketProject ''p1'') [useTicketProjects_list (Some ''i1''), useStatus]"
  using mutations_refresh_lists [of "\<lambda>key pattern. prefix pattern key" Null "''p1''" "Some ''i1''" None]
  by simp


subsection \<open>A key determines its request\<close>

text \<open>Every query of the application, with the arguments its hook takes.\<close>

datatype query_call =
    Q_Session | Q_Status | Q_Repos | Q_Integrations | Q_Notification_Targets | Q_Settings | Q_Users | Q_Invitations
  | Q_Ticket_Projects "string option"
  | Q_Poll_Runs "poll_runs_params option"
  | Q_Poll_Run "string option"
  | Q_Workspaces "string option" bool
  | Q_Projects "string option" "string option" bool
  | Q_Statuses "string option" "string option" bool
  | Q_Priorities "string option" "string option" bool
  | Q_Issue_Types "string option" "string option" bool

fun query_of :: "query_call \<Rightarrow> query_use" where
  "query_of Q_Session = useSession"
| "query_of Q_Status = useStatus"
| "query_of Q_Repos = useRepos_list"
| "query_of Q_Integrations = useIntegrations_list"
| "query_of Q_Notification_Targets = useNotificationTargets_list"
| "query_of Q_Settings = useSettings_query"
| "query_of Q_Users = useUsers_list"
| "query_of Q_Invitations = useInvitations_list"
| "query_of (Q_Ticket_Projects i) = useTicketProjects_list i"
| "query_of (Q_Poll_Runs p) = usePollRuns p"
| "query_of (Q_Poll_Run r) = usePollRun r"
| "query_of (Q_Workspaces i e) = useTicketMetadataWorkspaces i e"
| "query_of (Q_Projects i w e) = useTicketMetadataProjects i w e"
| "query_of (Q_Statuses i x e) = useTicketMetadataStatuses i x e"
| "query_of (Q_Priorities i x e) = useTicketMetadataPriorities i x e"
| "query_of (Q_Issue_Types i x e) = useTicketMetadataIssueTypes i x e"

text \<open>The request path can be read off the key, so it is a function of it.\<close>

definition denull :: "jsval \<Rightarrow> string option" where
  "denull v = (case v of Str s \<Rightarrow> Some s | _ \<Rightarrow> None)"

definition entry_string :: "string \<times> jsval \<Rightarrow> string \<times> string" where
  "entry_string e = (fst e, case snd e of Num n \<Rightarrow> int_string n | _ \<Rightarrow> [])"

definition runs_path :: "(string \<times> jsval) list \<Rightarrow> string" where
  "runs_path es = (let query = params_string (map entry_string es) in if query \<noteq> [] then ''/poll/runs?'' @ query else ''/poll/runs'')"

definition simple_paths :: "(jsval \<times> string) list" where
  "simple_paths = [(Str ''session'', ''/auth/session''), (Str ''status'', ''/status''), (Str ''repos'', ''/repos''),
     (Str ''integrations'', ''/integrations''), (Str ''notification-targets'', ''/notification-targets''),
     (Str ''settings'', ''/settings''), (Str ''users'', ''/users''), (Str ''invitations'', ''/users/invitations'')]"

fun path_of_key :: "query_key \<Rightarrow> string" where
  "path_of_key [t] = the (map_of simple_paths t)"
| "path_of_key [t, Obj es] = runs_path es"
| "path_of_key [t, v] =
     (if t = Str ''ticket-projects'' then ticketProjectsPath (denull v) else ''/poll/runs/'' @ the (denull v))"
| "path_of_key [t, i, Str r, sc] =
     scoped_path (denull i) r (if r = ''projects'' then ''workspaceId'' else ''externalProjectId'') (denull sc)"
| "path_of_key _ = []"

lemma denull_nullable [simp]: "denull (nullable v) = v"
  by (simp add: denull_def nullable_def split: option.splits)

lemma path_of_two: "path_of_key [t, nullable v] =
   (if t = Str ''ticket-projects'' then ticketProjectsPath v else ''/poll/runs/'' @ the v)"
  by (cases v) (simp_all add: nullable_def denull_def)

lemma workspaces_path: "scoped_path i r param None = ''/integrations/'' @ shown i @ ''/ticket-metadata/'' @ r"
  by (simp add: scoped_path_def truthy_text_def params_string_def)

lemma runs_path_params: "pollRunsPath p = runs_path (case p of None \<Rightarrow> []
      | Some q \<Rightarrow> opt_entry ''limit'' (prp_limit q) @ opt_entry ''offset'' (prp_offset q))"
  by (simp add: pollRunsPath_def runs_path_def opt_entry_def entry_string_def split: option.splits)

lemma simple_query_path:
  "c \<in> {Q_Session, Q_Status, Q_Repos, Q_Integrations, Q_Notification_Targets, Q_Settings, Q_Users, Q_Invitations} \<Longrightarrow>
   qu_path (query_of c) = path_of_key (qu_key (query_of c))"
  by (elim insertE emptyE) (simp_all add: query_simps key_simps simple_paths_def)

lemma path_of_query:
  "qu_enabled (query_of c) \<Longrightarrow> qu_path (query_of c) = path_of_key (qu_key (query_of c))"
proof (cases c)
  case (Q_Poll_Run r)
  then show "qu_enabled (query_of c) \<Longrightarrow> ?thesis"
    by (cases r) (simp_all add: query_simps key_pollRun_def truthy_text_def denull_def)
qed (simp_all only: simple_query_path insert_iff simp_thms,
     simp_all add: query_simps key_ticketProjects_def key_pollRuns_def key_ticketMetadata_def path_of_two
       runs_path_params workspaces_path)

text \<open>The cache never serves the answer of another request: two enabled queries of the
  application with the same key ask the server for the same path, for all arguments (null, empty,
  or with characters that are escaped in the URL).\<close>

theorem key_determines_request:
  assumes "qu_enabled (query_of c)" "qu_enabled (query_of d)" "qu_key (query_of c) = qu_key (query_of d)"
  shows "qu_path (query_of c) = qu_path (query_of d)"
  using assms path_of_query by simp

theorem key_determines_request_witness:
  "qu_path (query_of (Q_Projects (Some ''i1'') None True)) = qu_path (query_of (Q_Projects (Some ''i1'') None True))"
  by (rule key_determines_request) (simp_all add: query_simps metadataEnabled_def truthy_text_def)

end
