(* ===== verification/Commands.thy ===== *)
theory Commands
  imports View Query_Cache
begin

section \<open>What handlers do besides changing their component's state\<close>

text \<open>
  The effects of the handlers and effects of the components, as values: a request through the API
  client, a mutation of a hook, navigation, focus, cache invalidation, a toast (kind, title,
  description), a refetch of the component's query, the clipboard, the polling interval.
\<close>

datatype command =
    Post string jsval
  | Mutate mutation
  | Push string
  | Refresh
  | FocusAlert
  | Invalidate "string list"
  | Invalidate_All
  | Clear_Cache
  | Toast string msg "msg option"
  | Refetch
  | Copy string
  | Start_Interval nat
  | Stop_Interval

fun posts :: "command list \<Rightarrow> (string \<times> jsval) list" where
  "posts [] = []"
| "posts (Post p b # cs) = (p, b) # posts cs"
| "posts (_ # cs) = posts cs"

fun mutations :: "command list \<Rightarrow> mutation list" where
  "mutations [] = []"
| "mutations (Mutate m # cs) = m # mutations cs"
| "mutations (_ # cs) = mutations cs"

fun toasts :: "command list \<Rightarrow> (string \<times> msg) list" where
  "toasts [] = []"
| "toasts (Toast k m d # cs) = (k, m) # toasts cs"
| "toasts (_ # cs) = toasts cs"

lemma posts_append [simp]: "posts (as @ bs) = posts as @ posts bs"
  by (induction as rule: posts.induct) simp_all

lemma mutations_append [simp]: "mutations (as @ bs) = mutations as @ mutations bs"
  by (induction as rule: mutations.induct) simp_all

lemma toasts_append [simp]: "toasts (as @ bs) = toasts as @ toasts bs"
  by (induction as rule: toasts.induct) simp_all

end
