(* ===== verification/Api_Client.thy ===== *)
theory Api_Client
  imports Js_Json
begin

section \<open>The browser's API client (\<open>apps/web/lib/api/client.ts\<close>)\<close>

text \<open>
  \<open>request\<close> is the only way the web application talks to the server. \<open>fetch\<close> is the parameter
  of the model: for a request it gives a response, a rejection by the abort signal, or another
  rejection. A response carries the outcome of reading its body as JSON, where an abort can
  still arrive.
\<close>

definition BASE :: string where "BASE = ''/api/go/api/v1''"

datatype body_read = Body_Json jsval | Body_Syntax_Error | Body_Aborted | Body_Lost

record response =
  status :: nat
  status_text :: string
  body_read :: body_read

definition resp_ok :: "response \<Rightarrow> bool" where
  "resp_ok r \<longleftrightarrow> 200 \<le> status r \<and> status r \<le> 299"

datatype fetch_outcome = Fetched response | Fetch_Aborted | Fetch_Failed

text \<open>What a call can throw. \<open>Error_Syntax\<close> and \<open>Error_Type\<close> only exist before the handler.\<close>

datatype js_error =
    ApiError (err_code: jsval) (err_message: string) (err_status: nat)
  | NetworkError
  | AbortError
  | SyntaxError
  | TypeError

type_synonym 'a js_result = "js_error + 'a"

text \<open>\<open>await response.json()\<close>.\<close>

definition json_of :: "response \<Rightarrow> jsval js_result" where
  "json_of r = (case body_read r of
       Body_Json v \<Rightarrow> Inr v
     | Body_Syntax_Error \<Rightarrow> Inl SyntaxError
     | Body_Aborted \<Rightarrow> Inl AbortError
     | Body_Lost \<Rightarrow> Inl TypeError)"

text \<open>\<open>parseApiError\<close>: reading \<open>error\<close> of \<open>undefined\<close> or \<open>null\<close> throws inside the \<open>try\<close>, so it
  ends in the fallback as a body that is not JSON does.\<close>

definition or_default :: "jsval \<Rightarrow> jsval \<Rightarrow> jsval" where
  "or_default v d = (if nullish v then d else v)"

definition parseApiError :: "response \<Rightarrow> js_error" where
  "parseApiError r =
     (let fallback = ApiError (Str ''UNKNOWN_ERROR'') (status_text r) (status r)
      in case json_of r of
           Inl _ \<Rightarrow> fallback
         | Inr data \<Rightarrow>
             (case get_prop data ''error'' of
                None \<Rightarrow> fallback
              | Some err \<Rightarrow>
                  ApiError (or_default (opt_prop err ''code'') (Str ''UNKNOWN_ERROR''))
                           (to_string (or_default (opt_prop err ''message'') (Str (status_text r))))
                           (status r)))"

definition buildUrl :: "string \<Rightarrow> string" where
  "buildUrl path = BASE @ (if starts_with path ''/'' then path else ''/'' @ path)"

record request_options =
  opt_body :: jsval
  opt_signal :: "nat option"

record fetch_request =
  freq_url :: string
  freq_method :: string
  freq_credentials :: string
  freq_headers :: "(string \<times> string) list"
  freq_body :: "string option"
  freq_signal :: "nat option"

definition fetch_request_of :: "string \<Rightarrow> string \<Rightarrow> request_options option \<Rightarrow> fetch_request" where
  "fetch_request_of mth path options =
     (let body = (case options of None \<Rightarrow> Undefined | Some o' \<Rightarrow> opt_body o');
          has = (body \<noteq> Undefined)
      in \<lparr>freq_url = buildUrl path, freq_method = mth, freq_credentials = ''include'',
          freq_headers = (''Accept'', ''application/json'') # (if has then [(''Content-Type'', ''application/json'')] else []),
          freq_body = (if has then json_text body else None),
          freq_signal = Option.bind options opt_signal\<rparr>)"

text \<open>The body of the \<open>try\<close> block, and the handler that sorts what it throws.\<close>

definition request_try :: "(fetch_request \<Rightarrow> fetch_outcome) \<Rightarrow> fetch_request \<Rightarrow> jsval js_result" where
  "request_try fetch fr =
     (case fetch fr of
        Fetch_Aborted \<Rightarrow> Inl AbortError
      | Fetch_Failed \<Rightarrow> Inl TypeError
      | Fetched r \<Rightarrow>
          if \<not> resp_ok r then Inl (parseApiError r)
          else if status r = 204 then Inr Undefined
          else json_of r)"

definition request_catch :: "js_error \<Rightarrow> js_error" where
  "request_catch e = (case e of ApiError _ _ _ \<Rightarrow> e | AbortError \<Rightarrow> e | _ \<Rightarrow> NetworkError)"

definition request ::
  "(fetch_request \<Rightarrow> fetch_outcome) \<Rightarrow> string \<Rightarrow> string \<Rightarrow> request_options option \<Rightarrow> jsval js_result" where
  "request fetch mth path options =
     (case request_try fetch (fetch_request_of mth path options) of
        Inl e \<Rightarrow> Inl (request_catch e)
      | Inr v \<Rightarrow> Inr v)"

text \<open>\<open>apiClient\<close>; \<open>sig\<close> is the \<open>signal\<close> of the options.\<close>

definition api_get where
  "api_get fetch path sig = request fetch ''GET'' path (map_option (\<lambda>s. \<lparr>opt_body = Undefined, opt_signal = s\<rparr>) sig)"

definition api_post where
  "api_post fetch path body sig =
     request fetch ''POST'' path (Some \<lparr>opt_body = body, opt_signal = Option.bind sig id\<rparr>)"

definition api_patch where
  "api_patch fetch path body sig =
     request fetch ''PATCH'' path (Some \<lparr>opt_body = body, opt_signal = Option.bind sig id\<rparr>)"

definition api_delete where
  "api_delete fetch path sig = request fetch ''DELETE'' path (map_option (\<lambda>s. \<lparr>opt_body = Undefined, opt_signal = s\<rparr>) sig)"

subsection \<open>What a caller has to handle\<close>

text \<open>A call settles in one of four ways only: a value, an \<open>ApiError\<close>, the abort, or
  \<open>NetworkError\<close>; a syntax error of the body or a type error of \<open>fetch\<close> never reaches a caller.\<close>

theorem request_errors:
  "request fetch mth path options \<noteq> Inl SyntaxError \<and> request fetch mth path options \<noteq> Inl TypeError"
  by (auto simp: request_def request_catch_def split: sum.splits js_error.splits)

text \<open>A response decides the outcome by its status: outside 200 to 299 the call throws an
  \<open>ApiError\<close> that carries the status, also when the body is no JSON, is lost, or is aborted
  while it is read (that abort does not reach the caller); 204 gives \<open>undefined\<close> whatever the body;
  any other success gives the JSON body, or \<open>NetworkError\<close> when there is none.\<close>

theorem request_by_status:
  assumes "fetch (fetch_request_of mth path options) = Fetched r"
  shows "request fetch mth path options =
    (if status r < 200 \<or> 299 < status r then Inl (parseApiError r)
     else if status r = 204 then Inr Undefined
     else case body_read r of Body_Json v \<Rightarrow> Inr v | Body_Aborted \<Rightarrow> Inl AbortError | _ \<Rightarrow> Inl NetworkError)
    \<and> err_status (parseApiError r) = status r
    \<and> (case body_read r of Body_Json _ \<Rightarrow> True
       | _ \<Rightarrow> parseApiError r = ApiError (Str ''UNKNOWN_ERROR'') (status_text r) (status r))"
  using assms
  by (auto simp: request_def request_try_def request_catch_def resp_ok_def json_of_def parseApiError_def Let_def
      split: body_read.splits option.splits)

theorem request_by_status_witness:
  "request (\<lambda>_. Fetched \<lparr>status = 409, status_text = ''Conflict'', body_read = Body_Aborted\<rparr>) ''GET'' ''/repos'' None
   = Inl (ApiError (Str ''UNKNOWN_ERROR'') ''Conflict'' 409)"
  using request_by_status [where fetch = "\<lambda>_. Fetched \<lparr>status = 409, status_text = ''Conflict'', body_read = Body_Aborted\<rparr>"
      and mth = "''GET''" and path = "''/repos''" and options = None]
  by simp

text \<open>The request a call makes, and a transport that only answers requests of that shape.\<close>

definition sends :: "string \<Rightarrow> string \<Rightarrow> jsval \<Rightarrow> fetch_request \<Rightarrow> bool" where
  "sends mth path body fr \<longleftrightarrow>
     freq_method fr = mth \<and> freq_credentials fr = ''include'' \<and>
     freq_url fr = BASE @ (if starts_with path ''/'' then [] else ''/'') @ path \<and>
     freq_body fr = (if body = Undefined then None else json_text body) \<and>
     map_of (freq_headers fr) ''Accept'' = Some ''application/json'' \<and>
     map_of (freq_headers fr) ''Content-Type'' = (if body = Undefined then None else Some ''application/json'')"

definition only :: "(fetch_request \<Rightarrow> bool) \<Rightarrow> (fetch_request \<Rightarrow> fetch_outcome) \<Rightarrow> fetch_request \<Rightarrow> fetch_outcome" where
  "only P fetch = (\<lambda>fr. if P fr then fetch fr else Fetch_Failed)"

lemma sends_request:
  "sends mth path (case options of None \<Rightarrow> Undefined | Some o' \<Rightarrow> opt_body o') (fetch_request_of mth path options)"
  by (simp add: sends_def fetch_request_of_def buildUrl_def Let_def split: option.splits)

lemma request_only:
  "sends mth path (case options of None \<Rightarrow> Undefined | Some o' \<Rightarrow> opt_body o') = P \<Longrightarrow>
   request (only P fetch) mth path options = request fetch mth path options"
  using sends_request [of mth path options] by (auto simp: request_def request_try_def only_def)

text \<open>Each call of \<open>apiClient\<close> makes one request of its own shape: \<open>get\<close> and \<open>delete\<close> without
  body and content type, \<open>post\<close> and \<open>patch\<close> with the JSON text of the body (of every defined value)
  and its content type, all of them with cookies and below the proxy's base path.\<close>

theorem api_calls_send:
  "api_get (only (sends ''GET'' path Undefined) fetch) path sig = api_get fetch path sig \<and>
   api_delete (only (sends ''DELETE'' path Undefined) fetch) path sig = api_delete fetch path sig \<and>
   api_post (only (sends ''POST'' path body) fetch) path body sig = api_post fetch path body sig \<and>
   api_patch (only (sends ''PATCH'' path body) fetch) path body sig = api_patch fetch path body sig"
  by (auto simp: api_get_def api_delete_def api_post_def api_patch_def intro!: request_only split: option.splits)

end
