(* ===== verification/Form_Contract.thy ===== *)
theory Form_Contract
  imports Commands Api_Client
begin

section \<open>What a submit handler promises\<close>

text \<open>
  The drawers and dialogs that save share one contract: a submit of an invalid form shows the error
  of the first failing check and sends nothing; a submit of a valid form clears the error and sends
  its one request, if there is something to save. A save that fails shows the server's message, or
  the generic one, and keeps the form.
\<close>

locale form_submit =
  fixes check :: "'s \<Rightarrow> msg option"
    and saves :: "'s \<Rightarrow> mutation option"
    and submit :: "'s \<Rightarrow> 's \<times> command list"
    and error_of :: "'s \<Rightarrow> msg option"
  assumes rejects: "check s = Some m \<Longrightarrow> error_of (fst (submit s)) = Some m \<and> mutations (snd (submit s)) = []"
    and accepts: "check s = None \<Longrightarrow> error_of (fst (submit s)) = None \<and>
      mutations (snd (submit s)) = (case saves s of None \<Rightarrow> [] | Some m \<Rightarrow> [m])"
begin

lemma sends: "mutations (snd (submit s)) = (if check s = None then (case saves s of None \<Rightarrow> [] | Some m \<Rightarrow> [m]) else [])"
  using rejects [of s] accepts [of s] by (cases "check s") auto

lemma shows_error: "error_of (fst (submit s)) = check s"
  using rejects [of s] accepts [of s] by (cases "check s") auto

lemma sends_at_most_one: "length (mutations (snd (submit s))) \<le> 1"
  by (cases "check s"; cases "saves s") (simp_all add: sends)

lemma sent_is_checked: "m \<in> set (mutations (snd (submit s))) \<Longrightarrow> check s = None \<and> saves s = Some m"
  by (cases "check s"; cases "saves s") (simp_all add: sends)

end

text \<open>The first check that fails, in the order of the code.\<close>

fun first_error :: "(bool \<times> msg) list \<Rightarrow> msg option" where
  "first_error [] = None"
| "first_error ((failed, m) # cs) = (if failed then Some m else first_error cs)"

lemma first_error_None: "first_error cs = None \<longleftrightarrow> list_all (\<lambda>c. \<not> fst c) cs"
  by (induction cs rule: first_error.induct) simp_all

text \<open>The \<open>catch\<close> of a save: the server's message, else the fallback.\<close>

definition save_error :: "msg \<Rightarrow> js_error \<Rightarrow> msg" where
  "save_error fallback e = (case e of ApiError _ m _ \<Rightarrow> Raw m | _ \<Rightarrow> fallback)"

text \<open>\<open>{ key: value, ... }\<close> with an optional spread \<open>...(c ? {k: v} : {})\<close>.\<close>

definition entry_if :: "bool \<Rightarrow> string \<Rightarrow> jsval \<Rightarrow> (string \<times> jsval) list" where
  "entry_if c k v = (if c then [(k, v)] else [])"

end
