(* ===== verification/Profile_View.thy ===== *)
theory Profile_View
  imports Page_Parts Form_Contract Api_Types
begin

section \<open>The profile page (\<open>components/profile/profile-view.tsx\<close>)\<close>

text \<open>
  Two forms side by side: the request to change the e-mail address and the change of the password.
  Each has its handler before and after the \<open>await\<close>, and its change handlers.
\<close>

definition MIN_PASSWORD_LENGTH :: nat where "MIN_PASSWORD_LENGTH = 8"

record profile =
  newEmail :: string
  emailCurrentPassword :: string
  emailValidationError :: "msg option"
  emailChangeError :: "msg option"
  emailChangePending :: bool
  currentPassword :: string
  newPassword :: string
  confirmPassword :: string
  passwordValidationError :: "msg option"
  passwordChangeError :: "msg option"
  passwordChangeSuccess :: bool

definition profile_init :: profile where
  "profile_init = \<lparr>newEmail = [], emailCurrentPassword = [], emailValidationError = None, emailChangeError = None,
     emailChangePending = False, currentPassword = [], newPassword = [], confirmPassword = [],
     passwordValidationError = None, passwordChangeError = None, passwordChangeSuccess = False\<rparr>"

subsection \<open>The e-mail address\<close>

definition handleEmailChange :: "profile \<Rightarrow> profile \<times> command list" where
  "handleEmailChange s0 =
     (let s = s0\<lparr>emailChangeError := None, emailValidationError := None, emailChangePending := False\<rparr>
      in if js_trim (newEmail s) = [] then
           (s\<lparr>emailValidationError := Some (t0 ''profile.changeEmail.validation.newEmailRequired'')\<rparr>, [])
         else if emailCurrentPassword s = [] then
           (s\<lparr>emailValidationError := Some (t0 ''profile.changeEmail.validation.passwordRequired'')\<rparr>, [])
         else (s, [Mutate (requestEmailChange (Obj
                [(''newEmail'', Str (js_trim (newEmail s))), (''currentPassword'', Str (emailCurrentPassword s))]))]))"

definition email_error :: "js_error \<Rightarrow> msg" where
  "email_error e =
     (case e of
        ApiError _ m st \<Rightarrow>
          if st = 503 then t0 ''profile.changeEmail.smtpNotConfigured''
          else if st = 401 then t0 ''profile.changeEmail.invalidPassword''
          else Raw m
      | _ \<Rightarrow> t0 ''profile.changeEmail.failed'')"

definition emailChange_settled :: "jsval js_result \<Rightarrow> profile \<Rightarrow> profile" where
  "emailChange_settled r s =
     (case r of Inr _ \<Rightarrow> s\<lparr>emailChangePending := True, newEmail := [], emailCurrentPassword := []\<rparr>
              | Inl e \<Rightarrow> s\<lparr>emailChangeError := Some (email_error e)\<rparr>)"

definition change_newEmail :: "string \<Rightarrow> profile \<Rightarrow> profile" where
  "change_newEmail v s = s\<lparr>newEmail := v, emailValidationError := None, emailChangeError := None\<rparr>"

definition change_emailCurrentPassword :: "string \<Rightarrow> profile \<Rightarrow> profile" where
  "change_emailCurrentPassword v s = s\<lparr>emailCurrentPassword := v, emailValidationError := None, emailChangeError := None\<rparr>"

subsection \<open>The password\<close>

definition validatePasswordForm :: "profile \<Rightarrow> msg option" where
  "validatePasswordForm s =
     (if currentPassword s = [] then Some (t0 ''profile.changePassword.validation.currentPasswordRequired'')
      else if newPassword s = [] then Some (t0 ''profile.changePassword.validation.newPasswordRequired'')
      else if length (newPassword s) < MIN_PASSWORD_LENGTH then Some (t0 ''profile.changePassword.validation.newPasswordTooShort'')
      else if confirmPassword s = [] then Some (t0 ''profile.changePassword.validation.confirmPasswordRequired'')
      else if newPassword s \<noteq> confirmPassword s then Some (t0 ''profile.changePassword.validation.passwordMismatch'')
      else None)"

definition handlePasswordChange :: "profile \<Rightarrow> profile \<times> command list" where
  "handlePasswordChange s0 =
     (let s = s0\<lparr>passwordChangeError := None, passwordChangeSuccess := False\<rparr>
      in case validatePasswordForm s of
           Some e \<Rightarrow> (s\<lparr>passwordValidationError := Some e\<rparr>, [])
         | None \<Rightarrow> (s\<lparr>passwordValidationError := None\<rparr>,
                    [Mutate (changePassword (Obj
                       [(''currentPassword'', Str (currentPassword s)), (''newPassword'', Str (newPassword s))]))]))"

definition password_error :: "js_error \<Rightarrow> msg" where
  "password_error e =
     (case e of
        ApiError code m st \<Rightarrow>
          if st = 401 then t0 ''profile.changePassword.invalidPassword''
          else if st = 429 \<or> code = Str ''RATE_LIMITED'' then t0 ''profile.changePassword.rateLimited''
          else Raw m
      | _ \<Rightarrow> t0 ''profile.changePassword.failed'')"

definition passwordChange_settled :: "jsval js_result \<Rightarrow> profile \<Rightarrow> profile" where
  "passwordChange_settled r s =
     (case r of Inr _ \<Rightarrow> s\<lparr>passwordChangeSuccess := True, currentPassword := [], newPassword := [], confirmPassword := []\<rparr>
              | Inl e \<Rightarrow> s\<lparr>passwordChangeError := Some (password_error e)\<rparr>)"

definition clear_password_notes :: "profile \<Rightarrow> profile" where
  "clear_password_notes s = s\<lparr>passwordValidationError := None, passwordChangeError := None, passwordChangeSuccess := False\<rparr>"

definition change_currentPassword where "change_currentPassword v s = clear_password_notes (s\<lparr>currentPassword := v\<rparr>)"
definition change_newPassword where "change_newPassword v s = clear_password_notes (s\<lparr>newPassword := v\<rparr>)"
definition change_confirmPassword where "change_confirmPassword v s = clear_password_notes (s\<lparr>confirmPassword := v\<rparr>)"

subsection \<open>The view\<close>

definition profile_input :: "string \<Rightarrow> string \<Rightarrow> string \<Rightarrow> string \<Rightarrow> string \<Rightarrow> view" where
  "profile_input label autocomplete handler type v =
     El ''Field'' []
       [El ''FieldLabel'' [] [tx label],
        El ''Input'' [(''autoComplete'', autocomplete), (''onChange'', handler), (''type'', type), (''value'', v)] []]"

definition success_note :: "string \<Rightarrow> string \<Rightarrow> view" where
  "success_note title description =
     El ''Alert'' [(''variant'', ''success'')]
       [El ''CircleCheckIcon'' [] [], El ''AlertTitle'' [] [tx title], El ''AlertDescription'' [] [tx description]]"

text \<open>The two errors and the button under a form.\<close>

definition form_foot :: "msg option \<Rightarrow> msg option \<Rightarrow> string \<Rightarrow> bool \<Rightarrow> string \<Rightarrow> string \<Rightarrow> view list" where
  "form_foot validation err failed busy handler submit =
     shown_msg validation (\<lambda>m. [El ''p'' [(''role'', ''alert'')] [Txt m]]) @
     shown_msg err (\<lambda>m. [El ''Alert'' [(''variant'', ''error'')]
                             [El ''AlertTitle'' [] [tx failed], El ''AlertDescription'' [] [Txt m]]]) @
     [Button False busy [(''onClick'', handler)] (shown_if busy [El ''Spinner'' [] []] @ [tx submit])]"

definition ProfileView :: "session_response query \<Rightarrow> bool \<Rightarrow> bool \<Rightarrow> profile \<Rightarrow> view" where
  "ProfileView q emailBusy passwordBusy s =
     (let email = (case q_data q of None \<Rightarrow> [] | Some r \<Rightarrow> (case sess_user r of None \<Rightarrow> [] | Some u \<Rightarrow> user_email u))
      in El ''div'' []
        ([El ''h1'' [] [tx ''profile.title'']] @
         shown_if (q_error q) [El ''p'' [(''role'', ''alert'')] [tx ''profile.loadFailed'']] @
         [if q_loading q then El ''Skeleton'' [] []
          else El ''div'' []
            [SettingsSection [tx ''profile.account.title''] [tx ''profile.account.description'']
               [El ''UserIcon'' [(''aria-hidden'', ''true'')] []]
               [El ''Field'' []
                  [El ''FieldLabel'' [] [tx ''profile.account.currentEmail''],
                   El ''Input'' [(''readOnly'', ''true''), (''type'', ''email''), (''value'', email)] []]],
             SettingsSection [tx ''profile.changeEmail.title''] [tx ''profile.changeEmail.description'']
               [El ''MailIcon'' [(''aria-hidden'', ''true'')] []]
               (shown_if (emailChangePending s)
                  [success_note ''profile.changeEmail.pendingTitle'' ''profile.changeEmail.pendingDescription''] @
                [profile_input ''profile.changeEmail.newEmail'' ''email'' ''change_newEmail'' ''email'' (newEmail s),
                 profile_input ''profile.changeEmail.currentPassword'' ''current-password'' ''change_emailCurrentPassword''
                   ''password'' (emailCurrentPassword s)] @
                form_foot (emailValidationError s) (emailChangeError s) ''profile.changeEmail.failed'' emailBusy
                  ''handleEmailChange'' ''profile.changeEmail.submit''),
             SettingsSection [tx ''profile.changePassword.title''] [tx ''profile.changePassword.description'']
               [El ''KeyRoundIcon'' [(''aria-hidden'', ''true'')] []]
               (shown_if (passwordChangeSuccess s)
                  [success_note ''profile.changePassword.successTitle'' ''profile.changePassword.successDescription''] @
                [profile_input ''profile.changePassword.currentPassword'' ''current-password'' ''change_currentPassword''
                   ''password'' (currentPassword s),
                 profile_input ''profile.changePassword.newPassword'' ''new-password'' ''change_newPassword''
                   ''password'' (newPassword s),
                 profile_input ''profile.changePassword.confirmPassword'' ''new-password'' ''change_confirmPassword''
                   ''password'' (confirmPassword s)] @
                form_foot (passwordValidationError s) (passwordChangeError s) ''profile.changePassword.failed'' passwordBusy
                  ''handlePasswordChange'' ''profile.changePassword.submit'')]]))"

subsection \<open>What is sent\<close>

definition email_check :: "profile \<Rightarrow> msg option" where
  "email_check s = first_error
     [(js_trim (newEmail s) = [], t0 ''profile.changeEmail.validation.newEmailRequired''),
      (emailCurrentPassword s = [], t0 ''profile.changeEmail.validation.passwordRequired'')]"

definition email_saves :: "profile \<Rightarrow> mutation option" where
  "email_saves s = Some (requestEmailChange (Obj
     [(''newEmail'', Str (js_trim (newEmail s))), (''currentPassword'', Str (emailCurrentPassword s))]))"

definition password_saves :: "profile \<Rightarrow> mutation option" where
  "password_saves s = Some (changePassword (Obj
     [(''currentPassword'', Str (currentPassword s)), (''newPassword'', Str (newPassword s))]))"

interpretation email_form: form_submit email_check email_saves handleEmailChange emailValidationError
  by unfold_locales (auto simp: email_check_def email_saves_def handleEmailChange_def Let_def split: if_splits)

lemma password_check_frame: "validatePasswordForm (s\<lparr>passwordChangeError := e, passwordChangeSuccess := b\<rparr>) = validatePasswordForm s"
  by (simp add: validatePasswordForm_def)

interpretation password_form: form_submit validatePasswordForm password_saves handlePasswordChange passwordValidationError
  by unfold_locales (auto simp: handlePasswordChange_def password_saves_def password_check_frame Let_def)

text \<open>On the profile page a password change is requested exactly when the current password is given
  and the new one has at least 8 characters and is confirmed; the e-mail change exactly when a
  non-blank address and the current password are given. Otherwise nothing is sent and the form says
  why.\<close>

theorem profile_requests:
  "mutations (snd (handlePasswordChange s)) =
     (if currentPassword s \<noteq> [] \<and> 8 \<le> length (newPassword s) \<and> confirmPassword s = newPassword s then
        [changePassword (Obj [(''currentPassword'', Str (currentPassword s)), (''newPassword'', Str (newPassword s))])]
      else []) \<and>
   mutations (snd (handleEmailChange s)) =
     (if js_trim (newEmail s) \<noteq> [] \<and> emailCurrentPassword s \<noteq> [] then
        [requestEmailChange (Obj [(''newEmail'', Str (js_trim (newEmail s))), (''currentPassword'', Str (emailCurrentPassword s))])]
      else []) \<and>
   (passwordValidationError (fst (handlePasswordChange s)) = None \<longleftrightarrow> mutations (snd (handlePasswordChange s)) \<noteq> []) \<and>
   (emailValidationError (fst (handleEmailChange s)) = None \<longleftrightarrow> mutations (snd (handleEmailChange s)) \<noteq> [])"
  using email_form.shows_error [of s] password_form.shows_error [of s]
  by (auto simp: email_form.sends password_form.sends email_check_def email_saves_def password_saves_def
      validatePasswordForm_def MIN_PASSWORD_LENGTH_def)

end
