(* ===== verification/Sidebar_State.thy ===== *)
theory Sidebar_State
  imports Prelude Js_Json View
begin

section \<open>The sidebar (\<open>components/ui/sidebar.tsx\<close>, \<open>hooks/use-media-query.ts\<close>)\<close>

text \<open>
  The state the provider keeps and hands to the parts of the sidebar, and those parts that use it.
  The media queries are texts; what the browser answers for one is an argument.
\<close>

subsection \<open>Media queries\<close>

definition BREAKPOINTS :: "(string \<times> int) list" where
  "BREAKPOINTS = [(''2xl'', 1536), (''3xl'', 1600), (''4xl'', 2000), (''lg'', 1024), (''md'', 800), (''sm'', 640), (''xl'', 1280)]"

text \<open>\<open>Breakpoint | number\<close>, and the object form of a query.\<close>

datatype width = Named string | Pixels int

definition px_of :: "width \<Rightarrow> int option" where
  "px_of w = (case w of Pixels n \<Rightarrow> Some n | Named b \<Rightarrow> map_of BREAKPOINTS b)"

text \<open>The text of an unknown breakpoint, which the types rule out, is that of \<open>undefined\<close> and \<open>NaN\<close>.\<close>

definition resolveMin :: "width \<Rightarrow> string" where
  "resolveMin v = ''(min-width: '' @ (case px_of v of None \<Rightarrow> ''undefined'' | Some px \<Rightarrow> int_string px) @ ''px)''"

definition resolveMax :: "width \<Rightarrow> string" where
  "resolveMax v = ''(max-width: '' @ (case px_of v of None \<Rightarrow> ''NaN'' | Some px \<Rightarrow> int_string (px - 1)) @ ''px)''"

record media_input =
  mi_min :: "width option"
  mi_max :: "width option"
  mi_pointer :: "string option"

datatype media_query = Text string | Input media_input

text \<open>\<open>segment in BREAKPOINTS\<close>; a segment is not the name of a property every object has.\<close>

definition is_breakpoint :: "string \<Rightarrow> bool" where
  "is_breakpoint s \<longleftrightarrow> map_of BREAKPOINTS s \<noteq> None"

definition query_part :: "string \<Rightarrow> string list" where
  "query_part segment =
     (if starts_with segment ''max-'' then
        (if is_breakpoint (drop 4 segment) then [resolveMax (Named (drop 4 segment))] else [])
      else if is_breakpoint segment then [resolveMin (Named segment)] else [])"

definition parseQuery :: "media_query \<Rightarrow> string" where
  "parseQuery query =
     (case query of
        Input q \<Rightarrow>
          (let parts = (case mi_min q of None \<Rightarrow> [] | Some w \<Rightarrow> [resolveMin w]) @
                       (case mi_max q of None \<Rightarrow> [] | Some w \<Rightarrow> [resolveMax w]) @
                       (if mi_pointer q = Some ''coarse'' then [''(pointer: coarse)''] else []) @
                       (if mi_pointer q = Some ''fine'' then [''(pointer: fine)''] else [])
           in if parts = [] then ''(min-width: 0px)'' else join_with '' and '' parts)
      | Text s \<Rightarrow>
          (if starts_with s ''('' then s
           else (let parts = concat (map query_part (split_on (CHR '':'') s))
                 in if parts \<noteq> [] then join_with '' and '' parts else s)))"

text \<open>\<open>useMediaQuery\<close>: the snapshot on the client, and on the server.\<close>

definition useMediaQuery :: "(string \<Rightarrow> bool) option \<Rightarrow> media_query \<Rightarrow> bool" where
  "useMediaQuery matchMedia q = (case matchMedia of None \<Rightarrow> False | Some m \<Rightarrow> m (parseQuery q))"

definition useIsMobile :: "(string \<Rightarrow> bool) option \<Rightarrow> bool" where
  "useIsMobile matchMedia = useMediaQuery matchMedia (Text ''max-md'')"

subsection \<open>The provider\<close>

definition SIDEBAR_COOKIE_NAME :: string where "SIDEBAR_COOKIE_NAME = ''sidebar_state''"
definition SIDEBAR_COOKIE_MAX_AGE :: int where "SIDEBAR_COOKIE_MAX_AGE = 60 * 60 * 24 * 7"
definition SIDEBAR_KEYBOARD_SHORTCUT :: string where "SIDEBAR_KEYBOARD_SHORTCUT = ''b''"

text \<open>The layout renders the provider without \<open>open\<close> and \<open>onOpenChange\<close>, so its own state decides.
  A cookie is its name, value and expiry in milliseconds.\<close>

record sidebar =
  sb_open :: bool
  sb_openMobile :: bool
  sb_cookie :: "(string \<times> string \<times> int) option"

definition sidebar_init :: "bool \<Rightarrow> (string \<times> string \<times> int) option \<Rightarrow> sidebar" where
  "sidebar_init defaultOpen cookie = \<lparr>sb_open = defaultOpen, sb_openMobile = False, sb_cookie = cookie\<rparr>"

definition setOpen :: "int \<Rightarrow> (bool \<Rightarrow> bool) \<Rightarrow> sidebar \<Rightarrow> sidebar" where
  "setOpen now f s =
     (let openState = f (sb_open s)
      in s\<lparr>sb_open := openState,
           sb_cookie := Some (SIDEBAR_COOKIE_NAME, if openState then ''true'' else ''false'', now + SIDEBAR_COOKIE_MAX_AGE * 1000)\<rparr>)"

definition toggleSidebar :: "int \<Rightarrow> bool \<Rightarrow> sidebar \<Rightarrow> sidebar" where
  "toggleSidebar now isMobile s =
     (if isMobile then s\<lparr>sb_openMobile := \<not> sb_openMobile s\<rparr> else setOpen now Not s)"

record key_event =
  key_name :: string
  key_meta :: bool
  key_ctrl :: bool

text \<open>The key handler, and whether it calls \<open>preventDefault\<close>.\<close>

definition handleKeyDown :: "int \<Rightarrow> bool \<Rightarrow> key_event \<Rightarrow> sidebar \<Rightarrow> sidebar \<times> bool" where
  "handleKeyDown now isMobile e s =
     (if key_name e = SIDEBAR_KEYBOARD_SHORTCUT \<and> (key_meta e \<or> key_ctrl e) then (toggleSidebar now isMobile s, True)
      else (s, False))"

definition sidebar_state :: "sidebar \<Rightarrow> string" where
  "sidebar_state s = (if sb_open s then ''expanded'' else ''collapsed'')"

subsection \<open>The parts\<close>

definition Sidebar :: "bool \<Rightarrow> sidebar \<Rightarrow> string \<Rightarrow> string \<Rightarrow> string \<Rightarrow> view list \<Rightarrow> view" where
  "Sidebar isMobile s side variant collapsible children =
     (if collapsible = ''none'' then El ''div'' [(''data-slot'', ''sidebar'')] children
      else if isMobile then
        El ''Sheet'' ((''onOpenChange'', ''setOpenMobile'') # flag ''open'' (sb_openMobile s))
          [El ''SheetPopup'' [(''data-mobile'', ''true''), (''data-sidebar'', ''sidebar''), (''data-slot'', ''sidebar''), (''side'', side)]
             [El ''SheetHeader'' [] [El ''SheetTitle'' [] [lit ''Sidebar''], El ''SheetDescription'' [] [lit ''Displays the mobile sidebar.'']],
              El ''div'' [] children]]
      else
        El ''div''
          [(''data-collapsible'', if sidebar_state s = ''collapsed'' then collapsible else []), (''data-side'', side),
           (''data-slot'', ''sidebar''), (''data-state'', sidebar_state s), (''data-variant'', variant)]
          [El ''div'' [(''data-slot'', ''sidebar-gap'')] [],
           El ''div'' [(''data-slot'', ''sidebar-container'')]
             [El ''div'' [(''data-sidebar'', ''sidebar''), (''data-slot'', ''sidebar-inner'')] children]])"

definition SidebarTrigger :: view where
  "SidebarTrigger =
     Button False False [(''data-sidebar'', ''trigger''), (''data-slot'', ''sidebar-trigger''), (''onClick'', ''toggleSidebar''),
       (''size'', ''icon''), (''variant'', ''ghost'')] [El ''PanelLeftIcon'' [] [], El ''span'' [] [lit ''Toggle Sidebar'']]"

definition SidebarRail :: view where
  "SidebarRail =
     El ''button'' [(''data-sidebar'', ''rail''), (''data-slot'', ''sidebar-rail''), (''onClick'', ''toggleSidebar''), (''tabIndex'', ''-1''),
       (''title'', ''Toggle Sidebar''), (''type'', ''button'')] []"

text \<open>A menu button drawn as the link \<open>href\<close>, with its tooltip shown only beside a collapsed sidebar.\<close>

definition SidebarMenuButton :: "bool \<Rightarrow> sidebar \<Rightarrow> bool \<Rightarrow> string \<Rightarrow> msg option \<Rightarrow> view list \<Rightarrow> view" where
  "SidebarMenuButton isMobile s isActive href tooltip children =
     (let buttonElement = El ''Link'' [(''href'', href), (''data-active'', if isActive then ''true'' else ''false''),
            (''data-sidebar'', ''menu-button''), (''data-slot'', ''sidebar-menu-button'')] children
      in if \<not> msg_given tooltip then buttonElement
         else El ''Tooltip'' []
           [El ''TooltipTrigger'' [] [buttonElement],
            El ''TooltipPopup'' ((''align'', ''center'') # flag ''hidden'' (sidebar_state s \<noteq> ''collapsed'' \<or> isMobile) @ [(''side'', ''right'')])
              [Txt (the tooltip)]])"

subsection \<open>Runs of the provider\<close>

datatype sidebar_event = Toggle int bool | Key int bool key_event | Open_Mobile bool

definition sidebar_step :: "sidebar \<Rightarrow> sidebar_event \<Rightarrow> sidebar" where
  "sidebar_step s ev =
     (case ev of Toggle now mobile \<Rightarrow> toggleSidebar now mobile s
      | Key now mobile e \<Rightarrow> fst (handleKeyDown now mobile e s)
      | Open_Mobile b \<Rightarrow> s\<lparr>sb_openMobile := b\<rparr>)"

text \<open>The cookie names the state the sidebar is in, unless nothing was toggled yet.\<close>

definition cookie_value :: "sidebar \<Rightarrow> string option" where
  "cookie_value s = map_option (fst \<circ> snd) (sb_cookie s)"

definition cookie_current :: "sidebar \<Rightarrow> bool" where
  "cookie_current s \<longleftrightarrow> cookie_value s \<in> {None, Some (if sb_open s then ''true'' else ''false'')}"

interpretation sidebar_stepper: stepper sidebar_step cookie_current
  by unfold_locales
    (auto simp: sidebar_step_def toggleSidebar_def handleKeyDown_def setOpen_def cookie_current_def cookie_value_def Let_def
      split: sidebar_event.splits)

text \<open>The sidebar stores its state in its cookie faithfully, in every run of clicks and shortcuts on
  any device: after the run the cookie holds the state the desktop sidebar is in (or is still
  unset). But nothing reads it: a reload starts expanded whatever the cookie says, so a collapsed
  sidebar does not stay collapsed.\<close>

theorem sidebar_cookie_unread:
  "let s = run sidebar_step (sidebar_init True None) es; reloaded = sidebar_init True (sb_cookie s)
   in cookie_current s \<and> sb_open reloaded \<and> (sb_open s \<or> cookie_value s \<in> {None, Some ''false''})"
proof -
  have "cookie_current (run sidebar_step (sidebar_init True None) es)"
    by (rule sidebar_stepper.run_inv) (simp add: cookie_current_def cookie_value_def sidebar_init_def)
  then show ?thesis
    by (auto simp: Let_def sidebar_init_def cookie_current_def)
qed

text \<open>The shortcut and the button move only the sidebar that is on the screen: on a small screen the
  sheet, otherwise the docked sidebar, and doing it twice restores it. A key without a modifier, or
  another key, changes nothing and keeps its default action.\<close>

theorem toggle_twice:
  "sb_open (toggleSidebar t2 mobile (toggleSidebar t1 mobile s)) = sb_open s \<and>
   sb_openMobile (toggleSidebar t2 mobile (toggleSidebar t1 mobile s)) = sb_openMobile s \<and>
   (if mobile then sb_open (toggleSidebar t1 mobile s) = sb_open s \<and> sb_cookie (toggleSidebar t1 mobile s) = sb_cookie s
    else sb_openMobile (toggleSidebar t1 mobile s) = sb_openMobile s) \<and>
   (handleKeyDown t1 mobile e s =
      (if key_name e = ''b'' \<and> (key_meta e \<or> key_ctrl e) then (toggleSidebar t1 mobile s, True) else (s, False)))"
  by (simp add: toggleSidebar_def setOpen_def handleKeyDown_def SIDEBAR_KEYBOARD_SHORTCUT_def Let_def)

text \<open>A breakpoint splits the widths: its lower bound and the upper bound of \<open>max-\<close> never hold together.\<close>

lemma mobile_query: "parseQuery (Text ''max-md'') = ''(max-width: 799px)''"
  by code_simp

end
