(* ===== verification/Js_Regex.thy ===== *)
theory Js_Regex
  imports Prelude
begin

section \<open>Regular expressions\<close>

text \<open>
  The regular expressions of the sources as values, and the matcher of the language definition:
  alternatives in order, greedy repetition, backtracking, captured groups. \<open>parse r s c\<close> is the
  list of all ways to match a prefix of \<open>s\<close> in the order they are tried, each with the rest of the
  input and the captures; the match JavaScript reports is the first one that lets the rest of the
  pattern succeed. A repetition that consumes nothing is not repeated, as in the language.
\<close>

datatype regex =
    Eps
  | Cls "char \<Rightarrow> bool"
  | Seq regex regex
  | Alt regex regex
  | Star regex
  | Group nat regex

abbreviation Opt :: "regex \<Rightarrow> regex" where "Opt r \<equiv> Alt r Eps"
abbreviation Plus :: "regex \<Rightarrow> regex" where "Plus r \<equiv> Seq r (Star r)"

text \<open>A literal, a sequence, and \<open>r{m,n}\<close>.\<close>

fun Lit :: "string \<Rightarrow> regex" where
  "Lit [] = Eps"
| "Lit (x # xs) = Seq (Cls (\<lambda>c. c = x)) (Lit xs)"

fun Seqs :: "regex list \<Rightarrow> regex" where
  "Seqs [] = Eps"
| "Seqs [r] = r"
| "Seqs (r # s # rs) = Seq r (Seqs (s # rs))"

fun Times :: "nat \<Rightarrow> regex \<Rightarrow> regex" where
  "Times 0 r = Eps"
| "Times (Suc n) r = Seq r (Times n r)"

fun UpTo :: "nat \<Rightarrow> regex \<Rightarrow> regex" where
  "UpTo 0 r = Eps"
| "UpTo (Suc n) r = Opt (Seq r (UpTo n r))"

definition between :: "nat \<Rightarrow> nat \<Rightarrow> regex \<Rightarrow> regex" where
  "between m n r = Seq (Times m r) (UpTo (n - m) r)"

subsection \<open>The matcher\<close>

text \<open>The tests on lengths hold of every result; they carry the termination argument.\<close>

function parse :: "regex \<Rightarrow> string \<Rightarrow> (nat \<times> string) list \<Rightarrow> (string \<times> (nat \<times> string) list) list" where
  "parse Eps s c = [(s, c)]"
| "parse (Cls P) s c = (case s of [] \<Rightarrow> [] | x # xs \<Rightarrow> if P x then [(xs, c)] else [])"
| "parse (Seq r1 r2) s c =
     concat (map (\<lambda>(s', c'). if length s' \<le> length s then parse r2 s' c' else []) (parse r1 s c))"
| "parse (Alt r1 r2) s c = parse r1 s c @ parse r2 s c"
| "parse (Star r) s c =
     concat (map (\<lambda>(s', c'). if length s' < length s then parse (Star r) s' c' else []) (parse r s c)) @ [(s, c)]"
| "parse (Group n r) s c =
     map (\<lambda>(s', c'). (s', (n, take (length s - length s') s) # c')) (parse r s c)"
  by pat_completeness auto
termination by (relation "measures [\<lambda>(r, s, c). length s, \<lambda>(r, s, c). size r]") auto

lemmas parse_star = parse.simps(5)
declare parse.simps(5) [simp del]

text \<open>\<open>/^r$/.exec(s)\<close> and \<open>test\<close>; the text of group \<open>n\<close> (\<^term>\<open>None\<close> is \<open>undefined\<close>).\<close>

definition exec_full :: "regex \<Rightarrow> string \<Rightarrow> ((nat \<times> string) list) option" where
  "exec_full r s = map_option snd (find (\<lambda>x. fst x = []) (parse r s []))"

definition test_full :: "regex \<Rightarrow> string \<Rightarrow> bool" where
  "test_full r s \<longleftrightarrow> exec_full r s \<noteq> None"

definition grp :: "nat \<Rightarrow> (nat \<times> string) list \<Rightarrow> string option" where
  "grp n c = map_of c n"

text \<open>\<open>m[n] ?? ""\<close>.\<close>

definition group_text :: "nat \<Rightarrow> (nat \<times> string) list \<Rightarrow> string" where
  "group_text n c = (case grp n c of None \<Rightarrow> [] | Some g \<Rightarrow> g)"

text \<open>\<open>/^r/\<close>, and the leftmost match of \<open>/r/\<close>: what is before it, the match with its captures, and
  what is after it.\<close>

definition exec_prefix :: "regex \<Rightarrow> string \<Rightarrow> (string \<times> (nat \<times> string) list \<times> string) option" where
  "exec_prefix r s =
     (case parse r s [] of [] \<Rightarrow> None | (rest, c) # _ \<Rightarrow> Some (take (length s - length rest) s, c, rest))"

fun exec_search :: "regex \<Rightarrow> string \<Rightarrow> (string \<times> string \<times> (nat \<times> string) list \<times> string) option" where
  "exec_search r [] = map_option (Pair []) (exec_prefix r [])"
| "exec_search r (x # xs) =
     (case exec_prefix r (x # xs) of
        Some m \<Rightarrow> Some ([], m)
      | None \<Rightarrow> map_option (apfst (Cons x)) (exec_search r xs))"

definition test_search :: "regex \<Rightarrow> string \<Rightarrow> bool" where
  "test_search r s \<longleftrightarrow> exec_search r s \<noteq> None"

text \<open>\<open>s.replace(/r/g, f)\<close>, where \<open>f\<close> gets the match and its captures. The expressions it is used with
  match no empty string; a match of nothing is skipped.\<close>

function replace_all :: "regex \<Rightarrow> (string \<Rightarrow> (nat \<times> string) list \<Rightarrow> string) \<Rightarrow> string \<Rightarrow> string" where
  "replace_all r f [] = []"
| "replace_all r f (x # xs) =
     (case exec_prefix r (x # xs) of
        None \<Rightarrow> x # replace_all r f xs
      | Some (m, c, rest) \<Rightarrow>
          if length rest < length (x # xs) then f m c @ replace_all r f rest else x # replace_all r f xs)"
  by pat_completeness auto
termination by (relation "measure (\<lambda>(r, f, s). length s)") auto

text \<open>\<open>s.match(/r/g)\<close>: the texts of all matches.\<close>

function match_all :: "regex \<Rightarrow> string \<Rightarrow> string list" where
  "match_all r [] = []"
| "match_all r (x # xs) =
     (case exec_prefix r (x # xs) of
        None \<Rightarrow> match_all r xs
      | Some (m, c, rest) \<Rightarrow> if length rest < length (x # xs) then m # match_all r rest else match_all r xs)"
  by pat_completeness auto
termination by (relation "measure (\<lambda>(r, s). length s)") auto

text \<open>Character classes.\<close>

definition digit_c :: "char \<Rightarrow> bool" where
  "digit_c c \<longleftrightarrow> 48 \<le> (of_char c :: nat) \<and> (of_char c :: nat) \<le> 57"

definition alpha_c :: "char \<Rightarrow> bool" where
  "alpha_c c \<longleftrightarrow> (65 \<le> (of_char c :: nat) \<and> (of_char c :: nat) \<le> 90) \<or> (97 \<le> (of_char c :: nat) \<and> (of_char c :: nat) \<le> 122)"

text \<open>The dot: no line terminator (of those a byte can be).\<close>

definition dot_c :: "char \<Rightarrow> bool" where
  "dot_c c \<longleftrightarrow> c \<noteq> CHR 0x0A \<and> c \<noteq> CHR 0x0D"

definition word_c :: "char \<Rightarrow> bool" where
  "word_c c \<longleftrightarrow> digit_c c \<or> alpha_c c \<or> c = CHR ''_''"

subsection \<open>The language of an expression\<close>

text \<open>The reference: which strings an expression denotes. The matcher succeeds on exactly these.\<close>

inductive in_lang :: "regex \<Rightarrow> string \<Rightarrow> bool" where
  eps: "in_lang Eps []"
| cls: "P x \<Longrightarrow> in_lang (Cls P) [x]"
| seq: "in_lang r1 a \<Longrightarrow> in_lang r2 b \<Longrightarrow> in_lang (Seq r1 r2) (a @ b)"
| alt1: "in_lang r1 a \<Longrightarrow> in_lang (Alt r1 r2) a"
| alt2: "in_lang r2 a \<Longrightarrow> in_lang (Alt r1 r2) a"
| star0: "in_lang (Star r) []"
| star1: "in_lang r a \<Longrightarrow> in_lang (Star r) b \<Longrightarrow> in_lang (Star r) (a @ b)"
| group: "in_lang r a \<Longrightarrow> in_lang (Group n r) a"

inductive_simps in_lang_simps:
  "in_lang Eps s" "in_lang (Cls P) s" "in_lang (Seq r1 r2) s" "in_lang (Alt r1 r2) s" "in_lang (Group n r) s"

lemma parse_sound:
  "(rest, c') \<in> set (parse r s c) \<Longrightarrow> \<exists>w. s = w @ rest \<and> in_lang r w"
proof (induction r s c arbitrary: rest c' rule: parse.induct)
  case (2 P s c)
  then show ?case by (cases s) (auto simp: in_lang_simps split: if_splits)
next
  case (3 r1 r2 s c)
  then obtain s1 c1 where 1: "(s1, c1) \<in> set (parse r1 s c)" "length s1 \<le> length s" "(rest, c') \<in> set (parse r2 s1 c1)"
    by (auto split: if_splits)
  then show ?case using 3 by (fastforce intro: in_lang.seq)
next
  case (5 r s c)
  then consider "rest = s" | s1 c1 where "(s1, c1) \<in> set (parse r s c)" "length s1 < length s" "(rest, c') \<in> set (parse (Star r) s1 c1)"
    unfolding parse_star [of r s c] by (auto split: if_splits)
  then show ?case
  proof cases
    case 1
    then show ?thesis by (auto intro: in_lang.star0)
  next
    case 2
    obtain w where w: "s = w @ s1" "in_lang r w" using "5.IH"(1) [OF 2(1)] by auto
    have "\<exists>v. s1 = v @ rest \<and> in_lang (Star r) v" using "5.IH"(2) [OF 2(1) refl 2(2) 2(3)] by auto
    then show ?thesis using w by (auto intro: in_lang.star1)
  qed
qed (fastforce intro: in_lang.intros)+

lemma parse_complete:
  "in_lang r w \<Longrightarrow> \<exists>c'. (rest, c') \<in> set (parse r (w @ rest) c)"
proof (induction r w arbitrary: rest c rule: in_lang.induct)
  case (seq r1 a r2 b)
  obtain c1 where 1: "(b @ rest, c1) \<in> set (parse r1 (a @ b @ rest) c)" using seq.IH(1) by blast
  obtain c2 where "(rest, c2) \<in> set (parse r2 (b @ rest) c1)" using seq.IH(2) by blast
  then have "(rest, c2) \<in> set (parse (Seq r1 r2) (a @ b @ rest) c)"
    using 1 by (auto intro!: bexI [OF _ 1])
  then show ?case by auto
next
  case (star1 r a b)
  show ?case
  proof (cases "a = []")
    case True
    then show ?thesis using star1.IH(2) by simp
  next
    case False
    obtain c1 where 1: "(b @ rest, c1) \<in> set (parse r (a @ b @ rest) c)" using star1.IH(1) by blast
    obtain c2 where "(rest, c2) \<in> set (parse (Star r) (b @ rest) c1)" using star1.IH(2) by blast
    then have "(rest, c2) \<in> set (parse (Star r) (a @ b @ rest) c)"
      using False unfolding parse_star [of r "a @ b @ rest" c] by (auto intro!: bexI [OF _ 1])
    then show ?thesis by auto
  qed
next
  case (star0 r)
  then show ?case by (subst parse_star) auto
next
  case (alt1 r1 a r2)
  then show ?case by (auto simp: ex_disj_distrib)
next
  case (alt2 r2 a r1)
  then show ?case by (auto simp: ex_disj_distrib)
next
  case (group r a n)
  then obtain c' where "(rest, c') \<in> set (parse r (a @ rest) c)" by blast
  then show ?case by (force intro!: exI [of _ "(n, a) # c'"])
qed auto

lemma find_SomeD: "find P xs = Some x \<Longrightarrow> x \<in> set xs \<and> P x"
  by (induction xs) (auto split: if_splits)

lemma exec_full_parse: "exec_full r s = Some c \<Longrightarrow> ([], c) \<in> set (parse r s [])"
  by (auto simp: exec_full_def dest!: find_SomeD)

text \<open>The matcher decides the language.\<close>

lemma test_full_lang: "test_full r s \<longleftrightarrow> in_lang r s"
proof -
  have "test_full r s \<longleftrightarrow> (\<exists>c. ([], c) \<in> set (parse r s []))"
    by (auto simp: test_full_def exec_full_def find_None_iff)
  then show ?thesis
    using parse_sound [of "[]" _ r s "[]"] parse_complete [of r s "[]" "[]"] by auto
qed

lemma exec_full_lang: "exec_full r s = Some c \<Longrightarrow> in_lang r s"
  using test_full_lang [of r s] by (simp add: test_full_def)

subsection \<open>The characters of a match\<close>

primrec all_chars :: "(char \<Rightarrow> bool) \<Rightarrow> regex \<Rightarrow> bool" where
  "all_chars Q Eps \<longleftrightarrow> True"
| "all_chars Q (Cls P) \<longleftrightarrow> (\<forall>x. P x \<longrightarrow> Q x)"
| "all_chars Q (Seq r s) \<longleftrightarrow> all_chars Q r \<and> all_chars Q s"
| "all_chars Q (Alt r s) \<longleftrightarrow> all_chars Q r \<and> all_chars Q s"
| "all_chars Q (Star r) \<longleftrightarrow> all_chars Q r"
| "all_chars Q (Group n r) \<longleftrightarrow> all_chars Q r"

lemma in_lang_chars: "in_lang r s \<Longrightarrow> all_chars Q r \<Longrightarrow> list_all Q s"
  by (induction rule: in_lang.induct) auto

lemma in_lang_Lit: "in_lang (Lit x) s \<longleftrightarrow> s = x"
proof (induction x arbitrary: s)
  case (Cons a x)
  then show ?case by (auto simp: in_lang_simps)
qed (simp add: in_lang_simps)

lemma all_chars_Lit: "all_chars Q (Lit x) \<longleftrightarrow> list_all Q x"
  by (induction x) auto

lemma all_chars_between: "all_chars Q r \<Longrightarrow> all_chars Q (between m n r)"
proof -
  assume r: "all_chars Q r"
  have "all_chars Q (Times k r)" for k using r by (induction k) auto
  moreover have "all_chars Q (UpTo k r)" for k using r by (induction k) auto
  ultimately show ?thesis by (simp add: between_def)
qed

subsection \<open>Reading captures\<close>

text \<open>What a step of the matcher consumed and captured, for sequences of pieces without inner groups.\<close>

primrec no_groups :: "regex \<Rightarrow> bool" where
  "no_groups Eps \<longleftrightarrow> True"
| "no_groups (Cls P) \<longleftrightarrow> True"
| "no_groups (Seq r s) \<longleftrightarrow> no_groups r \<and> no_groups s"
| "no_groups (Alt r s) \<longleftrightarrow> no_groups r \<and> no_groups s"
| "no_groups (Star r) \<longleftrightarrow> no_groups r"
| "no_groups (Group n r) \<longleftrightarrow> False"

lemma no_groups_Lit [simp]: "no_groups (Lit x)"
  by (induction x) auto

lemma parse_captures: "(rest, c') \<in> set (parse r s c) \<Longrightarrow> no_groups r \<Longrightarrow> c' = c"
proof (induction r s c arbitrary: rest c' rule: parse.induct)
  case (5 r s c)
  then show ?case unfolding parse_star [of r s c] by (force split: if_splits)
qed (force split: list.splits if_splits)+

lemma parse_SeqE:
  assumes "(rest, c') \<in> set (parse (Seq r1 r2) s c)"
  obtains s1 c1 where "(s1, c1) \<in> set (parse r1 s c)" and "(rest, c') \<in> set (parse r2 s1 c1)"
  using assms by (auto split: if_splits)

lemma parse_plainE:
  assumes "(rest, c') \<in> set (parse r s c)" and "no_groups r"
  obtains w where "s = w @ rest" and "in_lang r w" and "c' = c"
  using parse_sound [OF assms(1)] parse_captures [OF assms] by blast

lemma parse_LitE:
  assumes "(rest, c') \<in> set (parse (Lit x) s c)"
  obtains "s = x @ rest" and "c' = c"
  using parse_plainE [OF assms no_groups_Lit] by (metis in_lang_Lit)

lemma parse_GroupE:
  assumes "(rest, c') \<in> set (parse (Group n r) s c)" and "no_groups r"
  obtains w where "s = w @ rest" and "in_lang r w" and "c' = (n, w) # c"
proof -
  obtain c1 where c1: "(rest, c1) \<in> set (parse r s c)" "c' = (n, take (length s - length rest) s) # c1"
    using assms(1) by auto
  from parse_plainE [OF c1(1) assms(2)] obtain w where "s = w @ rest" "in_lang r w" "c1 = c" .
  then show ?thesis using that c1(2) by auto
qed

lemma in_lang_Star_Cls: "in_lang (Star (Cls P)) w \<longleftrightarrow> list_all P w"
proof
  show "in_lang (Star (Cls P)) w \<Longrightarrow> list_all P w"
    by (erule in_lang_chars) simp
  show "list_all P w \<Longrightarrow> in_lang (Star (Cls P)) w"
  proof (induction w)
    case (Cons x w)
    then have "in_lang (Star (Cls P)) ([x] @ w)" by (intro in_lang.star1 in_lang.cls) auto
    then show ?case by simp
  qed (simp add: in_lang.star0)
qed

lemma in_lang_Plus_Cls: "in_lang (Plus (Cls P)) w \<longleftrightarrow> w \<noteq> [] \<and> list_all P w"
proof
  show "in_lang (Plus (Cls P)) w \<Longrightarrow> w \<noteq> [] \<and> list_all P w"
    by (auto simp: in_lang_simps in_lang_Star_Cls)
  show "w \<noteq> [] \<and> list_all P w \<Longrightarrow> in_lang (Plus (Cls P)) w"
    using in_lang.seq [of "Cls P" "[hd w]" "Star (Cls P)" "tl w"]
    by (cases w) (simp_all add: in_lang_Star_Cls in_lang_simps(2))
qed


subsection \<open>Matches in a text\<close>

lemma exec_prefix_lang: "exec_prefix r s = Some (m, c, rest) \<Longrightarrow> s = m @ rest \<and> in_lang r m"
  using parse_sound [of rest c r s "[]"] by (fastforce simp: exec_prefix_def split: list.splits)

lemma match_all_lang: "m \<in> set (match_all r s) \<Longrightarrow> in_lang r m"
proof (induction r s rule: match_all.induct)
  case (2 r x xs)
  show ?case
  proof (cases "exec_prefix r (x # xs)")
    case None
    then show ?thesis using 2 by simp
  next
    case (Some a)
    obtain m' c rest where a: "a = (m', c, rest)" by (cases a)
    note p = exec_prefix_lang [OF Some [unfolded a]]
    show ?thesis
    proof (cases "length rest < length (x # xs)")
      case True
      then have "m = m' \<or> m \<in> set (match_all r rest)" using "2.prems" Some a by simp
      then show ?thesis using "2.IH"(2) [OF Some a [symmetric] refl True] p by blast
    next
      case False
      then have "m \<in> set (match_all r xs)" using "2.prems" Some a by simp
      then show ?thesis using "2.IH"(3) [OF Some a [symmetric] refl False] by blast
    qed
  qed
qed simp

end
