(* ===== verification/Safe_Redirect.thy ===== *)
theory Safe_Redirect
  imports Js_Url
begin

section \<open>The redirect target after login (\<open>apps/web/lib/auth/safe-redirect.ts\<close>)\<close>

text \<open>
  \<open>safeRedirectPath\<close> as the source has it, over the URL operations of \<open>Js_Url\<close>; a null or
  undefined argument is \<^term>\<open>None\<close>. The host parser is the parameter \<open>origin_of\<close>, and every
  property holds for each such parser.
\<close>

definition INTERNAL_BASE :: string where
  "INTERNAL_BASE = ''http://internal.invalid''"

definition safeRedirectPath :: "(string \<Rightarrow> string option) \<Rightarrow> string option \<Rightarrow> string" where
  "safeRedirectPath origin_of value =
     (case value of
        None \<Rightarrow> ''/''
      | Some v \<Rightarrow>
          if v = [] \<or> \<not> starts_with v ''/'' \<or> starts_with v ''//'' then ''/''
          else if starts_with v [CHR ''/'', CHR 0x5C] then ''/''
          else (case url_parse_slash origin_of INTERNAL_BASE v of
                  None \<Rightarrow> ''/''
                | Some resolved \<Rightarrow>
                    if origin resolved \<noteq> INTERNAL_BASE then ''/''
                    else pathname resolved @ search resolved @ hash resolved))"

subsection \<open>Reading a serialised URL back\<close>

text \<open>What a serialised path, query or fragment consists of: printable ASCII without the space.\<close>

definition visible :: "char \<Rightarrow> bool" where
  "visible c \<longleftrightarrow> (32::nat) < of_char c \<and> of_char c < (127::nat)"

lemma visible_digit: "c \<in> set ''%0123456789ABCDEF'' \<Longrightarrow>
    visible c \<and> \<not> special_query_set c \<and> \<not> fragment_set c"
  by (auto simp: visible_def special_query_set_def fragment_set_def)

lemma pct_encode_clean:
  assumes "\<And>c. c \<in> set ''%0123456789ABCDEF'' \<Longrightarrow> \<not> S c" and "d \<in> set (pct_encode S s)"
  shows "\<not> S d"
proof -
  from assms(2) obtain x where "d \<in> set (pct_char S x)" by (auto simp: pct_encode_def)
  then show ?thesis
    by (cases "S x") (auto simp: pct_char_def simp del: list.set dest: utf8_pct_digit assms(1), simp)
qed

lemma pct_encode_id: "\<forall>c \<in> set s. \<not> S c \<Longrightarrow> pct_encode S s = s"
  by (induction s) (auto simp: pct_encode_def pct_char_def)

lemma pct_encode_Nil [simp]: "pct_encode S [] = []"
  by (simp add: pct_encode_def)

lemma of_char_space: "of_char c = (32::nat) \<Longrightarrow> c = CHR '' ''"
proof -
  assume "of_char c = (32::nat)"
  then have "of_char c = (of_char (CHR '' '') :: nat)" by simp
  then show ?thesis by (simp only: of_char_eq_iff)
qed

lemma visibleI: "(31::nat) < of_char c \<Longrightarrow> of_char c \<le> (126::nat) \<Longrightarrow> c \<noteq> CHR '' '' \<Longrightarrow> visible c"
  using of_char_space [of c] unfolding visible_def by linarith

lemma not_special_visible: "\<not> special_query_set c \<Longrightarrow> visible c"
  unfolding special_query_set_def by (intro visibleI) (simp_all add: not_le)

lemma not_fragment_visible: "\<not> fragment_set c \<Longrightarrow> visible c"
  unfolding fragment_set_def by (intro visibleI) (simp_all add: not_le)

lemma plain_visible: "plain_char c \<Longrightarrow> visible c"
  unfolding plain_char_def path_set_def by (intro visibleI) (simp_all add: not_le)

lemma url_clean_visible:
  assumes "\<forall>c \<in> set s. visible c"
  shows "url_clean s = s"
proof -
  have drop: "dropWhile c0_or_space xs = xs" if "\<forall>c \<in> set xs. visible c" for xs
    using that by (cases xs) (auto simp: visible_def c0_or_space_def)
  have "filter (\<lambda>c. c \<notin> set [CHR 0x09, CHR 0x0A, CHR 0x0D]) s = s"
    using assms by (induction s) (auto simp: visible_def)
  then show ?thesis using assms by (simp add: url_clean_def drop)
qed


lemma path_string_visible: "\<forall>s \<in> set segs. clean_seg s \<Longrightarrow> \<forall>c \<in> set (path_string segs). visible c"
  by (auto simp: path_string_def clean_seg_def plain_visible) (simp add: visible_def)

lemma prefixed_visible: "visible c \<Longrightarrow> \<forall>d \<in> set s. visible d \<Longrightarrow> \<forall>d \<in> set (prefixed c s). visible d"
  by (simp add: prefixed_def)

lemma query_clean: "\<forall>d \<in> set (pct_encode special_query_set s). \<not> special_query_set d"
  using pct_encode_clean [of special_query_set] visible_digit by blast

lemma fragment_clean: "\<forall>d \<in> set (pct_encode fragment_set s). \<not> fragment_set d"
  using pct_encode_clean [of fragment_set] visible_digit by blast

text \<open>The query and fragment of a serialised URL are read back as they are.\<close>

definition tail_ok :: "string \<Rightarrow> string \<Rightarrow> bool" where
  "tail_ok q f \<longleftrightarrow>
     (q = [] \<or> (\<exists>r. r \<noteq> [] \<and> q = CHR ''?'' # r \<and> (\<forall>c \<in> set r. \<not> special_query_set c))) \<and>
     (f = [] \<or> (\<exists>r. r \<noteq> [] \<and> f = CHR ''#'' # r \<and> (\<forall>c \<in> set r. \<not> fragment_set c)))"

lemma url_tail_ok: "url_tail s = (q, f) \<Longrightarrow> tail_ok q f"
  using query_clean fragment_clean
  by (auto simp: url_tail_def Let_def tail_ok_def prefixed_def split: if_splits)

lemma hash_special: "special_query_set (CHR ''#'')"
  by (simp add: special_query_set_def)

lemma url_tail_again:
  assumes "tail_ok q f" shows "url_tail (q @ f) = (q, f)"
proof -
  have q: "CHR ''#'' \<notin> set q" "q = [] \<or> prefixed (CHR ''?'') (pct_encode special_query_set (tl q)) = q"
    using assms hash_special by (auto simp: tail_ok_def prefixed_def pct_encode_id)
  have f: "f = [] \<or> hd f = CHR ''#'' \<and> prefixed (CHR ''#'') (pct_encode fragment_set (tl f)) = f"
    using assms by (auto simp: tail_ok_def prefixed_def pct_encode_id)
  have "takeWhile (\<lambda>c. c \<noteq> CHR ''#'') (q @ f) = q" "dropWhile (\<lambda>c. c \<noteq> CHR ''#'') (q @ f) = f"
  proof -
    have q': "\<forall>c \<in> set q. c \<noteq> CHR ''#''" using q(1) by blast
    have "takeWhile (\<lambda>c. c \<noteq> CHR ''#'') f = []" "dropWhile (\<lambda>c. c \<noteq> CHR ''#'') f = f"
      using f by (cases f; simp)+
    then show "takeWhile (\<lambda>c. c \<noteq> CHR ''#'') (q @ f) = q" "dropWhile (\<lambda>c. c \<noteq> CHR ''#'') (q @ f) = f"
      using q' by simp_all
  qed
  then show ?thesis using q f by (auto simp: url_tail_def Let_def)
qed

lemma tail_at_end: "tail_ok q f \<Longrightarrow> at_end (q @ f)"
  by (auto simp: tail_ok_def at_end_def)

lemma tail_visible: "tail_ok q f \<Longrightarrow> \<forall>c \<in> set (q @ f). visible c"
  by (auto simp: tail_ok_def not_special_visible not_fragment_visible) (simp_all add: visible_def)

text \<open>The invariant of \<open>url_after_origin\<close>: clean segments, and a tail that is read back.\<close>

lemma url_after_origin_parts:
  obtains segs where "segs \<noteq> []" "\<forall>s \<in> set segs. clean_seg s"
    "pathname (url_after_origin org s) = path_string segs"
    "tail_ok (search (url_after_origin org s)) (hash (url_after_origin org s))"
proof -
  obtain path rest where p: "url_path [] [] s = (path, rest)" by fastforce
  obtain q f where t: "url_tail rest = (q, f)" by fastforce
  have "path \<noteq> []" "\<forall>s \<in> set path. clean_seg s"
    using url_path_not_Nil [of "[]" "[]" s] clean_url_path [of "[]" "[]" s] by (auto simp: p)
  moreover have "pathname (url_after_origin org s) = path_string path"
    "search (url_after_origin org s) = q" "hash (url_after_origin org s) = f"
    by (simp_all add: url_after_origin_def p t)
  ultimately show ?thesis using that url_tail_ok [OF t] by metis
qed

lemma url_after_origin_again:
  assumes "segs \<noteq> []" "\<forall>s \<in> set segs. clean_seg s" "tail_ok q f"
  shows "url_after_origin org (tl (path_string segs) @ q @ f)
       = \<lparr>origin = org, pathname = path_string segs, search = q, hash = f\<rparr>"
  using url_path_segments [OF assms(1,2) tail_at_end [OF assms(3)], of "[]"] url_tail_again [OF assms(3)]
  by (simp add: url_after_origin_def)

subsection \<open>What \<open>safeRedirectPath\<close> returns\<close>

lemma safe_path_cases:
  obtains "safeRedirectPath origin_of value = ''/''"
  | segs q f where "segs \<noteq> []" "\<forall>s \<in> set segs. clean_seg s" "tail_ok q f"
      "safeRedirectPath origin_of value = path_string segs @ q @ f"
proof (cases "safeRedirectPath origin_of value = ''/''")
  case False
  then obtain v u where u: "url_parse_slash origin_of INTERNAL_BASE v = Some u"
    and r: "safeRedirectPath origin_of value = pathname u @ search u @ hash u"
    by (auto simp: safeRedirectPath_def split: option.splits if_splits)
  obtain org s where "u = url_after_origin org s"
    using u by (auto simp: url_parse_slash_def Let_def split: list.splits if_splits)
  then show thesis using that(2) r by (metis url_after_origin_parts)
qed (rule that(1))

lemma path_string_slash: "segs \<noteq> [] \<Longrightarrow> path_string segs = CHR ''/'' # tl (path_string segs)"
  by (cases segs) (simp_all add: path_string_def)

lemma no_backslash: "visible c \<Longrightarrow> plain_char c \<Longrightarrow> c \<noteq> CHR 0x5C"
  by (auto simp: plain_char_def is_slash_def)

text \<open>Whatever the argument (null, empty, an absolute URL, garbage, an invalid host), the
  redirect target starts with a slash: it is never an absolute URL.\<close>

theorem redirect_is_rooted: "starts_with (safeRedirectPath origin_of value) ''/''"
proof (rule safe_path_cases [of origin_of "value"])
  fix segs q f
  assume "segs \<noteq> []" "safeRedirectPath origin_of value = path_string segs @ q @ f"
  then show ?thesis using path_string_slash [of segs] by (metis append_Cons starts_with_Cons starts_with_Nil)
qed simp

text \<open>A clean path is not followed by a backslash after its first slash.\<close>

lemma second_char:
  assumes "segs \<noteq> []" "\<forall>s \<in> set segs. clean_seg s" "tail_ok q f"
  shows "\<not> starts_with (path_string segs @ q @ f) [CHR ''/'', CHR 0x5C]"
proof
  assume *: "starts_with (path_string segs @ q @ f) [CHR ''/'', CHR 0x5C]"
  obtain s ss where segs: "segs = s # ss" using assms(1) by (cases segs) auto
  have "hd (s @ path_string ss @ q @ f) = CHR 0x5C \<and> s @ path_string ss @ q @ f \<noteq> []"
    using * unfolding segs
    by (cases "s @ path_string ss @ q @ f") (auto simp: path_string_def)
  moreover have "s \<noteq> [] \<Longrightarrow> hd s \<noteq> CHR 0x5C"
    using assms(2) plain_not_delim [of "hd s"] by (auto simp: segs clean_seg_def is_slash_def)
  moreover have "ss \<noteq> [] \<Longrightarrow> hd (path_string ss @ q @ f) = CHR ''/''"
    by (metis append_Cons list.sel(1) path_string_slash)
  moreover have "q @ f \<noteq> [] \<Longrightarrow> hd (q @ f) \<in> {CHR ''?'', CHR ''#''}"
    using assms(3) by (auto simp: tail_ok_def)
  ultimately show False
    by (cases "s = []"; cases "ss = []") (auto simp: path_string_def)
qed

text \<open>A value the guard lets through and the parser leaves alone.\<close>

lemma safe_path_of_clean:
  assumes "segs \<noteq> []" "\<forall>s \<in> set segs. clean_seg s" "tail_ok q f"
    and "\<not> starts_with (path_string segs @ q @ f) ''//''"
  shows "safeRedirectPath origin_of (Some (path_string segs @ q @ f)) = path_string segs @ q @ f"
proof -
  let ?v = "path_string segs @ q @ f" and ?t = "tl (path_string segs) @ q @ f"
  have v: "?v = CHR ''/'' # ?t" using path_string_slash [OF assms(1)] by (metis append_Cons)
  have clean: "url_clean ?v = ?v"
    using path_string_visible [OF assms(2)] tail_visible [OF assms(3)] by (intro url_clean_visible) auto
  have hd: "\<not> (?t \<noteq> [] \<and> is_slash (hd ?t))"
    using second_char [OF assms(1-3)] assms(4) unfolding v by (cases ?t) (auto simp: is_slash_def)
  have parse: "url_parse_slash origin_of INTERNAL_BASE ?v
      = Some \<lparr>origin = INTERNAL_BASE, pathname = path_string segs, search = q, hash = f\<rparr>"
    unfolding url_parse_slash_def clean unfolding v list.case if_not_P [OF hd]
    by (simp add: url_after_origin_again [OF assms(1-3)])
  have "starts_with ?v ''/''" "?v \<noteq> []" by (simp_all only: v starts_with_Cons) simp_all
  then show ?thesis
    using parse assms(4) second_char [OF assms(1-3)] unfolding safeRedirectPath_def by simp
qed

text \<open>Applying \<open>safeRedirectPath\<close> to its own result changes nothing, unless the result starts
  with two slashes, and then the second application rejects it: the guard the login page relies
  on is stable on everything it accepts.\<close>

theorem redirect_is_stable:
  "safeRedirectPath origin_of (Some (safeRedirectPath origin_of value)) =
     (if starts_with (safeRedirectPath origin_of value) ''//'' then ''/''
      else safeRedirectPath origin_of value)"
proof (rule safe_path_cases [of origin_of "value"])
  assume r: "safeRedirectPath origin_of value = ''/''"
  have "safeRedirectPath origin_of (Some ''/'') = ''/''"
    using safe_path_of_clean [of "[[]]" "[]" "[]"] by (simp add: path_string_def tail_ok_def)
  then show ?thesis unfolding r by simp
next
  fix segs q f
  assume a: "segs \<noteq> []" "\<forall>s \<in> set segs. clean_seg s" "tail_ok q f"
    and r: "safeRedirectPath origin_of value = path_string segs @ q @ f"
  show ?thesis
  proof (cases "starts_with (path_string segs @ q @ f) ''//''")
    case True
    then show ?thesis unfolding r by (simp add: safeRedirectPath_def)
  next
    case False
    then show ?thesis unfolding r using safe_path_of_clean [OF a False] by simp
  qed
qed

text \<open>The segments of the path part of a reference, as the path state cuts them.\<close>

fun raw_segments :: "string \<Rightarrow> string \<Rightarrow> string list" where
  "raw_segments buf [] = [buf]"
| "raw_segments buf (c # cs) =
     (if is_slash c then buf # raw_segments [] cs
      else if c = CHR ''?'' \<or> c = CHR ''#'' then [buf]
      else raw_segments (buf @ pct_char path_set c) cs)"

lemma url_path_no_dots:
  "\<forall>s \<in> set (raw_segments buf cs). \<not> single_dot s \<and> \<not> double_dot s \<Longrightarrow>
   fst (url_path path buf cs) = path @ raw_segments buf cs"
  by (induction path buf cs rule: url_path.induct) (auto simp: end_segment_def)

lemma raw_segments_hd: "\<exists>w. hd (raw_segments buf cs) = buf @ w"
proof (induction buf cs rule: raw_segments.induct)
  case (2 buf c cs)
  show ?case
    using 2(2) by (cases "is_slash c"; cases "c = CHR ''?'' \<or> c = CHR ''#''") auto
qed simp

lemma raw_segments_not_Nil: "raw_segments buf cs \<noteq> []"
  by (induction buf cs rule: raw_segments.induct) auto

lemma utf8_pct_not_Nil: "utf8_pct c \<noteq> []"
  by (simp add: utf8_pct_def pct_byte_def Let_def)

lemma pct_char_not_Nil: "pct_char S c \<noteq> []"
  by (simp add: pct_char_def utf8_pct_not_Nil)

lemma raw_segments_first:
  assumes "c \<noteq> CHR ''?''" "c \<noteq> CHR ''#''" "\<not> is_slash c"
  shows "hd (raw_segments [] (c # cs)) \<noteq> []"
  using assms raw_segments_hd [of "pct_char path_set c" cs] pct_char_not_Nil [of path_set c] by auto

lemma path_not_two_slashes:
  assumes "tail_ok q f" and "segs \<noteq> []" and "\<forall>s \<in> set segs. CHR ''/'' \<notin> set s"
    and "hd segs = [] \<Longrightarrow> tl segs = []"
  shows "\<not> starts_with (path_string segs @ q @ f) ''//''"
proof -
  obtain s ss where segs: "segs = s # ss" using assms(2) by (cases segs) auto
  show ?thesis
  proof (cases s)
    case Nil
    then show ?thesis
      using assms(1,4) by (auto simp: segs path_string_def tail_ok_def)
  next
    case (Cons c cs)
    then show ?thesis using assms(3) by (auto simp: segs path_string_def)
  qed
qed

lemma url_after_origin_segments:
  assumes "\<forall>s \<in> set (raw_segments [] s). \<not> single_dot s \<and> \<not> double_dot s"
  shows "pathname (url_after_origin org s) = path_string (raw_segments [] s)"
    and "tail_ok (search (url_after_origin org s)) (hash (url_after_origin org s))"
proof -
  show "pathname (url_after_origin org s) = path_string (raw_segments [] s)"
    using url_path_no_dots [OF assms, of "[]"]
    by (cases "url_path [] [] s") (simp add: url_after_origin_def split: prod.splits)
  show "tail_ok (search (url_after_origin org s)) (hash (url_after_origin org s))"
    by (rule url_after_origin_parts [of org s])
qed

text \<open>C12: A same-origin path without dot segments and without characters the URL parser strips
  is never turned into a protocol-relative target (\<open>//host\<close>), which the browser would follow
  off-site.\<close>

theorem redirect_stays_on_site:
  assumes "url_clean (CHR ''/'' # s) = CHR ''/'' # s"
    and "\<forall>seg \<in> set (raw_segments [] s). \<not> single_dot seg \<and> \<not> double_dot seg"
  shows "\<not> starts_with (safeRedirectPath origin_of (Some (CHR ''/'' # s))) ''//''"
proof (cases "s \<noteq> [] \<and> is_slash (hd s)")
  case True
  then show ?thesis by (cases s) (auto simp: safeRedirectPath_def is_slash_def)
next
  case False
  let ?u = "url_after_origin INTERNAL_BASE s"
  have parse: "url_parse_slash origin_of INTERNAL_BASE (CHR ''/'' # s) = Some ?u"
    unfolding url_parse_slash_def assms(1) list.case if_not_P [OF False] by (rule refl)
  have r: "safeRedirectPath origin_of (Some (CHR ''/'' # s))
      \<in> {''/'', path_string (raw_segments [] s) @ search ?u @ hash ?u}"
    using url_after_origin_segments(1) [OF assms(2)] by (simp add: safeRedirectPath_def parse)
  have slashes: "\<forall>s \<in> set (raw_segments [] s). CHR ''/'' \<notin> set s"
  proof -
    have "\<forall>seg \<in> set (fst (url_path [] [] s)). clean_seg seg" by (rule clean_url_path) simp_all
    then show ?thesis using url_path_no_dots [OF assms(2), of "[]"]
      by (auto simp: clean_seg_def plain_char_def is_slash_def)
  qed
  have "hd (raw_segments [] s) = [] \<Longrightarrow> tl (raw_segments [] s) = []"
    using False raw_segments_first by (cases s) (auto split: if_splits)
  then have "\<not> starts_with (path_string (raw_segments [] s) @ search ?u @ hash ?u) ''//''"
    using url_after_origin_segments(2) [OF assms(2)] raw_segments_not_Nil slashes
    by (intro path_not_two_slashes) auto
  then show ?thesis using r by auto
qed

theorem redirect_stays_on_site_witness:
  "\<not> starts_with (safeRedirectPath (\<lambda>_. None) (Some ''/repos?page=2'')) ''//''"
proof -
  have "url_clean (CHR ''/'' # ''repos?page=2'') = CHR ''/'' # ''repos?page=2''"
    by code_simp
  moreover have "\<forall>seg \<in> set (raw_segments [] ''repos?page=2''). \<not> single_dot seg \<and> \<not> double_dot seg"
    by code_simp
  ultimately show ?thesis by (rule redirect_stays_on_site)
qed

text \<open>A detour: a dot segment, or a segment and the double dot that takes it back, each with its
  slash; the dots may be percent-encoded. The path state leaves no trace of it.\<close>

definition detour :: "string \<Rightarrow> bool" where
  "detour w \<longleftrightarrow> (\<exists>d. single_dot d \<and> w = d @ ''/'') \<or>
     (\<exists>x d. x \<noteq> [] \<and> clean_seg x \<and> double_dot d \<and> w = x @ ''/'' @ d @ ''/'')"

lemma lower_dots:
  "ascii_lower c = CHR ''.'' \<longleftrightarrow> c = CHR ''.''" "ascii_lower c = CHR ''%'' \<longleftrightarrow> c = CHR ''%''"
  "ascii_lower c = CHR ''2'' \<longleftrightarrow> c = CHR ''2''" "ascii_lower c = CHR ''e'' \<longleftrightarrow> c \<in> {CHR ''e'', CHR ''E''}"
  by (auto simp: lower_code Let_def simp flip: of_char_eq_iff [where ?'a = nat])

lemma lower_plain: "ascii_lower c \<in> set ''.%2e'' \<Longrightarrow> plain_char c"
  by (auto simp: lower_dots plain_char_def path_set_def is_slash_def)

lemma dots_plain:
  assumes "single_dot d \<or> double_dot d"
  shows "\<forall>c \<in> set d. plain_char c" and "d \<noteq> []"
proof -
  have "\<forall>c \<in> set (map ascii_lower d). c \<in> set ''.%2e''"
    using assms by (auto simp: single_dot_def double_dot_def)
  then show "\<forall>c \<in> set d. plain_char c" using lower_plain by simp
  show "d \<noteq> []" using assms by (auto simp: single_dot_def double_dot_def)
qed

lemma single_not_double: "single_dot d \<Longrightarrow> \<not> double_dot d"
  by (auto simp: single_dot_def double_dot_def)

lemma url_path_slash: "url_path path buf (CHR ''/'' # cs) = url_path (end_segment True path buf) [] cs"
  by (simp add: is_slash_def)

lemma url_path_detour: "detour w \<Longrightarrow> url_path path [] (w @ cs) = url_path path [] cs"
proof (unfold detour_def, elim disjE exE conjE)
  fix d assume d: "single_dot d" "w = d @ ''/''"
  then show ?thesis
    using dots_plain(1) [of d] single_not_double [of d] by (simp add: url_path_plain url_path_slash end_segment_def del: url_path.simps)
next
  fix x d assume d: "x \<noteq> []" "clean_seg x" "double_dot d" "w = x @ ''/'' @ d @ ''/''"
  then show ?thesis
    using dots_plain(1) [of d] by (simp add: clean_seg_def url_path_plain url_path_slash end_segment_def del: url_path.simps)
qed

lemma url_path_detours: "\<forall>w \<in> set ws. detour w \<Longrightarrow> url_path path [] (concat ws @ cs) = url_path path [] cs"
  by (induction ws) (simp_all add: url_path_detour)

lemma detour_hd: "detour w \<Longrightarrow> \<exists>c t. w = c # t \<and> plain_char c"
proof (unfold detour_def, elim disjE exE conjE)
  fix d assume "single_dot d" "w = d @ ''/''"
  then show ?thesis using dots_plain [of d] by (cases d) auto
next
  fix x d assume "x \<noteq> []" "clean_seg x" "w = x @ ''/'' @ d @ ''/''"
  then show ?thesis by (cases x) (auto simp: clean_seg_def)
qed

lemma detour_visible: "detour w \<Longrightarrow> c \<in> set w \<Longrightarrow> visible c"
proof -
  assume "detour w" "c \<in> set w"
  then have "c = CHR ''/'' \<or> plain_char c"
    unfolding detour_def clean_seg_def using dots_plain(1) by (elim disjE exE conjE) (simp; blast)+
  then show ?thesis using plain_visible by (auto simp: visible_def)
qed

text \<open>C13: The guard has a gap. However a target is written, put behind a slash and one or more
  detours that the URL parser resolves (\<open>./\<close>, or a segment followed by \<open>../\<close>, the dots
  percent-encoded or not), it passes the prefix tests, and the parser, run after them, leaves
  exactly a slash and the target: \<open>/.//evil.example\<close> and \<open>/foo/..//evil.example\<close> come out as the
  protocol-relative \<open>//evil.example\<close>, which leaves the site.\<close>

theorem dot_segment_escapes:
  assumes "ws \<noteq> []" and "\<forall>w \<in> set ws. detour w"
    and "segs \<noteq> []" and "\<forall>s \<in> set segs. clean_seg s" and "tail_ok q f"
  shows "safeRedirectPath origin_of (Some (''/'' @ concat ws @ path_string segs @ q @ f)) =
           ''/'' @ path_string segs @ q @ f"
proof -
  let ?s = "concat ws @ path_string segs @ q @ f"
  obtain w vs where ws: "ws = w # vs" using assms(1) by (cases ws) auto
  then obtain c t where ct: "?s = c # t" "plain_char c"
    using detour_hd [of w] assms(2) by auto
  then have c: "\<not> is_slash c" using plain_not_delim by blast
  have "\<forall>d \<in> set (CHR ''/'' # ?s). visible d"
    using path_string_visible [OF assms(4)] tail_visible [OF assms(5)] assms(2) detour_visible
    by (auto simp: visible_def)
  then have clean: "url_clean (CHR ''/'' # c # t) = CHR ''/'' # c # t" unfolding ct(1) by (rule url_clean_visible)
  have segs: "path_string segs @ q @ f = CHR ''/'' # tl (path_string segs) @ q @ f"
    using path_string_slash [OF assms(3)] by (metis append_Cons)
  have "url_path [] [] ?s = url_path [] [] (path_string segs @ q @ f)"
    by (rule url_path_detours [OF assms(2)])
  also have "\<dots> = url_path [[]] [] (tl (path_string segs) @ q @ f)"
    unfolding segs url_path_slash by (simp add: end_segment_clean)
  also have "\<dots> = ([] # segs, q @ f)"
    using url_path_segments [OF assms(3,4) tail_at_end [OF assms(5)], of "[[]]"] by simp
  finally have "url_after_origin INTERNAL_BASE ?s
      = \<lparr>origin = INTERNAL_BASE, pathname = ''/'' @ path_string segs, search = q, hash = f\<rparr>"
    using url_tail_again [OF assms(5)] by (simp add: url_after_origin_def path_string_def)
  then have "url_parse_slash origin_of INTERNAL_BASE (CHR ''/'' # ?s)
      = Some \<lparr>origin = INTERNAL_BASE, pathname = ''/'' @ path_string segs, search = q, hash = f\<rparr>"
    using c by (simp add: url_parse_slash_def clean ct(1))
  then show ?thesis using c by (simp add: safeRedirectPath_def ct(1)) (auto simp: is_slash_def)
qed

theorem dot_segment_escapes_witness:
  "safeRedirectPath (\<lambda>_. None) (Some ''/.//evil.example'') = ''//evil.example'' \<and>
   safeRedirectPath (\<lambda>_. None) (Some ''/foo/..//evil.example?a=b'') = ''//evil.example?a=b''"
proof
  have seg: "\<forall>s \<in> set [''evil.example'']. clean_seg s" by code_simp
  have path: "path_string [''evil.example''] = ''/evil.example''" by code_simp
  have "detour ''./''" by (simp add: detour_def) (simp add: single_dot_def ascii_lower_def)
  then show "safeRedirectPath (\<lambda>_. None) (Some ''/.//evil.example'') = ''//evil.example''"
    using dot_segment_escapes [of "[''./'']" "[''evil.example'']" "[]" "[]" "\<lambda>_. None"] seg by (simp add: path tail_ok_def)
  have dd: "clean_seg ''foo''" "double_dot ''..''" by code_simp+
  have "detour ''foo/../''"
    unfolding detour_def using dd by (intro disjI2 exI [of _ "''foo''"] exI [of _ "''..''"]) simp
  moreover have "tail_ok ''?a=b'' []" by (simp add: tail_ok_def special_query_set_def)
  ultimately show "safeRedirectPath (\<lambda>_. None) (Some ''/foo/..//evil.example?a=b'') = ''//evil.example?a=b''"
    using dot_segment_escapes [of "[''foo/../'']" "[''evil.example'']" "''?a=b''" "[]" "\<lambda>_. None"] seg by (simp add: path)
qed

text \<open>When stripping tabs and newlines uncovers a second slash, the reference names a host;
  unless that host serialises to the internal base itself, it is answered by \<open>/\<close>, an invalid host
  included.\<close>

theorem foreign_host_rejected:
  assumes "url_clean v = c # d # t" and "is_slash d"
    and "origin_of (takeWhile (\<lambda>c. \<not> authority_end c) (dropWhile is_slash t)) \<noteq> Some INTERNAL_BASE"
  shows "safeRedirectPath origin_of (Some v) = ''/''"
proof -
  have "origin u \<noteq> INTERNAL_BASE" if "url_parse_slash origin_of INTERNAL_BASE v = Some u" for u
    using that assms by (auto simp: url_parse_slash_def Let_def)
  then show ?thesis by (auto simp: safeRedirectPath_def split: option.splits)
qed

theorem foreign_host_rejected_witness:
  "safeRedirectPath (\<lambda>h. Some (''http://'' @ h)) (Some (CHR ''/'' # CHR 0x09 # ''/evil.example/x'')) = ''/''"
proof (rule foreign_host_rejected)
  show "url_clean (CHR ''/'' # CHR 0x09 # ''/evil.example/x'') = CHR ''/'' # CHR ''/'' # ''evil.example/x''"
    by code_simp
qed code_simp+

end
