(* ===== verification/Auth_Middleware.thy ===== *)
theory Auth_Middleware
  imports Safe_Redirect
begin

section \<open>The session guard of the web application (\<open>apps/web/middleware.ts\<close>)\<close>

text \<open>
  Every page request runs \<open>middleware\<close>, which asks the Go server for the session and redirects.
  The Go server is the parameter \<open>fetch\<close>: what \<open>await fetch(url, init)\<close> gives for a request.
  The matcher of \<open>config\<close>, a regular expression with a negative lookahead, decides which paths
  run the middleware at all.
\<close>

definition DEFAULT_GO_API_URL :: string where "DEFAULT_GO_API_URL = ''http://127.0.0.1:8080''"
definition GO_SESSION_PATH :: string where "GO_SESSION_PATH = ''/api/v1/auth/session''"
definition LOGIN_PATH :: string where "LOGIN_PATH = ''/login''"

definition PUBLIC_AUTH_PATHS :: "string list" where
  "PUBLIC_AUTH_PATHS =
     [''/login'', ''/accept-invitation'', ''/forgot-password'', ''/reset-password'',
      ''/confirm-email-change'']"

text \<open>\<open>process.env.GO_API_URL\<close> is the argument: unset is \<^term>\<open>None\<close>.\<close>

definition getSessionCheckUrl :: "string option \<Rightarrow> string" where
  "getSessionCheckUrl env =
     strip_one_trailing (CHR ''/'') (case env of None \<Rightarrow> DEFAULT_GO_API_URL | Some u \<Rightarrow> u) @ GO_SESSION_PATH"

definition under_path :: "string \<Rightarrow> string \<Rightarrow> bool" where
  "under_path path pn \<longleftrightarrow> pn = path \<or> starts_with pn (path @ ''/'')"

definition isPublicAuthPath :: "string \<Rightarrow> bool" where
  "isPublicAuthPath pn \<longleftrightarrow> list_ex (\<lambda>path. under_path path pn) PUBLIC_AUTH_PATHS"

definition isLoginPath :: "string \<Rightarrow> bool" where
  "isLoginPath pn \<longleftrightarrow> under_path LOGIN_PATH pn"

text \<open>The session request, and what comes back: a rejected \<open>fetch\<close>, or a response whose body is
  JSON or fails to parse.\<close>

record session_request =
  req_url :: string
  req_cookie :: string
  req_accept :: string
  req_cache :: string

datatype session_outcome = Fetch_Throws | Response bool "jsval option"

record page_request =
  next_url :: url
  cookie_header :: "string option"

definition getSessionUser ::
  "string option \<Rightarrow> (session_request \<Rightarrow> session_outcome) \<Rightarrow> page_request \<Rightarrow> jsval" where
  "getSessionUser env fetch request =
     (case fetch \<lparr>req_url = getSessionCheckUrl env,
                  req_cookie = (case cookie_header request of None \<Rightarrow> [] | Some c \<Rightarrow> c),
                  req_accept = ''application/json'', req_cache = ''no-store''\<rparr> of
        Fetch_Throws \<Rightarrow> Null
      | Response ok body \<Rightarrow>
          if \<not> ok then Null
          else (case body of
                  None \<Rightarrow> Null
                | Some data \<Rightarrow>
                    (case get_prop data ''user'' of
                       None \<Rightarrow> Null
                     | Some user \<Rightarrow> if nullish user then Null else user)))"

datatype mw_response = Redirect url | Next

definition middleware ::
  "string option \<Rightarrow> (session_request \<Rightarrow> session_outcome) \<Rightarrow> page_request \<Rightarrow> mw_response" where
  "middleware env fetch request =
     (let pn = pathname (next_url request);
          onPublicAuthPath = isPublicAuthPath pn;
          onLoginPage = isLoginPath pn;
          user = getSessionUser env fetch request
      in if \<not> truthy user \<and> \<not> onPublicAuthPath then
           (let loginUrl = (next_url request)\<lparr>pathname := LOGIN_PATH, search := []\<rparr>;
                loginUrl' = (if pn \<noteq> ''/'' then loginUrl\<lparr>search := CHR ''?'' # params_string [(''redirect'', pn)]\<rparr>
                             else loginUrl)
            in Redirect loginUrl')
         else if truthy user \<and> onLoginPage then
           Redirect ((next_url request)\<lparr>pathname := ''/'', search := []\<rparr>)
         else Next)"

subsection \<open>The matcher\<close>

text \<open>An alternative of the lookahead, with the unescaped dot as a wildcard; and the alternative
  \<open>.*\.(?:svg|...)$\<close>.\<close>

fun wild_prefix :: "string \<Rightarrow> string \<Rightarrow> bool" where
  "wild_prefix [] s \<longleftrightarrow> True"
| "wild_prefix (p # ps) [] \<longleftrightarrow> False"
| "wild_prefix (p # ps) (c # cs) \<longleftrightarrow> (p = CHR ''.'' \<or> p = c) \<and> wild_prefix ps cs"

definition asset_suffix :: "string \<Rightarrow> bool" where
  "asset_suffix s \<longleftrightarrow>
     list_ex (\<lambda>ext. ends_with s (CHR ''.'' # ext)) [''svg'', ''png'', ''jpg'', ''jpeg'', ''gif'', ''webp'', ''ico'']"

definition middleware_matcher :: "string \<Rightarrow> bool" where
  "middleware_matcher pn \<longleftrightarrow>
     starts_with pn ''/'' \<and>
     (let rest = drop 1 pn
      in \<not> list_ex (\<lambda>p. wild_prefix p rest)
             [''api'', ''_next/static'', ''_next/image'', ''favicon.ico'', ''sitemap.xml'', ''robots.txt''] \<and>
         \<not> asset_suffix rest)"

subsection \<open>What is served, and where redirects lead\<close>

definition signed_in :: "string option \<Rightarrow> (session_request \<Rightarrow> session_outcome) \<Rightarrow> page_request \<Rightarrow> bool" where
  "signed_in env fetch request \<longleftrightarrow> truthy (getSessionUser env fetch request)"

lemma login_is_public: "isLoginPath pn \<Longrightarrow> isPublicAuthPath pn"
  by (simp add: isLoginPath_def isPublicAuthPath_def PUBLIC_AUTH_PATHS_def LOGIN_PATH_def)

lemma guard_cases:
  "middleware env fetch request = Next \<longleftrightarrow>
     (if signed_in env fetch request then \<not> isLoginPath (pathname (next_url request))
      else isPublicAuthPath (pathname (next_url request)))"
  using login_is_public by (auto simp: middleware_def signed_in_def Let_def)

text \<open>The public pages by the first segment of the path.\<close>

definition first_segment :: "string \<Rightarrow> string option" where
  "first_segment pn = (case pn of [] \<Rightarrow> None | c # r \<Rightarrow> if c = CHR ''/'' then Some (takeWhile (\<lambda>c. c \<noteq> CHR ''/'') r) else None)"

lemma takeWhile_prefix: "x \<notin> set seg \<Longrightarrow> takeWhile (\<lambda>c. c \<noteq> x) r = seg \<longleftrightarrow> r = seg \<or> (\<exists>t. r = seg @ x # t)"
proof (induction seg arbitrary: r)
  case Nil
  then show ?case by (cases r) auto
next
  case (Cons c seg)
  then show ?case by (cases r) auto
qed

lemma under_path_segment: "CHR ''/'' \<notin> set seg \<Longrightarrow> under_path (CHR ''/'' # seg) pn \<longleftrightarrow> first_segment pn = Some seg"
  by (cases pn) (auto simp: under_path_def first_segment_def takeWhile_prefix starts_with_conv)

lemma public_segments:
  "isLoginPath pn \<longleftrightarrow> first_segment pn = Some ''login''"
  "isPublicAuthPath pn \<longleftrightarrow> first_segment pn \<in>
     Some ` {''login'', ''accept-invitation'', ''forgot-password'', ''reset-password'', ''confirm-email-change''}"
  by (auto simp: isLoginPath_def LOGIN_PATH_def isPublicAuthPath_def PUBLIC_AUTH_PATHS_def under_path_segment)

text \<open>C1: The middleware lets a request through exactly when it comes from a signed-in user outside
  the login page, or from anyone else on a public authentication page, where a page is told by the
  whole first segment of its path (\<open>/login/x\<close> is the login page, \<open>/login-x\<close> is not): no other page is
  served without a session.\<close>

theorem guard_exact:
  "middleware env fetch request = Next \<longleftrightarrow>
     (let page = first_segment (pathname (next_url request))
      in if signed_in env fetch request then page \<noteq> Some ''login''
         else page \<in> Some ` {''login'', ''accept-invitation'', ''forgot-password'', ''reset-password'', ''confirm-email-change''})"
  unfolding guard_cases public_segments Let_def by simp

text \<open>C15: A failing session check counts as signed out: a rejected fetch, an error status, a body
  that is not JSON, JSON \<open>null\<close>, and a missing or null user all send a protected page to the login
  page of the same origin.\<close>

theorem session_failure_locks:
  assumes "\<And>r. fetch r = Fetch_Throws \<or> (\<exists>b. fetch r = Response False b) \<or> fetch r = Response True None
      \<or> (\<exists>d. fetch r = Response True (Some d) \<and> nullish (opt_prop d ''user''))"
    and "\<not> isPublicAuthPath (pathname (next_url request))"
  shows "\<exists>u. middleware env fetch request = Redirect u \<and> pathname u = LOGIN_PATH
      \<and> origin u = origin (next_url request)"
proof -
  have "\<not> signed_in env fetch request"
    using assms(1) [of "\<lparr>req_url = getSessionCheckUrl env,
        req_cookie = (case cookie_header request of None \<Rightarrow> [] | Some c \<Rightarrow> c),
        req_accept = ''application/json'', req_cache = ''no-store''\<rparr>"]
    by (auto simp: signed_in_def getSessionUser_def opt_prop_def split: option.splits)
  then show ?thesis using assms(2) by (simp add: middleware_def signed_in_def Let_def)
qed

theorem session_failure_locks_witness:
  "\<exists>u. middleware None (\<lambda>_. Response True (Some Null))
        \<lparr>next_url = \<lparr>origin = ''http://h'', pathname = ''/repos'', search = [], hash = []\<rparr>, cookie_header = None\<rparr>
      = Redirect u \<and> pathname u = LOGIN_PATH \<and> origin u = ''http://h''"
  using session_failure_locks [where fetch = "\<lambda>_. Response True (Some Null)" and env = None
      and request = "\<lparr>next_url = \<lparr>origin = ''http://h'', pathname = ''/repos'', search = [], hash = []\<rparr>, cookie_header = None\<rparr>"]
  by (simp add: opt_prop_def isPublicAuthPath_def PUBLIC_AUTH_PATHS_def under_path_def)

lemma redirect_cases:
  assumes "middleware env fetch request = Redirect u"
  shows "if signed_in env fetch request
         then isLoginPath (pathname (next_url request)) \<and> u = (next_url request)\<lparr>pathname := ''/'', search := []\<rparr>
         else \<not> isPublicAuthPath (pathname (next_url request)) \<and> pathname u = LOGIN_PATH
              \<and> origin u = origin (next_url request) \<and> hash u = hash (next_url request)
              \<and> search u = (if pathname (next_url request) = ''/'' then []
                            else CHR ''?'' # params_string [(''redirect'', pathname (next_url request))])"
  using assms login_is_public by (auto simp: middleware_def signed_in_def Let_def split: if_splits)

text \<open>The session depends on the cookie, not on the page.\<close>

lemma signed_in_url [simp]: "signed_in env fetch (request\<lparr>next_url := u\<rparr>) = signed_in env fetch request"
  by (simp add: signed_in_def getSessionUser_def)

lemma public_pages [simp]: "isPublicAuthPath LOGIN_PATH" "\<not> isLoginPath ''/''"
  by (simp_all add: isPublicAuthPath_def PUBLIC_AUTH_PATHS_def under_path_def LOGIN_PATH_def isLoginPath_def)

text \<open>No redirect loop: a browser that follows the redirect with the same cookies, while the
  server gives the same answer, is served the page it was sent to.\<close>

theorem no_redirect_loop:
  assumes "middleware env fetch request = Redirect u"
  shows "middleware env fetch (request\<lparr>next_url := u\<rparr>) = Next"
  using redirect_cases [OF assms] by (auto simp: guard_cases split: if_splits)

lemma visible_ascii: "\<forall>c \<in> set s. visible c \<Longrightarrow> ascii s"
  by (force simp: ascii_def visible_def)

lemma safe_path_of_path:
  assumes "segs \<noteq> []" "\<forall>s \<in> set segs. clean_seg s" "\<not> starts_with (path_string segs) ''//''"
  shows "safeRedirectPath origin_of (Some (path_string segs)) = path_string segs"
  using safe_path_of_clean [of segs "[]" "[]"] assms by (simp add: tail_ok_def)

theorem no_redirect_loop_witness:
  "\<exists>u. middleware None (\<lambda>_. Fetch_Throws)
      \<lparr>next_url = \<lparr>origin = ''http://h'', pathname = ''/repos'', search = [], hash = []\<rparr>, cookie_header = None\<rparr> = Redirect u
    \<and> middleware None (\<lambda>_. Fetch_Throws) \<lparr>next_url = u, cookie_header = None\<rparr> = Next"
proof -
  let ?r = "\<lparr>next_url = \<lparr>origin = ''http://h'', pathname = ''/repos'', search = [], hash = []\<rparr>, cookie_header = None\<rparr>"
  obtain u where u: "middleware None (\<lambda>_. Fetch_Throws) ?r = Redirect u"
    by (auto simp: middleware_def getSessionUser_def Let_def isPublicAuthPath_def PUBLIC_AUTH_PATHS_def under_path_def)
  from no_redirect_loop [OF u] have "middleware None (\<lambda>_. Fetch_Throws) (?r\<lparr>next_url := u\<rparr>) = Next" .
  then show ?thesis using u by auto
qed

lemma ends_with_append [simp]: "ends_with (s @ p) p"
  by (simp add: ends_with_def)

text \<open>The matcher tests prefixes and suffixes only: every path below \<open>/api\<close> in spelling
  (\<open>/api-docs\<close>, \<open>/apiary\<close> included) and every path that ends in an image extension skips the
  session guard, while the other pages of the application run it.\<close>

theorem matcher_gaps:
  "\<not> middleware_matcher (''/api'' @ rest) \<and> \<not> middleware_matcher (''/'' @ rest @ ''.png'') \<and>
   list_all middleware_matcher
     [''/'', ''/repos'', ''/repos/1'', ''/integrations'', ''/notifications'', ''/ticket-projects'', ''/settings'',
      ''/users'', ''/profile'', ''/login'', ''/confirm-email-change'']"
proof (intro conjI)
  show "\<not> middleware_matcher (''/api'' @ rest)"
    by (simp add: middleware_matcher_def)
  have "ends_with (rest @ ''.png'') ''.png''" by (rule ends_with_append)
  then show "\<not> middleware_matcher (''/'' @ rest @ ''.png'')"
    by (simp add: middleware_matcher_def asset_suffix_def)
qed code_simp

end
