(* ===== verification/Go_Proxy.thy ===== *)
theory Go_Proxy
  imports Js_Url Api_Client
begin

section \<open>The proxy to the Go server (\<open>apps/web/app/api/go/[...path]/route.ts\<close>)\<close>

text \<open>
  The route handlers forward a browser request to the Go server and its answer back. Headers
  are lists of pairs with lower-case names in arrival order. The Go server is the parameter
  \<open>fetch\<close>; a rejection of it, a body that cannot be read and a response that cannot be built
  all end in the handler's \<open>catch\<close>.
\<close>

type_synonym headers = "(string \<times> string) list"

text \<open>\<open>headers.get(name)\<close> joins repeated values; \<open>getSetCookie()\<close> lists them.\<close>

definition header_values :: "headers \<Rightarrow> string \<Rightarrow> string list" where
  "header_values hs name = map snd (filter (\<lambda>h. fst h = name) hs)"

definition header_get :: "headers \<Rightarrow> string \<Rightarrow> string option" where
  "header_get hs name = (case header_values hs name of [] \<Rightarrow> None | vs \<Rightarrow> Some (join_with '', '' vs))"

definition getSetCookie :: "headers \<Rightarrow> string list" where
  "getSetCookie hs = header_values hs ''set-cookie''"

text \<open>A value that is present and not the empty string: the test \<open>if (value)\<close>.\<close>

definition given :: "string option \<Rightarrow> bool" where
  "given v \<longleftrightarrow> v \<noteq> None \<and> v \<noteq> Some []"

definition PROXY_DEFAULT_GO_API_URL :: string where
  "PROXY_DEFAULT_GO_API_URL = ''http://127.0.0.1:8080''"

definition FORWARD_REQUEST_HEADERS :: "string list" where
  "FORWARD_REQUEST_HEADERS = [''accept'', ''content-type'', ''cookie'', ''authorization'', ''x-forwarded-for'']"

definition getGoApiUrl :: "string option \<Rightarrow> string" where
  "getGoApiUrl env = (case env of None \<Rightarrow> PROXY_DEFAULT_GO_API_URL | Some u \<Rightarrow> u)"

definition buildUpstreamUrl :: "string option \<Rightarrow> string list \<Rightarrow> string \<Rightarrow> string" where
  "buildUpstreamUrl env pathSegments qs =
     (let base = strip_one_trailing (CHR ''/'') (getGoApiUrl env);
          u = base @ ''/'' @ join_with ''/'' pathSegments
      in if qs \<noteq> [] then u @ ''?'' @ qs else u)"

definition buildUpstreamHeaders :: "headers \<Rightarrow> headers" where
  "buildUpstreamHeaders req =
     concat (map (\<lambda>name. case header_get req name of
                           None \<Rightarrow> []
                         | Some v \<Rightarrow> if v \<noteq> [] then [(name, v)] else []) FORWARD_REQUEST_HEADERS)"

definition buildResponseHeaders :: "headers \<Rightarrow> headers" where
  "buildResponseHeaders up =
     (case header_get up ''content-type'' of
        None \<Rightarrow> []
      | Some v \<Rightarrow> if v \<noteq> [] then [(''content-type'', v)] else []) @
     (if length (getSetCookie up) > 0 then map (\<lambda>c. (''set-cookie'', c)) (getSetCookie up)
      else (case header_get up ''set-cookie'' of
              None \<Rightarrow> []
            | Some v \<Rightarrow> if v \<noteq> [] then [(''set-cookie'', v)] else []))"

record http_response =
  hr_status :: nat
  hr_headers :: headers
  hr_body :: "string option"

definition upstreamErrorResponse :: http_response where
  "upstreamErrorResponse =
     \<lparr>hr_status = 502, hr_headers = [(''content-type'', ''application/json'')],
      hr_body = json_text (Obj [(''error'', Obj [(''code'', Str ''UPSTREAM_ERROR''),
                                                 (''message'', Str ''Failed to connect to Go API'')])])\<rparr>"

text \<open>\<open>new Response(body, init)\<close> throws on a status outside 200 to 599, and on a body with a status
  that has none.\<close>

definition new_response :: "string option \<Rightarrow> nat \<Rightarrow> headers \<Rightarrow> http_response option" where
  "new_response body st hs =
     (if st < 200 \<or> 599 < st \<or> (body \<noteq> None \<and> st \<in> set [204, 205, 304]) then None
      else Some \<lparr>hr_status = st, hr_headers = hs, hr_body = body\<rparr>)"

record proxy_request =
  pr_search :: string
  pr_headers :: headers
  pr_body :: "string option"

record upstream_request =
  up_url :: string
  up_method :: string
  up_headers :: headers
  up_body :: "string option"
  up_duplex :: "string option"

text \<open>\<open>pr_body\<close> is what \<open>arrayBuffer()\<close> gives, \<^term>\<open>None\<close> where it rejects; \<open>fetch\<close> gives
  \<^term>\<open>None\<close> where it rejects.\<close>

definition upstream_request_of ::
  "string option \<Rightarrow> proxy_request \<Rightarrow> string list \<Rightarrow> string \<Rightarrow> upstream_request option" where
  "upstream_request_of env req segs mth =
     (let qs = params_string (params_parse (drop 1 (pr_search req)));
          hasBody = (mth \<noteq> ''GET'' \<and> mth \<noteq> ''HEAD'')
      in if hasBody \<and> pr_body req = None then None
         else (let body = (if hasBody then pr_body req else None);
                   hasPayload = (body \<noteq> None \<and> body \<noteq> Some [])
               in Some \<lparr>up_url = buildUpstreamUrl env segs qs, up_method = mth,
                        up_headers = buildUpstreamHeaders (pr_headers req),
                        up_body = (if hasPayload then body else None),
                        up_duplex = (if hasPayload then Some ''half'' else None)\<rparr>))"

definition proxyRequest ::
  "string option \<Rightarrow> (upstream_request \<Rightarrow> http_response option) \<Rightarrow> proxy_request \<Rightarrow> string list \<Rightarrow> string \<Rightarrow> http_response" where
  "proxyRequest env fetch req segs mth =
     (case Option.bind (Option.bind (upstream_request_of env req segs mth) fetch)
        (\<lambda>up. new_response (hr_body up) (hr_status up) (buildResponseHeaders (hr_headers up))) of
        None \<Rightarrow> upstreamErrorResponse
      | Some r \<Rightarrow> r)"

definition proxy_GET where "proxy_GET env fetch req segs = proxyRequest env fetch req segs ''GET''"
definition proxy_POST where "proxy_POST env fetch req segs = proxyRequest env fetch req segs ''POST''"
definition proxy_PATCH where "proxy_PATCH env fetch req segs = proxyRequest env fetch req segs ''PATCH''"
definition proxy_DELETE where "proxy_DELETE env fetch req segs = proxyRequest env fetch req segs ''DELETE''"

subsection \<open>What crosses the proxy\<close>

definition pick :: "(string \<Rightarrow> string option) \<Rightarrow> string \<Rightarrow> headers" where
  "pick f name = (case f name of None \<Rightarrow> [] | Some v \<Rightarrow> if v \<noteq> [] then [(name, v)] else [])"

lemma map_of_pick:
  "map_of (concat (map (pick f) names)) name = (if name \<in> set names \<and> given (f name) then f name else None)"
proof (induction names)
  case (Cons n names)
  then show ?case by (cases "f n") (auto simp: pick_def given_def map_add_def)
qed simp

lemma upstream_headers_pick: "buildUpstreamHeaders req = concat (map (pick (header_get req)) FORWARD_REQUEST_HEADERS)"
  by (simp add: buildUpstreamHeaders_def pick_def [abs_def])

text \<open>C18: The Go server sees exactly the allow-listed request headers that are present and not
  empty, each with the browser's value, and no other header of the browser.\<close>

theorem forwarded_headers:
  "map_of (buildUpstreamHeaders req) name =
     (if name \<in> set FORWARD_REQUEST_HEADERS \<and> given (header_get req name) then header_get req name else None)"
  unfolding upstream_headers_pick by (rule map_of_pick)

lemma cookie_values [simp]: "header_values (map (\<lambda>c. (n, c)) cs) n = cs"
  by (induction cs) (simp_all add: header_values_def)

lemma header_values_append [simp]: "header_values (hs @ hs') n = header_values hs n @ header_values hs' n"
  by (simp add: header_values_def)

lemma header_get_None: "header_values hs n = [] \<Longrightarrow> header_get hs n = None"
  by (simp add: header_get_def)

text \<open>Every \<open>Set-Cookie\<close> of the Go server reaches the browser, one header each, in order,
  so a session cookie is neither lost nor merged; no header other than the content type and the
  cookies does.\<close>

theorem response_headers:
  "getSetCookie (buildResponseHeaders up) = getSetCookie up \<and>
   set (map fst (buildResponseHeaders up)) \<subseteq> {''content-type'', ''set-cookie''} \<and>
   map_of (buildResponseHeaders up) ''content-type'' =
     (if given (header_get up ''content-type'') then header_get up ''content-type'' else None)"
proof -
  let ?ct = "case header_get up ''content-type'' of None \<Rightarrow> []
      | Some v \<Rightarrow> if v \<noteq> [] then [(''content-type'', v)] else []"
  have ct: "header_values ?ct ''set-cookie'' = []"
    by (simp add: header_values_def split: option.splits)
  have c: "buildResponseHeaders up = ?ct @ map (\<lambda>c. (''set-cookie'', c)) (getSetCookie up)"
    using header_get_None [of up "''set-cookie''"] by (simp add: buildResponseHeaders_def getSetCookie_def)
  have "getSetCookie (buildResponseHeaders up) = getSetCookie up"
    unfolding c by (simp add: getSetCookie_def ct)
  moreover have "map_of (map (\<lambda>c. (''set-cookie'', c)) cs) ''content-type'' = None" for cs
    by (auto simp: map_of_eq_None_iff image_iff)
  ultimately show ?thesis
    unfolding c by (auto simp: given_def map_add_def split: option.splits if_splits)
qed


text \<open>An answer that can be rebuilt: a final status, and no body where the status has none.\<close>

definition relayable :: "http_response \<Rightarrow> bool" where
  "relayable up \<longleftrightarrow> 200 \<le> hr_status up \<and> hr_status up \<le> 599
     \<and> (hr_status up \<in> set [204, 205, 304] \<longrightarrow> hr_body up = None)"

text \<open>Errors are contained: when the browser's body cannot be read, the Go server cannot be
  reached, or its answer cannot be relayed, the browser gets the 502 error envelope; otherwise it
  gets the Go server's status and body unchanged.\<close>

theorem proxy_outcome:
  "case Option.bind (upstream_request_of env req segs mth) fetch of
     None \<Rightarrow> proxyRequest env fetch req segs mth = upstreamErrorResponse
   | Some up \<Rightarrow>
       (if relayable up
        then proxyRequest env fetch req segs mth
           = \<lparr>hr_status = hr_status up, hr_headers = buildResponseHeaders (hr_headers up), hr_body = hr_body up\<rparr>
        else proxyRequest env fetch req segs mth = upstreamErrorResponse)"
  by (auto simp: proxyRequest_def new_response_def relayable_def split: option.splits)

text \<open>The path segments of the catch-all route \<open>/api/go/[...path]\<close>, for a path without escapes.\<close>

definition route_segments :: "string \<Rightarrow> string list" where
  "route_segments pn = split_on (CHR ''/'') (drop (length ''/api/go/'') pn)"

lemma route_segments_api:
  "join_with ''/'' (route_segments (BASE @ CHR ''/'' # rest)) = ''api/v1/'' @ rest"
  unfolding route_segments_def join_split by (simp add: BASE_def)

text \<open>End to end, a GET of the browser's client for \<open>path\<close>, with the query the browser
  attaches, asks the Go server for \<open>/api/v1\<close> plus that path: the client's base path and the
  route's catch-all agree, for every path and every setting of \<open>GO_API_URL\<close>, with and without a
  trailing slash.\<close>

theorem client_reaches_go:
  assumes "\<forall>(k, v) \<in> set ps. ascii k \<and> ascii v" and "ps \<noteq> []" and "starts_with path ''/''"
  shows "map_option up_url (upstream_request_of (Some base)
           \<lparr>pr_search = CHR ''?'' # params_string ps, pr_headers = hs, pr_body = b\<rparr>
           (route_segments (buildUrl path)) ''GET'')
         = Some (strip_one_trailing (CHR ''/'') base @ ''/api/v1'' @ path @ ''?'' @ params_string ps)"
proof -
  obtain rest where path: "path = CHR ''/'' # rest"
    using assms(3) by (cases path) auto
  have "params_string ps \<noteq> []"
    using assms(2) by (cases ps rule: list.exhaust; cases "tl ps") (auto simp: params_string_def)
  moreover have "join_with ''/'' (route_segments (buildUrl path)) = ''api/v1/'' @ rest"
    using route_segments_api by (simp add: buildUrl_def path)
  ultimately show ?thesis
    using params_parse_string [OF assms(1,2)]
    by (simp add: upstream_request_of_def buildUpstreamUrl_def getGoApiUrl_def path Let_def)
qed

theorem client_reaches_go_witness:
  "map_option up_url (upstream_request_of (Some ''http://go:8080/'')
      \<lparr>pr_search = ''?limit=25&offset=50'', pr_headers = [], pr_body = None\<rparr>
      (route_segments (buildUrl ''/poll-runs'')) ''GET'')
   = Some ''http://go:8080/api/v1/poll-runs?limit=25&offset=50''"
proof -
  have q: "params_string [(''limit'', ''25''), (''offset'', ''50'')] = ''limit=25&offset=50''" by code_simp
  have b: "strip_one_trailing (CHR ''/'') ''http://go:8080/'' = ''http://go:8080''" by code_simp
  show ?thesis
    using client_reaches_go [of "[(''limit'', ''25''), (''offset'', ''50'')]" "''/poll-runs''" "''http://go:8080/''" "[]" None]
    unfolding q b by (simp add: ascii_def)
qed

end
