(* ===== verification/Auth_Forms.thy ===== *)
theory Auth_Forms
  imports Commands Auth_Middleware Go_Proxy
begin

section \<open>The authentication forms (\<open>apps/web/app/login\<close>, \<open>forgot-password\<close>, \<open>reset-password\<close>,
  \<open>accept-invitation\<close>, \<open>confirm-email-change\<close>)\<close>

text \<open>
  Each form is a state, the handlers that run when the user submits and when the server's answer
  arrives (the code before and after the \<open>await\<close>), and a view. A handler returns the new state
  and the commands it issues. The user can only submit where the view drawn for the state holds a
  form with an enabled submit button; the step function asks the view.
\<close>

subsection \<open>The layout (\<open>components/auth/auth-layout.tsx\<close>)\<close>

definition AuthLayout :: "msg \<Rightarrow> msg option \<Rightarrow> view list \<Rightarrow> view" where
  "AuthLayout title subtitle children =
     El ''div'' []
       [El ''div'' []
          [El ''div'' []
             [El ''div'' [] [El ''RadioIcon'' [(''aria-hidden'', ''true'')] []],
              El ''div'' [] [El ''p'' [] [tx ''common.appTitle''], El ''p'' [] [tx ''common.appDescription'']]],
           El ''Card'' []
             [El ''CardHeader'' []
                (El ''CardTitle'' [] [Txt title] #
                 shown_msg subtitle (\<lambda>s. [El ''CardDescription'' [] [Txt s]])),
              El ''CardPanel'' [] children]]]"

definition AuthErrorAlert :: "bool \<Rightarrow> msg \<Rightarrow> msg \<Rightarrow> view" where
  "AuthErrorAlert has_ref description title =
     El ''div'' (flag ''ref'' has_ref @ [(''tabIndex'', ''-1'')])
       [El ''Alert'' [(''variant'', ''error'')]
          [El ''CircleAlertIcon'' [] [], El ''AlertTitle'' [] [Txt title], El ''AlertDescription'' [] [Txt description]]]"

definition AuthSuccessAlert :: "msg \<Rightarrow> msg \<Rightarrow> view" where
  "AuthSuccessAlert description title =
     El ''Alert'' [(''variant'', ''success'')]
       [El ''CircleCheckIcon'' [] [], El ''AlertTitle'' [] [Txt title], El ''AlertDescription'' [] [Txt description]]"

text \<open>A labelled input of these forms: a label with the required mark, and the input.\<close>

definition auth_field :: "string \<Rightarrow> string \<Rightarrow> string \<Rightarrow> string \<Rightarrow> bool \<Rightarrow> view" where
  "auth_field name label type autocomplete autofocus =
     El ''Field'' [(''name'', name)]
       [El ''FieldLabel'' [] [tx label, lit '' '', El ''span'' [(''aria-hidden'', ''true'')] [lit ''*'']],
        El ''Input'' ([(''autoComplete'', autocomplete)] @ flag ''autoFocus'' autofocus @
                      [(''name'', name), (''required'', ''true''), (''type'', type)]) []]"

subsection \<open>The errors the forms show\<close>

definition rate_limited :: "js_error \<Rightarrow> bool" where
  "rate_limited e = (case e of ApiError code _ st \<Rightarrow> st = 429 \<or> code = Str ''RATE_LIMITED'' | _ \<Rightarrow> False)"

definition resolveLoginError :: "js_error \<Rightarrow> msg" where
  "resolveLoginError e =
     (case e of
        ApiError code _ st \<Rightarrow>
          if st = 429 \<or> code = Str ''RATE_LIMITED'' then t0 ''auth.rateLimited''
          else if st = 401 \<or> code = Str ''invalid_credentials'' then t0 ''auth.invalidCredentials''
          else t0 ''auth.loginFailed''
      | _ \<Rightarrow> t0 ''auth.loginFailed'')"

definition forgot_resolveAuthError :: "js_error \<Rightarrow> msg" where
  "forgot_resolveAuthError e =
     (case e of
        ApiError code _ st \<Rightarrow>
          if st = 429 \<or> code = Str ''RATE_LIMITED'' then t0 ''auth.rateLimited'' else t0 ''auth.requestFailed''
      | _ \<Rightarrow> t0 ''auth.requestFailed'')"

definition confirm_resolveAuthError :: "js_error \<Rightarrow> msg" where
  "confirm_resolveAuthError e =
     (case e of
        ApiError code m st \<Rightarrow>
          if st = 429 \<or> code = Str ''RATE_LIMITED'' then t0 ''auth.rateLimited''
          else if code = Str ''VALIDATION_ERROR'' \<and> js_includes m ''invalid or expired token'' then t0 ''auth.invalidToken''
          else t0 ''auth.requestFailed''
      | _ \<Rightarrow> t0 ''auth.requestFailed'')"

text \<open>The same function stands in the reset form and in the invitation form.\<close>

definition password_resolveAuthError :: "js_error \<Rightarrow> msg" where
  "password_resolveAuthError e =
     (case e of
        ApiError code m st \<Rightarrow>
          if st = 429 \<or> code = Str ''RATE_LIMITED'' then t0 ''auth.rateLimited''
          else if code = Str ''VALIDATION_ERROR'' \<and> js_includes m ''invalid or expired token'' then t0 ''auth.invalidToken''
          else if code = Str ''VALIDATION_ERROR'' \<and> js_includes m ''at least 8 characters'' then t0 ''auth.passwordTooShort''
          else t0 ''auth.requestFailed''
      | _ \<Rightarrow> t0 ''auth.requestFailed'')"

definition reset_resolveAuthError where "reset_resolveAuthError = password_resolveAuthError"
definition accept_resolveAuthError where "accept_resolveAuthError = password_resolveAuthError"

subsection \<open>The state of a form\<close>

record auth_form =
  submitError :: "msg option"
  isPending :: bool
  isSuccess :: bool
  inflight :: nat

definition auth_form_init :: auth_form where
  "auth_form_init = \<lparr>submitError = None, isPending = False, isSuccess = False, inflight = 0\<rparr>"

text \<open>The effect that runs when \<open>submitError\<close> changed: it focuses the alert of a new error.\<close>

definition focus_effect :: "auth_form \<Rightarrow> auth_form \<Rightarrow> command list" where
  "focus_effect s s' = (if submitError s' \<noteq> submitError s \<and> msg_given (submitError s') then [FocusAlert] else [])"


text \<open>\<open>String(formData.get(name) ?? "")\<close> on the submitted controls.\<close>

type_synonym form_data = "(string \<times> string) list"

definition form_get :: "form_data \<Rightarrow> string \<Rightarrow> string" where
  "form_get fd name = (case map_of fd name of None \<Rightarrow> [] | Some v \<Rightarrow> v)"

subsection \<open>Login (\<open>login-form.tsx\<close>, \<open>use-login.ts\<close>)\<close>

definition login_submit :: "form_data \<Rightarrow> auth_form \<Rightarrow> auth_form \<times> command list" where
  "login_submit fd s =
     (let email = form_get fd ''email''; password = form_get fd ''password''
      in (s\<lparr>submitError := None, isPending := True, inflight := Suc (inflight s)\<rparr>,
          [Post ''/auth/login'' (Obj [(''email'', Str email), (''password'', Str password)])]))"

text \<open>The mutation's \<open>onSuccess\<close> refetches the session before the form leaves the page; \<open>redirect\<close>
  is \<open>searchParams.get("redirect")\<close>.\<close>

definition login_settle ::
  "(string \<Rightarrow> string option) \<Rightarrow> string option \<Rightarrow> jsval js_result \<Rightarrow> auth_form \<Rightarrow> auth_form \<times> command list" where
  "login_settle origin_of redirect r s =
     (case r of
        Inr _ \<Rightarrow> (s\<lparr>isPending := False, inflight := inflight s - 1\<rparr>,
                  [Invalidate [''session''], Push (safeRedirectPath origin_of redirect), Refresh])
      | Inl e \<Rightarrow> (let s' = s\<lparr>submitError := Some (resolveLoginError e), isPending := False, inflight := inflight s - 1\<rparr>
                 in (s', focus_effect s s')))"

definition LoginForm :: "auth_form \<Rightarrow> view" where
  "LoginForm s =
     AuthLayout (t0 ''auth.login'') None
       (shown_msg (submitError s) (\<lambda>m. [AuthErrorAlert True m (t0 ''auth.loginFailedTitle'')]) @
        [El ''form'' [(''onSubmit'', ''handleSubmit'')]
           [auth_field ''email'' ''auth.email'' ''email'' ''email'' True,
            auth_field ''password'' ''auth.password'' ''password'' ''current-password'' False,
            El ''div'' [] [El ''Link'' [(''href'', ''/forgot-password'')] [tx ''auth.forgotPasswordLink'']],
            Button (isPending s) False [(''type'', ''submit'')] [tx ''auth.signIn'']]])"

subsection \<open>Forgotten password (\<open>forgot-password-form.tsx\<close>)\<close>

definition forgot_submit :: "form_data \<Rightarrow> auth_form \<Rightarrow> auth_form \<times> command list" where
  "forgot_submit fd s =
     (s\<lparr>submitError := None, isPending := True, inflight := Suc (inflight s)\<rparr>,
      [Post ''/auth/forgot-password'' (Obj [(''email'', Str (form_get fd ''email''))])])"

definition forgot_settle :: "jsval js_result \<Rightarrow> auth_form \<Rightarrow> auth_form \<times> command list" where
  "forgot_settle r s =
     (let s' = (case r of Inr _ \<Rightarrow> s\<lparr>isSuccess := True\<rparr>
                        | Inl e \<Rightarrow> s\<lparr>submitError := Some (forgot_resolveAuthError e)\<rparr>)
      in (s'\<lparr>isPending := False, inflight := inflight s - 1\<rparr>, focus_effect s s'))"

definition ForgotPasswordForm :: "auth_form \<Rightarrow> view" where
  "ForgotPasswordForm s =
     (if isSuccess s then
        AuthLayout (t0 ''auth.forgotPassword'') None
          [AuthSuccessAlert (t0 ''auth.forgotPasswordSuccess'') (t0 ''auth.forgotPasswordSuccessTitle''),
           LinkButton ''/login'' [] [tx ''auth.backToLogin'']]
      else
        AuthLayout (t0 ''auth.forgotPassword'') (Some (t0 ''auth.forgotPasswordDescription''))
          (shown_msg (submitError s) (\<lambda>m. [AuthErrorAlert True m (t0 ''auth.requestFailedTitle'')]) @
           [El ''form'' [(''onSubmit'', ''handleSubmit'')]
              [auth_field ''email'' ''auth.email'' ''email'' ''email'' True,
               Button (isPending s) False [(''type'', ''submit'')] [tx ''auth.sendResetLink'']],
            LinkButton ''/login'' [(''variant'', ''outline'')] [tx ''auth.backToLogin'']]))"

subsection \<open>The forms that set a password (\<open>reset-password-form.tsx\<close>, \<open>accept-invitation-form.tsx\<close>)\<close>

text \<open>The two files differ in the endpoint and the catalogue keys only.\<close>

definition password_submit :: "string \<Rightarrow> string \<Rightarrow> form_data \<Rightarrow> auth_form \<Rightarrow> auth_form \<times> command list" where
  "password_submit path token fd s =
     (let s0 = s\<lparr>submitError := None\<rparr>;
          password = form_get fd ''password'';
          confirmPassword = form_get fd ''confirmPassword''
      in if length password < 8 then
           (s0\<lparr>submitError := Some (t0 ''auth.passwordTooShort'')\<rparr>,
            focus_effect s (s0\<lparr>submitError := Some (t0 ''auth.passwordTooShort'')\<rparr>))
         else if password \<noteq> confirmPassword then
           (s0\<lparr>submitError := Some (t0 ''auth.passwordMismatch'')\<rparr>,
            focus_effect s (s0\<lparr>submitError := Some (t0 ''auth.passwordMismatch'')\<rparr>))
         else
           (s0\<lparr>isPending := True, inflight := Suc (inflight s)\<rparr>,
            [Post path (Obj [(''token'', Str token), (''password'', Str password)])]))"

definition password_settle :: "(js_error \<Rightarrow> msg) \<Rightarrow> jsval js_result \<Rightarrow> auth_form \<Rightarrow> auth_form \<times> command list" where
  "password_settle resolve r s =
     (case r of
        Inr _ \<Rightarrow> (s\<lparr>isPending := False, inflight := inflight s - 1\<rparr>, [Push ''/'', Refresh])
      | Inl e \<Rightarrow> (let s' = s\<lparr>submitError := Some (resolve e), isPending := False, inflight := inflight s - 1\<rparr>
                 in (s', focus_effect s s')))"

text \<open>The token of the link: absent or empty, the form is not rendered at all.\<close>

definition password_form :: "string \<Rightarrow> string \<Rightarrow> string option \<Rightarrow> auth_form \<Rightarrow> view" where
  "password_form title subtitle token s =
     (if \<not> given token then
        AuthLayout (t0 title) None
          [AuthErrorAlert False (t0 ''auth.invalidToken'') (t0 ''auth.invalidTokenTitle''),
           LinkButton ''/login'' [] [tx ''auth.backToLogin'']]
      else
        AuthLayout (t0 title) (Some (t0 subtitle))
          (shown_msg (submitError s) (\<lambda>m. [AuthErrorAlert True m (t0 ''auth.requestFailedTitle'')]) @
           [El ''form'' [(''onSubmit'', ''handleSubmit'')]
              [auth_field ''password'' ''auth.password'' ''password'' ''new-password'' True,
               auth_field ''confirmPassword'' ''auth.confirmPassword'' ''password'' ''new-password'' False,
               Button (isPending s) False [(''type'', ''submit'')] [tx ''auth.setPassword'']],
            LinkButton ''/login'' [(''variant'', ''outline'')] [tx ''auth.backToLogin'']]))"

definition reset_submit where "reset_submit = password_submit ''/auth/reset-password''"
definition reset_settle where "reset_settle = password_settle reset_resolveAuthError"
definition ResetPasswordForm where
  "ResetPasswordForm = password_form ''auth.resetPassword'' ''auth.resetPasswordDescription''"

definition accept_submit where "accept_submit = password_submit ''/auth/accept-invitation''"
definition accept_settle where "accept_settle = password_settle accept_resolveAuthError"
definition AcceptInvitationForm where
  "AcceptInvitationForm = password_form ''auth.acceptInvitation'' ''auth.acceptInvitationDescription''"


subsection \<open>Confirming an e-mail change (\<open>confirm-email-change-form.tsx\<close>)\<close>

text \<open>\<open>requested\<close> is \<open>confirmRequestRef.current\<close>, which no re-render or re-run effect resets.\<close>

record confirm_form =
  c_submitError :: "msg option"
  c_isPending :: bool
  requested :: bool

definition confirm_init :: confirm_form where
  "confirm_init = \<lparr>c_submitError = None, c_isPending = False, requested = False\<rparr>"

definition confirm_effect :: "string option \<Rightarrow> confirm_form \<Rightarrow> confirm_form \<times> command list" where
  "confirm_effect token s =
     (if \<not> given token \<or> requested s then (s, [])
      else (s\<lparr>c_isPending := True, c_submitError := None, requested := True\<rparr>,
            [Post ''/auth/confirm-email-change'' (Obj [(''token'', Str (the token))])]))"

definition confirm_settle :: "jsval js_result \<Rightarrow> confirm_form \<Rightarrow> confirm_form \<times> command list" where
  "confirm_settle r s =
     (case r of
        Inr _ \<Rightarrow> (s\<lparr>c_isPending := False\<rparr>, [Push ''/'', Refresh])
      | Inl e \<Rightarrow> (s\<lparr>c_submitError := Some (confirm_resolveAuthError e), c_isPending := False\<rparr>,
                  if c_submitError s = Some (confirm_resolveAuthError e) then [] else [FocusAlert]))"

definition ConfirmEmailChangeForm :: "string option \<Rightarrow> confirm_form \<Rightarrow> view" where
  "ConfirmEmailChangeForm token s =
     (if \<not> given token then
        AuthLayout (t0 ''auth.confirmEmailChange'') None
          [AuthErrorAlert False (t0 ''auth.invalidToken'') (t0 ''auth.invalidTokenTitle''),
           LinkButton ''/login'' [] [tx ''auth.backToLogin'']]
      else if c_isPending s then
        AuthLayout (t0 ''auth.confirmEmailChange'') (Some (t0 ''auth.confirmEmailChangeDescription''))
          [El ''div'' [] [El ''Spinner'' [] []]]
      else
        AuthLayout (t0 ''auth.confirmEmailChange'') None
          (shown_msg (c_submitError s) (\<lambda>m. [AuthErrorAlert True m (t0 ''auth.requestFailedTitle'')]) @
           [LinkButton ''/login'' [] [tx ''auth.backToLogin'']]))"

subsection \<open>Runs of a form\<close>

datatype 'r form_event = Submit form_data | Settled 'r

text \<open>What a view lets the user do, and shows: it holds a form that is wired to \<open>handleSubmit\<close>; the
  form has a submit button that is not disabled; a submit button shows the loading state.\<close>

definition submit_forms :: "view \<Rightarrow> view list" where
  "submit_forms v = filter (\<lambda>f. attr_of f ''onSubmit'' = Some ''handleSubmit'') (tagged ''form'' v)"

definition submit_buttons :: "view \<Rightarrow> view list" where
  "submit_buttons v = filter (\<lambda>b. attr_of b ''type'' = Some ''submit'') (tagged ''button'' v)"

definition submittable :: "view \<Rightarrow> bool" where
  "submittable v \<longleftrightarrow> list_ex (\<lambda>f. list_ex (\<lambda>b. attr_of b ''disabled'' = None) (submit_buttons f)) (submit_forms v)"

definition shows_pending :: "view \<Rightarrow> bool" where
  "shows_pending v \<longleftrightarrow> list_ex (\<lambda>b. attr_of b ''data-loading'' = Some ''true'') (submit_buttons v)"

text \<open>A form under its events: a submit runs the handler where the view allows it, and an answer
  only arrives for a request in flight.\<close>

definition form_step ::
  "(form_data \<Rightarrow> auth_form \<Rightarrow> auth_form \<times> command list) \<Rightarrow> (jsval js_result \<Rightarrow> auth_form \<Rightarrow> auth_form \<times> command list) \<Rightarrow>
   (auth_form \<Rightarrow> view) \<Rightarrow> auth_form \<times> command list \<Rightarrow> jsval js_result form_event \<Rightarrow> auth_form \<times> command list" where
  "form_step submit settle form st e =
     (let (s, out) = st
      in case e of
           Submit fd \<Rightarrow> if submittable (form s) then (let (s', cs) = submit fd s in (s', out @ cs)) else st
         | Settled r \<Rightarrow> if inflight s = 0 then st else (let (s', cs) = settle r s in (s', out @ cs)))"

text \<open>A request is in flight, and only one, exactly while the button shows it, and then no submit is
  possible; every body sent is an allowed one.\<close>

definition one_request :: "(auth_form \<Rightarrow> view) \<Rightarrow> (string \<times> jsval \<Rightarrow> bool) \<Rightarrow> auth_form \<times> command list \<Rightarrow> bool" where
  "one_request form allowed st \<longleftrightarrow>
     inflight (fst st) = (if shows_pending (form (fst st)) then 1 else 0) \<and>
     \<not> (0 < inflight (fst st) \<and> submittable (form (fst st))) \<and> list_all allowed (posts (snd st))"

text \<open>
  The contract of such a form: its view, where it holds the form at all, shows the pending state
  on the submit button and allows a submit in every other state; a submit either posts one allowed
  body and is pending, or posts nothing and stays as it was, and keeps the form; an answer ends the
  pending state and posts nothing.
\<close>

locale auth_flow =
  fixes submit :: "form_data \<Rightarrow> auth_form \<Rightarrow> auth_form \<times> command list"
    and settle :: "jsval js_result \<Rightarrow> auth_form \<Rightarrow> auth_form \<times> command list"
    and form :: "auth_form \<Rightarrow> view"
    and allowed :: "string \<times> jsval \<Rightarrow> bool"
  assumes view_pending: "shows_pending (form s) \<longleftrightarrow> isPending s \<and> submit_forms (form s) \<noteq> []"
    and view_submittable: "submittable (form s) \<longleftrightarrow> \<not> isPending s \<and> submit_forms (form s) \<noteq> []"
    and submit_keeps: "submit_forms (form s) \<noteq> [] \<Longrightarrow> submit_forms (form (fst (submit fd s))) \<noteq> []"
    and submit_posts: "(\<exists>p. posts (snd (submit fd s)) = [p] \<and> allowed p \<and> isPending (fst (submit fd s))
             \<and> inflight (fst (submit fd s)) = Suc (inflight s)) \<or>
           (posts (snd (submit fd s)) = [] \<and> isPending (fst (submit fd s)) = isPending s
             \<and> inflight (fst (submit fd s)) = inflight s)"
    and settle_ends: "posts (snd (settle r s)) = [] \<and> \<not> isPending (fst (settle r s))
             \<and> inflight (fst (settle r s)) = inflight s - 1"
begin

definition flow_inv :: "auth_form \<times> command list \<Rightarrow> bool" where
  "flow_inv st \<longleftrightarrow> inflight (fst st) = (if isPending (fst st) then 1 else 0) \<and>
     (isPending (fst st) \<longrightarrow> submit_forms (form (fst st)) \<noteq> []) \<and> list_all allowed (posts (snd st))"

lemma form_step_inv: "flow_inv st \<Longrightarrow> flow_inv (form_step submit settle form st e)"
proof (cases e)
  case (Submit fd)
  then show "flow_inv st \<Longrightarrow> ?thesis"
    using submit_posts [of fd "fst st"] view_submittable [of "fst st"] submit_keeps [of "fst st" fd]
    by (auto simp: flow_inv_def form_step_def split: prod.splits)
next
  case (Settled r)
  then show "flow_inv st \<Longrightarrow> ?thesis"
    using settle_ends [of r "fst st"]
    by (auto simp: flow_inv_def form_step_def split: prod.splits if_splits)
qed

sublocale stepper "form_step submit settle form" flow_inv
  by unfold_locales (rule form_step_inv)

lemma flow_run:
  "flow_inv (run (form_step submit settle form) (auth_form_init, []) es)"
  by (rule run_inv) (simp add: flow_inv_def auth_form_init_def)

lemma run_one_request: "one_request form allowed (run (form_step submit settle form) (auth_form_init, []) es)"
  using flow_run [of es] view_pending view_submittable by (auto simp: flow_inv_def one_request_def)

end

lemma posts_focus [simp]: "posts (focus_effect s s') = []"
  by (simp add: focus_effect_def)

definition post_keys :: "string \<Rightarrow> string list \<Rightarrow> string \<times> jsval \<Rightarrow> bool" where
  "post_keys path ks p \<longleftrightarrow> fst p = path \<and> (case snd p of Obj kvs \<Rightarrow> map fst kvs = ks | _ \<Rightarrow> False)"

text \<open>A password request: the endpoint, the token of the link, and a password long enough.\<close>

definition password_post :: "string \<Rightarrow> string \<Rightarrow> string \<times> jsval \<Rightarrow> bool" where
  "password_post path token p \<longleftrightarrow> fst p = path \<and>
     (case snd p of Obj [(k, Str tok), (k', Str pw)] \<Rightarrow>
        k = ''token'' \<and> tok = token \<and> k' = ''password'' \<and> 8 \<le> length pw | _ \<Rightarrow> False)"

lemma submit_forms_El:
  "submit_forms (El tag as vs) =
     (if tag = ''form'' \<and> map_of as ''onSubmit'' = Some ''handleSubmit'' then [El tag as vs] else []) @ concat (map submit_forms vs)"
  "submit_forms (Txt m) = []"
  by (simp_all add: submit_forms_def [abs_def] tagged_def filter_concat map_concat comp_def)

lemma submit_buttons_El:
  "submit_buttons (El tag as vs) =
     (if tag = ''button'' \<and> map_of as ''type'' = Some ''submit'' then [El tag as vs] else []) @ concat (map submit_buttons vs)"
  "submit_buttons (Txt m) = []"
  by (simp_all add: submit_buttons_def [abs_def] tagged_def filter_concat map_concat comp_def)

lemma concat_shown_msg: "concat (map f (shown_msg m g)) = (if msg_given m then concat (map f (g (the m))) else [])"
  by (simp add: shown_msg_def)

text \<open>The pieces the forms are built of.\<close>

lemma form_pieces:
  "submit_forms (AuthLayout title subtitle vs) = concat (map submit_forms vs)"
  "submit_buttons (AuthLayout title subtitle vs) = concat (map submit_buttons vs)"
  "submit_forms (AuthErrorAlert rf d m) = []" "submit_buttons (AuthErrorAlert rf d m) = []"
  "submit_forms (AuthSuccessAlert d m) = []" "submit_buttons (AuthSuccessAlert d m) = []"
  "submit_forms (auth_field n l ty ac af) = []" "submit_buttons (auth_field n l ty ac af) = []"
  "submit_forms (LinkButton h ps [tx k]) = []" "submit_buttons (LinkButton h ps [tx k]) = []"
  "submit_forms (Button b off [(''type'', ''submit'')] [tx k]) = []"
  by (simp_all add: AuthLayout_def AuthErrorAlert_def AuthSuccessAlert_def auth_field_def LinkButton_def Button_def
      submit_forms_El submit_buttons_El concat_shown_msg shown_if_def)

lemma submit_button:
  "submit_buttons (Button b False [(''type'', ''submit'')] [tx k]) = [Button b False [(''type'', ''submit'')] [tx k]]"
  "map_of ps ''data-loading'' = None \<Longrightarrow> attr_of (Button b off ps vs) ''data-loading'' = Some ''true'' \<longleftrightarrow> b"
  "attr_of (Button b False ps vs) ''disabled'' = None \<longleftrightarrow> \<not> b \<and> map_of ps ''disabled'' = None"
  by (simp_all add: Button_def submit_buttons_El shown_if_def flag_def map_add_def split: option.split)

lemmas view_asks = submittable_def shows_pending_def submit_forms_El submit_buttons_El concat_shown_msg form_pieces submit_button

lemma LoginForm_asks:
  "submit_forms (LoginForm s) \<noteq> []" "submittable (LoginForm s) \<longleftrightarrow> \<not> isPending s" "shows_pending (LoginForm s) \<longleftrightarrow> isPending s"
  by (simp_all add: view_asks LoginForm_def)

lemma ForgotPasswordForm_asks:
  "submit_forms (ForgotPasswordForm s) \<noteq> [] \<longleftrightarrow> \<not> isSuccess s"
  "submittable (ForgotPasswordForm s) \<longleftrightarrow> \<not> isPending s \<and> \<not> isSuccess s"
  "shows_pending (ForgotPasswordForm s) \<longleftrightarrow> isPending s \<and> \<not> isSuccess s"
  by (cases "isSuccess s"; simp add: view_asks ForgotPasswordForm_def)+

lemma password_form_asks:
  "submit_forms (password_form title subtitle token s) \<noteq> [] \<longleftrightarrow> given token"
  "submittable (password_form title subtitle token s) \<longleftrightarrow> \<not> isPending s \<and> given token"
  "shows_pending (password_form title subtitle token s) \<longleftrightarrow> isPending s \<and> given token"
  by (cases "given token"; simp add: view_asks password_form_def)+

interpretation login:
  auth_flow login_submit "login_settle origin_of redirect" LoginForm "post_keys ''/auth/login'' [''email'', ''password'']"
  for origin_of redirect
  by unfold_locales (auto simp: LoginForm_asks login_submit_def login_settle_def post_keys_def Let_def split: sum.splits)

interpretation forgot:
  auth_flow forgot_submit forgot_settle ForgotPasswordForm "post_keys ''/auth/forgot-password'' [''email'']"
  by unfold_locales (auto simp: ForgotPasswordForm_asks forgot_submit_def forgot_settle_def post_keys_def Let_def split: sum.splits)

lemma password_flow:
  "auth_flow (password_submit path token) (password_settle resolve) (password_form title subtitle (Some token)) (password_post path token)"
  by unfold_locales (auto simp: password_form_asks password_submit_def password_settle_def password_post_def Let_def split: sum.splits)

interpretation reset:
  auth_flow "reset_submit token" reset_settle "ResetPasswordForm (Some token)" "password_post ''/auth/reset-password'' token"
  for token
  unfolding reset_submit_def reset_settle_def ResetPasswordForm_def by (rule password_flow)

interpretation accept:
  auth_flow "accept_submit token" accept_settle "AcceptInvitationForm (Some token)" "password_post ''/auth/accept-invitation'' token"
  for token
  unfolding accept_submit_def accept_settle_def AcceptInvitationForm_def by (rule password_flow)

subsection \<open>What the forms guarantee\<close>

text \<open>A run of a form from its first render, over any submits and answers.\<close>

definition form_run where
  "form_run submit settle form es = run (form_step submit settle form) (auth_form_init, []) es"

text \<open>C16: In every run of the four forms, where the user submits whenever the drawn form has an
  enabled submit button, a request is in flight exactly while the drawn submit button shows its
  loading state, then exactly one, and no other can be sent until it is answered; the login form
  only ever posts an e-mail and a password to its endpoint, the forgotten-password form an e-mail, and
  the password forms the token of their link with a password of at least eight characters.\<close>

theorem auth_forms_run:
  "one_request LoginForm (post_keys ''/auth/login'' [''email'', ''password''])
     (form_run login_submit (login_settle origin_of redirect) LoginForm es) \<and>
   one_request ForgotPasswordForm (post_keys ''/auth/forgot-password'' [''email''])
     (form_run forgot_submit forgot_settle ForgotPasswordForm es) \<and>
   one_request (ResetPasswordForm (Some token)) (password_post ''/auth/reset-password'' token)
     (form_run (reset_submit token) reset_settle (ResetPasswordForm (Some token)) es) \<and>
   one_request (AcceptInvitationForm (Some token)) (password_post ''/auth/accept-invitation'' token)
     (form_run (accept_submit token) accept_settle (AcceptInvitationForm (Some token)) es)"
  unfolding form_run_def
  by (intro conjI login.run_one_request forgot.run_one_request reset.run_one_request accept.run_one_request)

text \<open>The password forms validate before they post: a password under eight characters or one
  that differs from its confirmation sends nothing, shows the matching message (length first) and
  leaves the button enabled; every other submit clears the old error and sends exactly one
  request.\<close>

theorem password_validation:
  "let pw = form_get fd ''password''; r = reset_submit token fd s; a = accept_submit token fd s;
       ok = (8 \<le> length pw \<and> pw = form_get fd ''confirmPassword'');
       err = (if length pw < 8 then Some (t0 ''auth.passwordTooShort'')
              else if pw \<noteq> form_get fd ''confirmPassword'' then Some (t0 ''auth.passwordMismatch'') else None);
       body = Obj [(''token'', Str token), (''password'', Str pw)]
   in posts (snd r) = (if ok then [(''/auth/reset-password'', body)] else []) \<and>
      posts (snd a) = (if ok then [(''/auth/accept-invitation'', body)] else []) \<and>
      submitError (fst r) = err \<and> submitError (fst a) = err \<and>
      isPending (fst r) = (ok \<or> isPending s) \<and> isPending (fst a) = (ok \<or> isPending s)"
  by (cases "length (form_get fd ''password'') < 8")
     (simp_all add: reset_submit_def accept_submit_def password_submit_def Let_def)

datatype confirm_event = Effect_Runs "string option" | Confirm_Settled "jsval js_result"

definition confirm_step :: "confirm_form \<times> command list \<Rightarrow> confirm_event \<Rightarrow> confirm_form \<times> command list" where
  "confirm_step st e =
     (let (s, out) = st;
          (s', cs) = (case e of Effect_Runs token \<Rightarrow> confirm_effect token s | Confirm_Settled r \<Rightarrow> confirm_settle r s)
      in (s', out @ cs))"

definition confirm_inv :: "confirm_form \<times> command list \<Rightarrow> bool" where
  "confirm_inv st \<longleftrightarrow> length (posts (snd st)) = (if requested (fst st) then 1 else 0)"

lemma confirm_step_inv: "confirm_inv st \<Longrightarrow> confirm_inv (confirm_step st e)"
  by (cases st; cases e)
     (auto simp: confirm_inv_def confirm_step_def confirm_effect_def confirm_settle_def split: sum.splits)

interpretation confirm: stepper confirm_step confirm_inv
  by unfold_locales (rule confirm_step_inv)

text \<open>C17: The e-mail confirmation is sent at most once, however often React re-runs the effect
  (re-renders, changed dependencies, the double effects of strict mode) and whatever the server
  answers: the one-time token is never spent twice.\<close>

theorem confirm_posts_once:
  "length (posts (snd (run confirm_step (confirm_init, []) es))) \<le> 1"
proof -
  have "confirm_inv (confirm_init, [])" by (simp add: confirm_inv_def confirm_init_def)
  from confirm.run_inv [OF this, of es] show ?thesis by (simp add: confirm_inv_def split: if_splits)
qed

text \<open>C14: Deep links survive the login: when the middleware sends a signed-out visitor of a page to
  the login page, the login form, after a successful login, pushes the path of that page, whatever
  characters it holds, provided the path does not start with two slashes.\<close>

theorem deep_link_restored:
  assumes "middleware env fetch req = Redirect u" and "\<not> signed_in env fetch req"
    and "pathname (next_url req) = path_string segs" "segs \<noteq> []" "\<forall>s \<in> set segs. clean_seg s"
    and "\<not> starts_with (path_string segs) ''//''"
  shows "Push (path_string segs) \<in> set (snd (login_settle origin_of
           (params_get (params_parse (drop 1 (search u))) ''redirect'') (Inr v) s))"
proof -
  have "safeRedirectPath origin_of (params_get (params_parse (drop 1 (search u))) ''redirect'') = path_string segs"
  proof (cases "path_string segs = ''/''")
    case True
    then have "params_parse (drop 1 (search u)) = []"
      using redirect_cases [OF assms(1)] assms(2,3) by (simp add: params_parse_def)
    then show ?thesis using True by (simp add: params_get_def safeRedirectPath_def)
  next
    case False
    have "ascii (path_string segs)" using path_string_visible [OF assms(5)] by (rule visible_ascii)
    then have "params_parse (params_string [(''redirect'', path_string segs)]) = [(''redirect'', path_string segs)]"
      by (intro params_parse_string) (simp_all add: ascii_def)
    then show ?thesis
      using redirect_cases [OF assms(1)] assms(2,3) False safe_path_of_path [OF assms(4,5,6)]
      by (simp add: params_get_def)
  qed
  then show ?thesis by (simp add: login_settle_def)
qed

theorem deep_link_restored_witness:
  "\<exists>u. middleware None (\<lambda>_. Fetch_Throws)
        \<lparr>next_url = \<lparr>origin = ''http://h'', pathname = ''/repos/a&b'', search = [], hash = []\<rparr>, cookie_header = None\<rparr>
      = Redirect u \<and>
    Push ''/repos/a&b'' \<in> set (snd (login_settle (\<lambda>_. None)
      (params_get (params_parse (drop 1 (search u))) ''redirect'') (Inr Null) auth_form_init))"
proof -
  let ?r = "\<lparr>next_url = \<lparr>origin = ''http://h'', pathname = ''/repos/a&b'', search = [], hash = []\<rparr>, cookie_header = None\<rparr>"
  have out: "\<not> signed_in None (\<lambda>_. Fetch_Throws) ?r" by (simp add: signed_in_def getSessionUser_def)
  obtain u where u: "middleware None (\<lambda>_. Fetch_Throws) ?r = Redirect u"
    by (auto simp: middleware_def getSessionUser_def Let_def isPublicAuthPath_def PUBLIC_AUTH_PATHS_def under_path_def)
  have p: "path_string [''repos'', ''a&b''] = ''/repos/a&b''" by code_simp
  have c: "\<forall>s \<in> set [''repos'', ''a&b'']. clean_seg s" by code_simp
  show ?thesis
    using deep_link_restored [OF u out, of "[''repos'', ''a&b'']" "\<lambda>_. None" Null auth_form_init] u c
    unfolding p by auto
qed

end
