(* ===== verification/Js_Number.thy ===== *)
theory Js_Number
  imports Js_Json
begin

section \<open>\<open>Number(v)\<close> and \<open>Number.parseInt(s, 10)\<close>\<close>

text \<open>
  The two conversions to numbers the sources call. \<open>Number\<close> of a string reads the numeric literals
  of the language: decimal ones with fraction and exponent, the three radix prefixes, \<open>Infinity\<close>,
  and zero for a blank string. The result is exact where JavaScript rounds to a double.
\<close>

subsection \<open>\<open>Number.parseInt(s, 10)\<close>\<close>

definition digit_value :: "char \<Rightarrow> nat" where
  "digit_value c = of_char c - 48"

definition is_digit :: "char \<Rightarrow> bool" where
  "is_digit c \<longleftrightarrow> 48 \<le> (of_char c :: nat) \<and> (of_char c :: nat) \<le> 57"

definition digits_value :: "string \<Rightarrow> nat" where
  "digits_value ds = foldl (\<lambda>n d. 10 * n + digit_value d) 0 ds"

definition parse_int :: "string \<Rightarrow> int option" where
  "parse_int s =
     (let t = dropWhile js_space s;
          neg = starts_with t ''-'';
          u = (if neg \<or> starts_with t ''+'' then drop 1 t else t);
          ds = takeWhile is_digit u
      in if ds = [] then None else Some (if neg then - int (digits_value ds) else int (digits_value ds)))"

subsection \<open>\<open>Number(v)\<close>\<close>

text \<open>\<^term>\<open>Finite m e\<close> is \<open>m * 10^e\<close>.\<close>

datatype js_num = NaN | Infinite bool | Finite int int

definition hex_digit_of :: "char \<Rightarrow> nat option" where
  "hex_digit_of c = (let n = of_char c :: nat in
     if is_digit c then Some (digit_value c) else if 97 \<le> n \<and> n \<le> 102 then Some (n - 87)
     else if 65 \<le> n \<and> n \<le> 70 then Some (n - 55) else None)"

definition radix_literal :: "nat \<Rightarrow> string \<Rightarrow> js_num" where
  "radix_literal b ds =
     (let digit = (\<lambda>c. case hex_digit_of c of None \<Rightarrow> b | Some d \<Rightarrow> d)
      in if ds \<noteq> [] \<and> list_all (\<lambda>c. digit c < b) ds then Finite (int (foldl (\<lambda>n c. b * n + digit c) 0 ds)) 0 else NaN)"

definition signed :: "string \<Rightarrow> bool \<times> string" where
  "signed s = (case s of c # r \<Rightarrow> if c = CHR ''-'' then (True, r) else if c = CHR ''+'' then (False, r) else (False, s)
               | [] \<Rightarrow> (False, s))"

definition exponent :: "string \<Rightarrow> int option" where
  "exponent s =
     (case s of [] \<Rightarrow> Some 0
      | c # r \<Rightarrow> if c \<noteq> CHR ''e'' \<and> c \<noteq> CHR ''E'' then None
                else (case signed r of (neg, ds) \<Rightarrow>
                        if ds = [] \<or> \<not> list_all is_digit ds then None
                        else Some (if neg then - int (digits_value ds) else int (digits_value ds))))"

definition decimal_literal :: "string \<Rightarrow> js_num" where
  "decimal_literal s =
     (case signed s of (neg, r) \<Rightarrow>
        if r = ''Infinity'' then Infinite neg
        else (let whole = takeWhile is_digit r; r1 = dropWhile is_digit r;
                  frac = (if starts_with r1 ''.'' then takeWhile is_digit (drop 1 r1) else []);
                  r2 = (if starts_with r1 ''.'' then dropWhile is_digit (drop 1 r1) else r1);
                  m = int (digits_value (whole @ frac))
              in if whole @ frac = [] then NaN
                 else (case exponent r2 of None \<Rightarrow> NaN
                       | Some e \<Rightarrow> Finite (if neg then - m else m) (e - int (length frac)))))"

definition string_number :: "string \<Rightarrow> js_num" where
  "string_number s =
     (if s = [] then Finite 0 0
      else if starts_with s ''0x'' \<or> starts_with s ''0X'' then radix_literal 16 (drop 2 s)
      else if starts_with s ''0o'' \<or> starts_with s ''0O'' then radix_literal 8 (drop 2 s)
      else if starts_with s ''0b'' \<or> starts_with s ''0B'' then radix_literal 2 (drop 2 s)
      else decimal_literal s)"

text \<open>From the magnitude at which a double overflows, a literal is an infinity.\<close>

definition overflows :: "int \<Rightarrow> int \<Rightarrow> bool" where
  "overflows m e \<longleftrightarrow> m \<noteq> 0 \<and> (400 < e \<or> ((2::int) ^ 1024 - 2 ^ 970) * 10 ^ nat (- e) \<le> \<bar>m\<bar> * 10 ^ nat e)"

definition js_Number :: "jsval \<Rightarrow> js_num" where
  "js_Number v =
     (case v of Undefined \<Rightarrow> NaN | Null \<Rightarrow> Finite 0 0 | Bool b \<Rightarrow> Finite (if b then 1 else 0) 0
      | Num i \<Rightarrow> Finite i 0 | Dec m k \<Rightarrow> Finite m (- int k)
      | _ \<Rightarrow> (case string_number (js_trim (to_string v)) of
                Finite m e \<Rightarrow> if overflows m e then Infinite (m < 0) else Finite m e
              | n \<Rightarrow> n))"

text \<open>\<open>Number.isFinite(n)\<close>, and the value of a finite number in canonical form.\<close>

definition isFinite :: "js_num \<Rightarrow> bool" where
  "isFinite n = (case n of Finite _ _ \<Rightarrow> True | _ \<Rightarrow> False)"

fun drop_zeros :: "int \<Rightarrow> nat \<Rightarrow> jsval" where
  "drop_zeros m 0 = Num m"
| "drop_zeros m (Suc k) = (if m mod 10 = 0 then drop_zeros (m div 10) k else Dec m (Suc k))"

definition num_value :: "js_num \<Rightarrow> jsval" where
  "num_value n =
     (case n of Finite m e \<Rightarrow> if 0 \<le> e then Num (m * 10 ^ nat e) else drop_zeros m (nat (- e)) | _ \<Rightarrow> Undefined)"

subsection \<open>Decimal strings are read back\<close>

lemma hex_lower_digit: "n < 10 \<Longrightarrow> is_digit (hex_lower n) \<and> digit_value (hex_lower n) = n \<and> \<not> js_space (hex_lower n)
    \<and> hex_lower n \<noteq> CHR ''-'' \<and> hex_lower n \<noteq> CHR ''+''"
proof -
  have "\<forall>n \<in> set [0..<10]. is_digit (hex_lower n) \<and> digit_value (hex_lower n) = n \<and> \<not> js_space (hex_lower n)
    \<and> hex_lower n \<noteq> CHR ''-'' \<and> hex_lower n \<noteq> CHR ''+''" by code_simp
  then show "n < 10 \<Longrightarrow> ?thesis" by simp
qed

lemma nat_string_digits: "\<forall>c \<in> set (nat_string n). is_digit c \<and> \<not> js_space c \<and> c \<noteq> CHR ''-'' \<and> c \<noteq> CHR ''+''"
  by (induction n rule: nat_string.induct) (subst nat_string.simps, auto simp: hex_lower_digit)

lemma nat_string_not_Nil: "nat_string n \<noteq> []"
  by (subst nat_string.simps) simp

lemma nat_string_value: "digits_value (nat_string n) = n"
proof (induction n rule: nat_string.induct)
  case (1 n)
  show ?case
  proof (cases "n < 10")
    case True
    then show ?thesis by (subst nat_string.simps) (simp add: digits_value_def hex_lower_digit)
  next
    case False
    then have "digits_value (nat_string n) = 10 * digits_value (nat_string (n div 10)) + n mod 10"
      by (subst nat_string.simps) (simp add: digits_value_def hex_lower_digit)
    then show ?thesis using 1 False by simp
  qed
qed

lemma parse_int_string: "0 \<le> i \<Longrightarrow> parse_int (int_string i) = Some i"
proof -
  assume i: "0 \<le> i"
  obtain c cs where s: "nat_string (nat i) = c # cs" using nat_string_not_Nil [of "nat i"] by (cases "nat_string (nat i)") auto
  have c: "\<not> js_space c" "c \<noteq> CHR ''-''" "c \<noteq> CHR ''+''" and ds: "takeWhile is_digit (c # cs) = c # cs"
    using nat_string_digits [of "nat i"] unfolding s by (simp_all add: takeWhile_eq_all_conv)
  have "parse_int (c # cs) = Some (int (digits_value (c # cs)))"
    using c ds by (simp add: parse_int_def Let_def)
  moreover have "int (digits_value (c # cs)) = i" using nat_string_value [of "nat i"] s i by simp
  ultimately show ?thesis using i by (simp add: int_string_def s)
qed

interpretation decimal: codec int_string parse_int "\<lambda>i. 0 \<le> i"
  by unfold_locales (rule parse_int_string)


end
