(* ===== verification/Page_Size.thy ===== *)
theory Page_Size
  imports Js_Number View
begin

section \<open>Page sizes (\<open>lib/hooks/use-persisted-page-size.ts\<close>, \<open>lib/pagination\<close>)\<close>

text \<open>
  The hook keeps the page size of a table in \<open>localStorage\<close>. A JavaScript number that may be
  \<open>NaN\<close> or a fraction is an \<^typ>\<open>int option\<close>: \<^term>\<open>None\<close> where it is no integer. The storage is
  a list of items and two flags: whether a read or a write throws.
\<close>

subsection \<open>The constants (\<open>constants.ts\<close>) and the hook\<close>

definition DEFAULT_PAGE_SIZE :: int where "DEFAULT_PAGE_SIZE = 10"
definition PAGE_SIZE_OPTIONS :: "int list" where "PAGE_SIZE_OPTIONS = [10, 25, 50]"
definition MAX_PAGE_SIZE :: int where "MAX_PAGE_SIZE = 100"

definition REPO_STATUS_PAGE_SIZE_STORAGE_KEY :: string where
  "REPO_STATUS_PAGE_SIZE_STORAGE_KEY = ''release-ops:dashboard:repo-status-page-size''"

definition POLL_RUN_HISTORY_PAGE_SIZE_STORAGE_KEY :: string where
  "POLL_RUN_HISTORY_PAGE_SIZE_STORAGE_KEY = ''release-ops:dashboard:poll-run-history-page-size''"

definition isAllowedPageSize :: "int option \<Rightarrow> int list \<Rightarrow> int \<Rightarrow> bool" where
  "isAllowedPageSize v options maximum \<longleftrightarrow>
     (case v of None \<Rightarrow> False | Some n \<Rightarrow> 0 < n \<and> n \<le> maximum \<and> n \<in> set options)"

record web_storage =
  items :: "(string \<times> string) list"
  read_throws :: bool
  write_throws :: bool

definition getItem :: "web_storage \<Rightarrow> string \<Rightarrow> string option" where
  "getItem st k = map_of (items st) k"

definition setItem :: "string \<Rightarrow> string \<Rightarrow> web_storage \<Rightarrow> web_storage" where
  "setItem k v st = (if write_throws st then st else st\<lparr>items := (k, v) # items st\<rparr>)"

text \<open>\<open>window\<close> is \<^term>\<open>None\<close> on the server.\<close>

definition readStoredPageSize :: "web_storage option \<Rightarrow> string \<Rightarrow> int \<Rightarrow> int list \<Rightarrow> int \<Rightarrow> int" where
  "readStoredPageSize window storageKey defaultSize options maximum =
     (case window of
        None \<Rightarrow> defaultSize
      | Some st \<Rightarrow>
          if read_throws st then defaultSize
          else (case getItem st storageKey of
                  None \<Rightarrow> defaultSize
                | Some stored \<Rightarrow>
                    (let parsed = parse_int stored
                     in if isAllowedPageSize parsed options maximum then the parsed else defaultSize)))"

text \<open>\<open>usePersistedPageSize\<close>: its resolved arguments, the first render, the effect, the setter.\<close>

record page_size_args =
  ps_key :: string
  ps_options :: "int list"
  ps_max :: int
  ps_default :: int

definition page_size_args_of :: "string \<Rightarrow> int option option \<Rightarrow> int list option \<Rightarrow> int option \<Rightarrow> page_size_args" where
  "page_size_args_of storageKey defaultSize opts mx =
     (let options = (case opts of None \<Rightarrow> PAGE_SIZE_OPTIONS | Some os \<Rightarrow> os);
          maximum = (case mx of None \<Rightarrow> MAX_PAGE_SIZE | Some m \<Rightarrow> m);
          d = (case defaultSize of None \<Rightarrow> Some DEFAULT_PAGE_SIZE | Some d \<Rightarrow> d)
      in \<lparr>ps_key = storageKey, ps_options = options, ps_max = maximum,
          ps_default = (if isAllowedPageSize d options maximum then the d else DEFAULT_PAGE_SIZE)\<rparr>)"

record page_size_hook =
  pageSize :: int
  storage :: "web_storage option"

definition page_size_init :: "page_size_args \<Rightarrow> web_storage option \<Rightarrow> page_size_hook" where
  "page_size_init a w = \<lparr>pageSize = ps_default a, storage = w\<rparr>"

definition page_size_effect :: "page_size_args \<Rightarrow> page_size_hook \<Rightarrow> page_size_hook" where
  "page_size_effect a h =
     h\<lparr>pageSize := readStoredPageSize (storage h) (ps_key a) (ps_default a) (ps_options a) (ps_max a)\<rparr>"

definition setPageSize :: "page_size_args \<Rightarrow> int option \<Rightarrow> page_size_hook \<Rightarrow> page_size_hook" where
  "setPageSize a v h =
     (if \<not> isAllowedPageSize v (ps_options a) (ps_max a) then h
      else h\<lparr>pageSize := the v,
            storage := map_option (setItem (ps_key a) (int_string (the v))) (storage h)\<rparr>)"

definition isPageSize :: "int option \<Rightarrow> bool" where
  "isPageSize v \<longleftrightarrow> v \<noteq> None \<and> the v \<in> set PAGE_SIZE_OPTIONS"

subsection \<open>The controls (\<open>table-pagination-controls.tsx\<close>)\<close>

text \<open>An item of the select is its label and its size; the handler runs for a non-null value.\<close>

definition TablePaginationControls ::
  "msg \<Rightarrow> int \<Rightarrow> (msg \<times> int) list \<Rightarrow> msg \<Rightarrow> bool \<Rightarrow> bool \<Rightarrow> msg \<Rightarrow> msg \<Rightarrow> view" where
  "TablePaginationControls summary psize sizeItems sizeLabel canPrevious canNext previousLabel nextLabel =
     (let selected = find (\<lambda>i. snd i = psize) sizeItems
      in El ''div'' []
        [El ''p'' [] [Txt summary],
         El ''div'' []
          [El ''Select'' (attr_opt ''value'' (map_option (int_string \<circ> snd) selected) @ [(''onValueChange'', ''onPageSizeChange'')])
             [El ''SelectTrigger'' [(''size'', ''sm'')] [El ''SelectValue'' [] []],
              El ''SelectPopup'' [] (map (\<lambda>i. El ''SelectItem'' [(''value'', int_string (snd i))] [Txt (fst i)]) sizeItems)],
           Button False (\<not> canPrevious) [(''onClick'', ''onPreviousPage''), (''size'', ''sm''), (''variant'', ''outline'')] [Txt previousLabel],
           Button False (\<not> canNext) [(''onClick'', ''onNextPage''), (''size'', ''sm''), (''variant'', ''outline'')] [Txt nextLabel]]])"

definition select_handler :: "(msg \<times> int) option \<Rightarrow> (int \<Rightarrow> 's \<Rightarrow> 's) \<Rightarrow> 's \<Rightarrow> 's" where
  "select_handler v onPageSizeChange s = (case v of None \<Rightarrow> s | Some i \<Rightarrow> onPageSizeChange (snd i) s)"

subsection \<open>The storage interface\<close>

text \<open>A key-value store: a usable one returns what was last put under a key and leaves the other
  keys alone. With a codec, a value put in encoded form is read back.\<close>

locale kv_store =
  fixes get :: "'s \<Rightarrow> 'k \<Rightarrow> 'v option"
    and put :: "'k \<Rightarrow> 'v \<Rightarrow> 's \<Rightarrow> 's"
    and usable :: "'s \<Rightarrow> bool"
  assumes get_put: "usable s \<Longrightarrow> get (put k v s) k = Some v"
    and get_other: "k' \<noteq> k \<Longrightarrow> get (put k v s) k' = get s k'"
    and put_usable: "usable (put k v s) = usable s"

locale persisted = kv_store get put usable + codec encode decode domain
  for get :: "'s \<Rightarrow> 'k \<Rightarrow> 'v option"
    and put :: "'k \<Rightarrow> 'v \<Rightarrow> 's \<Rightarrow> 's"
    and usable :: "'s \<Rightarrow> bool"
    and encode :: "'a \<Rightarrow> 'v"
    and decode :: "'v \<Rightarrow> 'a option"
    and domain :: "'a \<Rightarrow> bool"
begin

lemma reload: "usable s \<Longrightarrow> domain x \<Longrightarrow> Option.bind (get (put k (encode x) s) k) decode = Some x"
  by (simp add: get_put decode_encode)

lemma reload_other: "usable s \<Longrightarrow> domain x \<Longrightarrow> k \<noteq> k' \<Longrightarrow>
    Option.bind (get (put k' w (put k (encode x) s)) k) decode = Some x"
  by (simp add: get_other get_put decode_encode)

end

interpretation store: persisted getItem setItem "\<lambda>st. \<not> write_throws st" int_string parse_int "\<lambda>i. 0 \<le> i"
  by unfold_locales (auto simp: getItem_def setItem_def)

subsection \<open>What the hook guarantees\<close>

datatype page_size_event = Effect_Reads | Set_Size "int option" | Storage_Becomes "web_storage option"

definition page_size_step :: "page_size_args \<Rightarrow> page_size_hook \<Rightarrow> page_size_event \<Rightarrow> page_size_hook" where
  "page_size_step a h e =
     (case e of Effect_Reads \<Rightarrow> page_size_effect a h
              | Set_Size v \<Rightarrow> setPageSize a v h
              | Storage_Becomes w \<Rightarrow> h\<lparr>storage := w\<rparr>)"

definition size_ok :: "page_size_args \<Rightarrow> page_size_hook \<Rightarrow> bool" where
  "size_ok a h \<longleftrightarrow> pageSize h = ps_default a \<or> isAllowedPageSize (Some (pageSize h)) (ps_options a) (ps_max a)"

lemma read_cases:
  "readStoredPageSize w k d os m = d \<or> isAllowedPageSize (Some (readStoredPageSize w k d os m)) os m"
  by (auto simp: readStoredPageSize_def isAllowedPageSize_def Let_def split: option.splits)

lemma setPageSize_ok: "size_ok a h \<Longrightarrow> size_ok a (setPageSize a v h)"
  by (cases v) (auto simp: size_ok_def setPageSize_def isAllowedPageSize_def)

lemma effect_ok: "size_ok a (page_size_effect a h)"
  using read_cases by (simp add: size_ok_def page_size_effect_def)

interpretation page_size: stepper "page_size_step a" "size_ok a" for a
proof unfold_locales
  fix h e
  show "size_ok a h \<Longrightarrow> size_ok a (page_size_step a h e)"
    using effect_ok [of a h] setPageSize_ok [of a h]
    by (cases e) (simp_all add: page_size_step_def, simp add: size_ok_def)
qed

definition app_page_size :: "string \<Rightarrow> page_size_args" where
  "app_page_size key = page_size_args_of key None None None"

lemma app_page_size_simps [simp]:
  "ps_key (app_page_size key) = key" "ps_options (app_page_size key) = [10, 25, 50]"
  "ps_max (app_page_size key) = 100" "ps_default (app_page_size key) = 10"
  by (simp_all add: app_page_size_def page_size_args_of_def PAGE_SIZE_OPTIONS_def MAX_PAGE_SIZE_def
      DEFAULT_PAGE_SIZE_def isAllowedPageSize_def)

lemma app_size_ok: "size_ok (app_page_size key) h \<Longrightarrow> pageSize h \<in> set PAGE_SIZE_OPTIONS"
  by (auto simp: size_ok_def isAllowedPageSize_def PAGE_SIZE_OPTIONS_def)

text \<open>The page size of the dashboard tables is always one of 10, 25 and 50, whatever the
  storage holds (garbage, other tabs' writes, a throwing or missing storage) and whatever the
  setter is called with.\<close>

theorem page_size_allowed:
  "pageSize (run (page_size_step (app_page_size key)) (page_size_init (app_page_size key) w) es)
     \<in> set PAGE_SIZE_OPTIONS"
  by (rule app_size_ok) (rule page_size.run_inv, simp add: size_ok_def page_size_init_def)

text \<open>A chosen page size survives a reload: where the storage can be written and read, the
  effect of the next mount finds the size that was set, and the other table's size is not touched.\<close>

theorem page_size_persists:
  assumes "n \<in> set PAGE_SIZE_OPTIONS" and "storage h = Some st" "\<not> write_throws st" "\<not> read_throws st"
    and "key \<noteq> other"
  shows "let w = storage (setPageSize (app_page_size key) (Some n) h)
         in pageSize (page_size_effect (app_page_size key) (page_size_init (app_page_size key) w)) = n \<and>
            pageSize (page_size_effect (app_page_size other) (page_size_init (app_page_size other) w))
              = pageSize (page_size_effect (app_page_size other) (page_size_init (app_page_size other) (Some st)))"
proof -
  have n: "isAllowedPageSize (Some n) [10, 25, 50] 100" "0 \<le> n"
    using assms(1) by (auto simp: isAllowedPageSize_def PAGE_SIZE_OPTIONS_def)
  have w: "storage (setPageSize (app_page_size key) (Some n) h) = Some (setItem key (int_string n) st)"
    using n assms(2) by (simp add: setPageSize_def)
  have reads: "read_throws (setItem key (int_string n) st) = False"
    using assms(4) by (simp add: setItem_def)
  have "getItem (setItem key (int_string n) st) key = Some (int_string n)"
    using store.get_put assms(3) by simp
  moreover have "getItem (setItem key (int_string n) st) other = getItem st other"
    using store.get_other assms(5) by simp
  ultimately show ?thesis
    using n assms(4) reads
    by (simp add: w page_size_effect_def page_size_init_def readStoredPageSize_def Let_def parse_int_string)
qed

theorem page_size_persists_witness:
  "pageSize (page_size_effect (app_page_size ''a'') (page_size_init (app_page_size ''a'')
     (storage (setPageSize (app_page_size ''a'') (Some 25)
        \<lparr>pageSize = 10, storage = Some \<lparr>items = [], read_throws = False, write_throws = False\<rparr>\<rparr>)))) = 25"
  using page_size_persists [of 25 "\<lparr>pageSize = 10, storage = Some \<lparr>items = [], read_throws = False, write_throws = False\<rparr>\<rparr>"
      "\<lparr>items = [], read_throws = False, write_throws = False\<rparr>" "''a''" "''b''"]
  by (simp add: PAGE_SIZE_OPTIONS_def Let_def)

end
