(* ===== verification/Date_Format.thy ===== *)
theory Date_Format
  imports View
begin

section \<open>Dates and time zone (\<open>lib/format/datetime.ts\<close>, \<open>lib/format/timezone.ts\<close>)\<close>

text \<open>The formatter of the internationalisation library is a parameter: from the options and the
  value to a string. \<open>Intl.DateTimeFormat\<close> throws on an unknown zone; \<open>valid\<close> says which it knows.\<close>

definition APP_DATE_TIME_OPTIONS :: "(string \<times> string) list" where
  "APP_DATE_TIME_OPTIONS = [(''dateStyle'', ''medium''), (''timeStyle'', ''short''), (''hour12'', ''false'')]"

definition POLL_DIAGNOSTIC_DATE_TIME_OPTIONS :: "(string \<times> string) list" where
  "POLL_DIAGNOSTIC_DATE_TIME_OPTIONS =
     [(''year'', ''numeric''), (''month'', ''short''), (''day'', ''numeric''), (''hour'', ''2-digit''),
      (''minute'', ''2-digit''), (''second'', ''2-digit''), (''fractionalSecondDigits'', ''3''), (''hour12'', ''false'')]"

type_synonym formatter = "(string \<times> string) list \<Rightarrow> string \<Rightarrow> string"

definition formatAppDateTime :: "formatter \<Rightarrow> string option \<Rightarrow> msg \<Rightarrow> msg" where
  "formatAppDateTime fmt v fallback =
     (case v of None \<Rightarrow> fallback | Some s \<Rightarrow> if s = [] then fallback else Raw (fmt APP_DATE_TIME_OPTIONS s))"

definition formatPollDiagnosticDateTime :: "formatter \<Rightarrow> string option \<Rightarrow> msg \<Rightarrow> msg" where
  "formatPollDiagnosticDateTime fmt v fallback =
     (case v of None \<Rightarrow> fallback | Some s \<Rightarrow> if s = [] then fallback else Raw (fmt POLL_DIAGNOSTIC_DATE_TIME_OPTIONS s))"

definition DEFAULT_TIME_ZONE :: string where "DEFAULT_TIME_ZONE = ''UTC''"

definition getAppTimeZone :: "(string \<Rightarrow> bool) \<Rightarrow> string option \<Rightarrow> string" where
  "getAppTimeZone valid env =
     (let configured = map_option js_trim env
      in if configured = None \<or> configured = Some [] then DEFAULT_TIME_ZONE
         else if valid (the configured) then the configured else DEFAULT_TIME_ZONE)"

text \<open>The zone the application formats with is one the runtime knows, as soon as it knows UTC.\<close>

lemma time_zone_valid: "valid ''UTC'' \<Longrightarrow> valid (getAppTimeZone valid env)"
  by (simp add: getAppTimeZone_def DEFAULT_TIME_ZONE_def Let_def)

end
