(* ===== verification/Poll_History.thy ===== *)
theory Poll_History
  imports Page_Size Date_Format Query_Cache
begin

section \<open>The poll run history (\<open>components/dashboard/poll-run-history.tsx\<close>, \<open>use-poll.ts\<close>)\<close>

text \<open>
  The paged table of past poll runs and the dialog with one run's details. The date formatter and
  the host parser of \<open>new URL\<close> are parameters; the data come from the queries.
\<close>

definition POLL_EVENT_ACTIONS :: "string list" where
  "POLL_EVENT_ACTIONS = [''baseline'', ''skip'', ''create'', ''supersede'', ''merge'', ''skip_open'', ''error'']"

definition isPollEventAction :: "string \<Rightarrow> bool" where
  "isPollEventAction v \<longleftrightarrow> v \<in> set POLL_EVENT_ACTIONS"

definition runStatusVariant :: "string \<Rightarrow> string" where
  "runStatusVariant st =
     (if st = ''success'' then ''success''
      else if st = ''failed'' then ''error''
      else if st = ''partial'' then ''warning''
      else if st = ''running'' then ''info''
      else ''secondary'')"

subsection \<open>Absolute URLs\<close>

text \<open>The scheme of a reference: a letter, then letters, digits, \<open>+\<close>, \<open>-\<close>, \<open>.\<close>, up to a colon; the
  parser strips and lower-cases.\<close>

definition ascii_alpha :: "char \<Rightarrow> bool" where
  "ascii_alpha c \<longleftrightarrow> (let n = of_char c :: nat in 65 \<le> n \<and> n \<le> 90 \<or> 97 \<le> n \<and> n \<le> 122)"

definition scheme_char :: "char \<Rightarrow> bool" where
  "scheme_char c \<longleftrightarrow> ascii_alpha c \<or> is_digit c \<or> c \<in> set ''+-.''"

definition url_scheme :: "string \<Rightarrow> (string \<times> string) option" where
  "url_scheme v =
     (let s = url_clean v; name = takeWhile scheme_char s; rest = dropWhile scheme_char s
      in if name \<noteq> [] \<and> ascii_alpha (hd name) \<and> starts_with rest '':'' then Some (map ascii_lower name, drop 1 rest)
         else None)"

text \<open>\<open>new URL(value)\<close> for the two schemes the code accepts succeeds when the host parser does.\<close>

definition isHttpUrl :: "(string \<Rightarrow> string option) \<Rightarrow> string \<Rightarrow> bool" where
  "isHttpUrl origin_of v =
     (case url_scheme v of
        None \<Rightarrow> False
      | Some (scheme, rest) \<Rightarrow>
          (scheme = ''http'' \<or> scheme = ''https'') \<and>
          origin_of (takeWhile (\<lambda>c. \<not> authority_end c) (dropWhile is_slash rest)) \<noteq> None)"

subsection \<open>Cells\<close>

definition given_text :: "string option \<Rightarrow> bool" where
  "given_text v \<longleftrightarrow> v \<noteq> None \<and> v \<noteq> Some []"

definition PollRunsEmptyState :: view where
  "PollRunsEmptyState =
     El ''Empty'' []
       [El ''EmptyHeader'' []
          [El ''EmptyMedia'' [(''variant'', ''icon'')] [El ''HistoryIcon'' [] []],
           El ''EmptyTitle'' [] [tx ''dashboard.pollHistoryEmptyTitle''],
           El ''EmptyDescription'' [] [tx ''dashboard.pollHistoryEmptyDescription'']]]"

definition RunTriggerBadge :: "string \<Rightarrow> view" where
  "RunTriggerBadge triggerSource =
     El ''Badge'' [(''variant'', ''outline'')]
       [Txt (if triggerSource = ''manual'' then t0 ''dashboard.runTrigger.manual''
             else if triggerSource = ''scheduled'' then t0 ''dashboard.runTrigger.scheduled''
             else Raw triggerSource)]"

definition RunStatusBadge :: "string \<Rightarrow> view" where
  "RunStatusBadge st =
     El ''Badge'' [(''variant'', runStatusVariant st)]
       [Txt (if st = ''success'' then t0 ''dashboard.runStatus.success''
             else if st = ''failed'' then t0 ''dashboard.runStatus.failed''
             else if st = ''partial'' then t0 ''dashboard.runStatus.partial''
             else if st = ''running'' then t0 ''dashboard.runStatus.running''
             else Raw st)]"

definition EventTicketCell :: "(string \<Rightarrow> string option) \<Rightarrow> poll_run_event \<Rightarrow> view" where
  "EventTicketCell origin_of event =
     (if \<not> given_text (ev_ticket_external_id event) then tx ''dashboard.noEventDetail''
      else if given_text (ev_ticket_url event) \<and> isHttpUrl origin_of (the (ev_ticket_url event)) then
        El ''a'' [(''href'', the (ev_ticket_url event)), (''rel'', ''noopener noreferrer''), (''target'', ''_blank'')]
          [lit (the (ev_ticket_external_id event))]
      else El ''span'' [] [lit (the (ev_ticket_external_id event))])"

definition or_msg :: "string option \<Rightarrow> msg \<Rightarrow> msg" where
  "or_msg v m = (case v of None \<Rightarrow> m | Some s \<Rightarrow> Raw s)"

definition PollRunEventsList :: "(string \<Rightarrow> string option) \<Rightarrow> formatter \<Rightarrow> poll_run_event list \<Rightarrow> view" where
  "PollRunEventsList origin_of fmt events =
     (if length events = 0 then El ''p'' [] [tx ''dashboard.pollHistoryNoEvents'']
      else El ''Table'' [(''variant'', ''card'')]
        [El ''TableHeader'' []
           [El ''TableRow'' []
              (map (\<lambda>c. El ''TableHead'' [] [tx (''dashboard.pollHistoryEventColumns.'' @ c)])
                 [''time'', ''repo'', ''action'', ''tag'', ''ticket'', ''detail''])],
         El ''TableBody'' []
           (map (\<lambda>event.
              El ''TableRow'' [(''key'', ev_id event)]
                [El ''TableCell'' [] [Txt (formatPollDiagnosticDateTime fmt (Some (ev_created_at event)) (t0 ''dashboard.noEventDetail''))],
                 El ''TableCell'' []
                   (if given_text (ev_project_path event) then
                      [El ''div'' []
                         (El ''span'' [] [lit (the (ev_project_path event))] #
                          shown_if (given_text (ev_source_kind event))
                            [El ''Badge'' [(''variant'', ''outline'')] [lit (the (ev_source_kind event))]])]
                    else [tx ''dashboard.noEventDetail'']),
                 El ''TableCell'' []
                   [El ''Badge'' [(''variant'', ''outline'')]
                      [Txt (if isPollEventAction (ev_action event) then t0 (''dashboard.eventActions.'' @ ev_action event)
                            else Raw (ev_action event))]],
                 El ''TableCell'' [] [Txt (or_msg (ev_release_tag event) (t0 ''dashboard.noEventDetail''))],
                 El ''TableCell'' [] [EventTicketCell origin_of event],
                 El ''TableCell'' [] [Txt (or_msg (ev_detail event) (t0 ''dashboard.noEventDetail''))]]) events)])"


subsection \<open>The dialog with one run\<close>

text \<open>The map from repository ids to paths, filled in event order: a later event wins.\<close>

definition repoPathById :: "poll_run_event list \<Rightarrow> string \<Rightarrow> string option" where
  "repoPathById events =
     foldl (\<lambda>m event. if given_text (ev_monitored_repo_id event) \<and> given_text (ev_project_path event)
                      then m(the (ev_monitored_repo_id event) \<mapsto> the (ev_project_path event)) else m)
       Map.empty events"

definition run_events :: "poll_run \<Rightarrow> poll_run_event list" where
  "run_events prun = (case prun_events prun of None \<Rightarrow> [] | Some es \<Rightarrow> es)"

definition detail_row :: "string \<Rightarrow> view \<Rightarrow> view" where
  "detail_row label v = El ''div'' [] [El ''dt'' [] [tx (''dashboard.'' @ label)], El ''dd'' [] [v]]"

definition run_error_item :: "(string \<Rightarrow> string option) \<Rightarrow> poll_run_error \<Rightarrow> view" where
  "run_error_item paths err =
     El ''li'' [(''key'', rerr_repo_id err @ ''-'' @ rerr_message err)]
       [El ''span'' [] [lit (case paths (rerr_repo_id err) of None \<Rightarrow> rerr_repo_id err | Some pth \<Rightarrow> pth)],
        lit '': '', lit (rerr_message err)]"

definition run_details :: "(string \<Rightarrow> string option) \<Rightarrow> formatter \<Rightarrow> poll_run \<Rightarrow> view list" where
  "run_details origin_of fmt prun =
     [El ''div'' [] [RunStatusBadge (prun_status prun)],
      El ''dl'' []
        [detail_row ''pollHistoryColumns.trigger'' (RunTriggerBadge (prun_trigger_source prun)),
         detail_row ''pollHistoryColumns.startedAt''
           (Txt (formatPollDiagnosticDateTime fmt (Some (prun_started_at prun)) (t0 ''dashboard.lastRunNever''))),
         detail_row ''pollHistoryColumns.finishedAt''
           (Txt (formatPollDiagnosticDateTime fmt (prun_finished_at prun) (t0 ''dashboard.lastRunInProgress''))),
         detail_row ''lastRunReposChecked'' (lit (int_string (prun_repos_checked prun))),
         detail_row ''lastRunTicketsCreated'' (lit (int_string (prun_tickets_created prun))),
         detail_row ''lastRunTicketsSuperseded'' (lit (int_string (prun_tickets_superseded prun)))]] @
     shown_if (length (prun_errors prun) > 0)
       [El ''div'' []
          [El ''h3'' [] [tx ''dashboard.pollHistoryErrorsTitle''],
           El ''ul'' [] (map (run_error_item (repoPathById (run_events prun))) (prun_errors prun))]] @
     [El ''div'' [] [El ''h3'' [] [tx ''dashboard.pollHistoryEventsTitle''], PollRunEventsList origin_of fmt (run_events prun)]]"

definition PollRunDetailDialog ::
  "(string \<Rightarrow> string option) \<Rightarrow> formatter \<Rightarrow> bool \<Rightarrow> poll_run query \<Rightarrow> view" where
  "PollRunDetailDialog origin_of fmt is_open q =
     El ''Dialog'' ((''onOpenChange'', ''onOpenChange'') # flag ''open'' is_open)
       [El ''DialogPopup'' []
          [El ''DialogHeader'' []
             [El ''DialogTitle'' [] [tx ''dashboard.pollHistoryDetailTitle''],
              El ''DialogDescription'' [] [tx ''dashboard.pollHistoryDetailDescription'']],
           El ''DialogPanel'' []
             (shown_if (q_loading q) [El ''div'' [] [El ''Skeleton'' [] [], El ''Skeleton'' [] [], El ''Skeleton'' [] []]] @
              shown_if (q_error q) [El ''p'' [(''role'', ''alert'')] [tx ''dashboard.pollHistoryDetailLoadFailed'']] @
              (if \<not> q_loading q \<and> \<not> q_error q \<and> q_data q \<noteq> None then run_details origin_of fmt (the (q_data q)) else [])),
           El ''DialogFooter'' [(''variant'', ''bare'')]
             [El ''DialogClose'' [(''variant'', ''ghost''), (''type'', ''button'')] [tx ''common.cancel'']]]]"

subsection \<open>The table\<close>

record history =
  size_hook :: page_size_hook
  offset :: int
  selectedRunId :: "string option"

definition history_init :: "web_storage option \<Rightarrow> history" where
  "history_init w =
     \<lparr>size_hook = page_size_init (app_page_size POLL_RUN_HISTORY_PAGE_SIZE_STORAGE_KEY) w,
      offset = 0, selectedRunId = None\<rparr>"

definition history_query :: "history \<Rightarrow> poll_runs_params" where
  "history_query s = \<lparr>prp_limit = Some (pageSize (size_hook s)), prp_offset = Some (offset s)\<rparr>"

text \<open>The effect on \<open>pageSize\<close>, after a step changed it.\<close>

definition offset_effect :: "history \<Rightarrow> history \<Rightarrow> history" where
  "offset_effect s s' = (if pageSize (size_hook s') \<noteq> pageSize (size_hook s) then s'\<lparr>offset := 0\<rparr> else s')"

definition history_storage_effect :: "history \<Rightarrow> history" where
  "history_storage_effect s =
     offset_effect s (s\<lparr>size_hook := page_size_effect (app_page_size POLL_RUN_HISTORY_PAGE_SIZE_STORAGE_KEY) (size_hook s)\<rparr>)"

definition handlePageSizeChange :: "int option \<Rightarrow> history \<Rightarrow> history" where
  "handlePageSizeChange sz s =
     offset_effect s
       (s\<lparr>size_hook := setPageSize (app_page_size POLL_RUN_HISTORY_PAGE_SIZE_STORAGE_KEY) sz (size_hook s), offset := 0\<rparr>)"

definition nextPage :: "history \<Rightarrow> history" where
  "nextPage s = s\<lparr>offset := offset s + pageSize (size_hook s)\<rparr>"

definition previousPage :: "history \<Rightarrow> history" where
  "previousPage s = s\<lparr>offset := max 0 (offset s - pageSize (size_hook s))\<rparr>"

definition openRun :: "poll_run \<Rightarrow> history \<Rightarrow> history" where
  "openRun prun s = s\<lparr>selectedRunId := Some (prun_id prun)\<rparr>"

definition detailOpenChange :: "bool \<Rightarrow> history \<Rightarrow> history" where
  "detailOpenChange is_open s = (if \<not> is_open then s\<lparr>selectedRunId := None\<rparr> else s)"

definition hasPreviousPage :: "history \<Rightarrow> bool" where
  "hasPreviousPage s \<longleftrightarrow> offset s > 0"

definition hasNextPage :: "history \<Rightarrow> 'a list \<Rightarrow> bool" where
  "hasNextPage s runs \<longleftrightarrow> int (length runs) = pageSize (size_hook s)"

definition pageStart :: "history \<Rightarrow> 'a list \<Rightarrow> int" where
  "pageStart s runs = (if length runs = 0 then 0 else offset s + 1)"

definition pageEnd :: "history \<Rightarrow> 'a list \<Rightarrow> int" where
  "pageEnd s runs = offset s + int (length runs)"


definition history_row :: "formatter \<Rightarrow> poll_run \<Rightarrow> view" where
  "history_row fmt prun =
     El ''TableRow'' [(''key'', prun_id prun), (''onClick'', ''openRun''), (''onKeyDown'', ''openRun''), (''role'', ''button''), (''tabIndex'', ''0'')]
       [El ''TableCell'' [] [Txt (formatPollDiagnosticDateTime fmt (Some (prun_started_at prun)) (t0 ''dashboard.lastRunNever''))],
        El ''TableCell'' [] [Txt (formatPollDiagnosticDateTime fmt (prun_finished_at prun) (t0 ''dashboard.lastRunInProgress''))],
        El ''TableCell'' [] [RunStatusBadge (prun_status prun)],
        El ''TableCell'' [] [RunTriggerBadge (prun_trigger_source prun)],
        El ''TableCell'' [] [lit (int_string (prun_repos_checked prun))],
        El ''TableCell'' [] [lit (int_string (prun_tickets_created prun))]]"

definition history_size_items :: "(msg \<times> int) list" where
  "history_size_items =
     map (\<lambda>n. (T ''dashboard.paginationPageSizeOption'' [(''count'', int_string n)], n)) PAGE_SIZE_OPTIONS"

text \<open>\<open>q\<close> is the query for the page, \<open>q1\<close> the query for the selected run.\<close>

definition PollRunHistory ::
  "(string \<Rightarrow> string option) \<Rightarrow> formatter \<Rightarrow> poll_run list query \<Rightarrow> poll_run query \<Rightarrow> history \<Rightarrow> view" where
  "PollRunHistory origin_of fmt q q1 s =
     (let runs = (case q_data q of None \<Rightarrow> [] | Some rs \<Rightarrow> rs)
      in if \<not> q_loading q \<and> \<not> q_error q \<and> length runs = 0 \<and> offset s = 0 then PollRunsEmptyState
         else El ''Fragment'' []
           (shown_if (q_error q) [El ''p'' [(''role'', ''alert'')] [tx ''dashboard.pollHistoryLoadFailed'']] @
            [El ''Frame'' []
               (El ''FramePanel'' []
                  [El ''Table'' [(''variant'', ''card'')]
                     [El ''TableHeader'' []
                        [El ''TableRow'' []
                           (map (\<lambda>c. El ''TableHead'' [] [tx (''dashboard.pollHistoryColumns.'' @ c)])
                              [''startedAt'', ''finishedAt'', ''status'', ''trigger'', ''reposChecked'', ''ticketsCreated''])],
                      El ''TableBody'' []
                        (shown_if (q_loading q)
                           (map (\<lambda>i. El ''TableRow'' [(''key'', ''skeleton-'' @ nat_string i)]
                                        [El ''TableCell'' [(''colSpan'', ''6'')] [El ''Skeleton'' [] []]]) [0..<3]) @
                         shown_if (\<not> q_loading q) (map (history_row fmt) runs))]] #
                shown_if (\<not> q_loading q \<and> (length runs > 0 \<or> hasPreviousPage s))
                  [El ''FrameFooter'' []
                     [TablePaginationControls
                        (T ''dashboard.paginationRange''
                           [(''end'', int_string (pageEnd s runs)), (''start'', int_string (pageStart s runs))])
                        (pageSize (size_hook s)) history_size_items (t0 ''dashboard.paginationPageSize'')
                        (hasPreviousPage s) (hasNextPage s runs)
                        (t0 ''dashboard.paginationPrevious'') (t0 ''dashboard.paginationNext'')]]),
             PollRunDetailDialog origin_of fmt (selectedRunId s \<noteq> None) q1]))"

subsection \<open>Paging\<close>

text \<open>The user's steps: a button runs its handler only where the view leaves it enabled.\<close>

datatype history_event =
    Storage_Read
  | Choose_Size "int option"
  | Click_Next "poll_run list"
  | Click_Previous
  | Open_Run poll_run
  | Detail_Open bool

definition history_step :: "history \<Rightarrow> history_event \<Rightarrow> history" where
  "history_step s e =
     (case e of
        Storage_Read \<Rightarrow> history_storage_effect s
      | Choose_Size n \<Rightarrow> handlePageSizeChange n s
      | Click_Next runs \<Rightarrow> if hasNextPage s runs then nextPage s else s
      | Click_Previous \<Rightarrow> if hasPreviousPage s then previousPage s else s
      | Open_Run r \<Rightarrow> openRun r s
      | Detail_Open b \<Rightarrow> detailOpenChange b s)"

definition history_inv :: "history \<Rightarrow> bool" where
  "history_inv s \<longleftrightarrow>
     size_ok (app_page_size POLL_RUN_HISTORY_PAGE_SIZE_STORAGE_KEY) (size_hook s) \<and>
     0 \<le> offset s \<and> pageSize (size_hook s) dvd offset s"

lemma history_size_pos: "history_inv s \<Longrightarrow> 0 < pageSize (size_hook s)"
  using app_size_ok [of POLL_RUN_HISTORY_PAGE_SIZE_STORAGE_KEY "size_hook s"]
  by (auto simp: history_inv_def PAGE_SIZE_OPTIONS_def)

lemma previous_dvd: "0 < p \<Longrightarrow> p dvd (x::int) \<Longrightarrow> 0 \<le> x \<Longrightarrow> p dvd max 0 (x - p)"
  by (simp add: max_def)

lemma history_step_inv: "history_inv s \<Longrightarrow> history_inv (history_step s e)"
proof (cases e)
  case Storage_Read
  then show "history_inv s \<Longrightarrow> ?thesis"
    using effect_ok [of "app_page_size POLL_RUN_HISTORY_PAGE_SIZE_STORAGE_KEY" "size_hook s"]
    by (simp add: history_step_def history_storage_effect_def offset_effect_def history_inv_def)
next
  case (Choose_Size n)
  then show "history_inv s \<Longrightarrow> ?thesis"
    using setPageSize_ok [of "app_page_size POLL_RUN_HISTORY_PAGE_SIZE_STORAGE_KEY" "size_hook s" n]
    by (simp add: history_step_def handlePageSizeChange_def offset_effect_def history_inv_def)
next
  case (Click_Next runs)
  then show "history_inv s \<Longrightarrow> ?thesis"
    using history_size_pos [of s] by (simp add: history_step_def nextPage_def history_inv_def)
next
  case Click_Previous
  then show "history_inv s \<Longrightarrow> ?thesis"
    using history_size_pos [of s] previous_dvd
    by (simp add: history_step_def previousPage_def history_inv_def)
qed (simp_all add: history_step_def openRun_def detailOpenChange_def history_inv_def)

interpretation history: stepper history_step history_inv
  by unfold_locales (rule history_step_inv)

lemma history_init_inv: "history_inv (history_init w)"
  by (simp add: history_inv_def history_init_def size_ok_def page_size_init_def)

text \<open>In every run of the history table the offset stays on a page boundary: never negative,
  a multiple of the page size, and the size one of the offered options, so that the query the
  server sees is always a whole page.\<close>

theorem history_on_page_boundary:
  "let s = run history_step (history_init w) es
   in 0 \<le> offset s \<and> pageSize (size_hook s) dvd offset s \<and> pageSize (size_hook s) \<in> set PAGE_SIZE_OPTIONS"
  using history.run_inv [OF history_init_inv, of w es] app_size_ok
  by (simp only: history_inv_def Let_def) blast


text \<open>The server's page of a list (\<open>LIMIT\<close> and \<open>OFFSET\<close>), and what a user finds who presses Next
  \<open>n\<close> times from a state: the page the server answers, and the table drawn with it.\<close>

definition server_page :: "'a list \<Rightarrow> poll_runs_params \<Rightarrow> 'a list" where
  "server_page all params =
     take (nat (the (prp_limit params))) (drop (nat (the (prp_offset params))) all)"

definition page_after :: "'a list \<Rightarrow> history \<Rightarrow> nat \<Rightarrow> 'a list" where
  "page_after all s n = server_page all (history_query ((nextPage ^^ n) s))"

definition table_after ::
  "(string \<Rightarrow> string option) \<Rightarrow> formatter \<Rightarrow> poll_run query \<Rightarrow> poll_run list \<Rightarrow> history \<Rightarrow> nat \<Rightarrow> view" where
  "table_after origin_of fmt q1 all s n =
     PollRunHistory origin_of fmt \<lparr>q_data = Some (page_after all s n), q_loading = False, q_error = False\<rparr> q1
       ((nextPage ^^ n) s)"

lemma nextPage_simps [simp]:
  "size_hook (nextPage s) = size_hook s" "offset (nextPage s) = offset s + pageSize (size_hook s)"
  by (simp_all add: nextPage_def)

lemma nexts_size [simp]: "size_hook ((nextPage ^^ n) s) = size_hook s"
  by (induction n) simp_all

lemma nexts_offset [simp]: "offset ((nextPage ^^ n) s) = offset s + int n * pageSize (size_hook s)"
  by (induction n) (simp_all add: algebra_simps)

lemma page_after_eq:
  assumes "0 < pageSize (size_hook s)" "0 \<le> offset s"
  shows "page_after all s n =
           take (nat (pageSize (size_hook s))) (drop (n * nat (pageSize (size_hook s))) (drop (nat (offset s)) all))"
  using assms by (simp add: page_after_def server_page_def history_query_def nat_add_distrib nat_mult_distrib add.commute)

lemma pages_concat: "concat (map (\<lambda>i. take p (drop (i * p) xs)) [0..<n]) = take (n * p) xs"
proof (induction n)
  case (Suc n)
  have "take (n * p) xs @ take p (drop (n * p) xs) = take (n * p + p) xs" by (rule take_add [symmetric])
  with Suc show ?case by (simp add: add.commute)
qed simp

lemma full_page: "0 < p \<Longrightarrow> length (take p (drop (n * p) xs)) = p \<longleftrightarrow> Suc n * p \<le> length xs"
  by auto

lemma controls_next:
  "operable ''onClick'' ''onNextPage'' (TablePaginationControls sm n its sl cp cn pl nl) \<longleftrightarrow> cn"
  by (simp add: TablePaginationControls_def Let_def operable_simps operable_Button list_ex_iff attr_opt_def split: option.split)

lemma history_next:
  assumes "0 < pageSize (size_hook s)"
  shows "operable ''onClick'' ''onNextPage''
           (PollRunHistory origin_of fmt \<lparr>q_data = Some runs, q_loading = False, q_error = False\<rparr> q1 s) \<longleftrightarrow> hasNextPage s runs"
proof -
  have cells: "\<not> operable ''onClick'' ''onNextPage'' (RunStatusBadge st)" "\<not> operable ''onClick'' ''onNextPage'' (RunTriggerBadge tr)"
    "\<not> operable ''onClick'' ''onNextPage'' (EventTicketCell origin_of event)" "\<not> operable ''onClick'' ''onNextPage'' PollRunsEmptyState"
    for st tr event
    by (simp_all add: RunStatusBadge_def RunTriggerBadge_def EventTicketCell_def PollRunsEmptyState_def operable_simps)
  have events: "\<not> operable ''onClick'' ''onNextPage'' (PollRunEventsList origin_of fmt es)" for es
    by (simp add: PollRunEventsList_def operable_simps cells list_ex_iff shown_if_def)
  have details: "\<not> list_ex (operable ''onClick'' ''onNextPage'') (run_details origin_of fmt r)" for r
    by (simp add: run_details_def detail_row_def run_error_item_def operable_simps cells events)
  have dialog: "\<not> operable ''onClick'' ''onNextPage'' (PollRunDetailDialog origin_of fmt b q1)" for b
    by (simp add: PollRunDetailDialog_def operable_simps details)
  have rows: "\<not> operable ''onClick'' ''onNextPage'' (history_row fmt r)" for r
    by (simp add: history_row_def operable_simps cells)
  show ?thesis using assms
    by (auto simp: PollRunHistory_def Let_def operable_simps controls_next cells dialog rows hasNextPage_def)
qed

lemma enabled_then_not: "map (\<lambda>n. n < k) [0..<Suc k] = replicate k True @ [False]"
  by (rule nth_equalityI) (auto simp: nth_append less_Suc_eq simp del: upt_Suc)

text \<open>C21: Paging reaches everything once and ends: over a list that does not change, in every
  reachable state, the Next button of the drawn table is enabled before each of the first
  \<open>k\<close> presses and disabled after the last, where \<open>k\<close> is the number of runs still to come divided by
  the page size, and the pages shown on the way, one after the other, are these runs in order,
  without gap or repetition.\<close>

theorem paging_covers:
  "let s = run history_step (history_init w) es;
       rest = drop (nat (offset s)) all;
       k = length rest div nat (pageSize (size_hook s))
   in map (\<lambda>n. operable ''onClick'' ''onNextPage'' (table_after origin_of fmt q1 all s n)) [0..<Suc k] = replicate k True @ [False]
    \<and> concat (map (page_after all s) [0..<Suc k]) = rest"
proof -
  let ?s = "run history_step (history_init w) es"
  let ?p = "nat (pageSize (size_hook ?s))" and ?rest = "drop (nat (offset ?s)) all"
  let ?k = "length ?rest div ?p"
  have "history_inv ?s" by (rule history.run_inv) (rule history_init_inv)
  then have pos: "0 < pageSize (size_hook ?s)" "0 \<le> offset ?s"
    using history_size_pos by (simp_all add: history_inv_def)
  then have p: "0 < ?p" "pageSize (size_hook ?s) = int ?p" by simp_all
  have page: "page_after all ?s n = take ?p (drop (n * ?p) ?rest)" for n
    by (rule page_after_eq [OF pos])
  have "operable ''onClick'' ''onNextPage'' (table_after origin_of fmt q1 all ?s n) \<longleftrightarrow> n < ?k" for n
  proof -
    have "operable ''onClick'' ''onNextPage'' (table_after origin_of fmt q1 all ?s n) \<longleftrightarrow>
            int (length (page_after all ?s n)) = pageSize (size_hook ?s)"
      using pos(1) by (simp add: table_after_def history_next hasNextPage_def)
    also have "\<dots> \<longleftrightarrow> length (page_after all ?s n) = ?p" using p(2) by linarith
    also have "\<dots> \<longleftrightarrow> Suc n * ?p \<le> length ?rest" unfolding page by (rule full_page) (rule p(1))
    also have "\<dots> \<longleftrightarrow> n < ?k" using p(1) by (simp add: less_eq_div_iff_mult_less_eq flip: Suc_le_eq)
    finally show ?thesis .
  qed
  moreover have "length ?rest \<le> Suc ?k * ?p"
    using p(1) by (metis dividend_less_div_times less_imp_le mult.commute mult_Suc)
  then have "concat (map (page_after all ?s) [0..<Suc ?k]) = ?rest"
    using pages_concat [of ?p ?rest "Suc ?k"] by (simp only: page take_all cong: map_cong)
  ultimately show ?thesis by (simp only: Let_def enabled_then_not)
qed

subsection \<open>Links\<close>

text \<open>The targets of the links of a view; and what is meant by an http or https target, said of the
  text: white space at its ends and tabs and line breaks apart, and in any case, it starts with one of
  the two schemes, and what follows it up to the path names a host the parser accepts.\<close>

definition hrefs :: "view \<Rightarrow> string list" where
  "hrefs v = concat (map (\<lambda>e. case attr_of e ''href'' of None \<Rightarrow> [] | Some u \<Rightarrow> [u]) (elements v))"

definition http_target :: "(string \<Rightarrow> string option) \<Rightarrow> string \<Rightarrow> bool" where
  "http_target origin_of u \<longleftrightarrow>
     (let s = url_clean u
      in list_ex (\<lambda>p. starts_with (map ascii_lower s) p \<and>
                      origin_of (takeWhile (\<lambda>c. \<not> authority_end c) (dropWhile is_slash (drop (length p) s))) \<noteq> None)
           [''http:'', ''https:''])"

definition linked_events :: "(string \<Rightarrow> string option) \<Rightarrow> poll_run_event list \<Rightarrow> poll_run_event list" where
  "linked_events origin_of events =
     filter (\<lambda>event. given_text (ev_ticket_external_id event) \<and> given_text (ev_ticket_url event) \<and>
                     http_target origin_of (the (ev_ticket_url event))) events"

lemma lower_is:
  "ascii_lower c = CHR ''h'' \<longleftrightarrow> c \<in> {CHR ''h'', CHR ''H''}" "ascii_lower c = CHR ''t'' \<longleftrightarrow> c \<in> {CHR ''t'', CHR ''T''}"
  "ascii_lower c = CHR ''p'' \<longleftrightarrow> c \<in> {CHR ''p'', CHR ''P''}" "ascii_lower c = CHR ''s'' \<longleftrightarrow> c \<in> {CHR ''s'', CHR ''S''}"
  "ascii_lower c = CHR '':'' \<longleftrightarrow> c = CHR '':''"
  by (auto simp: lower_code Let_def simp flip: of_char_eq_iff [where ?'a = nat])

lemma scheme_letters:
  "scheme_char c \<and> ascii_alpha c" if "c \<in> {CHR ''h'', CHR ''H'', CHR ''t'', CHR ''T'', CHR ''p'', CHR ''P'', CHR ''s'', CHR ''S''}"
  using that by (auto simp: scheme_char_def ascii_alpha_def)

lemma colon_no_scheme: "\<not> scheme_char CHR '':''"
  by (simp add: scheme_char_def ascii_alpha_def is_digit_def)

text \<open>The code's test, by the parsed protocol, is that of the text.\<close>

lemma scheme_text:
  assumes "list_all (\<lambda>c. \<forall>d. ascii_lower d = c \<longrightarrow> scheme_char d) p"
  shows "starts_with (map ascii_lower s) (p @ '':'') \<longleftrightarrow>
           map ascii_lower (takeWhile scheme_char s) = p \<and> starts_with (dropWhile scheme_char s) '':''"
  using assms
proof (induction p arbitrary: s)
  case Nil
  then show ?case using colon_no_scheme by (cases s) (auto simp: starts_with_def lower_is)
next
  case (Cons c p)
  then show ?case by (cases s) (auto simp: starts_with_def)
qed

lemma scheme_length: "map ascii_lower (takeWhile scheme_char s) = p \<Longrightarrow> drop (length p) s = dropWhile scheme_char s"
  by (metis append_eq_conv_conj length_map takeWhile_dropWhile_id)

lemma isHttpUrl_text: "isHttpUrl origin_of u \<longleftrightarrow> http_target origin_of u"
proof -
  let ?s = "url_clean u"
  let ?name = "map ascii_lower (takeWhile scheme_char ?s)" and ?rest = "dropWhile scheme_char ?s"
  have alpha: "ascii_alpha (hd (takeWhile scheme_char ?s))" if "?name = CHR ''h'' # p" for p
    using that scheme_letters by (cases "takeWhile scheme_char ?s") (auto simp: lower_is)
  have letters: "list_all (\<lambda>c. \<forall>d. ascii_lower d = c \<longrightarrow> scheme_char d) ''https''"
    using scheme_letters by (simp add: lower_is)
  have starts: "starts_with (map ascii_lower ?s) (p @ '':'') \<longleftrightarrow> ?name = p \<and> starts_with ?rest '':''"
    if "p = ''http'' \<or> p = ''https''" for p
    using letters that by (intro scheme_text) auto
  have rest: "drop (Suc (length p)) ?s = drop 1 ?rest" if "?name = p" for p
    using scheme_length [OF that] by (metis drop_drop plus_1_eq_Suc)
  show ?thesis
    using alpha [of "''ttp''"] alpha [of "''ttps''"] starts [of "''http''"] starts [of "''https''"]
      rest [of "''http''"] rest [of "''https''"]
    by (auto simp: isHttpUrl_def http_target_def url_scheme_def Let_def)
qed

lemma hrefs_simps [simp]:
  "hrefs (Txt m) = []"
  "hrefs (El tag as vs) = (case map_of as ''href'' of None \<Rightarrow> [] | Some u \<Rightarrow> [u]) @ concat (map hrefs vs)"
  by (induction vs) (simp_all add: hrefs_def)


lemma hrefs_flat [simp]:
  "hrefs (Button l d [(''onClick'', h), (''size'', x), (''variant'', v)] [Txt m]) = []"
  "hrefs (RunStatusBadge st) = []" "hrefs (RunTriggerBadge tr) = []" "hrefs PollRunsEmptyState = []"
  by (simp_all add: Button_def RunStatusBadge_def RunTriggerBadge_def PollRunsEmptyState_def shown_if_def flag_def)

lemma controls_hrefs [simp]: "hrefs (TablePaginationControls sm n its sl cp cn pl nl) = []"
  by (simp add: TablePaginationControls_def Let_def attr_opt_def comp_def split: option.split)

lemma row_hrefs [simp]: "hrefs (history_row fmt r) = []"
  by (simp add: history_row_def)

lemma cell_hrefs:
  "hrefs (EventTicketCell origin_of event) = map (the \<circ> ev_ticket_url) (linked_events origin_of [event])"
  by (simp add: EventTicketCell_def linked_events_def isHttpUrl_text)

lemma events_hrefs:
  "hrefs (PollRunEventsList origin_of fmt es) = map (the \<circ> ev_ticket_url) (linked_events origin_of es)"
proof -
  have "concat (map (\<lambda>event. hrefs (EventTicketCell origin_of event)) es) = map (the \<circ> ev_ticket_url) (linked_events origin_of es)"
    by (induction es) (simp_all add: cell_hrefs linked_events_def)
  then show ?thesis
    by (simp add: PollRunEventsList_def comp_def shown_if_def if_distrib [of "map hrefs"] if_distrib [of concat] cong: if_cong) (simp add: linked_events_def)
qed

lemma details_hrefs:
  "concat (map hrefs (run_details origin_of fmt r)) = map (the \<circ> ev_ticket_url) (linked_events origin_of (run_events r))"
  by (simp add: run_details_def detail_row_def run_error_item_def events_hrefs shown_if_def comp_def)

text \<open>C19: The links the poll history renders, in the table and in the dialog, are exactly the ticket
  URLs of the events of the run shown, in order, of those that name a ticket and whose URL's text
  starts with \<open>http:\<close> or \<open>https:\<close> (in any case, white space around it and tabs and line breaks apart) and
  goes on with a host that parses: a URL with another scheme (\<open>javascript:\<close>) is never a link. No
  link appears while the run is loading, after an error, or in place of an empty history.\<close>

theorem history_links_http:
  "hrefs (PollRunHistory origin_of fmt q q1 s) =
     (if \<not> q_loading q \<and> \<not> q_error q \<and> q_data q \<in> {None, Some []} \<and> offset s = 0 then []
      else if q_loading q1 \<or> q_error q1 then []
      else case q_data q1 of None \<Rightarrow> []
           | Some prun \<Rightarrow> map (the \<circ> ev_ticket_url) (linked_events origin_of (run_events prun)))"
proof -
  have "hrefs (PollRunDetailDialog origin_of fmt b q1) =
          (if q_loading q1 \<or> q_error q1 then []
           else case q_data q1 of None \<Rightarrow> []
                | Some prun \<Rightarrow> map (the \<circ> ev_ticket_url) (linked_events origin_of (run_events prun)))" for b
    by (simp add: PollRunDetailDialog_def flag_def shown_if_def details_hrefs split: option.split)
  then show ?thesis
    by (cases "q_data q"; cases "q_data q1"; cases "q_loading q"; cases "q_error q"; cases "q_loading q1"; cases "q_error q1")
      (simp_all add: PollRunHistory_def Let_def shown_if_def comp_def)
qed

end
