(* ===== verification/Repo_Status.thy ===== *)
theory Repo_Status
  imports Poll_History Commands
begin

section \<open>The repository status table (\<open>components/dashboard/repo-status-table.tsx\<close>)\<close>

text \<open>
  The table component is headless: the row model (sorting, paging) comes from the table library,
  here a parameter that gives the visible rows for a pagination and a sorting. \<open>getTime\<close> is
  \<open>new Date(s).getTime()\<close> on the server's timestamps, which are valid dates.
\<close>

subsection \<open>Cells\<close>

definition ExternalTableLink :: "msg \<Rightarrow> string \<Rightarrow> view list \<Rightarrow> view" where
  "ExternalTableLink ariaLabel href children =
     El ''a'' [(''href'', href), (''rel'', ''noopener noreferrer''), (''target'', ''_blank'')] children"

definition ReposEmptyState :: view where
  "ReposEmptyState =
     El ''Empty'' []
       [El ''EmptyHeader'' []
          [El ''EmptyMedia'' [(''variant'', ''icon'')] [El ''FolderGit2Icon'' [] []],
           El ''EmptyTitle'' [] [tx ''dashboard.reposEmptyTitle''],
           El ''EmptyDescription'' [] [tx ''dashboard.reposEmptyDescription'']],
        El ''EmptyContent'' [] [LinkButton ''/repos'' [] [tx ''dashboard.reposEmptyCta'']]]"

definition formatLastPolledAt :: "formatter \<Rightarrow> string option \<Rightarrow> msg" where
  "formatLastPolledAt fmt v =
     (if \<not> given_text v then t0 ''repos.lastPolledNever'' else formatAppDateTime fmt v (t0 ''repos.lastPolledNever''))"

definition formatLastReleasePublishedAt :: "formatter \<Rightarrow> string option \<Rightarrow> msg" where
  "formatLastReleasePublishedAt fmt v =
     (if \<not> given_text v then t0 ''dashboard.noTag'' else formatAppDateTime fmt v (t0 ''dashboard.noTag''))"

definition cell_source :: "status_repo \<Rightarrow> view" where
  "cell_source r = El ''Badge'' [(''variant'', ''outline'')] [tx (''integrations.kinds.'' @ srepo_source_kind r)]"

definition cell_path :: "status_repo \<Rightarrow> view" where
  "cell_path r =
     (if given_text (srepo_repo_url r) then
        ExternalTableLink (T ''dashboard.links.repo'' [(''path'', srepo_project_path r)]) (the (srepo_repo_url r))
          [lit (srepo_project_path r)]
      else El ''span'' [] [lit (srepo_project_path r)])"

definition cell_tag :: "status_repo \<Rightarrow> view" where
  "cell_tag r =
     (if \<not> given_text (srepo_last_known_tag r) then El ''span'' [] [tx ''dashboard.noTag'']
      else if given_text (srepo_release_url r) then
        ExternalTableLink (T ''dashboard.links.release'' [(''tag'', the (srepo_last_known_tag r))]) (the (srepo_release_url r))
          [lit (the (srepo_last_known_tag r))]
      else El ''span'' [] [lit (the (srepo_last_known_tag r))])"

definition cell_published :: "formatter \<Rightarrow> status_repo \<Rightarrow> view" where
  "cell_published fmt r = El ''span'' [] [Txt (formatLastReleasePublishedAt fmt (srepo_last_release_published_at r))]"

definition cell_ticket :: "status_repo \<Rightarrow> view" where
  "cell_ticket r =
     (if \<not> given_text (srepo_open_ticket_external_id r) then El ''span'' [] [tx ''dashboard.noTicket'']
      else (let ticketId = the (srepo_open_ticket_external_id r)
            in El ''div'' []
              ((if given_text (srepo_open_ticket_url r) then
                  ExternalTableLink (T ''dashboard.links.openTicket'' [(''ticketId'', ticketId)]) (the (srepo_open_ticket_url r))
                    [lit ticketId]
                else El ''span'' [] [lit ticketId]) #
               shown_if (given_text (srepo_open_ticket_tag r)) [El ''span'' [] [lit (the (srepo_open_ticket_tag r))]])))"

definition cell_polled :: "formatter \<Rightarrow> status_repo \<Rightarrow> view" where
  "cell_polled fmt r = El ''span'' [] [Txt (formatLastPolledAt fmt (srepo_last_polled_at r))]"

text \<open>The sorting functions of the two date columns are the same code.\<close>

definition compare_dates :: "(string \<Rightarrow> int) \<Rightarrow> string option \<Rightarrow> string option \<Rightarrow> int" where
  "compare_dates getTime left right =
     (if \<not> given_text left \<and> \<not> given_text right then 0
      else if \<not> given_text left then 1
      else if \<not> given_text right then -1
      else getTime (the left) - getTime (the right))"

text \<open>The columns: accessor, header, size, cell.\<close>

definition columns :: "formatter \<Rightarrow> (string \<times> msg \<times> nat \<times> (status_repo \<Rightarrow> view)) list" where
  "columns fmt =
     [(''sourceKind'', t0 ''dashboard.columns.source'', 120, cell_source),
      (''projectPath'', t0 ''dashboard.columns.path'', 220, cell_path),
      (''lastKnownTag'', t0 ''dashboard.columns.lastTag'', 120, cell_tag),
      (''lastReleasePublishedAt'', t0 ''dashboard.columns.lastReleasePublishedAt'', 160, cell_published fmt),
      (''openTicketExternalId'', t0 ''dashboard.columns.openTicket'', 180, cell_ticket),
      (''lastPolledAt'', t0 ''dashboard.columns.lastPolledAt'', 160, cell_polled fmt)]"

subsection \<open>The table\<close>

record pagination =
  pageIndex :: int
  pag_size :: int

record repo_table =
  rt_hook :: page_size_hook
  rt_pagination :: pagination
  rt_sorting :: "(bool \<times> string) list"

record table_api =
  tb_rows :: "status_repo list"
  tb_row_count :: int
  tb_can_previous :: bool
  tb_can_next :: bool
  tb_can_sort :: "string \<Rightarrow> bool"
  tb_sorted :: "string \<Rightarrow> string option"

definition repo_table_init :: "web_storage option \<Rightarrow> repo_table" where
  "repo_table_init w =
     (let h = page_size_init (app_page_size REPO_STATUS_PAGE_SIZE_STORAGE_KEY) w
      in \<lparr>rt_hook = h, rt_pagination = \<lparr>pageIndex = 0, pag_size = pageSize h\<rparr>, rt_sorting = [(False, ''projectPath'')]\<rparr>)"

text \<open>The effect on \<open>pageSize\<close>.\<close>

definition pagination_effect :: "repo_table \<Rightarrow> repo_table" where
  "pagination_effect s =
     s\<lparr>rt_pagination := (if pag_size (rt_pagination s) = pageSize (rt_hook s) then rt_pagination s
                         else \<lparr>pageIndex = 0, pag_size = pageSize (rt_hook s)\<rparr>)\<rparr>"

definition table_storage_effect :: "repo_table \<Rightarrow> repo_table" where
  "table_storage_effect s =
     pagination_effect (s\<lparr>rt_hook := page_size_effect (app_page_size REPO_STATUS_PAGE_SIZE_STORAGE_KEY) (rt_hook s)\<rparr>)"

definition table_handlePageSizeChange :: "int \<Rightarrow> repo_table \<Rightarrow> repo_table" where
  "table_handlePageSizeChange sz s =
     s\<lparr>rt_hook := setPageSize (app_page_size REPO_STATUS_PAGE_SIZE_STORAGE_KEY) (Some sz) (rt_hook s),
       rt_pagination := \<lparr>pageIndex = 0, pag_size = sz\<rparr>\<rparr>"

definition repo_header :: "table_api \<Rightarrow> string \<times> msg \<times> nat \<times> (status_repo \<Rightarrow> view) \<Rightarrow> view" where
  "repo_header tb col =
     (let (cid, header, sz, cell) = col
      in El ''TableHead'' ([(''key'', cid)] @ (if sz \<noteq> 0 then [(''width'', nat_string sz @ ''px'')] else []))
        (if tb_can_sort tb cid then
           [El ''div'' [(''onClick'', ''toggleSorting''), (''onKeyDown'', ''toggleSorting''), (''role'', ''button''), (''tabIndex'', ''0'')]
              (Txt header #
               (case tb_sorted tb cid of
                  None \<Rightarrow> []
                | Some dir \<Rightarrow> if dir = ''asc'' then [El ''ChevronUpIcon'' [] []]
                             else if dir = ''desc'' then [El ''ChevronDownIcon'' [] []] else []))]
         else [Txt header]))"

definition repo_table_body :: "formatter \<Rightarrow> bool \<Rightarrow> table_api \<Rightarrow> view list" where
  "repo_table_body fmt isLoading tb =
     shown_if isLoading
       (map (\<lambda>i. El ''TableRow'' [(''key'', ''skeleton-'' @ nat_string i)]
                   [El ''TableCell'' [(''colSpan'', nat_string (length (columns fmt)))] [El ''Skeleton'' [] []]]) [0..<3]) @
     shown_if (\<not> isLoading \<and> length (tb_rows tb) > 0)
       (map (\<lambda>r. El ''TableRow'' [(''key'', srepo_id r)]
                   (map (\<lambda>(cid, header, sz, cell). El ''TableCell'' [(''key'', cid)] [cell r]) (columns fmt))) (tb_rows tb)) @
     shown_if (\<not> isLoading \<and> length (tb_rows tb) = 0)
       [El ''TableRow'' [] [El ''TableCell'' [(''colSpan'', nat_string (length (columns fmt)))] [tx ''dashboard.noResults'']]]"

definition RepoStatusTable ::
  "formatter \<Rightarrow> (repo_table \<Rightarrow> status_repo list \<Rightarrow> table_api) \<Rightarrow> status_repo list \<Rightarrow> bool \<Rightarrow> repo_table \<Rightarrow> view" where
  "RepoStatusTable fmt useReactTable repos isLoading s =
     (let tb = useReactTable s repos;
          size = pageSize (rt_hook s);
          ix = pageIndex (rt_pagination s)
      in if \<not> isLoading \<and> length repos = 0 then ReposEmptyState
         else El ''Frame'' []
           (El ''FramePanel'' []
              [El ''Table'' [(''variant'', ''card'')]
                 [El ''TableHeader'' [] [El ''TableRow'' [] (map (repo_header tb) (columns fmt))],
                  El ''TableBody'' [] (repo_table_body fmt isLoading tb)]] #
            shown_if (\<not> isLoading \<and> length repos > 0)
              [El ''FrameFooter'' []
                 [TablePaginationControls
                    (T ''dashboard.paginationSummary''
                       [(''end'', int_string (min ((ix + 1) * size) (tb_row_count tb))),
                        (''start'', int_string (ix * size + 1)),
                        (''total'', int_string (tb_row_count tb))])
                    size history_size_items (t0 ''dashboard.paginationPageSize'')
                    (tb_can_previous tb) (tb_can_next tb)
                    (t0 ''dashboard.paginationPrevious'') (t0 ''dashboard.paginationNext'')]]))"


subsection \<open>Sorting by date\<close>

text \<open>A comparator in the sense of \<open>Array.prototype.sort\<close>: sign-antisymmetric and transitive. For
  such a comparator, equivalence of elements is an equivalence and sorting is well defined.\<close>

locale comparator_fn =
  fixes cmp :: "'a \<Rightarrow> 'a \<Rightarrow> int"
  assumes cmp_anti: "sgn (cmp a b) = - sgn (cmp b a)"
    and cmp_trans: "cmp a b \<le> 0 \<Longrightarrow> cmp b c \<le> 0 \<Longrightarrow> cmp a c \<le> 0"
begin

lemma cmp_refl: "cmp a a = 0"
  using cmp_anti [of a a] by (simp add: sgn_if split: if_splits)

lemma cmp_total: "cmp a b \<le> 0 \<or> cmp b a \<le> 0"
  using cmp_anti [of a b] by (simp add: sgn_if split: if_splits)

lemma cmp_eq_sym: "cmp a b = 0 \<longleftrightarrow> cmp b a = 0"
  using cmp_anti [of a b] by (simp add: sgn_if split: if_splits)

lemma sorted_blocks:
  assumes "sorted_wrt (\<lambda>a b. cmp a b \<le> 0) xs" and "\<And>a b. \<not> P a \<Longrightarrow> P b \<Longrightarrow> 0 < cmp a b"
  shows "xs = filter P xs @ filter (\<lambda>x. \<not> P x) xs"
  using assms(1)
proof (induction xs)
  case (Cons x xs)
  show ?case
  proof (cases "P x")
    case False
    have "\<not> P y" if "y \<in> set xs" for y
      using Cons.prems assms(2) [OF False, of y] that by (auto simp: not_le [symmetric])
    then have "filter P xs = []" "filter (\<lambda>x. \<not> P x) xs = xs" by (simp_all add: filter_empty_conv)
    then show ?thesis using False by simp
  qed (use Cons in simp)
qed simp

end

interpretation dates: comparator_fn "compare_dates getTime" for getTime
  by unfold_locales (auto simp: compare_dates_def sgn_if split: if_splits)

text \<open>Sorted by a date column, the repositories that have a date come first, oldest first, and
  all that were never polled (or never released) come last, whatever rows and times the table
  holds: the sorting function orders every two rows consistently.\<close>

theorem undated_rows_last:
  assumes "sorted_wrt (\<lambda>a b. compare_dates getTime a b \<le> 0) ds"
  shows "ds = filter given_text ds @ filter (\<lambda>d. \<not> given_text d) ds
    \<and> sorted (map (\<lambda>d. getTime (the d)) (filter given_text ds))"
proof
  show "ds = filter given_text ds @ filter (\<lambda>d. \<not> given_text d) ds"
    by (rule dates.sorted_blocks [OF assms]) (simp add: compare_dates_def)
  show "sorted (map (\<lambda>d. getTime (the d)) (filter given_text ds))"
    using assms by (induction ds) (auto simp: compare_dates_def)
qed

theorem undated_rows_last_witness:
  "[Some ''1'', Some ''22'', None] = filter given_text [Some ''1'', Some ''22'', None] @
     filter (\<lambda>d. \<not> given_text d) [Some ''1'', Some ''22'', None]"
  using undated_rows_last [of "\<lambda>s. int (length s)" "[Some ''1'', Some ''22'', None]"]
  by (simp add: compare_dates_def given_text_def)

text \<open>The status table links every ticket URL it gets, without the scheme test the poll history
  applies: a \<open>javascript:\<close> URL of a ticket becomes the target of a link.\<close>

theorem table_links_unchecked:
  "list_ex (\<lambda>e. attr_of e ''href'' = Some ''javascript:alert(1)'')
     (elements (cell_ticket (r\<lparr>srepo_open_ticket_external_id := Some ''T-1'', srepo_open_ticket_url := Some ''javascript:alert(1)''\<rparr>)))
   \<and> \<not> isHttpUrl origin_of ''javascript:alert(1)''
   \<and> EventTicketCell origin_of (ev\<lparr>ev_ticket_external_id := Some ''T-1'', ev_ticket_url := Some ''javascript:alert(1)''\<rparr>)
       = El ''span'' [] [lit ''T-1'']"
proof -
  have "url_scheme ''javascript:alert(1)'' = Some (''javascript'', ''alert(1)'')" by code_simp
  then have no: "\<not> isHttpUrl origin_of ''javascript:alert(1)''" by (simp add: isHttpUrl_def)
  then show ?thesis
    by (simp add: cell_ticket_def ExternalTableLink_def EventTicketCell_def given_text_def Let_def)
qed

end
