(* ===== verification/Dashboard.thy ===== *)
theory Dashboard
  imports Repo_Status Api_Client
begin

section \<open>The dashboard (\<open>components/dashboard/dashboard-view.tsx\<close>, \<open>status-card.tsx\<close>, \<open>last-run-errors.tsx\<close>)\<close>

text \<open>The status of the poller, the button that starts a poll run, and the errors of the last run.\<close>

subsection \<open>The status card\<close>

definition card_runStatusVariant :: "string option \<Rightarrow> bool \<Rightarrow> string" where
  "card_runStatusVariant st isPolling =
     (if isPolling then ''info''
      else if st = Some ''success'' then ''success''
      else if st = Some ''failed'' then ''error''
      else if st = Some ''running'' then ''info''
      else ''secondary'')"

definition runStatusLabel :: "string option \<Rightarrow> bool \<Rightarrow> msg" where
  "runStatusLabel st isPolling =
     (if isPolling then t0 ''dashboard.runStatus.polling''
      else if \<not> given_text st then t0 ''dashboard.runStatus.never''
      else if st = Some ''success'' then t0 ''dashboard.runStatus.success''
      else if st = Some ''failed'' then t0 ''dashboard.runStatus.failed''
      else if st = Some ''partial'' then t0 ''dashboard.runStatus.partial''
      else if st = Some ''running'' then t0 ''dashboard.runStatus.running''
      else t0 ''dashboard.runStatus.unknown'')"

definition LastRunSummary :: "formatter \<Rightarrow> poll_run option \<Rightarrow> view" where
  "LastRunSummary fmt lastRun =
     (case lastRun of
        None \<Rightarrow> El ''p'' [] [tx ''dashboard.lastRunNever'']
      | Some r \<Rightarrow> El ''dl'' []
          [detail_row ''lastRunStarted'' (Txt (formatPollDiagnosticDateTime fmt (Some (prun_started_at r)) (t0 ''dashboard.lastRunNever''))),
           detail_row ''lastRunFinished'' (Txt (formatPollDiagnosticDateTime fmt (prun_finished_at r) (t0 ''dashboard.lastRunInProgress''))),
           detail_row ''lastRunReposChecked'' (lit (int_string (prun_repos_checked r))),
           detail_row ''lastRunTicketsCreated'' (lit (int_string (prun_tickets_created r)))])"

definition StatusCard :: "formatter \<Rightarrow> status_response option \<Rightarrow> bool \<Rightarrow> bool \<Rightarrow> bool \<Rightarrow> view" where
  "StatusCard fmt st isLoading isPolling isTriggerPending =
     (let lastRun = Option.bind st sta_last_run;
          runStatus = map_option prun_status lastRun;
          pollBusy = (isPolling \<or> isTriggerPending)
      in El ''Frame'' [(''data-slot'', ''dashboard-status-card'')]
        ([El ''FrameHeader'' []
            [El ''FrameTitle'' [] [tx ''dashboard.statusCardTitle''],
             El ''FrameDescription'' [] [tx ''dashboard.statusCardDescription'']],
          El ''Card'' []
            [El ''CardHeader'' []
               [El ''div'' []
                  [El ''div'' []
                     [El ''CardTitle'' [] [tx ''dashboard.lastPollTitle''],
                      El ''CardDescription'' []
                        [Txt (T ''dashboard.pollIntervalValue''
                           [(''minutes'', case st of None \<Rightarrow> em_dash | Some x \<Rightarrow> int_string (sta_poll_interval_minutes x))])]],
                   (if isLoading then El ''Skeleton'' [] []
                    else El ''Badge'' [(''variant'', card_runStatusVariant runStatus isPolling)] [Txt (runStatusLabel runStatus isPolling)])]],
             El ''CardPanel'' [] [if isLoading then El ''Skeleton'' [] [] else LastRunSummary fmt lastRun],
             El ''CardFooter'' []
               [Button pollBusy pollBusy [(''onClick'', ''onRunPoll'')] [tx ''dashboard.runPoll''],
                LinkButton ''/poll-runs'' [(''variant'', ''outline'')] [tx ''dashboard.viewAllRuns'']]]] @
         shown_if pollBusy [El ''FrameFooter'' [] [El ''p'' [] [tx ''dashboard.pollingInProgress'']]]))"

subsection \<open>The errors of the last run\<close>

text \<open>The map is built with one entry per repository; a later one wins.\<close>

definition status_paths :: "status_repo list \<Rightarrow> string \<Rightarrow> string option" where
  "status_paths repos = map_of (rev (map (\<lambda>r. (srepo_id r, srepo_project_path r)) repos))"

definition LastRunErrors :: "poll_run_error list \<Rightarrow> status_repo list \<Rightarrow> view list" where
  "LastRunErrors errors repos =
     (if length errors = 0 then []
      else [El ''Alert'' [(''variant'', ''warning'')]
        [El ''TriangleAlertIcon'' [] [],
         El ''AlertTitle'' [] [tx ''dashboard.lastRunErrorsTitle''],
         El ''AlertDescription'' [] [El ''ul'' [] (map (run_error_item (status_paths repos)) errors)]]])"

subsection \<open>The dashboard\<close>

text \<open>\<open>d_interval\<close> is whether the two-second refetch is installed; \<open>d_pending\<close> is the mutation's.\<close>

record dash =
  d_data :: "status_response option"
  d_loading :: bool
  d_error :: bool
  d_pending :: bool
  d_interval :: bool

definition dash_init :: dash where
  "dash_init = \<lparr>d_data = None, d_loading = True, d_error = False, d_pending = False, d_interval = False\<rparr>"

definition data_polling :: "dash \<Rightarrow> bool" where
  "data_polling s = (case d_data s of None \<Rightarrow> False | Some x \<Rightarrow> sta_is_polling x)"

definition isPolling :: "dash \<Rightarrow> bool" where
  "isPolling s \<longleftrightarrow> data_polling s \<or> d_pending s"

text \<open>The effect on \<open>data?.isPolling\<close>: the clean-up of the old run, then the new one. The clean-up runs
  on unmount as well.\<close>

definition interval_cleanup :: "dash \<Rightarrow> command list" where
  "interval_cleanup s = (if d_interval s then [Stop_Interval] else [])"

definition interval_effect :: "dash \<Rightarrow> dash \<Rightarrow> dash \<times> command list" where
  "interval_effect s s' =
     (if data_polling s = data_polling s' then (s', [])
      else (s'\<lparr>d_interval := data_polling s'\<rparr>,
            interval_cleanup s @
            (if data_polling s' then [Start_Interval 2000] else [])))"

definition handleRunPoll :: "dash \<Rightarrow> dash \<times> command list" where
  "handleRunPoll s = (s\<lparr>d_pending := True\<rparr>, [Mutate useTriggerPoll])"

definition trigger_settled :: "jsval js_result \<Rightarrow> dash \<Rightarrow> dash \<times> command list" where
  "trigger_settled r s =
     (s\<lparr>d_pending := False\<rparr>,
      case r of
        Inr _ \<Rightarrow> [Invalidate [''poll-runs''], Invalidate [''status'']]
      | Inl e \<Rightarrow>
          (case e of
             ApiError code m st \<Rightarrow>
               if st = 409 then [Toast ''error'' (t0 ''dashboard.pollAlreadyRunning'') None, Refetch]
               else [Toast ''error'' (t0 ''dashboard.triggerFailed'') (if m \<noteq> [] then Some (Raw m) else None)]
           | _ \<Rightarrow> [Toast ''error'' (t0 ''dashboard.triggerFailed'') None]))"

definition status_arrives :: "status_response option \<Rightarrow> bool \<Rightarrow> dash \<Rightarrow> dash \<times> command list" where
  "status_arrives d err s = interval_effect s (s\<lparr>d_data := d, d_loading := False, d_error := err\<rparr>)"

definition DashboardView ::
  "formatter \<Rightarrow> (repo_table \<Rightarrow> status_repo list \<Rightarrow> table_api) \<Rightarrow> repo_table \<Rightarrow> dash \<Rightarrow> view" where
  "DashboardView fmt useReactTable rt s =
     (let repos = (case d_data s of None \<Rightarrow> [] | Some x \<Rightarrow> sta_repos x);
          errors = (case Option.bind (d_data s) sta_last_run of None \<Rightarrow> [] | Some r \<Rightarrow> prun_errors r)
      in El ''div'' []
        ([El ''PageHeader'' [] [tx ''dashboard.title'']] @
         shown_if (d_error s) [El ''p'' [(''role'', ''alert'')] [tx ''dashboard.loadFailed'']] @
         [El ''section'' [(''data-slot'', ''dashboard-status-section'')]
            [StatusCard fmt (d_data s) (d_loading s) (isPolling s) (d_pending s)]] @
         shown_if (\<not> d_loading s \<and> length errors > 0)
           [El ''section'' [(''data-slot'', ''dashboard-errors-section'')] (LastRunErrors errors repos)] @
         [El ''section'' [(''data-slot'', ''dashboard-repos-section'')]
            [El ''h2'' [] [tx ''dashboard.reposSectionTitle''],
             RepoStatusTable fmt useReactTable repos (d_loading s) rt]]))"


subsection \<open>Runs of the dashboard\<close>

datatype dash_event =
    Run_Poll
  | Trigger_Settled "jsval js_result"
  | Status_Arrives "status_response option" bool

text \<open>The button only reacts while the view leaves it enabled.\<close>

definition dash_step :: "formatter \<Rightarrow> dash \<times> command list \<Rightarrow> dash_event \<Rightarrow> dash \<times> command list" where
  "dash_step fmt st e =
     (let (s, out) = st;
          (s', cs) =
            (case e of
               Run_Poll \<Rightarrow>
                 if operable ''onClick'' ''onRunPoll'' (StatusCard fmt (d_data s) (d_loading s) (isPolling s) (d_pending s))
                 then handleRunPoll s else (s, [])
             | Trigger_Settled r \<Rightarrow> if d_pending s then trigger_settled r s else (s, [])
             | Status_Arrives d err \<Rightarrow> status_arrives d err s)
      in (s', out @ cs))"

definition timers :: "command list \<Rightarrow> int" where
  "timers cs = int (length (filter (\<lambda>c. c = Start_Interval 2000) cs)) - int (length (filter (\<lambda>c. c = Stop_Interval) cs))"

lemma timers_append [simp]: "timers (as @ bs) = timers as + timers bs"
  by (simp add: timers_def)

lemma timers_cleanup: "timers (interval_cleanup s) = (if d_interval s then - 1 else 0)"
  by (simp add: timers_def interval_cleanup_def)

definition dash_inv :: "dash \<times> command list \<Rightarrow> bool" where
  "dash_inv st \<longleftrightarrow> d_interval (fst st) = data_polling (fst st) \<and>
     timers (snd st) = (if data_polling (fst st) then 1 else 0)"

lemma run_poll_operable:
  "operable ''onClick'' ''onRunPoll'' (StatusCard fmt st isLoading polling triggering) \<longleftrightarrow> \<not> polling \<and> \<not> triggering"
  by (simp add: operable_def StatusCard_def Button_def LinkButton_def LastRunSummary_def detail_row_def flag_def
      shown_if_def Let_def split: option.splits)

lemma dash_step_inv: "dash_inv st \<Longrightarrow> dash_inv (dash_step fmt st e)"
proof (cases e)
  case (Trigger_Settled r)
  then show "dash_inv st \<Longrightarrow> ?thesis"
    by (auto simp: dash_inv_def dash_step_def trigger_settled_def data_polling_def timers_def
        split: prod.splits sum.splits js_error.splits)
qed (auto simp: dash_inv_def dash_step_def handleRunPoll_def status_arrives_def interval_effect_def interval_cleanup_def
       data_polling_def timers_def split: prod.splits if_splits option.splits)

interpretation dash: stepper "dash_step fmt" dash_inv for fmt
  by unfold_locales (rule dash_step_inv)

text \<open>C20: The dashboard refetches every two seconds exactly while the server reports a poll in
  progress: in every run of clicks, answers and status updates at most one timer is installed, it
  is installed exactly while the last status says so, and none is left when the page is unmounted, at
  whatever moment.\<close>

theorem polling_timer:
  "let (s, out) = run (dash_step fmt) (dash_init, []) es
   in timers out = (if data_polling s then 1 else 0) \<and> timers (out @ interval_cleanup s) = 0"
proof -
  have "dash_inv (dash_init, [])" by (simp add: dash_inv_def dash_init_def data_polling_def timers_def)
  from dash.run_inv [OF this, of fmt es] show ?thesis
    by (cases "run (dash_step fmt) (dash_init, []) es") (simp add: dash_inv_def timers_cleanup)
qed

text \<open>The button that starts a poll is enabled exactly when no poll runs and none is being
  started; a refused or failed start raises one error toast, the conflict one with a refetch, and
  the button is enabled again.\<close>

theorem run_poll_guard:
  "(operable ''onClick'' ''onRunPoll'' (StatusCard fmt (d_data s) (d_loading s) (isPolling s) (d_pending s))
      \<longleftrightarrow> \<not> data_polling s \<and> \<not> d_pending s) \<and>
   (let (s', cs) = trigger_settled (Inl err) s
    in \<not> d_pending s' \<and>
       toasts cs = [(''error'', if (\<exists>code m. err = ApiError code m 409) then t0 ''dashboard.pollAlreadyRunning''
                                else t0 ''dashboard.triggerFailed'')] \<and>
       (Refetch \<in> set cs \<longleftrightarrow> (\<exists>code m. err = ApiError code m 409)))"
  by (cases err) (auto simp: run_poll_operable isPolling_def trigger_settled_def)

end
