(* ===== verification/App_Frame.thy ===== *)
theory App_Frame
  imports Sidebar_State Js_Regex Auth_Forms Dashboard
begin

section \<open>The application frame (\<open>components/app-sidebar.tsx\<close>, \<open>app-breadcrumb.tsx\<close>, \<open>app-frame.tsx\<close>,
  \<open>app/(authenticated)/layout.tsx\<close>)\<close>

text \<open>The navigation with the running version and the sign-out, the breadcrumb, and the layout of the
  pages behind the login.\<close>

subsection \<open>Navigation\<close>

text \<open>Address, icon and label of each item.\<close>

definition NAV_ITEMS :: "(string \<times> string \<times> string) list" where
  "NAV_ITEMS =
     [(''/'', ''LayoutDashboardIcon'', ''dashboard''), (''/poll-runs'', ''HistoryIcon'', ''pollRuns''),
      (''/repos'', ''FolderGit2Icon'', ''repos''), (''/integrations'', ''PlugIcon'', ''integrations''),
      (''/ticket-projects'', ''TicketIcon'', ''ticketProjects''), (''/notifications'', ''BellIcon'', ''notifications''),
      (''/settings'', ''SettingsIcon'', ''settings'')]"

definition REPO_URL :: string where "REPO_URL = ''https://github.com/mdg-labs/release-ops''"

definition isNavActive :: "string \<Rightarrow> string \<Rightarrow> bool" where
  "isNavActive path href =
     (if href = ''/'' then path = ''/'' else path = href \<or> starts_with path (href @ ''/''))"

subsection \<open>The running version\<close>

definition ident_c :: "char \<Rightarrow> bool" where
  "ident_c c \<longleftrightarrow> digit_c c \<or> alpha_c c \<or> c = CHR ''.'' \<or> c = CHR ''-''"

definition hex_c :: "char \<Rightarrow> bool" where
  "hex_c c \<longleftrightarrow> digit_c c \<or> (97 \<le> (of_char c :: nat) \<and> (of_char c :: nat) \<le> 102)"

definition RELEASE_VERSION :: regex where
  "RELEASE_VERSION = Seqs
     [Lit ''v'', Plus (Cls digit_c), Lit ''.'', Plus (Cls digit_c), Lit ''.'', Plus (Cls digit_c),
      Opt (Seq (Lit ''-'') (Plus (Cls ident_c))), Opt (Seq (Lit ''+'') (Plus (Cls ident_c)))]"

definition NIGHTLY_VERSION :: regex where
  "NIGHTLY_VERSION = Seq (Lit ''nightly-'') (Group 1 (between 7 40 (Cls hex_c)))"

definition versionHref :: "string \<Rightarrow> string option" where
  "versionHref version =
     (if test_full RELEASE_VERSION version then Some (REPO_URL @ ''/releases/tag/'' @ version)
      else (case exec_full NIGHTLY_VERSION version of
              Some c \<Rightarrow> Some (REPO_URL @ ''/commit/'' @ (case grp 1 c of None \<Rightarrow> ''undefined'' | Some g \<Rightarrow> g))
            | None \<Rightarrow> None))"

subsection \<open>The sidebar\<close>

definition shown_version :: "status_response query \<Rightarrow> string option" where
  "shown_version q =
     (if q_error q then None
      else (case q_data q of None \<Rightarrow> None | Some st \<Rightarrow> if sta_version st = [] then None else Some (sta_version st)))"

definition profileLabel :: "session_response option \<Rightarrow> msg" where
  "profileLabel session =
     (case Option.bind session sess_user of None \<Rightarrow> t0 ''nav.profile'' | Some u \<Rightarrow> Raw (user_email u))"

text \<open>The sign-out: the request, and what follows its answer. A failure is ignored.\<close>

definition logout :: "command list" where
  "logout = [Post ''/auth/logout'' Undefined]"

definition logout_settled :: "jsval js_result \<Rightarrow> command list" where
  "logout_settled r = (case r of Inr _ \<Rightarrow> [Invalidate_All, Clear_Cache, Push ''/login''] | Inl _ \<Rightarrow> [])"

definition external_link :: "string \<Rightarrow> view list \<Rightarrow> view" where
  "external_link href children = El ''a'' [(''href'', href), (''rel'', ''noopener noreferrer''), (''target'', ''_blank'')] children"

definition version_badge :: "string \<Rightarrow> view" where
  "version_badge version =
     (let badge = [(''data-testid'', ''sidebar-version''), (''size'', ''sm''), (''variant'', ''outline'')]
      in case versionHref version of
           Some u \<Rightarrow> external_link u [El ''Badge'' badge [lit version]]
         | None \<Rightarrow> El ''Badge'' badge [lit version])"

definition nav_item :: "bool \<Rightarrow> sidebar \<Rightarrow> string \<Rightarrow> string \<times> string \<times> string \<Rightarrow> view" where
  "nav_item mobile sb path item =
     (case item of (href, icon, label) \<Rightarrow>
        El ''SidebarMenuItem'' [(''key'', href)]
          [SidebarMenuButton mobile sb (isNavActive path href) href (Some (t0 (''nav.'' @ label)))
             [El icon [(''aria-hidden'', ''true'')] [], El ''span'' [] [tx (''nav.'' @ label)]]])"

definition AppSidebar ::
  "bool \<Rightarrow> sidebar \<Rightarrow> string \<Rightarrow> session_response option \<Rightarrow> status_response query \<Rightarrow> bool \<Rightarrow> view" where
  "AppSidebar mobile sb path session q isLoggingOut =
     Sidebar mobile sb ''left'' ''inset'' ''icon''
       [El ''SidebarHeader'' []
          [El ''div'' []
             (external_link REPO_URL [tx ''common.appTitle''] #
              (case shown_version q of None \<Rightarrow> [] | Some v \<Rightarrow> [version_badge v]))],
        El ''SidebarContent'' []
          [El ''SidebarGroup'' [] [El ''SidebarGroupContent'' [] [El ''SidebarMenu'' [] (map (nav_item mobile sb path) NAV_ITEMS)]]],
        El ''SidebarFooter'' []
          [El ''SidebarMenu'' []
             [El ''SidebarMenuItem'' []
                [SidebarMenuButton mobile sb (isNavActive path ''/profile'') ''/profile'' (Some (profileLabel session))
                   [El ''UserIcon'' [(''aria-hidden'', ''true'')] [], El ''span'' [] [Txt (profileLabel session)]]]],
           Button isLoggingOut False [(''onClick'', ''logout''), (''type'', ''button''), (''variant'', ''ghost'')]
             [El ''LogOutIcon'' [(''aria-hidden'', ''true'')] [], El ''span'' [] [tx ''auth.logout'']]],
        SidebarRail]"

subsection \<open>The breadcrumb\<close>

text \<open>A segment is a label with an optional link.\<close>

definition ROUTE_BREADCRUMBS :: "(string \<times> (string option \<times> string) list) list" where
  "ROUTE_BREADCRUMBS =
     [(''/'', []), (''/poll-runs'', [(None, ''pollRuns'')]), (''/repos'', [(None, ''repos'')]),
      (''/integrations'', [(None, ''integrations'')]), (''/ticket-projects'', [(None, ''ticketProjects'')]),
      (''/notifications'', [(None, ''notifications'')]), (''/settings'', [(None, ''settings'')]),
      (''/settings/users'', [(Some ''/settings'', ''settings''), (None, ''settingsUsers'')]),
      (''/profile'', [(None, ''profile'')])]"

text \<open>The path begins with a slash, so it is no property every object has.\<close>

definition getBreadcrumbSegments :: "string \<Rightarrow> (string option \<times> string) list" where
  "getBreadcrumbSegments path =
     (case map_of ROUTE_BREADCRUMBS path of
        Some segs \<Rightarrow> segs
      | None \<Rightarrow> if starts_with path ''/settings/'' then [(Some ''/settings'', ''settings''), (None, ''settings'')]
                else [(None, ''dashboard'')])"

definition breadcrumb_item :: "nat \<Rightarrow> nat \<Rightarrow> string option \<times> string \<Rightarrow> view" where
  "breadcrumb_item n i seg =
     (let label = tx (''nav.'' @ snd seg); isLast = (Suc i = n)
      in El ''BreadcrumbItem'' [(''key'', snd seg @ ''-'' @ nat_string i)]
        [El ''BreadcrumbSeparator'' [] [],
         if given_text (fst seg) \<and> \<not> isLast then El ''BreadcrumbLink'' [(''href'', the (fst seg))] [label]
         else El ''BreadcrumbPage'' [] [label]])"

definition AppBreadcrumb :: "string \<Rightarrow> view" where
  "AppBreadcrumb path =
     (let segments = getBreadcrumbSegments path; n = length segments
      in El ''Breadcrumb'' []
        [El ''BreadcrumbList'' []
          (El ''BreadcrumbItem'' []
             [El ''BreadcrumbLink'' [(''href'', ''/'')] [El ''aria-label'' [] [tx ''nav.homeAriaLabel''], El ''HomeIcon'' [(''aria-hidden'', ''true'')] []]] #
           map (\<lambda>(i, seg). breadcrumb_item n i seg) (zip [0..<n] segments))])"

definition AppFrame :: "string \<Rightarrow> view list \<Rightarrow> view" where
  "AppFrame path children =
     El ''Frame'' [] [El ''FramePanel'' [] [SidebarTrigger, AppBreadcrumb path], El ''FramePanel'' [] children]"

definition AuthenticatedLayout ::
  "bool \<Rightarrow> sidebar \<Rightarrow> string \<Rightarrow> session_response option \<Rightarrow> status_response query \<Rightarrow> bool \<Rightarrow> view list \<Rightarrow> view" where
  "AuthenticatedLayout mobile sb path session q isLoggingOut children =
     El ''SidebarProvider'' []
       [AppSidebar mobile sb path session q isLoggingOut,
        El ''SidebarInset'' [] [AppFrame path children]]"

subsection \<open>Where the frame says the user is\<close>

definition page_paths :: "string list" where
  "page_paths = [''/'', ''/poll-runs'', ''/repos'', ''/integrations'', ''/ticket-projects'', ''/notifications'', ''/settings'',
     ''/settings/users'', ''/profile'']"

text \<open>The labels of the active entries, the profile among them.\<close>

definition active_labels :: "string \<Rightarrow> string list" where
  "active_labels p = map (snd \<circ> snd) (filter (\<lambda>i. isNavActive p (fst i)) (NAV_ITEMS @ [(''/profile'', ''UserIcon'', ''profile'')]))"

lemma isNavActive_segment:
  "CHR ''/'' \<notin> set seg \<Longrightarrow> seg \<noteq> [] \<Longrightarrow> isNavActive p (CHR ''/'' # seg) \<longleftrightarrow> first_segment p = Some seg"
  using under_path_segment [of seg p] by (simp add: isNavActive_def under_path_def)

lemma isNavActive_root: "isNavActive p ''/'' \<longleftrightarrow> p = ''/''"
  by (simp add: isNavActive_def)

text \<open>On every path at most one entry of the navigation is marked active, and on every page of the
  application exactly one is: the entry that page is listed under, which is also the first step of
  its breadcrumb (none on the dashboard, whose breadcrumb is the home icon).\<close>

theorem one_active_entry:
  "length (active_labels p) \<le> 1 \<and>
   map active_labels page_paths =
     [[''dashboard''], [''pollRuns''], [''repos''], [''integrations''], [''ticketProjects''], [''notifications''],
      [''settings''], [''settings''], [''profile'']] \<and>
   map (\<lambda>q. take 1 (map snd (getBreadcrumbSegments q))) page_paths = [] # map active_labels (tl page_paths)"
proof -
  have "length (active_labels p) \<le> 1"
  proof (cases "p = ''/''")
    case True
    then show ?thesis by (simp add: active_labels_def NAV_ITEMS_def isNavActive_def)
  next
    case False
    then show ?thesis
      by (cases "first_segment p") (simp_all add: active_labels_def NAV_ITEMS_def isNavActive_segment isNavActive_root)
  qed
  moreover have "map active_labels page_paths =
     [[''dashboard''], [''pollRuns''], [''repos''], [''integrations''], [''ticketProjects''], [''notifications''],
      [''settings''], [''settings''], [''profile'']] \<and>
   map (\<lambda>q. take 1 (map snd (getBreadcrumbSegments q))) page_paths = [] # map active_labels (tl page_paths)"
    by code_simp
  ultimately show ?thesis by simp
qed

subsection \<open>Where the version links to\<close>

definition link_c :: "char \<Rightarrow> bool" where
  "link_c c \<longleftrightarrow> ident_c c \<or> c = CHR ''+''"

definition repo_link :: "string \<Rightarrow> string \<Rightarrow> bool" where
  "repo_link version u \<longleftrightarrow>
     (u = REPO_URL @ ''/releases/tag/'' @ version \<or> (\<exists>sha. version = ''nightly-'' @ sha \<and> u = REPO_URL @ ''/commit/'' @ sha)) \<and>
     list_all link_c version"

lemma release_chars: "in_lang RELEASE_VERSION v \<Longrightarrow> list_all link_c v"
  by (rule in_lang_chars, assumption)
    (auto simp: RELEASE_VERSION_def link_c_def ident_c_def digit_c_def alpha_c_def)

lemma nightly_group:
  "exec_full NIGHTLY_VERSION v = Some c \<Longrightarrow> \<exists>sha. v = ''nightly-'' @ sha \<and> grp 1 c = Some sha \<and> list_all hex_c sha"
proof -
  assume "exec_full NIGHTLY_VERSION v = Some c"
  then have "([], c) \<in> set (parse NIGHTLY_VERSION v [])" by (rule exec_full_parse)
  then obtain s1 c1 where 1: "(s1, c1) \<in> set (parse (Lit ''nightly-'') v [])"
      "([], c) \<in> set (parse (Group 1 (between 7 40 (Cls hex_c))) s1 c1)"
    unfolding NIGHTLY_VERSION_def by (auto simp del: Lit.simps parse.simps(6) split: if_splits)
  have w: "v = ''nightly-'' @ s1" using parse_sound [OF 1(1)] unfolding in_lang_Lit by simp
  have "in_lang (Group 1 (between 7 40 (Cls hex_c))) s1" using parse_sound [OF 1(2)] by auto
  then have "list_all hex_c s1" by (rule in_lang_chars) (simp add: all_chars_between)
  then show ?thesis using w 1(2) by (auto simp: grp_def)
qed

text \<open>A version links, if at all, to its release page or its nightly commit in the project's own
  repository, and the linked text holds only letters, digits, dots, dashes and pluses: no version
  string the server reports can send the user elsewhere, by another path, query or fragment.\<close>

theorem version_links_repo:
  "case versionHref version of None \<Rightarrow> True | Some u \<Rightarrow> repo_link version u"
proof (cases "test_full RELEASE_VERSION version")
  case True
  then show ?thesis
    using release_chars by (simp add: versionHref_def repo_link_def test_full_lang)
next
  case False
  show ?thesis
  proof (cases "exec_full NIGHTLY_VERSION version")
    case (Some c)
    then obtain sha where sha: "version = ''nightly-'' @ sha" "grp 1 c = Some sha" "list_all hex_c sha"
      using nightly_group by blast
    have "list_all link_c version"
      using sha(1,3) by (auto simp: list_all_iff link_c_def ident_c_def hex_c_def alpha_c_def)
    then show ?thesis using False Some sha by (simp add: versionHref_def repo_link_def)
  qed (use False in \<open>simp add: versionHref_def\<close>)
qed

end
