(* ===== verification/Toasts.thy ===== *)
theory Toasts
  imports Commands
begin

section \<open>Toasts (\<open>components/ui/toast.tsx\<close>)\<close>

text \<open>How the toasts of the toast manager are rendered. The manager itself belongs to the component library: it
  hands over the list of its toasts, each with a type, a key that counts its updates, and the data
  of the code that added it. The style classes are left out except the one that replays the animation, and so are
  the props of the library's parts that a caller may hand through (\<open>rootProps\<close>, \<open>portalProps\<close>).\<close>

record toast =
  to_id :: string
  to_type :: "string option"
  to_title :: msg
  to_description :: "msg option"
  to_updateKey :: "int option"
  to_action :: "view list option"
  to_tooltipStyle :: bool
  to_anchor :: "string option"
  to_sideOffset :: "int option"

definition TOAST_ICONS :: "(string \<times> string) list" where
  "TOAST_ICONS =
     [(''error'', ''CircleAlertIcon''), (''info'', ''InfoIcon''), (''loading'', ''LoaderCircleIcon''),
      (''success'', ''CircleCheckIcon''), (''warning'', ''TriangleAlertIcon'')]"

definition POSITIONS :: "string list" where
  "POSITIONS = [''top-left'', ''top-center'', ''top-right'', ''bottom-left'', ''bottom-center'', ''bottom-right'']"

definition getSwipeDirection :: "string \<Rightarrow> string list" where
  "getSwipeDirection position =
     (let vertical = (if starts_with position ''top'' then ''up'' else ''down'')
      in if js_includes position ''center'' then [vertical]
         else if js_includes position ''left'' then [''left'', vertical]
         else [''right'', vertical])"

definition upsertReplayClassName :: "toast \<Rightarrow> string option" where
  "upsertReplayClassName t =
     (let k = (case to_updateKey t of None \<Rightarrow> 0 | Some n \<Rightarrow> n)
      in if k \<le> 0 then None
         else if to_type t = Some ''error'' then Some (if k mod 2 = 0 then ''animate-toast-error-even'' else ''animate-toast-error-odd'')
         else Some (if k mod 2 = 0 then ''animate-toast-success-even'' else ''animate-toast-success-odd''))"

definition toast_icon :: "toast \<Rightarrow> view list" where
  "toast_icon t =
     (case Option.bind (if to_type t = Some [] then None else to_type t) (map_of TOAST_ICONS) of
        None \<Rightarrow> []
      | Some icon \<Rightarrow> [El ''div'' [(''data-slot'', ''toast-icon'')] [El icon [] []]])"

definition toast_title :: "toast \<Rightarrow> view" where
  "toast_title t = El ''ToastTitle'' [(''data-slot'', ''toast-title'')] [Txt (to_title t)]"

text \<open>The title and the description, and the action.\<close>

definition toast_content :: "toast \<Rightarrow> view" where
  "toast_content t =
     El ''ToastContent'' []
       (El ''div'' []
          (toast_icon t @
           [El ''div'' []
              (toast_title t #
               [El ''ToastDescription'' [(''data-slot'', ''toast-description'')] (case to_description t of None \<Rightarrow> [] | Some m \<Rightarrow> [Txt m])])]) #
        (case to_action t of None \<Rightarrow> [] | Some a \<Rightarrow> [El ''ToastAction'' [(''data-slot'', ''toast-action'')] a]))"

definition Toast_stack :: "string \<Rightarrow> toast list \<Rightarrow> view" where
  "Toast_stack position shown_toasts =
     El ''ToastPortal'' [(''data-slot'', ''toast-portal'')]
       [El ''ToastViewport'' [(''data-position'', position), (''data-slot'', ''toast-viewport'')]
          (map (\<lambda>t. El ''ToastRoot''
             ([(''key'', to_id t)] @ attr_opt ''class'' (upsertReplayClassName t) @
              [(''data-position'', position), (''swipeDirection'', join_with '' '' (getSwipeDirection position))])
             [toast_content t]) shown_toasts)]"

text \<open>A toast without an anchor is not among the anchored ones.\<close>

definition AnchoredToasts :: "toast list \<Rightarrow> view" where
  "AnchoredToasts shown_toasts =
     El ''ToastPortal'' [(''data-slot'', ''toast-portal-anchored'')]
       [El ''ToastViewport'' [(''data-slot'', ''toast-viewport-anchored'')]
          (concat (map (\<lambda>t.
             if to_anchor t \<in> {None, Some []} then []
             else [El ''ToastPositioner''
                     [(''key'', to_id t), (''data-slot'', ''toast-positioner''),
                      (''sideOffset'', int_string (case to_sideOffset t of None \<Rightarrow> 4 | Some n \<Rightarrow> n))]
                     [El ''ToastRoot'' (attr_opt ''class'' (upsertReplayClassName t) @ [(''data-slot'', ''toast-popup'')])
                        [if to_tooltipStyle t then El ''ToastContent'' [] [toast_title t] else toast_content t]]]) shown_toasts))]"

definition ToastProvider :: "string option \<Rightarrow> toast list \<Rightarrow> view list \<Rightarrow> view" where
  "ToastProvider position shown_toasts children =
     El ''ToastProvider'' []
       (children @ [Toast_stack (case position of None \<Rightarrow> ''bottom-right'' | Some p \<Rightarrow> p) shown_toasts])"

definition AnchoredToastProvider :: "toast list \<Rightarrow> view list \<Rightarrow> view" where
  "AnchoredToastProvider shown_toasts children = El ''AnchoredToastProvider'' [] (children @ [AnchoredToasts shown_toasts])"

subsection \<open>What is shown\<close>

text \<open>A toast leaves the screen at the side it stands at: up from the top, down from the bottom, and to the left
  or right unless it is centred.\<close>

lemma swipe_leaves:
  "list_all (\<lambda>p. (''up'' \<in> set (getSwipeDirection p) \<longleftrightarrow> starts_with p ''top'') \<and> (''down'' \<in> set (getSwipeDirection p) \<longleftrightarrow> starts_with p ''bottom'') \<and>
     (''left'' \<in> set (getSwipeDirection p) \<longleftrightarrow> js_includes p ''left'') \<and> (''right'' \<in> set (getSwipeDirection p) \<longleftrightarrow> js_includes p ''right'')) POSITIONS"
  by code_simp

text \<open>Two updates in a row replay the animation: the class changes with every update.\<close>

lemma replay_alternates:
  assumes "to_updateKey t = Some k" and "0 < k"
  shows "upsertReplayClassName (t\<lparr>to_updateKey := Some (k + 1)\<rparr>) \<noteq> upsertReplayClassName t"
proof -
  have "(k + 1) mod 2 = 0 \<longleftrightarrow> k mod 2 \<noteq> 0" by presburger
  then show ?thesis using assms by (simp add: upsertReplayClassName_def Let_def)
qed

text \<open>A toast of a command: of a kind with an icon, it is shown with it and with its texts.\<close>

definition toast_of :: "command \<Rightarrow> toast option" where
  "toast_of c =
     (case c of
        Toast kind title description \<Rightarrow>
          Some \<lparr>to_id = [], to_type = Some kind, to_title = title, to_description = description, to_updateKey = None, to_action = None,
            to_tooltipStyle = False, to_anchor = None, to_sideOffset = None\<rparr>
      | _ \<Rightarrow> None)"

lemma toast_shown:
  assumes "toast_of (Toast kind title description) = Some t" and "map_of TOAST_ICONS kind = Some icon"
  shows "El icon [] [] \<in> set (elements (Toast_stack position [t])) \<and>
    texts (Toast_stack position [t]) = title # (case description of None \<Rightarrow> [] | Some m \<Rightarrow> [m])"
proof -
  have t: "to_type t = Some kind" "to_title t = title" "to_description t = description" "to_action t = None" "to_updateKey t = None"
    using assms(1) by (auto simp: toast_of_def)
  have "kind \<noteq> []" using assms(2) by (auto simp: TOAST_ICONS_def)
  then have "toast_icon t = [El ''div'' [(''data-slot'', ''toast-icon'')] [El icon [] []]]"
    using assms(2) by (simp add: toast_icon_def t)
  then show ?thesis
    by (cases description) (simp_all add: Toast_stack_def toast_content_def toast_title_def t)
qed

end
