(* ===== verification/Release_Script.thy ===== *)
theory Release_Script
  imports Js_Number Js_Regex Repo_Status
begin

section \<open>The release draft (\<open>scripts/ci/create-draft-release.mjs\<close>)\<close>

text \<open>
  The script runs git and the GitHub command line. These are a parameter, the \<open>host\<close>: it answers a
  command, given all commands executed before it. A run of the script is then a function of the
  host: how it ends, and the commands it executed. \<open>localeCompare\<close> is the parameter \<open>cmp\<close>.
\<close>

type_synonym cmd = "string \<times> string list"

record proc_result =
  pr_status :: "int option"
  pr_stdout :: string
  pr_stderr :: string

type_synonym host = "cmd list \<Rightarrow> cmd \<Rightarrow> proc_result"

text \<open>How the process ends: with exit code 0 and what it printed, or with \<open>fail\<close>.\<close>

datatype outcome = Exited "string list" | Failed string string

record release_env =
  dryRun :: bool
  GH_TOKEN :: "string option"
  version_file :: "string option"

definition run_cmd :: "host \<Rightarrow> cmd \<Rightarrow> cmd list \<Rightarrow> proc_result \<times> cmd list" where
  "run_cmd h c tr = (h tr c, tr @ [c])"

subsection \<open>Versions\<close>

record semver =
  major :: nat
  minor :: nat
  patch :: nat
  prerelease :: string
  build :: string

definition semver_c :: "char \<Rightarrow> bool" where
  "semver_c c \<longleftrightarrow> digit_c c \<or> alpha_c c \<or> c = CHR ''.'' \<or> c = CHR ''-''"

definition SEMVER :: regex where
  "SEMVER = Seqs
     [Group 1 (Plus (Cls digit_c)), Lit ''.'', Group 2 (Plus (Cls digit_c)), Lit ''.'', Group 3 (Plus (Cls digit_c)),
      Opt (Seq (Lit ''-'') (Group 4 (Plus (Cls semver_c)))), Opt (Seq (Lit ''+'') (Group 5 (Plus (Cls semver_c))))]"

definition strip_v :: "string \<Rightarrow> string" where
  "strip_v s = (if starts_with s ''v'' then drop 1 s else s)"

definition parseSemver :: "string \<Rightarrow> semver option" where
  "parseSemver version =
     (case exec_full SEMVER (strip_v (js_trim version)) of
        None \<Rightarrow> None
      | Some m \<Rightarrow> Some \<lparr>major = digits_value (group_text 1 m), minor = digits_value (group_text 2 m),
                       patch = digits_value (group_text 3 m), prerelease = group_text 4 m, build = group_text 5 m\<rparr>)"

definition compare_parsed :: "(string \<Rightarrow> string \<Rightarrow> int) \<Rightarrow> semver \<Rightarrow> semver \<Rightarrow> int" where
  "compare_parsed cmp a b =
     (if major a \<noteq> major b then (if major a > major b then 1 else -1)
      else if minor a \<noteq> minor b then (if minor a > minor b then 1 else -1)
      else if patch a \<noteq> patch b then (if patch a > patch b then 1 else -1)
      else if prerelease a = [] \<and> prerelease b \<noteq> [] then 1
      else if prerelease a \<noteq> [] \<and> prerelease b = [] then -1
      else if prerelease a \<noteq> [] \<and> prerelease b \<noteq> [] then cmp (prerelease a) (prerelease b)
      else 0)"

definition compareSemver :: "(string \<Rightarrow> string \<Rightarrow> int) \<Rightarrow> string \<Rightarrow> string \<Rightarrow> int option" where
  "compareSemver cmp left right =
     (case parseSemver left of
        None \<Rightarrow> None
      | Some a \<Rightarrow> (case parseSemver right of None \<Rightarrow> None | Some b \<Rightarrow> Some (compare_parsed cmp a b)))"

subsection \<open>Questions to the host\<close>

definition git_show :: "string \<Rightarrow> cmd" where "git_show ref = (''git'', [''show'', ref @ '':VERSION''])"
definition git_tags :: cmd where "git_tags = (''git'', [''tag'', ''--list'', ''v*'', ''--sort=-v:refname''])"
definition gh_view :: "string \<Rightarrow> cmd" where "gh_view tag = (''gh'', [''release'', ''view'', tag, ''--json'', ''tagName''])"
definition git_log :: "string option \<Rightarrow> cmd" where
  "git_log lastTag = (''git'', [''log'', ''--pretty=format:%s (%h)'', case lastTag of Some t \<Rightarrow> t @ ''..HEAD'' | None \<Rightarrow> ''HEAD''])"
definition git_verify :: "string \<Rightarrow> cmd" where "git_verify tag = (''git'', [''rev-parse'', ''--verify'', ''refs/tags/'' @ tag])"
definition git_tag :: "string \<Rightarrow> cmd" where "git_tag tag = (''git'', [''tag'', tag])"
definition git_push :: "string \<Rightarrow> cmd" where "git_push tag = (''git'', [''push'', ''origin'', tag])"
definition gh_create :: "string \<Rightarrow> string \<Rightarrow> string \<Rightarrow> cmd" where
  "gh_create tag title notes =
     (''gh'', [''release'', ''create'', tag, ''--verify-tag'', ''--draft'', ''--title'', title, ''--notes'', notes])"

lemmas cmd_defs = git_show_def git_tags_def gh_view_def git_log_def git_verify_def git_tag_def git_push_def gh_create_def

definition ok :: "proc_result \<Rightarrow> bool" where
  "ok r \<longleftrightarrow> pr_status r = Some 0"

definition readVersionAt :: "release_env \<Rightarrow> host \<Rightarrow> string \<Rightarrow> cmd list \<Rightarrow> string option \<times> cmd list" where
  "readVersionAt env h ref tr =
     (case run_cmd h (git_show ref) tr of (r, tr') \<Rightarrow>
        (if ok r then Some (js_trim (pr_stdout r))
         else if ref = ''HEAD'' then map_option js_trim (version_file env) else None, tr'))"

text \<open>\<^term>\<open>Inl\<close> where the source fails.\<close>

definition getLastTag :: "host \<Rightarrow> string \<Rightarrow> cmd list \<Rightarrow> (outcome + string option) \<times> cmd list" where
  "getLastTag h excludeTag tr =
     (case run_cmd h git_tags tr of (r, tr') \<Rightarrow>
        if \<not> ok r then (Inl (Failed ''Failed to list git tags'' (pr_stderr r)), tr')
        else (let tags = filter (\<lambda>t. t \<noteq> [] \<and> t \<noteq> excludeTag) (map js_trim (split_on (CHR 0x0A) (pr_stdout r)))
              in (Inr (case tags of [] \<Rightarrow> None | t # _ \<Rightarrow> Some t), tr')))"

definition gitLogSince :: "host \<Rightarrow> string option \<Rightarrow> cmd list \<Rightarrow> (outcome + string) \<times> cmd list" where
  "gitLogSince h lastTag tr =
     (case run_cmd h (git_log lastTag) tr of (r, tr') \<Rightarrow>
        if \<not> ok r then (Inl (Failed ''Failed to read git log'' (pr_stderr r)), tr')
        else (Inr (if js_trim (pr_stdout r) = [] then ''No changes.'' else js_trim (pr_stdout r)), tr'))"

subsection \<open>The stages of \<open>main\<close>\<close>

text \<open>The last release before the new tag, and its version.\<close>

definition previous :: "release_env \<Rightarrow> host \<Rightarrow> string \<Rightarrow> cmd list \<Rightarrow> (outcome + string option \<times> string) \<times> cmd list" where
  "previous env h newTag tr =
     (case getLastTag h newTag tr of
        (Inl e, tr1) \<Rightarrow> (Inl e, tr1)
      | (Inr None, tr1) \<Rightarrow> (Inr (None, ''0.0.0''), tr1)
      | (Inr (Some lastTag), tr1) \<Rightarrow>
          (case readVersionAt env h lastTag tr1 of (v, tr2) \<Rightarrow>
             (let previousVersion = (case v of Some x \<Rightarrow> x | None \<Rightarrow> strip_v lastTag)
              in case parseSemver previousVersion of
                   None \<Rightarrow> (Inl (Failed (''Invalid semver on last tag '' @ lastTag @ '': Invalid semver: '' @ previousVersion) []), tr2)
                 | Some _ \<Rightarrow> (Inr (Some lastTag, previousVersion), tr2))))"

text \<open>Tag, push, create.\<close>

definition create_release :: "host \<Rightarrow> string \<Rightarrow> string \<Rightarrow> string \<Rightarrow> cmd list \<Rightarrow> outcome \<times> cmd list" where
  "create_release h newTag title notes tr =
     (case run_cmd h (gh_create newTag title notes) tr of (r, tr') \<Rightarrow>
        if ok r then (Exited [''Created draft release '' @ newTag], tr')
        else (Failed (''Failed to create draft release for '' @ newTag) (pr_stderr r), tr'))"

definition publish :: "host \<Rightarrow> string \<Rightarrow> string \<Rightarrow> string \<Rightarrow> cmd list \<Rightarrow> outcome \<times> cmd list" where
  "publish h newTag title notes tr =
     (case run_cmd h (git_verify newTag) tr of (r, tr1) \<Rightarrow>
        if ok r then create_release h newTag title notes tr1
        else (case run_cmd h (git_tag newTag) tr1 of (r, tr2) \<Rightarrow>
          if \<not> ok r then (Failed (''Failed to create tag '' @ newTag) (pr_stderr r), tr2)
          else (case run_cmd h (git_push newTag) tr2 of (r, tr3) \<Rightarrow>
            if \<not> ok r then (Failed (''Failed to push tag '' @ newTag) (pr_stderr r), tr3)
            else create_release h newTag title notes tr3)))"

definition preview :: "string \<Rightarrow> string \<Rightarrow> string \<Rightarrow> string option \<Rightarrow> string \<Rightarrow> string list" where
  "preview newTag title previousVersion lastTag notes =
     [''DRY RUN '' @ em_dash @ '' would create draft release:'', ''  tag: '' @ newTag, ''  title: '' @ title,
      ''  previous VERSION: '' @ previousVersion,
      ''  last tag: '' @ (case lastTag of None \<Rightarrow> ''(none)'' | Some t \<Rightarrow> t), ''  notes preview:'',
      (let shown = join_with [CHR 0x0A] (take 5 (split_on (CHR 0x0A) notes)) in if shown = [] then ''(empty)'' else shown)]"

text \<open>From the comparison on.\<close>

definition decide :: "release_env \<Rightarrow> (string \<Rightarrow> string \<Rightarrow> int) \<Rightarrow> host \<Rightarrow> string \<Rightarrow> string option \<Rightarrow> string \<Rightarrow>
    cmd list \<Rightarrow> outcome \<times> cmd list" where
  "decide env cmp h headVersion lastTag previousVersion tr =
     (let newTag = ''v'' @ headVersion; title = ''Release Ops v'' @ headVersion
      in case compareSemver cmp headVersion previousVersion of
           None \<Rightarrow> (Failed ''Invalid semver'' [], tr)
         | Some c \<Rightarrow>
             if c \<le> 0 then
               (Exited [''Skip: VERSION '' @ headVersion @ '' is not greater than '' @ previousVersion @
                        (case lastTag of None \<Rightarrow> [] | Some t \<Rightarrow> '' (last tag: '' @ t @ '')'')], tr)
             else (case gitLogSince h lastTag tr of
                     (Inl e, tr1) \<Rightarrow> (e, tr1)
                   | (Inr notes, tr1) \<Rightarrow>
                       if dryRun env then (Exited (preview newTag title previousVersion lastTag notes), tr1)
                       else if GH_TOKEN env \<in> {None, Some []} then (Failed ''GH_TOKEN is required outside --dry-run mode'' [], tr1)
                       else publish h newTag title notes tr1))"


subsection \<open>Reading and printing versions\<close>

definition digits_text :: "string \<Rightarrow> bool" where
  "digits_text d \<longleftrightarrow> d \<noteq> [] \<and> list_all digit_c d"

definition ident_text :: "string \<Rightarrow> bool" where
  "ident_text p \<longleftrightarrow> list_all semver_c p"

definition opt_part :: "char \<Rightarrow> string \<Rightarrow> string" where
  "opt_part sep x = (if x = [] then [] else sep # x)"

definition version_text :: "string \<Rightarrow> string \<Rightarrow> string \<Rightarrow> string \<Rightarrow> string \<Rightarrow> string" where
  "version_text a b c p bu =
     a @ ''.'' @ b @ ''.'' @ c @ opt_part (CHR ''-'') p @ opt_part (CHR ''+'') bu"

text \<open>The five pieces of a text determine it, and it determines them.\<close>

lemma span_unique:
  "list_all P a \<Longrightarrow> list_all P b \<Longrightarrow> u = [] \<or> \<not> P (hd u) \<Longrightarrow> v = [] \<or> \<not> P (hd v) \<Longrightarrow> a @ u = b @ v \<longleftrightarrow> a = b \<and> u = v"
proof (induction a arbitrary: b)
  case Nil
  then show ?case by (cases b) auto
next
  case (Cons x a)
  then show ?case by (cases b) auto
qed

lemma digit_classes: "\<not> digit_c (CHR ''.'')" "\<not> digit_c (CHR ''-'')" "\<not> digit_c (CHR ''+'')" "\<not> semver_c (CHR ''+'')"
  by (simp_all add: digit_c_def semver_c_def alpha_c_def)

lemma version_text_inj:
  assumes "digits_text a" "digits_text b" "digits_text c" "ident_text p" "ident_text bu"
    and "digits_text a'" "digits_text b'" "digits_text c'" "ident_text p'" "ident_text bu'"
    and "version_text a b c p bu = version_text a' b' c' p' bu'"
  shows "a = a' \<and> b = b' \<and> c = c' \<and> p = p' \<and> bu = bu'"
proof -
  let ?t = "\<lambda>p bu. opt_part (CHR ''-'') p @ opt_part (CHR ''+'') bu"
  have hd: "?t p bu = [] \<or> \<not> digit_c (hd (?t p bu))" for p bu
    by (auto simp: digit_classes opt_part_def)
  have 1: "a = a' \<and> b @ ''.'' @ c @ ?t p bu = b' @ ''.'' @ c' @ ?t p' bu'"
    using assms span_unique [of digit_c a a' "''.'' @ b @ ''.'' @ c @ ?t p bu" "''.'' @ b' @ ''.'' @ c' @ ?t p' bu'"]
    by (simp add: version_text_def digits_text_def digit_classes)
  then have 2: "b = b' \<and> c @ ?t p bu = c' @ ?t p' bu'"
    using assms span_unique [of digit_c b b' "''.'' @ c @ ?t p bu" "''.'' @ c' @ ?t p' bu'"]
    by (simp add: digits_text_def digit_classes)
  then have 3: "c = c' \<and> ?t p bu = ?t p' bu'"
    using assms span_unique [of digit_c c c' "?t p bu" "?t p' bu'"] hd by (simp add: digits_text_def)
  have "p = p' \<and> bu = bu'"
  proof (cases "p = [] \<or> p' = []")
    case True
    then show ?thesis using 3 by (auto simp: opt_part_def split: if_splits)
  next
    case False
    then have "p @ opt_part (CHR ''+'') bu = p' @ opt_part (CHR ''+'') bu'"
      using 3 by (simp add: opt_part_def)
    then have "p = p' \<and> opt_part (CHR ''+'') bu = opt_part (CHR ''+'') bu'"
      using assms(4,9) by (subst (asm) span_unique [of semver_c]) (auto simp: ident_text_def digit_classes opt_part_def)
    then show ?thesis by (auto simp: opt_part_def split: if_splits)
  qed
  then show ?thesis using 1 2 3 by simp
qed

text \<open>The pieces an option captures.\<close>

lemma parse_option:
  assumes "(rest, c') \<in> set (parse (Opt (Seq (Lit x) (Group n (Plus (Cls P))))) s c)"
  obtains "s = rest" "c' = c" | w where "s = x @ w @ rest" "w \<noteq> []" "list_all P w" "c' = (n, w) # c"
proof -
  consider "(rest, c') \<in> set (parse (Seq (Lit x) (Group n (Plus (Cls P)))) s c)" | "rest = s" "c' = c"
    using assms by (auto simp del: parse.simps(3))
  then show ?thesis
  proof cases
    case 1
    from parse_SeqE [OF 1] obtain s1 c1 where l: "(s1, c1) \<in> set (parse (Lit x) s c)"
      and g: "(rest, c') \<in> set (parse (Group n (Plus (Cls P))) s1 c1)" .
    from parse_LitE [OF l] have "s = x @ s1 \<and> c1 = c" by blast
    moreover from parse_GroupE [OF g] obtain w where "s1 = w @ rest" "in_lang (Plus (Cls P)) w" "c' = (n, w) # c1" by auto
    ultimately show ?thesis using that(2) [of w] by (auto simp: in_lang_Plus_Cls simp del: in_lang_simps)
  qed (use that in auto)
qed

lemma no_groups_Plus: "no_groups (Plus (Cls P))"
  by simp

lemma parse_opt_part:
  assumes "(rest, c') \<in> set (parse (Opt (Seq (Lit [x]) (Group n (Plus (Cls semver_c))))) s c)"
  obtains p where "s = opt_part x p @ rest" "ident_text p" "c' = (if p = [] then c else (n, p) # c)"
proof (rule parse_option [OF assms])
  assume "s = rest" "c' = c"
  then show thesis using that [of "[]"] by (simp add: opt_part_def ident_text_def)
next
  fix w assume "s = [x] @ w @ rest" "w \<noteq> []" "list_all semver_c w" "c' = (n, w) # c"
  then show thesis using that [of w] by (simp add: opt_part_def ident_text_def)
qed

lemma SEMVER_captures:
  assumes "exec_full SEMVER s = Some m"
  obtains a b c p bu where "s = version_text a b c p bu" and "digits_text a" "digits_text b" "digits_text c"
    and "ident_text p" "ident_text bu"
    and "group_text 1 m = a" "group_text 2 m = b" "group_text 3 m = c" "group_text 4 m = p" "group_text 5 m = bu"
proof -
  let ?d = "Plus (Cls digit_c)" and ?i = "Plus (Cls semver_c)"
  have "([], m) \<in> set (parse SEMVER s [])" using assms by (rule exec_full_parse)
  then have r0: "([], m) \<in> set (parse (Seq (Group 1 ?d) (Seq (Lit ''.'') (Seq (Group 2 ?d) (Seq (Lit ''.'') (Seq (Group 3 ?d)
      (Seq (Opt (Seq (Lit ''-'') (Group 4 ?i))) (Opt (Seq (Lit ''+'') (Group 5 ?i))))))))) s [])"
    by (simp only: SEMVER_def Seqs.simps)
  from parse_SeqE [OF r0] obtain s1 m1 where g1: "(s1, m1) \<in> set (parse (Group 1 ?d) s [])" and r1: "([], m) \<in> set (parse (Seq (Lit ''.'') (Seq (Group 2 ?d) (Seq (Lit ''.'') (Seq (Group 3 ?d)
      (Seq (Opt (Seq (Lit ''-'') (Group 4 ?i))) (Opt (Seq (Lit ''+'') (Group 5 ?i)))))))) s1 m1)" .
  from parse_SeqE [OF r1] obtain s2 m2 where l1: "(s2, m2) \<in> set (parse (Lit ''.'') s1 m1)" and r2: "([], m) \<in> set (parse (Seq (Group 2 ?d) (Seq (Lit ''.'') (Seq (Group 3 ?d)
      (Seq (Opt (Seq (Lit ''-'') (Group 4 ?i))) (Opt (Seq (Lit ''+'') (Group 5 ?i))))))) s2 m2)" .
  from parse_SeqE [OF r2] obtain s3 m3 where g2: "(s3, m3) \<in> set (parse (Group 2 ?d) s2 m2)" and r3: "([], m) \<in> set (parse (Seq (Lit ''.'') (Seq (Group 3 ?d)
      (Seq (Opt (Seq (Lit ''-'') (Group 4 ?i))) (Opt (Seq (Lit ''+'') (Group 5 ?i)))))) s3 m3)" .
  from parse_SeqE [OF r3] obtain s4 m4 where l2: "(s4, m4) \<in> set (parse (Lit ''.'') s3 m3)" and r4: "([], m) \<in> set (parse (Seq (Group 3 ?d)
      (Seq (Opt (Seq (Lit ''-'') (Group 4 ?i))) (Opt (Seq (Lit ''+'') (Group 5 ?i))))) s4 m4)" .
  from parse_SeqE [OF r4] obtain s5 m5 where g3: "(s5, m5) \<in> set (parse (Group 3 ?d) s4 m4)" and r5: "([], m) \<in> set (parse
      (Seq (Opt (Seq (Lit ''-'') (Group 4 ?i))) (Opt (Seq (Lit ''+'') (Group 5 ?i)))) s5 m5)" .
  from parse_SeqE [OF r5] obtain s6 m6 where o4: "(s6, m6) \<in> set (parse (Opt (Seq (Lit ''-'') (Group 4 ?i))) s5 m5)" and
    o5: "([], m) \<in> set (parse (Opt (Seq (Lit ''+'') (Group 5 ?i))) s6 m6)" .
  from parse_GroupE [OF g1] obtain a where a: "s = a @ s1" "in_lang ?d a" "m1 = [(1, a)]" using no_groups_Plus by metis
  from parse_LitE [OF l1] have l1': "s1 = ''.'' @ s2" "m2 = m1" by blast+
  from parse_GroupE [OF g2] obtain b where b: "s2 = b @ s3" "in_lang ?d b" "m3 = (2, b) # m2" using no_groups_Plus by metis
  from parse_LitE [OF l2] have l2': "s3 = ''.'' @ s4" "m4 = m3" by blast+
  from parse_GroupE [OF g3] obtain c where c: "s4 = c @ s5" "in_lang ?d c" "m5 = (3, c) # m4" using no_groups_Plus by metis
  from parse_opt_part [OF o4] obtain p where p: "s5 = opt_part (CHR ''-'') p @ s6" "ident_text p"
      "m6 = (if p = [] then m5 else (4, p) # m5)" .
  from parse_opt_part [OF o5] obtain bu where bu: "s6 = opt_part (CHR ''+'') bu @ []" "ident_text bu"
      "m = (if bu = [] then m6 else (5, bu) # m6)" .
  show thesis
  proof (rule that)
    show "s = version_text a b c p bu" using a l1' b l2' c p bu by (simp add: version_text_def)
    show "digits_text a" "digits_text b" "digits_text c"
      using a(2) b(2) c(2) unfolding in_lang_Plus_Cls digits_text_def by simp_all
    show "group_text 1 m = a" "group_text 2 m = b" "group_text 3 m = c" "group_text 4 m = p" "group_text 5 m = bu"
      using a(3) l1'(2) b(3) l2'(2) c(3) p(3) bu(3) by (auto simp: group_text_def grp_def)
  qed (use p bu in simp_all)
qed

lemma SEMVER_accepts:
  assumes "digits_text a" "digits_text b" "digits_text c" "ident_text p" "ident_text bu"
  shows "in_lang SEMVER (version_text a b c p bu)"
proof -
  have o: "in_lang (Opt (Seq (Lit [x]) (Group n (Plus (Cls semver_c))))) (opt_part x q)" if "ident_text q" for x n q
  proof (cases "q = []")
    case True
    then show ?thesis by (simp add: opt_part_def in_lang.alt2 in_lang.eps)
  next
    case False
    then have "in_lang (Seq (Lit [x]) (Group n (Plus (Cls semver_c)))) ([x] @ q)"
      using that by (intro in_lang.seq in_lang.group) (simp_all only: in_lang_Lit in_lang_Plus_Cls ident_text_def simp_thms)
    then show ?thesis using False by (simp add: opt_part_def in_lang.alt1)
  qed
  show ?thesis
    unfolding SEMVER_def Seqs.simps version_text_def
    by (intro in_lang.seq in_lang.group o assms)
      (use assms in \<open>simp_all only: in_lang_Lit in_lang_Plus_Cls digits_text_def simp_thms\<close>)
qed

text \<open>Which texts are versions: exactly those of the grammar, read into their five pieces.\<close>

lemma parseSemver_text:
  assumes "digits_text a" "digits_text b" "digits_text c" "ident_text p" "ident_text bu"
    and "strip_v (js_trim v) = version_text a b c p bu"
  shows "parseSemver v = Some \<lparr>major = digits_value a, minor = digits_value b, patch = digits_value c, prerelease = p, build = bu\<rparr>"
proof -
  have "test_full SEMVER (strip_v (js_trim v))"
    using SEMVER_accepts [OF assms(1-5)] by (simp add: test_full_lang assms(6))
  then obtain m where m: "exec_full SEMVER (strip_v (js_trim v)) = Some m" by (auto simp: test_full_def)
  from SEMVER_captures [OF m] obtain a' b' c' p' bu' where
    t: "version_text a b c p bu = version_text a' b' c' p' bu'" "digits_text a'" "digits_text b'" "digits_text c'" "ident_text p'" "ident_text bu'"
      and g: "group_text 1 m = a'" "group_text 2 m = b'" "group_text 3 m = c'" "group_text 4 m = p'" "group_text 5 m = bu'"
    using assms(6) by metis
  have "a = a' \<and> b = b' \<and> c = c' \<and> p = p' \<and> bu = bu'"
    using version_text_inj [OF assms(1-5) t(2-6) t(1)] .
  then show ?thesis using m g by (simp add: parseSemver_def)
qed

lemma parseSemver_pieces:
  assumes "parseSemver v = Some s"
  obtains a b c where "strip_v (js_trim v) = version_text a b c (prerelease s) (build s)"
    and "digits_text a" "digits_text b" "digits_text c" "ident_text (prerelease s)" "ident_text (build s)"
    and "major s = digits_value a" "minor s = digits_value b" "patch s = digits_value c"
proof -
  obtain m where m: "exec_full SEMVER (strip_v (js_trim v)) = Some m"
    and s: "s = \<lparr>major = digits_value (group_text 1 m), minor = digits_value (group_text 2 m), patch = digits_value (group_text 3 m),
      prerelease = group_text 4 m, build = group_text 5 m\<rparr>"
    using assms by (auto simp: parseSemver_def split: option.splits)
  from SEMVER_captures [OF m] show thesis using s that by (metis semver.select_convs)
qed

definition show_semver :: "semver \<Rightarrow> string" where
  "show_semver s = version_text (nat_string (major s)) (nat_string (minor s)) (nat_string (patch s)) (prerelease s) (build s)"

lemma nat_string_digits_text: "digits_text (nat_string n)"
proof -
  have "list_all is_digit (nat_string n)" using nat_string_digits [of n] by (simp add: list_all_iff)
  moreover have "is_digit = digit_c" by (simp add: fun_eq_iff is_digit_def digit_c_def)
  ultimately show ?thesis by (simp add: digits_text_def nat_string_not_Nil)
qed

lemma version_text_chars:
  assumes "digits_text a" "digits_text b" "digits_text c" "ident_text p" "ident_text bu"
  shows "js_trim (version_text a b c p bu) = version_text a b c p bu" and "strip_v (version_text a b c p bu) = version_text a b c p bu"
proof -
  have sp: "\<not> js_space x" if "semver_c x \<or> x = CHR ''+''" for x
    using that by (auto simp: semver_c_def js_space_def digit_c_def alpha_c_def)
  have d: "semver_c x" if "digit_c x" for x using that by (simp add: semver_c_def)
  have dot: "semver_c (CHR ''.'')" "semver_c (CHR ''-'')" by (simp_all add: semver_c_def)
  have "\<forall>x \<in> set (version_text a b c p bu). semver_c x \<or> x = CHR ''+''"
    using assms by (auto simp: version_text_def opt_part_def digits_text_def ident_text_def list_all_iff dot d)
  then show "js_trim (version_text a b c p bu) = version_text a b c p bu"
    using sp by (blast intro: js_trim_no_space)
  have "\<not> digit_c (CHR ''v'')" by (simp add: digit_c_def)
  then show "strip_v (version_text a b c p bu) = version_text a b c p bu"
    using assms(1) by (cases a) (auto simp: strip_v_def version_text_def digits_text_def)
qed

definition semver_ok :: "semver \<Rightarrow> bool" where
  "semver_ok s \<longleftrightarrow> ident_text (prerelease s) \<and> ident_text (build s)"

lemma show_parse: "semver_ok s \<Longrightarrow> parseSemver (show_semver s) = Some s"
  unfolding show_semver_def semver_ok_def
  by (subst parseSemver_text [OF nat_string_digits_text nat_string_digits_text nat_string_digits_text])
    (auto simp: version_text_chars nat_string_digits_text nat_string_value intro: semver.equality)

interpretation semver_codec: codec show_semver parseSemver semver_ok
  by unfold_locales (rule show_parse)

text \<open>The grammar of a version: three numbers, an optional pre-release and optional build data.\<close>

definition semver_text :: "semver \<Rightarrow> string \<Rightarrow> bool" where
  "semver_text s t \<longleftrightarrow>
     (\<exists>a b c. t = version_text a b c (prerelease s) (build s) \<and> digits_text a \<and> digits_text b \<and> digits_text c \<and>
        ident_text (prerelease s) \<and> ident_text (build s) \<and>
        major s = digits_value a \<and> minor s = digits_value b \<and> patch s = digits_value c)"

text \<open>C25: The regular expression with its captures reads exactly the version grammar: \<open>parseSemver\<close> gives
  a version if and only if the trimmed text, less a leading \<open>v\<close>, is written as that version's three
  numbers, pre-release and build data; everything else throws. So no text has two readings.\<close>

theorem semver_grammar:
  "parseSemver v = Some s \<longleftrightarrow> semver_text s (strip_v (js_trim v))"
proof
  assume "parseSemver v = Some s"
  then show "semver_text s (strip_v (js_trim v))"
    by (rule parseSemver_pieces) (auto simp: semver_text_def)
next
  assume "semver_text s (strip_v (js_trim v))"
  then obtain a b c where t: "strip_v (js_trim v) = version_text a b c (prerelease s) (build s)" "digits_text a" "digits_text b"
      "digits_text c" "ident_text (prerelease s)" "ident_text (build s)"
    and n: "major s = digits_value a" "minor s = digits_value b" "patch s = digits_value c"
    by (auto simp: semver_text_def)
  show "parseSemver v = Some s"
    using parseSemver_text [OF t(2-6) t(1)] n by (auto intro: semver.equality)
qed

subsection \<open>The order of versions\<close>

text \<open>The specification: numbers first, a pre-release before its release, build data ignored.\<close>

definition older :: "(string \<Rightarrow> string \<Rightarrow> int) \<Rightarrow> semver \<Rightarrow> semver \<Rightarrow> bool" where
  "older cmp a b \<longleftrightarrow>
     major a < major b \<or> (major a = major b \<and>
       (minor a < minor b \<or> (minor a = minor b \<and>
         (patch a < patch b \<or> (patch a = patch b \<and>
           prerelease a \<noteq> [] \<and> (prerelease b = [] \<or> cmp (prerelease a) (prerelease b) < 0))))))"

lemma compare_parsed_older: "compare_parsed cmp a b < 0 \<longleftrightarrow> older cmp a b"
  by (auto simp: compare_parsed_def older_def)

definition pre_le :: "(string \<Rightarrow> string \<Rightarrow> int) \<Rightarrow> semver \<Rightarrow> semver \<Rightarrow> bool" where
  "pre_le cmp a b \<longleftrightarrow> prerelease b = [] \<or> (prerelease a \<noteq> [] \<and> cmp (prerelease a) (prerelease b) \<le> 0)"

lemma compare_parsed_le: "compare_parsed cmp a b \<le> 0 \<longleftrightarrow>
    major a < major b \<or> (major a = major b \<and> (minor a < minor b \<or> (minor a = minor b \<and>
      (patch a < patch b \<or> (patch a = patch b \<and> pre_le cmp a b)))))"
  by (auto simp: compare_parsed_def pre_le_def)

lemma lex_trans:
  fixes x y z :: nat
  assumes "x < y \<or> (x = y \<and> P)" and "y < z \<or> (y = z \<and> Q)" and "P \<Longrightarrow> Q \<Longrightarrow> R"
  shows "x < z \<or> (x = z \<and> R)"
  using assms by auto

lemma compare_parsed_comparator:
  assumes "comparator_fn cmp"
  shows "comparator_fn (compare_parsed cmp)"
proof
  have pos: "0 < cmp x y \<longleftrightarrow> cmp y x < 0" for x y
    using comparator_fn.cmp_anti [OF assms, of x y] by (simp add: sgn_if split: if_splits)
  have gt: "0 < compare_parsed cmp a b \<longleftrightarrow> compare_parsed cmp b a < 0" for a b
    unfolding compare_parsed_older by (auto simp: compare_parsed_def older_def pos)
  show "sgn (compare_parsed cmp a b) = - sgn (compare_parsed cmp b a)" for a b
    using gt [of a b] gt [of b a] by (auto simp: sgn_if)
  have pre: "pre_le cmp a b \<Longrightarrow> pre_le cmp b c \<Longrightarrow> pre_le cmp a c" for a b c
    using comparator_fn.cmp_trans [OF assms, of "prerelease a" "prerelease b" "prerelease c"] by (auto simp: pre_le_def)
  show "compare_parsed cmp a c \<le> 0" if ab: "compare_parsed cmp a b \<le> 0" and bc: "compare_parsed cmp b c \<le> 0" for a b c
    unfolding compare_parsed_le
  proof (rule lex_trans [OF ab [unfolded compare_parsed_le] bc [unfolded compare_parsed_le]])
    assume "minor a < minor b \<or> (minor a = minor b \<and> (patch a < patch b \<or> (patch a = patch b \<and> pre_le cmp a b)))"
      and "minor b < minor c \<or> (minor b = minor c \<and> (patch b < patch c \<or> (patch b = patch c \<and> pre_le cmp b c)))"
    then show "minor a < minor c \<or> (minor a = minor c \<and> (patch a < patch c \<or> (patch a = patch c \<and> pre_le cmp a c)))"
    proof (rule lex_trans)
      assume "patch a < patch b \<or> (patch a = patch b \<and> pre_le cmp a b)" and "patch b < patch c \<or> (patch b = patch c \<and> pre_le cmp b c)"
      then show "patch a < patch c \<or> (patch a = patch c \<and> pre_le cmp a c)" by (rule lex_trans) (rule pre)
    qed
  qed
qed

text \<open>Comparing versions is a total preorder whenever the locale comparison of pre-releases is one
  (so the choice of the newest does not depend on the order of the comparisons), and its strict part
  is the order of the specification: the three numbers first, a pre-release before its release,
  build data ignored.\<close>

theorem version_order:
  assumes "comparator_fn cmp"
  shows "comparator_fn (compare_parsed cmp) \<and> (compare_parsed cmp a b < 0 \<longleftrightarrow> older cmp a b) \<and>
    (compare_parsed cmp a b = 0 \<longleftrightarrow> \<not> older cmp a b \<and> \<not> older cmp b a)"
proof -
  have c: "comparator_fn (compare_parsed cmp)" using assms by (rule compare_parsed_comparator)
  have "sgn (compare_parsed cmp a b) = - sgn (compare_parsed cmp b a)" using c by (rule comparator_fn.cmp_anti)
  then show ?thesis using c unfolding compare_parsed_older [symmetric] by (auto simp: sgn_if split: if_splits)
qed

definition by_length :: "string \<Rightarrow> string \<Rightarrow> int" where
  "by_length s t = int (length s) - int (length t)"

theorem version_order_witness:
  "let a = \<lparr>major = 1, minor = 0, patch = 0, prerelease = ''rc'', build = []\<rparr>; b = a\<lparr>prerelease := []\<rparr>
   in comparator_fn by_length \<and> older by_length a b \<and> compare_parsed by_length a b < 0"
proof -
  have c: "comparator_fn by_length" by unfold_locales (auto simp: by_length_def sgn_if)
  then show ?thesis
    using version_order [OF c, of "\<lparr>major = 1, minor = 0, patch = 0, prerelease = ''rc'', build = []\<rparr>"
        "\<lparr>major = 1, minor = 0, patch = 0, prerelease = [], build = []\<rparr>"]
    by (simp add: older_def)
qed

text \<open>Pre-releases are compared as texts, not by the precedence rules of semantic versions: what
  decides between two release candidates is how the locale orders their names, so a locale that puts
  \<open>rc.10\<close> before \<open>rc.2\<close> makes the script skip the release of candidate 10 after candidate 2, for
  every host and without any write.\<close>

theorem prerelease_textual:
  assumes "cmp ''rc.10'' ''rc.2'' < 0"
  shows "compareSemver cmp ''1.0.0-rc.10'' ''1.0.0-rc.2'' = Some (cmp ''rc.10'' ''rc.2'') \<and>
    snd (decide env cmp h ''1.0.0-rc.10'' lastTag ''1.0.0-rc.2'' tr) = tr"
proof -
  have "parseSemver ''1.0.0-rc.10'' = Some \<lparr>major = 1, minor = 0, patch = 0, prerelease = ''rc.10'', build = []\<rparr>"
    "parseSemver ''1.0.0-rc.2'' = Some \<lparr>major = 1, minor = 0, patch = 0, prerelease = ''rc.2'', build = []\<rparr>"
    by code_simp+
  then have "compareSemver cmp ''1.0.0-rc.10'' ''1.0.0-rc.2'' = Some (cmp ''rc.10'' ''rc.2'')"
    by (simp add: compareSemver_def compare_parsed_def)
  then show ?thesis using assms by (simp add: decide_def)
qed

text \<open>The order of code units of the first difference, as collations of plain ASCII letters and digits have it.\<close>

fun by_code :: "string \<Rightarrow> string \<Rightarrow> int" where
  "by_code [] [] = 0"
| "by_code [] (y # ys) = -1"
| "by_code (x # xs) [] = 1"
| "by_code (x # xs) (y # ys) =
     (if (of_char x :: nat) < of_char y then -1 else if (of_char y :: nat) < of_char x then 1 else by_code xs ys)"

theorem prerelease_textual_witness:
  "by_code ''rc.10'' ''rc.2'' < 0 \<and> compareSemver by_code ''1.0.0-rc.10'' ''1.0.0-rc.2'' = Some (- 1) \<and>
   snd (decide \<lparr>dryRun = False, GH_TOKEN = Some ''t'', version_file = None\<rparr> by_code (\<lambda>_ _. \<lparr>pr_status = Some 0, pr_stdout = [], pr_stderr = []\<rparr>)
     ''1.0.0-rc.10'' (Some ''v1.0.0-rc.2'') ''1.0.0-rc.2'' []) = []"
proof -
  have c: "by_code ''rc.10'' ''rc.2'' = - 1" by code_simp
  then have "by_code ''rc.10'' ''rc.2'' < 0" by simp
  from prerelease_textual [where cmp = by_code, OF this, of "\<lparr>dryRun = False, GH_TOKEN = Some ''t'', version_file = None\<rparr>"
      "\<lambda>_ _. \<lparr>pr_status = Some 0, pr_stdout = [], pr_stderr = []\<rparr>" "Some ''v1.0.0-rc.2''" "[]"]
  show ?thesis unfolding c by simp
qed

subsection \<open>What the script writes\<close>












subsection \<open>Running it again\<close>

text \<open>A run after the new tag was pushed compares with the same release as before: the tag being
  released does not count as the last one, wherever the list of tags has it.\<close>

theorem own_tag_ignored:
  assumes "list_all (\<lambda>t. CHR 0x0A \<notin> set t) (xs @ own # ys)" and "js_trim own = own"
    and "h tr git_tags = \<lparr>pr_status = Some 0, pr_stdout = join_with [CHR 0x0A] (xs @ own # ys), pr_stderr = e\<rparr>"
    and "h' tr' git_tags = \<lparr>pr_status = Some 0, pr_stdout = join_with [CHR 0x0A] (xs @ ys), pr_stderr = e'\<rparr>"
  shows "fst (getLastTag h own tr) = fst (getLastTag h' own tr')"
proof -
  let ?f = "\<lambda>ts. filter (\<lambda>t. t \<noteq> [] \<and> t \<noteq> own) (map js_trim ts)"
  have 1: "split_on (CHR 0x0A) (join_with [CHR 0x0A] (xs @ own # ys)) = xs @ own # ys"
    using assms(1) by (intro split_join) (auto simp: list_all_iff)
  have 2: "?f (split_on (CHR 0x0A) (join_with [CHR 0x0A] (xs @ ys))) = ?f (xs @ ys)"
  proof (cases "xs @ ys = []")
    case False
    then show ?thesis using assms(1) by (subst split_join) (auto simp: list_all_iff)
  qed simp
  have "?f (xs @ own # ys) = ?f (xs @ ys)" using assms(2) by simp
  then show ?thesis
    by (simp add: getLastTag_def run_cmd_def ok_def assms(3,4) Let_def 1 2 del: filter_append map_append list.map filter.simps)
qed

definition tags_host :: "string list \<Rightarrow> host" where
  "tags_host ts tr c = \<lparr>pr_status = Some 0, pr_stdout = join_with [CHR 0x0A] ts, pr_stderr = []\<rparr>"

theorem own_tag_ignored_witness:
  "fst (getLastTag (tags_host [''v1.1.0'', ''v1.0.0'']) ''v1.1.0'' []) = fst (getLastTag (tags_host [''v1.0.0'']) ''v1.1.0'' [])"
proof -
  have t: "js_trim ''v1.1.0'' = ''v1.1.0''" by code_simp
  show ?thesis
    using own_tag_ignored [where xs = "[]" and own = "''v1.1.0''" and ys = "[''v1.0.0'']" and h = "tags_host [''v1.1.0'', ''v1.0.0'']" and
        h' = "tags_host [''v1.0.0'']" and tr = "[]" and tr' = "[]" and e = "[]" and e' = "[]", OF _ t]
    by (simp add: tags_host_def)
qed


definition has_tag :: "host \<Rightarrow> string \<Rightarrow> cmd list \<Rightarrow> bool" where
  "has_tag h t tr \<longleftrightarrow> (\<exists>before after. tr = before @ git_tag t # after \<and> ok (h before (git_tag t)))"



text \<open>How a step of the script may extend the commands so far: it pushes a tag only after making it,
  and neither makes nor pushes a tag that was made before.\<close>

definition tag_safe :: "host \<Rightarrow> string \<Rightarrow> cmd list \<Rightarrow> cmd list \<Rightarrow> bool" where
  "tag_safe h t tr tr' \<longleftrightarrow>
     (\<exists>ws. tr' = tr @ ws \<and> (git_push t \<in> set ws \<longrightarrow> has_tag h t tr') \<and>
        (has_tag h t tr \<longrightarrow> git_tag t \<notin> set ws \<and> git_push t \<notin> set ws))"

lemma tag_safe_same [simp]: "tag_safe h t tr tr"
  by (simp add: tag_safe_def)



lemma cmd_neq [simp]:
  "git_tag t \<noteq> git_push t'" "git_tag t \<noteq> gh_create t' i n" "git_push t \<noteq> gh_create t' i n" "git_tag t \<noteq> git_verify t'"
  "git_push t \<noteq> git_verify t'" "git_push t \<noteq> git_tag t'" "git_tag t = git_tag t' \<longleftrightarrow> t = t'" "git_push t = git_push t' \<longleftrightarrow> t = t'"
  by (auto simp: cmd_defs)










end
