(* ===== verification/Audit_Report.thy ===== *)
theory Audit_Report
  imports Js_Regex Js_Json View
begin

section \<open>Security audit reports (\<open>scripts/audit-report.mjs\<close>)\<close>

text \<open>
  The parser of a report, which refuses everything that departs from the format, and the commands
  that list its findings and record what a finding was filed as. A refusal is the place and the
  message of the \<open>ReportError\<close>.
\<close>

type_synonym 'a checked = "(string \<times> string) + 'a"

definition NL :: char where "NL = CHR 0x0A"

definition FRONT_KEYS :: "string list" where
  "FRONT_KEYS = [''run_id'', ''dev_sha'', ''scope'', ''units'', ''date'']"
definition FINDING_KEYS :: "string list" where
  "FINDING_KEYS = [''id'', ''title'', ''severity'', ''type'', ''label'', ''withhold'', ''verdict'', ''files'', ''related'', ''invariant'']"
definition OPTIONAL_KEYS :: "string list" where "OPTIONAL_KEYS = [''cwe'', ''filed'']"
definition SECTIONS :: "string list" where
  "SECTIONS = [''Summary'', ''Entry point and attacker'', ''Verified trace'', ''Impact and preconditions'', ''Fix direction'',
     ''Test to write first'', ''Verifier notes'']"
definition TRAILING :: "string list" where "TRAILING = [''Refuted candidates'', ''Coverage'', ''Threat-model gaps'']"
definition SEVERITIES :: "string list" where "SEVERITIES = [''critical'', ''high'', ''medium'', ''low'', ''info'']"
definition TYPES :: "string list" where "TYPES = [''bug'', ''chore'', ''docs'']"
definition LABELS :: "string list" where "LABELS = [''backend'', ''web'', ''db'', ''config'', ''ci'', ''docs'', ''none'']"
definition VERDICTS :: "string list" where "VERDICTS = [''CONFIRMED'', ''CONFIRMED-WITH-PRECONDITIONS'']"

subsection \<open>Scalars and key blocks\<close>

text \<open>A value of a block: a text, a boolean or a list of texts; \<open>String(v)\<close>.\<close>

datatype scalar = SText string | SBool bool | SList "string list"

fun scalar_text :: "scalar \<Rightarrow> string" where
  "scalar_text (SText s) = s"
| "scalar_text (SBool b) = (if b then ''true'' else ''false'')"
| "scalar_text (SList xs) = join_with '','' xs"

definition dquote :: char where "dquote = CHR 0x22"
definition bslash :: char where "bslash = CHR 0x5C"

text \<open>\<open>v.search(/\s#/)\<close>: the part before the first white space followed by a hash.\<close>

fun before_hash :: "string \<Rightarrow> string" where
  "before_hash (c # d # cs) = (if js_space c \<and> d = CHR ''#'' then [] else c # before_hash (d # cs))"
| "before_hash cs = cs"

definition stripComment :: "string \<Rightarrow> string" where
  "stripComment v = (if starts_with v [dquote] then v else js_trim (before_hash v))"

definition QUOTED :: regex where
  "QUOTED = Seqs
     [Cls (\<lambda>c. c = dquote),
      Group 1 (Star (Alt (Cls (\<lambda>c. c \<noteq> dquote \<and> c \<noteq> bslash)) (Seq (Cls (\<lambda>c. c = bslash)) (Cls dot_c)))),
      Cls (\<lambda>c. c = dquote), Star (Cls js_space), Opt (Group 2 (Seq (Lit ''#'') (Star (Cls dot_c))))]"

definition ESCAPED :: regex where
  "ESCAPED = Seq (Cls (\<lambda>c. c = bslash)) (Group 1 (Cls (\<lambda>c. c = dquote \<or> c = bslash)))"

definition IN_QUOTES :: regex where
  "IN_QUOTES = Seqs [Cls (\<lambda>c. c = dquote), Group 1 (Star (Cls dot_c)), Cls (\<lambda>c. c = dquote)]"

definition unquote :: "string \<Rightarrow> string" where
  "unquote s = (case exec_full IN_QUOTES s of None \<Rightarrow> s | Some c \<Rightarrow> group_text 1 c)"

definition parseScalar :: "string \<Rightarrow> string \<Rightarrow> scalar checked" where
  "parseScalar raw place =
     (let v = stripComment (js_trim raw)
      in if starts_with v [dquote] then
           (case exec_full QUOTED v of
              None \<Rightarrow> Inl (place, ''unterminated or malformed quoted string: '' @ v)
            | Some m \<Rightarrow> Inr (SText (replace_all ESCAPED (\<lambda>_ c. group_text 1 c) (group_text 1 m))))
         else if starts_with v ''['' then
           (if \<not> ends_with v '']'' then Inl (place, ''malformed flow list: '' @ v)
            else (let inner = js_trim (butlast (drop 1 v))
                  in Inr (SList (if inner = [] then [] else map (\<lambda>s. unquote (js_trim s)) (split_on (CHR '','') inner)))))
         else if v = ''true'' then Inr (SBool True)
         else if v = ''false'' then Inr (SBool False)
         else Inr (SText v))"

definition KEY_LINE :: regex where
  "KEY_LINE = Seqs
     [Group 1 (Plus (Cls (\<lambda>c. (97 \<le> (of_char c :: nat) \<and> (of_char c :: nat) \<le> 122) \<or> c = CHR ''_''))), Lit '':'',
      Opt (Cls js_space), Group 2 (Star (Cls dot_c))]"

fun parseKeyBlock :: "string list \<Rightarrow> string \<Rightarrow> ((string \<times> scalar) list) checked" where
  "parseKeyBlock [] place = Inr []"
| "parseKeyBlock (line # lines) place =
     (if js_trim line = [] then parseKeyBlock lines place
      else (case exec_full KEY_LINE line of
              None \<Rightarrow> Inl (place, ''not a \"key: value\" line: '' @ line)
            | Some m \<Rightarrow>
                (case parseScalar (group_text 2 m) (place @ '' key '' @ group_text 1 m) of
                   Inl e \<Rightarrow> Inl e
                 | Inr v \<Rightarrow> (case parseKeyBlock lines place of
                               Inl e \<Rightarrow> Inl e
                             | Inr kv \<Rightarrow> Inr ((group_text 1 m, v) # kv)))))"

subsection \<open>One finding\<close>

text \<open>The entries of its block, and the line after its heading.\<close>

record finding =
  f_entries :: "(string \<times> scalar) list"
  f_line :: nat

definition f_get :: "finding \<Rightarrow> string \<Rightarrow> scalar option" where
  "f_get f k = map_of (f_entries f) k"

text \<open>\<open>String(f.k)\<close>, also of an absent key.\<close>

definition f_text :: "finding \<Rightarrow> string \<Rightarrow> string" where
  "f_text f k = (case f_get f k of None \<Rightarrow> ''undefined'' | Some v \<Rightarrow> scalar_text v)"

definition f_in :: "finding \<Rightarrow> string \<Rightarrow> string list \<Rightarrow> bool" where
  "f_in f k xs \<longleftrightarrow> (case f_get f k of Some (SText s) \<Rightarrow> s \<in> set xs | _ \<Rightarrow> False)"

definition is_list :: "scalar option \<Rightarrow> bool" where
  "is_list v \<longleftrightarrow> (case v of Some (SList _) \<Rightarrow> True | _ \<Rightarrow> False)"

definition withheld :: "finding \<Rightarrow> bool" where
  "withheld f \<longleftrightarrow> f_get f ''withhold'' = Some (SBool True)"

fun index_of :: "'a \<Rightarrow> 'a list \<Rightarrow> nat option" where
  "index_of x [] = None"
| "index_of x (y # ys) = (if y = x then Some 0 else map_option Suc (index_of x ys))"

definition dash_sep :: string where "dash_sep = '' '' @ em_dash @ '' ''"

text \<open>\<open>heading.split(sep)[0]\<close>.\<close>

fun before_sep :: "string \<Rightarrow> string \<Rightarrow> string" where
  "before_sep sep [] = []"
| "before_sep sep (c # cs) = (if starts_with (c # cs) sep then [] else c # before_sep sep cs)"

definition FENCE :: string where "FENCE = ''```''"
definition YAML_FENCE :: string where "YAML_FENCE = ''```yaml''"

text \<open>The checks on the entries, in the order of the code: the first that fails refuses.\<close>

fun first_fail :: "(bool \<times> string) list \<Rightarrow> string option" where
  "first_fail [] = None"
| "first_fail ((bad, m) # cs) = (if bad then Some m else first_fail cs)"

abbreviation joined :: "string list \<Rightarrow> string" where "joined \<equiv> join_with '',''"

definition finding_checks :: "string \<Rightarrow> (string \<times> scalar) list \<Rightarrow> string list \<Rightarrow> (bool \<times> string) list" where
  "finding_checks heading kv rest =
     (let keys = map fst kv; n = length FINDING_KEYS; extra = drop n keys;
          f = \<lparr>f_entries = kv, f_line = 0\<rparr>;
          h3 = map (drop 4) (filter (\<lambda>l. starts_with l ''### '') rest)
      in [(joined (take n keys) \<noteq> joined FINDING_KEYS, ''yaml keys must start with '' @ join_with '', '' FINDING_KEYS @ '' in order''),
          (joined extra \<noteq> joined (filter (\<lambda>k. k \<in> set extra) OPTIONAL_KEYS), ''only '' @ join_with '', '' OPTIONAL_KEYS @ '' may follow, in that order''),
          (\<not> starts_with heading (f_text f ''id'' @ dash_sep), ''heading id does not match the yaml id''),
          (\<not> f_in f ''severity'' SEVERITIES, ''bad severity '' @ f_text f ''severity''),
          (\<not> f_in f ''type'' TYPES, ''bad type '' @ f_text f ''type''),
          (\<not> f_in f ''label'' LABELS, ''bad label '' @ f_text f ''label''),
          (f_get f ''withhold'' \<notin> {Some (SBool True), Some (SBool False)}, ''withhold must be true or false''),
          (f_in f ''severity'' [''critical'', ''high''] \<and> \<not> withheld f, ''critical and high findings must be withhold: true''),
          (\<not> f_in f ''verdict'' VERDICTS, ''bad verdict '' @ f_text f ''verdict''),
          (\<not> is_list (f_get f ''files''), ''files must be a flow list''),
          (\<not> is_list (f_get f ''related''), ''related must be a flow list''),
          (f_get f ''cwe'' \<noteq> None \<and> \<not> is_list (f_get f ''cwe''), ''cwe must be a flow list''),
          (join_with ''|'' h3 \<noteq> join_with ''|'' SECTIONS, ''### sections must be exactly: '' @ join_with '', '' SECTIONS)])"

definition blank :: "string \<Rightarrow> bool" where
  "blank l \<longleftrightarrow> js_trim l = []"

definition parseFinding :: "string \<Rightarrow> string list \<Rightarrow> nat \<Rightarrow> finding checked" where
  "parseFinding heading body lineNo =
     (let place = before_sep dash_sep heading;
          lead = length (takeWhile blank body);
          inside = drop (Suc lead) body
      in if lead = length body \<or> body ! lead \<noteq> YAML_FENCE then
           Inl (place, ''heading must be followed by exactly one ```yaml block'')
         else (case index_of FENCE inside of
                 None \<Rightarrow> Inl (place, ''unclosed yaml block'')
               | Some close \<Rightarrow>
                   (case parseKeyBlock (take close inside) place of
                      Inl e \<Rightarrow> Inl e
                    | Inr kv \<Rightarrow>
                        (case first_fail (finding_checks heading kv (drop (Suc close) inside)) of
                           Some m \<Rightarrow> Inl (place, m)
                         | None \<Rightarrow> Inr \<lparr>f_entries = kv, f_line = lineNo\<rparr>))))"

subsection \<open>The report\<close>

definition SHA :: regex where
  "SHA = Times 40 (Cls (\<lambda>c. digit_c c \<or> (97 \<le> (of_char c :: nat) \<and> (of_char c :: nat) \<le> 102)))"

definition TOTALS :: regex where
  "TOTALS = Seqs [Plus (Cls digit_c), Lit '' finding'', Opt (Lit ''s''), Lit '':'']"

definition slice :: "nat \<Rightarrow> nat \<Rightarrow> 'a list \<Rightarrow> 'a list" where
  "slice i j xs = take (j - i) (drop i xs)"

text \<open>The loop over the second-level headings after the summary: the findings, then the trailing
  sections. \<open>trailing\<close> is what was seen of the latter.\<close>

fun scan_sections :: "string list \<Rightarrow> nat list \<Rightarrow> string list \<Rightarrow> (finding list \<times> string list) checked" where
  "scan_sections lines [] trailing = Inr ([], trailing)"
| "scan_sections lines (start # h2) trailing =
     (let stop = (case h2 of [] \<Rightarrow> length lines | e # _ \<Rightarrow> e);
          heading = drop 3 (lines ! start)
      in if starts_with heading ''SA-'' then
           (if trailing \<noteq> [] then Inl (heading, ''finding section after a trailing section'')
            else (case parseFinding heading (slice (Suc start) stop lines) (Suc start) of
                    Inl e \<Rightarrow> Inl e
                  | Inr f \<Rightarrow> (case scan_sections lines h2 trailing of
                                Inl e \<Rightarrow> Inl e
                              | Inr (fs, t) \<Rightarrow> Inr (f # fs, t))))
         else if heading \<in> set TRAILING then scan_sections lines h2 (trailing @ [heading])
         else Inl (''line '' @ nat_string (Suc start), ''unexpected ## section '' @ [dquote] @ heading @ [dquote]))"

definition summary_ids :: "string list \<Rightarrow> string list" where
  "summary_ids body = map (\<lambda>r. js_trim (split_on (CHR ''|'') r ! 1)) (filter (\<lambda>l. starts_with l ''| SA-'') body)"

definition section_starts :: "nat \<Rightarrow> string list \<Rightarrow> nat list" where
  "section_starts i lines = filter (\<lambda>j. starts_with (lines ! j) ''## '') [i..<length lines]"

record report =
  front :: "(string \<times> scalar) list"
  findings :: "finding list"

definition key_text :: "(string \<times> scalar) list \<Rightarrow> string \<Rightarrow> string" where
  "key_text kv k = (case map_of kv k of None \<Rightarrow> ''undefined'' | Some v \<Rightarrow> scalar_text v)"

definition parse_sections :: "string list \<Rightarrow> nat \<Rightarrow> (finding list) checked" where
  "parse_sections lines i =
     (let h2 = section_starts i lines
      in if h2 = [] \<or> lines ! hd h2 \<noteq> ''## Summary'' then Inl (''## Summary'', ''first ## section must be \"## Summary\"'')
         else (case scan_sections lines (tl h2) [] of
                 Inl e \<Rightarrow> Inl e
               | Inr (fs, trailing) \<Rightarrow>
                   (let summaryBody = slice (Suc (hd h2)) (case tl h2 of [] \<Rightarrow> length lines | e # _ \<Rightarrow> e) lines
                    in if joined trailing \<noteq> joined TRAILING then
                         Inl (''trailing sections'', ''must be exactly '' @ join_with '', '' (map ((@) ''## '') TRAILING) @ '' in order'')
                       else if joined (summary_ids summaryBody) \<noteq> joined (map (\<lambda>f. f_text f ''id'') fs) then
                         Inl (''## Summary'', ''table rows must list every finding id, in finding order'')
                       else if \<not> list_ex (\<lambda>l. exec_prefix TOTALS l \<noteq> None) summaryBody then
                         Inl (''## Summary'', ''missing the totals line'')
                       else Inr fs)))"

definition parseLines :: "string list \<Rightarrow> report checked" where
  "parseLines lines =
     (if lines ! 0 \<noteq> ''---'' then Inl (''front matter'', ''report must start with ---'')
      else (case index_of ''---'' (drop 1 lines) of
              None \<Rightarrow> Inl (''front matter'', ''no closing ---'')
            | Some k \<Rightarrow>
                (case parseKeyBlock (take k (drop 1 lines)) ''front matter'' of
                   Inl e \<Rightarrow> Inl e
                 | Inr fm \<Rightarrow>
                     if joined (map fst fm) \<noteq> joined FRONT_KEYS then
                       Inl (''front matter'', ''keys must be exactly '' @ join_with '', '' FRONT_KEYS @ '' in order; got '' @ join_with '', '' (map fst fm))
                     else if \<not> test_full SHA (key_text fm ''dev_sha'') then
                       Inl (''front matter'', ''dev_sha must be a full 40-character SHA'')
                     else (case parse_sections lines (Suc (Suc k)) of
                             Inl e \<Rightarrow> Inl e
                           | Inr fs \<Rightarrow> Inr \<lparr>front = fm, findings = fs\<rparr>))))"

definition parseReport :: "string \<Rightarrow> report checked" where
  "parseReport text = parseLines (split_on NL text)"

subsection \<open>The commands\<close>

text \<open>What a command prints, and the text it writes back.\<close>

datatype audit_result = Usage | Printed "string list" | Written string "string list"

definition TAB :: string where "TAB = [CHR 0x09]"

definition list_line :: "finding \<Rightarrow> string" where
  "list_line f =
     f_text f ''id'' @ TAB @ f_text f ''severity'' @ TAB @ (if withheld f then ''withheld'' else ''public'') @ TAB @
     (case f_get f ''filed'' of None \<Rightarrow> ''-'' | Some v \<Rightarrow> scalar_text v) @ TAB @ f_text f ''title''"

definition FILED_VALUE :: regex where
  "FILED_VALUE =
     (let part = Times 4 (Cls (\<lambda>c. digit_c c \<or> (97 \<le> (of_char c :: nat) \<and> (of_char c :: nat) \<le> 122)))
      in Alt (Seq (Lit ''RO-'') (Plus (Cls digit_c)))
             (Seqs [Lit ''GHSA-'', part, Lit ''-'', part, Lit ''-'', part]))"

text \<open>The loop \<open>while (lines[j] !== x) j++\<close>. Past the end the line is \<open>undefined\<close> and the loop never
  stops: \<^term>\<open>None\<close>.\<close>

function seek :: "string \<Rightarrow> string list \<Rightarrow> nat \<Rightarrow> nat option" where
  "seek x lines j = (if j < length lines then if lines ! j = x then Some j else seek x lines (Suc j) else None)"
  by pat_completeness auto
termination by (relation "measure (\<lambda>(x, lines, j). length lines - j)") auto

declare seek.simps [simp del]

definition filed_line :: "string \<Rightarrow> string" where
  "filed_line value = ''filed: '' @ (if starts_with value ''RO-'' then [dquote] @ value @ [dquote] else value)"

text \<open>The block from \<open>j + 1\<close> to \<open>k\<close>, with its line replaced or one added at its end.\<close>

definition mark_lines :: "string \<Rightarrow> nat \<Rightarrow> nat \<Rightarrow> string list \<Rightarrow> string list" where
  "mark_lines value j k lines =
     (let block = slice (Suc j) k lines; i = length (takeWhile (\<lambda>l. \<not> starts_with l ''filed:'') block)
      in if i < length block then lines[Suc j + i := filed_line value]
         else take k lines @ filed_line value # drop k lines)"

definition mark_checks :: "string \<Rightarrow> string \<Rightarrow> finding option \<Rightarrow> (bool \<times> string \<times> string) list" where
  "mark_checks ident value f =
     [(ident = [] \<or> value = [], ''arguments'', ''mark needs <id> and <value>''),
      (\<not> test_full FILED_VALUE value, ''arguments'', ''bad filed value '' @ value),
      (f = None, ''arguments'', ''no finding '' @ ident),
      (withheld (the f) \<and> starts_with value ''RO-'', ident, ''a withheld finding is never filed as a Kaneo task''),
      (\<not> withheld (the f) \<and> starts_with value ''GHSA-'', ident, ''a public finding is filed as a Kaneo task'')]"

fun first_refusal :: "(bool \<times> string \<times> string) list \<Rightarrow> (string \<times> string) option" where
  "first_refusal [] = None"
| "first_refusal ((bad, e) # cs) = (if bad then Some e else first_refusal cs)"

text \<open>\<^term>\<open>None\<close> where a loop does not stop.\<close>

definition mark_report :: "string \<Rightarrow> report \<Rightarrow> string \<Rightarrow> string \<Rightarrow> (audit_result checked) option" where
  "mark_report text rep ident value =
     (let f = find (\<lambda>x. f_get x ''id'' = Some (SText ident)) (findings rep)
      in case first_refusal (mark_checks ident value f) of
           Some e \<Rightarrow> Some (Inl e)
         | None \<Rightarrow>
             (let lines = split_on NL text
              in case seek YAML_FENCE lines (f_line (the f)) of
                   None \<Rightarrow> None
                 | Some j \<Rightarrow>
                     (case seek FENCE lines (Suc j) of
                        None \<Rightarrow> None
                      | Some k \<Rightarrow>
                          (let updated = join_with [NL] (mark_lines value j k lines)
                           in Some (case parseReport updated of
                                      Inl e \<Rightarrow> Inl e
                                    | Inr _ \<Rightarrow> Inr (Written updated [ident @ '' filed as '' @ value]))))))"

definition audit_main :: "string list \<Rightarrow> string \<Rightarrow> string \<Rightarrow> (audit_result checked) option" where
  "audit_main argv file text =
     (let cmd = (case argv of [] \<Rightarrow> [] | c # _ \<Rightarrow> c); arg = (\<lambda>n. if n < length argv then argv ! n else [])
      in if cmd \<notin> {''check'', ''list'', ''mark''} then Some (Inr Usage)
         else (case parseReport text of
                 Inl e \<Rightarrow> Some (Inl e)
               | Inr rep \<Rightarrow>
                   if cmd = ''check'' then
                     Some (Inr (Printed [''ok: '' @ nat_string (length (findings rep)) @ '' findings in '' @ file]))
                   else if cmd = ''list'' then Some (Inr (Printed (map list_line (findings rep))))
                   else mark_report text rep (arg 2) (arg 3)))"

end
