(* ===== verification/Audit_Mark.thy ===== *)
theory Audit_Mark
  imports Audit_Report "HOL-Library.AList"
begin

section \<open>What marking a finding does to a report\<close>

text \<open>
  The parser works on line numbers. Here it is shown equal to one that first cuts the text into
  sections; with that, the effect of \<open>mark\<close> on the parsed report is proved, and that its two
  unguarded loops stop.
\<close>

subsection \<open>Cutting a text into sections\<close>

definition is_head :: "string \<Rightarrow> bool" where
  "is_head l \<longleftrightarrow> starts_with l ''## ''"

definition chunk_step :: "string \<Rightarrow> string list \<times> (string \<times> string list) list \<Rightarrow> string list \<times> (string \<times> string list) list" where
  "chunk_step l bc = (if is_head l then ([], (l, fst bc) # snd bc) else (l # fst bc, snd bc))"

definition chunks :: "string list \<Rightarrow> string list \<times> (string \<times> string list) list" where
  "chunks ls = foldr chunk_step ls ([], [])"

lemma chunks_append: "chunks (xs @ ys) = foldr chunk_step xs (chunks ys)"
  by (simp add: chunks_def)

lemma foldr_plain: "list_all (\<lambda>l. \<not> is_head l) xs \<Longrightarrow> foldr chunk_step xs bc = (xs @ fst bc, snd bc)"
  by (induction xs) (simp_all add: chunk_step_def)

lemma foldr_closed: "foldr chunk_step xs ([], ds) = (fst (chunks xs), snd (chunks xs) @ ds)"
  by (induction xs) (simp_all add: chunks_def chunk_step_def)

lemma chunks_plain: "list_all (\<lambda>l. \<not> is_head l) (fst (chunks xs))"
  by (induction xs) (simp_all add: chunks_def chunk_step_def)

subsection \<open>The parser on line numbers cuts the same sections\<close>

definition next_start :: "nat \<Rightarrow> nat list \<Rightarrow> nat" where
  "next_start n h2 = (case h2 of [] \<Rightarrow> n | e # _ \<Rightarrow> e)"

fun bodies :: "string list \<Rightarrow> nat list \<Rightarrow> (string \<times> string list) list" where
  "bodies lines [] = []"
| "bodies lines (s # h2) = (lines ! s, slice (Suc s) (next_start (length lines) h2) lines) # bodies lines h2"

lemma slice_Cons: "i < j \<Longrightarrow> i < length xs \<Longrightarrow> slice i j xs = xs ! i # slice (Suc i) j xs"
  by (simp add: slice_def Cons_nth_drop_Suc [symmetric] Suc_diff_Suc [symmetric])

lemma section_starts_Cons: "i < length ls \<Longrightarrow>
    section_starts i ls = (if is_head (ls ! i) then i # section_starts (Suc i) ls else section_starts (Suc i) ls)"
  by (simp add: section_starts_def is_head_def upt_conv_Cons)

lemma next_start_ge: "i \<le> length ls \<Longrightarrow> i \<le> next_start (length ls) (section_starts i ls)"
proof -
  assume i: "i \<le> length ls"
  have "\<forall>e \<in> set (section_starts i ls). i \<le> e" by (simp add: section_starts_def)
  then show ?thesis using i by (cases "section_starts i ls") (simp_all add: next_start_def)
qed

lemma chunks_starts:
  "i \<le> length ls \<Longrightarrow> chunks (drop i ls) =
     (slice i (next_start (length ls) (section_starts i ls)) ls, bodies ls (section_starts i ls))"
proof (induction "length ls - i" arbitrary: i)
  case 0
  then show ?case by (simp add: chunks_def section_starts_def slice_def next_start_def)
next
  case (Suc n)
  then have i: "i < length ls" by simp
  have IH: "chunks (drop (Suc i) ls) =
     (slice (Suc i) (next_start (length ls) (section_starts (Suc i) ls)) ls, bodies ls (section_starts (Suc i) ls))"
    using Suc by simp
  have ge: "Suc i \<le> next_start (length ls) (section_starts (Suc i) ls)" using i by (intro next_start_ge) simp
  have "chunks (drop i ls) = chunk_step (ls ! i) (chunks (drop (Suc i) ls))"
    using i by (simp add: chunks_def Cons_nth_drop_Suc [symmetric])
  also have "\<dots> = (slice i (next_start (length ls) (section_starts i ls)) ls, bodies ls (section_starts i ls))"
  proof (cases "is_head (ls ! i)")
    case True
    then show ?thesis using i IH by (simp add: section_starts_Cons chunk_step_def next_start_def slice_def)
  next
    case False
    then show ?thesis using i IH ge by (simp add: section_starts_Cons chunk_step_def slice_Cons)
  qed
  finally show ?case .
qed

text \<open>The parser of a list of sections: the entries of the findings and the trailing headings.\<close>

definition entries_of :: "string \<Rightarrow> string list \<Rightarrow> ((string \<times> scalar) list) checked" where
  "entries_of heading body = map_sum id f_entries (parseFinding heading body 0)"

fun scan_chunks :: "(string \<times> string list) list \<Rightarrow> string list \<Rightarrow> (((string \<times> scalar) list) list \<times> string list) option" where
  "scan_chunks [] trailing = Some ([], trailing)"
| "scan_chunks ((h, body) # cs) trailing =
     (let heading = drop 3 h
      in if starts_with heading ''SA-'' then
           (if trailing \<noteq> [] then None
            else (case entries_of heading body of
                    Inl _ \<Rightarrow> None
                  | Inr kv \<Rightarrow> map_option (apfst (Cons kv)) (scan_chunks cs trailing)))
         else if heading \<in> set TRAILING then scan_chunks cs (trailing @ [heading]) else None)"

definition id_text :: "(string \<times> scalar) list \<Rightarrow> string" where
  "id_text kv = key_text kv ''id''"

definition parse_chunks :: "(string \<times> string list) list \<Rightarrow> (((string \<times> scalar) list) list) option" where
  "parse_chunks cs =
     (case cs of
        [] \<Rightarrow> None
      | (h, summary) # rest \<Rightarrow>
          (if h \<noteq> ''## Summary'' then None
           else (case scan_chunks rest [] of
                   None \<Rightarrow> None
                 | Some (kvs, trailing) \<Rightarrow>
                     if joined trailing = joined TRAILING \<and> joined (summary_ids summary) = joined (map id_text kvs) \<and>
                        list_ex (\<lambda>l. exec_prefix TOTALS l \<noteq> None) summary then Some kvs else None)))"

definition accepted :: "'a checked \<Rightarrow> 'a option" where
  "accepted r = (case r of Inl _ \<Rightarrow> None | Inr x \<Rightarrow> Some x)"

lemma entries_of_line: "map_sum id f_entries (parseFinding h b n) = entries_of h b"
  by (simp add: entries_of_def parseFinding_def Let_def split: option.splits sum.splits)

lemma scan_bodies:
  "map_option (apfst (map f_entries)) (accepted (scan_sections ls h2 trailing)) = scan_chunks (bodies ls h2) trailing"
proof (induction ls h2 trailing rule: scan_sections.induct)
  case (2 lines start h2 trailing)
  let ?h = "drop 3 (lines ! start)" and ?b = "slice (Suc start) (next_start (length lines) h2) lines"
  have stop: "(case h2 of [] \<Rightarrow> length lines | e # _ \<Rightarrow> e) = next_start (length lines) h2"
    by (simp add: next_start_def)
  show ?case
  proof (cases "starts_with ?h ''SA-''")
    case True
    show ?thesis
    proof (cases "trailing \<noteq> []")
      case False
      have e: "entries_of ?h ?b = map_sum id f_entries (parseFinding ?h ?b (Suc start))" by (simp add: entries_of_line)
      show ?thesis
        using 2(1) [OF refl refl True, THEN sym] False True
        by (cases "parseFinding ?h ?b (Suc start)")
          (auto simp: accepted_def Let_def stop e split: sum.splits option.splits prod.splits)
    qed (use True in \<open>simp add: accepted_def Let_def\<close>)
  next
    case False
    then show ?thesis using 2(2) [OF refl refl False] by (simp add: Let_def accepted_def)
  qed
qed (simp add: accepted_def)

lemma id_text_entries: "id_text (f_entries f) = f_text f ''id''"
  by (simp add: id_text_def key_text_def f_text_def f_get_def)

lemma parse_sections_chunks:
  assumes "i \<le> length ls"
  shows "map_option (map f_entries) (accepted (parse_sections ls i)) = parse_chunks (snd (chunks (drop i ls)))"
proof (cases "section_starts i ls")
  case Nil
  then show ?thesis by (simp add: chunks_starts [OF assms] parse_sections_def parse_chunks_def accepted_def Let_def)
next
  case (Cons s h2)
  have stop: "(case h2 of [] \<Rightarrow> length ls | e # _ \<Rightarrow> e) = next_start (length ls) h2"
    by (simp add: next_start_def)
  show ?thesis
    using scan_bodies [of ls h2 "[]"]
    by (auto simp: chunks_starts [OF assms] Cons parse_sections_def parse_chunks_def accepted_def Let_def stop
        id_text_entries comp_def split: sum.splits option.splits)
qed

subsection \<open>Replacing the body of a finding\<close>

lemma scan_located:
  "scan_sections lines h2 [] = Inr (fs, t) \<Longrightarrow> n < length fs \<Longrightarrow>
     n < length h2 \<and> f_line (fs ! n) = Suc (h2 ! n) \<and> starts_with (drop 3 (lines ! (h2 ! n))) ''SA-'' \<and>
     parseFinding (drop 3 (lines ! (h2 ! n)))
       (slice (Suc (h2 ! n)) (next_start (length lines) (drop (Suc n) h2)) lines) (Suc (h2 ! n)) = Inr (fs ! n)"
proof (induction lines h2 "[] :: string list" arbitrary: fs n rule: scan_sections.induct)
  case (2 lines start h2)
  show ?case
  proof (cases "starts_with (drop 3 (lines ! start)) ''SA-''")
    case True
    obtain f fs' where f: "parseFinding (drop 3 (lines ! start)) (slice (Suc start) (next_start (length lines) h2) lines) (Suc start) = Inr f"
      and r: "scan_sections lines h2 [] = Inr (fs', t)" "fs = f # fs'"
      using "2.prems"(1) True by (auto simp: Let_def next_start_def split: sum.splits)
    have line: "f_line f = Suc start"
      using f by (auto simp: parseFinding_def Let_def split: option.splits sum.splits if_splits)
    show ?thesis
    proof (cases n)
      case 0
      then show ?thesis using f r line True by simp
    next
      case (Suc m)
      then show ?thesis
        using "2.hyps"(1) [OF refl refl True _ _ r(1), of f m] f r "2.prems"(2) by (simp add: next_start_def)
    qed
  next
    case False
    then have t: "drop 3 (lines ! start) \<in> set TRAILING" "scan_sections lines h2 [drop 3 (lines ! start)] = Inr (fs, t)"
      using "2.prems"(1) by (auto simp: Let_def split: if_splits)
    have "fs' = []" if "scan_sections ls hs tr = Inr (fs', t')" "tr \<noteq> []" for ls hs tr fs' t'
      using that by (induction ls hs tr arbitrary: fs' rule: scan_sections.induct) (auto simp: Let_def split: if_splits)
    then show ?thesis using t(2) "2.prems"(2) by fastforce
  qed
qed simp

lemma scan_chunks_update:
  "scan_chunks cs [] = Some (kvs, t) \<Longrightarrow> n < length kvs \<Longrightarrow> entries_of (drop 3 (fst (cs ! n))) body = Inr kv \<Longrightarrow>
     n < length cs \<and> scan_chunks (cs[n := (fst (cs ! n), body)]) [] = Some (kvs[n := kv], t)"
proof (induction cs "[] :: string list" arbitrary: kvs n rule: scan_chunks.induct)
  case (2 h b cs)
  show ?case
  proof (cases "starts_with (drop 3 h) ''SA-''")
    case True
    obtain kv0 kvs' where k: "entries_of (drop 3 h) b = Inr kv0" "scan_chunks cs [] = Some (kvs', t)" "kvs = kv0 # kvs'"
      using "2.prems"(1) True by (auto simp: Let_def split: sum.splits)
    show ?thesis
    proof (cases n)
      case 0
      then show ?thesis using "2.prems"(3) k True by simp
    next
      case (Suc m)
      then show ?thesis using "2.hyps"(1) [OF refl True _ k(1,2), of m] "2.prems"(2,3) k True by simp
    qed
  next
    case False
    have "kvs' = []" if "scan_chunks ds tr = Some (kvs', t')" "tr \<noteq> []" for ds tr kvs' t'
      using that by (induction ds tr arbitrary: kvs' rule: scan_chunks.induct) (auto simp: Let_def split: if_splits)
    then show ?thesis using "2.prems"(1,2) False by (fastforce simp: Let_def split: if_splits)
  qed
qed simp

lemma slice_all: "i \<le> j \<Longrightarrow> j \<le> length xs \<Longrightarrow> drop i xs = slice i j xs @ drop j xs"
  unfolding slice_def by (metis append_take_drop_id drop_drop le_add_diff_inverse2)

lemma chunks_closed_at:
  assumes "h2 = section_starts i ls" "s \<in> set h2 \<or> s = length ls" "i \<le> s"
  shows "fst (chunks (drop s ls)) = []"
proof (cases "s < length ls")
  case True
  then have "is_head (ls ! s)" using assms by (auto simp: section_starts_def is_head_def)
  then show ?thesis using True by (simp add: chunks_def Cons_nth_drop_Suc [symmetric] chunk_step_def)
qed (simp add: chunks_def)

lemma bodies_drop: "n < length h2 \<Longrightarrow> drop n (bodies ls h2) =
    (ls ! (h2 ! n), slice (Suc (h2 ! n)) (next_start (length ls) (drop (Suc n) h2)) ls) # bodies ls (drop (Suc n) h2)"
  by (induction ls h2 arbitrary: n rule: bodies.induct) (auto simp: less_Suc_eq_0_disj nth_Cons' split: nat.splits)

lemma length_bodies [simp]: "length (bodies ls h2) = length h2"
  by (induction ls h2 rule: bodies.induct) auto

lemma section_starts_next:
  assumes "section_starts i ls = xs @ s # ys" shows "section_starts (Suc s) ls = ys" and "i \<le> s" and "s < length ls"
proof -
  have sorted: "sorted_wrt (<) (section_starts i ls)" by (simp add: section_starts_def sorted_wrt_filter)
  have mem: "j \<in> set (section_starts i ls) \<longleftrightarrow> i \<le> j \<and> j < length ls \<and> is_head (ls ! j)" for i j
    by (auto simp: section_starts_def is_head_def)
  have "s \<in> set (section_starts i ls)" using assms by simp
  then show s: "i \<le> s" "s < length ls" by (simp_all add: mem)
  have "section_starts i ls = section_starts i (take (Suc s) ls) @ section_starts (Suc s) ls"
  proof -
    have "Suc s + (length ls - Suc s) = length ls" using s by simp
    then have "[i..<length ls] = [i..<Suc s] @ [Suc s..<length ls]"
      using upt_add_eq_append [of i "Suc s" "length ls - Suc s"] s by (simp only: le_SucI)
    moreover have "filter (\<lambda>j. starts_with (take (Suc s) ls ! j) ''## '') [i..<Suc s] = filter (\<lambda>j. starts_with (ls ! j) ''## '') [i..<Suc s]"
      by (rule filter_cong) auto
    ultimately show ?thesis using s by (simp add: section_starts_def min_absorb2 Suc_leI del: upt_Suc)
  qed
  moreover have "filter (\<lambda>j. s < j) (section_starts (Suc s) ls) = section_starts (Suc s) ls"
    by (auto simp: section_starts_def intro!: filter_cong)
  moreover have "filter (\<lambda>j. s < j) (section_starts i (take (Suc s) ls)) = []"
    by (auto simp: filter_empty_conv section_starts_def)
  ultimately have "filter (\<lambda>j. s < j) (section_starts i ls) = section_starts (Suc s) ls" by simp
  moreover have "filter (\<lambda>j. s < j) (xs @ s # ys) = ys"
    using sorted unfolding assms by (fastforce simp: sorted_wrt_append filter_id_conv filter_empty_conv intro: less_imp_le)
  ultimately show "section_starts (Suc s) ls = ys" using assms by simp
qed

lemma replace_body:
  assumes acc: "parse_sections ls i = Inr fs" and i: "i \<le> length ls" and n: "n < length fs"
  obtains start stop where "f_line (fs ! n) = Suc start" and "i \<le> start" and "start < stop" and "stop \<le> length ls"
    and "parseFinding (drop 3 (ls ! start)) (slice (Suc start) stop ls) (Suc start) = Inr (fs ! n)"
    and "list_all (\<lambda>l. \<not> is_head l) (slice (Suc start) stop ls)"
    and "\<And>body kv. list_all (\<lambda>l. \<not> is_head l) body \<Longrightarrow> entries_of (drop 3 (ls ! start)) body = Inr kv \<Longrightarrow>
      id_text kv = id_text (f_entries (fs ! n)) \<Longrightarrow>
      map_option (map f_entries) (accepted (parse_sections (take (Suc start) ls @ body @ drop stop ls) i)) =
      Some ((map f_entries fs)[n := kv])"
proof -
  obtain s0 h2 t where h: "section_starts i ls = s0 # h2" and sum: "ls ! s0 = ''## Summary''"
    and scan: "scan_sections ls h2 [] = Inr (fs, t)"
    using acc by (cases "section_starts i ls") (auto simp: parse_sections_def Let_def split: sum.splits if_splits)
  from scan_located [OF scan n] have n2: "n < length h2" and line: "f_line (fs ! n) = Suc (h2 ! n)"
    and pf: "parseFinding (drop 3 (ls ! (h2 ! n))) (slice (Suc (h2 ! n)) (next_start (length ls) (drop (Suc n) h2)) ls) (Suc (h2 ! n)) = Inr (fs ! n)"
    by blast+
  define start where "start = h2 ! n"
  define h3 where "h3 = drop (Suc n) h2"
  define stop where "stop = next_start (length ls) h3"
  have split: "section_starts i ls = (s0 # take n h2) @ start # h3"
    using n2 by (simp add: h start_def h3_def id_take_nth_drop [symmetric])
  note nx = section_starts_next [OF split]
  have stop: "Suc start \<le> stop" "stop \<le> length ls"
  proof -
    show "Suc start \<le> stop" using next_start_ge [of "Suc start" ls] nx by (simp add: stop_def)
    have "\<forall>e \<in> set h3. e < length ls" unfolding nx(1) [symmetric] by (simp add: section_starts_def)
    then show "stop \<le> length ls" by (cases h3) (simp_all add: stop_def next_start_def)
  qed
  have body: "chunks (drop (Suc start) ls) = (slice (Suc start) stop ls, bodies ls h3)"
    using chunks_starts [of "Suc start" ls] nx by (simp add: stop_def)
  have plain: "list_all (\<lambda>l. \<not> is_head l) (slice (Suc start) stop ls)" using chunks_plain [of "drop (Suc start) ls"] by (simp add: body)
  have tail: "chunks (drop stop ls) = ([], bodies ls h3)"
  proof -
    have "chunks (drop (Suc start) ls) = foldr chunk_step (slice (Suc start) stop ls) (chunks (drop stop ls))"
      unfolding slice_all [OF stop] by (rule chunks_append)
    then have "(slice (Suc start) stop ls @ fst (chunks (drop stop ls)), snd (chunks (drop stop ls))) = (slice (Suc start) stop ls, bodies ls h3)"
      by (simp add: foldr_plain [OF plain] body)
    then show ?thesis by (cases "chunks (drop stop ls)") simp
  qed
  have head: "is_head (ls ! start)" using arg_cong [OF split, of set] by (auto simp: section_starts_def is_head_def)
  let ?p = "slice i start ls"
  have shape: "chunks (?p @ ls ! start # b @ drop stop ls) = (fst (chunks ?p), snd (chunks ?p) @ (ls ! start, b) # bodies ls h3)"
    if "list_all (\<lambda>l. \<not> is_head l) b" for b
  proof -
    have "chunks (?p @ ls ! start # b @ drop stop ls) = foldr chunk_step ?p (chunk_step (ls ! start) (foldr chunk_step b (chunks (drop stop ls))))"
      by (simp add: chunks_def)
    then show ?thesis using head
      by (simp only: tail foldr_plain [OF that] fst_conv snd_conv append_Nil2) (simp only: chunk_step_def if_True fst_conv snd_conv foldr_closed)
  qed
  have drop_i: "drop i ls = ?p @ ls ! start # slice (Suc start) stop ls @ drop stop ls"
    using slice_all [of i start ls] slice_all [OF stop] nx Cons_nth_drop_Suc [of start ls] by simp
  have all: "snd (chunks ?p) @ (ls ! start, slice (Suc start) stop ls) # bodies ls h3 = bodies ls (s0 # h2)"
    using chunks_starts [OF i] shape [OF plain] by (simp add: drop_i h)
  have len: "length (snd (chunks ?p)) = Suc n"
    using arg_cong [OF all, of length] n2 by (simp add: h3_def)
  have cs: "snd (chunks ?p) @ (ls ! start, b) # bodies ls h3 = (hd (bodies ls (s0 # h2))) # (bodies ls h2)[n := (ls ! start, b)]" for b
  proof -
    have "snd (chunks ?p) @ (ls ! start, b) # bodies ls h3 = (bodies ls (s0 # h2))[Suc n := (ls ! start, b)]"
      unfolding all [symmetric] using len by (simp add: list_update_append)
    then show ?thesis by simp
  qed
  have old: "parse_chunks (bodies ls (s0 # h2)) = Some (map f_entries fs)"
    using parse_sections_chunks [OF i] acc by (simp add: accepted_def chunks_starts [OF i] h)
  show thesis
  proof (rule that)
    show "f_line (fs ! n) = Suc start" "i \<le> start" "start < stop" "stop \<le> length ls" using line nx stop by (simp_all add: start_def)
    show "parseFinding (drop 3 (ls ! start)) (slice (Suc start) stop ls) (Suc start) = Inr (fs ! n)"
      using pf by (simp add: start_def stop_def h3_def)
    show "list_all (\<lambda>l. \<not> is_head l) (slice (Suc start) stop ls)" by (rule plain)
    fix b kv assume b: "list_all (\<lambda>l. \<not> is_head l) b" "entries_of (drop 3 (ls ! start)) b = Inr kv"
      and same: "id_text kv = id_text (f_entries (fs ! n))"
    let ?ls = "take (Suc start) ls @ b @ drop stop ls"
    have "drop i ?ls = ?p @ ls ! start # b @ drop stop ls"
      using nx by (simp add: take_Suc_conv_app_nth slice_def drop_take)
    then have new: "snd (chunks (drop i ?ls)) = hd (bodies ls (s0 # h2)) # (bodies ls h2)[n := (ls ! start, b)]"
      using shape [OF b(1)] by (simp add: cs)
    have i': "i \<le> length ?ls" using nx by simp
    obtain t' where t': "scan_chunks (bodies ls h2) [] = Some (map f_entries fs, t')"
      and tr: "joined t' = joined TRAILING" "joined (summary_ids (snd (hd (bodies ls (s0 # h2))))) = joined (map id_text (map f_entries fs))"
        "list_ex (\<lambda>l. exec_prefix TOTALS l \<noteq> None) (snd (hd (bodies ls (s0 # h2))))"
      using old by (auto simp: parse_chunks_def split: option.splits if_splits)
    have at: "bodies ls h2 ! n = (ls ! start, slice (Suc start) stop ls)"
      using bodies_drop [OF n2, of ls] n2 by (metis Cons_nth_drop_Suc length_bodies list.inject h3_def start_def stop_def)
    have up: "scan_chunks ((bodies ls h2)[n := (ls ! start, b)]) [] = Some ((map f_entries fs)[n := kv], t')"
      using scan_chunks_update [OF t', of n b kv] n b(2) by (simp add: at)
    have ids: "map id_text ((map f_entries fs)[n := kv]) = map id_text (map f_entries fs)"
      using n same by (simp add: map_update list_update_same_conv)
    show "map_option (map f_entries) (accepted (parse_sections ?ls i)) = Some ((map f_entries fs)[n := kv])"
      unfolding parse_sections_chunks [OF i'] new using up tr sum by (simp add: parse_chunks_def ids del: list.map_comp)
  qed
qed

subsection \<open>The block of a finding\<close>

lemma index_of_append: "x \<notin> set xs \<Longrightarrow> index_of x (xs @ x # ys) = Some (length xs)"
  by (induction xs) auto

lemma index_of_split: "index_of x ls = Some n \<Longrightarrow> ls = take n ls @ x # drop (Suc n) ls \<and> x \<notin> set (take n ls) \<and> n < length ls"
  by (induction x ls arbitrary: n rule: index_of.induct) (auto split: if_splits)

lemma not_blank_fence: "\<not> blank YAML_FENCE" "\<not> blank FENCE" "YAML_FENCE \<noteq> FENCE"
  by code_simp+

lemma parseFinding_shape:
  assumes "parseFinding h body n = Inr f"
  obtains lead block rest where "body = lead @ YAML_FENCE # block @ FENCE # rest" and "list_all blank lead" and "FENCE \<notin> set block"
    and "parseKeyBlock block (before_sep dash_sep h) = Inr (f_entries f)" and "first_fail (finding_checks h (f_entries f) rest) = None"
proof -
  let ?n = "length (takeWhile blank body)" and ?in = "drop (Suc (length (takeWhile blank body))) body"
  have n: "?n < length body" "body ! ?n = YAML_FENCE"
    using assms length_takeWhile_le [of blank body] by (auto simp: parseFinding_def Let_def split: if_splits)
  obtain close where close: "index_of FENCE ?in = Some close"
    and kv: "parseKeyBlock (take close ?in) (before_sep dash_sep h) = Inr (f_entries f)"
    and ok: "first_fail (finding_checks h (f_entries f) (drop (Suc close) ?in)) = None"
    using assms by (auto simp: parseFinding_def Let_def split: if_splits option.splits sum.splits)
  from index_of_split [OF close] have sp: "?in = take close ?in @ FENCE # drop (Suc close) ?in" "FENCE \<notin> set (take close ?in)" by blast+
  have "body = take ?n body @ body ! ?n # ?in" using n(1) by (rule id_take_nth_drop)
  then have "body = takeWhile blank body @ YAML_FENCE # take close ?in @ FENCE # drop (Suc close) ?in"
    using n sp(1) takeWhile_eq_take [of blank body] by metis
  then show thesis
    using sp(2) kv ok that [of "takeWhile blank body" "take close ?in" "drop (Suc close) ?in"]
    by (metis list_all_iff set_takeWhileD)
qed

lemma parseFinding_shaped:
  assumes "list_all blank lead" and "FENCE \<notin> set block"
    and "parseKeyBlock block (before_sep dash_sep h) = Inr kv" and "first_fail (finding_checks h kv rest) = None"
  shows "parseFinding h (lead @ YAML_FENCE # block @ FENCE # rest) n = Inr \<lparr>f_entries = kv, f_line = n\<rparr>"
proof -
  have tw: "takeWhile blank (lead @ YAML_FENCE # block @ FENCE # rest) = lead"
    using assms(1) by (simp add: takeWhile_append2 list_all_iff not_blank_fence)
  show ?thesis
    unfolding parseFinding_def Let_def tw using assms(2-4) by (simp add: index_of_append)
qed

lemma seek_append: "x \<notin> set mid \<Longrightarrow> seek x (pre @ mid @ x # post) (length pre) = Some (length pre + length mid)"
proof (induction mid arbitrary: pre)
  case Nil
  then show ?case by (subst seek.simps) simp
next
  case (Cons m mid)
  have "seek x ((pre @ [m]) @ mid @ x # post) (length (pre @ [m])) = Some (length (pre @ [m]) + length mid)"
    using Cons.prems by (intro Cons.IH) simp
  then show ?case using Cons.prems by (subst seek.simps) auto
qed

lemma parseKeyBlock_append: "parseKeyBlock (xs @ ys) place =
    (case parseKeyBlock xs place of Inl e \<Rightarrow> Inl e
     | Inr a \<Rightarrow> (case parseKeyBlock ys place of Inl e \<Rightarrow> Inl e | Inr b \<Rightarrow> Inr (a @ b)))"
  by (induction xs) (auto split: option.splits sum.splits)

text \<open>A line of a block begins with its key and a colon.\<close>

definition key_c :: "char \<Rightarrow> bool" where
  "key_c c \<longleftrightarrow> (97 \<le> (of_char c :: nat) \<and> (of_char c :: nat) \<le> 122) \<or> c = CHR ''_''"

lemma KEY_LINE_captures:
  assumes "exec_full KEY_LINE l = Some m"
  obtains r where "l = group_text 1 m @ '':'' @ r" and "group_text 1 m \<noteq> []" and "list_all key_c (group_text 1 m)"
proof -
  let ?k = "Plus (Cls key_c)"
  have "([], m) \<in> set (parse KEY_LINE l [])" using assms by (rule exec_full_parse)
  then have r0: "([], m) \<in> set (parse (Seq (Group 1 ?k) (Seq (Lit '':'') (Seq (Opt (Cls js_space)) (Group 2 (Star (Cls dot_c)))))) l [])"
    by (simp only: KEY_LINE_def Seqs.simps key_c_def [abs_def])
  from parse_SeqE [OF r0] obtain s1 m1 where g1: "(s1, m1) \<in> set (parse (Group 1 ?k) l [])"
    and r1: "([], m) \<in> set (parse (Seq (Lit '':'') (Seq (Opt (Cls js_space)) (Group 2 (Star (Cls dot_c))))) s1 m1)" .
  from parse_SeqE [OF r1] obtain s2 m2 where l1: "(s2, m2) \<in> set (parse (Lit '':'') s1 m1)"
    and r2: "([], m) \<in> set (parse (Seq (Opt (Cls js_space)) (Group 2 (Star (Cls dot_c)))) s2 m2)" .
  from parse_SeqE [OF r2] obtain s3 m3 where o: "(s3, m3) \<in> set (parse (Opt (Cls js_space)) s2 m2)"
    and g2: "([], m) \<in> set (parse (Group 2 (Star (Cls dot_c))) s3 m3)" .
  have plain: "no_groups ?k" "no_groups (Opt (Cls js_space))" "no_groups (Star (Cls dot_c))" by simp_all
  from parse_GroupE [OF g1 plain(1)] obtain k where k: "l = k @ s1" "in_lang ?k k" "m1 = [(1, k)]" .
  from parse_LitE [OF l1] have l': "s1 = '':'' @ s2" "m2 = m1" by blast+
  from parse_plainE [OF o plain(2)] have "m3 = m2" .
  moreover from parse_GroupE [OF g2 plain(3)] obtain v where "m = (2, v) # m3" by metis
  ultimately have "group_text 1 m = k" using k(3) l'(2) by (simp add: group_text_def grp_def)
  moreover have "k \<noteq> [] \<and> list_all key_c k" using k(2) unfolding in_lang_Plus_Cls .
  ultimately show thesis using that k(1) l'(1) by simp
qed

lemma key_colon: "list_all key_c k \<Longrightarrow> starts_with (k @ '':'' @ r) ''filed:'' \<longleftrightarrow> k = ''filed''"
proof -
  assume k: "list_all key_c k"
  have c: "\<not> key_c (CHR '':'')" by (simp add: key_c_def)
  show ?thesis
  proof
    assume "starts_with (k @ '':'' @ r) ''filed:''"
    then obtain q where "k @ '':'' @ r = ''filed'' @ '':'' @ q" by (auto simp: starts_with_conv)
    then show "k = ''filed''"
      using k c by (cases k rule: remdups_adj.cases; auto simp: Cons_eq_append_conv append_eq_Cons_conv)
  qed simp
qed

subsection \<open>The line that is written\<close>

text \<open>\<open>first r s c s' c'\<close>: the first way the matcher tries leaves \<open>s'\<close> and the captures \<open>c'\<close>.\<close>

definition first :: "regex \<Rightarrow> string \<Rightarrow> (nat \<times> string) list \<Rightarrow> string \<Rightarrow> (nat \<times> string) list \<Rightarrow> bool" where
  "first r s c s' c' \<longleftrightarrow> (\<exists>more. parse r s c = (s', c') # more)"

lemma first_shorter: "first r s c s' c' \<Longrightarrow> length s' \<le> length s"
  using parse_sound [of s' c' r s c] by (auto simp: first_def)

lemma first_Cls: "P x \<Longrightarrow> first (Cls P) (x # xs) c xs c"
  by (simp add: first_def)

lemma first_Seq: "first r1 s c s1 c1 \<Longrightarrow> first r2 s1 c1 s2 c2 \<Longrightarrow> first (Seq r1 r2) s c s2 c2"
  using first_shorter [of r1 s c s1 c1] by (auto simp: first_def)

lemma first_Alt1: "first r1 s c s' c' \<Longrightarrow> first (Alt r1 r2) s c s' c'"
  by (auto simp: first_def)

lemma first_Alt2: "parse r1 s c = [] \<Longrightarrow> first r2 s c s' c' \<Longrightarrow> first (Alt r1 r2) s c s' c'"
  by (auto simp: first_def)

lemma first_Eps: "first Eps s c s c"
  by (simp add: first_def)

lemma first_Group: "first r s c s' c' \<Longrightarrow> first (Group n r) s c s' ((n, take (length s - length s') s) # c')"
  by (auto simp: first_def)

lemma first_Star_stop: "parse r s c = [] \<Longrightarrow> first (Star r) s c s c"
  by (simp add: first_def parse_star)

lemma first_Star_step: "first r s c s1 c1 \<Longrightarrow> length s1 < length s \<Longrightarrow> first (Star r) s1 c1 s2 c2 \<Longrightarrow> first (Star r) s c s2 c2"
  by (auto simp: first_def parse_star [of r s c])

lemma first_Star_run:
  "list_all P w \<Longrightarrow> (\<And>x xs c. P x \<Longrightarrow> first r (x # xs) c xs c) \<Longrightarrow> (\<And>c. parse r rest c = []) \<Longrightarrow> first (Star r) (w @ rest) c rest c"
proof (induction w arbitrary: c)
  case (Cons x w)
  then have "first (Star r) (w @ rest) c rest c" by simp
  moreover have "first r (x # w @ rest) c (w @ rest) c" using Cons.prems by simp
  ultimately show ?case by (auto intro: first_Star_step)
qed (simp add: first_Star_stop)

lemma first_Star_Cls: "list_all P w \<Longrightarrow> rest = [] \<or> \<not> P (hd rest) \<Longrightarrow> first (Star (Cls P)) (w @ rest) c rest c"
  by (rule first_Star_run [of P]) (auto simp: first_Cls split: list.splits)

lemma first_exec: "first r s [] [] c \<Longrightarrow> exec_full r s = Some c"
  by (auto simp: first_def exec_full_def)

text \<open>The values that may be filed hold letters, digits and dashes only.\<close>

definition value_c :: "char \<Rightarrow> bool" where
  "value_c c \<longleftrightarrow> digit_c c \<or> alpha_c c \<or> c = CHR ''-''"

lemma filed_value_chars: "in_lang FILED_VALUE value \<Longrightarrow> list_all value_c value"
proof (erule in_lang_chars)
  have "all_chars value_c (Times n r)" if "all_chars value_c r" for n r using that by (induction n) auto
  then show "all_chars value_c FILED_VALUE"
    by (auto simp: FILED_VALUE_def Let_def value_c_def digit_c_def alpha_c_def)
qed

lemma filed_value_start: "in_lang FILED_VALUE value \<Longrightarrow> starts_with value ''RO-'' \<noteq> starts_with value ''GHSA-''"
  unfolding FILED_VALUE_def Let_def Seqs.simps in_lang_simps(4) by (auto simp: in_lang_simps(3) in_lang_Lit simp del: Lit.simps)

lemma value_classes:
  assumes "value_c x"
  shows "\<not> js_space x" "dot_c x" "x \<noteq> dquote" "x \<noteq> bslash" "x \<noteq> CHR ''#''" "x \<noteq> CHR ''[''" "x \<noteq> NL"
  using assms by (auto simp: value_c_def digit_c_def alpha_c_def js_space_def dot_c_def dquote_def bslash_def NL_def)

lemma filed_key_line:
  assumes "list_all dot_c v"
  shows "exec_full KEY_LINE (''filed: '' @ v) = Some [(2, v), (1, ''filed'')]"
proof (rule first_exec)
  have key: "first (Plus (Cls key_c)) (''filed: '' @ v) [] ('': '' @ v) []"
    using first_Seq [OF first_Cls [of key_c "CHR ''f''"] first_Star_Cls [of key_c "''iled''" "'': '' @ v"]]
    by (simp add: key_c_def)
  have "first (Group 1 (Plus (Cls key_c))) (''filed: '' @ v) [] ('': '' @ v) [(1, ''filed'')]"
    using first_Group [OF key, of 1] by simp
  moreover have "first (Lit '':'') ('': '' @ v) c ('' '' @ v) c" for c by (simp add: first_def)
  moreover have "first (Opt (Cls js_space)) ('' '' @ v) c v c" for c
    by (rule first_Alt1) (simp add: first_Cls js_space_def)
  moreover have "first (Group 2 (Star (Cls dot_c))) v c [] ((2, v) # c)" for c
    using first_Group [OF first_Star_Cls [OF assms, of "[]" c], of 2] by simp
  ultimately show "first KEY_LINE (''filed: '' @ v) [] [] [(2, v), (1, ''filed'')]"
    unfolding KEY_LINE_def Seqs.simps key_c_def [abs_def, symmetric] by (meson first_Seq)
qed

lemma quoted_value:
  assumes "list_all value_c v"
  shows "exec_full QUOTED ([dquote] @ v @ [dquote]) = Some [(1, v)]"
proof (rule first_exec)
  let ?in = "Alt (Cls (\<lambda>c. c \<noteq> dquote \<and> c \<noteq> bslash)) (Seq (Cls (\<lambda>c. c = bslash)) (Cls dot_c))"
  have "first (Star ?in) (v @ [dquote]) c [dquote] c" for c
    using assms
  proof (rule first_Star_run)
    show "first ?in (x # xs) c xs c" if "value_c x" for x xs c
      using that by (intro first_Alt1 first_Cls) (simp add: value_classes)
    show "parse ?in [dquote] c = []" for c by (simp add: dquote_def bslash_def)
  qed
  then have "first (Group 1 (Star ?in)) (v @ [dquote]) c [dquote] ((1, v) # c)" for c
    using first_Group [of "Star ?in" "v @ [dquote]" c "[dquote]" c 1] by simp
  moreover have "first (Cls (\<lambda>c. c = dquote)) ([dquote] @ v @ [dquote]) [] (v @ [dquote]) []" by (simp add: first_def)
  moreover have "first (Cls (\<lambda>c. c = dquote)) [dquote] c [] c" for c by (simp add: first_def)
  moreover have "first (Star (Cls js_space)) [] c [] c" for c by (simp add: first_Star_stop)
  moreover have "first (Opt (Group 2 (Seq (Lit ''#'') (Star (Cls dot_c))))) [] c [] c" for c
    by (rule first_Alt2) (simp_all add: first_Eps)
  ultimately show "first QUOTED ([dquote] @ v @ [dquote]) [] [] [(1, v)]"
    unfolding QUOTED_def Seqs.simps by (meson first_Seq)
qed

lemma no_escapes: "bslash \<notin> set v \<Longrightarrow> replace_all ESCAPED f v = v"
  by (induction v) (auto simp: exec_prefix_def ESCAPED_def)

lemma before_hash_none: "CHR ''#'' \<notin> set v \<Longrightarrow> before_hash v = v"
  by (induction v rule: before_hash.induct) auto

lemma filed_scalar:
  assumes "in_lang FILED_VALUE value"
  shows "parseScalar (if starts_with value ''RO-'' then [dquote] @ value @ [dquote] else value) place = Inr (SText value)"
proof -
  have v: "list_all value_c value" using assms by (rule filed_value_chars)
  then have cl: "\<forall>x \<in> set value. \<not> js_space x \<and> x \<noteq> dquote \<and> x \<noteq> bslash \<and> x \<noteq> CHR ''#'' \<and> x \<noteq> CHR ''[''"
    using value_classes by (auto simp: list_all_iff)
  have bs: "bslash \<notin> set value" and hash: "CHR ''#'' \<notin> set value" using cl by auto
  have dq: "\<not> js_space dquote" by (simp add: dquote_def js_space_def)
  show ?thesis
  proof (cases "starts_with value ''RO-''")
    case True
    have "js_trim ([dquote] @ value @ [dquote]) = [dquote] @ value @ [dquote]"
      using cl dq by (intro js_trim_no_space) auto
    then show ?thesis
      using True bs quoted_value [OF v]
      by (simp add: parseScalar_def stripComment_def Let_def group_text_def grp_def no_escapes)
  next
    case False
    have t: "js_trim value = value" using cl by (intro js_trim_no_space) auto
    have g: "starts_with value ''GHSA-''" using False filed_value_start [OF assms] by simp
    have "\<not> starts_with value [dquote]" "\<not> starts_with value ''[''" "value \<noteq> ''true''" "value \<noteq> ''false''"
      using g by (auto simp: starts_with_conv dquote_def)
    then show ?thesis
      using False hash t by (simp add: parseScalar_def stripComment_def Let_def before_hash_none)
  qed
qed

lemma filed_line_parses:
  assumes "in_lang FILED_VALUE value"
  shows "parseKeyBlock [filed_line value] place = Inr [(''filed'', SText value)]"
proof -
  let ?v = "if starts_with value ''RO-'' then [dquote] @ value @ [dquote] else value"
  have "list_all dot_c ?v"
    using filed_value_chars [OF assms] value_classes by (auto simp: list_all_iff dot_c_def dquote_def)
  then have e: "exec_full KEY_LINE (filed_line value) = Some [(2, ?v), (1, ''filed'')]"
    unfolding filed_line_def by (rule filed_key_line)
  have "CHR ''f'' \<in> set (js_trim (filed_line value))"
    by (rule js_trim_keeps) (simp_all add: filed_line_def js_space_def)
  then have "js_trim (filed_line value) \<noteq> []" by auto
  then show ?thesis using e filed_scalar [OF assms] by (simp add: group_text_def grp_def)
qed

subsection \<open>The block after the mark\<close>

fun edit_block :: "string \<Rightarrow> string list \<Rightarrow> string list" where
  "edit_block fl [] = [fl]"
| "edit_block fl (l # ls) = (if starts_with l ''filed:'' then fl # ls else l # edit_block fl ls)"

lemma edit_block_index: "edit_block fl block =
    (let i = length (takeWhile (\<lambda>l. \<not> starts_with l ''filed:'') block)
     in if i < length block then block[i := fl] else block @ [fl])"
  by (induction block) (auto simp: Let_def)

lemma set_edit_block: "set (edit_block fl block) \<subseteq> insert fl (set block)"
  by (induction block) auto

lemma block_keys: "parseKeyBlock block place = Inr kv \<Longrightarrow> list_all (\<lambda>k. k \<noteq> [] \<and> list_all key_c k) (map fst kv)"
proof (induction block arbitrary: kv)
  case (Cons l block)
  show ?case
  proof (cases "exec_full KEY_LINE l")
    case (Some m)
    then obtain r where "group_text 1 m \<noteq> []" "list_all key_c (group_text 1 m)" by (rule KEY_LINE_captures)
    then show ?thesis using Cons Some by (auto split: if_splits sum.splits)
  qed (use Cons in \<open>auto split: if_splits\<close>)
qed simp

lemma not_blank_filed: "starts_with l ''filed:'' \<Longrightarrow> js_trim l \<noteq> []"
proof -
  assume "starts_with l ''filed:''"
  then have "CHR ''f'' \<in> set (js_trim l)" by (intro js_trim_keeps) (auto simp: starts_with_conv js_space_def)
  then show ?thesis by auto
qed

lemma line_key:
  assumes "exec_full KEY_LINE l = Some m"
  shows "starts_with l ''filed:'' \<longleftrightarrow> group_text 1 m = ''filed''"
proof -
  from assms obtain r where "l = group_text 1 m @ '':'' @ r" "list_all key_c (group_text 1 m)" by (rule KEY_LINE_captures)
  then show ?thesis using key_colon by metis
qed

lemma edit_block_parses:
  assumes "in_lang FILED_VALUE value" and "parseKeyBlock block place = Inr kv"
  shows "parseKeyBlock (edit_block (filed_line value) block) place = Inr (AList.update ''filed'' (SText value) kv)"
  using assms(2)
proof (induction block arbitrary: kv)
  case Nil
  then show ?case using filed_line_parses [OF assms(1)] by simp
next
  case (Cons l block)
  have cons: "parseKeyBlock (filed_line value # ls) place =
      (case parseKeyBlock ls place of Inl e \<Rightarrow> Inl e | Inr kv \<Rightarrow> Inr ((''filed'', SText value) # kv))" for ls
    using parseKeyBlock_append [of "[filed_line value]" ls place] filed_line_parses [OF assms(1), of place] by (simp split: sum.splits)
  show ?case
  proof (cases "js_trim l = []")
    case True
    then have "\<not> starts_with l ''filed:''" using not_blank_filed by blast
    then show ?thesis using True Cons by simp
  next
    case False
    then obtain m v kv' where m: "exec_full KEY_LINE l = Some m" "parseScalar (group_text 2 m) (place @ '' key '' @ group_text 1 m) = Inr v"
      "parseKeyBlock block place = Inr kv'" "kv = (group_text 1 m, v) # kv'"
      using Cons.prems by (auto split: option.splits sum.splits)
    show ?thesis
    proof (cases "starts_with l ''filed:''")
      case True
      then show ?thesis using m line_key [OF m(1)] by (simp del: parseKeyBlock.simps add: cons)
    next
      case False
      then show ?thesis using \<open>js_trim l \<noteq> []\<close> m line_key [OF m(1)] Cons.IH [OF m(3)] by simp
    qed
  qed
qed

lemma joined_inj:
  assumes "xs \<noteq> []" "ys \<noteq> []" "\<forall>x \<in> set xs. CHR '','' \<notin> set x" "\<forall>y \<in> set ys. CHR '','' \<notin> set y" "joined xs = joined ys"
  shows "xs = ys"
  using assms split_join [of xs "CHR '',''"] split_join [of ys "CHR '',''"] by metis

lemma first_fail_None: "first_fail cs = None \<longleftrightarrow> list_all (\<lambda>c. \<not> fst c) cs"
  by (induction cs rule: first_fail.induct) simp_all

text \<open>The entries of a finding that passes the checks stay acceptable with the new entry.\<close>

lemma checks_update:
  assumes "first_fail (finding_checks h kv rest) = None" and keys: "list_all (\<lambda>k. k \<noteq> [] \<and> list_all key_c k) (map fst kv)"
  shows "first_fail (finding_checks h (AList.update ''filed'' (SText value) kv) rest) = None"
proof -
  let ?kv = "AList.update ''filed'' (SText value) kv"
  let ?ks = "map fst kv" and ?n = "length FINDING_KEYS"
  have comma: "\<not> key_c (CHR '','')" by (simp add: key_c_def)
  have clean: "CHR '','' \<notin> set k" "k \<noteq> []" if "k \<in> set ?ks" for k
    using keys that comma by (auto simp: list_all_iff)
  have fk: "\<forall>k \<in> set FINDING_KEYS. CHR '','' \<notin> set k" "\<forall>k \<in> set OPTIONAL_KEYS. CHR '','' \<notin> set k"
    by (simp_all add: FINDING_KEYS_def OPTIONAL_KEYS_def)
  have j: "joined (take ?n ?ks) = joined FINDING_KEYS"
    "joined (drop ?n ?ks) = joined (filter (\<lambda>k. k \<in> set (drop ?n ?ks)) OPTIONAL_KEYS)"
    using assms(1) unfolding first_fail_None by (simp_all add: finding_checks_def Let_def)
  have ne: "take ?n ?ks \<noteq> []" using j(1) by (auto simp: FINDING_KEYS_def)
  have tk: "take ?n ?ks = FINDING_KEYS"
    using j(1) ne fk(1) clean by (intro joined_inj) (auto simp: FINDING_KEYS_def dest: in_set_takeD)
  have dr: "drop ?n ?ks = filter (\<lambda>k. k \<in> set (drop ?n ?ks)) OPTIONAL_KEYS"
  proof (cases "drop ?n ?ks")
    case (Cons k ks)
    then have "k \<in> set ?ks" "k \<in> set (drop ?n ?ks)" by (metis in_set_dropD list.set_intros(1), simp)
    moreover from clean(2) [OF this(1)] have "joined (k # ks) \<noteq> []" by (cases ks) simp_all
    ultimately have "filter (\<lambda>k. k \<in> set (drop ?n ?ks)) OPTIONAL_KEYS \<noteq> []" using j(2) Cons by (metis join_with.simps(1))
    moreover have "\<forall>x \<in> set (drop ?n ?ks). CHR '','' \<notin> set x" using clean(1) by (blast dest: in_set_dropD)
    ultimately show ?thesis using j(2) Cons fk(2) by (intro joined_inj) (simp_all)
  qed simp
  have len: "?n \<le> length ?ks" using arg_cong [OF tk, of length] by simp
  have ks: "map fst ?kv = (if ''filed'' \<in> set ?ks then ?ks else ?ks @ [''filed''])" by (simp add: AList.update_keys)
  have nf: "''filed'' \<notin> set FINDING_KEYS" by (simp add: FINDING_KEYS_def)
  have t2: "take ?n (map fst ?kv) = FINDING_KEYS" using tk len by (simp add: ks)
  have d2: "drop ?n (map fst ?kv) = filter (\<lambda>k. k \<in> set (drop ?n (map fst ?kv))) OPTIONAL_KEYS"
  proof (cases "''filed'' \<in> set ?ks")
    case False
    then have "''filed'' \<notin> set (drop ?n ?ks)" by (meson in_set_dropD)
    moreover have "drop ?n ?ks \<in> {[], [''cwe''], [''filed''], [''cwe'', ''filed'']}"
      using dr by (simp add: OPTIONAL_KEYS_def split: if_splits)
    ultimately have "drop ?n ?ks = [] \<or> drop ?n ?ks = [''cwe'']" by auto
    then show ?thesis using False len by (auto simp: ks OPTIONAL_KEYS_def)
  qed (use dr in \<open>simp add: ks\<close>)
  have get: "f_get \<lparr>f_entries = ?kv, f_line = 0\<rparr> k = f_get \<lparr>f_entries = kv, f_line = 0\<rparr> k" if "k \<noteq> ''filed''" for k
    using that by (simp add: f_get_def AList.update_conv')
  show ?thesis
    using assms(1) t2 d2 unfolding first_fail_None
    by (simp add: finding_checks_def Let_def f_text_def f_in_def withheld_def get)
qed

lemma id_text_update: "id_text (AList.update ''filed'' v kv) = id_text kv"
  by (simp add: id_text_def key_text_def AList.update_conv')


lemma index_of_prefix:
  assumes "index_of x xs = Some k" and "take (Suc k) ys = take (Suc k) xs" shows "index_of x ys = Some k"
proof -
  from index_of_split [OF assms(1)] have k: "xs = take k xs @ x # drop (Suc k) xs" "x \<notin> set (take k xs)" "k < length xs" by blast+
  have "ys = take (Suc k) xs @ drop (Suc k) ys" using assms(2) by (metis append_take_drop_id)
  also have "take (Suc k) xs = take k xs @ [x]" using k(1,3) by (metis nth_append_length take_Suc_conv_app_nth length_take min.absorb4)
  finally have "ys = take k xs @ x # drop (Suc k) ys" by simp
  then show ?thesis using index_of_append [OF k(2), of "drop (Suc k) ys"] k(3) by simp
qed

subsection \<open>The whole report after the mark\<close>

lemma accepted_Inr: "accepted r = Some x \<longleftrightarrow> r = Inr x"
  by (cases r) (simp_all add: accepted_def)

text \<open>What a chain of refusals that was passed says.\<close>

lemma Inr_cases:
  "(if P then Inl e else r) = Inr y \<longleftrightarrow> \<not> P \<and> r = Inr y"
  "(case z of Inl e \<Rightarrow> Inl e | Inr x \<Rightarrow> g x) = Inr y \<longleftrightarrow> (\<exists>x. z = Inr x \<and> g x = Inr y)"
  "(case w of None \<Rightarrow> Inl e' | Some x \<Rightarrow> h x) = Inr y \<longleftrightarrow> (\<exists>x. w = Some x \<and> h x = Inr y)"
  by (auto split: sum.splits option.splits)

lemma parseLines_shape:
  assumes "parseLines ls = Inr rep"
  obtains k where "ls ! 0 = ''---''" and "index_of ''---'' (drop 1 ls) = Some k" and "Suc (Suc k) \<le> length ls"
    and "parseKeyBlock (take k (drop 1 ls)) ''front matter'' = Inr (front rep)"
    and "joined (map fst (front rep)) = joined FRONT_KEYS" and "test_full SHA (key_text (front rep) ''dev_sha'')"
    and "parse_sections ls (Suc (Suc k)) = Inr (findings rep)"
proof -
  obtain k fm fs where k: "index_of ''---'' (drop 1 ls) = Some k" and rest: "ls ! 0 = ''---''"
      "parseKeyBlock (take k (drop 1 ls)) ''front matter'' = Inr fm" "joined (map fst fm) = joined FRONT_KEYS"
      "test_full SHA (key_text fm ''dev_sha'')" "parse_sections ls (Suc (Suc k)) = Inr fs" "\<lparr>front = fm, findings = fs\<rparr> = rep"
    using assms unfolding parseLines_def Inr_cases by (metis sum.inject(2))
  moreover have "Suc (Suc k) \<le> length ls" using index_of_split [OF k] by auto
  ultimately show thesis using that by force
qed

lemma parseLines_shaped:
  assumes "ls ! 0 = ''---''" and "index_of ''---'' (drop 1 ls) = Some k"
    and "parseKeyBlock (take k (drop 1 ls)) ''front matter'' = Inr fm"
    and "joined (map fst fm) = joined FRONT_KEYS" and "test_full SHA (key_text fm ''dev_sha'')"
    and "parse_sections ls (Suc (Suc k)) = Inr fs"
  shows "parseLines ls = Inr \<lparr>front = fm, findings = fs\<rparr>"
  using assms unfolding parseLines_def by (simp del: One_nat_def)

lemma plain_fences: "\<not> is_head YAML_FENCE" "\<not> is_head FENCE" "\<not> is_head (filed_line value)"
  by (simp_all add: is_head_def YAML_FENCE_def FENCE_def filed_line_def)

lemma mark_lines_block:
  assumes "ls = pre @ YAML_FENCE # block @ FENCE # post"
  shows "mark_lines value (length pre) (Suc (length pre) + length block) ls = pre @ YAML_FENCE # edit_block (filed_line value) block @ FENCE # post"
proof -
  let ?i = "length (takeWhile (\<lambda>l. \<not> starts_with l ''filed:'') block)"
  have b: "slice (Suc (length pre)) (Suc (length pre) + length block) ls = block"
    by (simp add: slice_def assms)
  have up: "ls[Suc (length pre) + ?i := filed_line value] = pre @ YAML_FENCE # block[?i := filed_line value] @ FENCE # post" if "?i < length block"
    using that by (simp add: assms list_update_append)
  show ?thesis
    unfolding mark_lines_def b Let_def edit_block_index using up by (simp add: assms)
qed

lemma mark_lines_parse:
  assumes rep: "parseLines ls = Inr rep" and n: "n < length (findings rep)" and v: "in_lang FILED_VALUE value"
  obtains j k rep' where "seek YAML_FENCE ls (f_line (findings rep ! n)) = Some j" and "seek FENCE ls (Suc j) = Some k"
    and "parseLines (mark_lines value j k ls) = Inr rep'" and "front rep' = front rep"
    and "map f_entries (findings rep') =
      (map f_entries (findings rep))[n := AList.update ''filed'' (SText value) (f_entries (findings rep ! n))]"
    and "set (mark_lines value j k ls) \<subseteq> insert (filed_line value) (set ls)" and "mark_lines value j k ls \<noteq> []"
proof -
  let ?f = "findings rep ! n"
  from parseLines_shape [OF rep] obtain e where e: "ls ! 0 = ''---''" "index_of ''---'' (drop 1 ls) = Some e" "Suc (Suc e) \<le> length ls"
    "parseKeyBlock (take e (drop 1 ls)) ''front matter'' = Inr (front rep)" "joined (map fst (front rep)) = joined FRONT_KEYS"
    "test_full SHA (key_text (front rep) ''dev_sha'')" "parse_sections ls (Suc (Suc e)) = Inr (findings rep)" .
  from replace_body [OF e(7,3) n] obtain start stop where at: "f_line ?f = Suc start" "Suc (Suc e) \<le> start" "start < stop" "stop \<le> length ls"
    and pf: "parseFinding (drop 3 (ls ! start)) (slice (Suc start) stop ls) (Suc start) = Inr ?f"
    and plain: "list_all (\<lambda>l. \<not> is_head l) (slice (Suc start) stop ls)"
    and new: "\<And>body kv. list_all (\<lambda>l. \<not> is_head l) body \<Longrightarrow> entries_of (drop 3 (ls ! start)) body = Inr kv \<Longrightarrow>
      id_text kv = id_text (f_entries ?f) \<Longrightarrow>
      map_option (map f_entries) (accepted (parse_sections (take (Suc start) ls @ body @ drop stop ls) (Suc (Suc e)))) =
      Some ((map f_entries (findings rep))[n := kv])" by metis
  from parseFinding_shape [OF pf] obtain lead block rest where body: "slice (Suc start) stop ls = lead @ YAML_FENCE # block @ FENCE # rest"
    and b: "list_all blank lead" "FENCE \<notin> set block" "parseKeyBlock block (before_sep dash_sep (drop 3 (ls ! start))) = Inr (f_entries ?f)"
      "first_fail (finding_checks (drop 3 (ls ! start)) (f_entries ?f) rest) = None" .
  let ?pre = "take (Suc start) ls @ lead" and ?post = "rest @ drop stop ls"
  let ?kv = "AList.update ''filed'' (SText value) (f_entries ?f)" and ?b = "edit_block (filed_line value) block"
  have "ls = take (Suc start) ls @ drop (Suc start) ls" by simp
  also have "drop (Suc start) ls = slice (Suc start) stop ls @ drop stop ls" using at by (intro slice_all) simp_all
  finally have ls: "ls = ?pre @ YAML_FENCE # block @ FENCE # ?post" by (simp add: body)
  have len: "length (take (Suc start) ls) = Suc start" using at by simp
  have yaml: "YAML_FENCE \<notin> set lead" using b(1) not_blank_fence by (auto simp: list_all_iff)
  have s1: "seek YAML_FENCE ls (f_line ?f) = Some (length ?pre)"
    using seek_append [OF yaml, of "take (Suc start) ls" "block @ FENCE # ?post"] ls len at(1) by (simp only: append_assoc length_append)
  have s2: "seek FENCE ls (Suc (length ?pre)) = Some (Suc (length ?pre) + length block)"
    using seek_append [OF b(2), of "?pre @ [YAML_FENCE]" ?post] ls by (simp only: append_assoc length_append append_Cons append_Nil length_Cons) simp
  let ?new = "take (Suc start) ls @ (lead @ YAML_FENCE # ?b @ FENCE # rest) @ drop stop ls"
  have m: "mark_lines value (length ?pre) (Suc (length ?pre) + length block) ls = ?new"
    using mark_lines_block [OF ls] by simp
  have keys: "list_all (\<lambda>k. k \<noteq> [] \<and> list_all key_c k) (map fst (f_entries ?f))" by (rule block_keys [OF b(3)])
  have fb: "FENCE \<notin> set ?b" using set_edit_block [of "filed_line value" block] b(2) by (auto simp: filed_line_def FENCE_def)
  have "parseFinding (drop 3 (ls ! start)) (lead @ YAML_FENCE # ?b @ FENCE # rest) 0 = Inr \<lparr>f_entries = ?kv, f_line = 0\<rparr>"
    by (rule parseFinding_shaped [OF b(1) fb edit_block_parses [OF v b(3)] checks_update [OF b(4) keys]])
  then have en: "entries_of (drop 3 (ls ! start)) (lead @ YAML_FENCE # ?b @ FENCE # rest) = Inr ?kv" by (simp add: entries_of_def)
  have pl: "list_all (\<lambda>l. \<not> is_head l) (lead @ YAML_FENCE # ?b @ FENCE # rest)"
    using plain set_edit_block [of "filed_line value" block] plain_fences by (auto simp: body list_all_iff)
  obtain fs where fs: "parse_sections ?new (Suc (Suc e)) = Inr fs" "map f_entries fs = (map f_entries (findings rep))[n := ?kv]"
    using new [OF pl en id_text_update] by (auto simp: accepted_Inr)
  have pre: "take (Suc (Suc e)) ?new = take (Suc (Suc e)) ls" using at by (simp add: min_absorb2)
  have "index_of ''---'' (drop 1 ?new) = Some e" and "take e (drop 1 ?new) = take e (drop 1 ls)" and "?new ! 0 = ls ! 0"
  proof -
    have t: "take (Suc e) (drop 1 ?new) = take (Suc e) (drop 1 ls)"
      using arg_cong [OF pre, of "drop 1"] by (simp only: drop_take diff_Suc_Suc diff_zero One_nat_def)
    then show "index_of ''---'' (drop 1 ?new) = Some e" by (rule index_of_prefix [OF e(2)])
    show "take e (drop 1 ?new) = take e (drop 1 ls)"
      using arg_cong [OF t, of "take e"] by (simp only: take_take min_def le_SucI order_refl if_True)
    show "?new ! 0 = ls ! 0" using len by (simp add: nth_append)
  qed
  then have "parseLines ?new = Inr \<lparr>front = front rep, findings = fs\<rparr>"
    using e fs(1) by (intro parseLines_shaped) simp_all
  moreover have "set ?new \<subseteq> insert (filed_line value) (set ls)"
    using set_edit_block [of "filed_line value" block] arg_cong [OF ls, of set] by auto
  ultimately show thesis
    using fs(2) by (intro that [OF s1 s2, of "\<lparr>front = front rep, findings = fs\<rparr>"]) (simp_all only: m, simp_all)
qed


lemma no_breaks:
  assumes "in_lang FILED_VALUE value" and "l \<in> insert (filed_line value) (set (split_on NL text))"
  shows "NL \<notin> set l"
proof -
  have "\<forall>x \<in> set value. x \<noteq> NL" using filed_value_chars [OF assms(1)] value_classes(7) by (auto simp: list_all_iff)
  then have "NL \<notin> set (filed_line value)" by (auto simp: filed_line_def dquote_def NL_def)
  then show ?thesis using assms(2) split_on_pieces by auto
qed

lemma find_index: "find P xs = Some x \<Longrightarrow> \<exists>n < length xs. xs ! n = x \<and> P x \<and> list_all (\<lambda>y. \<not> P y) (take n xs)"
  unfolding find_Some_iff list_all_length by auto

subsection \<open>What marking does\<close>

text \<open>The first finding of a report with an identifier.\<close>

definition finding_at :: "report \<Rightarrow> string \<Rightarrow> nat \<Rightarrow> bool" where
  "finding_at rep ident n \<longleftrightarrow>
     n < length (findings rep) \<and> f_get (findings rep ! n) ''id'' = Some (SText ident) \<and>
     list_all (\<lambda>f. f_get f ''id'' \<noteq> Some (SText ident)) (take n (findings rep))"

text \<open>Marking refuses by the first check that fails; otherwise it writes a report whose entries are
  those of the old one, with the number filed in the one finding that was named.\<close>

definition marks_one :: "string \<Rightarrow> report \<Rightarrow> string \<Rightarrow> string \<Rightarrow> bool" where
  "marks_one text rep ident v \<longleftrightarrow>
     (case first_refusal (mark_checks ident v (find (\<lambda>x. f_get x ''id'' = Some (SText ident)) (findings rep))) of
        Some e \<Rightarrow> mark_report text rep ident v = Some (Inl e)
      | None \<Rightarrow>
          (\<exists>n rep' updated. finding_at rep ident n \<and> withheld (findings rep ! n) = starts_with v ''GHSA-'' \<and>
             mark_report text rep ident v = Some (Inr (Written updated [ident @ '' filed as '' @ v])) \<and>
             parseReport updated = Inr rep' \<and> front rep' = front rep \<and>
             map f_entries (findings rep') = (map f_entries (findings rep))[n := AList.update ''filed'' (SText v) (f_entries (findings rep ! n))]))"

lemma marks_one_accepted:
  assumes rep: "parseReport text = Inr rep"
  shows "marks_one text rep ident v"
proof (cases "first_refusal (mark_checks ident v (find (\<lambda>x. f_get x ''id'' = Some (SText ident)) (findings rep)))")
  case (Some e)
  then show ?thesis by (simp add: marks_one_def mark_report_def)
next
  case None
  then obtain f where f: "find (\<lambda>x. f_get x ''id'' = Some (SText ident)) (findings rep) = Some f"
    and v: "in_lang FILED_VALUE v" and priv: "\<not> (withheld f \<and> starts_with v ''RO-'')" "\<not> (\<not> withheld f \<and> starts_with v ''GHSA-'')"
    unfolding mark_checks_def first_refusal.simps
    by (cases "find (\<lambda>x. f_get x ''id'' = Some (SText ident)) (findings rep)") (auto simp: test_full_lang split: if_splits)
  from find_index [OF f] obtain n where n: "n < length (findings rep)" "findings rep ! n = f"
    and at: "finding_at rep ident n" by (auto simp: finding_at_def)
  from mark_lines_parse [OF rep [unfolded parseReport_def] n(1) v] obtain j k rep' where
    s: "seek YAML_FENCE (split_on NL text) (f_line f) = Some j" "seek FENCE (split_on NL text) (Suc j) = Some k"
    and p: "parseLines (mark_lines v j k (split_on NL text)) = Inr rep'" "front rep' = front rep"
      "map f_entries (findings rep') = (map f_entries (findings rep))[n := AList.update ''filed'' (SText v) (f_entries f)]"
    and m: "set (mark_lines v j k (split_on NL text)) \<subseteq> insert (filed_line v) (set (split_on NL text))"
      "mark_lines v j k (split_on NL text) \<noteq> []"
    unfolding n(2) by metis
  let ?up = "join_with [NL] (mark_lines v j k (split_on NL text))"
  have "split_on NL ?up = mark_lines v j k (split_on NL text)"
    using m no_breaks [OF v] by (intro split_join) blast+
  then have up: "parseReport ?up = Inr rep'" using p(1) by (simp add: parseReport_def)
  have "mark_report text rep ident v = Some (Inr (Written ?up [ident @ '' filed as '' @ v]))"
    using None by (simp add: mark_report_def f s up)
  moreover have "withheld f = starts_with v ''GHSA-''" using priv filed_value_start [OF v] by blast
  ultimately show ?thesis
    unfolding marks_one_def None option.case using at up p(2,3) n(2) by blast
qed


subsection \<open>A report\<close>

definition sample_lines :: "string list" where
  "sample_lines =
     [''---'', ''run_id: r1'', ''dev_sha: 0123456789012345678901234567890123456789'', ''scope: all'', ''units: u'', ''date: d'', ''---'',
      ''## Summary'', ''| SA-1 | high |'', ''1 finding: 1 high'',
      ''## SA-1'' @ dash_sep @ ''T'', [], ''```yaml'', ''id: SA-1'', ''title: \"T # x\" # note'', ''severity: high'', ''type: bug'', ''label: web'',
      ''withhold: true'', ''verdict: CONFIRMED'', ''files: [a, \"b\"]'', ''related: []'', ''invariant: none'', ''```'',
      ''### Summary'', ''### Entry point and attacker'', ''### Verified trace'', ''### Impact and preconditions'', ''### Fix direction'',
      ''### Test to write first'', ''### Verifier notes'', ''## Refuted candidates'', ''## Coverage'', ''## Threat-model gaps'']"

definition sample_report :: string where
  "sample_report = join_with [NL] sample_lines"

definition is_accepted :: "'a checked \<Rightarrow> bool" where
  "is_accepted r \<longleftrightarrow> (case r of Inl _ \<Rightarrow> False | Inr _ \<Rightarrow> True)"

lemma sample_accepted: "is_accepted (parseReport sample_report)"
  by code_simp


lemma checked_finding:
  assumes "parseReport text = Inr rep" and "n < length (findings rep)"
  obtains h rest where "first_fail (finding_checks h (f_entries (findings rep ! n)) rest) = None"
proof -
  from parseLines_shape [OF assms(1) [unfolded parseReport_def]] obtain k where k: "Suc (Suc k) \<le> length (split_on NL text)"
    "parse_sections (split_on NL text) (Suc (Suc k)) = Inr (findings rep)" .
  from replace_body [OF k(2,1) assms(2)] obtain h body l where "parseFinding h body l = Inr (findings rep ! n)" .
  then show thesis using parseFinding_shape that by metis
qed

lemma severe_withheld:
  assumes "parseReport text = Inr rep" and "n < length (findings rep)" and "f_in (findings rep ! n) ''severity'' [''critical'', ''high'']"
  shows "withheld (findings rep ! n)"
proof -
  from checked_finding [OF assms(1,2)] obtain h rest where "first_fail (finding_checks h (f_entries (findings rep ! n)) rest) = None" .
  then have "\<not> (f_in \<lparr>f_entries = f_entries (findings rep ! n), f_line = 0\<rparr> ''severity'' [''critical'', ''high''] \<and>
      \<not> withheld \<lparr>f_entries = f_entries (findings rep ! n), f_line = 0\<rparr>)"
    unfolding first_fail_None finding_checks_def Let_def list.pred_inject fst_conv by blast
  then show ?thesis using assms(3) by (simp add: f_in_def f_get_def withheld_def)
qed

definition was_refused :: "(audit_result checked) option \<Rightarrow> bool" where
  "was_refused r \<longleftrightarrow> (case r of Some (Inl _) \<Rightarrow> True | _ \<Rightarrow> False)"

lemma finding_at_unique: "finding_at rep ident n \<Longrightarrow> finding_at rep ident m \<Longrightarrow> n = m"
  unfolding finding_at_def list_all_length by (metis length_take linorder_neqE_nat min.absorb4 nth_take)

subsection \<open>Properties\<close>

text \<open>C26: Whatever the arguments and the file hold, the command returns: the two loops that look for the
  block of a finding stop, because the parser accepted a report only where that block is closed.
\<close>

theorem audit_main_returns: "audit_main argv file text \<noteq> None"
proof (cases "parseReport text")
  case (Inr rep)
  have "mark_report text rep ident v \<noteq> None" for ident v
    using marks_one_accepted [OF Inr, of ident v] by (auto simp: marks_one_def split: option.splits)
  then show ?thesis by (simp add: audit_main_def Inr Let_def)
qed (simp add: audit_main_def Let_def)

text \<open>C8: Marking an accepted report either refuses with the first check that fails or writes a text that
  the parser accepts again: its front matter and findings are the old ones, except that the named
  finding has the given value as its \<open>filed\<close> entry, replaced in place or added last. The check of
  the new text before it is written never refuses.
\<close>

theorem mark_files_one_finding: "parseReport text = Inr rep \<Longrightarrow> marks_one text rep ident v"
  by (rule marks_one_accepted)

lemma mark_files_one_finding_witness:
  "\<exists>rep. parseReport sample_report = Inr rep \<and> marks_one sample_report rep ''SA-1'' ''GHSA-aaaa-bbbb-cccc''"
proof -
  obtain rep where "parseReport sample_report = Inr rep"
    using sample_accepted by (cases "parseReport sample_report") (simp_all add: is_accepted_def)
  then show ?thesis using mark_files_one_finding by blast
qed

text \<open>C27: A critical or high finding of an accepted report is never recorded as filed on the public task
  board: marking it with a task number refuses.
\<close>

theorem severe_never_public:
  assumes "parseReport text = Inr rep" and "finding_at rep ident n"
    and "f_in (findings rep ! n) ''severity'' [''critical'', ''high'']" and "starts_with v ''RO-''"
  shows "was_refused (mark_report text rep ident v)"
proof (cases "first_refusal (mark_checks ident v (find (\<lambda>x. f_get x ''id'' = Some (SText ident)) (findings rep)))")
  case None
  have "withheld (findings rep ! n)" using severe_withheld assms(1-3) by (simp add: finding_at_def)
  moreover obtain m where "finding_at rep ident m" "withheld (findings rep ! m) = starts_with v ''GHSA-''"
    using marks_one_accepted [OF assms(1), of ident v] by (auto simp: marks_one_def None)
  ultimately have "starts_with v ''GHSA-''" using finding_at_unique [OF assms(2)] by blast
  then show ?thesis using assms(4) by (auto simp: starts_with_conv)
qed (simp add: was_refused_def mark_report_def)

lemma severe_never_public_witness:
  "\<exists>rep. parseReport sample_report = Inr rep \<and> was_refused (mark_report sample_report rep ''SA-1'' ''RO-7'')"
proof -
  obtain rep where rep: "parseReport sample_report = Inr rep"
    using sample_accepted by (cases "parseReport sample_report") (simp_all add: is_accepted_def)
  have "case parseReport sample_report of Inl _ \<Rightarrow> False | Inr rep \<Rightarrow>
      finding_at rep ''SA-1'' 0 \<and> f_in (findings rep ! 0) ''severity'' [''critical'', ''high'']" by code_simp
  then show ?thesis using severe_never_public [OF rep, of "''SA-1''" 0 "''RO-7''"] rep by simp
qed

end
