(* ===== verification/Delete_Flow.thy ===== *)
theory Delete_Flow
  imports Repo_Status Form_Contract
begin

section \<open>Confirming a delete (\<open>repos-view.tsx\<close>, \<open>integrations-view.tsx\<close>, \<open>ticket-projects-view.tsx\<close>,
  \<open>notifications-view.tsx\<close>, \<open>users-view.tsx\<close> and their delete dialogs)\<close>

text \<open>
  The list pages open a modal dialog for the row to delete, send the request on confirmation, and
  close the dialog or show the error when it settles. The user may dismiss the dialog first and
  open one for another row. Three of the pages number the attempts so that an old request cannot
  touch a newer dialog; the notifications page and the two dialogs of the users page do not.
\<close>

record 'a del =
  deleteTarget :: "'a option"
  deleteError :: "msg option"
  deleteAttempt :: nat
  deletes :: "(nat \<times> 'a) list"

definition del_init :: "'a del" where
  "del_init = \<lparr>deleteTarget = None, deleteError = None, deleteAttempt = 0, deletes = []\<rparr>"

text \<open>\<open>deletes\<close> are the requests in flight, each with the attempt and the row its handler captured.
  The confirm handler up to the \<open>await\<close>, the code after it, and the dismissal.\<close>

definition confirm_delete :: "('a \<Rightarrow> mutation) \<Rightarrow> 'a del \<Rightarrow> 'a del \<times> command list" where
  "confirm_delete del s =
     (case deleteTarget s of
        None \<Rightarrow> (s, [])
      | Some x \<Rightarrow> (let attempt = deleteAttempt s + 1
                  in (s\<lparr>deleteAttempt := attempt, deleteError := None, deletes := (attempt, x) # deletes s\<rparr>,
                      [Mutate (del x)])))"

definition settle_delete :: "(js_error \<Rightarrow> msg) \<Rightarrow> nat \<times> 'a \<Rightarrow> jsval js_result \<Rightarrow> 'a del \<Rightarrow> 'a del" where
  "settle_delete message ax r s0 =
     (let s = s0\<lparr>deletes := remove1 ax (deletes s0)\<rparr>
      in if fst ax \<noteq> deleteAttempt s then s
         else (case r of Inr _ \<Rightarrow> s\<lparr>deleteTarget := None\<rparr> | Inl e \<Rightarrow> s\<lparr>deleteError := Some (message e)\<rparr>))"

definition dismiss_delete :: "bool \<Rightarrow> 'a del \<Rightarrow> 'a del" where
  "dismiss_delete is_open s =
     (if \<not> is_open then s\<lparr>deleteAttempt := deleteAttempt s + 1, deleteTarget := None, deleteError := None\<rparr> else s)"

definition failed_message :: "msg \<Rightarrow> js_error \<Rightarrow> msg" where
  "failed_message fallback e = (case e of ApiError _ m _ \<Rightarrow> if m \<noteq> [] then Raw m else fallback | _ \<Rightarrow> fallback)"

definition in_use_message :: "msg \<Rightarrow> msg \<Rightarrow> js_error \<Rightarrow> msg" where
  "in_use_message in_use fallback e =
     (case e of ApiError _ m st \<Rightarrow> if st = 409 then in_use else if m \<noteq> [] then Raw m else fallback | _ \<Rightarrow> fallback)"

subsection \<open>The three pages that number their attempts\<close>

definition repos_confirm where "repos_confirm = confirm_delete (\<lambda>r. deleteRepo (repo_id r))"
definition repos_settled where "repos_settled = settle_delete (failed_message (t0 ''repos.deleteFailed''))"
definition repos_dismiss :: "bool \<Rightarrow> repo del \<Rightarrow> repo del" where "repos_dismiss = dismiss_delete"

definition integrations_confirm where "integrations_confirm = confirm_delete (\<lambda>i. deleteIntegration (intg_id i))"
definition integrations_settled where
  "integrations_settled = settle_delete (in_use_message (t0 ''integrations.deleteInUse'') (t0 ''integrations.deleteFailed''))"
definition integrations_dismiss :: "bool \<Rightarrow> integration del \<Rightarrow> integration del" where "integrations_dismiss = dismiss_delete"

definition projects_confirm where "projects_confirm = confirm_delete (\<lambda>p. deleteTicketProject (tp_id p))"
definition projects_settled where
  "projects_settled = settle_delete (in_use_message (t0 ''ticket-projects.deleteInUse'') (t0 ''ticket-projects.deleteFailed''))"
definition projects_dismiss :: "bool \<Rightarrow> ticket_project del \<Rightarrow> ticket_project del" where "projects_dismiss = dismiss_delete"

subsection \<open>The notifications and the users page\<close>

text \<open>No attempt number, no error state, and no \<open>catch\<close>: a rejection leaves the handler.\<close>

definition plain_confirm :: "('a \<Rightarrow> mutation) \<Rightarrow> 'a del \<Rightarrow> 'a del \<times> command list" where
  "plain_confirm del s =
     (case deleteTarget s of
        None \<Rightarrow> (s, [])
      | Some x \<Rightarrow> (s\<lparr>deletes := (0, x) # deletes s\<rparr>, [Mutate (del x)]))"

definition plain_settled :: "nat \<times> 'a \<Rightarrow> jsval js_result \<Rightarrow> 'a del \<Rightarrow> 'a del" where
  "plain_settled ax r s0 =
     (let s = s0\<lparr>deletes := remove1 ax (deletes s0)\<rparr>
      in case r of Inr _ \<Rightarrow> s\<lparr>deleteTarget := None\<rparr> | Inl e \<Rightarrow> s)"

definition plain_dismiss :: "bool \<Rightarrow> 'a del \<Rightarrow> 'a del" where
  "plain_dismiss is_open s = (if \<not> is_open then s\<lparr>deleteTarget := None\<rparr> else s)"

definition notifications_confirm where
  "notifications_confirm = plain_confirm (\<lambda>n. deleteNotificationTarget (nt_id n))"
definition notifications_settled :: "nat \<times> notification_target \<Rightarrow> jsval js_result \<Rightarrow> notification_target del \<Rightarrow> notification_target del" where
  "notifications_settled = plain_settled"
definition notifications_dismiss :: "bool \<Rightarrow> notification_target del \<Rightarrow> notification_target del" where
  "notifications_dismiss = plain_dismiss"

definition users_confirm where "users_confirm = plain_confirm (\<lambda>u. deleteUser (uli_id u))"
definition users_settled :: "nat \<times> user_list_item \<Rightarrow> jsval js_result \<Rightarrow> user_list_item del \<Rightarrow> user_list_item del" where
  "users_settled = plain_settled"
definition users_dismiss :: "bool \<Rightarrow> user_list_item del \<Rightarrow> user_list_item del" where "users_dismiss = plain_dismiss"

definition revoke_confirm where "revoke_confirm = plain_confirm (\<lambda>i. revokeInvitation (inv_id i))"
definition revoke_settled :: "nat \<times> invitation \<Rightarrow> jsval js_result \<Rightarrow> invitation del \<Rightarrow> invitation del" where
  "revoke_settled = plain_settled"
definition revoke_dismiss :: "bool \<Rightarrow> invitation del \<Rightarrow> invitation del" where "revoke_dismiss = plain_dismiss"

subsection \<open>The dialogs\<close>

definition delete_dialog :: "string \<Rightarrow> (string \<times> string) list \<Rightarrow> bool \<Rightarrow> msg option \<Rightarrow> bool \<Rightarrow> view" where
  "delete_dialog ns args is_open err isDeleting =
     El ''AlertDialog'' ((''onOpenChange'', ''onOpenChange'') # flag ''open'' is_open)
       [El ''AlertDialogPopup'' []
         [El ''AlertDialogHeader'' []
            ([El ''AlertDialogTitle'' [] [tx (ns @ ''.deleteTitle'')],
              El ''AlertDialogDescription'' [] [Txt (T (ns @ ''.deleteDescription'') args)]] @
             shown_msg err (\<lambda>m. [El ''p'' [(''role'', ''alert'')] [Txt m]])),
          El ''AlertDialogFooter'' []
            [El ''AlertDialogClose'' [(''variant'', ''ghost'')] [tx ''common.cancel''],
             Button isDeleting False [(''onClick'', ''onConfirm''), (''variant'', ''destructive'')] [tx ''common.delete'']]]]"

definition name_of :: "('a \<Rightarrow> string) \<Rightarrow> 'a option \<Rightarrow> string" where
  "name_of f x = (case x of None \<Rightarrow> [] | Some y \<Rightarrow> f y)"

definition DeleteRepoDialog :: "repo option \<Rightarrow> bool \<Rightarrow> msg option \<Rightarrow> bool \<Rightarrow> view" where
  "DeleteRepoDialog r = delete_dialog ''repos'' [(''path'', name_of repo_project_path r)]"

definition DeleteIntegrationDialog :: "integration option \<Rightarrow> bool \<Rightarrow> msg option \<Rightarrow> bool \<Rightarrow> view" where
  "DeleteIntegrationDialog i = delete_dialog ''integrations'' [(''name'', name_of intg_name i)]"

definition DeleteTicketProjectDialog :: "ticket_project option \<Rightarrow> bool \<Rightarrow> msg option \<Rightarrow> bool \<Rightarrow> view" where
  "DeleteTicketProjectDialog p = delete_dialog ''ticket-projects'' [(''name'', name_of tp_name p)]"

definition DeleteNotificationDialog :: "notification_target option \<Rightarrow> bool \<Rightarrow> bool \<Rightarrow> view" where
  "DeleteNotificationDialog n is_open = delete_dialog ''notifications'' [(''name'', name_of nt_name n)] is_open None"

text \<open>The two dialogs of the users page have their own file each and name their button after the action.\<close>

definition removal_dialog :: "string \<Rightarrow> string \<Rightarrow> bool \<Rightarrow> bool \<Rightarrow> view" where
  "removal_dialog key email is_open isRunning =
     El ''AlertDialog'' ((''onOpenChange'', ''onOpenChange'') # flag ''open'' is_open)
       [El ''AlertDialogPopup'' []
         [El ''AlertDialogHeader'' []
            [El ''AlertDialogTitle'' [] [tx (key @ ''Title'')],
             El ''AlertDialogDescription'' [] [Txt (T (key @ ''Description'') [(''email'', email)])]],
          El ''AlertDialogFooter'' []
            [El ''AlertDialogClose'' [(''variant'', ''ghost'')] [tx ''common.cancel''],
             Button isRunning False [(''onClick'', ''onConfirm''), (''variant'', ''destructive'')] [tx (key @ ''Confirm'')]]]]"

definition DeleteUserDialog :: "user_list_item option \<Rightarrow> bool \<Rightarrow> bool \<Rightarrow> view" where
  "DeleteUserDialog u = removal_dialog ''users.remove'' (name_of uli_email u)"

definition RevokeInviteDialog :: "invitation option \<Rightarrow> bool \<Rightarrow> bool \<Rightarrow> view" where
  "RevokeInviteDialog i = removal_dialog ''users.revoke'' (name_of inv_email i)"

subsection \<open>Runs\<close>

text \<open>The dialog is modal, so a row is only asked for while none is open. The confirm handler runs
  where the page's dialog, drawn for the state, has an enabled button for it; \<open>isPending\<close> of the
  mutation is that a delete is in flight.\<close>

datatype 'a del_event = Ask 'a | Confirm | Open_Change bool | Delete_Settled "nat \<times> 'a" "jsval js_result"

definition repos_dialog :: "repo del \<Rightarrow> view" where
  "repos_dialog s = DeleteRepoDialog (deleteTarget s) (deleteTarget s \<noteq> None) (deleteError s) (deletes s \<noteq> [])"

definition integrations_dialog :: "integration del \<Rightarrow> view" where
  "integrations_dialog s =
     DeleteIntegrationDialog (deleteTarget s) (deleteTarget s \<noteq> None) (deleteError s) (deletes s \<noteq> [])"

definition projects_dialog :: "ticket_project del \<Rightarrow> view" where
  "projects_dialog s =
     DeleteTicketProjectDialog (deleteTarget s) (deleteTarget s \<noteq> None) (deleteError s) (deletes s \<noteq> [])"

definition notifications_dialog :: "notification_target del \<Rightarrow> view" where
  "notifications_dialog s = DeleteNotificationDialog (deleteTarget s) (deleteTarget s \<noteq> None) (deletes s \<noteq> [])"

definition users_dialog :: "user_list_item del \<Rightarrow> view" where
  "users_dialog s = DeleteUserDialog (deleteTarget s) (deleteTarget s \<noteq> None) (deletes s \<noteq> [])"

definition revoke_dialog :: "invitation del \<Rightarrow> view" where
  "revoke_dialog s = RevokeInviteDialog (deleteTarget s) (deleteTarget s \<noteq> None) (deletes s \<noteq> [])"

definition del_step ::
  "('a del \<Rightarrow> 'a del \<times> command list) \<Rightarrow> (nat \<times> 'a \<Rightarrow> jsval js_result \<Rightarrow> 'a del \<Rightarrow> 'a del) \<Rightarrow> (bool \<Rightarrow> 'a del \<Rightarrow> 'a del) \<Rightarrow>
   ('a del \<Rightarrow> view) \<Rightarrow> 'a del \<Rightarrow> 'a del_event \<Rightarrow> 'a del" where
  "del_step confirm settled dismiss dialog s e =
     (case e of
        Ask x \<Rightarrow> if deleteTarget s = None then s\<lparr>deleteTarget := Some x\<rparr> else s
      | Confirm \<Rightarrow> if operable ''onClick'' ''onConfirm'' (dialog s) then fst (confirm s) else s
      | Open_Change b \<Rightarrow> if deleteTarget s \<noteq> None then dismiss b s else s
      | Delete_Settled ax r \<Rightarrow> if ax \<in> set (deletes s) then settled ax r s else s)"

lemma delete_dialog_confirm:
  "operable ''onClick'' ''onConfirm'' (delete_dialog ns args opn err busy) \<longleftrightarrow> \<not> busy"
  "operable ''onClick'' ''onConfirm'' (removal_dialog key email opn busy) \<longleftrightarrow> \<not> busy"
  by (simp_all add: delete_dialog_def removal_dialog_def operable_simps operable_Button)

lemmas dialog_confirm =
  delete_dialog_confirm repos_dialog_def integrations_dialog_def projects_dialog_def notifications_dialog_def users_dialog_def
  revoke_dialog_def DeleteRepoDialog_def DeleteIntegrationDialog_def DeleteTicketProjectDialog_def DeleteNotificationDialog_def
  DeleteUserDialog_def RevokeInviteDialog_def

text \<open>An answer is harmless where it only ends its own request. A page answers in place if a
  dismissal closes the dialog and makes every request then in flight harmless for ever, whatever
  happens afterwards; if at any moment a request for another row than the dialog's is harmless; and
  if a confirmed delete, answered at once, closes the dialog or shows the error's message in it.\<close>

definition harmless :: "(nat \<times> 'a \<Rightarrow> jsval js_result \<Rightarrow> 'a del \<Rightarrow> 'a del) \<Rightarrow> 'a del \<Rightarrow> nat \<times> 'a \<Rightarrow> bool" where
  "harmless settled s ax \<longleftrightarrow> (\<forall>r. settled ax r s = s\<lparr>deletes := remove1 ax (deletes s)\<rparr>)"

definition confirm_answered ::
  "(js_error \<Rightarrow> msg) \<Rightarrow> (nat \<times> 'a \<Rightarrow> jsval js_result \<Rightarrow> 'a del \<Rightarrow> 'a del) \<Rightarrow> 'a del \<Rightarrow> 'a del \<Rightarrow> bool" where
  "confirm_answered message settled s s' \<longleftrightarrow>
     (case deleteTarget s of
        None \<Rightarrow> s' = s
      | Some x \<Rightarrow>
          if deletes s \<noteq> [] then s' = s
          else \<exists>a. deletes s' = [(a, x)] \<and> deleteTarget s' = Some x \<and> deleteError s' = None \<and>
                 (\<forall>v. deleteTarget (settled (a, x) (Inr v) s') = None) \<and>
                 (\<forall>e. deleteTarget (settled (a, x) (Inl e) s') = Some x \<and>
                      deleteError (settled (a, x) (Inl e) s') = Some (message e)))"

definition answers_in_place ::
  "(js_error \<Rightarrow> msg) \<Rightarrow> (nat \<times> 'a \<Rightarrow> jsval js_result \<Rightarrow> 'a del \<Rightarrow> 'a del) \<Rightarrow> ('a del \<Rightarrow> 'a del_event \<Rightarrow> 'a del) \<Rightarrow>
   'a del_event list \<Rightarrow> 'a del_event list \<Rightarrow> bool" where
  "answers_in_place message settled step before after \<longleftrightarrow>
     (let s = run step del_init before; closed = step s (Open_Change False)
      in deleteTarget closed = None \<and> list_all (harmless settled (run step closed after)) (deletes closed) \<and>
         list_all (\<lambda>ax. deleteTarget s = Some (snd ax) \<or> harmless settled s ax) (deletes s) \<and>
         confirm_answered message settled s (step s Confirm))"

locale delete_flow =
  fixes confirm :: "'a del \<Rightarrow> 'a del \<times> command list"
    and settled :: "nat \<times> 'a \<Rightarrow> jsval js_result \<Rightarrow> 'a del \<Rightarrow> 'a del"
    and dismiss :: "bool \<Rightarrow> 'a del \<Rightarrow> 'a del"
    and dialog :: "'a del \<Rightarrow> view"
    and message :: "js_error \<Rightarrow> msg"
  assumes confirm_none: "deleteTarget s = None \<Longrightarrow> fst (confirm s) = s"
    and confirm_some: "deleteTarget s = Some x \<Longrightarrow> deleteTarget (fst (confirm s)) = Some x \<and>
      deleteError (fst (confirm s)) = None \<and> deleteAttempt (fst (confirm s)) = Suc (deleteAttempt s) \<and>
      deletes (fst (confirm s)) = (Suc (deleteAttempt s), x) # deletes s"
    and dismissed: "deleteTarget (dismiss False s) = None \<and> deleteAttempt (dismiss False s) = Suc (deleteAttempt s) \<and>
      deletes (dismiss False s) = deletes s"
    and kept_open: "dismiss True s = s"
    and stale: "fst ax \<noteq> deleteAttempt s \<Longrightarrow> settled ax r s = s\<lparr>deletes := remove1 ax (deletes s)\<rparr>"
    and success: "fst ax = deleteAttempt s \<Longrightarrow> deleteTarget (settled ax (Inr v) s) = None"
    and failure: "fst ax = deleteAttempt s \<Longrightarrow> deleteTarget (settled ax (Inl e) s) = deleteTarget s \<and>
      deleteError (settled ax (Inl e) s) = Some (message e)"
    and settled_frame: "deleteAttempt (settled ax r s) = deleteAttempt s \<and> deletes (settled ax r s) = remove1 ax (deletes s)"
    and confirm_shown: "operable ''onClick'' ''onConfirm'' (dialog s) \<longleftrightarrow> deletes s = []"
begin

abbreviation page_step :: "'a del \<Rightarrow> 'a del_event \<Rightarrow> 'a del" where
  "page_step \<equiv> del_step confirm settled dismiss dialog"

text \<open>At most one request is in flight; its number is not above the counter, and where it is the
  counter's the dialog is the one that sent it.\<close>

definition flow_inv :: "'a del \<Rightarrow> bool" where
  "flow_inv s \<longleftrightarrow> deletes s = [] \<or>
     (\<exists>a x. deletes s = [(a, x)] \<and> a \<le> deleteAttempt s \<and> (a = deleteAttempt s \<longrightarrow> deleteTarget s = Some x))"

lemma step_keeps: "flow_inv s \<Longrightarrow> flow_inv (page_step s e)"
proof (cases e)
  case Confirm
  then show "flow_inv s \<Longrightarrow> ?thesis"
    using confirm_none confirm_some confirm_shown [of s] by (cases "deleteTarget s") (auto simp: flow_inv_def del_step_def)
next
  case (Open_Change b)
  then show "flow_inv s \<Longrightarrow> ?thesis"
    using dismissed [of s] kept_open [of s] by (cases b) (auto simp: flow_inv_def del_step_def)
next
  case (Delete_Settled ax r)
  then show "flow_inv s \<Longrightarrow> ?thesis"
    using settled_frame [of ax r s] by (auto simp: flow_inv_def del_step_def)
qed (auto simp: flow_inv_def del_step_def)

sublocale stepper page_step flow_inv
  by unfold_locales (rule step_keeps)

lemma step_attempt: "deleteAttempt s \<le> deleteAttempt (page_step s e)"
proof (cases e)
  case Confirm
  then show ?thesis using confirm_none confirm_some by (cases "deleteTarget s") (auto simp: del_step_def)
next
  case (Open_Change b)
  then show ?thesis using dismissed [of s] kept_open [of s] by (cases b) (auto simp: del_step_def)
qed (auto simp: del_step_def settled_frame)

lemma run_attempt: "deleteAttempt s \<le> deleteAttempt (run page_step s es)"
  by (induction es arbitrary: s) (auto intro: order_trans [OF step_attempt])

lemma closed_harmless:
  assumes "flow_inv s" "deleteTarget s = None"
  shows "list_all (harmless settled (run page_step s es)) (deletes s)"
  using assms run_attempt [of s es] stale by (fastforce simp: flow_inv_def harmless_def)

lemma runs_in_place: "answers_in_place message settled page_step before after"
proof -
  let ?s = "run page_step del_init before"
  have inv: "flow_inv ?s" by (rule run_inv) (simp add: flow_inv_def del_init_def)
  have closed: "deleteTarget (page_step ?s (Open_Change False)) = None"
    using dismissed by (simp add: del_step_def)
  have "list_all (\<lambda>ax. deleteTarget ?s = Some (snd ax) \<or> harmless settled ?s ax) (deletes ?s)"
    using inv stale by (auto simp: flow_inv_def harmless_def)
  moreover have "confirm_answered message settled ?s (page_step ?s Confirm)"
    using confirm_none [of ?s] confirm_some [of ?s] confirm_shown [of ?s] success failure
    by (auto simp: confirm_answered_def del_step_def split: option.split)
  ultimately show ?thesis
    using closed closed_harmless [OF step_keeps [OF inv] closed] by (simp add: answers_in_place_def)
qed

end

lemma delete_flow_numbered:
  assumes "\<And>s. operable ''onClick'' ''onConfirm'' (dialog s) \<longleftrightarrow> deletes s = []"
  shows "delete_flow (confirm_delete del) (settle_delete message) dismiss_delete dialog message"
  by unfold_locales
    (auto simp: confirm_delete_def settle_delete_def dismiss_delete_def Let_def assms split: sum.splits)

interpretation repos_delete:
  delete_flow repos_confirm repos_settled repos_dismiss repos_dialog "failed_message (t0 ''repos.deleteFailed'')"
  unfolding repos_confirm_def repos_settled_def repos_dismiss_def by (rule delete_flow_numbered) (simp add: dialog_confirm)

interpretation integrations_delete:
  delete_flow integrations_confirm integrations_settled integrations_dismiss integrations_dialog
    "in_use_message (t0 ''integrations.deleteInUse'') (t0 ''integrations.deleteFailed'')"
  unfolding integrations_confirm_def integrations_settled_def integrations_dismiss_def
  by (rule delete_flow_numbered) (simp add: dialog_confirm)

interpretation projects_delete:
  delete_flow projects_confirm projects_settled projects_dismiss projects_dialog
    "in_use_message (t0 ''ticket-projects.deleteInUse'') (t0 ''ticket-projects.deleteFailed'')"
  unfolding projects_confirm_def projects_settled_def projects_dismiss_def
  by (rule delete_flow_numbered) (simp add: dialog_confirm)

text \<open>C6: On the repositories, integrations and ticket project pages, in every run of asking, confirming,
  dismissing and answers in any order: dismissing the dialog closes it, and an answer to a delete that
  was in flight then, whenever it comes, changes nothing but the pending delete, so that a dialog
  opened since, for another row or for the same one, stays open and without an error that is not its
  own. An answer for another row than the dialog's never touches it. Confirming while no delete is
  in flight sends the delete of the dialog's row, whose success closes the dialog and whose failure is
  shown in it as the page's message for the error; while one is in flight the button does nothing.\<close>

theorem stale_delete_harmless:
  "answers_in_place (failed_message (t0 ''repos.deleteFailed'')) repos_settled
     (del_step repos_confirm repos_settled repos_dismiss repos_dialog) rs rs' \<and>
   answers_in_place (in_use_message (t0 ''integrations.deleteInUse'') (t0 ''integrations.deleteFailed'')) integrations_settled
     (del_step integrations_confirm integrations_settled integrations_dismiss integrations_dialog) is is' \<and>
   answers_in_place (in_use_message (t0 ''ticket-projects.deleteInUse'') (t0 ''ticket-projects.deleteFailed'')) projects_settled
     (del_step projects_confirm projects_settled projects_dismiss projects_dialog) ps ps'"
  by (intro conjI repos_delete.runs_in_place integrations_delete.runs_in_place projects_delete.runs_in_place)

text \<open>The case behind it: the dialog of a repository is confirmed, dismissed and opened again for
  the same repository while the delete is in flight, and the late answer leaves it alone.\<close>

lemma reopened_for_the_same_row:
  "let s = run (del_step repos_confirm repos_settled repos_dismiss repos_dialog) del_init [Ask r, Confirm, Open_Change False, Ask r]
   in deletes s = [(1, r)] \<and> deleteTarget s = Some r \<and> deleteTarget (repos_settled (1, r) a s) = Some r \<and>
      deleteError (repos_settled (1, r) a s) = None"
  by (simp add: del_step_def del_init_def dialog_confirm repos_confirm_def confirm_delete_def repos_dismiss_def dismiss_delete_def
      repos_settled_def settle_delete_def Let_def)

lemma plain_stale:
  assumes "s = run (del_step (plain_confirm del) plain_settled plain_dismiss dialog) del_init [Ask a, Confirm, Open_Change False, Ask b]"
    and "\<And>s. operable ''onClick'' ''onConfirm'' (dialog s) \<longleftrightarrow> deletes s = []"
  shows "deleteTarget s = Some b \<and> deletes s = [(0, a)] \<and> deleteTarget (plain_settled (0, a) (Inr v) s) = None \<and>
    plain_settled (0, a) (Inl err) s = s\<lparr>deletes := []\<rparr>"
  by (simp add: assms del_step_def del_init_def plain_confirm_def plain_dismiss_def plain_settled_def Let_def)

text \<open>The notifications page and the users page lack this: after confirming the delete of one row
  (a target, a user, an invitation), dismissing the dialog and opening it for another, the first
  delete's success closes the second dialog, and its failure is shown nowhere.\<close>

theorem notifications_stale_delete:
  "let n1 = n\<lparr>nt_id := ''1''\<rparr>; n2 = n\<lparr>nt_id := ''2''\<rparr>; u1 = u\<lparr>uli_id := ''1''\<rparr>; u2 = u\<lparr>uli_id := ''2''\<rparr>;
       i1 = i\<lparr>inv_id := ''1''\<rparr>; i2 = i\<lparr>inv_id := ''2''\<rparr>;
       ns = run (del_step notifications_confirm notifications_settled notifications_dismiss notifications_dialog) del_init
              [Ask n1, Confirm, Open_Change False, Ask n2];
       us = run (del_step users_confirm users_settled users_dismiss users_dialog) del_init
              [Ask u1, Confirm, Open_Change False, Ask u2];
       vs = run (del_step revoke_confirm revoke_settled revoke_dismiss revoke_dialog) del_init
              [Ask i1, Confirm, Open_Change False, Ask i2]
   in (deleteTarget ns = Some n2 \<and> deleteTarget (notifications_settled (0, n1) (Inr v) ns) = None \<and>
       notifications_settled (0, n1) (Inl err) ns = ns\<lparr>deletes := []\<rparr>) \<and>
      (deleteTarget us = Some u2 \<and> deleteTarget (users_settled (0, u1) (Inr v) us) = None \<and>
       users_settled (0, u1) (Inl err) us = us\<lparr>deletes := []\<rparr>) \<and>
      (deleteTarget vs = Some i2 \<and> deleteTarget (revoke_settled (0, i1) (Inr v) vs) = None \<and>
       revoke_settled (0, i1) (Inl err) vs = vs\<lparr>deletes := []\<rparr>)"
  unfolding Let_def notifications_confirm_def notifications_settled_def notifications_dismiss_def
    users_confirm_def users_settled_def users_dismiss_def revoke_confirm_def revoke_settled_def revoke_dismiss_def
  by (intro conjI; simp only: plain_stale [OF refl, of notifications_dialog] plain_stale [OF refl, of users_dialog]
      plain_stale [OF refl, of revoke_dialog] dialog_confirm not_not)

end
