(* ===== verification/Integration_Model.thy ===== *)
theory Integration_Model
  imports Js_Json
begin

section \<open>Integration kinds and secrets (\<open>lib/integrations\<close>, \<open>lib/repos/source-kinds.ts\<close>, \<open>lib/notifications/events.ts\<close>)\<close>

text \<open>The kinds of integrations with their requirements, and the JSON secret the server stores.\<close>

definition INTEGRATION_KINDS :: "string list" where
  "INTEGRATION_KINDS =
     [''github'', ''gitlab'', ''gitea'', ''forgejo'', ''codeberg'', ''kaneo'', ''jira'', ''linear'']"

definition BASE_URL_KINDS :: "string list" where
  "BASE_URL_KINDS = [''gitlab'', ''gitea'', ''forgejo'', ''kaneo'', ''jira'']"

definition kindRequiresBaseUrl :: "string \<Rightarrow> bool" where
  "kindRequiresBaseUrl kind \<longleftrightarrow> kind \<in> set BASE_URL_KINDS"

definition TOKEN_OPTIONAL_KINDS :: "string list" where
  "TOKEN_OPTIONAL_KINDS = [''github'', ''gitea'', ''forgejo'', ''codeberg'']"

definition kindTokenOptional :: "string \<Rightarrow> bool" where
  "kindTokenOptional kind \<longleftrightarrow> kind \<in> set TOKEN_OPTIONAL_KINDS"

definition kindUsesApiKeyLabel :: "string \<Rightarrow> bool" where
  "kindUsesApiKeyLabel kind \<longleftrightarrow> kind = ''kaneo'' \<or> kind = ''linear''"

definition kindIsJira :: "string \<Rightarrow> bool" where
  "kindIsJira kind \<longleftrightarrow> kind = ''jira''"

definition TICKET_INTEGRATION_KINDS :: "string list" where
  "TICKET_INTEGRATION_KINDS = [''kaneo'', ''jira'', ''linear'']"

definition kindIsTicket :: "string \<Rightarrow> bool" where
  "kindIsTicket kind \<longleftrightarrow> kind \<in> set TICKET_INTEGRATION_KINDS"

definition SOURCE_KINDS :: "string list" where
  "SOURCE_KINDS = [''github'', ''gitlab'', ''gitea'', ''forgejo'', ''codeberg'']"

definition SOURCE_KINDS_REQUIRING_INTEGRATION :: "string list" where
  "SOURCE_KINDS_REQUIRING_INTEGRATION = [''gitlab'', ''gitea'', ''forgejo'']"

definition sourceKindRequiresIntegration :: "string \<Rightarrow> bool" where
  "sourceKindRequiresIntegration kind \<longleftrightarrow> kind \<in> set SOURCE_KINDS_REQUIRING_INTEGRATION"

definition NOTIFICATION_EVENT_OPTIONS :: "string list" where
  "NOTIFICATION_EVENT_OPTIONS = [''create'', ''error'', ''supersede'']"

definition DEFAULT_NOTIFICATION_EVENTS :: "string list" where
  "DEFAULT_NOTIFICATION_EVENTS = [''create'', ''error'', ''supersede'']"

lemmas kind_simps = kindRequiresBaseUrl_def BASE_URL_KINDS_def kindTokenOptional_def TOKEN_OPTIONAL_KINDS_def
  kindUsesApiKeyLabel_def kindIsJira_def kindIsTicket_def TICKET_INTEGRATION_KINDS_def SOURCE_KINDS_def
  INTEGRATION_KINDS_def sourceKindRequiresIntegration_def SOURCE_KINDS_REQUIRING_INTEGRATION_def

text \<open>Every kind is either a source or a ticket kind, never both.\<close>

lemma kinds_partition:
  "set INTEGRATION_KINDS = set SOURCE_KINDS \<union> set TICKET_INTEGRATION_KINDS"
  "set SOURCE_KINDS \<inter> set TICKET_INTEGRATION_KINDS = {}"
  by (auto simp: kind_simps)

subsection \<open>The secret (\<open>secret.ts\<close>)\<close>

definition buildIntegrationSecret :: "string \<Rightarrow> string \<Rightarrow> string option \<Rightarrow> string" where
  "buildIntegrationSecret kind token email =
     (if kind = ''jira'' then
        the_text (json_text (Obj [(''email'', Str (case email of None \<Rightarrow> [] | Some e \<Rightarrow> e)), (''api_token'', Str token)]))
      else if kind = ''kaneo'' \<or> kind = ''linear'' then the_text (json_text (Obj [(''api_key'', Str token)]))
      else the_text (json_text (Obj [(''token'', Str token)])))"

text \<open>The reader of a secret: after the first key, a string; for Jira the token after its key.\<close>

definition json_string_after :: "string \<Rightarrow> string \<Rightarrow> (string \<times> string) option" where
  "json_string_after pre s =
     (if starts_with s (pre @ [quote_char]) then json_chars (drop (length pre + 1) s) else None)"

definition readIntegrationSecret :: "string \<Rightarrow> string \<Rightarrow> (string \<times> string) option" where
  "readIntegrationSecret kind s =
     (if kind = ''jira'' then
        Option.bind (json_string_after (CHR ''{'' # json_quote ''email'' @ '':'') s)
          (\<lambda>(email, r). map_option (\<lambda>(token, _). (email, token))
             (json_string_after (CHR '','' # json_quote ''api_token'' @ '':'') r))
      else map_option (\<lambda>(token, _). ([], token))
        (json_string_after (CHR ''{'' # json_quote (if kind = ''kaneo'' \<or> kind = ''linear'' then ''api_key'' else ''token'') @ '':'') s))"

lemma json_string_after_quote:
  "json_string_after pre (pre @ json_quote v @ rest) = Some (v, rest)"
proof -
  have s: "pre @ json_quote v @ rest = (pre @ [quote_char]) @ concat (map json_escape v) @ quote_char # rest"
    by (simp add: json_quote_append)
  show ?thesis unfolding json_string_after_def s
    by (simp only: starts_with_append if_True) (simp add: json_chars_quote)
qed

lemma json_obj1: "the_text (json_text (Obj [(k, Str v)])) = (CHR ''{'' # json_quote k @ '':'') @ json_quote v @ ''}''"
  by (simp add: the_text_def)

lemma json_obj2: "the_text (json_text (Obj [(k, Str v), (k', Str v')]))
    = (CHR ''{'' # json_quote k @ '':'') @ json_quote v @ (CHR '','' # json_quote k' @ '':'') @ json_quote v' @ ''}''"
  by (simp add: the_text_def)

text \<open>The stored secret determines the credentials: for every kind, whatever characters the
  token and the e-mail hold (quotes, backslashes, control characters), reading the JSON text back
  gives exactly them, so no two credentials of a kind share a secret.\<close>

theorem secret_round_trip:
  "readIntegrationSecret kind (buildIntegrationSecret kind token email)
     = Some (if kind = ''jira'' then (case email of None \<Rightarrow> [] | Some e \<Rightarrow> e) else [], token)"
proof (cases "kind = ''jira''")
  case True
  have s: "buildIntegrationSecret kind token email =
      (CHR ''{'' # json_quote ''email'' @ '':'') @ json_quote (case email of None \<Rightarrow> [] | Some e \<Rightarrow> e) @
      (CHR '','' # json_quote ''api_token'' @ '':'') @ json_quote token @ ''}''"
    unfolding buildIntegrationSecret_def if_P [OF True] by (rule json_obj2)
  show ?thesis
    unfolding s readIntegrationSecret_def if_P [OF True] json_string_after_quote bind.simps prod.case
    by (simp add: True json_string_after_quote del: append.simps append_assoc)
next
  case False
  show ?thesis
    unfolding readIntegrationSecret_def if_not_P [OF False] buildIntegrationSecret_def
    by (cases "kind = ''kaneo'' \<or> kind = ''linear''"; simp only: if_True if_False json_obj1 json_string_after_quote; simp)
qed

end
