(* ===== verification/Integration_Drawer.thy ===== *)
theory Integration_Drawer
  imports Form_Contract Integration_Model
begin

section \<open>The integration drawer (\<open>components/integrations/integration-drawer.tsx\<close>)\<close>

text \<open>
  Creating and editing an integration: the fields, what the form derives from them on every render,
  the effect that loads an integration, the submit handler and the view. The parent's callbacks are
  the mutations of \<open>use-integrations.ts\<close>.
\<close>

definition normalizeBaseUrl :: "string \<Rightarrow> string" where
  "normalizeBaseUrl v = strip_trailing (CHR ''/'') (js_trim v)"

datatype drawer_mode = Create | Edit

record idrawer_props =
  ip_mode :: drawer_mode
  ip_integration :: "integration option"
  ip_open :: bool
  ip_isSaving :: bool

record idrawer =
  i_kind :: string
  i_name :: string
  i_baseUrl :: string
  i_email :: string
  i_secret :: string
  i_isDefault :: bool
  i_formError :: "msg option"

definition idrawer_init :: idrawer where
  "idrawer_init = \<lparr>i_kind = ''github'', i_name = [], i_baseUrl = [], i_email = [], i_secret = [],
     i_isDefault = False, i_formError = None\<rparr>"

definition activeKind :: "idrawer_props \<Rightarrow> idrawer \<Rightarrow> string" where
  "activeKind p s =
     (if ip_mode p = Edit then (case ip_integration p of None \<Rightarrow> i_kind s | Some i \<Rightarrow> intg_kind i) else i_kind s)"

definition i_requiresBaseUrl where "i_requiresBaseUrl p s = kindRequiresBaseUrl (activeKind p s)"
definition i_showEmail where "i_showEmail p s = kindIsJira (activeKind p s)"
definition i_isSourceKind where "i_isSourceKind p s = (activeKind p s \<in> set SOURCE_KINDS)"

definition hasSecret :: "idrawer_props \<Rightarrow> bool" where
  "hasSecret p = (case ip_integration p of None \<Rightarrow> False | Some i \<Rightarrow> intg_has_secret i)"

definition secretRequired :: "idrawer_props \<Rightarrow> idrawer \<Rightarrow> bool" where
  "secretRequired p s \<longleftrightarrow> \<not> kindTokenOptional (activeKind p s) \<and> (ip_mode p = Create \<or> \<not> hasSecret p)"

definition emailRequired :: "idrawer_props \<Rightarrow> idrawer \<Rightarrow> bool" where
  "emailRequired p s \<longleftrightarrow> ip_mode p = Create \<or> js_trim (i_secret s) \<noteq> []"

definition secretLabel :: "idrawer_props \<Rightarrow> idrawer \<Rightarrow> msg" where
  "secretLabel p s =
     (if kindUsesApiKeyLabel (activeKind p s) then t0 ''integrations.apiKey''
      else if kindIsJira (activeKind p s) then t0 ''integrations.apiToken'' else t0 ''integrations.token'')"

text \<open>The effect on \<open>[open, mode, integration]\<close>.\<close>

definition idrawer_effect :: "idrawer_props \<Rightarrow> idrawer \<Rightarrow> idrawer" where
  "idrawer_effect p s =
     (if \<not> ip_open p then s
      else (case (ip_mode p, ip_integration p) of
              (Edit, Some i) \<Rightarrow>
                \<lparr>i_kind = intg_kind i, i_name = intg_name i,
                 i_baseUrl = (case intg_base_url i of None \<Rightarrow> [] | Some u \<Rightarrow> u),
                 i_email = [], i_secret = [], i_isDefault = intg_is_default i, i_formError = None\<rparr>
            | _ \<Rightarrow> idrawer_init))"

definition stored_base_url :: "idrawer_props \<Rightarrow> string" where
  "stored_base_url p =
     (case ip_integration p of None \<Rightarrow> [] | Some i \<Rightarrow> (case intg_base_url i of None \<Rightarrow> [] | Some u \<Rightarrow> u))"

text \<open>\<open>handleSubmit\<close> up to the \<open>await\<close>.\<close>

definition i_handleSubmit :: "idrawer_props \<Rightarrow> idrawer \<Rightarrow> idrawer \<times> command list" where
  "i_handleSubmit p s0 =
     (let s = s0\<lparr>i_formError := None\<rparr>;
          fail = (\<lambda>m. (s\<lparr>i_formError := Some (t0 m)\<rparr>, []));
          trimmedName = js_trim (i_name s);
          trimmedBaseUrl = js_trim (i_baseUrl s);
          trimmedEmail = js_trim (i_email s);
          trimmedSecret = js_trim (i_secret s);
          requiresBaseUrl = i_requiresBaseUrl p s;
          showEmail = i_showEmail p s;
          baseUrlValue = (if requiresBaseUrl then Str trimmedBaseUrl else Null);
          secretText = buildIntegrationSecret (activeKind p s) trimmedSecret (Some trimmedEmail);
          default_entry = entry_if (i_isSourceKind p s) ''isDefault'' (Bool (i_isDefault s))
      in if trimmedName = [] then fail ''integrations.validation.nameRequired''
         else if requiresBaseUrl \<and> trimmedBaseUrl = [] then fail ''integrations.validation.baseUrlRequired''
         else if showEmail \<and> ip_mode p = Create \<and> trimmedEmail = [] then fail ''integrations.validation.emailRequired''
         else if showEmail \<and> ip_mode p = Edit \<and> trimmedSecret \<noteq> [] \<and> trimmedEmail = [] then
           fail ''integrations.validation.emailRequiredForNewToken''
         else if secretRequired p s \<and> trimmedSecret = [] then fail ''integrations.validation.secretRequired''
         else if ip_mode p = Edit \<and> requiresBaseUrl \<and> trimmedSecret = [] \<and>
                 normalizeBaseUrl trimmedBaseUrl \<noteq> normalizeBaseUrl (stored_base_url p) then
           fail ''integrations.validation.secretRequiredForBaseUrlChange''
         else if ip_mode p = Create then
           (s, [Mutate (createIntegration (Obj
                 ([(''kind'', Str (activeKind p s)), (''name'', Str trimmedName), (''baseUrl'', baseUrlValue),
                   (''secret'', Str (if trimmedSecret \<noteq> [] then secretText else []))] @ default_entry)))])
         else (case ip_integration p of
                 Some i \<Rightarrow>
                   (s, [Mutate (updateIntegration (intg_id i) (Obj
                         ([(''name'', Str trimmedName), (''baseUrl'', baseUrlValue),
                           (''secret'', if trimmedSecret \<noteq> [] then Str secretText else Null)] @ default_entry)))])
               | None \<Rightarrow> (s, [])))"

text \<open>After the \<open>await\<close>: \<^term>\<open>True\<close> asks the parent to close the drawer.\<close>

definition i_saved :: "jsval js_result \<Rightarrow> idrawer \<Rightarrow> idrawer \<times> bool" where
  "i_saved r s =
     (case r of Inr _ \<Rightarrow> (s, True)
              | Inl e \<Rightarrow> (s\<lparr>i_formError := Some (save_error (t0 ''integrations.saveFailed'') e)\<rparr>, False))"

text \<open>\<open>handleTestConnection\<close>: the request, and the toast once it settled.\<close>

definition i_handleTestConnection :: "idrawer_props \<Rightarrow> command list" where
  "i_handleTestConnection p =
     (case ip_integration p of None \<Rightarrow> []
      | Some i \<Rightarrow> [Toast ''loading'' (t0 ''integrations.testConnectionLoading'')
                     (Some (t0 ''integrations.testConnectionLoadingDescription'')),
                   Mutate (testIntegration (intg_id i))])"

definition js_error_message :: "js_error \<Rightarrow> string" where
  "js_error_message e =
     (case e of ApiError _ m _ \<Rightarrow> m | NetworkError \<Rightarrow> ''Network request failed'' | _ \<Rightarrow> [])"

definition i_testSettled :: "js_error + test_connection_response \<Rightarrow> command" where
  "i_testSettled r =
     (let failed = (\<lambda>m. Toast ''error'' (t0 ''integrations.testConnectionFailed'')
            (Some (if m \<noteq> Raw [] then m else t0 ''integrations.testConnectionFailedDescription'')))
      in case r of
           Inl e \<Rightarrow> failed (Raw (js_error_message e))
         | Inr res \<Rightarrow>
             if \<not> test_success res then
               failed (case test_message res of None \<Rightarrow> t0 ''integrations.testConnectionFailed'' | Some m \<Rightarrow> Raw m)
             else Toast ''success'' (t0 ''integrations.testConnectionSuccess'')
               (Some (case test_message res of None \<Rightarrow> t0 ''integrations.testConnectionSuccessDescription'' | Some m \<Rightarrow> Raw m)))"


subsection \<open>The view\<close>

definition required_mark :: "bool \<Rightarrow> view list" where
  "required_mark b = shown_if b [El ''span'' [(''aria-hidden'', ''true'')] [lit ''*'']]"

definition i_kind_field :: "idrawer_props \<Rightarrow> idrawer \<Rightarrow> view" where
  "i_kind_field p s =
     (if ip_mode p = Create then
        El ''Field'' [(''name'', ''kind'')]
          [El ''FieldLabel'' [] [tx ''integrations.kind''],
           El ''Select'' ((''onValueChange'', ''setKind'') #
               attr_opt ''value'' (find (\<lambda>k. k = i_kind s) INTEGRATION_KINDS))
             [El ''SelectTrigger'' [] [El ''SelectValue'' [] [tx ''integrations.kindPlaceholder'']],
              El ''SelectPopup'' []
                (map (\<lambda>k. El ''SelectItem'' [(''value'', k)] [tx (''integrations.kinds.'' @ k)]) INTEGRATION_KINDS)]]
      else
        El ''Field'' [(''name'', ''kind'')]
          [El ''FieldLabel'' [] [tx ''integrations.kind''],
           El ''Input'' [(''disabled'', ''true''), (''readOnly'', ''true'')] [tx (''integrations.kinds.'' @ activeKind p s)]])"

definition i_baseUrl_field :: "idrawer_props \<Rightarrow> idrawer \<Rightarrow> view" where
  "i_baseUrl_field p s =
     El ''Field'' [(''name'', ''baseUrl'')]
       ([El ''FieldLabel'' [] [tx ''integrations.baseUrl'', lit '' '', El ''span'' [(''aria-hidden'', ''true'')] [lit ''*'']],
         El ''Input'' [(''name'', ''baseUrl''), (''onChange'', ''setBaseUrl''), (''required'', ''true''), (''type'', ''url''), (''value'', i_baseUrl s)]
           [tx (if activeKind p s = ''kaneo'' then ''integrations.baseUrlPlaceholderKaneo'' else ''integrations.baseUrlPlaceholder'')]] @
        shown_if (activeKind p s = ''kaneo'') [El ''FieldDescription'' [] [tx ''integrations.baseUrlHintKaneo'']])"

definition i_email_field :: "idrawer_props \<Rightarrow> idrawer \<Rightarrow> view" where
  "i_email_field p s =
     El ''Field'' [(''name'', ''email'')]
       ([El ''FieldLabel'' [] ([tx ''integrations.jiraEmail'', lit '' ''] @ required_mark (emailRequired p s)),
         El ''Input'' ([(''autoComplete'', ''email''), (''name'', ''email''), (''onChange'', ''setEmail'')] @
             flag ''required'' (ip_mode p = Create) @ [(''type'', ''email''), (''value'', i_email s)]) []] @
        shown_if (ip_mode p = Edit) [El ''FieldDescription'' [] [tx ''integrations.jiraEmailEditHint'']])"

definition i_secret_field :: "idrawer_props \<Rightarrow> idrawer \<Rightarrow> view" where
  "i_secret_field p s =
     (let configured = (ip_mode p = Edit \<and> hasSecret p)
      in El ''Field'' [(''name'', ''secret'')]
        ([El ''FieldLabel'' [] ([Txt (secretLabel p s), lit '' ''] @ required_mark (secretRequired p s))] @
         shown_if configured [El ''div'' [] [El ''Badge'' [(''variant'', ''success'')] [tx ''integrations.secretConfigured'']]] @
         [El ''Input'' ([(''autoComplete'', ''new-password''), (''name'', ''secret''), (''onChange'', ''setSecret'')] @
             flag ''required'' (secretRequired p s) @ [(''type'', ''password''), (''value'', i_secret s)])
           [tx (if configured then ''integrations.secretPlaceholderEdit'' else ''integrations.secretPlaceholder'')]] @
         shown_if configured [El ''FieldDescription'' [] [tx ''integrations.secretEditHint'']]))"

definition i_default_field :: "idrawer \<Rightarrow> view" where
  "i_default_field s =
     El ''Field'' [(''name'', ''isDefault'')]
       [El ''div'' []
          [El ''div'' []
             [El ''FieldLabel'' [] [tx ''integrations.isDefault''], El ''FieldDescription'' [] [tx ''integrations.isDefaultHint'']],
           El ''Switch'' (flag ''checked'' (i_isDefault s) @ [(''onCheckedChange'', ''setIsDefault'')]) []]]"

definition form_alert :: "msg option \<Rightarrow> view list" where
  "form_alert m = shown_msg m (\<lambda>m. [El ''p'' [(''role'', ''alert'')] [Txt m]])"

definition IntegrationDrawer :: "idrawer_props \<Rightarrow> idrawer \<Rightarrow> view" where
  "IntegrationDrawer p s =
     (let create = (ip_mode p = Create)
      in El ''Sheet'' ((''onOpenChange'', ''onOpenChange'') # flag ''open'' (ip_open p))
        [El ''SheetPopup'' [(''side'', ''right'')]
          [El ''SheetHeader'' []
             [El ''SheetTitle'' [] [tx (if create then ''integrations.createTitle'' else ''integrations.editTitle'')],
              El ''SheetDescription'' [] [tx (if create then ''integrations.createDescription'' else ''integrations.editDescription'')]],
           El ''form'' [(''onSubmit'', ''handleSubmit'')]
             [El ''SheetPanel'' []
                (form_alert (i_formError s) @
                 [i_kind_field p s,
                  El ''Field'' [(''name'', ''name'')]
                    [El ''FieldLabel'' [] [tx ''integrations.name'', lit '' '', El ''span'' [(''aria-hidden'', ''true'')] [lit ''*'']],
                     El ''Input'' [(''name'', ''name''), (''onChange'', ''setName''), (''required'', ''true''), (''value'', i_name s)] []]] @
                 shown_if (i_requiresBaseUrl p s) [i_baseUrl_field p s] @
                 shown_if (i_showEmail p s) [i_email_field p s] @
                 [i_secret_field p s] @
                 shown_if (i_isSourceKind p s) [i_default_field s]),
              El ''SheetFooter'' [(''variant'', ''bare'')]
                (shown_if (ip_mode p = Edit \<and> ip_integration p \<noteq> None)
                   [Button False False [(''onClick'', ''handleTestConnection''), (''type'', ''button''), (''variant'', ''outline'')]
                      [tx ''integrations.testConnection'']] @
                 [El ''SheetClose'' [(''variant'', ''ghost''), (''type'', ''button'')] [tx ''common.cancel''],
                  Button (ip_isSaving p) False [(''type'', ''submit'')] [tx ''common.save'']])]]])"


subsection \<open>What the drawer saves\<close>

definition i_check :: "idrawer_props \<Rightarrow> idrawer \<Rightarrow> msg option" where
  "i_check p s =
     (let secret = js_trim (i_secret s); email = js_trim (i_email s); url = js_trim (i_baseUrl s) in
      first_error
        [(js_trim (i_name s) = [], t0 ''integrations.validation.nameRequired''),
         (i_requiresBaseUrl p s \<and> url = [], t0 ''integrations.validation.baseUrlRequired''),
         (i_showEmail p s \<and> ip_mode p = Create \<and> email = [], t0 ''integrations.validation.emailRequired''),
         (i_showEmail p s \<and> ip_mode p = Edit \<and> secret \<noteq> [] \<and> email = [], t0 ''integrations.validation.emailRequiredForNewToken''),
         (secretRequired p s \<and> secret = [], t0 ''integrations.validation.secretRequired''),
         (ip_mode p = Edit \<and> i_requiresBaseUrl p s \<and> secret = [] \<and>
            normalizeBaseUrl url \<noteq> normalizeBaseUrl (stored_base_url p), t0 ''integrations.validation.secretRequiredForBaseUrlChange'')])"

definition i_saves :: "idrawer_props \<Rightarrow> idrawer \<Rightarrow> mutation option" where
  "i_saves p s =
     (let secret = js_trim (i_secret s);
          text = Str (buildIntegrationSecret (activeKind p s) secret (Some (js_trim (i_email s))));
          common = (\<lambda>none. [(''name'', Str (js_trim (i_name s))),
             (''baseUrl'', if i_requiresBaseUrl p s then Str (js_trim (i_baseUrl s)) else Null),
             (''secret'', if secret = [] then none else text)] @ entry_if (i_isSourceKind p s) ''isDefault'' (Bool (i_isDefault s)))
      in if ip_mode p = Create then Some (createIntegration (Obj ((''kind'', Str (activeKind p s)) # common (Str []))))
         else map_option (\<lambda>i. updateIntegration (intg_id i) (Obj (common Null))) (ip_integration p))"

lemma error_irrelevant [simp]:
  "activeKind p (s\<lparr>i_formError := m\<rparr>) = activeKind p s"
  "i_requiresBaseUrl p (s\<lparr>i_formError := m\<rparr>) = i_requiresBaseUrl p s"
  "i_showEmail p (s\<lparr>i_formError := m\<rparr>) = i_showEmail p s"
  "i_isSourceKind p (s\<lparr>i_formError := m\<rparr>) = i_isSourceKind p s"
  "secretRequired p (s\<lparr>i_formError := m\<rparr>) = secretRequired p s"
  by (simp_all add: activeKind_def i_requiresBaseUrl_def i_showEmail_def i_isSourceKind_def secretRequired_def split: option.split)

lemma i_submit_cases:
  "i_handleSubmit p s =
     (s\<lparr>i_formError := i_check p s\<rparr>,
      if i_check p s = None then (case i_saves p s of None \<Rightarrow> [] | Some m \<Rightarrow> [Mutate m]) else [])"
  by (simp add: i_handleSubmit_def i_check_def i_saves_def Let_def split: option.splits) blast

interpretation integration_form: form_submit "i_check p" "i_saves p" "i_handleSubmit p" i_formError for p
  by unfold_locales (auto simp: i_submit_cases split: option.splits)

text \<open>The rules of the form, independent of the order in which the handler tests them.\<close>

definition i_valid :: "idrawer_props \<Rightarrow> idrawer \<Rightarrow> bool" where
  "i_valid p s \<longleftrightarrow>
     (let kind = activeKind p s; secret = js_trim (i_secret s); email = js_trim (i_email s); url = js_trim (i_baseUrl s) in
      js_trim (i_name s) \<noteq> [] \<and>
      (kind = ''jira'' \<and> (ip_mode p = Create \<or> secret \<noteq> []) \<longrightarrow> email \<noteq> []) \<and>
      (secret = [] \<longrightarrow> kindTokenOptional kind \<or> ip_mode p = Edit \<and> hasSecret p) \<and>
      (kindRequiresBaseUrl kind \<longrightarrow> url \<noteq> [] \<and>
         (secret = [] \<and> ip_mode p = Edit \<longrightarrow> normalizeBaseUrl url = normalizeBaseUrl (stored_base_url p))))"

lemma mode_cases: "m = Create \<or> m = Edit"
  by (cases m) simp_all

lemma i_check_valid: "i_check p s = None \<longleftrightarrow> i_valid p s"
  using mode_cases [of "ip_mode p"]
  by (auto simp: i_check_def i_valid_def Let_def first_error_None i_requiresBaseUrl_def i_showEmail_def
      kindIsJira_def secretRequired_def)

text \<open>The integration drawer saves exactly the valid forms: a submit sends its one create or
  update request when name, base URL, Jira e-mail and token satisfy the rules of the kind, and
  otherwise shows an error and sends nothing; editing without an integration sends nothing.\<close>

theorem integration_submit_valid:
  "mutations (snd (i_handleSubmit p s)) =
     (if i_valid p s then (case i_saves p s of None \<Rightarrow> [] | Some m \<Rightarrow> [m]) else []) \<and>
   (i_formError (fst (i_handleSubmit p s)) = None \<longleftrightarrow> i_valid p s)"
  using integration_form.sends [of p s] integration_form.shows_error [of p s] by (simp add: i_check_valid)

text \<open>C5: A stored token never goes to another server unasked: when an edit keeps the stored secret
  and sends a base URL, that URL is the stored one up to surrounding blanks and trailing slashes;
  pointing the integration at a different URL needs the token again.\<close>

theorem base_url_change_needs_secret:
  assumes "ip_mode p = Edit" and "m \<in> set (mutations (snd (i_handleSubmit p s)))"
    and "opt_prop (mu_body m) ''secret'' = Null" and "opt_prop (mu_body m) ''baseUrl'' = Str u"
  shows "normalizeBaseUrl u = normalizeBaseUrl (stored_base_url p)"
proof -
  have valid: "i_valid p s" and saves: "i_saves p s = Some m"
    using integration_form.sent_is_checked [OF assms(2)] by (simp_all add: i_check_valid)
  from saves assms(1) have "opt_prop (mu_body m) ''secret'' =
      (if js_trim (i_secret s) = [] then Null
       else Str (buildIntegrationSecret (activeKind p s) (js_trim (i_secret s)) (Some (js_trim (i_email s)))))"
    and "opt_prop (mu_body m) ''baseUrl'' = (if i_requiresBaseUrl p s then Str (js_trim (i_baseUrl s)) else Null)"
    by (auto simp: i_saves_def Let_def opt_prop_def updateIntegration_def patch_m_def)
  then have "js_trim (i_secret s) = []" "i_requiresBaseUrl p s" "u = js_trim (i_baseUrl s)"
    using assms(3,4) by (simp_all split: if_splits)
  then show ?thesis
    using valid assms(1) by (auto simp: i_valid_def Let_def i_requiresBaseUrl_def)
qed

definition sample_gitlab :: integration where
  "sample_gitlab = \<lparr>intg_id = ''i1'', intg_kind = ''gitlab'', intg_name = ''GL'', intg_base_url = Some ''https://gl.example/'',
     intg_has_secret = True, intg_is_default = False, intg_created_at = [], intg_updated_at = []\<rparr>"

theorem base_url_change_needs_secret_witness:
  "\<exists>m. mutations (snd (i_handleSubmit \<lparr>ip_mode = Edit, ip_integration = Some sample_gitlab, ip_open = True, ip_isSaving = False\<rparr>
           (idrawer_init\<lparr>i_name := ''GL'', i_baseUrl := ''https://gl.example''\<rparr>))) = [m] \<and>
    normalizeBaseUrl ''https://gl.example'' = normalizeBaseUrl ''https://gl.example/''"
proof -
  let ?p = "\<lparr>ip_mode = Edit, ip_integration = Some sample_gitlab, ip_open = True, ip_isSaving = False\<rparr>"
  let ?s = "idrawer_init\<lparr>i_name := ''GL'', i_baseUrl := ''https://gl.example''\<rparr>"
  let ?m = "updateIntegration ''i1'' (Obj [(''name'', Str ''GL''), (''baseUrl'', Str ''https://gl.example''), (''secret'', Null), (''isDefault'', Bool False)])"
  have m: "mutations (snd (i_handleSubmit ?p ?s)) = [?m]" by code_simp
  have stored: "stored_base_url ?p = ''https://gl.example/''" by (simp add: stored_base_url_def sample_gitlab_def)
  have "normalizeBaseUrl ''https://gl.example'' = normalizeBaseUrl (stored_base_url ?p)"
    by (rule base_url_change_needs_secret [of ?p ?m ?s])
       (simp_all add: m, simp_all add: opt_prop_def updateIntegration_def patch_m_def)
  then show ?thesis using m stored by simp
qed

end
