(* ===== verification/Effects.thy ===== *)
theory Effects
  imports Prelude
begin

section \<open>Effects that feed each other\<close>

text \<open>
  After a render, React runs the effects whose dependencies changed since the render before, each
  with the values of its own render; their setters give the next render. \<open>round prev p s\<close> is the
  state after the effects of the render of \<open>(p, s)\<close> when the render before was \<open>prev\<close>, \<open>quiet\<close> says
  that none of them fires, and \<open>settle\<close> follows the rounds until then, with a bound on their number.
\<close>

fun settle ::
  "('p \<times> 's \<Rightarrow> 'p \<Rightarrow> 's \<Rightarrow> bool) \<Rightarrow> ('p \<times> 's \<Rightarrow> 'p \<Rightarrow> 's \<Rightarrow> 's) \<Rightarrow> nat \<Rightarrow> 'p \<times> 's \<Rightarrow> 'p \<Rightarrow> 's \<Rightarrow> 's option" where
  "settle quiet round 0 prev p s = None"
| "settle quiet round (Suc n) prev p s =
     (if quiet prev p s then Some s else settle quiet round n (p, s) p (round prev p s))"

lemma settle_quiet: "quiet prev p s \<Longrightarrow> settle quiet round (Suc n) prev p s = Some s"
  by simp

lemma settle_round: "\<not> quiet prev p s \<Longrightarrow>
    settle quiet round (Suc n) prev p s = settle quiet round n (p, s) p (round prev p s)"
  by simp

text \<open>What every round hands on, and every quiet render has, the settled state has.\<close>

locale effect_rounds =
  fixes quiet :: "'p \<times> 's \<Rightarrow> 'p \<Rightarrow> 's \<Rightarrow> bool"
    and round :: "'p \<times> 's \<Rightarrow> 'p \<Rightarrow> 's \<Rightarrow> 's"
    and inv :: "'p \<times> 's \<Rightarrow> 'p \<Rightarrow> 's \<Rightarrow> bool"
    and good :: "'p \<Rightarrow> 's \<Rightarrow> bool"
  assumes round_inv: "inv prev p s \<Longrightarrow> inv (p, s) p (round prev p s)"
    and quiet_good: "inv prev p s \<Longrightarrow> quiet prev p s \<Longrightarrow> good p s"
begin

lemma settled_good: "inv prev p s \<Longrightarrow> settle quiet round n prev p s = Some s' \<Longrightarrow> good p s'"
proof (induction n arbitrary: prev s)
  case (Suc n)
  then show ?case
    using round_inv [OF Suc.prems(1)] quiet_good [OF Suc.prems(1)]
    by (cases "quiet prev p s") (auto simp: settle_round settle_quiet)
qed simp

end

end
