(* ===== verification/Repo_Dialog.thy ===== *)
theory Repo_Dialog
  imports Integration_Drawer Effects
begin

section \<open>The repository dialog (\<open>components/repos/repo-dialog.tsx\<close>)\<close>

text \<open>
  Adding and editing a monitored repository. The source credential is chosen by three effects that
  feed each other: the reset when the dialog opens, the clearing of a credential of another kind,
  and the preselection of the kind's default. React runs, after a render, the effects whose
  dependencies changed since the render before, each with the values of its own render; their
  setters give the next render. \<open>rd_settle\<close> follows those rounds until no effect fires.
\<close>

record rdialog_props =
  rp_mode :: drawer_mode
  rp_repo :: "repo option"
  rp_integrations :: "integration list"
  rp_ticketProjects :: "ticket_project list"
  rp_targets :: "notification_target list"
  rp_open :: bool
  rp_isSaving :: bool

record rdialog =
  r_sourceKind :: string
  r_projectPath :: string
  r_ticketProjectId :: string
  r_sourceIntegrationId :: string
  r_integrationChosen :: bool
  r_resetCount :: nat
  r_notificationTargetIds :: "string list"
  r_enabled :: bool
  r_includePrereleases :: bool
  r_formError :: "msg option"

definition rdialog_init :: rdialog where
  "rdialog_init =
     \<lparr>r_sourceKind = ''github'', r_projectPath = [], r_ticketProjectId = [], r_sourceIntegrationId = [],
      r_integrationChosen = False, r_resetCount = 0, r_notificationTargetIds = [], r_enabled = True,
      r_includePrereleases = False, r_formError = None\<rparr>"

text \<open>What a render derives. An option of a select is its label and its value.\<close>

definition requiresIntegration where
  "requiresIntegration s = sourceKindRequiresIntegration (r_sourceKind s)"

definition sourceIntegrationItems :: "rdialog_props \<Rightarrow> rdialog \<Rightarrow> (msg \<times> string) list" where
  "sourceIntegrationItems p s =
     map (\<lambda>i. (Raw (intg_name i), intg_id i)) (filter (\<lambda>i. intg_kind i = r_sourceKind s) (rp_integrations p))"

definition defaultIntegrationId :: "rdialog_props \<Rightarrow> rdialog \<Rightarrow> string" where
  "defaultIntegrationId p s =
     (case find (\<lambda>i. intg_kind i = r_sourceKind s \<and> intg_is_default i) (rp_integrations p) of
        None \<Rightarrow> [] | Some i \<Rightarrow> intg_id i)"

definition integrationSelectItems :: "rdialog_props \<Rightarrow> rdialog \<Rightarrow> (msg \<times> string) list" where
  "integrationSelectItems p s =
     (if \<not> requiresIntegration s then (t0 ''repos.sourceIntegrationNone'', []) # sourceIntegrationItems p s
      else sourceIntegrationItems p s)"

definition enabledNotificationTargets :: "rdialog_props \<Rightarrow> notification_target list" where
  "enabledNotificationTargets p = filter nt_enabled (rp_targets p)"

subsection \<open>The effects\<close>

text \<open>The first effect does not read the state; the others read that of their render, \<open>s\<close>, and
  update the current one, \<open>c\<close>.\<close>

definition reset_effect :: "rdialog_props \<Rightarrow> rdialog \<Rightarrow> rdialog" where
  "reset_effect p c =
     (if \<not> rp_open p then c
      else (let c' = c\<lparr>r_formError := None, r_integrationChosen := False, r_resetCount := r_resetCount c + 1\<rparr>
            in case (rp_mode p, rp_repo p) of
                 (Edit, Some r) \<Rightarrow>
                   c'\<lparr>r_sourceKind := repo_source_kind r, r_projectPath := repo_project_path r,
                      r_ticketProjectId := repo_ticket_project_id r,
                      r_sourceIntegrationId := (case repo_source_integration_id r of None \<Rightarrow> [] | Some i \<Rightarrow> i),
                      r_notificationTargetIds := repo_notification_target_ids r,
                      r_enabled := repo_enabled r, r_includePrereleases := repo_include_prereleases r\<rparr>
               | _ \<Rightarrow>
                   c'\<lparr>r_sourceKind := ''github'', r_projectPath := [],
                      r_ticketProjectId := (case rp_ticketProjects p of [] \<Rightarrow> [] | tp # _ \<Rightarrow> tp_id tp),
                      r_sourceIntegrationId := [], r_notificationTargetIds := [],
                      r_enabled := True, r_includePrereleases := False\<rparr>))"

definition clear_effect :: "rdialog_props \<Rightarrow> rdialog \<Rightarrow> rdialog \<Rightarrow> rdialog" where
  "clear_effect p s c =
     (if r_sourceIntegrationId s \<noteq> [] \<and> r_sourceIntegrationId s \<notin> set (map snd (sourceIntegrationItems p s))
      then c\<lparr>r_sourceIntegrationId := []\<rparr> else c)"

definition default_effect :: "rdialog_props \<Rightarrow> rdialog \<Rightarrow> rdialog \<Rightarrow> rdialog" where
  "default_effect p s c =
     (if \<not> rp_open p \<or> rp_mode p \<noteq> Create \<or> r_integrationChosen s then c
      else c\<lparr>r_sourceIntegrationId := defaultIntegrationId p s\<rparr>)"

definition reset_deps where "reset_deps p = (rp_open p, rp_mode p, rp_repo p, rp_ticketProjects p)"
definition clear_deps where
  "clear_deps p s = (r_sourceKind s, r_sourceIntegrationId s, sourceIntegrationItems p s)"
definition default_deps where
  "default_deps p s = (rp_open p, rp_mode p, r_integrationChosen s, defaultIntegrationId p s, r_resetCount s)"

text \<open>One round: the effects that fire after the render of \<open>(p, s)\<close>, given the render before.\<close>

definition rd_round :: "rdialog_props \<times> rdialog \<Rightarrow> rdialog_props \<Rightarrow> rdialog \<Rightarrow> rdialog" where
  "rd_round prev p s =
     (let (p0, s0) = prev;
          c1 = (if reset_deps p0 \<noteq> reset_deps p then reset_effect p s else s);
          c2 = (if clear_deps p0 s0 \<noteq> clear_deps p s then clear_effect p s c1 else c1)
      in if default_deps p0 s0 \<noteq> default_deps p s then default_effect p s c2 else c2)"

definition rd_quiet :: "rdialog_props \<times> rdialog \<Rightarrow> rdialog_props \<Rightarrow> rdialog \<Rightarrow> bool" where
  "rd_quiet prev p s \<longleftrightarrow>
     (let (p0, s0) = prev
      in reset_deps p0 = reset_deps p \<and> clear_deps p0 s0 = clear_deps p s \<and> default_deps p0 s0 = default_deps p s)"

abbreviation rd_settle where "rd_settle \<equiv> settle rd_quiet rd_round"

subsection \<open>Handlers\<close>

definition pickSourceKind :: "string option \<Rightarrow> rdialog \<Rightarrow> rdialog" where
  "pickSourceKind v s = (case v of None \<Rightarrow> s | Some k \<Rightarrow> s\<lparr>r_sourceKind := k, r_integrationChosen := False\<rparr>)"

definition pickTicketProject :: "string option \<Rightarrow> rdialog \<Rightarrow> rdialog" where
  "pickTicketProject v s = (case v of None \<Rightarrow> s | Some i \<Rightarrow> s\<lparr>r_ticketProjectId := i\<rparr>)"

definition pickSourceIntegration :: "string option \<Rightarrow> rdialog \<Rightarrow> rdialog" where
  "pickSourceIntegration v s =
     (case v of None \<Rightarrow> s | Some i \<Rightarrow> s\<lparr>r_sourceIntegrationId := i, r_integrationChosen := True\<rparr>)"

definition rd_payload :: "rdialog \<Rightarrow> jsval" where
  "rd_payload s =
     Obj [(''sourceKind'', Str (r_sourceKind s)),
          (''projectPath'', Str (js_trim (r_projectPath s))),
          (''enabled'', Bool (r_enabled s)),
          (''includePrereleases'', Bool (r_includePrereleases s)),
          (''sourceIntegrationId'', if r_sourceIntegrationId s \<noteq> [] then Str (r_sourceIntegrationId s) else Null),
          (''ticketProjectId'', Str (r_ticketProjectId s)),
          (''notificationTargetIds'', Arr (map Str (r_notificationTargetIds s)))]"

definition rd_handleSubmit :: "rdialog_props \<Rightarrow> rdialog \<Rightarrow> rdialog \<times> command list" where
  "rd_handleSubmit p s0 =
     (let s = s0\<lparr>r_formError := None\<rparr>;
          fail = (\<lambda>m. (s\<lparr>r_formError := Some (t0 m)\<rparr>, []))
      in if js_trim (r_projectPath s) = [] then fail ''repos.validation.projectPathRequired''
         else if r_ticketProjectId s = [] then fail ''repos.validation.ticketProjectRequired''
         else if requiresIntegration s \<and> r_sourceIntegrationId s = [] then fail ''repos.validation.sourceIntegrationRequired''
         else (s, if rp_mode p = Create then [Mutate (createRepo (rd_payload s))]
                  else (case rp_repo p of None \<Rightarrow> [] | Some r \<Rightarrow> [Mutate (updateRepo (repo_id r) (rd_payload s))])))"

definition rd_saved :: "jsval js_result \<Rightarrow> rdialog \<Rightarrow> rdialog \<times> bool" where
  "rd_saved r s =
     (case r of Inr _ \<Rightarrow> (s, True)
              | Inl e \<Rightarrow> (s\<lparr>r_formError := Some (save_error (t0 ''repos.saveFailed'') e)\<rparr>, False))"


subsection \<open>The view\<close>

definition option_items :: "(msg \<times> string) list \<Rightarrow> view list" where
  "option_items its =
     map (\<lambda>i. El ''SelectItem'' [(''key'', if snd i = [] then ''__none__'' else snd i), (''value'', snd i)] [Txt (fst i)]) its"

definition select_view :: "string \<Rightarrow> string option \<Rightarrow> string \<Rightarrow> (msg \<times> string) list \<Rightarrow> view" where
  "select_view handler selected placeholder its =
     El ''Select'' ((''onValueChange'', handler) # attr_opt ''value'' selected)
       [El ''SelectTrigger'' [] [El ''SelectValue'' [] [tx placeholder]], El ''SelectPopup'' [] (option_items its)]"

definition found :: "string \<Rightarrow> (msg \<times> string) list \<Rightarrow> string option" where
  "found v its = map_option snd (find (\<lambda>i. snd i = v) its)"

definition sourceKindItems :: "(msg \<times> string) list" where
  "sourceKindItems = map (\<lambda>k. (t0 (''integrations.kinds.'' @ k), k)) SOURCE_KINDS"

definition ticketProjectItems :: "rdialog_props \<Rightarrow> (msg \<times> string) list" where
  "ticketProjectItems p = map (\<lambda>tp. (Raw (tp_name tp), tp_id tp)) (rp_ticketProjects p)"

definition switch_field :: "string \<Rightarrow> string \<Rightarrow> string \<Rightarrow> bool \<Rightarrow> string \<Rightarrow> view" where
  "switch_field name label hint checked handler =
     El ''Field'' [(''name'', name)]
       [El ''div'' []
          [El ''div'' [] [El ''FieldLabel'' [] [tx label], El ''FieldDescription'' [] [tx hint]],
           El ''Switch'' (flag ''checked'' checked @ [(''onCheckedChange'', handler)]) []]]"

definition rd_integration_field :: "rdialog_props \<Rightarrow> rdialog \<Rightarrow> view" where
  "rd_integration_field p s =
     (let its = sourceIntegrationItems p s; sel = integrationSelectItems p s; req = requiresIntegration s
      in El ''Field'' [(''name'', ''sourceIntegrationId'')]
        ([El ''FieldLabel'' [] [tx ''repos.sourceIntegration'']] @
         shown_if (\<not> req) [El ''FieldDescription'' [] [tx ''repos.sourceIntegrationOptionalHint'']] @
         (if req \<and> length its = 0 then
            [El ''p'' [] [Txt (T ''repos.noSourceIntegrations'' [(''kind'', ''integrations.kinds.'' @ r_sourceKind s)])]]
          else if length its = 0 then []
          else [select_view ''pickSourceIntegration''
                  (case found (r_sourceIntegrationId s) sel of
                     Some v \<Rightarrow> Some v | None \<Rightarrow> if req then None else found [] sel)
                  (if req then ''repos.sourceIntegrationPlaceholder'' else ''repos.sourceIntegrationOptionalPlaceholder'')
                  sel])))"

definition rd_targets_field :: "rdialog_props \<Rightarrow> rdialog \<Rightarrow> view" where
  "rd_targets_field p s =
     El ''Field'' [(''name'', ''notificationTargets'')]
       [El ''FieldLabel'' [] [tx ''repos.notificationTargets''],
        El ''FieldDescription'' [] [tx ''repos.notificationTargetsHint''],
        El ''CheckboxGroup'' [(''onValueChange'', ''setNotificationTargetIds''), (''value'', join_with '','' (r_notificationTargetIds s))]
          (map (\<lambda>n. El ''Label'' [(''key'', nt_id n)] [El ''Checkbox'' [(''value'', nt_id n)] [], lit (nt_name n)])
             (enabledNotificationTargets p))]"

definition RepoDialog :: "rdialog_props \<Rightarrow> rdialog \<Rightarrow> view" where
  "RepoDialog p s =
     (let create = (rp_mode p = Create)
      in El ''Dialog'' ((''onOpenChange'', ''onOpenChange'') # flag ''open'' (rp_open p))
        [El ''DialogPopup'' []
          [El ''DialogHeader'' []
             [El ''DialogTitle'' [] [tx (if create then ''repos.createTitle'' else ''repos.editTitle'')],
              El ''DialogDescription'' [] [tx (if create then ''repos.createDescription'' else ''repos.editDescription'')]],
           El ''form'' [(''onSubmit'', ''handleSubmit'')]
             [El ''DialogPanel'' []
                (form_alert (r_formError s) @
                 shown_if (length (rp_ticketProjects p) = 0) [El ''p'' [] [tx ''repos.noTicketProjects'']] @
                 [El ''Field'' [(''name'', ''sourceKind'')]
                    [El ''FieldLabel'' [] [tx ''repos.sourceKind''],
                     select_view ''pickSourceKind'' (found (r_sourceKind s) sourceKindItems) ''repos.sourceKindPlaceholder'' sourceKindItems],
                  El ''Field'' [(''name'', ''projectPath'')]
                    [El ''FieldLabel'' [] [tx ''repos.projectPath'', lit '' '', El ''span'' [(''aria-hidden'', ''true'')] [lit ''*'']],
                     El ''Input'' [(''name'', ''projectPath''), (''onChange'', ''setProjectPath''), (''required'', ''true''), (''value'', r_projectPath s)]
                       [tx ''repos.projectPathPlaceholder''],
                     El ''FieldDescription'' [] [tx ''repos.projectPathHint'']],
                  El ''Field'' [(''name'', ''ticketProjectId'')]
                    [El ''FieldLabel'' [] [tx ''repos.ticketProject''],
                     select_view ''pickTicketProject'' (found (r_ticketProjectId s) (ticketProjectItems p))
                       ''repos.ticketProjectPlaceholder'' (ticketProjectItems p)],
                  rd_integration_field p s] @
                 shown_if (length (enabledNotificationTargets p) > 0) [rd_targets_field p s] @
                 [switch_field ''enabled'' ''repos.enabled'' ''repos.enabledHint'' (r_enabled s) ''setEnabled'',
                  switch_field ''includePrereleases'' ''repos.includePrereleases'' ''repos.includePrereleasesHint''
                    (r_includePrereleases s) ''setIncludePrereleases'']),
              El ''DialogFooter'' [(''variant'', ''bare'')]
                [El ''DialogClose'' [(''variant'', ''ghost''), (''type'', ''button'')] [tx ''common.cancel''],
                 Button (rp_isSaving p) (length (rp_ticketProjects p) = 0) [(''type'', ''submit'')] [tx ''common.save'']]]]])"

subsection \<open>The effects settle\<close>

text \<open>The credential belongs to the kind, or is none; and an untouched new form shows the default.\<close>

definition belongs :: "rdialog_props \<Rightarrow> rdialog \<Rightarrow> bool" where
  "belongs p s \<longleftrightarrow> r_sourceIntegrationId s = [] \<or> r_sourceIntegrationId s \<in> set (map snd (sourceIntegrationItems p s))"

definition untouched :: "rdialog_props \<Rightarrow> rdialog \<Rightarrow> bool" where
  "untouched p s \<longleftrightarrow> rp_open p \<and> rp_mode p = Create \<and> \<not> r_integrationChosen s"

definition preselected :: "rdialog_props \<Rightarrow> rdialog \<Rightarrow> bool" where
  "preselected p s \<longleftrightarrow> (untouched p s \<longrightarrow> r_sourceIntegrationId s = defaultIntegrationId p s)"

lemma default_belongs: "defaultIntegrationId p s = [] \<or> defaultIntegrationId p s \<in> set (map snd (sourceIntegrationItems p s))"
  by (auto simp: defaultIntegrationId_def sourceIntegrationItems_def find_Some_iff image_iff split: option.splits)
     (metis nth_mem)


lemma rd_round_eq:
  "rd_round prev p s =
     (let c1 = (if reset_deps (fst prev) \<noteq> reset_deps p then reset_effect p s else s);
          c2 = (if clear_deps (fst prev) (snd prev) \<noteq> clear_deps p s then clear_effect p s c1 else c1)
      in if default_deps (fst prev) (snd prev) \<noteq> default_deps p s then default_effect p s c2 else c2)"
  by (cases prev) (simp add: rd_round_def)

text \<open>Without the reset, a round only changes the credential.\<close>

lemma round_same_props:
  "rd_round (p, s0) p s =
     s\<lparr>r_sourceIntegrationId :=
        (if default_deps p s0 \<noteq> default_deps p s \<and> untouched p s then defaultIntegrationId p s
         else if clear_deps p s0 \<noteq> clear_deps p s \<and> \<not> belongs p s then []
         else r_sourceIntegrationId s)\<rparr>"
  by (auto simp: rd_round_def Let_def clear_effect_def default_effect_def untouched_def belongs_def)

lemma credential_only [simp]:
  "sourceIntegrationItems p (s\<lparr>r_sourceIntegrationId := i\<rparr>) = sourceIntegrationItems p s"
  "defaultIntegrationId p (s\<lparr>r_sourceIntegrationId := i\<rparr>) = defaultIntegrationId p s"
  "default_deps p (s\<lparr>r_sourceIntegrationId := i\<rparr>) = default_deps p s"
  "untouched p (s\<lparr>r_sourceIntegrationId := i\<rparr>) = untouched p s"
  by (simp_all add: sourceIntegrationItems_def defaultIntegrationId_def default_deps_def untouched_def)

lemma settle_clear:
  assumes "default_deps p s0 = default_deps p s"
  shows "rd_settle 3 (p, s0) p s \<noteq> None"
proof -
  let ?s1 = "rd_round (p, s0) p s" and ?s2 = "rd_round (p, s) p (rd_round (p, s0) p s)"
  obtain i where s1: "?s1 = s\<lparr>r_sourceIntegrationId := i\<rparr>" and i: "i = [] \<or> i = r_sourceIntegrationId s"
    unfolding round_same_props using assms by (auto split: if_splits)
  have "?s2 = ?s1"
    unfolding round_same_props [of p s] using i by (auto simp: s1 clear_deps_def belongs_def)
  then have "rd_quiet (p, ?s1) p ?s2"
    by (simp add: rd_quiet_def)
  then show ?thesis by (simp add: numeral_3_eq_3)
qed

lemma settle_same_props: "rd_settle 4 (p, s0) p s \<noteq> None"
proof (cases "rd_quiet (p, s0) p s")
  case False
  have "default_deps p s = default_deps p (rd_round (p, s0) p s)"
    unfolding round_same_props by simp
  then have "rd_settle 3 (p, s) p (rd_round (p, s0) p s) \<noteq> None" by (rule settle_clear)
  moreover have "rd_settle (Suc 3) (p, s0) p s = rd_settle 3 (p, s) p (rd_round (p, s0) p s)"
    using False by (simp only: settle.simps if_False)
  ultimately show ?thesis by simp
qed (metis numeral_Bit0 settle_quiet option.distinct(1) numeral_eq_Suc)

lemma settles: "\<exists>s'. rd_settle 5 prev p s = Some s'"
proof (cases "rd_quiet prev p s")
  case True
  then show ?thesis using settle_quiet [of rd_quiet prev p s rd_round 4] by (simp add: numeral_eq_Suc)
next
  case False
  then have "rd_settle (Suc 4) prev p s = rd_settle 4 (p, s) p (rd_round prev p s)"
    by (simp only: settle.simps if_False)
  then show ?thesis using settle_same_props [of p s "rd_round prev p s"] by (simp add: numeral_eq_Suc)
qed

definition pair_inv :: "rdialog_props \<times> rdialog \<Rightarrow> rdialog_props \<Rightarrow> rdialog \<Rightarrow> bool" where
  "pair_inv prev p s \<longleftrightarrow>
     (clear_deps (fst prev) (snd prev) = clear_deps p s \<longrightarrow> belongs p s) \<and>
     (default_deps (fst prev) (snd prev) = default_deps p s \<longrightarrow> preselected p s)"

lemma reset_count: "rp_open p \<Longrightarrow> r_resetCount (reset_effect p c) = Suc (r_resetCount c)"
  by (auto simp: reset_effect_def Let_def split: drawer_mode.splits option.splits)

lemma later_effects [simp]:
  "r_resetCount (clear_effect p s c) = r_resetCount c" "r_resetCount (default_effect p s c) = r_resetCount c"
  by (simp_all add: clear_effect_def default_effect_def)

lemma belongs_cong: "clear_deps p s = clear_deps p' s' \<Longrightarrow> belongs p s = belongs p' s'"
  by (simp add: clear_deps_def belongs_def)


lemma round_belongs:
  assumes inv: "pair_inv prev p s" and same: "clear_deps p s = clear_deps p (rd_round prev p s)"
  shows "belongs p (rd_round prev p s)"
proof -
  let ?s' = "rd_round prev p s"
  have "belongs p s"
  proof (cases "clear_deps (fst prev) (snd prev) = clear_deps p s")
    case True
    then show ?thesis using inv by (simp add: pair_inv_def)
  next
    case False
    show ?thesis
    proof (rule ccontr)
      assume no: "\<not> belongs p s"
      let ?c = "if reset_deps (fst prev) \<noteq> reset_deps p then reset_effect p s else s"
      have "r_sourceIntegrationId (clear_effect p s ?c) = []"
        using no by (auto simp: clear_effect_def belongs_def)
      then have "r_sourceIntegrationId ?s' = [] \<or> r_sourceIntegrationId ?s' = defaultIntegrationId p s"
        using False by (simp add: rd_round_eq Let_def default_effect_def)
      then have "r_sourceIntegrationId ?s' = [] \<or> r_sourceIntegrationId ?s' \<in> set (map snd (sourceIntegrationItems p s))"
        using default_belongs [of p s] by metis
      then have "belongs p (s\<lparr>r_sourceIntegrationId := r_sourceIntegrationId ?s'\<rparr>)"
        by (simp add: belongs_def)
      moreover have "r_sourceIntegrationId ?s' = r_sourceIntegrationId s" using same by (simp add: clear_deps_def)
      ultimately show False using no by simp
    qed
  qed
  then show ?thesis using belongs_cong [OF same] by simp
qed

lemma round_preselected:
  assumes inv: "pair_inv prev p s" and same: "default_deps p s = default_deps p (rd_round prev p s)"
  shows "preselected p (rd_round prev p s)"
proof (cases "untouched p s")
  case False
  then have "\<not> untouched p (rd_round prev p s)" using same by (simp add: untouched_def default_deps_def)
  then show ?thesis by (simp add: preselected_def)
next
  case True
  let ?s' = "rd_round prev p s"
  have no_reset: "reset_deps (fst prev) = reset_deps p"
  proof (rule ccontr)
    assume "reset_deps (fst prev) \<noteq> reset_deps p"
    then have "r_resetCount ?s' = Suc (r_resetCount s)"
      using True by (simp add: rd_round_eq Let_def reset_count untouched_def)
    then show False using same by (simp add: default_deps_def)
  qed
  have dflt: "defaultIntegrationId p ?s' = defaultIntegrationId p s" using same by (simp add: default_deps_def)
  have "r_sourceIntegrationId ?s' = defaultIntegrationId p s"
  proof (cases "default_deps (fst prev) (snd prev) = default_deps p s")
    case False
    then show ?thesis
      using True by (simp add: rd_round_eq Let_def default_effect_def untouched_def)
  next
    case nofire: True
    then have "r_sourceIntegrationId s = defaultIntegrationId p s"
      using inv \<open>untouched p s\<close> by (simp add: pair_inv_def preselected_def)
    moreover have "clear_effect p s s = s"
      using calculation default_belongs [of p s] by (auto simp: clear_effect_def)
    ultimately show ?thesis
      using nofire no_reset by (simp add: rd_round_eq Let_def)
  qed
  then show ?thesis using dflt by (simp add: preselected_def)
qed

interpretation repo_effects: effect_rounds rd_quiet rd_round pair_inv "\<lambda>p s. belongs p s \<and> preselected p s"
proof
  show "pair_inv (p, s) p (rd_round prev p s)" if "pair_inv prev p s" for prev p s
    using round_belongs [OF that] round_preselected [OF that] by (simp add: pair_inv_def)
  show "belongs p s \<and> preselected p s" if "pair_inv prev p s" "rd_quiet prev p s" for prev p s
    using that by (simp add: pair_inv_def rd_quiet_def split: prod.splits)
qed

subsection \<open>Runs of the dialog\<close>

datatype rd_event =
    Props rdialog_props
  | Pick_Kind "string option"
  | Pick_Integration "string option"
  | Pick_Project "string option"
  | Type_Path string
  | Set_Targets "string list"
  | Set_Enabled bool
  | Set_Prereleases bool
  | Submit_Form
  | Save_Settled "jsval js_result"

definition rd_handle :: "rdialog_props \<times> rdialog \<Rightarrow> rd_event \<Rightarrow> rdialog_props \<times> rdialog" where
  "rd_handle ps e =
     (let (p, s) = ps
      in case e of
           Props p' \<Rightarrow> (p', s)
         | Pick_Kind v \<Rightarrow> (p, pickSourceKind v s)
         | Pick_Integration v \<Rightarrow>
             (p, if v \<in> Some ` set (map snd (integrationSelectItems p s)) then pickSourceIntegration v s else s)
         | Pick_Project v \<Rightarrow> (p, pickTicketProject v s)
         | Type_Path v \<Rightarrow> (p, s\<lparr>r_projectPath := v\<rparr>)
         | Set_Targets v \<Rightarrow> (p, s\<lparr>r_notificationTargetIds := v\<rparr>)
         | Set_Enabled b \<Rightarrow> (p, s\<lparr>r_enabled := b\<rparr>)
         | Set_Prereleases b \<Rightarrow> (p, s\<lparr>r_includePrereleases := b\<rparr>)
         | Submit_Form \<Rightarrow> (p, fst (rd_handleSubmit p s))
         | Save_Settled r \<Rightarrow> (p, fst (rd_saved r s)))"

text \<open>An event, then the rounds of effects it causes.\<close>

definition rd_step :: "rdialog_props \<times> rdialog \<Rightarrow> rd_event \<Rightarrow> rdialog_props \<times> rdialog" where
  "rd_step ps e =
     (let (p', s') = rd_handle ps e
      in (p', case rd_settle 5 ps p' s' of None \<Rightarrow> s' | Some s'' \<Rightarrow> s''))"

definition rd_inv :: "rdialog_props \<times> rdialog \<Rightarrow> bool" where
  "rd_inv ps \<longleftrightarrow> belongs (fst ps) (snd ps) \<and> preselected (fst ps) (snd ps)"


lemma typing_keeps:
  "belongs p (s\<lparr>r_projectPath := x\<rparr>) = belongs p s" "preselected p (s\<lparr>r_projectPath := x\<rparr>) = preselected p s"
  "belongs p (s\<lparr>r_ticketProjectId := y\<rparr>) = belongs p s" "preselected p (s\<lparr>r_ticketProjectId := y\<rparr>) = preselected p s"
  "belongs p (s\<lparr>r_notificationTargetIds := z\<rparr>) = belongs p s" "preselected p (s\<lparr>r_notificationTargetIds := z\<rparr>) = preselected p s"
  "belongs p (s\<lparr>r_enabled := b\<rparr>) = belongs p s" "preselected p (s\<lparr>r_enabled := b\<rparr>) = preselected p s"
  "belongs p (s\<lparr>r_includePrereleases := b\<rparr>) = belongs p s" "preselected p (s\<lparr>r_includePrereleases := b\<rparr>) = preselected p s"
  "belongs p (s\<lparr>r_formError := m\<rparr>) = belongs p s" "preselected p (s\<lparr>r_formError := m\<rparr>) = preselected p s"
  by (simp_all add: belongs_def preselected_def untouched_def defaultIntegrationId_def sourceIntegrationItems_def)

lemma preselected_cong:
  "default_deps p s = default_deps p' s' \<Longrightarrow> r_sourceIntegrationId s = r_sourceIntegrationId s' \<Longrightarrow>
   preselected p s = preselected p' s'"
  by (simp add: default_deps_def preselected_def untouched_def)

text \<open>After an event the dialog is as it was before, or the dependencies of the effects changed.\<close>

lemma handle_pair_inv:
  assumes "rd_inv (p, s)" and h: "rd_handle (p, s) e = (p', s')"
  shows "pair_inv (p, s) p' s'"
proof -
  have inv: "belongs p s" "preselected p s" using assms(1) by (simp_all add: rd_inv_def)
  have "r_sourceIntegrationId s = r_sourceIntegrationId s' \<or> r_integrationChosen s'"
    using h by (cases e)
      (auto simp: rd_handle_def pickSourceKind_def pickSourceIntegration_def pickTicketProject_def
        rd_handleSubmit_def rd_saved_def Let_def split: option.splits sum.splits if_splits)
  then have "preselected p' s'" if "default_deps p s = default_deps p' s'"
    using that inv(2) preselected_cong [OF that] by (auto simp: preselected_def untouched_def)
  moreover have "belongs p' s'" if "clear_deps p s = clear_deps p' s'"
    using belongs_cong [OF that] inv(1) by simp
  ultimately show ?thesis by (simp add: pair_inv_def)
qed

lemma rd_step_inv: "rd_inv ps \<Longrightarrow> rd_inv (rd_step ps e)"
proof -
  assume inv: "rd_inv ps"
  obtain p s where ps: "ps = (p, s)" by (cases ps)
  obtain p' s' where h: "rd_handle (p, s) e = (p', s')" by fastforce
  obtain s'' where s'': "rd_settle 5 (p, s) p' s' = Some s''" using settles by blast
  have "belongs p' s'' \<and> preselected p' s''"
    using repo_effects.settled_good [OF handle_pair_inv [OF inv [unfolded ps] h] s''] .
  moreover have "rd_step ps e = (p', s'')"
    unfolding rd_step_def ps h prod.case Let_def s'' by simp
  ultimately show ?thesis by (simp add: rd_inv_def)
qed

interpretation repo_dialog: stepper rd_step rd_inv
  by unfold_locales (rule rd_step_inv)

lemma rd_init_inv: "\<not> rp_open p \<Longrightarrow> rd_inv (p, rdialog_init)"
  by (simp add: rd_inv_def belongs_def preselected_def untouched_def rdialog_init_def)

text \<open>C30: The effects of the repository dialog settle: from every state, after any change of the
  properties or the fields, at most four rounds run (no render loop), and in every run of a dialog
  that starts closed the selected credential is none or one of the chosen source kind, and while
  the user of a new repository has not picked one it is the default of that kind.\<close>

theorem repo_dialog_settles:
  assumes "\<not> rp_open p0"
  shows "(\<exists>s'. rd_settle 5 prev p s = Some s') \<and>
    (let (p', s') = run rd_step (p0, rdialog_init) es
     in belongs p' s' \<and> (untouched p' s' \<longrightarrow> r_sourceIntegrationId s' = defaultIntegrationId p' s'))"
  using settles [of prev p s] repo_dialog.run_inv [OF rd_init_inv [OF assms], of es]
  by (cases "run rd_step (p0, rdialog_init) es") (simp add: rd_inv_def preselected_def)

definition closed_props :: rdialog_props where
  "closed_props = \<lparr>rp_mode = Create, rp_repo = None, rp_integrations = [sample_gitlab], rp_ticketProjects = [],
     rp_targets = [], rp_open = False, rp_isSaving = False\<rparr>"

theorem repo_dialog_settles_witness:
  "let (p', s') = run rd_step (closed_props, rdialog_init) [Props (closed_props\<lparr>rp_open := True\<rparr>), Pick_Kind (Some ''gitlab'')]
   in belongs p' s' \<and> (untouched p' s' \<longrightarrow> r_sourceIntegrationId s' = defaultIntegrationId p' s')"
proof -
  have "\<not> rp_open closed_props" by (simp add: closed_props_def)
  then show ?thesis
    by (rule conjunct2 [OF repo_dialog_settles [of closed_props "(closed_props, rdialog_init)" closed_props rdialog_init]])
qed

subsection \<open>What the dialog saves\<close>

definition rd_check :: "rdialog \<Rightarrow> msg option" where
  "rd_check s = first_error
     [(js_trim (r_projectPath s) = [], t0 ''repos.validation.projectPathRequired''),
      (r_ticketProjectId s = [], t0 ''repos.validation.ticketProjectRequired''),
      (requiresIntegration s \<and> r_sourceIntegrationId s = [], t0 ''repos.validation.sourceIntegrationRequired'')]"

definition rd_saves :: "rdialog_props \<Rightarrow> rdialog \<Rightarrow> mutation option" where
  "rd_saves p s =
     (if rp_mode p = Create then Some (createRepo (rd_payload s))
      else map_option (\<lambda>r. updateRepo (repo_id r) (rd_payload s)) (rp_repo p))"

lemma payload_error [simp]: "rd_payload (s\<lparr>r_formError := m\<rparr>) = rd_payload s"
  by (simp add: rd_payload_def)

lemma requires_error [simp]: "requiresIntegration (s\<lparr>r_formError := m\<rparr>) = requiresIntegration s"
  by (simp add: requiresIntegration_def)

lemma rd_submit_cases:
  "rd_handleSubmit p s =
     (s\<lparr>r_formError := rd_check s\<rparr>,
      if rd_check s = None then (case rd_saves p s of None \<Rightarrow> [] | Some m \<Rightarrow> [Mutate m]) else [])"
  by (simp add: rd_handleSubmit_def rd_check_def rd_saves_def Let_def split: option.splits)

interpretation repo_form: form_submit rd_check "rd_saves p" "rd_handleSubmit p" r_formError for p
  by unfold_locales (auto simp: rd_submit_cases split: option.splits)

lemma payload_field:
  "rd_saves p s = Some m \<Longrightarrow> opt_prop (mu_body m) k = opt_prop (rd_payload s) k"
  by (auto simp: rd_saves_def createRepo_def updateRepo_def post_m_def patch_m_def split: if_splits)

text \<open>C7: Every repository the dialog saves, in any reachable state, names a credential the list
  still has and that is of the repository's source kind, or none, and none only for the kinds that
  work without one; its path is trimmed and not empty and it has a ticket project.\<close>

theorem saved_credential_fits:
  assumes "\<not> rp_open p0" and "run rd_step (p0, rdialog_init) es = (p, s)"
    and "m \<in> set (mutations (snd (rd_handleSubmit p s)))"
    and "opt_prop (mu_body m) ''sourceKind'' = Str kind"
  shows "(case opt_prop (mu_body m) ''sourceIntegrationId'' of
            Str i \<Rightarrow> \<exists>x \<in> set (rp_integrations p). intg_id x = i \<and> intg_kind x = kind
          | v \<Rightarrow> v = Null \<and> \<not> sourceKindRequiresIntegration kind) \<and>
         opt_prop (mu_body m) ''projectPath'' \<noteq> Str [] \<and> opt_prop (mu_body m) ''ticketProjectId'' \<noteq> Str []"
proof -
  have "rd_inv (p, s)" using repo_dialog.run_inv [OF rd_init_inv [OF assms(1)], of es] assms(2) by simp
  then have b: "belongs p s" by (simp add: rd_inv_def)
  have check: "rd_check s = None" and saves: "rd_saves p s = Some m"
    using repo_form.sent_is_checked [OF assms(3)] by simp_all
  have kind: "kind = r_sourceKind s"
    using assms(4) payload_field [OF saves] by (simp add: rd_payload_def opt_prop_def)
  have ok: "js_trim (r_projectPath s) \<noteq> []" "r_ticketProjectId s \<noteq> []"
    "\<not> (sourceKindRequiresIntegration (r_sourceKind s) \<and> r_sourceIntegrationId s = [])"
    using check unfolding rd_check_def first_error_None by (simp_all add: requiresIntegration_def)
  show ?thesis
    using ok b unfolding payload_field [OF saves] kind
    by (auto simp: rd_payload_def opt_prop_def belongs_def sourceIntegrationItems_def)
qed

definition open_props :: rdialog_props where
  "open_props = closed_props\<lparr>rp_open := True, rp_ticketProjects :=
     [\<lparr>tp_id = ''t1'', tp_integration_id = [], tp_external_project_id = [], tp_name = ''P'', tp_create_config = Obj [],
       tp_status_mapping = Obj [], tp_content_templates = \<lparr>ct_title = [], ct_description = [], ct_supersede_comment = []\<rparr>,
       tp_on_open_ticket_policy = [], tp_created_at = [], tp_updated_at = []\<rparr>]\<rparr>"

theorem saved_credential_fits_witness:
  "\<exists>p s m. run rd_step (closed_props, rdialog_init)
      [Props open_props, Pick_Kind (Some ''gitlab''), Type_Path ''g/p'', Pick_Integration (Some ''i1'')] = (p, s) \<and>
     mutations (snd (rd_handleSubmit p s)) = [m] \<and>
     (\<exists>x \<in> set (rp_integrations p). intg_id x = ''i1'' \<and> intg_kind x = ''gitlab'')"
proof -
  let ?es = "[Props open_props, Pick_Kind (Some ''gitlab''), Type_Path ''g/p'', Pick_Integration (Some ''i1'')]"
  obtain p s where ps: "run rd_step (closed_props, rdialog_init) ?es = (p, s)" by fastforce
  have closed: "\<not> rp_open closed_props" by (simp add: closed_props_def)
  have pair: "(p, s) = run rd_step (closed_props, rdialog_init) ?es" using ps by simp
  have fields: "map (\<lambda>m. (opt_prop (mu_body m) ''sourceKind'', opt_prop (mu_body m) ''sourceIntegrationId''))
      (mutations (snd (case_prod rd_handleSubmit (run rd_step (closed_props, rdialog_init) ?es)))) = [(Str ''gitlab'', Str ''i1'')]"
    by code_simp
  then obtain m where m: "mutations (snd (rd_handleSubmit p s)) = [m]"
    "opt_prop (mu_body m) ''sourceKind'' = Str ''gitlab''" "opt_prop (mu_body m) ''sourceIntegrationId'' = Str ''i1''"
    unfolding ps prod.case by (auto simp: map_eq_Cons_conv)
  have "\<exists>x \<in> set (rp_integrations p). intg_id x = ''i1'' \<and> intg_kind x = ''gitlab''"
    using saved_credential_fits [OF closed ps _ m(2), unfolded m(1)] m(3) by simp
  then show ?thesis using ps m(1) by blast
qed

end
