(* ===== verification/List_Views.thy ===== *)
theory List_Views
  imports Delete_Flow Repo_Dialog "HOL-Library.Multiset"
begin

section \<open>The list pages (\<open>repos-view.tsx\<close>, \<open>integrations-view.tsx\<close>, \<open>ticket-projects-view.tsx\<close>,
  \<open>notifications-view.tsx\<close>)\<close>

text \<open>
  Each page shows its query as a skeleton, an empty state or a table, an edit dialog and a delete
  dialog. \<open>localeCompare\<close> is the parameter \<open>cmp\<close>. \<open>Array.prototype.sort\<close> is stable; with a
  consistent comparator its result is the one of a stable insertion sort.
\<close>

fun insert_by :: "('a \<Rightarrow> 'a \<Rightarrow> int) \<Rightarrow> 'a \<Rightarrow> 'a list \<Rightarrow> 'a list" where
  "insert_by cmp x [] = [x]"
| "insert_by cmp x (y # ys) = (if cmp x y \<le> 0 then x # y # ys else y # insert_by cmp x ys)"

definition js_sort :: "('a \<Rightarrow> 'a \<Rightarrow> int) \<Rightarrow> 'a list \<Rightarrow> 'a list" where
  "js_sort cmp xs = foldr (insert_by cmp) xs []"

text \<open>The dialog of a page: closed, creating, or editing a row.\<close>

datatype 'a dialog_state = Closed | Creating | Editing 'a

definition dialog_mode :: "'a dialog_state \<Rightarrow> drawer_mode" where
  "dialog_mode d = (case d of Editing _ \<Rightarrow> Edit | _ \<Rightarrow> Create)"

definition dialog_row :: "'a dialog_state \<Rightarrow> 'a option" where
  "dialog_row d = (case d of Editing x \<Rightarrow> Some x | _ \<Rightarrow> None)"

definition dialog_open :: "'a dialog_state \<Rightarrow> bool" where
  "dialog_open d \<longleftrightarrow> (case d of Closed \<Rightarrow> False | _ \<Rightarrow> True)"

definition dialog_change :: "bool \<Rightarrow> 'a dialog_state \<Rightarrow> 'a dialog_state" where
  "dialog_change is_open d = (if \<not> is_open then Closed else d)"

text \<open>The maps the pages build from id to name: the last entry of an id wins.\<close>

definition map_by_id :: "('a \<Rightarrow> string) \<Rightarrow> ('a \<Rightarrow> string) \<Rightarrow> 'a list \<Rightarrow> string \<Rightarrow> string option" where
  "map_by_id key val xs = map_of (rev (map (\<lambda>x. (key x, val x)) xs))"

definition name_or_id :: "(string \<Rightarrow> string option) \<Rightarrow> string \<Rightarrow> string" where
  "name_or_id m i = (case m i of None \<Rightarrow> i | Some n \<Rightarrow> n)"

subsection \<open>Shared parts of the markup\<close>

definition add_button :: "string \<Rightarrow> string \<Rightarrow> view" where
  "add_button ns handler = Button False False [(''onClick'', handler)] [tx (ns @ ''.add'')]"

definition table_head :: "string \<Rightarrow> string list \<Rightarrow> view" where
  "table_head ns cols =
     El ''TableHeader'' [] [El ''TableRow'' [] (map (\<lambda>c. El ''TableHead'' [] [tx (ns @ ''.columns.'' @ c)]) cols)]"

definition skeleton_table :: "string \<Rightarrow> string list \<Rightarrow> view" where
  "skeleton_table ns cols =
     El ''Table'' [(''variant'', ''card'')]
       [table_head ns cols,
        El ''TableBody'' []
          (map (\<lambda>i. El ''TableRow'' [(''key'', ''skeleton-'' @ nat_string i)]
                      [El ''TableCell'' [(''colSpan'', nat_string (length cols))] [El ''Skeleton'' [] []]]) [0..<3])]"

definition empty_state :: "string \<Rightarrow> string \<Rightarrow> string \<Rightarrow> view" where
  "empty_state ns icon handler =
     El ''Empty'' []
       [El ''EmptyHeader'' []
          [El ''EmptyMedia'' [(''variant'', ''icon'')] [El icon [(''aria-hidden'', ''true'')] []],
           El ''EmptyTitle'' [] [tx (ns @ ''.emptyTitle'')],
           El ''EmptyDescription'' [] [tx (ns @ ''.emptyDescription'')]],
        El ''EmptyContent'' [] [add_button ns handler]]"

definition icon_button :: "msg \<Rightarrow> string \<Rightarrow> string \<Rightarrow> view" where
  "icon_button label handler icon =
     Button False False [(''onClick'', handler), (''size'', ''icon-sm''), (''variant'', ''ghost'')]
       [El ''aria-label'' [] [Txt label], El icon [] []]"

definition list_page :: "string \<Rightarrow> string \<Rightarrow> bool \<Rightarrow> view \<Rightarrow> view list \<Rightarrow> view" where
  "list_page ns handler isError content dialogs =
     El ''div'' []
       ([El ''PageHeader'' [] [tx (ns @ ''.title''), add_button ns handler]] @
        shown_if isError [El ''p'' [(''role'', ''alert'')] [tx (ns @ ''.loadFailed'')]] @
        [El ''Frame'' [] [El ''FramePanel'' [] [content]]] @ dialogs)"

subsection \<open>Repositories\<close>

definition sortedRepos :: "(string \<Rightarrow> string \<Rightarrow> int) \<Rightarrow> repo list option \<Rightarrow> repo list" where
  "sortedRepos cmp repos =
     (case repos of None \<Rightarrow> [] | Some rs \<Rightarrow> js_sort (\<lambda>l r. cmp (repo_project_path l) (repo_project_path r)) rs)"

definition repo_columns :: "string list" where
  "repo_columns = [''projectPath'', ''sourceKind'', ''sourceIntegration'', ''ticketProject'', ''enabled'', ''lastPolledAt'', ''lastError'', ''actions'']"

definition repo_row :: "formatter \<Rightarrow> (string \<Rightarrow> string option) \<Rightarrow> (string \<Rightarrow> string option) \<Rightarrow> repo \<Rightarrow> view" where
  "repo_row fmt ticketProjectNameById integrationNameById r =
     (let integrationName = (if given_text (repo_source_integration_id r)
                             then Some (name_or_id integrationNameById (the (repo_source_integration_id r))) else None);
          path = [(''path'', repo_project_path r)]
      in El ''TableRow'' [(''key'', repo_id r)]
        [El ''TableCell'' [] [lit (repo_project_path r)],
         El ''TableCell'' [] [El ''Badge'' [(''variant'', ''outline'')] [tx (''integrations.kinds.'' @ repo_source_kind r)]],
         El ''TableCell'' []
           [if given_text integrationName then El ''span'' [(''title'', the integrationName)] [lit (the integrationName)]
            else El ''span'' [] [tx ''repos.noSourceIntegration'']],
         El ''TableCell'' [] [lit (name_or_id ticketProjectNameById (repo_ticket_project_id r))],
         El ''TableCell'' []
           [El ''Badge'' [(''variant'', if repo_enabled r then ''success'' else ''secondary'')]
              [tx (if repo_enabled r then ''repos.enabledOn'' else ''repos.enabledOff'')]],
         El ''TableCell'' [] [Txt (formatLastPolledAt fmt (repo_last_polled_at r))],
         El ''TableCell'' []
           [if given_text (repo_last_error r) then El ''span'' [(''title'', the (repo_last_error r))] [lit (the (repo_last_error r))]
            else El ''span'' [] [tx ''repos.noError'']],
         El ''TableCell'' []
           [El ''div'' []
              [icon_button (T ''repos.editAria'' path) ''edit'' ''PencilIcon'',
               icon_button (T ''repos.deleteAria'' path) ''askDelete'' ''Trash2Icon'']]])"

definition ReposView ::
  "formatter \<Rightarrow> (string \<Rightarrow> string \<Rightarrow> int) \<Rightarrow> repo list query \<Rightarrow> ticket_project list \<Rightarrow> integration list \<Rightarrow>
   notification_target list \<Rightarrow> repo dialog_state \<Rightarrow> bool \<Rightarrow> rdialog \<Rightarrow> repo del \<Rightarrow> view" where
  "ReposView fmt cmp q projects integrations targets d isSaving rd s =
     (let sorted_rows = sortedRepos cmp (q_data q)
      in list_page ''repos'' ''openCreateDialog'' (q_error q)
        (if q_loading q then skeleton_table ''repos'' repo_columns
         else if length sorted_rows = 0 then empty_state ''repos'' ''FolderGit2Icon'' ''openCreateDialog''
         else El ''Table'' [(''variant'', ''card'')]
           [table_head ''repos'' repo_columns,
            El ''TableBody'' []
              (map (repo_row fmt (map_by_id tp_id tp_name projects) (map_by_id intg_id intg_name integrations)) sorted_rows)])
        [RepoDialog \<lparr>rp_mode = dialog_mode d, rp_repo = dialog_row d, rp_integrations = integrations,
           rp_ticketProjects = projects, rp_targets = targets, rp_open = dialog_open d, rp_isSaving = isSaving\<rparr> rd,
         DeleteRepoDialog (deleteTarget s) (deleteTarget s \<noteq> None) (deleteError s) (deletes s \<noteq> [])])"


subsection \<open>Integrations\<close>

text \<open>\<open>runTestConnection\<close>: the request with its loading toast, and the toast once it settled.\<close>

definition runTestConnection :: "integration \<Rightarrow> command list" where
  "runTestConnection i =
     [Toast ''loading'' (t0 ''integrations.testConnectionLoading'')
        (Some (t0 ''integrations.testConnectionLoadingDescription'')),
      Mutate (testIntegration (intg_id i))]"

definition toast_settled :: "msg \<Rightarrow> msg \<Rightarrow> msg \<Rightarrow> msg \<Rightarrow> js_error + test_connection_response \<Rightarrow> command" where
  "toast_settled success successText failure failureText r =
     (let failed = (\<lambda>m. Toast ''error'' failure (Some (if m \<noteq> Raw [] then m else failureText)))
      in case r of
           Inl e \<Rightarrow> failed (Raw (js_error_message e))
         | Inr res \<Rightarrow>
             if \<not> test_success res then
               failed (case test_message res of None \<Rightarrow> failureText | Some m \<Rightarrow> Raw m)
             else Toast ''success'' success (Some (case test_message res of None \<Rightarrow> successText | Some m \<Rightarrow> Raw m)))"

definition testConnectionSettled :: "js_error + test_connection_response \<Rightarrow> command" where
  "testConnectionSettled =
     toast_settled (t0 ''integrations.testConnectionSuccess'') (t0 ''integrations.testConnectionSuccessDescription'')
       (t0 ''integrations.testConnectionFailed'') (t0 ''integrations.testConnectionFailedDescription'')"

definition integration_columns :: "string list" where
  "integration_columns = [''name'', ''kind'', ''baseUrl'', ''secret'', ''actions'']"

definition integration_row :: "integration \<Rightarrow> view" where
  "integration_row i =
     (let named = [(''name'', intg_name i)]
      in El ''TableRow'' [(''key'', intg_id i)]
        [El ''TableCell'' []
           [El ''span'' [] (lit (intg_name i) #
              shown_if (intg_is_default i) [El ''Badge'' [(''variant'', ''info'')] [tx ''integrations.defaultBadge'']])],
         El ''TableCell'' [] [El ''Badge'' [(''variant'', ''outline'')] [tx (''integrations.kinds.'' @ intg_kind i)]],
         El ''TableCell'' [] [Txt (or_msg (intg_base_url i) (t0 ''integrations.baseUrlDefault''))],
         El ''TableCell'' []
           [if intg_has_secret i then El ''Badge'' [(''variant'', ''success'')] [tx ''integrations.secretConfigured'']
            else El ''Badge'' [(''variant'', ''warning'')] [tx ''integrations.secretMissing'']],
         El ''TableCell'' []
           [El ''div'' []
              [icon_button (T ''integrations.editAria'' named) ''edit'' ''PencilIcon'',
               icon_button (T ''integrations.testConnectionAria'' named) ''runTestConnection'' ''PlugZapIcon'',
               icon_button (T ''integrations.deleteAria'' named) ''askDelete'' ''Trash2Icon'']]])"

definition IntegrationsView ::
  "integration list query \<Rightarrow> integration dialog_state \<Rightarrow> bool \<Rightarrow> idrawer \<Rightarrow> integration del \<Rightarrow> view" where
  "IntegrationsView q d isSaving dr s =
     (let isEmpty = (\<not> q_loading q \<and> map_option length (q_data q) = Some 0)
      in list_page ''integrations'' ''openCreateDrawer'' (q_error q)
        (if q_loading q then skeleton_table ''integrations'' integration_columns
         else if isEmpty then empty_state ''integrations'' ''PlugZapIcon'' ''openCreateDrawer''
         else El ''Table'' [(''variant'', ''card'')]
           [table_head ''integrations'' integration_columns,
            El ''TableBody'' [] (map integration_row (case q_data q of None \<Rightarrow> [] | Some xs \<Rightarrow> xs))])
        [IntegrationDrawer \<lparr>ip_mode = dialog_mode d, ip_integration = dialog_row d, ip_open = dialog_open d, ip_isSaving = isSaving\<rparr> dr,
         DeleteIntegrationDialog (deleteTarget s) (deleteTarget s \<noteq> None) (deleteError s) (deletes s \<noteq> [])])"

subsection \<open>Sorting\<close>

lemma insert_by_mset [simp]: "mset (insert_by cmp x ys) = add_mset x (mset ys)"
  by (induction ys) auto

lemma js_sort_mset: "mset (js_sort cmp xs) = mset xs"
  by (induction xs) (simp_all add: js_sort_def)

lemma set_insert_by [simp]: "set (insert_by cmp x ys) = insert x (set ys)"
  by (induction ys) auto

context comparator_fn
begin

lemma insert_by_sorted:
  "sorted_wrt (\<lambda>a b. cmp a b \<le> 0) ys \<Longrightarrow> sorted_wrt (\<lambda>a b. cmp a b \<le> 0) (insert_by cmp x ys)"
proof (induction ys)
  case (Cons y ys)
  show ?case
  proof (cases "cmp x y \<le> 0")
    case True
    then have "cmp x z \<le> 0" if "z \<in> set ys" for z
      using cmp_trans [OF True] Cons.prems that by simp
    then show ?thesis using True Cons.prems by simp
  next
    case False
    then have "cmp y x \<le> 0" using cmp_total [of x y] by simp
    then show ?thesis using False Cons by simp
  qed
qed simp

lemma js_sort_sorted: "sorted_wrt (\<lambda>a b. cmp a b \<le> 0) (js_sort cmp xs)"
  by (induction xs) (simp_all add: js_sort_def insert_by_sorted)

lemma on_key: "comparator_fn (\<lambda>a b. cmp (f a) (f b))"
  using cmp_anti cmp_trans by (unfold_locales) (blast, blast)

end

end
