(* ===== verification/Notification_Drawer.thy ===== *)
theory Notification_Drawer
  imports List_Views
begin

section \<open>Notification targets (\<open>components/notifications/notification-drawer.tsx\<close>, \<open>notifications-view.tsx\<close>)\<close>

text \<open>
  The drawer that creates and edits a notification target, and the page around it. The checkbox
  group hands its handler the whole new selection.
\<close>

record ndrawer_props =
  np_mode :: drawer_mode
  np_target :: "notification_target option"
  np_open :: bool
  np_isSaving :: bool

record ndrawer =
  n_name :: string
  n_shoutrrrUrl :: string
  n_events :: "string list"
  n_enabled :: bool
  n_formError :: "msg option"

definition ndrawer_init :: ndrawer where
  "ndrawer_init = \<lparr>n_name = [], n_shoutrrrUrl = [], n_events = DEFAULT_NOTIFICATION_EVENTS, n_enabled = True, n_formError = None\<rparr>"

definition n_hasSecret :: "ndrawer_props \<Rightarrow> bool" where
  "n_hasSecret p = (case np_target p of None \<Rightarrow> False | Some n \<Rightarrow> nt_has_secret n)"

text \<open>The effect on \<open>[open, mode, target]\<close>.\<close>

definition ndrawer_effect :: "ndrawer_props \<Rightarrow> ndrawer \<Rightarrow> ndrawer" where
  "ndrawer_effect p s =
     (if \<not> np_open p then s
      else (case (np_mode p, np_target p) of
              (Edit, Some n) \<Rightarrow>
                \<lparr>n_name = nt_name n, n_shoutrrrUrl = [],
                 n_events = filter (\<lambda>e. e \<in> set NOTIFICATION_EVENT_OPTIONS) (nt_events n),
                 n_enabled = nt_enabled n, n_formError = None\<rparr>
            | _ \<Rightarrow> ndrawer_init))"

definition urlRequired :: "ndrawer_props \<Rightarrow> bool" where
  "urlRequired p \<longleftrightarrow> np_mode p = Create \<or> \<not> n_hasSecret p"

text \<open>\<open>handleSubmit\<close> up to the \<open>await\<close>.\<close>

definition n_handleSubmit :: "ndrawer_props \<Rightarrow> ndrawer \<Rightarrow> ndrawer \<times> command list" where
  "n_handleSubmit p s0 =
     (let s = s0\<lparr>n_formError := None\<rparr>;
          fail = (\<lambda>m. (s\<lparr>n_formError := Some (t0 m)\<rparr>, []));
          trimmedName = js_trim (n_name s);
          trimmedUrl = js_trim (n_shoutrrrUrl s)
      in if trimmedName = [] then fail ''notifications.validation.nameRequired''
         else if urlRequired p \<and> trimmedUrl = [] then fail ''notifications.validation.urlRequired''
         else if length (n_events s) = 0 then fail ''notifications.validation.eventsRequired''
         else if np_mode p = Create then
           (s, [Mutate (createNotificationTarget (Obj
                 [(''name'', Str trimmedName), (''shoutrrrUrl'', Str trimmedUrl),
                  (''events'', Arr (map Str (n_events s))), (''enabled'', Bool (n_enabled s))]))])
         else (case np_target p of
                 Some n \<Rightarrow>
                   (s, [Mutate (updateNotificationTarget (nt_id n) (Obj
                         [(''name'', Str trimmedName), (''shoutrrrUrl'', if trimmedUrl \<noteq> [] then Str trimmedUrl else Null),
                          (''events'', Arr (map Str (n_events s))), (''enabled'', Bool (n_enabled s))]))])
               | None \<Rightarrow> (s, [])))"

text \<open>After the \<open>await\<close>: \<^term>\<open>True\<close> asks the parent to close the drawer.\<close>

definition n_saved :: "jsval js_result \<Rightarrow> ndrawer \<Rightarrow> ndrawer \<times> bool" where
  "n_saved r s =
     (case r of Inr _ \<Rightarrow> (s, True)
              | Inl e \<Rightarrow> (s\<lparr>n_formError := Some (save_error (t0 ''notifications.saveFailed'') e)\<rparr>, False))"

text \<open>The test, from the drawer and from a row of the page.\<close>

definition runTestNotification :: "notification_target \<Rightarrow> command list" where
  "runTestNotification n =
     [Toast ''loading'' (t0 ''notifications.testLoading'') (Some (t0 ''notifications.testLoadingDescription'')),
      Mutate (testNotificationTarget (nt_id n))]"

definition n_handleTestNotification :: "ndrawer_props \<Rightarrow> command list" where
  "n_handleTestNotification p = (case np_target p of None \<Rightarrow> [] | Some n \<Rightarrow> runTestNotification n)"

definition testNotificationSettled :: "js_error + test_connection_response \<Rightarrow> command" where
  "testNotificationSettled =
     toast_settled (t0 ''notifications.testSuccess'') (t0 ''notifications.testSuccessDescription'')
       (t0 ''notifications.testFailed'') (t0 ''notifications.testFailedDescription'')"

subsection \<open>The drawer's view\<close>

definition n_url_field :: "ndrawer_props \<Rightarrow> ndrawer \<Rightarrow> view" where
  "n_url_field p s =
     (let configured = (np_mode p = Edit \<and> n_hasSecret p)
      in El ''Field'' [(''name'', ''shoutrrrUrl'')]
        ([El ''FieldLabel'' [] ([tx ''notifications.shoutrrrUrl'', lit '' ''] @ required_mark (urlRequired p))] @
         shown_if configured [El ''div'' [] [El ''Badge'' [(''variant'', ''success'')] [tx ''notifications.urlConfigured'']]] @
         [El ''Input'' ([(''autoComplete'', ''new-password''), (''name'', ''shoutrrrUrl''), (''onChange'', ''setShoutrrrUrl'')] @
             flag ''required'' (urlRequired p) @ [(''type'', ''password''), (''value'', n_shoutrrrUrl s)])
           [tx (if configured then ''notifications.urlPlaceholderEdit'' else ''notifications.urlPlaceholder'')],
          El ''FieldDescription'' [] [tx (if configured then ''notifications.urlEditHint'' else ''notifications.urlHint'')]]))"

definition n_events_field :: "ndrawer \<Rightarrow> view" where
  "n_events_field s =
     El ''Field'' [(''name'', ''events'')]
       [El ''FieldLabel'' [] [tx ''notifications.events''],
        El ''FieldDescription'' [] [tx ''notifications.eventsHint''],
        El ''CheckboxGroup'' [(''onValueChange'', ''setEvents'')]
          (map (\<lambda>e. El ''Label'' [(''key'', e)]
                      [El ''Checkbox'' (flag ''checked'' (e \<in> set (n_events s)) @ [(''value'', e)]) [],
                       tx (''notifications.eventOptions.'' @ e)]) NOTIFICATION_EVENT_OPTIONS)]"

definition NotificationDrawer :: "ndrawer_props \<Rightarrow> ndrawer \<Rightarrow> view" where
  "NotificationDrawer p s =
     (let create = (np_mode p = Create)
      in El ''Sheet'' ((''onOpenChange'', ''onOpenChange'') # flag ''open'' (np_open p))
        [El ''SheetPopup'' [(''side'', ''right'')]
          [El ''SheetHeader'' []
             [El ''SheetTitle'' [] [tx (if create then ''notifications.createTitle'' else ''notifications.editTitle'')],
              El ''SheetDescription'' [] [tx (if create then ''notifications.createDescription'' else ''notifications.editDescription'')]],
           El ''form'' [(''onSubmit'', ''handleSubmit'')]
             [El ''SheetPanel'' []
                (form_alert (n_formError s) @
                 [El ''Field'' [(''name'', ''name'')]
                    [El ''FieldLabel'' [] [tx ''notifications.name'', lit '' '', El ''span'' [(''aria-hidden'', ''true'')] [lit ''*'']],
                     El ''Input'' [(''name'', ''name''), (''onChange'', ''setName''), (''required'', ''true''), (''value'', n_name s)] []],
                  n_url_field p s, n_events_field s,
                  switch_field ''enabled'' ''notifications.enabled'' ''notifications.enabledHint'' (n_enabled s) ''setEnabled'']),
              El ''SheetFooter'' [(''variant'', ''bare'')]
                (shown_if (np_mode p = Edit \<and> np_target p \<noteq> None)
                   [Button False False [(''onClick'', ''handleTestNotification''), (''type'', ''button''), (''variant'', ''outline'')]
                      [tx ''notifications.testNotification'']] @
                 [El ''SheetClose'' [(''variant'', ''ghost''), (''type'', ''button'')] [tx ''common.cancel''],
                  Button (np_isSaving p) False [(''type'', ''submit'')] [tx ''common.save'']])]]])"

subsection \<open>The page\<close>

definition notification_columns :: "string list" where
  "notification_columns = [''name'', ''events'', ''enabled'', ''url'', ''actions'']"

definition notification_row :: "notification_target \<Rightarrow> view" where
  "notification_row n =
     (let named = [(''name'', nt_name n)]
      in El ''TableRow'' [(''key'', nt_id n)]
        [El ''TableCell'' [] [lit (nt_name n)],
         El ''TableCell'' []
           [El ''div'' [] (map (\<lambda>e. El ''Badge'' [(''key'', e), (''variant'', ''outline'')]
                                    [tx (''notifications.eventOptions.'' @ e)]) (nt_events n))],
         El ''TableCell'' []
           [if nt_enabled n then El ''Badge'' [(''variant'', ''success'')] [tx ''notifications.enabledOn'']
            else El ''Badge'' [(''variant'', ''warning'')] [tx ''notifications.enabledOff'']],
         El ''TableCell'' []
           [if nt_has_secret n then El ''Badge'' [(''variant'', ''success'')] [tx ''notifications.urlConfigured'']
            else El ''Badge'' [(''variant'', ''warning'')] [tx ''notifications.urlMissing'']],
         El ''TableCell'' []
           [El ''div'' []
              [icon_button (T ''notifications.editAria'' named) ''edit'' ''PencilIcon'',
               icon_button (T ''notifications.testAria'' named) ''runTestNotification'' ''BellRingIcon'',
               icon_button (T ''notifications.deleteAria'' named) ''askDelete'' ''Trash2Icon'']]])"

definition NotificationsView ::
  "notification_target list query \<Rightarrow> notification_target dialog_state \<Rightarrow> bool \<Rightarrow> ndrawer \<Rightarrow> notification_target del \<Rightarrow> view" where
  "NotificationsView q d isSaving dr s =
     (let isEmpty = (\<not> q_loading q \<and> map_option length (q_data q) = Some 0)
      in list_page ''notifications'' ''openCreateDrawer'' (q_error q)
        (if q_loading q then skeleton_table ''notifications'' notification_columns
         else if isEmpty then empty_state ''notifications'' ''BellRingIcon'' ''openCreateDrawer''
         else El ''Table'' [(''variant'', ''card'')]
           [table_head ''notifications'' notification_columns,
            El ''TableBody'' [] (map notification_row (case q_data q of None \<Rightarrow> [] | Some xs \<Rightarrow> xs))])
        [NotificationDrawer \<lparr>np_mode = dialog_mode d, np_target = dialog_row d, np_open = dialog_open d, np_isSaving = isSaving\<rparr> dr,
         DeleteNotificationDialog (deleteTarget s) (deleteTarget s \<noteq> None) (deletes s \<noteq> [])])"

subsection \<open>What the drawer saves\<close>

definition n_check :: "ndrawer_props \<Rightarrow> ndrawer \<Rightarrow> msg option" where
  "n_check p s = first_error
     [(js_trim (n_name s) = [], t0 ''notifications.validation.nameRequired''),
      (urlRequired p \<and> js_trim (n_shoutrrrUrl s) = [], t0 ''notifications.validation.urlRequired''),
      (n_events s = [], t0 ''notifications.validation.eventsRequired'')]"

definition n_saves :: "ndrawer_props \<Rightarrow> ndrawer \<Rightarrow> mutation option" where
  "n_saves p s =
     (let url = js_trim (n_shoutrrrUrl s);
          body = (\<lambda>none. Obj [(''name'', Str (js_trim (n_name s))), (''shoutrrrUrl'', if url = [] then none else Str url),
             (''events'', Arr (map Str (n_events s))), (''enabled'', Bool (n_enabled s))])
      in if np_mode p = Create then Some (createNotificationTarget (body (Str [])))
         else map_option (\<lambda>n. updateNotificationTarget (nt_id n) (body Null)) (np_target p))"

lemma n_submit_cases:
  "n_handleSubmit p s =
     (s\<lparr>n_formError := n_check p s\<rparr>,
      if n_check p s = None then (case n_saves p s of None \<Rightarrow> [] | Some m \<Rightarrow> [Mutate m]) else [])"
  by (simp add: n_handleSubmit_def n_check_def n_saves_def Let_def split: option.splits)

interpretation notification_form: form_submit "n_check p" "n_saves p" "n_handleSubmit p" n_formError for p
  by unfold_locales (auto simp: n_submit_cases split: option.splits)

definition n_valid :: "ndrawer_props \<Rightarrow> ndrawer \<Rightarrow> bool" where
  "n_valid p s \<longleftrightarrow>
     js_trim (n_name s) \<noteq> [] \<and> n_events s \<noteq> [] \<and>
     (js_trim (n_shoutrrrUrl s) = [] \<longrightarrow> np_mode p = Edit \<and> n_hasSecret p)"

lemma n_check_valid: "n_check p s = None \<longleftrightarrow> n_valid p s"
  using mode_cases [of "np_mode p"] by (auto simp: n_check_def n_valid_def first_error_None urlRequired_def)

text \<open>The notification drawer saves exactly the valid forms: a submit sends its one create or
  update request when there is a name, an event and a URL (which only an edit of a target with a
  stored one may leave empty), and otherwise shows an error and sends nothing.\<close>

theorem notification_submit_valid:
  "mutations (snd (n_handleSubmit p s)) =
     (if n_valid p s then (case n_saves p s of None \<Rightarrow> [] | Some m \<Rightarrow> [m]) else []) \<and>
   (n_formError (fst (n_handleSubmit p s)) = None \<longleftrightarrow> n_valid p s)"
  using notification_form.sends [of p s] notification_form.shows_error [of p s] by (simp add: n_check_valid)

text \<open>Opening a stored target and saving it untouched changes nothing the form knows: the update
  carries the target's own name (trimmed), its known events and its switch, and \<open>null\<close> for the URL,
  so the stored one is kept; whatever a previous form had typed is gone. It is refused only when the
  target has no name, no stored URL or no known event.\<close>

theorem notification_untouched_edit:
  "mutations (snd (n_handleSubmit \<lparr>np_mode = Edit, np_target = Some n, np_open = True, np_isSaving = saving\<rparr>
      (ndrawer_effect \<lparr>np_mode = Edit, np_target = Some n, np_open = True, np_isSaving = saving'\<rparr> s))) =
     (let known = filter (\<lambda>e. e \<in> set NOTIFICATION_EVENT_OPTIONS) (nt_events n)
      in if js_trim (nt_name n) \<noteq> [] \<and> nt_has_secret n \<and> known \<noteq> [] then
           [updateNotificationTarget (nt_id n) (Obj
              [(''name'', Str (js_trim (nt_name n))), (''shoutrrrUrl'', Null),
               (''events'', Arr (map Str known)), (''enabled'', Bool (nt_enabled n))])]
         else [])"
  by (simp add: notification_form.sends n_check_def n_saves_def ndrawer_effect_def urlRequired_def n_hasSecret_def
      Let_def js_trim_def)

end
