(* ===== verification/Ticket_Config.thy ===== *)
theory Ticket_Config
  imports List_Views Js_Number
begin

section \<open>Ticket project settings (\<open>lib/ticket-projects\<close>)\<close>

text \<open>
  What a ticket project stores for its integration: the create configuration, the mapping of
  statuses and the content templates, each a \<open>Record<string, unknown>\<close> (an object, as its type
  says) that the drawer reads with defaults and writes back.
\<close>

subsection \<open>Objects\<close>

text \<open>\<open>{...a, k: v}\<close> keeps the place of a key that is already there.\<close>

fun obj_set :: "(string \<times> jsval) list \<Rightarrow> string \<Rightarrow> jsval \<Rightarrow> (string \<times> jsval) list" where
  "obj_set [] k v = [(k, v)]"
| "obj_set ((k', v') # ps) k v = (if k' = k then (k, v) # ps else (k', v') # obj_set ps k v)"

definition own_props :: "jsval \<Rightarrow> (string \<times> jsval) list" where
  "own_props v = (case v of Obj ps \<Rightarrow> ps | _ \<Rightarrow> [])"

definition spread :: "jsval \<Rightarrow> jsval \<Rightarrow> jsval" where
  "spread a b = Obj (foldl (\<lambda>ps (k, v). obj_set ps k v) (own_props a) (own_props b))"

lemma map_of_obj_set: "map_of (obj_set ps k v) = (map_of ps)(k \<mapsto> v)"
  by (induction ps k v rule: obj_set.induct) auto

lemma keys_obj_set: "fst ` set (obj_set ps k v) = insert k (fst ` set ps)"
  by (induction ps k v rule: obj_set.induct) auto

lemma distinct_obj_set: "distinct (map fst ps) \<Longrightarrow> distinct (map fst (obj_set ps k v))"
  by (induction ps k v rule: obj_set.induct) (auto simp: keys_obj_set simp flip: image_set)

lemma obj_set_same: "map_of ps k = Some v \<Longrightarrow> obj_set ps k v = ps"
  by (induction ps k v rule: obj_set.induct) (auto split: if_splits)

lemma map_of_sets: "map_of (foldl (\<lambda>ps (k, v). obj_set ps k v) ps qs) = map_of ps ++ map_of (rev qs)"
  by (induction qs arbitrary: ps) (auto simp: map_of_obj_set map_add_upd)

lemma distinct_sets: "distinct (map fst ps) \<Longrightarrow> distinct (map fst (foldl (\<lambda>ps (k, v). obj_set ps k v) ps qs))"
  by (induction qs arbitrary: ps) (auto simp: distinct_obj_set)

text \<open>An object has each key once.\<close>

definition js_object :: "jsval \<Rightarrow> bool" where
  "js_object v \<longleftrightarrow> (case v of Obj ps \<Rightarrow> distinct (map fst ps) | _ \<Rightarrow> False)"

lemma map_of_rev_distinct: "distinct (map fst ps) \<Longrightarrow> map_of (rev ps) = map_of ps"
proof (induction ps)
  case (Cons p ps)
  then have "fst p \<notin> dom (map_of ps)" by (simp add: dom_map_of_conv_image_fst)
  then show ?case using Cons by (cases p) (auto simp: map_add_def fun_eq_iff split: option.splits)
qed simp

lemma spread_prop:
  "js_object b \<Longrightarrow> opt_prop (spread a b) k = (case map_of (own_props b) k of None \<Rightarrow> opt_prop (Obj (own_props a)) k | Some v \<Rightarrow> v)"
  by (auto simp: spread_def opt_prop_def js_object_def own_props_def map_of_sets map_add_def map_of_rev_distinct
      split: option.splits jsval.splits)

lemma spread_object: "js_object a \<Longrightarrow> js_object (spread a b)"
  by (auto simp: js_object_def spread_def own_props_def distinct_sets split: jsval.splits)

subsection \<open>The create configuration (\<open>create-config.ts\<close>)\<close>

definition defaultCreateConfig :: "string \<Rightarrow> jsval" where
  "defaultCreateConfig kind =
     (if kind = ''kaneo'' then Obj [(''workspaceId'', Str []), (''status'', Str ''ready''), (''priority'', Str ''medium'')]
      else if kind = ''jira'' then Obj [(''issueType'', Str ''Task''), (''priority'', Str ''Medium''), (''initialStatus'', Str ''To Do'')]
      else if kind = ''linear'' then Obj [(''priority'', Str ''2''), (''stateId'', Str [])]
      else Obj [])"

definition createConfigFromRecord :: "string \<Rightarrow> jsval \<Rightarrow> jsval" where
  "createConfigFromRecord kind rec = spread (defaultCreateConfig kind) rec"

text \<open>\<open>String(v ?? "")\<close>.\<close>

definition text_of :: "jsval \<Rightarrow> string" where
  "text_of v = (if nullish v then [] else to_string v)"

definition serializeCreateConfig :: "string \<Rightarrow> jsval \<Rightarrow> string \<Rightarrow> jsval" where
  "serializeCreateConfig kind values workspaceId =
     (if kind = ''kaneo'' then
        (let selectedWorkspaceId =
               (if js_trim workspaceId \<noteq> [] then js_trim workspaceId else js_trim (text_of (opt_prop values ''workspaceId'')))
         in spread (createConfigFromRecord kind values) (Obj [(''workspaceId'', Str selectedWorkspaceId)]))
      else if kind = ''linear'' then
        (let priority = js_Number (opt_prop values ''priority'')
         in Obj [(''priority'', if isFinite priority then num_value priority else Num 2),
                 (''stateId'', Str (text_of (opt_prop values ''stateId'')))])
      else createConfigFromRecord kind values)"

subsection \<open>The status mapping (\<open>status-mapping.ts\<close>)\<close>

record status_mapping =
  sm_open :: "string list"
  sm_done :: "string list"
  sm_cancelled :: "string list"
  sm_superseded :: string

definition defaultStatusMapping :: status_mapping where
  "defaultStatusMapping = \<lparr>sm_open = [], sm_done = [], sm_cancelled = [], sm_superseded = []\<rparr>"

definition parseStatusList :: "string \<Rightarrow> string list" where
  "parseStatusList value = filter (\<lambda>item. 0 < length item) (map js_trim (split_on (CHR '','') value))"

definition formatStatusList :: "string list \<Rightarrow> string" where
  "formatStatusList values = join_with '', '' values"

definition string_list :: "jsval \<Rightarrow> string list" where
  "string_list v = (case v of Arr vs \<Rightarrow> concat (map (\<lambda>v. case v of Str s \<Rightarrow> [s] | _ \<Rightarrow> []) vs) | _ \<Rightarrow> [])"

definition string_or_empty :: "jsval \<Rightarrow> string" where
  "string_or_empty v = (case v of Str s \<Rightarrow> s | _ \<Rightarrow> [])"

definition statusMappingFromRecord :: "jsval \<Rightarrow> status_mapping" where
  "statusMappingFromRecord rec =
     \<lparr>sm_open = string_list (opt_prop rec ''open''), sm_done = string_list (opt_prop rec ''done''),
      sm_cancelled = string_list (opt_prop rec ''cancelled''), sm_superseded = string_or_empty (opt_prop rec ''superseded'')\<rparr>"

definition statusMappingToRecord :: "status_mapping \<Rightarrow> jsval" where
  "statusMappingToRecord values =
     Obj [(''open'', Arr (map Str (sm_open values))), (''done'', Arr (map Str (sm_done values))),
          (''cancelled'', Arr (map Str (sm_cancelled values))), (''superseded'', Str (sm_superseded values))]"

interpretation mapping_codec: codec statusMappingToRecord "\<lambda>r. Some (statusMappingFromRecord r)" "\<lambda>_. True"
proof
  have "string_list (Arr (map Str xs)) = xs" for xs
    by (induction xs) (simp_all add: string_list_def)
  then show "Some (statusMappingFromRecord (statusMappingToRecord m)) = Some m" for m
    by (cases m) (simp add: statusMappingFromRecord_def statusMappingToRecord_def opt_prop_def string_or_empty_def)
qed

subsection \<open>Content templates (\<open>content-templates.ts\<close>)\<close>

definition newline :: string where "newline = [CHR 0x0A]"
definition arrow :: string where "arrow = [CHR 0xE2, CHR 0x86, CHR 0x92]"

definition DEFAULT_TITLE :: string where
  "DEFAULT_TITLE = ''Release: {{ .Repo.SourceKind }} {{ .Repo.ProjectPath }} {{ .Release.Tag }}''"

definition DEFAULT_DESCRIPTION_MARKDOWN :: string where
  "DEFAULT_DESCRIPTION_MARKDOWN = concat
     [''**Source:** {{ .Repo.SourceKind }}'', newline,
      ''**Repository:** {{ .Repo.ProjectPath }} ({{ .Repo.URL }})'', newline, newline,
      ''**Release:** {{ .Release.Tag }} '', em_dash, '' {{ .Release.Name }}'', newline,
      ''**URL:** {{ .Release.URL }}'', newline,
      ''**Published:** {{ .Release.PublishedAt }}'', newline,
      ''**Pre-release:** {{ yesNo .Release.IsPrerelease }}'', newline, newline,
      ''**Previous tag:** {{ .Previous.Tag }}'', newline, newline,
      ''**Release notes:**'', newline, ''{{ .Release.Notes }}'']"

definition DEFAULT_DESCRIPTION_PLAIN :: string where
  "DEFAULT_DESCRIPTION_PLAIN = concat
     [''Source: {{ .Repo.SourceKind }}'', newline,
      ''Repository: {{ .Repo.ProjectPath }} ({{ .Repo.URL }})'', newline, newline,
      ''Release: {{ .Release.Tag }} '', em_dash, '' {{ .Release.Name }}'', newline,
      ''URL: {{ .Release.URL }}'', newline,
      ''Published: {{ .Release.PublishedAt }}'', newline,
      ''Pre-release: {{ yesNo .Release.IsPrerelease }}'', newline, newline,
      ''Previous tag: {{ .Previous.Tag }}'', newline, newline,
      ''Release notes:'', newline, ''{{ .Release.Notes }}'']"

definition DEFAULT_SUPERSEDE_COMMENT :: string where
  "DEFAULT_SUPERSEDE_COMMENT = concat
     [''Superseded: {{ .Supersede.OldTag }} '', arrow, '' {{ .Supersede.NewTag }}'', newline,
      ''{{ .Release.URL }}'', newline, newline, ''New ticket: {{ .Supersede.NewTicketURL }}'']"

definition integrationDefaultTemplates :: "string option \<Rightarrow> content_templates" where
  "integrationDefaultTemplates kind =
     \<lparr>ct_title = DEFAULT_TITLE,
      ct_description = (if kind = Some ''jira'' then DEFAULT_DESCRIPTION_PLAIN else DEFAULT_DESCRIPTION_MARKDOWN),
      ct_supersede_comment = DEFAULT_SUPERSEDE_COMMENT\<rparr>"

record template_variable =
  tv_key :: string
  tv_path :: string
  tv_worksIn :: "string list"

definition ALL_FIELDS :: "string list" where "ALL_FIELDS = [''title'', ''description'', ''supersedeComment'']"
definition SUPERSEDE_ONLY :: "string list" where "SUPERSEDE_ONLY = [''supersedeComment'']"

definition TEMPLATE_VARIABLES :: "template_variable list" where
  "TEMPLATE_VARIABLES =
     [\<lparr>tv_key = ''repoSourceKind'', tv_path = ''.Repo.SourceKind'', tv_worksIn = ALL_FIELDS\<rparr>,
      \<lparr>tv_key = ''repoProjectPath'', tv_path = ''.Repo.ProjectPath'', tv_worksIn = ALL_FIELDS\<rparr>,
      \<lparr>tv_key = ''repoUrl'', tv_path = ''.Repo.URL'', tv_worksIn = ALL_FIELDS\<rparr>,
      \<lparr>tv_key = ''releaseTag'', tv_path = ''.Release.Tag'', tv_worksIn = ALL_FIELDS\<rparr>,
      \<lparr>tv_key = ''releaseName'', tv_path = ''.Release.Name'', tv_worksIn = ALL_FIELDS\<rparr>,
      \<lparr>tv_key = ''releaseUrl'', tv_path = ''.Release.URL'', tv_worksIn = ALL_FIELDS\<rparr>,
      \<lparr>tv_key = ''releaseNotes'', tv_path = ''.Release.Notes'', tv_worksIn = ALL_FIELDS\<rparr>,
      \<lparr>tv_key = ''releasePublishedAt'', tv_path = ''.Release.PublishedAt'', tv_worksIn = ALL_FIELDS\<rparr>,
      \<lparr>tv_key = ''releaseIsPrerelease'', tv_path = ''.Release.IsPrerelease'', tv_worksIn = ALL_FIELDS\<rparr>,
      \<lparr>tv_key = ''previousTag'', tv_path = ''.Previous.Tag'', tv_worksIn = ALL_FIELDS\<rparr>,
      \<lparr>tv_key = ''supersedeOldTag'', tv_path = ''.Supersede.OldTag'', tv_worksIn = SUPERSEDE_ONLY\<rparr>,
      \<lparr>tv_key = ''supersedeNewTag'', tv_path = ''.Supersede.NewTag'', tv_worksIn = SUPERSEDE_ONLY\<rparr>,
      \<lparr>tv_key = ''supersedeNewTicketUrl'', tv_path = ''.Supersede.NewTicketURL'', tv_worksIn = SUPERSEDE_ONLY\<rparr>]"

definition templateVariableSyntax :: "string \<Rightarrow> string" where
  "templateVariableSyntax path = ''{{ '' @ path @ '' }}''"

definition defaultContentTemplates :: content_templates where
  "defaultContentTemplates = \<lparr>ct_title = [], ct_description = [], ct_supersede_comment = []\<rparr>"

definition contentTemplatesFromRecord :: "jsval \<Rightarrow> content_templates" where
  "contentTemplatesFromRecord rec =
     (if \<not> truthy rec then defaultContentTemplates
      else \<lparr>ct_title = string_or_empty (opt_prop rec ''title''),
            ct_description = string_or_empty (opt_prop rec ''description''),
            ct_supersede_comment = string_or_empty (opt_prop rec ''supersedeComment'')\<rparr>)"

text \<open>A \<open>ContentTemplates\<close> as the object it is.\<close>

definition templates_value :: "content_templates \<Rightarrow> jsval" where
  "templates_value c = Obj [(''title'', Str (ct_title c)), (''description'', Str (ct_description c)),
     (''supersedeComment'', Str (ct_supersede_comment c))]"

interpretation templates_codec: codec templates_value "\<lambda>r. Some (contentTemplatesFromRecord r)" "\<lambda>_. True"
  by unfold_locales (simp add: contentTemplatesFromRecord_def templates_value_def opt_prop_def string_or_empty_def)

end
