(* ===== verification/Ticket_Forms.thy ===== *)
theory Ticket_Forms
  imports Ticket_Config
begin

section \<open>The forms of a ticket project (\<open>components/ticket-projects\<close>)\<close>

text \<open>
  The controls the project drawer is made of: the select over metadata of the ticket system, the
  policy select, and the forms for the create configuration, the status mapping and the templates.
  A handler of the parent is its name and, where it computes the next value, the function.
\<close>

subsection \<open>The metadata select (\<open>metadata-select.tsx\<close>)\<close>

definition item_label :: "ticket_metadata_item \<Rightarrow> string" where
  "item_label i = (case tmi_label i of None \<Rightarrow> tmi_name i
     | Some l \<Rightarrow> if js_trim l \<noteq> [] then js_trim l else tmi_name i)"

definition toSelectItems :: "ticket_metadata_item list \<Rightarrow> string \<Rightarrow> bool \<Rightarrow> (msg \<times> string) list" where
  "toSelectItems its selectedValue includeMissingValue =
     (let options = map (\<lambda>i. (Raw (item_label i), tmi_id i)) its
      in if includeMissingValue \<and> selectedValue \<noteq> [] \<and> \<not> list_ex (\<lambda>opt. snd opt = selectedValue) options
         then (Raw selectedValue, selectedValue) # options else options)"

record metadata_select =
  ms_name :: string
  ms_label :: msg
  ms_placeholder :: string
  ms_value :: string
  ms_handler :: string
  ms_items :: "ticket_metadata_item list"
  ms_isLoading :: bool
  ms_isError :: bool
  ms_errorMessage :: "string option"
  ms_disabled :: bool
  ms_required :: bool
  ms_description :: "msg option"
  ms_includeMissingValue :: bool

definition select_items where "select_items p = toSelectItems (ms_items p) (ms_value p) (ms_includeMissingValue p)"

definition helperText :: "metadata_select \<Rightarrow> msg option" where
  "helperText p =
     (if ms_isLoading p then Some (t0 ''common.loading'')
      else if ms_isError p then Some (t0 ''ticket-projects.metadata.loadFailed'')
      else if given_text (ms_errorMessage p) then Some (Raw (the (ms_errorMessage p)))
      else if length (select_items p) = 0 then Some (t0 ''ticket-projects.metadata.empty'')
      else None)"

definition MetadataSelect :: "metadata_select \<Rightarrow> view" where
  "MetadataSelect p =
     (let selectItems = select_items p
      in El ''Field'' [(''name'', ms_name p)]
        ([El ''FieldLabel'' [] ([Txt (ms_label p), lit '' ''] @ required_mark (ms_required p)),
          El ''Select'' (flag ''disabled'' (ms_disabled p \<or> ms_isLoading p \<or> length selectItems = 0) @
              (''onValueChange'', ms_handler p) # attr_opt ''value'' (found (ms_value p) selectItems))
            [El ''SelectTrigger'' [] [El ''SelectValue'' [] [tx (ms_placeholder p)]],
             El ''SelectPopup'' [] (map (\<lambda>i. El ''SelectItem'' [(''key'', snd i), (''value'', snd i)] [Txt (fst i)]) selectItems)]] @
         shown_msg (ms_description p) (\<lambda>m. [El ''FieldDescription'' [] [Txt m]]) @
         shown_msg (helperText p) (\<lambda>m. [El ''FieldDescription''
             (flag ''data-error'' (ms_isError p \<or> given_text (ms_errorMessage p))) [Txt m]])))"

text \<open>\<open>onValueChange\<close>: clearing the selection is ignored.\<close>

definition pick_item :: "string option \<Rightarrow> (string \<Rightarrow> 's \<Rightarrow> 's) \<Rightarrow> 's \<Rightarrow> 's" where
  "pick_item next onValueChange s = (case next of None \<Rightarrow> s | Some v \<Rightarrow> onValueChange v s)"

text \<open>The props a metadata query gives a select.\<close>

definition metadata_props :: "ticket_metadata_response query \<Rightarrow> string \<Rightarrow> string \<Rightarrow> string \<Rightarrow> string \<Rightarrow> string \<Rightarrow> bool \<Rightarrow> bool \<Rightarrow> bool \<Rightarrow> metadata_select" where
  "metadata_props q name label placeholder value handler disabled required missing =
     \<lparr>ms_name = name, ms_label = t0 (''ticket-projects.'' @ label), ms_placeholder = ''ticket-projects.metadata.'' @ placeholder,
      ms_value = value, ms_handler = handler,
      ms_items = (case q_data q of None \<Rightarrow> [] | Some r \<Rightarrow> tmr_items r), ms_isLoading = q_loading q, ms_isError = q_error q,
      ms_errorMessage = Option.bind (q_data q) tmr_message, ms_disabled = disabled, ms_required = required,
      ms_description = None, ms_includeMissingValue = missing\<rparr>"

subsection \<open>The policy select (\<open>policy-select.tsx\<close>)\<close>

definition ON_OPEN_TICKET_POLICIES :: "string list" where
  "ON_OPEN_TICKET_POLICIES = [''supersede'', ''merge'', ''skip_if_open'']"

definition PolicySelect :: "string \<Rightarrow> view" where
  "PolicySelect value =
     (let its = map (\<lambda>p. (t0 (''ticket-projects.policies.'' @ p), p)) ON_OPEN_TICKET_POLICIES
      in El ''Field'' [(''name'', ''onOpenTicketPolicy'')]
        [El ''FieldLabel'' [] [tx ''ticket-projects.policy''],
         El ''Select'' ((''onValueChange'', ''setPolicy'') # attr_opt ''value'' (found value its))
           [El ''SelectTrigger'' [] [El ''SelectValue'' [] [tx ''ticket-projects.policyPlaceholder'']],
            El ''SelectPopup'' [] (map (\<lambda>i. El ''SelectItem'' [(''key'', snd i), (''value'', snd i)] [Txt (fst i)]) its)]])"

subsection \<open>The create configuration (\<open>create-config-tabs.tsx\<close>)\<close>

definition updateStringField :: "jsval \<Rightarrow> string \<Rightarrow> string \<Rightarrow> jsval" where
  "updateStringField values key next = spread values (Obj [(key, Str next)])"

definition tabs_metadataEnabled :: "string option \<Rightarrow> string \<Rightarrow> string option \<Rightarrow> bool" where
  "tabs_metadataEnabled integrationId externalProjectId kind \<longleftrightarrow>
     truthy_text integrationId \<and> externalProjectId \<noteq> [] \<and> truthy_text kind"

text \<open>The queries for statuses, priorities and issue types.\<close>

definition create_config_queries where
  "create_config_queries integrationId externalProjectId kind =
     (let enabled = tabs_metadataEnabled integrationId externalProjectId kind
      in [useTicketMetadataStatuses integrationId (Some externalProjectId) enabled,
          useTicketMetadataPriorities integrationId (Some externalProjectId) enabled,
          useTicketMetadataIssueTypes integrationId (Some externalProjectId) (enabled \<and> kind = Some ''jira'')])"

definition config_select :: "jsval \<Rightarrow> bool \<Rightarrow> ticket_metadata_response query \<Rightarrow> string \<Rightarrow> string \<Rightarrow> string \<Rightarrow> string \<Rightarrow> bool \<Rightarrow> view" where
  "config_select values enabled q key name label placeholder required =
     MetadataSelect (metadata_props q name label placeholder (text_of (opt_prop values key))
       (''updateStringField:'' @ key) (\<not> enabled) required True)"

definition CreateConfigTabs ::
  "string option \<Rightarrow> string \<Rightarrow> string option \<Rightarrow> jsval \<Rightarrow> ticket_metadata_response query \<Rightarrow>
   ticket_metadata_response query \<Rightarrow> ticket_metadata_response query \<Rightarrow> view list" where
  "CreateConfigTabs integrationId externalProjectId kind values statuses priorities issueTypes =
     (if \<not> truthy_text kind then []
      else (let enabled = tabs_metadataEnabled integrationId externalProjectId kind; sel = config_select values enabled
            in [El ''div'' []
              ([El ''p'' [] [tx ''ticket-projects.createConfigTitle''],
                El ''Tabs'' [(''value'', the kind)]
                  [El ''TabsList'' []
                     (map (\<lambda>k. El ''TabsTab'' (flag ''disabled'' (Some k \<noteq> kind) @ [(''value'', k)])
                                 [tx (''ticket-projects.kinds.'' @ k)]) TICKET_INTEGRATION_KINDS),
                   El ''TabsPanel'' [(''value'', ''kaneo'')]
                     [sel statuses ''status'' ''kaneoStatus'' ''kaneo.status'' ''statusPlaceholder'' True,
                      sel priorities ''priority'' ''kaneoPriority'' ''kaneo.priority'' ''priorityPlaceholder'' True],
                   El ''TabsPanel'' [(''value'', ''jira'')]
                     [sel issueTypes ''issueType'' ''jiraIssueType'' ''jira.issueType'' ''issueTypePlaceholder'' True,
                      sel priorities ''priority'' ''jiraPriority'' ''jira.priority'' ''priorityPlaceholder'' False,
                      sel statuses ''initialStatus'' ''jiraInitialStatus'' ''jira.initialStatus'' ''statusPlaceholder'' False],
                   El ''TabsPanel'' [(''value'', ''linear'')]
                     [sel priorities ''priority'' ''linearPriority'' ''linear.priority'' ''priorityPlaceholder'' False,
                      sel statuses ''stateId'' ''linearStateId'' ''linear.stateId'' ''statePlaceholder'' True]]] @
               shown_if (\<not> enabled)
                 [El ''Field'' [(''name'', ''createConfigHint'')]
                    [El ''FieldLabel'' [] [tx ''ticket-projects.metadata.projectRequired''],
                     El ''p'' [] [tx ''ticket-projects.metadata.projectRequired'']]])]))"

subsection \<open>The status mapping (\<open>status-mapping-form.tsx\<close>)\<close>

definition mapping_metadataEnabled :: "string option \<Rightarrow> string \<Rightarrow> bool" where
  "mapping_metadataEnabled integrationId externalProjectId \<longleftrightarrow> truthy_text integrationId \<and> externalProjectId \<noteq> []"

definition mapping_query where
  "mapping_query integrationId externalProjectId =
     useTicketMetadataStatuses integrationId (Some externalProjectId) (mapping_metadataEnabled integrationId externalProjectId)"

definition note_alert :: "string \<Rightarrow> string \<Rightarrow> view" where
  "note_alert title description =
     El ''Alert'' [(''variant'', ''warning'')]
       [El ''InfoIcon'' [] [], El ''AlertTitle'' [] [tx title], El ''AlertDescription'' [] [tx description]]"

definition status_group :: "string \<Rightarrow> string \<Rightarrow> string \<Rightarrow> string \<Rightarrow> ticket_metadata_item list \<Rightarrow> string list \<Rightarrow> view" where
  "status_group name label hint handler statuses selected =
     El ''Field'' [(''name'', name)]
       [El ''FieldLabel'' [] [tx label, lit '' '', El ''span'' [(''aria-hidden'', ''true'')] [lit ''*'']],
        El ''CheckboxGroup'' [(''onValueChange'', handler)]
          (map (\<lambda>i. El ''Label'' [(''key'', tmi_id i)]
                      [El ''Checkbox'' (flag ''checked'' (tmi_id i \<in> set selected) @ [(''value'', tmi_id i)]) [],
                       lit (item_label i)]) statuses),
        El ''FieldDescription'' [] [tx hint]]"

definition StatusMappingForm ::
  "string option \<Rightarrow> string \<Rightarrow> status_mapping \<Rightarrow> ticket_metadata_response query \<Rightarrow> view" where
  "StatusMappingForm integrationId externalProjectId values q =
     (let enabled = mapping_metadataEnabled integrationId externalProjectId;
          statuses = (case q_data q of None \<Rightarrow> [] | Some r \<Rightarrow> tmr_items r);
          metadataMessage = Option.bind (q_data q) tmr_message;
          t = (\<lambda>k. ''ticket-projects.'' @ k)
      in El ''div'' []
        ([note_alert (t ''mappingNoteTitle'') (t ''mappingNoteDescription'')] @
         shown_if (\<not> enabled) [El ''p'' [] [tx (t ''metadata.projectRequired'')]] @
         shown_if (enabled \<and> q_loading q) [El ''p'' [] [tx (t ''metadata.loading'')]] @
         shown_if (enabled \<and> (q_error q \<or> given_text metadataMessage))
           [El ''p'' [(''role'', ''alert'')]
              [Txt (case metadataMessage of None \<Rightarrow> t0 (t ''metadata.loadFailed'') | Some m \<Rightarrow> Raw m)]] @
         shown_if (enabled \<and> \<not> q_loading q \<and> length statuses = 0) [El ''p'' [] [tx (t ''metadata.empty'')]] @
         shown_if (enabled \<and> 0 < length statuses)
           [El ''div'' []
              [status_group ''statusOpen'' (t ''statusOpen'') (t ''statusOpenHint'') ''setOpen'' statuses (sm_open values),
               status_group ''statusDone'' (t ''statusDone'') (t ''statusDoneHint'') ''setDone'' statuses (sm_done values),
               status_group ''statusCancelled'' (t ''statusCancelled'') (t ''statusCancelledHint'') ''setCancelled'' statuses (sm_cancelled values)],
            MetadataSelect ((metadata_props q ''statusSuperseded'' ''statusSuperseded'' ''statusPlaceholder'' (sm_superseded values)
              ''setSuperseded'' False True True)\<lparr>ms_description := Some (t0 (t ''statusSupersededHint''))\<rparr>)]))"

subsection \<open>The templates (\<open>content-template-form.tsx\<close>)\<close>

text \<open>\<open>copyVariable\<close>: the clipboard write, and the toast once it settled.\<close>

definition copyVariable :: "string \<Rightarrow> command list" where
  "copyVariable syn = [Copy syn]"

definition copy_settled :: "string \<Rightarrow> bool \<Rightarrow> command list" where
  "copy_settled syn written =
     (if written then [Toast ''success'' (T ''ticket-projects.templates.copied'' [(''syntax'', syn)]) None]
      else [Toast ''error'' (t0 ''ticket-projects.templates.copyFailed'') None])"

definition template_field :: "string \<Rightarrow> string \<Rightarrow> string \<Rightarrow> string \<Rightarrow> string \<Rightarrow> view list \<Rightarrow> view" where
  "template_field name key handler placeholder value extra =
     El ''Field'' [(''name'', name)]
       ([El ''FieldLabel'' [] [tx (''ticket-projects.templates.fields.'' @ key)],
         El ''Textarea'' [(''onChange'', handler), (''value'', value)] [lit placeholder]] @ extra)"

definition variable_row :: "template_variable \<Rightarrow> view" where
  "variable_row v =
     (let syn = templateVariableSyntax (tv_path v)
      in El ''TableRow'' [(''key'', tv_key v)]
        [El ''TableCell'' [] [lit syn],
         El ''TableCell'' [] [tx (''ticket-projects.templates.variables.'' @ tv_key v @ ''.description'')],
         El ''TableCell'' [] (concat (map (\<lambda>(i, f). (if i = 0 then [] else [lit '', '']) @ [tx (''ticket-projects.templates.worksIn.'' @ f)])
            (zip [0..<length (tv_worksIn v)] (tv_worksIn v)))),
         El ''TableCell'' []
           [Button False False [(''onClick'', ''copyVariable''), (''size'', ''icon-sm''), (''type'', ''button''), (''variant'', ''ghost'')]
              [El ''aria-label'' [] [Txt (T ''ticket-projects.templates.copyAria'' [(''path'', tv_path v)])], El ''CopyIcon'' [] []]]])"

definition ContentTemplateForm :: "string option \<Rightarrow> content_templates \<Rightarrow> view" where
  "ContentTemplateForm kind values =
     (let defaults = integrationDefaultTemplates kind; t = (\<lambda>k. ''ticket-projects.templates.'' @ k)
      in El ''div'' []
        [note_alert (t ''noteTitle'') (t ''noteDescription''),
         El ''div'' []
           [template_field ''templateTitle'' ''title'' ''setTitle'' (ct_title defaults) (ct_title values) [],
            template_field ''templateDescription'' ''description'' ''setDescription'' (ct_description defaults) (ct_description values) [],
            template_field ''templateSupersedeComment'' ''supersedeComment'' ''setSupersedeComment''
              (ct_supersede_comment defaults) (ct_supersede_comment values)
              [El ''FieldDescription'' [] [tx (t ''supersedeHint'')]]],
         El ''section'' []
           [El ''p'' [] [tx (t ''variablesTitle'')],
            El ''p'' [] [Txt (T (t ''variablesDescription'') [(''previousTag'', templateVariableSyntax ''.Previous.Tag'')])],
            El ''Table'' []
              [El ''TableHeader'' []
                 [El ''TableRow'' []
                    (map (\<lambda>k. El ''TableHead'' [] [tx (t k)]) [''variablePath'', ''variableDescription'', ''variableWorksIn'', ''variableCopy''])],
               El ''TableBody'' [] (map variable_row TEMPLATE_VARIABLES)]]])"

subsection \<open>What the helpers guarantee\<close>

text \<open>The variables a template uses: the last word of every \<open>{{ ... }}\<close>.\<close>

fun until_close :: "string \<Rightarrow> string \<times> string" where
  "until_close [] = ([], [])"
| "until_close (c # cs) =
     (if starts_with (c # cs) ''}}'' then ([], cs) else (let (a, r) = until_close cs in (c # a, r)))"

lemma until_close_length: "length (snd (until_close s)) \<le> length s"
  by (induction s rule: until_close.induct) (auto split: prod.splits)

function used_variables :: "string \<Rightarrow> string list" where
  "used_variables [] = []"
| "used_variables (c # cs) =
     (if starts_with (c # cs) ''{{'' then
        last (split_on (CHR '' '') (js_trim (fst (until_close (drop 1 cs))))) # used_variables (snd (until_close (drop 1 cs)))
      else used_variables cs)"
  by pat_completeness auto
termination
proof (relation "measure length")
  show "(snd (until_close (drop 1 cs)), c # cs) \<in> measure length" for c :: char and cs
    using until_close_length [of "drop 1 cs"] by simp
qed simp_all

definition documented :: "string \<Rightarrow> string \<Rightarrow> bool" where
  "documented field template \<longleftrightarrow>
     list_all (\<lambda>path. list_ex (\<lambda>v. tv_path v = path \<and> field \<in> set (tv_worksIn v)) TEMPLATE_VARIABLES) (used_variables template)"

text \<open>The documentation in the template form is complete: every variable that a default template
  uses, for any kind of integration, is in the table of variables as one that works in that field.\<close>

theorem templates_documented:
  "documented ''title'' (ct_title (integrationDefaultTemplates kind)) \<and>
   documented ''description'' (ct_description (integrationDefaultTemplates kind)) \<and>
   documented ''supersedeComment'' (ct_supersede_comment (integrationDefaultTemplates kind))"
proof -
  have "documented ''title'' DEFAULT_TITLE" by code_simp
  moreover have "documented ''description'' DEFAULT_DESCRIPTION_PLAIN" by code_simp
  moreover have "documented ''description'' DEFAULT_DESCRIPTION_MARKDOWN" by code_simp
  moreover have "documented ''supersedeComment'' DEFAULT_SUPERSEDE_COMMENT" by code_simp
  ultimately show ?thesis by (simp add: integrationDefaultTemplates_def)
qed

text \<open>The status lists as text: reading is normalising, and writing what was read keeps it.\<close>

lemma parsed_items: "x \<in> set (parseStatusList s) \<Longrightarrow> x \<noteq> [] \<and> js_trim x = x \<and> CHR '','' \<notin> set x"
proof -
  assume "x \<in> set (parseStatusList s)"
  then obtain w where w: "w \<in> set (split_on (CHR '','') s)" "x = js_trim w" "x \<noteq> []"
    by (auto simp: parseStatusList_def)
  then show ?thesis using split_on_pieces [OF w(1)] set_js_trim [of w] by auto
qed

end
