(* ===== verification/Project_Drawer.thy ===== *)
theory Project_Drawer
  imports Ticket_Forms
begin

section \<open>The ticket project drawer (\<open>components/ticket-projects/project-drawer.tsx\<close>)\<close>

text \<open>
  Creating and editing a ticket project over four tabs. Choosing another integration or another
  external project clears, by effects, what was chosen for the one before; the submit validates all
  tabs, marks those with a mistake and shows the first.
\<close>

definition DRAWER_TABS :: "string list" where
  "DRAWER_TABS = [''general'', ''createConfig'', ''statusMapping'', ''contentTemplates'']"

record pdrawer_props =
  pp_mode :: drawer_mode
  pp_project :: "ticket_project option"
  pp_integrations :: "integration list"
  pp_open :: bool
  pp_isSaving :: bool

record pdrawer =
  pd_integrationId :: string
  pd_workspaceId :: string
  pd_externalProjectId :: string
  pd_name :: string
  pd_policy :: string
  pd_createConfig :: jsval
  pd_statusMapping :: status_mapping
  pd_contentTemplates :: content_templates
  pd_activeTab :: string
  pd_invalidTabs :: "string list"
  pd_formError :: "msg option"

definition pdrawer_init :: pdrawer where
  "pdrawer_init =
     \<lparr>pd_integrationId = [], pd_workspaceId = [], pd_externalProjectId = [], pd_name = [], pd_policy = ''supersede'',
      pd_createConfig = Obj [], pd_statusMapping = defaultStatusMapping, pd_contentTemplates = defaultContentTemplates,
      pd_activeTab = ''general'', pd_invalidTabs = [], pd_formError = None\<rparr>"

subsection \<open>Validation\<close>

definition validateStatusMapping :: "status_mapping \<Rightarrow> string option" where
  "validateStatusMapping values =
     (if length (sm_open values) = 0 then Some ''statusOpenRequired''
      else if length (sm_done values) = 0 then Some ''statusDoneRequired''
      else if length (sm_cancelled values) = 0 then Some ''statusCancelledRequired''
      else if js_trim (sm_superseded values) = [] then Some ''statusSupersededRequired''
      else None)"

definition validateCreateConfig :: "string \<Rightarrow> jsval \<Rightarrow> bool" where
  "validateCreateConfig kind values =
     (let filled = (\<lambda>k. js_trim (text_of (opt_prop values k)) \<noteq> [])
      in if kind = ''kaneo'' then filled ''status'' \<and> filled ''priority''
         else if kind = ''jira'' then filled ''issueType''
         else if kind = ''linear'' then filled ''stateId''
         else True)"

subsection \<open>What a render derives\<close>

definition ticketIntegrations :: "pdrawer_props \<Rightarrow> integration list" where
  "ticketIntegrations p = filter (\<lambda>i. kindIsTicket (intg_kind i)) (pp_integrations p)"

definition integrationItems :: "pdrawer_props \<Rightarrow> (msg \<times> string) list" where
  "integrationItems p = map (\<lambda>i. (Raw (intg_name i), intg_id i)) (ticketIntegrations p)"

definition selectedIntegration :: "pdrawer_props \<Rightarrow> pdrawer \<Rightarrow> integration option" where
  "selectedIntegration p s =
     (if pp_mode p = Edit then find (\<lambda>i. Some (intg_id i) = map_option tp_integration_id (pp_project p)) (pp_integrations p)
      else find (\<lambda>i. intg_id i = pd_integrationId s) (ticketIntegrations p))"

definition pd_activeKind :: "pdrawer_props \<Rightarrow> pdrawer \<Rightarrow> string option" where
  "pd_activeKind p s = map_option intg_kind (selectedIntegration p s)"

definition activeIntegrationId :: "pdrawer_props \<Rightarrow> pdrawer \<Rightarrow> string option" where
  "activeIntegrationId p s =
     (if pp_mode p = Edit then map_option tp_integration_id (pp_project p)
      else if pd_integrationId s \<noteq> [] then Some (pd_integrationId s) else None)"

definition activeExternalProjectId :: "pdrawer_props \<Rightarrow> pdrawer \<Rightarrow> string" where
  "activeExternalProjectId p s =
     (if pp_mode p = Edit then (case pp_project p of None \<Rightarrow> [] | Some pr \<Rightarrow> tp_external_project_id pr)
      else pd_externalProjectId s)"

definition pd_metadataEnabled :: "pdrawer_props \<Rightarrow> pdrawer \<Rightarrow> bool" where
  "pd_metadataEnabled p s \<longleftrightarrow> pp_open p \<and> truthy_text (activeIntegrationId p s)"

definition workspaces_query where
  "workspaces_query p s =
     useTicketMetadataWorkspaces (activeIntegrationId p s) (pd_metadataEnabled p s \<and> pd_activeKind p s = Some ''kaneo'')"

definition projects_query where
  "projects_query p s =
     (let kaneo = (pd_activeKind p s = Some ''kaneo'')
      in useTicketMetadataProjects (activeIntegrationId p s) (if kaneo then Some (pd_workspaceId s) else None)
           (pd_metadataEnabled p s \<and> (kaneo \<longrightarrow> pd_workspaceId s \<noteq> [])))"

subsection \<open>The effects\<close>

text \<open>The reset reads the props only; the other two read the state \<open>s\<close> of their render and update the
  current one, \<open>c\<close>.\<close>

definition pd_reset_effect :: "pdrawer_props \<Rightarrow> pdrawer \<Rightarrow> pdrawer" where
  "pd_reset_effect p c0 =
     (if \<not> pp_open p then c0
      else (let c = c0\<lparr>pd_formError := None, pd_invalidTabs := [], pd_activeTab := ''general''\<rparr>
            in case (pp_mode p, pp_project p) of
                 (Edit, Some pr) \<Rightarrow>
                   (let kind = map_option intg_kind (find (\<lambda>i. intg_id i = tp_integration_id pr) (pp_integrations p))
                    in c\<lparr>pd_integrationId := tp_integration_id pr, pd_workspaceId := [],
                         pd_externalProjectId := tp_external_project_id pr, pd_name := tp_name pr,
                         pd_policy := (if tp_on_open_ticket_policy pr \<in> set ON_OPEN_TICKET_POLICIES
                                       then tp_on_open_ticket_policy pr else ''supersede''),
                         pd_createConfig := (if truthy_text kind then createConfigFromRecord (the kind) (tp_create_config pr)
                                             else tp_create_config pr),
                         pd_statusMapping := statusMappingFromRecord (tp_status_mapping pr),
                         pd_contentTemplates := contentTemplatesFromRecord (templates_value (tp_content_templates pr))\<rparr>)
               | _ \<Rightarrow>
                   (let first = (case ticketIntegrations p of [] \<Rightarrow> None | i # _ \<Rightarrow> Some i); kind = map_option intg_kind first
                    in c\<lparr>pd_integrationId := (case first of None \<Rightarrow> [] | Some i \<Rightarrow> intg_id i), pd_workspaceId := [],
                         pd_externalProjectId := [], pd_name := [], pd_policy := ''supersede'',
                         pd_createConfig := (if truthy_text kind then defaultCreateConfig (the kind) else Obj []),
                         pd_statusMapping := defaultStatusMapping, pd_contentTemplates := defaultContentTemplates\<rparr>)))"

definition pd_kind_effect :: "pdrawer_props \<Rightarrow> pdrawer \<Rightarrow> pdrawer \<Rightarrow> pdrawer" where
  "pd_kind_effect p s c =
     (if \<not> pp_open p \<or> pp_mode p \<noteq> Create \<or> \<not> truthy_text (pd_activeKind p s) then c
      else c\<lparr>pd_workspaceId := [], pd_externalProjectId := [],
             pd_createConfig := defaultCreateConfig (the (pd_activeKind p s)), pd_statusMapping := defaultStatusMapping\<rparr>)"

definition pd_project_effect :: "pdrawer_props \<Rightarrow> pdrawer \<Rightarrow> pdrawer \<Rightarrow> pdrawer" where
  "pd_project_effect p s c =
     (if \<not> pp_open p \<or> pp_mode p \<noteq> Create \<or> pd_externalProjectId s = [] then c
      else c\<lparr>pd_createConfig := (if truthy_text (pd_activeKind p s) then defaultCreateConfig (the (pd_activeKind p s)) else Obj []),
             pd_statusMapping := defaultStatusMapping\<rparr>)"

definition pd_reset_deps where "pd_reset_deps p = (pp_open p, pp_mode p, pp_project p, pp_integrations p)"
definition pd_kind_deps where "pd_kind_deps p s = (pp_open p, pp_mode p, pd_activeKind p s, pd_integrationId s)"
definition pd_project_deps where "pd_project_deps p s = (pp_open p, pp_mode p, pd_externalProjectId s, pd_activeKind p s)"

definition pd_round :: "pdrawer_props \<times> pdrawer \<Rightarrow> pdrawer_props \<Rightarrow> pdrawer \<Rightarrow> pdrawer" where
  "pd_round prev p s =
     (let (p0, s0) = prev;
          c1 = (if pd_reset_deps p0 \<noteq> pd_reset_deps p then pd_reset_effect p s else s);
          c2 = (if pd_kind_deps p0 s0 \<noteq> pd_kind_deps p s then pd_kind_effect p s c1 else c1)
      in if pd_project_deps p0 s0 \<noteq> pd_project_deps p s then pd_project_effect p s c2 else c2)"

definition pd_quiet :: "pdrawer_props \<times> pdrawer \<Rightarrow> pdrawer_props \<Rightarrow> pdrawer \<Rightarrow> bool" where
  "pd_quiet prev p s \<longleftrightarrow>
     (let (p0, s0) = prev
      in pd_reset_deps p0 = pd_reset_deps p \<and> pd_kind_deps p0 s0 = pd_kind_deps p s \<and> pd_project_deps p0 s0 = pd_project_deps p s)"

abbreviation pd_settle where "pd_settle \<equiv> settle pd_quiet pd_round"

subsection \<open>Handlers\<close>

definition general_wrong :: "pdrawer_props \<Rightarrow> pdrawer \<Rightarrow> bool" where
  "general_wrong p s \<longleftrightarrow>
     js_trim (pd_name s) = [] \<or> js_trim (pd_externalProjectId s) = [] \<or>
     pp_mode p = Create \<and> pd_integrationId s = [] \<or>
     pp_mode p = Create \<and> pd_activeKind p s = Some ''kaneo'' \<and> js_trim (pd_workspaceId s) = [] \<or>
     \<not> truthy_text (pd_activeKind p s)"

text \<open>\<open>validateAllTabs\<close>: the state with the marked tabs, and the first error with its tab.\<close>

definition validateAllTabs :: "pdrawer_props \<Rightarrow> pdrawer \<Rightarrow> pdrawer \<times> (string \<times> msg) option" where
  "validateAllTabs p s =
     (let kind = pd_activeKind p s;
          config_wrong = (truthy_text kind \<and> \<not> validateCreateConfig (the kind) (pd_createConfig s));
          mappingError = validateStatusMapping (pd_statusMapping s);
          marked = (if general_wrong p s then [''general''] else []) @
                   (if config_wrong then [''createConfig''] else []) @
                   (if mappingError \<noteq> None then [''statusMapping''] else []);
          general = (\<lambda>m. Some (''general'', t0 (''ticket-projects.validation.'' @ m)))
      in (s\<lparr>pd_invalidTabs := marked\<rparr>,
          if js_trim (pd_name s) = [] then general ''nameRequired''
          else if js_trim (pd_externalProjectId s) = [] then general ''externalProjectIdRequired''
          else if pp_mode p = Create \<and> pd_integrationId s = [] then general ''integrationRequired''
          else if pp_mode p = Create \<and> kind = Some ''kaneo'' \<and> js_trim (pd_workspaceId s) = [] then general ''workspaceRequired''
          else if \<not> truthy_text kind then general ''integrationRequired''
          else if \<not> validateCreateConfig (the kind) (pd_createConfig s) then
            Some (''createConfig'', t0 ''ticket-projects.validation.createConfigRequired'')
          else (case mappingError of
                  Some e \<Rightarrow> Some (''statusMapping'', t0 (''ticket-projects.validation.'' @ e))
                | None \<Rightarrow> None)))"

definition pd_payload :: "pdrawer_props \<Rightarrow> string \<Rightarrow> pdrawer \<Rightarrow> (string \<times> jsval) list" where
  "pd_payload p kind s =
     [(''name'', Str (js_trim (pd_name s))),
      (''createConfig'', serializeCreateConfig kind (pd_createConfig s) (if pp_mode p = Create then pd_workspaceId s else [])),
      (''statusMapping'', statusMappingToRecord (pd_statusMapping s)),
      (''contentTemplates'', templates_value (pd_contentTemplates s)),
      (''onOpenTicketPolicy'', Str (pd_policy s))]"

definition pd_handleSubmit :: "pdrawer_props \<Rightarrow> pdrawer \<Rightarrow> pdrawer \<times> command list" where
  "pd_handleSubmit p s0 =
     (let (s, validationError) = validateAllTabs p (s0\<lparr>pd_formError := None\<rparr>)
      in case validationError of
           Some (tab, message) \<Rightarrow> (s\<lparr>pd_activeTab := tab, pd_formError := Some message\<rparr>, [])
         | None \<Rightarrow>
             if \<not> truthy_text (pd_activeKind p s) then (s, [])
             else (let payload = pd_payload p (the (pd_activeKind p s)) s
                   in if pp_mode p = Create then
                        (s, [Mutate (createTicketProject (Obj
                              ([(''integrationId'', Str (pd_integrationId s)),
                                (''externalProjectId'', Str (js_trim (pd_externalProjectId s)))] @ payload)))])
                      else (case pp_project p of
                              Some pr \<Rightarrow> (s, [Mutate (updateTicketProject (tp_id pr) (Obj payload))])
                            | None \<Rightarrow> (s, []))))"

definition pd_saved :: "jsval js_result \<Rightarrow> pdrawer \<Rightarrow> pdrawer \<times> bool" where
  "pd_saved r s =
     (case r of Inr _ \<Rightarrow> (s, True)
              | Inl e \<Rightarrow> (s\<lparr>pd_formError := Some (save_error (t0 ''ticket-projects.saveFailed'') e)\<rparr>, False))"

definition handleTabChange :: "string option \<Rightarrow> pdrawer \<Rightarrow> pdrawer" where
  "handleTabChange value s =
     (if given_text value \<and> the value \<in> set DRAWER_TABS then s\<lparr>pd_activeTab := the value\<rparr> else s)"

subsection \<open>The view\<close>

definition pd_integration_field :: "pdrawer_props \<Rightarrow> pdrawer \<Rightarrow> view" where
  "pd_integration_field p s =
     (if pp_mode p = Create then
        El ''Field'' [(''name'', ''integrationId'')]
          [El ''FieldLabel'' [] [tx ''ticket-projects.integration'', lit '' '', El ''span'' [(''aria-hidden'', ''true'')] [lit ''*'']],
           if length (ticketIntegrations p) = 0 then El ''p'' [] [tx ''ticket-projects.noTicketIntegrations'']
           else El ''Select'' ((''onValueChange'', ''setIntegrationId'') # attr_opt ''value'' (found (pd_integrationId s) (integrationItems p)))
             [El ''SelectTrigger'' [] [El ''SelectValue'' [] [tx ''ticket-projects.integrationPlaceholder'']],
              El ''SelectPopup'' []
                (map (\<lambda>i. El ''SelectItem'' [(''key'', snd i), (''value'', snd i)] [Txt (fst i)]) (integrationItems p))]]
      else
        El ''Field'' [(''name'', ''integration'')]
          [El ''FieldLabel'' [] [tx ''ticket-projects.integration''],
           El ''Input'' [(''disabled'', ''true''), (''readOnly'', ''true'')]
             [lit (case selectedIntegration p s of None \<Rightarrow> [] | Some i \<Rightarrow> intg_name i)]])"

definition general_panel ::
  "pdrawer_props \<Rightarrow> pdrawer \<Rightarrow> ticket_metadata_response query \<Rightarrow> ticket_metadata_response query \<Rightarrow> view" where
  "general_panel p s workspaces projects =
     (let edit = (pp_mode p = Edit); enabled = pd_metadataEnabled p s
      in El ''TabsPanel'' [(''value'', ''general'')]
        ([pd_integration_field p s] @
         shown_if (pd_activeKind p s = Some ''kaneo'' \<and> \<not> edit)
           [MetadataSelect (metadata_props workspaces ''workspaceId'' ''kaneo.workspace'' ''workspacePlaceholder''
              (pd_workspaceId s) ''setWorkspaceId'' (\<not> enabled) True False)] @
         [MetadataSelect (metadata_props projects ''externalProjectId'' ''externalProjectId'' ''projectPlaceholder''
            (activeExternalProjectId p s) ''setExternalProjectId'' (edit \<or> \<not> enabled) True edit),
          El ''Field'' [(''name'', ''name'')]
            [El ''FieldLabel'' [] [tx ''ticket-projects.name'', lit '' '', El ''span'' [(''aria-hidden'', ''true'')] [lit ''*'']],
             El ''Input'' [(''onChange'', ''setName''), (''required'', ''true''), (''value'', pd_name s)] []],
          PolicySelect (pd_policy s)]))"

definition ProjectDrawer ::
  "pdrawer_props \<Rightarrow> pdrawer \<Rightarrow> ticket_metadata_response query \<Rightarrow> ticket_metadata_response query \<Rightarrow>
   ticket_metadata_response query \<Rightarrow> ticket_metadata_response query \<Rightarrow> ticket_metadata_response query \<Rightarrow>
   ticket_metadata_response query \<Rightarrow> view" where
  "ProjectDrawer p s workspaces projects statuses priorities issueTypes mapping =
     (let create = (pp_mode p = Create); kind = pd_activeKind p s;
          iid = activeIntegrationId p s; xid = activeExternalProjectId p s
      in El ''Sheet'' ((''onOpenChange'', ''onOpenChange'') # flag ''open'' (pp_open p))
        [El ''SheetPopup'' [(''side'', ''right'')]
          [El ''SheetHeader'' []
             [El ''SheetTitle'' [] [tx (if create then ''ticket-projects.createTitle'' else ''ticket-projects.editTitle'')],
              El ''SheetDescription'' [] [tx (if create then ''ticket-projects.createDescription'' else ''ticket-projects.editDescription'')]],
           El ''form'' [(''onSubmit'', ''handleSubmit'')]
             [El ''SheetPanel'' []
                (form_alert (pd_formError s) @
                 [El ''Tabs'' [(''onValueChange'', ''handleTabChange''), (''value'', pd_activeTab s)]
                   [El ''TabsList'' []
                      (map (\<lambda>tab. El ''TabsTab'' (flag ''data-invalid'' (tab \<in> set (pd_invalidTabs s)) @ [(''value'', tab)])
                                   [tx (''ticket-projects.tabs.'' @ tab)]) DRAWER_TABS),
                    general_panel p s workspaces projects,
                    El ''TabsPanel'' [(''value'', ''createConfig'')]
                      (CreateConfigTabs iid xid kind (pd_createConfig s) statuses priorities issueTypes),
                    El ''TabsPanel'' [(''value'', ''statusMapping'')] [StatusMappingForm iid xid (pd_statusMapping s) mapping],
                    El ''TabsPanel'' [(''value'', ''contentTemplates'')] [ContentTemplateForm kind (pd_contentTemplates s)]]]),
              El ''SheetFooter'' [(''variant'', ''bare'')]
                [El ''SheetClose'' [(''variant'', ''ghost''), (''type'', ''button'')] [tx ''common.cancel''],
                 Button (pp_isSaving p) (create \<and> length (ticketIntegrations p) = 0) [(''type'', ''submit'')] [tx ''common.save'']]]]])"

subsection \<open>The submit\<close>

definition pd_check :: "pdrawer_props \<Rightarrow> pdrawer \<Rightarrow> msg option" where
  "pd_check p s = map_option snd (snd (validateAllTabs p s))"

definition pd_saves :: "pdrawer_props \<Rightarrow> pdrawer \<Rightarrow> mutation option" where
  "pd_saves p s =
     (let payload = pd_payload p (the (pd_activeKind p s)) s
      in if pp_mode p = Create then
           Some (createTicketProject (Obj ((''integrationId'', Str (pd_integrationId s)) #
             (''externalProjectId'', Str (js_trim (pd_externalProjectId s))) # payload)))
         else map_option (\<lambda>pr. updateTicketProject (tp_id pr) (Obj payload)) (pp_project p))"

lemma pd_derived [simp]:
  "selectedIntegration p (s\<lparr>pd_formError := m\<rparr>) = selectedIntegration p s"
  "selectedIntegration p (s\<lparr>pd_invalidTabs := l\<rparr>) = selectedIntegration p s"
  "selectedIntegration p (s\<lparr>pd_activeTab := tab\<rparr>) = selectedIntegration p s"
  "selectedIntegration p (s\<lparr>pd_workspaceId := w\<rparr>) = selectedIntegration p s"
  "selectedIntegration p (s\<lparr>pd_externalProjectId := w\<rparr>) = selectedIntegration p s"
  "selectedIntegration p (s\<lparr>pd_createConfig := cf\<rparr>) = selectedIntegration p s"
  "selectedIntegration p (s\<lparr>pd_statusMapping := sm\<rparr>) = selectedIntegration p s"
  by (simp_all add: selectedIntegration_def)

lemma pd_kind [simp]:
  "pd_activeKind p (s\<lparr>pd_formError := m\<rparr>) = pd_activeKind p s"
  "pd_activeKind p (s\<lparr>pd_invalidTabs := l\<rparr>) = pd_activeKind p s"
  "pd_activeKind p (s\<lparr>pd_activeTab := tab\<rparr>) = pd_activeKind p s"
  "pd_activeKind p (s\<lparr>pd_workspaceId := w\<rparr>) = pd_activeKind p s"
  "pd_activeKind p (s\<lparr>pd_externalProjectId := w\<rparr>) = pd_activeKind p s"
  "pd_activeKind p (s\<lparr>pd_createConfig := cf\<rparr>) = pd_activeKind p s"
  "pd_activeKind p (s\<lparr>pd_statusMapping := sm\<rparr>) = pd_activeKind p s"
  by (simp_all add: pd_activeKind_def)

lemma pd_payload_frame [simp]:
  "pd_payload p k (s\<lparr>pd_formError := m\<rparr>) = pd_payload p k s"
  "pd_payload p k (s\<lparr>pd_invalidTabs := l\<rparr>) = pd_payload p k s"
  by (simp_all add: pd_payload_def)

lemma general_wrong_frame [simp]: "general_wrong p (s\<lparr>pd_formError := m\<rparr>) = general_wrong p s"
  by (simp add: general_wrong_def)

lemma validate_frame:
  "validateAllTabs p (s\<lparr>pd_formError := m\<rparr>) =
     ((fst (validateAllTabs p s))\<lparr>pd_formError := m\<rparr>, snd (validateAllTabs p s))"
  by (simp add: validateAllTabs_def Let_def)

lemma validated_state: "fst (validateAllTabs p s) = s\<lparr>pd_invalidTabs := pd_invalidTabs (fst (validateAllTabs p s))\<rparr>"
  by (simp add: validateAllTabs_def Let_def)

lemma valid_kind: "snd (validateAllTabs p s) = None \<Longrightarrow> truthy_text (pd_activeKind p s)"
  by (auto simp: validateAllTabs_def Let_def split: if_splits)

lemma pd_submit_cases:
  "pd_handleSubmit p s =
     (let s' = s\<lparr>pd_formError := pd_check p s, pd_invalidTabs := pd_invalidTabs (fst (validateAllTabs p s))\<rparr>
      in case snd (validateAllTabs p s) of
           Some (tab, _) \<Rightarrow> (s'\<lparr>pd_activeTab := tab\<rparr>, [])
         | None \<Rightarrow> (s', case pd_saves p s of None \<Rightarrow> [] | Some m \<Rightarrow> [Mutate m]))"
proof -
  obtain l err where v: "validateAllTabs p s = (s\<lparr>pd_invalidTabs := l\<rparr>, err)"
    using validated_state [of p s] by (metis prod.collapse)
  have saves: "pd_payload p k (s\<lparr>pd_formError := None, pd_invalidTabs := l\<rparr>) = pd_payload p k s" for k by simp
  show ?thesis
  proof (cases err)
    case None
    then have "truthy_text (pd_activeKind p s)" using valid_kind [of p s] v by simp
    then show ?thesis
      using None saves by (simp add: pd_handleSubmit_def validate_frame v pd_check_def pd_saves_def Let_def split: option.splits)
  next
    case (Some tm)
    then show ?thesis
      by (cases tm) (simp add: pd_handleSubmit_def validate_frame v pd_check_def Let_def)
  qed
qed

interpretation project_form: form_submit "pd_check p" "pd_saves p" "pd_handleSubmit p" pd_formError for p
  by unfold_locales (auto simp: pd_submit_cases pd_check_def Let_def split: option.splits)

text \<open>The rules of the form, independent of the order in which the handler tests them.\<close>

definition mapping_complete :: "status_mapping \<Rightarrow> bool" where
  "mapping_complete m \<longleftrightarrow> sm_open m \<noteq> [] \<and> sm_done m \<noteq> [] \<and> sm_cancelled m \<noteq> [] \<and> js_trim (sm_superseded m) \<noteq> []"

definition pd_valid :: "pdrawer_props \<Rightarrow> pdrawer \<Rightarrow> bool" where
  "pd_valid p s \<longleftrightarrow>
     js_trim (pd_name s) \<noteq> [] \<and> js_trim (pd_externalProjectId s) \<noteq> [] \<and>
     (pp_mode p = Create \<longrightarrow> pd_integrationId s \<noteq> []) \<and> mapping_complete (pd_statusMapping s) \<and>
     (case pd_activeKind p s of
        None \<Rightarrow> False
      | Some kind \<Rightarrow> kind \<noteq> [] \<and> validateCreateConfig kind (pd_createConfig s) \<and>
          (pp_mode p = Create \<and> kind = ''kaneo'' \<longrightarrow> js_trim (pd_workspaceId s) \<noteq> []))"

lemma mapping_error_None: "validateStatusMapping m = None \<longleftrightarrow> mapping_complete m"
  by (simp add: validateStatusMapping_def mapping_complete_def)

lemma truthy_text_Some [simp]: "truthy_text (Some k) \<longleftrightarrow> k \<noteq> []" "\<not> truthy_text None"
  by (simp_all add: truthy_text_def)

lemma pd_check_valid: "pd_check p s = None \<longleftrightarrow> pd_valid p s"
  by (cases "pd_activeKind p s")
     (auto simp: pd_check_def validateAllTabs_def Let_def pd_valid_def simp flip: mapping_error_None split: option.splits)

text \<open>C24: The ticket project drawer saves exactly the valid forms: a submit sends its one create or
  update request when the name, the external project, the integration (and, for a new Kaneo project,
  the workspace), the required fields of the kind and all four status lists are given, and otherwise
  shows an error and sends nothing.\<close>

theorem project_submit_valid:
  "mutations (snd (pd_handleSubmit p s)) =
     (if pd_valid p s then (case pd_saves p s of None \<Rightarrow> [] | Some m \<Rightarrow> [m]) else []) \<and>
   (pd_formError (fst (pd_handleSubmit p s)) = None \<longleftrightarrow> pd_valid p s)"
  using project_form.sends [of p s] project_form.shows_error [of p s] by (simp add: pd_check_valid)

definition tab_wrong :: "pdrawer_props \<Rightarrow> pdrawer \<Rightarrow> string \<Rightarrow> bool" where
  "tab_wrong p s tab \<longleftrightarrow>
     tab = ''general'' \<and> general_wrong p s \<or>
     tab = ''createConfig'' \<and> (case pd_activeKind p s of None \<Rightarrow> False
        | Some kind \<Rightarrow> kind \<noteq> [] \<and> \<not> validateCreateConfig kind (pd_createConfig s)) \<or>
     tab = ''statusMapping'' \<and> \<not> mapping_complete (pd_statusMapping s)"

lemma marked_tabs: "pd_invalidTabs (fst (validateAllTabs p s)) = filter (tab_wrong p s) DRAWER_TABS"
  by (cases "pd_activeKind p s") (auto simp: validateAllTabs_def Let_def tab_wrong_def DRAWER_TABS_def simp flip: mapping_error_None)

lemma error_tab:
  "map_option fst (snd (validateAllTabs p s)) =
     (case filter (tab_wrong p s) DRAWER_TABS of [] \<Rightarrow> None | tab # _ \<Rightarrow> Some tab)"
  by (cases "pd_activeKind p s")
     (auto simp: validateAllTabs_def Let_def tab_wrong_def DRAWER_TABS_def general_wrong_def simp flip: mapping_error_None split: option.splits)

text \<open>A submit of the ticket project drawer marks exactly the tabs that hold a mistake, in the
  order of the tab bar, and with any of them marked it shows the first and an error, so the error is
  never on a hidden tab; with none marked it leaves the tab and shows no error.\<close>

theorem invalid_tabs_marked:
  "let s' = fst (pd_handleSubmit p s); wrong = filter (tab_wrong p s) DRAWER_TABS
   in pd_invalidTabs s' = wrong \<and>
      (case wrong of [] \<Rightarrow> pd_formError s' = None \<and> pd_activeTab s' = pd_activeTab s
                   | tab # _ \<Rightarrow> pd_formError s' \<noteq> None \<and> pd_activeTab s' = tab)"
  using error_tab [of p s]
  by (cases "snd (validateAllTabs p s)")
     (auto simp: pd_submit_cases Let_def marked_tabs pd_check_def split: list.splits prod.splits)

subsection \<open>The effects settle\<close>

lemma pd_kind_cong: "pd_integrationId s = pd_integrationId s' \<Longrightarrow> pd_activeKind p s = pd_activeKind p s'"
  by (simp add: pd_activeKind_def selectedIntegration_def)

lemma effects_keep_integration [simp]:
  "pd_integrationId (pd_kind_effect p s c) = pd_integrationId c"
  "pd_integrationId (pd_project_effect p s c) = pd_integrationId c"
  "pd_externalProjectId (pd_project_effect p s c) = pd_externalProjectId c"
  by (simp_all add: pd_kind_effect_def pd_project_effect_def)

text \<open>A round after which the props stay: no reset; the kind effect fires at most in the next one.\<close>

lemma pd_round_same_props:
  "pd_round (p, s0) p s =
     (let c = (if pd_kind_deps p s0 \<noteq> pd_kind_deps p s then pd_kind_effect p s s else s)
      in if pd_project_deps p s0 \<noteq> pd_project_deps p s then pd_project_effect p s c else c)"
  by (simp add: pd_round_def Let_def)

lemma pd_round_deps:
  "pd_integrationId (pd_round (p, s0) p s) = pd_integrationId s"
  "pd_kind_deps p (pd_round (p, s0) p s) = pd_kind_deps p s"
  "pd_activeKind p (pd_round (p, s0) p s) = pd_activeKind p s"
proof -
  show 1: "pd_integrationId (pd_round (p, s0) p s) = pd_integrationId s"
    by (simp add: pd_round_same_props Let_def)
  then show k: "pd_activeKind p (pd_round (p, s0) p s) = pd_activeKind p s" by (rule pd_kind_cong)
  then show "pd_kind_deps p (pd_round (p, s0) p s) = pd_kind_deps p s" using 1 by (simp add: pd_kind_deps_def)
qed

lemma kind_effect_project: "pd_externalProjectId (pd_kind_effect p s s) \<in> {[], pd_externalProjectId s}"
  by (simp add: pd_kind_effect_def)

lemma round_project: "pd_externalProjectId (pd_round (p, s0) p s) \<in> {[], pd_externalProjectId s}"
  using kind_effect_project [of p s] by (simp add: pd_round_same_props Let_def)

text \<open>A render whose kind dependencies are those of the render before leaves no cleared project behind.\<close>

lemma settle_project_only:
  assumes "pd_kind_deps p s0 = pd_kind_deps p s" and "pd_externalProjectId s \<in> {[], pd_externalProjectId s0}"
  shows "pd_settle (Suc (Suc n)) (p, s0) p s = Some s"
proof (cases "pd_project_deps p s0 = pd_project_deps p s")
  case True
  then show ?thesis using assms(1) by (simp add: pd_quiet_def)
next
  case False
  then have "pd_externalProjectId s = []" using assms by (auto simp: pd_project_deps_def pd_kind_deps_def)
  then have "pd_round (p, s0) p s = s"
    using assms(1) by (simp add: pd_round_same_props pd_project_effect_def)
  then show ?thesis using False by (simp add: pd_quiet_def)
qed

lemma settle_after_round:
  "\<exists>s'. pd_settle (Suc (Suc (Suc n))) (p, s0) p s = Some s'"
proof (cases "pd_quiet (p, s0) p s")
  case False
  have "pd_settle (Suc (Suc n)) (p, s) p (pd_round (p, s0) p s) = Some (pd_round (p, s0) p s)"
    by (rule settle_project_only [OF _ round_project]) (simp add: pd_round_deps)
  then show ?thesis using False by simp
qed simp

lemma pd_settles: "\<exists>s'. pd_settle 4 prev p s = Some s'"
proof (cases "pd_quiet prev p s")
  case False
  then show ?thesis
    using settle_after_round [of 0 p s "pd_round prev p s"] by (simp add: numeral_eq_Suc)
qed (simp add: numeral_eq_Suc)

text \<open>One change in a settled drawer.\<close>

lemma settle_one_round:
  assumes "\<not> pd_quiet (p, s0) p s"
  shows "pd_settle 4 (p, s0) p s = Some (pd_round (p, s0) p s)"
proof -
  have "pd_settle (Suc (Suc 1)) (p, s) p (pd_round (p, s0) p s) = Some (pd_round (p, s0) p s)"
    by (rule settle_project_only [OF _ round_project]) (simp add: pd_round_deps)
  then show ?thesis using assms by (simp add: numeral_eq_Suc)
qed

text \<open>C10: Choosing again in the ticket project drawer, while it creates a project (an edit offers no
  choice), leaves nothing of the former choice behind: in an open create drawer, once the effects settled (within four renders), another external project has
  the configuration at the defaults of the kind and the status mapping empty, and another
  integration has the workspace and the external project cleared as well.\<close>

theorem project_choice_resets:
  assumes "pp_open p" and "pp_mode p = Create" and "x \<noteq> []" and "x \<noteq> pd_externalProjectId s"
    and "pd_activeKind p s = Some k" and "k \<noteq> []"
    and "i \<noteq> pd_integrationId s" and "pd_activeKind p (s\<lparr>pd_integrationId := i\<rparr>) = Some k'" and "k' \<noteq> []"
  shows "pd_settle 4 (p, s) p (s\<lparr>pd_externalProjectId := x\<rparr>) =
      Some (s\<lparr>pd_externalProjectId := x, pd_createConfig := defaultCreateConfig k, pd_statusMapping := defaultStatusMapping\<rparr>) \<and>
    pd_settle 4 (p, s) p (s\<lparr>pd_integrationId := i\<rparr>) =
      Some (s\<lparr>pd_integrationId := i, pd_workspaceId := [], pd_externalProjectId := [],
        pd_createConfig := defaultCreateConfig k', pd_statusMapping := defaultStatusMapping\<rparr>)"
proof
  show "pd_settle 4 (p, s) p (s\<lparr>pd_externalProjectId := x\<rparr>) =
      Some (s\<lparr>pd_externalProjectId := x, pd_createConfig := defaultCreateConfig k, pd_statusMapping := defaultStatusMapping\<rparr>)"
    using assms
    by (subst settle_one_round)
       (auto simp: pd_quiet_def pd_project_deps_def pd_kind_deps_def pd_round_same_props pd_project_effect_def)
  show "pd_settle 4 (p, s) p (s\<lparr>pd_integrationId := i\<rparr>) =
      Some (s\<lparr>pd_integrationId := i, pd_workspaceId := [], pd_externalProjectId := [],
        pd_createConfig := defaultCreateConfig k', pd_statusMapping := defaultStatusMapping\<rparr>)"
    using assms
    by (subst settle_one_round)
       (auto simp: pd_quiet_def pd_project_deps_def pd_kind_deps_def pd_round_same_props pd_project_effect_def pd_kind_effect_def Let_def)
qed

definition sample_integration :: "string \<Rightarrow> string \<Rightarrow> integration" where
  "sample_integration i kind = \<lparr>intg_id = i, intg_kind = kind, intg_name = i, intg_base_url = None, intg_has_secret = True,
     intg_is_default = False, intg_created_at = [], intg_updated_at = []\<rparr>"

definition sample_props :: "drawer_mode \<Rightarrow> ticket_project option \<Rightarrow> pdrawer_props" where
  "sample_props m pr = \<lparr>pp_mode = m, pp_project = pr,
     pp_integrations = [sample_integration ''k1'' ''kaneo'', sample_integration ''j1'' ''jira''], pp_open = True, pp_isSaving = False\<rparr>"

lemmas sample_simps = sample_props_def sample_integration_def pd_activeKind_def selectedIntegration_def
  ticketIntegrations_def kindIsTicket_def TICKET_INTEGRATION_KINDS_def pdrawer_init_def

theorem project_choice_resets_witness:
  "let p = sample_props Create None; s = pdrawer_init\<lparr>pd_integrationId := ''k1'', pd_workspaceId := ''w''\<rparr> in
   pd_settle 4 (p, s) p (s\<lparr>pd_externalProjectId := ''x''\<rparr>) =
      Some (s\<lparr>pd_externalProjectId := ''x'', pd_createConfig := defaultCreateConfig ''kaneo'', pd_statusMapping := defaultStatusMapping\<rparr>) \<and>
    pd_settle 4 (p, s) p (s\<lparr>pd_integrationId := ''j1''\<rparr>) =
      Some (s\<lparr>pd_integrationId := ''j1'', pd_workspaceId := [], pd_externalProjectId := [],
        pd_createConfig := defaultCreateConfig ''jira'', pd_statusMapping := defaultStatusMapping\<rparr>)"
  unfolding Let_def by (rule project_choice_resets) (simp_all add: sample_simps)

subsection \<open>Another workspace\<close>

lemma workspace_settled: "pd_settle 4 (p, s) p (s\<lparr>pd_workspaceId := w\<rparr>) = Some (s\<lparr>pd_workspaceId := w\<rparr>)"
  by (simp add: numeral_eq_Suc pd_quiet_def pd_kind_deps_def pd_project_deps_def)

text \<open>C23: The workspace is the exception: in a new Kaneo project, choosing another workspace keeps the
  external project of the former one (the project select, whose items are now those of the other
  workspace, shows its placeholder), and the form still saves, with the new workspace and the old
  project.\<close>

theorem workspace_switch_keeps_project:
  assumes "pp_mode p = Create" and "pd_activeKind p s = Some ''kaneo''" and "pd_valid p s" and "js_trim w \<noteq> []"
  shows "\<exists>s' m. pd_settle 4 (p, s) p (s\<lparr>pd_workspaceId := w\<rparr>) = Some s' \<and>
     mutations (snd (pd_handleSubmit p s')) = [m] \<and>
     opt_prop (mu_body m) ''externalProjectId'' = Str (js_trim (pd_externalProjectId s)) \<and>
     opt_prop (opt_prop (mu_body m) ''createConfig'') ''workspaceId'' = Str (js_trim w)"
proof -
  let ?s = "s\<lparr>pd_workspaceId := w\<rparr>"
  have "pd_valid p ?s" using assms by (simp add: pd_valid_def)
  then have "pd_check p ?s = None" by (simp add: pd_check_valid)
  then have "mutations (snd (pd_handleSubmit p ?s)) = [the (pd_saves p ?s)]"
    using assms(1) by (simp add: project_form.sends pd_saves_def Let_def)
  moreover have "opt_prop (mu_body (the (pd_saves p ?s))) ''externalProjectId'' = Str (js_trim (pd_externalProjectId s))"
    using assms(1) by (simp add: pd_saves_def Let_def createTicketProject_def post_m_def opt_prop_def)
  moreover have "opt_prop (opt_prop (mu_body (the (pd_saves p ?s))) ''createConfig'') ''workspaceId'' = Str (js_trim w)"
  proof -
    have "opt_prop (mu_body (the (pd_saves p ?s))) ''createConfig'' =
        spread (createConfigFromRecord ''kaneo'' (pd_createConfig s)) (Obj [(''workspaceId'', Str (js_trim w))])"
      using assms by (simp add: pd_saves_def pd_payload_def serializeCreateConfig_def Let_def createTicketProject_def post_m_def opt_prop_def)
    then show ?thesis by (simp add: spread_prop js_object_def own_props_def)
  qed
  ultimately show ?thesis using workspace_settled by blast
qed

definition sample_mapping :: status_mapping where
  "sample_mapping = \<lparr>sm_open = [''o''], sm_done = [''d''], sm_cancelled = [''c''], sm_superseded = ''s''\<rparr>"

theorem workspace_switch_keeps_project_witness:
  "let p = sample_props Create None;
       s = pdrawer_init\<lparr>pd_integrationId := ''k1'', pd_workspaceId := ''w1'', pd_externalProjectId := ''x'', pd_name := ''n'',
             pd_createConfig := defaultCreateConfig ''kaneo'', pd_statusMapping := sample_mapping\<rparr>
   in \<exists>s' m. pd_settle 4 (p, s) p (s\<lparr>pd_workspaceId := ''w2''\<rparr>) = Some s' \<and>
     mutations (snd (pd_handleSubmit p s')) = [m] \<and>
     opt_prop (mu_body m) ''externalProjectId'' = Str (js_trim (pd_externalProjectId s)) \<and>
     opt_prop (opt_prop (mu_body m) ''createConfig'') ''workspaceId'' = Str (js_trim ''w2'')"
  unfolding Let_def
  by (rule workspace_switch_keeps_project)
     (simp_all add: sample_simps pd_valid_def mapping_complete_def sample_mapping_def validateCreateConfig_def text_of_def
        defaultCreateConfig_def opt_prop_def js_trim_def js_space_def)

subsection \<open>Editing without a change\<close>

lemma createConfigFromRecord_keeps:
  "js_object rec \<Longrightarrow> map_of (own_props rec) k = Some v \<Longrightarrow> map_of (own_props (createConfigFromRecord kind rec)) k = Some v"
  by (auto simp: createConfigFromRecord_def spread_def own_props_def js_object_def map_of_sets map_of_rev_distinct split: jsval.splits)

lemma createConfigFromRecord_object: "js_object (createConfigFromRecord kind rec)"
proof -
  have "js_object (defaultCreateConfig kind)" by (simp add: defaultCreateConfig_def js_object_def)
  then show ?thesis unfolding createConfigFromRecord_def by (rule spread_object)
qed

lemma obj_own: "js_object v \<Longrightarrow> Obj (own_props v) = v"
  by (cases v) (simp_all add: js_object_def own_props_def)

lemma own_prop: "js_object v \<Longrightarrow> map_of (own_props v) k = Some x \<Longrightarrow> opt_prop v k = x"
  by (auto simp: js_object_def own_props_def opt_prop_def split: jsval.splits)

text \<open>What saving keeps of a stored configuration: every entry of a Kaneo or Jira one (the workspace
  trimmed), the numeric priority and the state of a Linear one.\<close>

definition config_kept :: "string \<Rightarrow> jsval \<Rightarrow> jsval \<Rightarrow> bool" where
  "config_kept kind stored saved \<longleftrightarrow>
     (\<forall>k v. map_of (own_props stored) k = Some v \<longrightarrow>
        (if kind = ''linear'' then
           (k = ''priority'' \<and> (\<exists>n. v = Num n) \<or> k = ''stateId'' \<and> (\<exists>t. v = Str t)) \<longrightarrow> opt_prop saved k = v
         else opt_prop saved k = (if kind = ''kaneo'' \<and> k = ''workspaceId'' then Str (js_trim (text_of v)) else v)))"

lemma serialize_keeps:
  assumes "js_object stored"
  shows "config_kept kind stored (serializeCreateConfig kind (createConfigFromRecord kind stored) [])"
proof -
  let ?r = "createConfigFromRecord kind stored"
  have twice: "map_of (own_props (createConfigFromRecord kind ?r)) k = Some v" if "map_of (own_props stored) k = Some v" for k v
    using createConfigFromRecord_keeps [OF createConfigFromRecord_object createConfigFromRecord_keeps [OF assms that]] .
  have once: "opt_prop ?r k = v" if "map_of (own_props stored) k = Some v" for k v
    using own_prop [OF createConfigFromRecord_object createConfigFromRecord_keeps [OF assms that]] .
  have twice': "opt_prop (createConfigFromRecord kind ?r) k = v" if "map_of (own_props stored) k = Some v" for k v
    using own_prop [OF createConfigFromRecord_object twice [OF that]] .
  have spread1: "opt_prop (spread (createConfigFromRecord kind ?r) (Obj [(''workspaceId'', x)])) k =
      (if k = ''workspaceId'' then x else opt_prop (createConfigFromRecord kind ?r) k)" for x k
    by (simp add: spread_prop obj_own [OF createConfigFromRecord_object] js_object_def own_props_def [of "Obj [_]"])
  have kept: "opt_prop (serializeCreateConfig kind ?r []) k = (if kind = ''kaneo'' \<and> k = ''workspaceId'' then Str (js_trim (text_of v)) else v)"
    if "map_of (own_props stored) k = Some v" and "kind \<noteq> ''linear''" for k v
    using that(2) twice' [OF that(1)] once [OF that(1)] spread1
    by (cases "kind = ''kaneo''"; cases "k = ''workspaceId''") (simp_all add: serializeCreateConfig_def)
  have kept_linear: "opt_prop (serializeCreateConfig kind ?r []) k = v"
    if "map_of (own_props stored) k = Some v" and "kind = ''linear''"
      and "k = ''priority'' \<and> (\<exists>n. v = Num n) \<or> k = ''stateId'' \<and> (\<exists>t. v = Str t)" for k v
    using that(2,3) once [OF that(1)]
    by (auto simp: serializeCreateConfig_def Let_def opt_prop_def [of "Obj _"] js_Number_def isFinite_def num_value_def text_of_def)
  show ?thesis
    unfolding config_kept_def using kept kept_linear by presburger
qed

lemma edit_kind: "pp_mode p = Edit \<Longrightarrow> pd_activeKind p s = pd_activeKind p s'"
  by (simp add: pd_activeKind_def selectedIntegration_def)

text \<open>What it keeps of the stored statuses, said of the stored object: the strings of each of its
  three lists, in order and as they are (so a list of strings is kept whole), and the superseding
  status; an entry that is no list, or no string, is sent as empty.\<close>

definition stored_strings :: "jsval \<Rightarrow> string \<Rightarrow> jsval" where
  "stored_strings stored k =
     Arr (case map_of (own_props stored) k of
            Some (Arr vs) \<Rightarrow> filter (\<lambda>v. v \<in> range Str) vs
          | _ \<Rightarrow> [])"

definition stored_string :: "jsval \<Rightarrow> string \<Rightarrow> jsval" where
  "stored_string stored k = (case map_of (own_props stored) k of Some (Str t) \<Rightarrow> Str t | _ \<Rightarrow> Str [])"

lemma strings_kept: "Arr (map Str (string_list (opt_prop stored k))) = stored_strings stored k"
proof -
  have "map Str (string_list (Arr vs)) = filter (\<lambda>v. v \<in> range Str) vs" for vs
    by (induction vs) (auto simp: string_list_def split: jsval.split)
  moreover have "map Str (string_list v) = []" if "\<And>vs. v \<noteq> Arr vs" for v
    using that by (cases v) (auto simp: string_list_def)
  ultimately show ?thesis
    by (cases stored) (auto simp: stored_strings_def opt_prop_def own_props_def split: option.split jsval.split)
qed

lemma string_kept: "Str (string_or_empty (opt_prop stored k)) = stored_string stored k"
  by (cases stored) (auto simp: stored_string_def opt_prop_def own_props_def string_or_empty_def split: option.split jsval.split)

lemma statuses_kept:
  "statusMappingToRecord (statusMappingFromRecord stored) =
     Obj [(''open'', stored_strings stored ''open''), (''done'', stored_strings stored ''done''),
          (''cancelled'', stored_strings stored ''cancelled''), (''superseded'', stored_string stored ''superseded'')]"
  by (simp only: statusMappingToRecord_def statusMappingFromRecord_def status_mapping.simps strings_kept string_kept)

text \<open>C22: Saving a stored ticket project untouched sends at most one request, which updates that project
  with: its name, trimmed; a configuration that keeps every stored entry of a Kaneo or Jira project (a Kaneo
  workspace trimmed), and of a Linear one a numeric priority and a textual state; its status
  lists, each with exactly the strings stored in it, in order, and its superseding status; its templates; and
  its policy, or \<open>supersede\<close> where the stored one is unknown.\<close>

theorem project_untouched_edit:
  assumes "find (\<lambda>i. intg_id i = tp_integration_id pr) integrations = Some i" and "intg_kind i \<noteq> []"
    and "js_object (tp_create_config pr)"
    and "p = \<lparr>pp_mode = Edit, pp_project = Some pr, pp_integrations = integrations, pp_open = True, pp_isSaving = saving\<rparr>"
    and "m \<in> set (mutations (snd (pd_handleSubmit p (pd_reset_effect p s))))"
  shows "\<exists>cfg. config_kept (intg_kind i) (tp_create_config pr) cfg \<and>
    m = updateTicketProject (tp_id pr) (Obj
      [(''name'', Str (js_trim (tp_name pr))), (''createConfig'', cfg),
       (''statusMapping'', Obj
          [(''open'', stored_strings (tp_status_mapping pr) ''open''), (''done'', stored_strings (tp_status_mapping pr) ''done''),
           (''cancelled'', stored_strings (tp_status_mapping pr) ''cancelled''),
           (''superseded'', stored_string (tp_status_mapping pr) ''superseded'')]),
       (''contentTemplates'', templates_value (tp_content_templates pr)),
       (''onOpenTicketPolicy'', Str (if tp_on_open_ticket_policy pr \<in> set ON_OPEN_TICKET_POLICIES
          then tp_on_open_ticket_policy pr else ''supersede''))])"
proof -
  let ?s = "pd_reset_effect p s" and ?kind = "intg_kind i"
  have sel: "find (\<lambda>j. Some (intg_id j) = Some (tp_integration_id pr)) integrations = Some i"
    using assms(1) by simp
  have kind: "pd_activeKind p ?s = Some ?kind"
    using sel by (simp add: assms(4) pd_activeKind_def selectedIntegration_def)
  have "pd_saves p ?s = Some m"
    using project_form.sent_is_checked [OF assms(5)] by blast
  then have m: "m = updateTicketProject (tp_id pr) (Obj (pd_payload p ?kind ?s))"
    by (simp add: pd_saves_def Let_def kind, simp add: assms(4))
  have fields: "pd_name ?s = tp_name pr" "pd_createConfig ?s = createConfigFromRecord ?kind (tp_create_config pr)"
    "pd_statusMapping ?s = statusMappingFromRecord (tp_status_mapping pr)" "pd_contentTemplates ?s = tp_content_templates pr"
    "pd_policy ?s = (if tp_on_open_ticket_policy pr \<in> set ON_OPEN_TICKET_POLICIES then tp_on_open_ticket_policy pr else ''supersede'')"
    using assms(1,2) templates_codec.decode_encode by (simp_all add: assms(4) pd_reset_effect_def Let_def)
  show ?thesis
    using serialize_keeps [OF assms(3), of ?kind] unfolding m pd_payload_def fields statuses_kept
    by (intro exI conjI) (assumption, simp add: assms(4))
qed

definition sample_project :: ticket_project where
  "sample_project = \<lparr>tp_id = ''p1'', tp_integration_id = ''k1'', tp_external_project_id = ''x'', tp_name = ''n'',
     tp_create_config = Obj [(''workspaceId'', Str ''w''), (''status'', Str ''todo''), (''priority'', Str ''low'')],
     tp_status_mapping = statusMappingToRecord sample_mapping, tp_content_templates = defaultContentTemplates,
     tp_on_open_ticket_policy = ''merge'', tp_created_at = [], tp_updated_at = []\<rparr>"

theorem project_untouched_edit_witness:
  "let p = sample_props Edit (Some sample_project) in
   \<exists>m cfg. mutations (snd (pd_handleSubmit p (pd_reset_effect p pdrawer_init))) = [m] \<and>
     config_kept ''kaneo'' (tp_create_config sample_project) cfg \<and>
     m = updateTicketProject ''p1'' (Obj
      [(''name'', Str ''n''), (''createConfig'', cfg), (''statusMapping'', tp_status_mapping sample_project),
       (''contentTemplates'', templates_value defaultContentTemplates), (''onOpenTicketPolicy'', Str ''merge'')])"
proof -
  let ?p = "sample_props Edit (Some sample_project)" and ?i = "sample_integration ''k1'' ''kaneo''"
  let ?st = "tp_status_mapping sample_project"
  obtain m where m: "mutations (snd (pd_handleSubmit ?p (pd_reset_effect ?p pdrawer_init))) = [m]"
  proof -
    have "length (mutations (snd (pd_handleSubmit ?p (pd_reset_effect ?p pdrawer_init)))) = 1" by code_simp
    then show thesis using that by (auto simp: length_Suc_conv)
  qed
  have "\<exists>cfg. config_kept (intg_kind ?i) (tp_create_config sample_project) cfg \<and>
    m = updateTicketProject (tp_id sample_project) (Obj
      [(''name'', Str (js_trim (tp_name sample_project))), (''createConfig'', cfg),
       (''statusMapping'', Obj [(''open'', stored_strings ?st ''open''), (''done'', stored_strings ?st ''done''),
          (''cancelled'', stored_strings ?st ''cancelled''), (''superseded'', stored_string ?st ''superseded'')]),
       (''contentTemplates'', templates_value (tp_content_templates sample_project)),
       (''onOpenTicketPolicy'', Str (if tp_on_open_ticket_policy sample_project \<in> set ON_OPEN_TICKET_POLICIES
          then tp_on_open_ticket_policy sample_project else ''supersede''))])"
    by (rule project_untouched_edit [where p = ?p and s = pdrawer_init and integrations = "pp_integrations ?p" and saving = False])
       (simp_all add: m, simp_all add: sample_props_def sample_project_def sample_integration_def js_object_def)
  moreover have "Obj [(''open'', stored_strings ?st ''open''), (''done'', stored_strings ?st ''done''),
      (''cancelled'', stored_strings ?st ''cancelled''), (''superseded'', stored_string ?st ''superseded'')] = ?st"
    by (simp add: sample_project_def sample_mapping_def statusMappingToRecord_def stored_strings_def stored_string_def own_props_def)
  moreover have "js_trim ''n'' = ''n''" by (simp add: js_trim_def js_space_def)
  ultimately show ?thesis
    using m by (simp add: sample_project_def sample_integration_def ON_OPEN_TICKET_POLICIES_def)
qed

end
