(* ===== verification/Projects_View.thy ===== *)
theory Projects_View
  imports Project_Drawer "HOL-Library.List_Lexorder" "HOL-Library.Char_ord"
begin

section \<open>The ticket projects page (\<open>components/ticket-projects/ticket-projects-view.tsx\<close>)\<close>

text \<open>
  The page around the project drawer. The rows are sorted by the name of their integration and then
  by their own name; \<open>localeCompare\<close> is the parameter \<open>cmp\<close>.
\<close>

definition integration_name :: "(string \<Rightarrow> string option) \<Rightarrow> ticket_project \<Rightarrow> string" where
  "integration_name integrationNameById pr = name_or_id integrationNameById (tp_integration_id pr)"

definition compare_projects :: "(string \<Rightarrow> string \<Rightarrow> int) \<Rightarrow> (string \<Rightarrow> string option) \<Rightarrow> ticket_project \<Rightarrow> ticket_project \<Rightarrow> int" where
  "compare_projects cmp names left right =
     (let l = integration_name names left; r = integration_name names right
      in if l \<noteq> r then cmp l r else cmp (tp_name left) (tp_name right))"

definition sortedProjects ::
  "(string \<Rightarrow> string \<Rightarrow> int) \<Rightarrow> (string \<Rightarrow> string option) \<Rightarrow> ticket_project list option \<Rightarrow> ticket_project list" where
  "sortedProjects cmp names projects =
     (case projects of None \<Rightarrow> [] | Some ps \<Rightarrow> js_sort (compare_projects cmp names) ps)"

definition project_columns :: "string list" where
  "project_columns = [''integration'', ''name'', ''externalProjectId'', ''policy'', ''actions'']"

definition project_row :: "(string \<Rightarrow> string option) \<Rightarrow> (string \<Rightarrow> string option) \<Rightarrow> ticket_project \<Rightarrow> view" where
  "project_row names kinds pr =
     (let kind = (case kinds (tp_integration_id pr) of None \<Rightarrow> [] | Some k \<Rightarrow> k); named = [(''name'', tp_name pr)]
      in El ''TableRow'' [(''key'', tp_id pr)]
        [El ''TableCell'' []
           [El ''div'' []
              ([El ''span'' [] [lit (integration_name names pr)]] @
               shown_if (kind \<noteq> []) [El ''Badge'' [(''variant'', ''outline'')] [tx (''integrations.kinds.'' @ kind)]])],
         El ''TableCell'' [] [lit (tp_name pr)],
         El ''TableCell'' [] [lit (tp_external_project_id pr)],
         El ''TableCell'' [] [El ''Badge'' [(''variant'', ''secondary'')] [tx (''ticket-projects.policies.'' @ tp_on_open_ticket_policy pr)]],
         El ''TableCell'' []
           [El ''div'' []
              [icon_button (T ''ticket-projects.editAria'' named) ''edit'' ''PencilIcon'',
               icon_button (T ''ticket-projects.deleteAria'' named) ''askDelete'' ''Trash2Icon'']]])"

text \<open>\<open>drawer\<close> is the drawer as its props render it.\<close>

definition TicketProjectsView ::
  "(string \<Rightarrow> string \<Rightarrow> int) \<Rightarrow> ticket_project list query \<Rightarrow> integration list \<Rightarrow> ticket_project dialog_state \<Rightarrow> bool \<Rightarrow>
   (pdrawer_props \<Rightarrow> view) \<Rightarrow> ticket_project del \<Rightarrow> view" where
  "TicketProjectsView cmp q integrations d isSaving drawer s =
     (let names = map_by_id intg_id intg_name integrations; kinds = map_by_id intg_id intg_kind integrations;
          rows = sortedProjects cmp names (q_data q)
      in list_page ''ticket-projects'' ''openCreateDrawer'' (q_error q)
        (if q_loading q then skeleton_table ''ticket-projects'' project_columns
         else if length rows = 0 then empty_state ''ticket-projects'' ''LayoutListIcon'' ''openCreateDrawer''
         else El ''Table'' [(''variant'', ''card'')]
           [table_head ''ticket-projects'' project_columns, El ''TableBody'' [] (map (project_row names kinds) rows)])
        [drawer \<lparr>pp_mode = dialog_mode d, pp_project = dialog_row d, pp_integrations = integrations,
           pp_open = dialog_open d, pp_isSaving = isSaving\<rparr>,
         DeleteTicketProjectDialog (deleteTarget s) (deleteTarget s \<noteq> None) (deleteError s) (deletes s \<noteq> [])])"

subsection \<open>The order of the rows\<close>

text \<open>What the pages rely on of \<open>localeCompare\<close>: it is a consistent comparator, and only equal (normalised)
  strings compare as equal.\<close>

definition locale_compare :: "(string \<Rightarrow> string \<Rightarrow> int) \<Rightarrow> bool" where
  "locale_compare cmp \<longleftrightarrow> comparator_fn cmp \<and> (\<forall>a b. cmp a b = 0 \<longrightarrow> a = b)"

lemma projects_comparator:
  assumes "locale_compare cmp"
  shows "comparator_fn (compare_projects cmp names)"
proof
  have cmp: "comparator_fn cmp" and zero: "cmp a b = 0 \<Longrightarrow> a = b" for a b
    using assms by (auto simp: locale_compare_def)
  note anti = comparator_fn.cmp_anti [OF cmp] and trans = comparator_fn.cmp_trans [OF cmp]
  show "sgn (compare_projects cmp names l r) = - sgn (compare_projects cmp names r l)" for l r
    unfolding compare_projects_def Let_def by (cases "integration_name names l = integration_name names r") (simp_all add: anti [symmetric])
  have strict: "\<not> (cmp a b \<le> 0 \<and> cmp b a \<le> 0)" if "a \<noteq> b" for a b
    using anti [of a b] zero [of a b] that by (auto simp: sgn_if split: if_splits)
  show "compare_projects cmp names a c \<le> 0"
    if "compare_projects cmp names a b \<le> 0" "compare_projects cmp names b c \<le> 0" for a b c
    using that strict trans unfolding compare_projects_def Let_def by (smt (verit))
qed

text \<open>The repositories and ticket projects pages show every row exactly once, in order:
  repositories by their path, projects by the name of their integration and, within one, by their own
  name.\<close>

theorem rows_in_order:
  assumes "locale_compare cmp"
  shows "mset (sortedRepos cmp (Some rs)) = mset rs \<and>
    sorted_wrt (\<lambda>a b. cmp (repo_project_path a) (repo_project_path b) \<le> 0) (sortedRepos cmp (Some rs)) \<and>
    mset (sortedProjects cmp names (Some ps)) = mset ps \<and>
    sorted_wrt (\<lambda>a b. if integration_name names a = integration_name names b then cmp (tp_name a) (tp_name b) \<le> 0
                      else cmp (integration_name names a) (integration_name names b) < 0)
      (sortedProjects cmp names (Some ps))"
proof -
  have cmp: "comparator_fn cmp" and zero: "cmp a b = 0 \<Longrightarrow> a = b" for a b
    using assms by (auto simp: locale_compare_def)
  have "sorted_wrt (\<lambda>a b. compare_projects cmp names a b \<le> 0) (sortedProjects cmp names (Some ps))"
    using comparator_fn.js_sort_sorted [OF projects_comparator [OF assms]] by (simp add: sortedProjects_def)
  then have "sorted_wrt (\<lambda>a b. if integration_name names a = integration_name names b then cmp (tp_name a) (tp_name b) \<le> 0
        else cmp (integration_name names a) (integration_name names b) < 0) (sortedProjects cmp names (Some ps))"
  proof (rule sorted_wrt_mono_rel [rotated])
    fix a b assume "compare_projects cmp names a b \<le> 0"
    then show "if integration_name names a = integration_name names b then cmp (tp_name a) (tp_name b) \<le> 0
        else cmp (integration_name names a) (integration_name names b) < 0"
      using zero [of "integration_name names a" "integration_name names b"] by (auto simp: compare_projects_def Let_def order_le_less)
  qed
  then show ?thesis
    using comparator_fn.js_sort_sorted [OF comparator_fn.on_key [OF cmp, of repo_project_path]]
    by (simp add: sortedRepos_def sortedProjects_def js_sort_mset)
qed

definition code_unit_compare :: "string \<Rightarrow> string \<Rightarrow> int" where
  "code_unit_compare a b = (if a = b then 0 else if a < b then -1 else 1)"

lemma code_unit_locale: "locale_compare code_unit_compare"
  unfolding locale_compare_def
proof
  show "comparator_fn code_unit_compare"
    by unfold_locales (auto simp: code_unit_compare_def split: if_splits)
  show "\<forall>a b. code_unit_compare a b = 0 \<longrightarrow> a = b"
    by (simp add: code_unit_compare_def)
qed

theorem rows_in_order_witness:
  "let ps = [sample_project\<lparr>tp_name := ''b''\<rparr>, sample_project\<lparr>tp_name := ''a''\<rparr>];
       rows = sortedProjects code_unit_compare (\<lambda>_. None) (Some ps)
   in mset rows = mset ps \<and>
     sorted_wrt (\<lambda>a b. if integration_name (\<lambda>_. None) a = integration_name (\<lambda>_. None) b then code_unit_compare (tp_name a) (tp_name b) \<le> 0
                      else code_unit_compare (integration_name (\<lambda>_. None) a) (integration_name (\<lambda>_. None) b) < 0) rows"
  unfolding Let_def using rows_in_order [OF code_unit_locale] by blast

end
