(* ===== verification/Settings_View.thy ===== *)
theory Settings_View
  imports Page_Parts Form_Contract Api_Types
begin

section \<open>The settings page (\<open>components/settings/settings-view.tsx\<close>)\<close>

text \<open>
  The form of the three numbers, with its bounds, its save and the effect that copies the fetched
  settings into it. A field holds a number or \<open>null\<close>; the number field of the component library may hand over any
  number, fractions included, or \<open>null\<close> when it is emptied. \<open>Fraction m k\<close> is \<open>m / 10^k\<close>.
\<close>

datatype number = Whole int | Fraction int nat

definition number_val :: "number \<Rightarrow> jsval" where
  "number_val n = (case n of Whole i \<Rightarrow> Num i | Fraction m k \<Rightarrow> Dec m k)"

text \<open>\<open>x < n\<close> and \<open>x > n\<close> for an integer \<open>n\<close>.\<close>

definition num_lt :: "number \<Rightarrow> int \<Rightarrow> bool" where
  "num_lt x n = (case x of Whole i \<Rightarrow> i < n | Fraction m k \<Rightarrow> m < n * 10 ^ k)"

definition num_gt :: "number \<Rightarrow> int \<Rightarrow> bool" where
  "num_gt x n = (case x of Whole i \<Rightarrow> n < i | Fraction m k \<Rightarrow> n * 10 ^ k < m)"

definition MIN_POLL_INTERVAL_MINUTES :: int where "MIN_POLL_INTERVAL_MINUTES = 5"
definition MIN_INVITE_TOKEN_EXPIRY_HOURS :: int where "MIN_INVITE_TOKEN_EXPIRY_HOURS = 1"
definition MAX_INVITE_TOKEN_EXPIRY_HOURS :: int where "MAX_INVITE_TOKEN_EXPIRY_HOURS = 720"
definition MIN_PASSWORD_RESET_TOKEN_EXPIRY_MINUTES :: int where "MIN_PASSWORD_RESET_TOKEN_EXPIRY_MINUTES = 5"
definition MAX_PASSWORD_RESET_TOKEN_EXPIRY_MINUTES :: int where "MAX_PASSWORD_RESET_TOKEN_EXPIRY_MINUTES = 1440"

lemmas settings_limits = MIN_POLL_INTERVAL_MINUTES_def MIN_INVITE_TOKEN_EXPIRY_HOURS_def
  MAX_INVITE_TOKEN_EXPIRY_HOURS_def MIN_PASSWORD_RESET_TOKEN_EXPIRY_MINUTES_def
  MAX_PASSWORD_RESET_TOKEN_EXPIRY_MINUTES_def

record settings_form =
  pollIntervalMinutes :: "number option"
  inviteTokenExpiryHours :: "number option"
  passwordResetTokenExpiryMinutes :: "number option"

record settings_page =
  sp_form :: settings_form
  sp_validationError :: "msg option"
  sp_saveError :: "msg option"
  sp_showSuccess :: bool

definition settings_init :: settings_page where
  "settings_init =
     \<lparr>sp_form = \<lparr>pollIntervalMinutes = None, inviteTokenExpiryHours = None, passwordResetTokenExpiryMinutes = None\<rparr>,
      sp_validationError = None, sp_saveError = None, sp_showSuccess = False\<rparr>"

text \<open>The effect on \<open>[data]\<close>.\<close>

definition settings_effect :: "settings option \<Rightarrow> settings_page \<Rightarrow> settings_page" where
  "settings_effect data s =
     (case data of
        None \<Rightarrow> s
      | Some d \<Rightarrow>
          s\<lparr>sp_form := \<lparr>pollIntervalMinutes = Some (Whole (set_poll_interval_minutes d)),
                        inviteTokenExpiryHours = Some (Whole (set_invite_token_expiry_hours d)),
                        passwordResetTokenExpiryMinutes = Some (Whole (set_password_reset_token_expiry_minutes d))\<rparr>,
            sp_showSuccess := False\<rparr>)"

definition validateForm :: "settings_form \<Rightarrow> msg option" where
  "validateForm form =
     (if pollIntervalMinutes form = None \<or> num_lt (the (pollIntervalMinutes form)) MIN_POLL_INTERVAL_MINUTES then
        Some (t0 ''settings.validation.minInterval'')
      else if inviteTokenExpiryHours form = None \<or>
              num_lt (the (inviteTokenExpiryHours form)) MIN_INVITE_TOKEN_EXPIRY_HOURS \<or>
              num_gt (the (inviteTokenExpiryHours form)) MAX_INVITE_TOKEN_EXPIRY_HOURS then
        Some (t0 ''settings.validation.inviteExpiryRange'')
      else if passwordResetTokenExpiryMinutes form = None \<or>
              num_lt (the (passwordResetTokenExpiryMinutes form)) MIN_PASSWORD_RESET_TOKEN_EXPIRY_MINUTES \<or>
              num_gt (the (passwordResetTokenExpiryMinutes form)) MAX_PASSWORD_RESET_TOKEN_EXPIRY_MINUTES then
        Some (t0 ''settings.validation.resetExpiryRange'')
      else None)"

definition null_undefined :: "number option \<Rightarrow> jsval" where
  "null_undefined v = (case v of None \<Rightarrow> Undefined | Some n \<Rightarrow> number_val n)"

text \<open>\<open>handleSave\<close> up to the \<open>await\<close>, and after it.\<close>

definition handleSave :: "settings_page \<Rightarrow> settings_page \<times> command list" where
  "handleSave s0 =
     (let s = s0\<lparr>sp_saveError := None, sp_showSuccess := False\<rparr>
      in case validateForm (sp_form s) of
           Some e \<Rightarrow> (s\<lparr>sp_validationError := Some e\<rparr>, [])
         | None \<Rightarrow>
             (s\<lparr>sp_validationError := None\<rparr>,
              [Mutate (updateSettings (Obj
                 [(''pollIntervalMinutes'', null_undefined (pollIntervalMinutes (sp_form s))),
                  (''inviteTokenExpiryHours'', null_undefined (inviteTokenExpiryHours (sp_form s))),
                  (''passwordResetTokenExpiryMinutes'', null_undefined (passwordResetTokenExpiryMinutes (sp_form s)))]))]))"

definition save_settled :: "jsval js_result \<Rightarrow> settings_page \<Rightarrow> settings_page" where
  "save_settled r s =
     (case r of Inr _ \<Rightarrow> s\<lparr>sp_showSuccess := True\<rparr>
              | Inl e \<Rightarrow> s\<lparr>sp_saveError := Some (save_error (t0 ''settings.saveFailed'') e)\<rparr>)"

text \<open>The three \<open>onValueChange\<close> handlers.\<close>

definition change_field :: "(number option \<Rightarrow> settings_form \<Rightarrow> settings_form) \<Rightarrow> number option \<Rightarrow> settings_page \<Rightarrow> settings_page" where
  "change_field put v s =
     (let s' = (if v \<noteq> None then s\<lparr>sp_form := put v (sp_form s)\<rparr> else s)
      in s'\<lparr>sp_validationError := None, sp_showSuccess := False\<rparr>)"

definition change_poll where "change_poll = change_field (\<lambda>v. pollIntervalMinutes_update (\<lambda>_. v))"
definition change_invite where "change_invite = change_field (\<lambda>v. inviteTokenExpiryHours_update (\<lambda>_. v))"
definition change_reset where "change_reset = change_field (\<lambda>v. passwordResetTokenExpiryMinutes_update (\<lambda>_. v))"

subsection \<open>The view\<close>

definition number_field :: "string \<Rightarrow> string \<Rightarrow> int \<Rightarrow> int option \<Rightarrow> string \<Rightarrow> number option \<Rightarrow> view" where
  "number_field label hint mn mx handler v =
     El ''Field'' []
       [El ''FieldLabel'' [] [tx label],
        El ''NumberField'' ((''min'', int_string mn) # attr_opt ''max'' (map_option int_string mx) @
            [(''value'', to_string (case v of None \<Rightarrow> Num mn | Some n \<Rightarrow> number_val n)), (''onValueChange'', handler)])
          [El ''NumberFieldGroup'' []
             [El ''NumberFieldDecrement'' [] [], El ''NumberFieldInput'' [] [], El ''NumberFieldIncrement'' [] []]],
        El ''FieldDescription'' [] [tx hint]]"

definition SettingsView :: "string option \<Rightarrow> settings query \<Rightarrow> bool \<Rightarrow> settings_page \<Rightarrow> view" where
  "SettingsView path q isSaving s =
     El ''div'' []
       ([PageHeader [tx ''settings.title''] [] [], SettingsNav path] @
        shown_if (q_error q) [El ''p'' [(''role'', ''alert'')] [tx ''settings.loadFailed'']] @
        [if q_loading q then El ''Skeleton'' [] []
         else El ''div'' []
           [SettingsSection [tx ''settings.pollIntervalSection''] [tx ''settings.pollIntervalDescription'']
              [El ''ClockIcon'' [(''aria-hidden'', ''true'')] []]
              [number_field ''settings.pollInterval'' ''settings.pollIntervalHint'' MIN_POLL_INTERVAL_MINUTES None
                 ''change_poll'' (pollIntervalMinutes (sp_form s))],
            SettingsSection [tx ''settings.tokenExpirySection''] [tx ''settings.tokenExpiryDescription'']
              [El ''TimerIcon'' [(''aria-hidden'', ''true'')] []]
              ([number_field ''settings.inviteTokenExpiry'' ''settings.inviteTokenExpiryHint'' MIN_INVITE_TOKEN_EXPIRY_HOURS
                  (Some MAX_INVITE_TOKEN_EXPIRY_HOURS) ''change_invite'' (inviteTokenExpiryHours (sp_form s)),
                number_field ''settings.resetTokenExpiry'' ''settings.resetTokenExpiryHint'' MIN_PASSWORD_RESET_TOKEN_EXPIRY_MINUTES
                  (Some MAX_PASSWORD_RESET_TOKEN_EXPIRY_MINUTES) ''change_reset'' (passwordResetTokenExpiryMinutes (sp_form s))] @
               shown_msg (sp_validationError s) (\<lambda>m. [El ''FieldError'' [] [Txt m]]) @
               shown_if (sp_showSuccess s)
                 [El ''Alert'' [(''variant'', ''success'')]
                    [El ''CircleCheckIcon'' [] [], El ''AlertTitle'' [] [tx ''settings.saved''],
                     El ''AlertDescription'' [] [tx ''settings.savedDescription'']]] @
               shown_msg (sp_saveError s)
                 (\<lambda>m. [El ''Alert'' [(''variant'', ''error'')]
                         [El ''AlertTitle'' [] [tx ''settings.saveFailed''], El ''AlertDescription'' [] [Txt m]]]) @
               [Button False isSaving [(''onClick'', ''handleSave'')]
                  (shown_if isSaving [El ''Spinner'' [] []] @ [tx ''common.save''])])]])"

subsection \<open>What is saved\<close>

definition within :: "number option \<Rightarrow> int \<Rightarrow> int option \<Rightarrow> bool" where
  "within v lo hi \<longleftrightarrow>
     (case v of None \<Rightarrow> False
      | Some (Whole i) \<Rightarrow> lo \<le> i \<and> (case hi of None \<Rightarrow> True | Some h \<Rightarrow> i \<le> h)
      | Some (Fraction m k) \<Rightarrow> lo * 10 ^ k \<le> m \<and> (case hi of None \<Rightarrow> True | Some h \<Rightarrow> m \<le> h * 10 ^ k))"

definition settings_valid :: "settings_form \<Rightarrow> bool" where
  "settings_valid form \<longleftrightarrow>
     within (pollIntervalMinutes form) 5 None \<and> within (inviteTokenExpiryHours form) 1 (Some 720) \<and>
     within (passwordResetTokenExpiryMinutes form) 5 (Some 1440)"

definition settings_saves :: "settings_page \<Rightarrow> mutation option" where
  "settings_saves s = Some (updateSettings (Obj
     [(''pollIntervalMinutes'', null_undefined (pollIntervalMinutes (sp_form s))),
      (''inviteTokenExpiryHours'', null_undefined (inviteTokenExpiryHours (sp_form s))),
      (''passwordResetTokenExpiryMinutes'', null_undefined (passwordResetTokenExpiryMinutes (sp_form s)))]))"

lemma validateForm_valid: "validateForm form = None \<longleftrightarrow> settings_valid form"
  by (auto simp: validateForm_def settings_valid_def within_def num_lt_def num_gt_def settings_limits
      split: option.splits number.splits)

interpretation settings_form: form_submit "\<lambda>s. validateForm (sp_form s)" settings_saves handleSave sp_validationError
  by unfold_locales (auto simp: handleSave_def settings_saves_def Let_def)

text \<open>C28: A save of the settings sends its one request exactly for a form whose three numbers lie in
  their documented ranges (an interval of at least 5 minutes, an invitation of 1 to 720 hours, a
  reset link of 5 to 1440 minutes), and then sends these numbers; any other form sends nothing and
  shows an error.\<close>

theorem settings_in_range:
  "mutations (snd (handleSave s)) =
     (if settings_valid (sp_form s) then
        [updateSettings (Obj [(''pollIntervalMinutes'', null_undefined (pollIntervalMinutes (sp_form s))),
           (''inviteTokenExpiryHours'', null_undefined (inviteTokenExpiryHours (sp_form s))),
           (''passwordResetTokenExpiryMinutes'', null_undefined (passwordResetTokenExpiryMinutes (sp_form s)))])]
      else []) \<and>
   (sp_validationError (fst (handleSave s)) = None \<longleftrightarrow> settings_valid (sp_form s))"
  using settings_form.sends [of s] settings_form.shows_error [of s]
  by (simp add: validateForm_valid settings_saves_def)

text \<open>The success message of a save that changed something does not last: the save invalidates the
  settings without waiting for the refetch, whose new data comes in after the message was set, and
  the effect that copies the data hides it. The form then shows the saved values and no message.\<close>

theorem saved_message_hidden:
  assumes "settings_valid (sp_form s)"
  shows "let s1 = save_settled (Inr r) (fst (handleSave s)); s2 = settings_effect (Some d) s1;
             shown = (\<lambda>s. T ''settings.saved'' [] \<in> set (texts
               (SettingsView path \<lparr>q_data = Some d, q_loading = False, q_error = err\<rparr> saving s)))
         in shown s1 \<and> \<not> shown s2"
  using assms unfolding validateForm_valid [symmetric]
  by (simp add: Let_def save_settled_def settings_effect_def SettingsView_def SettingsSection_def PageHeader_def
      SettingsNav_def SETTINGS_LINKS_def number_field_def shown_if_def shown_msg_def Button_def msg_given_def handleSave_def)

definition settings_example :: settings where
  "settings_example = \<lparr>set_poll_interval_minutes = 60, set_invite_token_expiry_hours = 168,
     set_password_reset_token_expiry_minutes = 60, set_smtp_configured = None\<rparr>"

theorem saved_message_hidden_witness:
  "let s0 = change_poll (Some (Whole 30)) (settings_effect (Some settings_example) settings_init);
       d = settings_example\<lparr>set_poll_interval_minutes := 30\<rparr>;
       s1 = save_settled (Inr Undefined) (fst (handleSave s0)); s2 = settings_effect (Some d) s1;
       shown = (\<lambda>s. T ''settings.saved'' [] \<in> set (texts
         (SettingsView None \<lparr>q_data = Some d, q_loading = False, q_error = False\<rparr> False s)))
   in settings_valid (sp_form s0) \<and> shown s1 \<and> \<not> shown s2"
proof -
  have v: "settings_valid (sp_form (change_poll (Some (Whole 30)) (settings_effect (Some settings_example) settings_init)))"
    by code_simp
  from v show ?thesis
    using saved_message_hidden [OF v, of Undefined "settings_example\<lparr>set_poll_interval_minutes := 30\<rparr>" None False False]
    by (simp only: Let_def simp_thms)
qed

end
