(* ===== verification/Users_View.thy ===== *)
theory Users_View
  imports Page_Parts List_Views
begin

section \<open>The users page (\<open>components/users/users-view.tsx\<close>, \<open>invite-dialog.tsx\<close>)\<close>

text \<open>
  The tables of users and pending invitations with their actions, the dialog that creates an
  invitation, and the page around them. The delete dialogs are in \<open>Delete_Flow\<close>.
\<close>

subsection \<open>The invite dialog\<close>

record invite_dialog =
  id_email :: string
  id_validationError :: "msg option"
  id_submitError :: "msg option"
  id_inviteUrl :: "string option"
  id_open :: bool
  id_inflight :: nat

definition invite_init :: invite_dialog where
  "invite_init = \<lparr>id_email = [], id_validationError = None, id_submitError = None, id_inviteUrl = None,
     id_open = False, id_inflight = 0\<rparr>"

definition resetState :: "invite_dialog \<Rightarrow> invite_dialog" where
  "resetState s = s\<lparr>id_email := [], id_validationError := None, id_submitError := None, id_inviteUrl := None\<rparr>"

text \<open>\<open>id_open\<close> is the parent's state, which \<open>onOpenChange\<close> sets; \<open>id_inflight\<close> counts the requests.\<close>

definition handleOpenChange :: "bool \<Rightarrow> invite_dialog \<Rightarrow> invite_dialog" where
  "handleOpenChange nextOpen s = (if \<not> nextOpen then resetState s else s)\<lparr>id_open := nextOpen\<rparr>"

definition invite_change :: "string \<Rightarrow> invite_dialog \<Rightarrow> invite_dialog" where
  "invite_change v s = s\<lparr>id_email := v, id_validationError := None, id_submitError := None\<rparr>"

text \<open>\<open>handleSubmit\<close> up to the \<open>await\<close>, and after it.\<close>

definition invite_submit :: "invite_dialog \<Rightarrow> invite_dialog \<times> command list" where
  "invite_submit s0 =
     (let s = s0\<lparr>id_submitError := None, id_validationError := None\<rparr>
      in if js_trim (id_email s) = [] then
           (s\<lparr>id_validationError := Some (t0 ''users.validation.emailRequired'')\<rparr>, [])
         else (s\<lparr>id_inflight := Suc (id_inflight s)\<rparr>,
               [Mutate (createInvitation (Obj [(''email'', Str (js_trim (id_email s)))]))]))"

definition invite_settled :: "js_error + create_invitation_response \<Rightarrow> invite_dialog \<Rightarrow> invite_dialog" where
  "invite_settled r s0 =
     (let s = s0\<lparr>id_inflight := id_inflight s0 - 1\<rparr>
      in case r of Inr res \<Rightarrow> s\<lparr>id_inviteUrl := Some (inv_res_invite_url res)\<rparr>
                 | Inl e \<Rightarrow> s\<lparr>id_submitError := Some (save_error (t0 ''users.inviteFailed'') e)\<rparr>)"

definition InviteDialog :: "invite_dialog \<Rightarrow> view" where
  "InviteDialog s =
     El ''Dialog'' ((''onOpenChange'', ''handleOpenChange'') # flag ''open'' (id_open s))
       [El ''DialogPopup'' []
         [El ''DialogHeader'' []
            [El ''DialogTitle'' [] [tx ''users.inviteTitle''], El ''DialogDescription'' [] [tx ''users.inviteDescription'']],
          El ''DialogPanel'' []
            [if given_text (id_inviteUrl s) then
               El ''div'' []
                 [El ''p'' [] [tx ''users.inviteCreatedDescription''],
                  El ''div'' []
                    [El ''Input'' [(''readOnly'', ''true''), (''value'', the (id_inviteUrl s))] [],
                     Button False False [(''onClick'', ''onCopyLink''), (''size'', ''icon''), (''variant'', ''outline'')]
                       [El ''aria-label'' [] [tx ''users.copyInviteLink''], El ''CopyIcon'' [(''aria-hidden'', ''true'')] []]]]
             else
               El ''Field'' []
                 ([El ''FieldLabel'' [] [tx ''users.inviteEmail''],
                   El ''Input'' [(''autoComplete'', ''email''), (''onChange'', ''setEmail''), (''type'', ''email''), (''value'', id_email s)] []] @
                  shown_msg (id_validationError s) (\<lambda>m. [El ''FieldError'' [] [Txt m]]) @
                  shown_msg (id_submitError s) (\<lambda>m. [El ''FieldError'' [] [Txt m]]))],
          El ''DialogFooter'' []
            (if given_text (id_inviteUrl s) then [Button False False [(''onClick'', ''close'')] [tx ''common.cancel'']]
             else [Button False False [(''onClick'', ''close''), (''variant'', ''ghost'')] [tx ''common.cancel''],
                   Button (id_inflight s \<noteq> 0) False [(''onClick'', ''handleSubmit'')] [tx ''users.inviteSubmit'']])]]"

subsection \<open>The page\<close>

definition users_formatDate :: "formatter \<Rightarrow> string \<Rightarrow> msg" where
  "users_formatDate fmt v = formatAppDateTime fmt (Some v) (Raw v)"

text \<open>\<open>copyInviteLink\<close>: the clipboard, and the toast once it answered.\<close>

definition copyInviteLink :: "string \<Rightarrow> command list" where
  "copyInviteLink url = [Copy url]"

definition copyInviteLink_settled :: "bool \<Rightarrow> command" where
  "copyInviteLink_settled ok =
     (if ok then Toast ''success'' (t0 ''users.inviteLinkCopied'') None
      else Toast ''error'' (t0 ''users.inviteLinkCopyFailed'') None)"

definition handleSendEmail :: "invitation \<Rightarrow> command list" where
  "handleSendEmail i =
     [Mutate (sendInvitationEmail (inv_id i)),
      Toast ''loading'' (t0 ''users.sendEmailLoading'') (Some (t0 ''users.sendEmailLoadingDescription''))]"

definition sendEmail_settled :: "jsval js_result \<Rightarrow> command" where
  "sendEmail_settled r =
     (case r of
        Inr _ \<Rightarrow> Toast ''success'' (t0 ''users.sendEmailSuccess'') (Some (t0 ''users.sendEmailSuccessDescription''))
      | Inl e \<Rightarrow> Toast ''error'' (t0 ''users.sendEmailFailed'')
                   (Some (save_error (t0 ''users.sendEmailFailedDescription'') e)))"

definition currentUserId :: "session_response option \<Rightarrow> string option" where
  "currentUserId session = (case session of None \<Rightarrow> None | Some r \<Rightarrow> map_option user_id (sess_user r))"

definition smtpConfigured :: "settings option \<Rightarrow> bool" where
  "smtpConfigured s = (case s of None \<Rightarrow> False | Some d \<Rightarrow> set_smtp_configured d = Some True)"

definition isLastUser :: "user_list_item list \<Rightarrow> bool" where
  "isLastUser users \<longleftrightarrow> length users \<le> 1"

text \<open>A disabled button inside a tooltip.\<close>

definition tooltip_button :: "msg \<Rightarrow> string \<Rightarrow> msg \<Rightarrow> view" where
  "tooltip_button label icon reason =
     El ''Tooltip'' []
       [El ''TooltipTrigger'' []
          [Button False True [(''size'', ''icon''), (''variant'', ''ghost'')]
             [El ''aria-label'' [] [Txt label], El icon [(''aria-hidden'', ''true'')] []]],
        El ''TooltipPopup'' [] [Txt reason]]"

definition action_button :: "bool \<Rightarrow> msg \<Rightarrow> string \<Rightarrow> string \<Rightarrow> view" where
  "action_button busy label handler icon =
     Button busy False [(''onClick'', handler), (''size'', ''icon''), (''variant'', ''ghost'')]
       [El ''aria-label'' [] [Txt label], El icon [(''aria-hidden'', ''true'')] []]"

text \<open>A control names the row its handler closes over.\<close>

definition set_delete_target :: "string \<Rightarrow> string" where
  "set_delete_target uid = ''setDeleteTarget '' @ uid"

definition user_row :: "formatter \<Rightarrow> string option \<Rightarrow> bool \<Rightarrow> user_list_item \<Rightarrow> view" where
  "user_row fmt me lastUser u =
     (let isSelf = (Some (uli_id u) = me); cannotDelete = (isSelf \<or> lastUser);
          label = T ''users.removeAria'' [(''email'', uli_email u)]
      in El ''TableRow'' [(''key'', uli_id u)]
        [El ''TableCell'' []
           [El ''div'' [] (El ''span'' [] [lit (uli_email u)] #
              shown_if isSelf [El ''Badge'' [(''variant'', ''secondary'')] [tx ''users.you'']])],
         El ''TableCell'' [] [Txt (users_formatDate fmt (uli_created_at u))],
         El ''TableCell'' []
           [if cannotDelete then
              tooltip_button label ''UserXIcon'' (t0 (if isSelf then ''users.removeSelfDisabled'' else ''users.removeLastUserDisabled''))
            else action_button False label (set_delete_target (uli_id u)) ''UserXIcon'']])"

definition invitation_row :: "formatter \<Rightarrow> bool \<Rightarrow> bool \<Rightarrow> invitation \<Rightarrow> view" where
  "invitation_row fmt smtp sending i =
     (let email = [(''email'', inv_email i)]
      in El ''TableRow'' [(''key'', inv_id i)]
        [El ''TableCell'' [] [lit (inv_email i)],
         El ''TableCell'' [] [Txt (users_formatDate fmt (inv_expires_at i))],
         El ''TableCell'' []
           [El ''div'' []
              [if smtp then action_button sending (T ''users.sendEmailAria'' email) (''handleSendEmail '' @ inv_id i) ''MailIcon''
               else tooltip_button (T ''users.sendEmailAria'' email) ''MailIcon'' (t0 ''users.sendEmailSmtpDisabled''),
               action_button False (T ''users.revokeAria'' email) (''setRevokeTarget '' @ inv_id i) ''Trash2Icon'']]])"

definition users_section :: "string \<Rightarrow> string list \<Rightarrow> string \<Rightarrow> bool \<Rightarrow> msg \<Rightarrow> view list \<Rightarrow> view" where
  "users_section heading cols skeleton loading emptyText rows =
     El ''Frame'' []
       [El ''FramePanel'' []
         [El ''div'' [] [El ''h2'' [] [tx (''users.'' @ heading)], El ''p'' [] [tx (''users.'' @ heading @ ''Description'')]],
          El ''Table'' [(''variant'', ''card'')]
            [table_head ''users'' cols,
             El ''TableBody'' []
               (shown_if loading
                  (map (\<lambda>k. El ''TableRow'' [(''key'', skeleton @ nat_string k)]
                              [El ''TableCell'' [(''colSpan'', ''3'')] [El ''Skeleton'' [] []]]) [0..<2]) @
                shown_if (\<not> loading \<and> rows = [])
                  [El ''TableRow'' [] [El ''TableCell'' [(''colSpan'', ''3'')] [Txt emptyText]]] @
                shown_if (\<not> loading) rows)]]]"

definition UsersView ::
  "formatter \<Rightarrow> string option \<Rightarrow> session_response option \<Rightarrow> settings option \<Rightarrow> user_list_item list query \<Rightarrow>
   invitation list query \<Rightarrow> bool \<Rightarrow> invite_dialog \<Rightarrow> user_list_item del \<Rightarrow> invitation del \<Rightarrow> view" where
  "UsersView fmt path session st uq iq sending invite ud idel =
     (let users = (case q_data uq of None \<Rightarrow> [] | Some us \<Rightarrow> us);
          invitations = (case q_data iq of None \<Rightarrow> [] | Some xs \<Rightarrow> xs)
      in El ''div'' []
        ([PageHeader [tx ''users.title''] []
            [Button False False [(''onClick'', ''setInviteOpen'')] [tx ''users.invite'']],
          SettingsNav path] @
         shown_if (q_error uq \<or> q_error iq) [El ''p'' [(''role'', ''alert'')] [tx ''users.loadFailed'']] @
         [users_section ''usersSection'' [''email'', ''createdAt'', ''actions''] ''user-skeleton-'' (q_loading uq)
            (t0 ''users.usersEmpty'') (map (user_row fmt (currentUserId session) (isLastUser users)) users),
          users_section ''invitationsSection'' [''email'', ''expiresAt'', ''actions''] ''invite-skeleton-'' (q_loading iq)
            (t0 ''users.invitationsEmpty'') (map (invitation_row fmt (smtpConfigured st) sending) invitations),
          InviteDialog invite,
          DeleteUserDialog (deleteTarget ud) (deleteTarget ud \<noteq> None) (deletes ud \<noteq> []),
          RevokeInviteDialog (deleteTarget idel) (deleteTarget idel \<noteq> None) (deletes idel \<noteq> [])]))"

subsection \<open>Who can be removed\<close>

lemma user_rows_operable:
  "list_ex (\<lambda>u. operable ''onClick'' (set_delete_target uid) (user_row fmt me lastUser u)) us \<longleftrightarrow>
     uid \<in> uli_id ` set us \<and> Some uid \<noteq> me \<and> \<not> lastUser"
  by (induction us)
    (auto simp: user_row_def Let_def tooltip_button_def action_button_def operable_Button operable_simps set_delete_target_def)

lemma invitation_rows_operable:
  "\<not> list_ex (\<lambda>i. operable ''onClick'' (set_delete_target uid) (invitation_row fmt smtp sending i)) xs"
  by (induction xs) (auto simp: invitation_row_def Let_def tooltip_button_def action_button_def operable_Button operable_simps set_delete_target_def)

lemma section_operable:
  "operable ''onClick'' (set_delete_target uid) (users_section heading cols skeleton loading emptyText rows) \<longleftrightarrow>
     \<not> loading \<and> list_ex (operable ''onClick'' (set_delete_target uid)) rows"
  by (auto simp: users_section_def table_head_def operable_simps set_delete_target_def)

lemma frame_operable:
  "''setInviteOpen'' \<noteq> set_delete_target uid"
  "\<not> operable ''onClick'' (set_delete_target uid) (SettingsNav path)"
  "\<not> operable ''onClick'' (set_delete_target uid) (InviteDialog invite)"
  "\<not> operable ''onClick'' (set_delete_target uid) (DeleteUserDialog u opn busy)"
  "\<not> operable ''onClick'' (set_delete_target uid) (RevokeInviteDialog i opn busy)"
  "operable ''onClick'' h (PageHeader ts ds as) \<longleftrightarrow>
     list_ex (operable ''onClick'' h) ts \<or> list_ex (operable ''onClick'' h) ds \<or> list_ex (operable ''onClick'' h) as"
  by (auto simp: SettingsNav_def SETTINGS_LINKS_def InviteDialog_def DeleteUserDialog_def RevokeInviteDialog_def
      removal_dialog_def PageHeader_def operable_simps operable_Button Let_def set_delete_target_def)

text \<open>The users page offers to remove exactly the users that may be removed: a listed user, not the
  signed-in one, while more than one is listed. For every other id no enabled control of the page
  opens the dialog.\<close>

theorem removable_users:
  "operable ''onClick'' (set_delete_target uid) (UsersView fmt path session st uq iq sending invite ud idel) \<longleftrightarrow>
     \<not> q_loading uq \<and> currentUserId session \<noteq> Some uid \<and>
     (case q_data uq of None \<Rightarrow> False | Some us \<Rightarrow> uid \<in> uli_id ` set us \<and> 2 \<le> length us)"
  by (cases "q_data uq"; cases "q_data iq")
    (simp_all add: UsersView_def Let_def section_operable user_rows_operable invitation_rows_operable frame_operable
      isLastUser_def operable_simps operable_Button eq_commute [of "currentUserId session"] not_le Suc_le_eq numeral_2_eq_2
      conj_commute conj_left_commute)

subsection \<open>The invitation\<close>

definition invite_check :: "invite_dialog \<Rightarrow> msg option" where
  "invite_check s = first_error [(js_trim (id_email s) = [], t0 ''users.validation.emailRequired'')]"

definition invite_saves :: "invite_dialog \<Rightarrow> mutation option" where
  "invite_saves s = Some (createInvitation (Obj [(''email'', Str (js_trim (id_email s)))]))"

interpretation invite_form: form_submit invite_check invite_saves invite_submit id_validationError
  by unfold_locales (auto simp: invite_check_def invite_saves_def invite_submit_def Let_def split: if_splits)

text \<open>C29: Closing the invite dialog resets it, but a request that is still running answers into the
  closed dialog: the next time it is opened it shows the link of that earlier invitation instead of
  the form, and no control to invite anybody.\<close>

theorem invite_reopens_with_link:
  assumes "js_trim e \<noteq> []" and "inv_res_invite_url res \<noteq> []"
  shows "let s1 = fst (invite_submit (invite_change e (handleOpenChange True invite_init)));
             s2 = handleOpenChange True (invite_settled (Inr res) (handleOpenChange False s1))
         in operable ''onClick'' ''handleSubmit'' (InviteDialog (handleOpenChange True (handleOpenChange False (s1\<lparr>id_inflight := 0\<rparr>)))) \<and>
            \<not> operable ''onClick'' ''handleSubmit'' (InviteDialog s2) \<and>
            id_email s2 = [] \<and> id_inviteUrl s2 = Some (inv_res_invite_url res)"
  using assms
  by (simp add: Let_def invite_submit_def invite_change_def handleOpenChange_def resetState_def invite_init_def
      invite_settled_def InviteDialog_def operable_Button operable_simps given_text_def shown_msg_def msg_given_def)

theorem invite_reopens_with_link_witness:
  "let res = \<lparr>inv_res_id = ''i'', inv_res_email = ''a@b'', inv_res_expires_at = [], inv_res_invite_url = ''/x''\<rparr>;
       s1 = fst (invite_submit (invite_change ''a@b'' (handleOpenChange True invite_init)));
       s2 = handleOpenChange True (invite_settled (Inr res) (handleOpenChange False s1))
   in operable ''onClick'' ''handleSubmit'' (InviteDialog (handleOpenChange True (handleOpenChange False (s1\<lparr>id_inflight := 0\<rparr>)))) \<and>
      \<not> operable ''onClick'' ''handleSubmit'' (InviteDialog s2) \<and> id_email s2 = [] \<and> id_inviteUrl s2 = Some ''/x''"
proof -
  have "js_trim ''a@b'' \<noteq> []" by code_simp
  then show ?thesis
    using invite_reopens_with_link [of "''a@b''" "\<lparr>inv_res_id = ''i'', inv_res_email = ''a@b'', inv_res_expires_at = [], inv_res_invite_url = ''/x''\<rparr>"]
    by (simp add: Let_def)
qed

end
