(* ===== verification/Page_Requests.thy ===== *)
theory Page_Requests
  imports Notification_Drawer Projects_View Settings_View Users_View Go_Proxy Js_Regex
begin

section \<open>From the pages to the server\<close>

text \<open>What the forms and dialogs of the pages send as mutations of the hooks, and which URL the Go server is
  asked for when a query of a hook passes the client and the route handler.\<close>

subsection \<open>What a page sends\<close>

text \<open>Every mutation among the commands refreshes the queries.\<close>

definition sent_refresh :: "(query_key \<Rightarrow> query_key \<Rightarrow> bool) \<Rightarrow> command list \<Rightarrow> query_use list \<Rightarrow> bool" where
  "sent_refresh matches cs qs \<longleftrightarrow> list_all (\<lambda>m. refreshes matches m qs) (mutations cs)"

lemma sent_refreshI: "(\<And>m. m \<in> set (mutations cs) \<Longrightarrow> refreshes matches m qs) \<Longrightarrow> sent_refresh matches cs qs"
  by (simp add: sent_refresh_def list_all_iff)

lemma confirm_mutations:
  "m \<in> set (mutations (snd (confirm_delete del s))) \<Longrightarrow> \<exists>x. m = del x"
  "m \<in> set (mutations (snd (plain_confirm del s))) \<Longrightarrow> \<exists>x. m = del x"
  by (auto simp: confirm_delete_def plain_confirm_def Let_def split: option.splits if_splits)

text \<open>What the forms send is what their \<open>saves\<close> say, and so a mutation of their hook.\<close>

lemma page_mutations:
  "m \<in> set (mutations (snd (rd_handleSubmit rp r))) \<Longrightarrow> \<exists>b i. m = createRepo b \<or> m = updateRepo i b"
  "m \<in> set (mutations (snd (i_handleSubmit ip it))) \<Longrightarrow> \<exists>b i. m = createIntegration b \<or> m = updateIntegration i b"
  "m \<in> set (mutations (snd (n_handleSubmit np nt))) \<Longrightarrow> \<exists>b i. m = createNotificationTarget b \<or> m = updateNotificationTarget i b"
  "m \<in> set (mutations (snd (pd_handleSubmit pp pd))) \<Longrightarrow> \<exists>b i. m = createTicketProject b \<or> m = updateTicketProject i b"
  "m \<in> set (mutations (snd (handleSave sp))) \<Longrightarrow> \<exists>b. m = updateSettings b"
  "m \<in> set (mutations (snd (invite_submit iv))) \<Longrightarrow> \<exists>b. m = createInvitation b"
  using repo_form.sent_is_checked [of m rp r] integration_form.sent_is_checked [of m ip it]
    notification_form.sent_is_checked [of m np nt] project_form.sent_is_checked [of m pp pd]
    settings_form.sent_is_checked [of m sp] invite_form.sent_is_checked [of m iv]
  by (auto simp: rd_saves_def i_saves_def n_saves_def pd_saves_def settings_saves_def invite_saves_def Let_def split: if_splits)

subsection \<open>Which URL the server is asked for\<close>

text \<open>The browser splits the URL of a request at the question mark; the route handler gets the segments of
  the path and the rest.\<close>

definition asked_url :: "string \<Rightarrow> headers \<Rightarrow> string \<Rightarrow> string option" where
  "asked_url base hs path =
     (let u = buildUrl path; pathname = takeWhile (\<lambda>c. c \<noteq> CHR ''?'') u; search = dropWhile (\<lambda>c. c \<noteq> CHR ''?'') u
      in map_option up_url (upstream_request_of (Some base) \<lparr>pr_search = search, pr_headers = hs, pr_body = None\<rparr>
           (route_segments pathname) ''GET''))"

definition id_c :: "char \<Rightarrow> bool" where
  "id_c c \<longleftrightarrow> digit_c c \<or> alpha_c c \<or> c = CHR ''-'' \<or> c = CHR ''_''"

text \<open>The identifiers the server gives out: letters, digits, hyphens and underscores.\<close>

definition plain_id :: "string option \<Rightarrow> bool" where
  "plain_id i \<longleftrightarrow> (case i of None \<Rightarrow> False | Some s \<Rightarrow> s \<noteq> [] \<and> list_all id_c s)"

definition plain_scope :: "string option \<Rightarrow> bool" where
  "plain_scope x \<longleftrightarrow> (case x of None \<Rightarrow> True | Some s \<Rightarrow> ascii s)"

fun plain_call :: "query_call \<Rightarrow> bool" where
  "plain_call (Q_Ticket_Projects i) = (i = None \<or> plain_id i)"
| "plain_call (Q_Poll_Run r) = plain_id r"
| "plain_call (Q_Workspaces i e) = plain_id i"
| "plain_call (Q_Projects i w e) = (plain_id i \<and> plain_scope w)"
| "plain_call (Q_Statuses i x e) = (plain_id i \<and> plain_scope x)"
| "plain_call (Q_Priorities i x e) = (plain_id i \<and> plain_scope x)"
| "plain_call (Q_Issue_Types i x e) = (plain_id i \<and> plain_scope x)"
| "plain_call _ = True"

definition on_server :: "string \<Rightarrow> string \<Rightarrow> string" where
  "on_server base path = strip_one_trailing (CHR ''/'') base @ ''/api/v1'' @ path"

lemma split_at_mark:
  assumes "CHR ''?'' \<notin> set p"
  shows "takeWhile (\<lambda>c. c \<noteq> CHR ''?'') (buildUrl p @ CHR ''?'' # q) = buildUrl p"
    and "dropWhile (\<lambda>c. c \<noteq> CHR ''?'') (buildUrl p @ CHR ''?'' # q) = CHR ''?'' # q"
    and "takeWhile (\<lambda>c. c \<noteq> CHR ''?'') (buildUrl p) = buildUrl p" and "dropWhile (\<lambda>c. c \<noteq> CHR ''?'') (buildUrl p) = []"
proof -
  have "\<forall>c \<in> set (buildUrl p). c \<noteq> CHR ''?''" using assms by (auto simp: buildUrl_def BASE_def)
  then show "takeWhile (\<lambda>c. c \<noteq> CHR ''?'') (buildUrl p @ CHR ''?'' # q) = buildUrl p"
    "dropWhile (\<lambda>c. c \<noteq> CHR ''?'') (buildUrl p @ CHR ''?'' # q) = CHR ''?'' # q"
    "takeWhile (\<lambda>c. c \<noteq> CHR ''?'') (buildUrl p) = buildUrl p" "dropWhile (\<lambda>c. c \<noteq> CHR ''?'') (buildUrl p) = []"
    by (simp_all add: takeWhile_append2 dropWhile_append2 dropWhile_eq_Nil_conv)
qed

lemma asked_params:
  assumes "\<forall>(k, v) \<in> set ps. ascii k \<and> ascii v" and "ps \<noteq> []" and "starts_with path ''/''" and "CHR ''?'' \<notin> set path"
  shows "asked_url base hs (path @ ''?'' @ params_string ps) = Some (on_server base (path @ ''?'' @ params_string ps))"
proof -
  have "buildUrl (path @ ''?'' @ params_string ps) = buildUrl path @ CHR ''?'' # params_string ps"
    using assms(3) by (auto simp: buildUrl_def starts_with_conv)
  then show ?thesis
    using client_reaches_go [OF assms(1-3), of base hs None] split_at_mark [OF assms(4)]
    by (simp add: asked_url_def on_server_def)
qed

lemma asked_plain:
  assumes "starts_with path ''/''" and "CHR ''?'' \<notin> set path"
  shows "asked_url base hs path = Some (on_server base path)"
proof -
  obtain rest where path: "path = CHR ''/'' # rest" using assms(1) by (cases path) auto
  have "join_with ''/'' (route_segments (buildUrl path)) = ''api/v1/'' @ rest"
    using route_segments_api by (simp add: buildUrl_def path)
  moreover have "params_string (params_parse []) = []" by (simp add: params_parse_def params_string_def)
  ultimately show ?thesis unfolding asked_url_def Let_def split_at_mark(3,4) [OF assms(2)]
    by (simp add: upstream_request_of_def buildUpstreamUrl_def getGoApiUrl_def on_server_def path Let_def)
qed

lemma int_string_ascii: "ascii (int_string n)"
proof -
  have "ascii (nat_string k)" for k using nat_string_digits [of k] by (fastforce simp: ascii_def is_digit_def list_all_iff)
  then show ?thesis by (simp add: int_string_def ascii_def)
qed

lemma id_c_safe: "id_c c \<Longrightarrow> form_safe c \<and> uri_safe c \<and> c \<noteq> CHR ''?'' \<and> (of_char c :: nat) < 128"
  by (auto simp: id_c_def digit_c_def alpha_c_def form_safe_def uri_safe_def Let_def)

lemma concat_single: "(\<And>c. c \<in> set s \<Longrightarrow> f c = [c]) \<Longrightarrow> concat (map f s) = s"
  by (induction s) simp_all

lemma plain_ids:
  assumes "list_all id_c s"
  shows "encodeURIComponent s = s" and "form_encode s = s" and "ascii s" and "CHR ''?'' \<notin> set s"
proof -
  have safe: "form_safe c \<and> uri_safe c \<and> c \<noteq> CHR ''?'' \<and> (of_char c :: nat) < 128" if "c \<in> set s" for c
    using assms that id_c_safe by (auto simp: list_all_iff)
  have "form_char c = [c]" "pct_char (\<lambda>c. \<not> uri_safe c) c = [c]" if "c \<in> set s" for c
    using safe [OF that] by (auto simp: form_char_def form_safe_def pct_char_def)
  then show "form_encode s = s" "encodeURIComponent s = s"
    unfolding form_encode_def encodeURIComponent_def pct_encode_def by (simp_all add: concat_single)
  show "ascii s" "CHR ''?'' \<notin> set s" using safe by (auto simp: ascii_def)
qed

text \<open>Every query path is a plain path, or one with a query of ASCII parameters.\<close>

lemma asked_scoped:
  assumes "plain_id i" and "plain_scope x" and "ascii param" and "CHR ''?'' \<notin> set r"
  shows "asked_url base hs (scoped_path i r param x) = Some (on_server base (scoped_path i r param x))"
proof -
  obtain j where j: "i = Some j" "list_all id_c j" using assms(1) by (auto simp: plain_id_def split: option.splits)
  let ?p = "''/integrations/'' @ j @ ''/ticket-metadata/'' @ r"
  have p: "starts_with ?p ''/''" "CHR ''?'' \<notin> set ?p" using plain_ids(4) [OF j(2)] assms(4) by (auto simp: starts_with_conv)
  show ?thesis
  proof (cases "truthy_text x")
    case False
    then have "scoped_path i r param x = ?p" by (simp add: scoped_path_def j(1) shown_def params_string_def)
    then show ?thesis using asked_plain [OF p] by simp
  next
    case True
    then obtain v where v: "x = Some v" "ascii v" using assms(2) by (auto simp: truthy_text_def plain_scope_def)
    have "params_string [(param, v)] \<noteq> []" by (simp add: params_string_def)
    then have "scoped_path i r param x = ?p @ ''?'' @ params_string [(param, v)]"
      using True by (simp add: scoped_path_def j(1) v(1) shown_def)
    then show ?thesis using asked_params [of "[(param, v)]" ?p] p assms(3) v(2) by simp
  qed
qed

lemma asked_runs: "asked_url base hs (pollRunsPath params) = Some (on_server base (pollRunsPath params))"
proof -
  let ?ps = "(case Option.bind params prp_limit of None \<Rightarrow> [] | Some n \<Rightarrow> [(''limit'', int_string n)]) @
    (case Option.bind params prp_offset of None \<Rightarrow> [] | Some n \<Rightarrow> [(''offset'', int_string n)])"
  have ps: "\<forall>(k, v) \<in> set ?ps. ascii k \<and> ascii v" using int_string_ascii by (auto simp: ascii_def split: option.splits)
  have p: "starts_with ''/poll/runs'' ''/''" "CHR ''?'' \<notin> set ''/poll/runs''" by (simp_all add: starts_with_conv)
  show ?thesis
  proof (cases "?ps = []")
    case True
    then have "pollRunsPath params = ''/poll/runs''" by (simp only: pollRunsPath_def Let_def) (simp add: params_string_def)
    then show ?thesis using asked_plain [OF p] by simp
  next
    case False
    then have "params_string ?ps \<noteq> []"
      by (cases ?ps rule: list.exhaust; cases "tl ?ps") (auto simp: params_string_def)
    then have "pollRunsPath params = ''/poll/runs'' @ ''?'' @ params_string ?ps" by (simp only: pollRunsPath_def Let_def) simp
    then show ?thesis using asked_params [OF ps False p] by simp
  qed
qed

end
