(* ===== verification/Roadmap_Registry.thy ===== *)
theory Roadmap_Registry
  imports Js_Regex View "HOL-Library.Multiset"
begin

section \<open>Building the roadmap (\<open>scripts/roadmap/registry.mjs\<close>, \<open>spec-links.mjs\<close>, \<open>generate-roadmap.mjs\<close>)\<close>

text \<open>
  The tasks the registry collects, the text of their descriptions, and the HTML drawn from them.
  The texts of the roadmap scripts are sequences of UTF-8 bytes here; the two places where their
  length counts go by UTF-16 units (\<open>units\<close>).
\<close>

subsection \<open>Texts\<close>

definition units_of :: "char \<Rightarrow> nat" where
  "units_of c = (let n = (of_char c :: nat) in if n < 128 then 1 else if n < 192 then 0 else if n < 240 then 1 else 2)"

text \<open>\<open>s.length\<close>, and \<open>s.slice(0, n)\<close> (a surrogate pair is not cut).\<close>

definition units :: "string \<Rightarrow> nat" where
  "units s = sum_list (map units_of s)"

fun units_take :: "nat \<Rightarrow> string \<Rightarrow> string" where
  "units_take n [] = []"
| "units_take n (c # cs) = (if units_of c \<le> n then c # units_take (n - units_of c) cs else [])"

definition LF :: char where "LF = CHR 0x0A"
definition BQ :: string where "BQ = [CHR 0x60]"
definition DQ :: string where "DQ = [CHR 0x22]"

text \<open>\<open>[...new Set(xs)]\<close>.\<close>

definition uniq :: "'a list \<Rightarrow> 'a list" where
  "uniq xs = rev (remdups (rev xs))"

subsection \<open>Descriptions\<close>

text \<open>A link; a field that is \<open>undefined\<close> is \<^term>\<open>None\<close>.\<close>

record doc_link =
  dl_href :: "string option"
  dl_label :: "string option"
  dl_note :: "string option"

definition default :: "'a \<Rightarrow> 'a option \<Rightarrow> 'a" where
  "default d x = (case x of None \<Rightarrow> d | Some y \<Rightarrow> y)"

text \<open>\<open>${x}\<close>.\<close>

definition printed :: "string option \<Rightarrow> string" where
  "printed x = default ''undefined'' x"

definition specRefs :: "doc_link list \<Rightarrow> string" where
  "specRefs refs = join_with [LF]
     (map (\<lambda>r. ''- ['' @ printed (dl_label r) @ '']('' @ printed (dl_href r) @ '')'' @
        (case dl_note r of Some n \<Rightarrow> if n = [] then [] else '' '' @ em_dash @ '' '' @ n | None \<Rightarrow> [])) refs)"

text \<open>The options of a task; a list that is left out is empty.\<close>

record task_opts =
  o_description :: "string option"
  o_context :: "string option"
  o_specs :: "doc_link list"
  o_stack :: "doc_link list"
  o_schema :: "doc_link list"
  o_implementation :: "string list"
  o_acceptance :: "string list"
  o_files :: "string list"
  o_tests :: "string list"
  o_outOfScope :: "string list"
  o_relatedTasks :: "string list"
  o_priority :: "string option"
  o_depends_on :: "string list"
  o_lane :: "string option"

definition no_opts :: task_opts where
  "no_opts = \<lparr>o_description = None, o_context = None, o_specs = [], o_stack = [], o_schema = [], o_implementation = [],
     o_acceptance = [], o_files = [], o_tests = [], o_outOfScope = [], o_relatedTasks = [], o_priority = None,
     o_depends_on = [], o_lane = None\<rparr>"

definition part :: "string \<Rightarrow> string \<Rightarrow> bool \<Rightarrow> string list" where
  "part title body given = (if given then [''## '' @ title @ [LF, LF] @ body] else [])"

definition bullets :: "string \<Rightarrow> string \<Rightarrow> string list \<Rightarrow> string" where
  "bullets before after xs = join_with [LF] (map (\<lambda>x. before @ x @ after) xs)"

definition describe :: "task_opts \<Rightarrow> string" where
  "describe os = join_with [LF, LF]
     (part ''Context'' (case o_context os of None \<Rightarrow> [] | Some c \<Rightarrow> c) (o_context os \<notin> {None, Some []}) @
      part ''Spec references'' (specRefs (o_specs os)) (o_specs os \<noteq> []) @
      part ''Stack references'' (specRefs (o_stack os)) (o_stack os \<noteq> []) @
      part ''Schema references'' (specRefs (o_schema os)) (o_schema os \<noteq> []) @
      part ''Implementation notes'' (bullets ''- '' [] (o_implementation os)) (o_implementation os \<noteq> []) @
      part ''Files'' (bullets (''- '' @ BQ) BQ (o_files os)) (o_files os \<noteq> []) @
      part ''Acceptance criteria'' (bullets ''- [ ] '' [] (o_acceptance os)) (o_acceptance os \<noteq> []) @
      part ''Tests'' (bullets (''- '' @ BQ) BQ (o_tests os)) (o_tests os \<noteq> []) @
      part ''Out of scope'' (bullets ''- '' [] (o_outOfScope os)) (o_outOfScope os \<noteq> []) @
      part ''Related roadmap tasks'' (bullets (''- '' @ BQ) BQ (o_relatedTasks os)) (o_relatedTasks os \<noteq> []))"

subsection \<open>The registry\<close>

definition ID_MARKER :: string where "ID_MARKER = ''**Roadmap ID:** ''"

definition withRoadmapId :: "string \<Rightarrow> string \<Rightarrow> string" where
  "withRoadmapId ident description =
     (let marker = ID_MARKER @ ident
      in if js_includes description marker then description
         else description @ [LF, LF] @ ''---'' @ [LF, LF] @ marker)"

text \<open>Epics have neither parent, acceptance criteria, files nor tests.\<close>

datatype task_type = Epic | Leaf

record roadmap_task =
  rt_id :: string
  rt_type :: task_type
  rt_parent :: "string option"
  rt_title :: string
  rt_domain :: string
  rt_priority :: string
  rt_depends_on :: "string list"
  rt_doc_ref :: "string option list"
  rt_description :: string
  rt_acceptance :: "string list option"
  rt_files :: "string list"
  rt_tests :: "string list"
  rt_lane :: string

definition doc_refs :: "task_opts \<Rightarrow> string option list" where
  "doc_refs os = uniq (map dl_href (o_specs os) @ map dl_href (o_stack os) @ map dl_href (o_schema os))"

definition epic :: "string \<Rightarrow> string \<Rightarrow> string \<Rightarrow> task_opts \<Rightarrow> roadmap_task list \<Rightarrow> roadmap_task list" where
  "epic ident title domain os tasks =
     (let description = default (describe (os\<lparr>o_files := [], o_tests := [], o_outOfScope := [], o_relatedTasks := []\<rparr>)) (o_description os)
      in tasks @
        [\<lparr>rt_id = ident, rt_type = Epic, rt_parent = None, rt_title = title, rt_domain = domain,
          rt_priority = default ''high'' (o_priority os), rt_depends_on = o_depends_on os, rt_doc_ref = doc_refs os,
          rt_description = withRoadmapId ident description, rt_acceptance = None, rt_files = [], rt_tests = [], rt_lane = ''S''\<rparr>])"

definition leaf :: "string \<Rightarrow> string \<Rightarrow> string \<Rightarrow> string \<Rightarrow> task_opts \<Rightarrow> roadmap_task list \<Rightarrow> roadmap_task list" where
  "leaf ident parent title domain os tasks =
     tasks @
       [\<lparr>rt_id = ident, rt_type = Leaf, rt_parent = Some parent, rt_title = title, rt_domain = domain,
         rt_priority = default ''medium'' (o_priority os), rt_depends_on = o_depends_on os, rt_doc_ref = doc_refs os,
         rt_description = withRoadmapId ident (describe os), rt_acceptance = Some (o_acceptance os), rt_files = o_files os,
         rt_tests = o_tests os, rt_lane = default ''S'' (o_lane os)\<rparr>]"

text \<open>A module of epics is a sequence of calls.\<close>

datatype registration = RegEpic string string string task_opts | RegLeaf string string string string task_opts

definition register :: "roadmap_task list \<Rightarrow> registration \<Rightarrow> roadmap_task list" where
  "register tasks r =
     (case r of RegEpic ident title domain os \<Rightarrow> epic ident title domain os tasks
      | RegLeaf ident parent title domain os \<Rightarrow> leaf ident parent title domain os tasks)"

definition epics :: "roadmap_task list \<Rightarrow> roadmap_task list" where
  "epics tasks = filter (\<lambda>t. rt_type t = Epic) tasks"

definition leaves :: "roadmap_task list \<Rightarrow> roadmap_task list" where
  "leaves tasks = filter (\<lambda>t. rt_type t = Leaf) tasks"


subsection \<open>The marker of a task\<close>

text \<open>\<open>ROADMAP_ID_RE\<close> of the importer and of the intake audit, and the identifier it reads.\<close>

definition TASK_ID :: regex where
  "TASK_ID = Seqs [Lit ''E'', Times 2 (Cls digit_c), Opt (Seq (Lit ''-'') (Times 2 (Cls digit_c)))]"

definition ROADMAP_ID_RE :: regex where
  "ROADMAP_ID_RE = Seq (Lit ID_MARKER) (Group 1 TASK_ID)"

definition read_id :: "string \<Rightarrow> string option" where
  "read_id description =
     (case exec_search ROADMAP_ID_RE description of None \<Rightarrow> None | Some (_, _, c, _) \<Rightarrow> grp 1 c)"

lemma TASK_ID_shape:
  "in_lang TASK_ID ident \<longleftrightarrow>
     (\<exists>a b. digit_c a \<and> digit_c b \<and> (ident = [CHR ''E'', a, b] \<or> (\<exists>c d. digit_c c \<and> digit_c d \<and> ident = [CHR ''E'', a, b, CHR ''-'', c, d])))"
proof -
  have two: "in_lang (Times 2 (Cls digit_c)) w \<longleftrightarrow> (\<exists>a b. w = [a, b] \<and> digit_c a \<and> digit_c b)" for w
    by (auto simp: numeral_2_eq_2 in_lang_simps) (metis append_Cons append_Nil)
  have seq: "in_lang (Seq r1 r2) w \<longleftrightarrow> (\<exists>u v. w = u @ v \<and> in_lang r1 u \<and> in_lang r2 v)" for r1 r2 w
    by (auto simp: in_lang_simps)
  have opt: "in_lang (Opt (Seq (Lit ''-'') (Times 2 (Cls digit_c)))) w \<longleftrightarrow>
      w = [] \<or> (\<exists>c d. w = [CHR ''-'', c, d] \<and> digit_c c \<and> digit_c d)" for w
    by (simp only: in_lang_simps(1,4) seq in_lang_Lit two) auto
  have "in_lang TASK_ID ident \<longleftrightarrow> (\<exists>a b w. ident = [CHR ''E'', a, b] @ w \<and> digit_c a \<and> digit_c b \<and>
      in_lang (Opt (Seq (Lit ''-'') (Times 2 (Cls digit_c)))) w)"
    unfolding TASK_ID_def Seqs.simps seq [of "Lit _"] seq [of "Times _ _"] in_lang_Lit two
    by (auto simp del: Lit.simps) (metis append_Cons append_Nil)
  then show ?thesis unfolding opt by auto
qed

lemma parse_Lit: "parse (Lit x) (x @ s) c = [(s, c)]"
  by (induction x) auto

lemma parse_Lit_None: "\<not> starts_with s x \<Longrightarrow> parse (Lit x) s c = []"
proof (induction x arbitrary: s)
  case (Cons a x)
  then show ?case by (cases s) auto
qed simp

lemma marker_first:
  assumes "in_lang TASK_ID ident"
  shows "exec_prefix ROADMAP_ID_RE (ID_MARKER @ ident) = Some (ID_MARKER @ ident, [(1, ident)], [])"
proof -
  have "\<exists>more. parse (Group 1 TASK_ID) ident [] = ([], [(1, ident)]) # more"
    using assms unfolding TASK_ID_shape by (auto simp: TASK_ID_def numeral_2_eq_2)
  then show ?thesis by (auto simp: exec_prefix_def ROADMAP_ID_RE_def parse_Lit)
qed

lemma exec_search_skip:
  assumes "\<And>k. k < length p \<Longrightarrow> \<not> starts_with (drop k p @ s) ID_MARKER"
  shows "exec_search ROADMAP_ID_RE (p @ s) = map_option (apfst ((@) p)) (exec_search ROADMAP_ID_RE s)"
  using assms
proof (induction p)
  case Nil
  then show ?case by (cases "exec_search ROADMAP_ID_RE s") (auto simp: apfst_def map_prod_def)
next
  case (Cons x p)
  have "exec_prefix ROADMAP_ID_RE (x # p @ s) = None"
    using Cons.prems [of 0] by (simp add: exec_prefix_def ROADMAP_ID_RE_def parse_Lit_None)
  moreover have "exec_search ROADMAP_ID_RE (p @ s) = map_option (apfst ((@) p)) (exec_search ROADMAP_ID_RE s)"
    using Cons.prems by (intro Cons.IH) (metis Suc_mono drop_Suc_Cons length_Cons)
  ultimately show ?case by (cases "exec_search ROADMAP_ID_RE s") (auto simp: apfst_def map_prod_def split: prod.splits)
qed

lemma js_includes_drop: "k < length d \<Longrightarrow> starts_with (drop k d) m \<Longrightarrow> js_includes d m"
proof (induction d arbitrary: k)
  case (Cons c d)
  then show ?case by (cases k) auto
qed simp

lemma starts_with_break:
  assumes "x \<notin> set m" and "starts_with (a @ x # b) m"
  shows "starts_with a m"
proof -
  have "length m \<le> length a"
  proof (rule ccontr)
    assume "\<not> length m \<le> length a"
    then have l: "length a < length m" by simp
    from assms(2) obtain r where "a @ x # b = m @ r" by (auto simp: starts_with_conv)
    then have "(m @ r) ! length a = x" by (metis nth_append_length)
    then have "m ! length a = x" using l by (simp add: nth_append)
    then show False using assms(1) l by (auto simp: in_set_conv_nth)
  qed
  then show ?thesis using assms(2) by (simp add: starts_with_def)
qed

lemma marker_chars: "LF \<notin> set ID_MARKER" "ID_MARKER \<noteq> []"
  by (simp_all add: LF_def ID_MARKER_def)

lemma no_marker_before:
  assumes "\<not> js_includes d ID_MARKER" and "k < length (d @ [LF, LF] @ ''---'' @ [LF, LF])"
  shows "\<not> starts_with (drop k (d @ [LF, LF] @ ''---'' @ [LF, LF]) @ s) ID_MARKER"
proof (cases "k < length d")
  case True
  then have "drop k (d @ [LF, LF] @ ''---'' @ [LF, LF]) @ s = drop k d @ LF # [LF] @ ''---'' @ [LF, LF] @ s" by simp
  then show ?thesis using starts_with_break [OF marker_chars(1)] js_includes_drop [OF True] assms(1) by metis
next
  case False
  define j where "j = k - length d"
  have j: "j < 7" "drop k (d @ [LF, LF] @ ''---'' @ [LF, LF]) = drop j ([LF, LF] @ ''---'' @ [LF, LF])"
    using False assms(2) by (simp_all add: j_def)
  then have "j \<in> {0, 1, 2, 3, 4, 5, 6}" by auto
  then show ?thesis unfolding j(2) by (auto simp: LF_def ID_MARKER_def)
qed

lemma read_withRoadmapId:
  assumes "in_lang TASK_ID ident" and "\<not> js_includes description ID_MARKER"
  shows "read_id (withRoadmapId ident description) = Some ident"
proof -
  let ?p = "description @ [LF, LF] @ ''---'' @ [LF, LF]"
  have sub: "js_includes d (m @ n) \<Longrightarrow> js_includes d m" for d m n
    by (induction d) (auto simp: starts_with_conv)
  then have "withRoadmapId ident description = ?p @ ID_MARKER @ ident"
    using assms(2) by (auto simp: withRoadmapId_def Let_def)
  moreover have "exec_search ROADMAP_ID_RE (?p @ ID_MARKER @ ident) = map_option (apfst ((@) ?p)) (exec_search ROADMAP_ID_RE (ID_MARKER @ ident))"
    using no_marker_before [OF assms(2)] by (intro exec_search_skip)
  moreover have "exec_search ROADMAP_ID_RE (ID_MARKER @ ident) = Some ([], ID_MARKER @ ident, [(1, ident)], [])"
    using marker_first [OF assms(1)] marker_chars(2) by (cases "ID_MARKER @ ident") auto
  ultimately show ?thesis by (simp add: read_id_def grp_def apfst_def map_prod_def)
qed

text \<open>C34: What the registry writes the importer reads: for every identifier of the form \<open>E01\<close> or
  \<open>E01-02\<close>, and every description that does not already hold the text of a marker, the regular
  expression of the importer and of the audit finds the task's own identifier in the description
  the registry stores.\<close>

theorem marker_read_back:
  assumes "in_lang TASK_ID ident" and "\<not> js_includes description ID_MARKER"
  shows "read_id (withRoadmapId ident description) = Some ident"
  using assms by (rule read_withRoadmapId)

lemma marker_read_back_witness: "read_id (withRoadmapId ''E01-02'' ''## Context'') = Some ''E01-02''"
  by (rule marker_read_back) (simp_all add: TASK_ID_shape digit_c_def ID_MARKER_def)

subsection \<open>Every registered task carries its marker\<close>

definition carries_marker :: "roadmap_task \<Rightarrow> bool" where
  "carries_marker t \<longleftrightarrow> js_includes (rt_description t) (ID_MARKER @ rt_id t)"

definition well_registered :: "roadmap_task list \<Rightarrow> bool" where
  "well_registered tasks \<longleftrightarrow>
     list_all (\<lambda>t. carries_marker t \<and> distinct (rt_doc_ref t) \<and> (rt_parent t = None \<longleftrightarrow> rt_type t = Epic)) tasks"

lemma js_includes_suffix: "js_includes (d @ m) m"
  by (induction d) (cases m, auto)

lemma withRoadmapId_marked: "js_includes (withRoadmapId ident d) (ID_MARKER @ ident)"
  using js_includes_suffix [of "d @ [LF, LF] @ ''---'' @ [LF, LF]" "ID_MARKER @ ident"] by (simp add: withRoadmapId_def Let_def)

lemma withRoadmapId_again: "withRoadmapId ident (withRoadmapId ident d) = withRoadmapId ident d"
  using withRoadmapId_marked by (subst withRoadmapId_def) (simp add: Let_def)

lemma distinct_uniq [simp]: "distinct (uniq xs)"
  by (simp add: uniq_def)

interpretation registry: stepper register well_registered
  by unfold_locales
    (auto simp: register_def epic_def leaf_def well_registered_def carries_marker_def withRoadmapId_marked doc_refs_def Let_def
      split: registration.splits)

text \<open>C33: In every sequence of calls of \<open>epic\<close> and \<open>leaf\<close> each task collected carries its own marker, its
  document references are distinct, and it has a parent exactly if it is a leaf.\<close>

theorem registry_well_formed: "well_registered (run register [] regs)"
  by (rule registry.run_inv) (simp add: well_registered_def)

end
