(* ===== verification/Roadmap_Links.thy ===== *)
theory Roadmap_Links
  imports Roadmap_Registry
begin

section \<open>The documents a task may refer to (\<open>scripts/roadmap/spec-links.mjs\<close>)\<close>

text \<open>One link per entry of the three tables, without a note.\<close>

definition SPEC_purpose :: doc_link where
  "SPEC_purpose = \<lparr>dl_href = Some ''specs.html#purpose'', dl_label = Some ([CHR 0xC2, CHR 0xA7] @ ''1 Purpose & Non-goals''), dl_note = None\<rparr>"

definition SPEC_architecture :: doc_link where
  "SPEC_architecture = \<lparr>dl_href = Some ''specs.html#architecture'', dl_label = Some ([CHR 0xC2, CHR 0xA7] @ ''2 Architecture''), dl_note = None\<rparr>"

definition SPEC_auth :: doc_link where
  "SPEC_auth = \<lparr>dl_href = Some ''specs.html#auth'', dl_label = Some ([CHR 0xC2, CHR 0xA7] @ ''3 Authentication''), dl_note = None\<rparr>"

definition SPEC_schema :: doc_link where
  "SPEC_schema = \<lparr>dl_href = Some ''specs.html#schema'', dl_label = Some ([CHR 0xC2, CHR 0xA7] @ ''4 Data model''), dl_note = None\<rparr>"

definition SPEC_domain :: doc_link where
  "SPEC_domain = \<lparr>dl_href = Some ''specs.html#domain'', dl_label = Some ([CHR 0xC2, CHR 0xA7] @ ''5 Domain logic & Idempotency''), dl_note = None\<rparr>"

definition SPEC_ticketProjects :: doc_link where
  "SPEC_ticketProjects = \<lparr>dl_href = Some ''specs.html#ticket-projects'', dl_label = Some ([CHR 0xC2, CHR 0xA7] @ ''5.3 Ticket projects & status mapping''), dl_note = None\<rparr>"

definition SPEC_notifications :: doc_link where
  "SPEC_notifications = \<lparr>dl_href = Some ''specs.html#notifications'', dl_label = Some ([CHR 0xC2, CHR 0xA7] @ ''5.5 Notifications (Shoutrrr)''), dl_note = None\<rparr>"

definition SPEC_providers :: doc_link where
  "SPEC_providers = \<lparr>dl_href = Some ''specs.html#providers'', dl_label = Some ([CHR 0xC2, CHR 0xA7] @ ''6 Provider interfaces (Go)''), dl_note = None\<rparr>"

definition SPEC_api :: doc_link where
  "SPEC_api = \<lparr>dl_href = Some ''specs.html#api'', dl_label = Some ([CHR 0xC2, CHR 0xA7] @ ''7 REST API (Go)''), dl_note = None\<rparr>"

definition SPEC_ui :: doc_link where
  "SPEC_ui = \<lparr>dl_href = Some ''specs.html#ui'', dl_label = Some ([CHR 0xC2, CHR 0xA7] @ ''8 Web UI & COSS Particles''), dl_note = None\<rparr>"

definition SPEC_i18n :: doc_link where
  "SPEC_i18n = \<lparr>dl_href = Some ''specs.html#i18n'', dl_label = Some ([CHR 0xC2, CHR 0xA7] @ ''8.5 Internationalization (i18n)''), dl_note = None\<rparr>"

definition SPEC_schemaMigrations :: doc_link where
  "SPEC_schemaMigrations = \<lparr>dl_href = Some ''specs.html#schema-migrations'', dl_label = Some ([CHR 0xC2, CHR 0xA7] @ ''4.0 Schema migrations (sqldiff)''), dl_note = None\<rparr>"

definition SPEC_env :: doc_link where
  "SPEC_env = \<lparr>dl_href = Some ''specs.html#env'', dl_label = Some ([CHR 0xC2, CHR 0xA7] @ ''9 Environment variables''), dl_note = None\<rparr>"

definition SPEC_deployment :: doc_link where
  "SPEC_deployment = \<lparr>dl_href = Some ''specs.html#deployment'', dl_label = Some ([CHR 0xC2, CHR 0xA7] @ ''10 Deployment''), dl_note = None\<rparr>"

definition SPEC_ci :: doc_link where
  "SPEC_ci = \<lparr>dl_href = Some ''specs.html#ci'', dl_label = Some ([CHR 0xC2, CHR 0xA7] @ ''11 CI/CD (GitHub Actions)''), dl_note = None\<rparr>"

definition SPEC_mvp :: doc_link where
  "SPEC_mvp = \<lparr>dl_href = Some ''specs.html#mvp'', dl_label = Some ([CHR 0xC2, CHR 0xA7] @ ''12 MVP Acceptance Criteria''), dl_note = None\<rparr>"

definition STACK_layout :: doc_link where
  "STACK_layout = \<lparr>dl_href = Some ''stack.html'', dl_label = Some (''Tech stack '' @ em_dash @ '' Repository layout''), dl_note = None\<rparr>"

definition STACK_backend :: doc_link where
  "STACK_backend = \<lparr>dl_href = Some ''stack.html'', dl_label = Some (''Tech stack '' @ em_dash @ '' Backend (Go)''), dl_note = None\<rparr>"

definition STACK_frontend :: doc_link where
  "STACK_frontend = \<lparr>dl_href = Some ''stack.html'', dl_label = Some (''Tech stack '' @ em_dash @ '' Frontend (Next.js + COSS)''), dl_note = None\<rparr>"

definition STACK_data :: doc_link where
  "STACK_data = \<lparr>dl_href = Some ''stack.html'', dl_label = Some (''Tech stack '' @ em_dash @ '' Data''), dl_note = None\<rparr>"

definition STACK_quality :: doc_link where
  "STACK_quality = \<lparr>dl_href = Some ''stack.html'', dl_label = Some (''Tech stack '' @ em_dash @ '' Quality''), dl_note = None\<rparr>"

definition STACK_cicd :: doc_link where
  "STACK_cicd = \<lparr>dl_href = Some ''stack.html'', dl_label = Some (''Tech stack '' @ em_dash @ '' CI/CD''), dl_note = None\<rparr>"

definition STACK_deploy :: doc_link where
  "STACK_deploy = \<lparr>dl_href = Some ''stack.html'', dl_label = Some (''Tech stack '' @ em_dash @ '' Deployment''), dl_note = None\<rparr>"

definition SCHEMA_sql :: doc_link where
  "SCHEMA_sql = \<lparr>dl_href = Some ''../db/schema.sql'', dl_label = Some ''db/schema.sql (canonical)'', dl_note = None\<rparr>"

definition SCHEMA_html :: doc_link where
  "SCHEMA_html = \<lparr>dl_href = Some ''schema.html'', dl_label = Some ''schema.html (browser view)'', dl_note = None\<rparr>"

text \<open>The table has no entry \<open>STACK.ui\<close>: \<open>{ ...STACK.ui, note }\<close> is a link without address and label.\<close>

definition STACK_ui :: doc_link where
  "STACK_ui = \<lparr>dl_href = None, dl_label = None, dl_note = None\<rparr>"

text \<open>The stack references of the earlier roadmap (\<open>epics/p15-p28.mjs\<close>): all seven, each with a note.\<close>

definition STACK_KEYS :: "(string \<times> doc_link) list" where
  "STACK_KEYS =
     [(''layout'', STACK_layout), (''backend'', STACK_backend), (''frontend'', STACK_frontend), (''data'', STACK_data),
      (''quality'', STACK_quality), (''cicd'', STACK_cicd), (''deploy'', STACK_deploy)]"

definition stackRefs :: "(string \<times> string) list \<Rightarrow> doc_link list" where
  "stackRefs notes = map (\<lambda>(k, l). l\<lparr>dl_note := (case map_of notes k of Some n \<Rightarrow> Some n | None \<Rightarrow> dl_label l)\<rparr>) STACK_KEYS"

end
