(* ===== verification/Roadmap_E01_E06.thy ===== *)
theory Roadmap_E01_E06
  imports Roadmap_Links
begin

section \<open>Tasks of the roadmap (\<open>scripts/roadmap/epics/e01-e06.mjs\<close>)\<close>

text \<open>The calls of \<open>epic\<close> and \<open>leaf\<close> in their order, one definition per epic with its leaves.\<close>

definition E01_tasks :: "registration list" where
  "E01_tasks =
    [RegEpic ''E01'' (''Foundation '' @ em_dash @ '' scaffold, database & Go server'') ''config''
       (no_opts\<lparr>o_depends_on := [],
        o_context := Some ''Monorepo skeleton (Go + Next.js), db/schema.sql with sqldiff migrations, sqlc scaffold, and runnable Go server with config, chi router, GET /healthz, SQLite + golang-migrate. Merges former P00, P01, P02.'',
        o_specs := [SPEC_architecture, SPEC_schema, SPEC_schemaMigrations, SPEC_deployment, SPEC_env],
        o_stack := [STACK_layout, STACK_backend, STACK_data, STACK_quality],
        o_implementation := [''go.mod, cmd/server, internal/* placeholders, apps/web Next 15 + COSS'',
          (''db/schema.sql '' @ [CHR 0xE2, CHR 0x86, CHR 0x92] @ '' make migrate-diff name=init, npm run db:check''),
          ''sqlc.yaml, Makefile migrate-up/down/diff'',
          ''internal/config, chi router, GET /healthz, modernc sqlite''],
        o_acceptance := [''go build ./cmd/server and npm run lint pass'',
          ''npm run db:check passes after initial migration'',
          ''migrate-up applies to fresh app.db'',
          ''GET /healthz returns 200'',
          ''Layout matches stack.html'']\<rparr>),
     RegLeaf ''E01-01'' ''E01'' ''Scaffold Go module, internal packages, and Next.js COSS web'' ''config''
       (no_opts\<lparr>o_context := Some ''Repository layout per stack.html: cmd/server, internal/{api,config,store,crypto,poll,providers}, apps/web with Next.js 15 App Router, Tailwind v4, COSS components.json, root package.json scripts.'',
        o_specs := [SPEC_architecture, SPEC_ui],
        o_stack := [STACK_layout, STACK_frontend, STACK_quality],
        o_implementation := [''go mod init, cmd/server stub on 127.0.0.1:8080'',
          ''internal package skeleton with doc.go per package'',
          ''apps/web: layout, page, globals.css, components.json COSS registry'',
          ''Root package.json: test, lint, typecheck'',
          ''VERSION file, .gitignore''],
        o_acceptance := [''go build ./cmd/server succeeds'',
          ''go build ./... with internal packages'',
          ''npm run dev starts Next on :3000'',
          ''COSS Button installable'',
          ''npm test runs Vitest smoke'',
          ''golangci-lint run passes'',
          ''Directory layout matches stack.html''],
        o_files := [''go.mod'',
          ''cmd/server/main.go'',
          ''apps/web/'',
          ''package.json'',
          ''VERSION''],
        o_tests := [''go build ./...'',
          ''npm test'',
          ''npm run lint'']\<rparr>),
     RegLeaf ''E01-02'' ''E01'' ''Database schema, migrate-diff, and initial migration'' ''db''
       (no_opts\<lparr>o_depends_on := [''E01-01''],
        o_context := Some ''Canonical DDL in db/schema.sql. scripts/migrate-diff.mjs uses SQLite sqldiff to generate migrations/000001_init.{up,down}.sql. Never hand-write migrations/*.sql.'',
        o_specs := [SPEC_schema, SPEC_schemaMigrations],
        o_schema := [SCHEMA_sql, SCHEMA_html],
        o_stack := [STACK_data],
        o_implementation := [(''db/schema.sql '' @ em_dash @ '' all 11 tables from spec '' @ [CHR 0xC2, CHR 0xA7] @ ''4''),
          ''scripts/migrate-diff.mjs + scripts/ci/check-migrations-sync.mjs'',
          ''make migrate-diff name=init'',
          ''npm run db:check in package.json''],
        o_acceptance := [''db/schema.sql has all 10 tables: users, sessions, app_settings, integrations'',
          ''ticket_projects, monitored_repos, notification_targets, monitored_repo_notifications'',
          ''poll_runs, poll_run_events'',
          ''migrate-diff generates 000001_init up/down'',
          ''npm run db:check passes'',
          ''PRAGMA foreign_keys in migration'',
          ''integrations.kind CHECK all 8 kinds''],
        o_files := [''db/schema.sql'',
          ''scripts/migrate-diff.mjs'',
          ''migrations/000001_init.up.sql''],
        o_tests := [''make migrate-diff name=init'',
          ''npm run db:check'']\<rparr>),
     RegLeaf ''E01-03'' ''E01'' ''sqlc, golang-migrate CLI, and store connection'' ''db''
       (no_opts\<lparr>o_depends_on := [''E01-02''],
        o_context := Some ''sqlc.yaml points at migrations/; queries/ directory; Open SQLite with foreign_keys ON; driver modernc.org/sqlite (CGO-free per stack.html); migrate-up target.'',
        o_specs := [SPEC_schema, SPEC_deployment],
        o_stack := [STACK_data, STACK_backend],
        o_implementation := [(''sqlc.yaml '' @ em_dash @ '' engine sqlite, schema migrations/, queries queries/''),
          ''Makefile: migrate-diff, migrate-up, migrate-down'',
          (''internal/store/db.go '' @ em_dash @ '' Open, MaxOpenConns(1), Ping''),
          (''migrate_test.go '' @ em_dash @ '' apply up, verify tables'')],
        o_acceptance := [''sqlc generate produces compilable Go'',
          ''make migrate-up applies to temp db'',
          ''store opens app.db with foreign keys via modernc.org/sqlite'',
          ''migrate_test passes'',
          ''queries/ directory exists'',
          ''golang-migrate documented in Makefile'',
          ''DSN uses APP_DB_PATH env''],
        o_files := [''sqlc.yaml'',
          ''Makefile'',
          ''internal/store/db.go'',
          ''internal/store/migrate_test.go''],
        o_tests := [''go test ./internal/store/...'',
          ''sqlc generate'']\<rparr>),
     RegLeaf ''E01-04'' ''E01'' ''Go config loader and environment variables'' ''backend''
       (no_opts\<lparr>o_depends_on := [''E01-01''],
        o_context := Some (''Load SESSION_SECRET, APP_ENCRYPTION_KEY, APP_DB_PATH, GO_INTERNAL_PORT, PORT per specs '' @ [CHR 0xC2, CHR 0xA7] @ ''9.''),
        o_specs := [SPEC_env, SPEC_architecture],
        o_stack := [STACK_backend],
        o_implementation := [(''internal/config/config.go '' @ em_dash @ '' Load from env''),
          ''Validate required: SESSION_SECRET, APP_ENCRYPTION_KEY'',
          ''Defaults: APP_DB_PATH=/data/app.db, GO_INTERNAL_PORT=8080, PORT=3000'',
          ''config_test.go''],
        o_acceptance := [''Missing SESSION_SECRET fails fast'',
          ''APP_DB_PATH default /data/app.db'',
          ''GO_INTERNAL_PORT default 8080'',
          ''Config struct passed to server main'',
          ''Unit tests for defaults'',
          ''APP_PUBLIC_URL optional for Secure cookies'',
          ''BOOTSTRAP_ADMIN_* optional pair''],
        o_files := [''internal/config/config.go'',
          ''internal/config/config_test.go''],
        o_tests := [''go test ./internal/config/...'']\<rparr>),
     RegLeaf ''E01-05'' ''E01'' ''Chi HTTP router, middleware, and GET /healthz'' ''backend''
       (no_opts\<lparr>o_depends_on := [''E01-04''],
        o_context := Some ''chi router on 127.0.0.1:GO_INTERNAL_PORT. GET /healthz no auth (container probe). API subrouter /api/v1 scaffold for later epics.'',
        o_specs := [SPEC_architecture, SPEC_api],
        o_stack := [STACK_backend],
        o_implementation := [(''internal/api/router.go '' @ em_dash @ '' MountAPI, /api/v1 subrouter''),
          ''GET /healthz handler'',
          ''Recovery + request logging middleware'',
          ''Graceful shutdown on SIGTERM'',
          ''cmd/server wires router''],
        o_acceptance := [''GET /healthz returns 200 JSON'',
          ''Server binds 127.0.0.1 only'',
          ''chi MountAPI exports /api/v1 subrouter'',
          ''Graceful shutdown completes in-flight requests'',
          ''go test ./internal/api/...'',
          ''Router test lists registered paths'',
          ''JSON Content-Type on API subrouter''],
        o_files := [''internal/api/router.go'',
          ''internal/api/health.go'',
          ''cmd/server/main.go''],
        o_tests := [''go test ./internal/api/...'',
          ''curl http://127.0.0.1:8080/healthz'']\<rparr>)]"

definition E02_tasks :: "registration list" where
  "E02_tasks =
    [RegEpic ''E02'' ''Authentication & credential encryption'' ''backend''
       (no_opts\<lparr>o_depends_on := [''E01''],
        o_context := Some ''Go-only auth: scs sessions, bcrypt users, release_ops_session cookie, AES-GCM for integration secrets. POST /api/v1/auth/login, logout, GET /api/v1/auth/session. Middleware protects /api/v1/*. Merges P03+P04.'',
        o_specs := [SPEC_auth, SPEC_api, SPEC_schema],
        o_stack := [STACK_backend, STACK_data],
        o_acceptance := [''Login sets HttpOnly session cookie'',
          ''Protected routes return 401 without session'',
          ''Encrypted payloads never in API responses'',
          ''Bootstrap admin on first start'']\<rparr>),
     RegLeaf ''E02-01'' ''E02'' ''AES-GCM credential encryption service'' ''backend''
       (no_opts\<lparr>o_depends_on := [''E01-04''],
        o_context := Some (''APP_ENCRYPTION_KEY 64 hex chars '' @ [CHR 0xE2, CHR 0x86, CHR 0x92] @ '' AES-256-GCM. Wire format per '' @ [CHR 0xC2, CHR 0xA7] @ ''4.8: base64(nonce + ciphertext + tag) with 12-byte random nonce.''),
        o_specs := [SPEC_schema, SPEC_env],
        o_stack := [STACK_backend],
        o_implementation := [(''internal/crypto/aesgcm.go '' @ em_dash @ '' Encrypt, Decrypt''),
          ''12-byte random nonce prepended to ciphertext+tag; base64 wire encoding'',
          ''crypto_test.go with fixed test vector''],
        o_acceptance := [''Encrypt/decrypt roundtrip'',
          ''Wrong key fails decrypt'',
          ''64 hex char key validation'',
          (''Wire format base64(nonce+ciphertext+tag) per '' @ [CHR 0xC2, CHR 0xA7] @ ''4.8''),
          ''Used by store layer for encrypted_payload columns'',
          ''No plaintext secrets logged'',
          ''Tests cover empty and large payloads''],
        o_files := [''internal/crypto/aesgcm.go'',
          ''internal/crypto/crypto_test.go''],
        o_tests := [''go test ./internal/crypto/...'']\<rparr>),
     RegLeaf ''E02-02'' ''E02'' ''Users store, bcrypt, and scs session manager'' ''backend''
       (no_opts\<lparr>o_depends_on := [''E01-03'',
          ''E02-01''],
        o_context := Some ''sqlc users queries; alexedwards/scs v2 with SQLite sessions table; bcrypt cost 12.'',
        o_specs := [SPEC_auth, SPEC_schema],
        o_schema := [SCHEMA_sql],
        o_implementation := [(''queries/users.sql '' @ em_dash @ '' CreateUser, GetUserByEmail, CountUsers''),
          (''internal/api/auth/password.go '' @ em_dash @ '' HashPassword, ComparePassword''),
          (''internal/api/auth/session.go '' @ em_dash @ '' NewSessionManager''),
          ''Session lifetime 7 days, idx_sessions_expiry''],
        o_acceptance := [''GetUserByEmail returns user row'',
          ''bcrypt hash verifies password'',
          ''Session persists across restart'',
          ''sessions table used by scs store'',
          ''CountUsers for bootstrap guard'',
          ''sqlc generate users models'',
          ''HttpOnly cookie name release_ops_session''],
        o_files := [''queries/users.sql'',
          ''internal/api/auth/session.go'',
          ''internal/api/auth/password.go''],
        o_tests := [''go test ./internal/api/auth/...'']\<rparr>),
     RegLeaf ''E02-03'' ''E02'' ''Auth HTTP handlers and session middleware'' ''backend''
       (no_opts\<lparr>o_depends_on := [''E02-02''],
        o_context := Some ''POST /api/v1/auth/login, POST /api/v1/auth/logout, GET /api/v1/auth/session. Middleware on /api/v1/* except login and session.'',
        o_specs := [SPEC_auth, SPEC_api],
        o_implementation := [(''internal/api/auth/handlers.go '' @ em_dash @ '' Login, Logout, Session''),
          (''internal/api/middleware/auth.go '' @ em_dash @ '' RequireSession''),
          (''JSON error envelope per '' @ [CHR 0xC2, CHR 0xA7] @ ''7''),
          ''Register on /api/v1 router''],
        o_acceptance := [''POST /api/v1/auth/login sets cookie on valid credentials'',
          ''POST /api/v1/auth/logout clears session'',
          ''GET /api/v1/auth/session returns user or null'',
          ''Protected route returns 401 without cookie'',
          ''Invalid password returns 401 not 500'',
          ''SameSite=Lax, Path=/, HttpOnly'',
          ''Login rate limit not required MVP''],
        o_files := [''internal/api/auth/handlers.go'',
          ''internal/api/middleware/auth.go''],
        o_tests := [''go test ./internal/api/auth/...'']\<rparr>),
     RegLeaf ''E02-04'' ''E02'' ''Bootstrap admin and seed-admin CLI'' ''backend''
       (no_opts\<lparr>o_depends_on := [''E02-03''],
        o_context := Some (''BOOTSTRAP_ADMIN_EMAIL/PASSWORD env on first start when CountUsers=0; cmd/seed-admin CLI. No POST /api/v1/auth/register and no in-app setup wizard ('' @ [CHR 0xC2, CHR 0xA7] @ ''3).''),
        o_specs := [SPEC_auth, SPEC_env, SPEC_deployment],
        o_implementation := [''Bootstrap in server startup before Listen'',
          ''cmd/seed-admin for manual admin creation'',
          ''Skip bootstrap when users exist''],
        o_acceptance := [''First boot with env vars creates admin user'',
          ''Second boot does not duplicate user'',
          ''seed-admin CLI creates user interactively'',
          ''Bootstrap skipped when users > 0'',
          ''No auth register endpoint in MVP'',
          ''Invalid email rejected'',
          ''Password hashed with bcrypt'',
          ''Document in getting-started (E11)''],
        o_files := [''internal/api/auth/bootstrap.go'',
          ''cmd/seed-admin/main.go''],
        o_tests := [''go test ./internal/api/auth/... -run Bootstrap'']\<rparr>)]"

definition E03_tasks :: "registration list" where
  "E03_tasks =
    [RegEpic ''E03'' (''Store layer '' @ em_dash @ '' sqlc repositories'') ''db''
       (no_opts\<lparr>o_depends_on := [''E01'',
          ''E02''],
        o_context := Some ''Typed repositories for all domain tables. Merges P05.'',
        o_specs := [SPEC_schema, SPEC_domain],
        o_stack := [STACK_data],
        o_acceptance := [(''All '' @ [CHR 0xC2, CHR 0xA7] @ ''4 tables queryable via sqlc''),
          ''Repositories used by API handlers'',
          ''Foreign key relationships respected'']\<rparr>),
     RegLeaf ''E03-01'' ''E03'' ''sqlc queries for all domain tables'' ''db''
       (no_opts\<lparr>o_depends_on := [''E01-03''],
        o_context := Some ''queries/*.sql for app_settings, integrations, ticket_projects, monitored_repos, notification_targets, monitored_repo_notifications, poll_runs, poll_run_events.'',
        o_specs := [SPEC_schema, SPEC_ticketProjects],
        o_schema := [SCHEMA_sql],
        o_implementation := [''queries/app_settings.sql, integrations.sql, ticket_projects.sql'',
          ''queries/monitored_repos.sql, notification_targets.sql, poll_runs.sql'',
          (''queries/monitored_repo_notifications.sql '' @ em_dash @ '' replace join rows per repo''),
          ''CRUD + list enabled + update poll state on repos''],
        o_acceptance := [''sqlc generate compiles all query files'',
          ''Integrations ListByKind query'',
          ''MonitoredRepos ListEnabled with notification target IDs'',
          ''monitored_repo_notifications replace on repo update'',
          ''PollRuns InsertRun, FinishRun, InsertEvent'',
          ''TicketProjects UNIQUE constraint in queries'',
          ''Poll run tickets_superseded counter update''],
        o_files := [''queries/*.sql''],
        o_tests := [''sqlc generate'',
          ''go build ./...'']\<rparr>),
     RegLeaf ''E03-02'' ''E03'' ''Domain repository wrappers with crypto pass-through'' ''db''
       (no_opts\<lparr>o_depends_on := [''E03-01'',
          ''E02-01''],
        o_context := Some ''internal/store/*.go wraps sqlc; encrypt on write, decrypt on read for credential columns.'',
        o_specs := [SPEC_schema, SPEC_providers],
        o_implementation := [''internal/store/settings.go, integrations.go, ticket_projects.go'',
          ''internal/store/repos.go, notifications.go, poll.go'',
          ''UUID v4 generation, UTC ISO8601 timestamps''],
        o_acceptance := [''Integration Create encrypts encrypted_payload'',
          ''Get never returns decrypted secrets to API layer raw'',
          ''UpdatePollState on monitored_repos'',
          ''Repo Create/Update persists notificationTargetIds join rows'',
          ''Repository interfaces mockable for tests'',
          ''app_settings Get returns id=1'',
          ''Notification targets events_json valid JSON''],
        o_files := [''internal/store/integrations.go'',
          ''internal/store/repos.go''],
        o_tests := [''go test ./internal/store/...'']\<rparr>),
     RegLeaf ''E03-03'' ''E03'' ''Seed app_settings and store integration tests'' ''db''
       (no_opts\<lparr>o_depends_on := [''E03-02''],
        o_context := Some ''app_settings row id=1 with poll_interval_minutes default 360; integration tests against temp SQLite.'',
        o_specs := [SPEC_schema, SPEC_api],
        o_implementation := [''Seed in migration or store test fixture'',
          (''store_integration_test.go '' @ em_dash @ '' full CRUD smoke'')],
        o_acceptance := [''GetAppSettings returns poll_interval_minutes >= 5'',
          ''Integration CRUD roundtrip in test db'',
          ''Ticket project create with json_valid configs'',
          ''Monitored repo UNIQUE(source_kind, project_path) enforced'',
          ''migrate_test still passes'',
          ''Tests use t.TempDir for app.db'',
          ''No test data committed to repo''],
        o_files := [''internal/store/store_integration_test.go''],
        o_tests := [''go test ./internal/store/...'']\<rparr>)]"

definition E04_tasks :: "registration list" where
  "E04_tasks =
    [RegEpic ''E04'' (''REST API '' @ em_dash @ '' all /api/v1 handlers'') ''backend''
       (no_opts\<lparr>o_depends_on := [''E02'',
          ''E03''],
        o_context := Some (''CRUD handlers for settings, integrations, ticket-projects, repos, notification-targets; status and poll endpoints. Register all routes on chi router. Merges P06'' @ [CHR 0xE2, CHR 0x80, CHR 0x93] @ ''P10, P15.''),
        o_specs := [SPEC_api, SPEC_auth],
        o_stack := [STACK_backend],
        o_acceptance := [(''All '' @ [CHR 0xC2, CHR 0xA7] @ ''7 endpoints implemented''),
          ''Session middleware on protected routes'',
          ''JSON shapes match spec'']\<rparr>),
     RegLeaf ''E04-01'' ''E04'' (''Settings API '' @ em_dash @ '' GET/PATCH /api/v1/settings'') ''backend''
       (no_opts\<lparr>o_depends_on := [''E03-02'',
          ''E02-03''],
        o_context := Some ''poll_interval_minutes min 5; GET returns current; PATCH validates and persists.'',
        o_specs := [SPEC_api, SPEC_schema],
        o_implementation := [''internal/api/handlers/settings.go'',
          ''Register on /api/v1/settings''],
        o_acceptance := [''GET /api/v1/settings returns pollIntervalMinutes'',
          ''PATCH /api/v1/settings updates value'',
          ''PATCH rejects value < 5'',
          ''Requires valid session'',
          (''Response JSON matches '' @ [CHR 0xC2, CHR 0xA7] @ ''7 shape''),
          ''updated_at set on patch'',
          ''Handler unit tests with mock store''],
        o_files := [''internal/api/handlers/settings.go''],
        o_tests := [''go test ./internal/api/handlers/...'']\<rparr>),
     RegLeaf ''E04-02'' ''E04'' (''Integrations API '' @ em_dash @ '' CRUD and test connection'') ''backend''
       (no_opts\<lparr>o_depends_on := [''E03-02'',
          ''E02-03''],
        o_context := Some ''GET/POST/PATCH/DELETE /api/v1/integrations; POST .../test validates credentials without persisting.'',
        o_specs := [SPEC_api, SPEC_providers],
        o_implementation := [(''handlers/integrations.go '' @ em_dash @ '' full CRUD''),
          ''TestConnection calls provider ping'',
          ''Never return encrypted_payload in JSON''],
        o_acceptance := [''GET /api/v1/integrations lists without secrets'',
          (''List items include hasSecret boolean per '' @ [CHR 0xC2, CHR 0xA7] @ ''7.3''),
          ''POST creates integration with encrypted token'',
          ''PATCH updates name/base_url only if token omitted'',
          ''DELETE returns 409 when referenced by repos or ticket projects'',
          ''POST test connection returns success/error'',
          ''All 8 integration kinds accepted''],
        o_files := [''internal/api/handlers/integrations.go''],
        o_tests := [''go test ./internal/api/handlers/...'']\<rparr>),
     RegLeaf ''E04-03'' ''E04'' (''Ticket projects API '' @ em_dash @ '' full CRUD'') ''backend''
       (no_opts\<lparr>o_depends_on := [''E04-02''],
        o_context := Some ''GET/POST/PATCH/DELETE /api/v1/ticket-projects; create_config and status_mapping JSON.'',
        o_specs := [SPEC_api, SPEC_ticketProjects],
        o_implementation := [''handlers/ticket_projects.go''],
        o_acceptance := [''CRUD /api/v1/ticket-projects'',
          ''create_config and status_mapping json_valid'',
          ''on_open_ticket_policy supersede|merge|skip_if_open'',
          ''UNIQUE(integration_id, external_project_id)'',
          ''DELETE returns 409 when referenced by monitored repos'',
          ''List filtered by integration_id'',
          ''Handler tests with fixtures''],
        o_files := [''internal/api/handlers/ticket_projects.go''],
        o_tests := [''go test ./internal/api/handlers/...'']\<rparr>),
     RegLeaf ''E04-04'' ''E04'' (''Monitored repos API '' @ em_dash @ '' full CRUD'') ''backend''
       (no_opts\<lparr>o_depends_on := [''E04-03''],
        o_context := Some ''GET/POST/PATCH/DELETE /api/v1/repos; source_kind, project_path, ticket_project_id; sourceIntegrationId required for gitlab/gitea/forgejo; notificationTargetIds optional array persisted via monitored_repo_notifications join.'',
        o_specs := [SPEC_api, SPEC_domain],
        o_implementation := [''handlers/repos.go''],
        o_acceptance := [''CRUD /api/v1/repos'',
          ''POST/PATCH accept notificationTargetIds array'',
          ''sourceIntegrationId required for self-hosted source kinds'',
          ''UNIQUE(source_kind, project_path)'',
          ''enabled flag 0/1'',
          ''ticket_project_id FK required'',
          ''open_ticket fields read-only from API''],
        o_files := [''internal/api/handlers/repos.go''],
        o_tests := [''go test ./internal/api/handlers/...'']\<rparr>),
     RegLeaf ''E04-05'' ''E04'' (''Notification targets API '' @ em_dash @ '' CRUD and test'') ''backend''
       (no_opts\<lparr>o_depends_on := [''E03-02'',
          ''E02-03''],
        o_context := Some ''GET/POST/PATCH/DELETE /api/v1/notification-targets; POST test sends Shoutrrr ping.'',
        o_specs := [SPEC_api, SPEC_notifications],
        o_implementation := [''handlers/notifications.go''],
        o_acceptance := [''CRUD /api/v1/notification-targets'',
          ''shoutrrr_url never returned after create'',
          ''events_json default create,error,supersede'',
          ''POST test notification async-safe'',
          ''enabled toggle'',
          ''monitored_repo_notifications routing optional'',
          ''JSON events array validated''],
        o_files := [''internal/api/handlers/notifications.go''],
        o_tests := [''go test ./internal/api/handlers/...'']\<rparr>),
     RegLeaf ''E04-06'' ''E04'' ''Status and poll API endpoints'' ''backend''
       (no_opts\<lparr>o_depends_on := [''E03-02'',
          ''E02-03''],
        o_context := Some (''GET /api/v1/status returns full '' @ [CHR 0xC2, CHR 0xA7] @ ''7.1 JSON (repos[], lastRun, isPolling, ticketsSuperseded); POST /api/v1/poll/trigger async 202; GET /api/v1/poll/runs paginated; GET /api/v1/poll/runs/{id} with events[].''),
        o_specs := [SPEC_api, SPEC_domain],
        o_implementation := [''handlers/status.go'',
          ''handlers/poll.go''],
        o_acceptance := [''GET /api/v1/status returns repos[] with ticketProjectName'',
          ''GET /api/v1/status includes lastRun and isPolling fields'',
          ''POST /api/v1/poll/trigger returns 202 Accepted async'',
          ''GET /api/v1/poll/runs paginated list default limit 20'',
          ''GET /api/v1/poll/runs/{id} includes events[]'',
          ''Trigger returns 409 if poll already running'',
          ''poll_run_events.action enum values in response''],
        o_files := [''internal/api/handlers/poll.go'',
          ''internal/api/handlers/status.go''],
        o_tests := [''go test ./internal/api/handlers/...'']\<rparr>),
     RegLeaf ''E04-07'' ''E04'' ''Register all API routes and integration test'' ''backend''
       (no_opts\<lparr>o_depends_on := [''E04-01'',
          ''E04-02'',
          ''E04-03'',
          ''E04-04'',
          ''E04-05'',
          ''E04-06'',
          ''E02-03''],
        o_context := Some (''Wire every '' @ [CHR 0xC2, CHR 0xA7] @ ''7 handler on /api/v1; public auth routes before session middleware; route list test.''),
        o_specs := [SPEC_api, SPEC_auth, SPEC_architecture],
        o_implementation := [(''internal/api/routes.go '' @ em_dash @ '' RegisterAll(deps)''),
          (''routes_test.go '' @ em_dash @ '' compile-time or httptest route inventory''),
          ''Document route order in comment''],
        o_acceptance := [(''All '' @ [CHR 0xC2, CHR 0xA7] @ ''7 endpoints registered''),
          ''POST /api/v1/auth/login public'',
          ''GET /api/v1/auth/session public'',
          ''All other /api/v1/* require session'',
          ''No duplicate route mounts'',
          ''routes_test lists expected paths'',
          (''Integration test: login '' @ [CHR 0xE2, CHR 0x86, CHR 0x92] @ '' GET settings 200'')],
        o_files := [''internal/api/routes.go'',
          ''internal/api/routes_test.go''],
        o_tests := [''go test ./internal/api/...'']\<rparr>)]"

definition E05_tasks :: "registration list" where
  "E05_tasks =
    [RegEpic ''E05'' (''Source providers '' @ em_dash @ '' GitHub, GitLab, Gitea, Forgejo, Codeberg'') ''backend''
       (no_opts\<lparr>o_depends_on := [''E04''],
        o_context := Some ''SourceProvider interface; fetch latest release tag per monitored repo. Merges P11.'',
        o_specs := [SPEC_providers, SPEC_domain],
        o_acceptance := [''All five source kinds implemented'',
          ''Mock tests in CI'']\<rparr>),
     RegLeaf ''E05-01'' ''E05'' ''SourceProvider interface and registry'' ''backend''
       (no_opts\<lparr>o_depends_on := [''E04-02''],
        o_context := Some (''SourceProvider.GetLatestRelease(ctx, repo) '' @ [CHR 0xE2, CHR 0x86, CHR 0x92] @ '' tag, url, publishedAt; registry by source_kind.''),
        o_specs := [SPEC_providers],
        o_implementation := [''internal/providers/source/provider.go'',
          ''registry.go''],
        o_acceptance := [(''Interface documented per '' @ [CHR 0xC2, CHR 0xA7] @ ''6''),
          ''Registry returns provider by kind'',
          ''Unknown kind returns error'',
          ''Context cancellation respected'',
          ''No HTTP in interface consumers'',
          ''Mock provider for tests'',
          ''Package compiles standalone''],
        o_files := [''internal/providers/source/provider.go''],
        o_tests := [''go test ./internal/providers/source/...'']\<rparr>),
     RegLeaf ''E05-02'' ''E05'' ''GitHub and Codeberg source providers'' ''backend''
       (no_opts\<lparr>o_depends_on := [''E05-01''],
        o_context := Some (''github source '' @ em_dash @ '' api.github.com, no base_url. codeberg '' @ em_dash @ '' codeberg.org API, no base_url.''),
        o_specs := [SPEC_providers],
        o_implementation := [''internal/providers/source/github.go'',
          ''codeberg.go''],
        o_acceptance := [''GitHub source provider fetches latest release tag'',
          ''Codeberg source provider works'',
          ''Uses integration token from decrypt'',
          ''Handles 404 no releases'',
          ''Rate limit errors surfaced'',
          ''Unit tests with httptest mock'',
          ''project_path owner/repo format''],
        o_files := [''internal/providers/source/github.go'',
          ''internal/providers/source/codeberg.go''],
        o_tests := [''go test ./internal/providers/source/...'']\<rparr>),
     RegLeaf ''E05-03'' ''E05'' ''GitLab, Gitea, and Forgejo source providers'' ''backend''
       (no_opts\<lparr>o_depends_on := [''E05-01''],
        o_context := Some (''Self-hosted base_url required; GitLab API v4; GiteaCompatibleSource shared client for gitea, forgejo, codeberg ('' @ [CHR 0xC2, CHR 0xA7] @ ''6) '' @ em_dash @ '' same API, different default base_url.''),
        o_specs := [SPEC_providers],
        o_implementation := [''internal/providers/source/gitlab.go'',
          (''internal/providers/source/gitea_compatible.go '' @ em_dash @ '' GiteaCompatibleSource''),
          ''gitea.go, forgejo.go thin wrappers''],
        o_acceptance := [''GitLab source provider with base_url'',
          ''GiteaCompatibleSource used for gitea, forgejo, codeberg'',
          ''base_url trailing slash normalized'',
          ''Invalid base_url errors clearly'',
          ''Mock HTTP tests per provider'',
          ''404 no release not treated as error'',
          ''publishedAt mapped from provider response''],
        o_files := [''internal/providers/source/gitlab.go'',
          ''internal/providers/source/gitea.go''],
        o_tests := [''go test ./internal/providers/source/...'']\<rparr>),
     RegLeaf ''E05-04'' ''E05'' ''Source provider mock tests for CI'' ''backend''
       (no_opts\<lparr>o_depends_on := [''E05-02'',
          ''E05-03''],
        o_context := Some (''go test with mock HTTP for each source kind; required for MVP AC #13. Poll skip uses exact tag string equality ('' @ [CHR 0xC2, CHR 0xA7] @ ''5.1) '' @ em_dash @ '' provider tests assert tag extraction only.''),
        o_specs := [SPEC_mvp, SPEC_ci],
        o_implementation := [''internal/providers/source/*_test.go with httptest''],
        o_acceptance := [''Mock test per source provider kind'',
          ''CI go test ./internal/providers/source/...'',
          ''No live network in unit tests'',
          ''Coverage for error paths'',
          ''Tag fields mapped correctly from provider JSON'',
          ''Empty release list handled'',
          ''Tests run in parallel safe''],
        o_files := [''internal/providers/source/github_test.go''],
        o_tests := [''go test ./internal/providers/source/...'']\<rparr>)]"

definition E06_tasks :: "registration list" where
  "E06_tasks =
    [RegEpic ''E06'' (''Ticket providers '' @ em_dash @ '' Phasical, Jira, Linear'') ''backend''
       (no_opts\<lparr>o_depends_on := [''E04'',
          ''E05''],
        o_context := Some (''TicketProvider create/update/close; ticket content '' @ [CHR 0xC2, CHR 0xA7] @ ''5.4 Release: format. Merges P12.''),
        o_specs := [SPEC_providers, SPEC_ticketProjects, SPEC_domain],
        o_acceptance := [''Three ticket providers'',
          ''Status mapping per project'']\<rparr>),
     RegLeaf ''E06-01'' ''E06'' ''TicketProvider interface, ClassifyStatus, and content builder'' ''backend''
       (no_opts\<lparr>o_depends_on := [''E04-03''],
        o_context := Some (''TicketProvider per '' @ [CHR 0xC2, CHR 0xA7] @ ''6: CreateTicket, GetTicketStatus, UpdateTicketStatus, AddTicketComment, UpdateTicket (merge). ClassifyStatus(mapping, rawStatus) '' @ [CHR 0xE2, CHR 0x86, CHR 0x92] @ '' open|done|cancelled|unknown. Ticket content '' @ [CHR 0xC2, CHR 0xA7] @ ''5.4: title Release: {source_kind} {project_path} {tag}; body with URL and publishedAt.''),
        o_specs := [SPEC_providers, SPEC_domain, SPEC_ticketProjects],
        o_implementation := [''internal/providers/ticket/provider.go'',
          (''internal/providers/ticket/classify.go '' @ em_dash @ '' ClassifyStatus''),
          (''content.go '' @ em_dash @ '' includes publishedAt in markdown body'')],
        o_acceptance := [''ClassifyStatus maps external status via status_mapping'',
          (''Ticket content '' @ [CHR 0xC2, CHR 0xA7] @ ''5.4 title format Release:''),
          ''Description includes release URL and publishedAt'',
          ''Interface: CreateTicket, GetTicketStatus, UpdateTicketStatus'',
          ''Interface: AddTicketComment, UpdateTicket for merge policy'',
          ''ClassifyStatus unit tests with mapping fixtures'',
          ''No provider-specific logic in poll engine''],
        o_files := [''internal/providers/ticket/content.go'',
          ''internal/providers/ticket/provider.go''],
        o_tests := [''go test ./internal/providers/ticket/...'']\<rparr>),
     RegLeaf ''E06-02'' ''E06'' ''Phasical and Jira ticket providers'' ''backend''
       (no_opts\<lparr>o_depends_on := [''E06-01''],
        o_context := Some (''Phasical POST {base_url}/task/{projectId}; Jira REST with email+token; GetTicketStatus for live open-ticket check; AddTicketComment for supersede (old tag '' @ [CHR 0xE2, CHR 0x86, CHR 0x92] @ '' new tag, release link).''),
        o_specs := [SPEC_providers],
        o_implementation := [''internal/providers/ticket/phasical.go'',
          ''jira.go''],
        o_acceptance := [''Phasical ticket provider creates task'',
          ''Jira ticket provider creates issue with email auth'',
          ''GetTicketStatus returns provider-native status slug'',
          ''AddTicketComment on supersede with release link'',
          ''Status transitions via status_mapping'',
          ''Mock tests httptest'',
          ''base_url required for both''],
        o_files := [''internal/providers/ticket/phasical.go'',
          ''internal/providers/ticket/jira.go''],
        o_tests := [''go test ./internal/providers/ticket/...'']\<rparr>),
     RegLeaf ''E06-03'' ''E06'' ''Linear ticket provider and provider mock tests'' ''backend''
       (no_opts\<lparr>o_depends_on := [''E06-01''],
        o_context := Some ''Linear GraphQL API; status mapping MVP uses stateId strings only (openTypes post-MVP). Mock CI tests for all three ticket providers.'',
        o_specs := [SPEC_providers, SPEC_mvp],
        o_implementation := [''internal/providers/ticket/linear.go'',
          ''*_test.go''],
        o_acceptance := [''Linear ticket provider creates issue'',
          ''team id from external_project_id'',
          ''ClassifyStatus with Linear stateId mapping'',
          ''Mock test per ticket provider'',
          ''CI runs provider tests'',
          ''supersede closes prior ticket with comment'',
          ''merge policy updates existing via UpdateTicket''],
        o_files := [''internal/providers/ticket/linear.go''],
        o_tests := [''go test ./internal/providers/ticket/...'']\<rparr>)]"

definition registerE01E06 :: "registration list" where
  "registerE01E06 = E01_tasks @ E02_tasks @ E03_tasks @ E04_tasks @ E05_tasks @ E06_tasks"

end
