(* ===== verification/Roadmap_E07_E11.thy ===== *)
theory Roadmap_E07_E11
  imports Roadmap_Links
begin

section \<open>Tasks of the roadmap (\<open>scripts/roadmap/epics/e07-e11.mjs\<close>)\<close>

text \<open>The calls of \<open>epic\<close> and \<open>leaf\<close> in their order, one definition per epic with its leaves.\<close>

definition E07_tasks :: "registration list" where
  "E07_tasks =
    [RegEpic ''E07'' ''Poll engine, scheduler & Shoutrrr notifications'' ''backend''
       (no_opts\<lparr>o_depends_on := [''E05'',
          ''E06'',
          ''E04''],
        o_context := Some ''Poll decision engine: baseline, skip, create, supersede, merge, skip_if_open. Cron scheduler; poll_runs/events persistence; Shoutrrr on create/error/supersede. Merges P13+P14.'',
        o_specs := [SPEC_domain, SPEC_notifications, SPEC_api],
        o_stack := [STACK_backend],
        o_acceptance := [''Scheduled poll respects poll_interval_minutes'',
          ''Manual POST /api/v1/poll/trigger works'',
          ''Notifications on configured events'']\<rparr>),
     RegLeaf ''E07-01'' ''E07'' ''Poll decision engine and open-ticket policies'' ''backend''
       (no_opts\<lparr>o_depends_on := [''E06-01'',
          ''E05-01''],
        o_context := Some (''Compare last_known_tag vs remote using exact string equality ('' @ [CHR 0xC2, CHR 0xA7] @ ''5.1); baseline on first sight; skip when tags match; on new tag: live GetTicketStatus + ClassifyStatus per '' @ [CHR 0xC2, CHR 0xA7] @ ''5.2; create/supersede/merge/skip_if_open per on_open_ticket_policy; supersede adds comment.''),
        o_specs := [SPEC_domain, SPEC_ticketProjects],
        o_implementation := [(''internal/poll/engine.go '' @ em_dash @ '' EvaluateRepo''),
          ''Actions: baseline, skip, create, supersede, merge, skip_open, error'',
          ''Live ticket status via TicketProvider.GetTicketStatus + ClassifyStatus'',
          ''Update monitored_repos poll state''],
        o_acceptance := [''baseline poll action on first poll'',
          ''skip poll when tag string equals last_known_tag'',
          ''create ticket on new release when no open ticket'',
          ''Live GetTicketStatus before applying open-ticket policy'',
          ''supersede: old ticket status + comment, new ticket created'',
          ''merge policy updates existing ticket via UpdateTicket'',
          ''skip_if_open policy skips duplicate''],
        o_files := [''internal/poll/engine.go'',
          ''internal/poll/engine_test.go''],
        o_tests := [''go test ./internal/poll/...'']\<rparr>),
     RegLeaf ''E07-02'' ''E07'' ''Poll scheduler and run orchestration'' ''backend''
       (no_opts\<lparr>o_depends_on := [''E07-01'',
          ''E04-06''],
        o_context := Some ''robfig/cron scheduler reading poll_interval_minutes from app_settings; POST /api/v1/poll/trigger manual run.'',
        o_specs := [SPEC_domain, SPEC_api, SPEC_deployment],
        o_implementation := [''internal/poll/scheduler.go'',
          ''RunAll: iterate enabled repos, call engine'',
          ''Wire trigger handler to scheduler''],
        o_acceptance := [''Scheduler uses robfig/cron from poll_interval_minutes'',
          ''Manual poll via POST /api/v1/poll/trigger'',
          ''Single poll run at a time (mutex)'',
          ''poll_runs row per execution'',
          ''repos_checked counter incremented'',
          ''Cron respects min 5 minute interval'',
          ''Graceful stop on shutdown''],
        o_files := [''internal/poll/scheduler.go''],
        o_tests := [''go test ./internal/poll/...'']\<rparr>),
     RegLeaf ''E07-03'' ''E07'' ''Poll run events and persistence'' ''backend''
       (no_opts\<lparr>o_depends_on := [''E07-02'',
          ''E03-02''],
        o_context := Some ''poll_runs and poll_run_events tables; GET /api/v1/poll/runs and /poll/runs/{id} data source.'',
        o_specs := [SPEC_schema, SPEC_api],
        o_schema := [SCHEMA_sql],
        o_implementation := [''Insert poll_run on start, finish on complete'',
          ''poll_run_events per repo action'',
          ''errors_json array on failed runs''],
        o_acceptance := [''poll_run_events.action enum values persisted'',
          ''GET /api/v1/poll/runs returns list'',
          ''GET /api/v1/poll/runs/{id} includes events'',
          ''status running|success|partial|failed'',
          ''tickets_created counter accurate'',
          ''tickets_superseded counter incremented on supersede'',
          ''errors_json array on partial/failed runs''],
        o_files := [''internal/poll/run.go''],
        o_tests := [''go test ./internal/poll/...'']\<rparr>),
     RegLeaf ''E07-04'' ''E07'' ''Shoutrrr notification dispatcher'' ''backend''
       (no_opts\<lparr>o_depends_on := [''E07-01'',
          ''E03-02''],
        o_context := Some ''github.com/containrrr/shoutrrr; events create, error, supersede; per-repo routing.'',
        o_specs := [SPEC_notifications, SPEC_domain],
        o_implementation := [''internal/poll/notify.go'',
          ''Resolve targets: global enabled + repo overrides'',
          ''Decrypt shoutrrr_url at send time''],
        o_acceptance := [''Shoutrrr URL schemes supported'',
          ''Notification on create event'',
          ''Notification on poll error'',
          ''Notification on supersede'',
          ''events_json filters delivery'',
          ''Failed notify does not fail poll'',
          ''No URL in logs''],
        o_files := [''internal/poll/notify.go''],
        o_tests := [''go test ./internal/poll/...'']\<rparr>),
     RegLeaf ''E07-05'' ''E07'' ''End-to-end poll integration test'' ''backend''
       (no_opts\<lparr>o_depends_on := [''E07-03'',
          ''E07-04'',
          ''E06-03''],
        o_context := Some (''Integration test: baseline '' @ [CHR 0xE2, CHR 0x86, CHR 0x92] @ '' new tag '' @ [CHR 0xE2, CHR 0x86, CHR 0x92] @ '' create ticket '' @ [CHR 0xE2, CHR 0x86, CHR 0x92] @ '' supersede; mock providers.''),
        o_specs := [SPEC_mvp, SPEC_domain],
        o_implementation := [''internal/poll/integration_test.go''],
        o_acceptance := [''Baseline then create flow in test'',
          ''Mock source returns sequential tags'',
          ''Mock ticket provider records creates'',
          ''poll_run_events assert create action'',
          ''supersede policy test case'',
          ''CI runs go test ./internal/poll/...'',
          ''No flaky timing in test''],
        o_files := [''internal/poll/integration_test.go''],
        o_tests := [''go test ./internal/poll/...'']\<rparr>)]"

definition E08_tasks :: "registration list" where
  "E08_tasks =
    [RegEpic ''E08'' (''Web platform '' @ em_dash @ '' proxy, hooks, shell & i18n'') ''web''
       (no_opts\<lparr>o_depends_on := [''E01'',
          ''E04''],
        o_context := Some (''Next.js /api/go proxy, React Query hooks for all '' @ [CHR 0xC2, CHR 0xA7] @ ''8.4 endpoints, app shell with sidebar/logout, next-intl + ESLint i18n. Merges P16'' @ [CHR 0xE2, CHR 0x80, CHR 0x93] @ ''P18, P17, P00 i18n.''),
        o_specs := [SPEC_ui, SPEC_i18n, SPEC_api],
        o_stack := [STACK_frontend, STACK_layout],
        o_acceptance := [''All API calls via /api/go/api/v1'',
          ''Zero hardcoded UI strings'',
          (''Sidebar nav matches '' @ [CHR 0xC2, CHR 0xA7] @ ''8.1'')]\<rparr>),
     RegLeaf ''E08-01'' ''E08'' ''next-intl setup and ESLint i18n enforcement'' ''web''
       (no_opts\<lparr>o_depends_on := [''E01-01''],
        o_context := Some ''apps/web/messages/en.json; useTranslations; eslint-plugin-i18next no-literal-string.'',
        o_specs := [SPEC_i18n, SPEC_ci],
        o_stack := [STACK_frontend, STACK_quality],
        o_implementation := [''next-intl App Router provider'',
          ''messages/en.json namespaces: common, auth, dashboard, repos, integrations, ticket-projects, notifications, settings'',
          ''eslint-plugin-i18next in eslint.config.mjs''],
        o_acceptance := [''next-intl installed and configured'',
          ''messages/en.json with namespaces: common, auth, dashboard, repos'',
          ''messages/en.json includes integrations, ticket-projects, notifications, settings'',
          ''eslint-plugin-i18next configured'',
          ''i18next/no-literal-string error on literals'',
          ''npm run lint passes on scaffold'',
          ''Document in .claude/rules/10-i18n.md''],
        o_files := [''apps/web/messages/en.json'',
          ''apps/web/i18n/request.ts'',
          ''apps/web/eslint.config.mjs''],
        o_tests := [''npm run lint'']\<rparr>),
     RegLeaf ''E08-02'' ''E08'' ''Go API proxy and fetch client'' ''web''
       (no_opts\<lparr>o_depends_on := [''E01-01''],
        o_context := Some ''apps/web/app/api/go/[...path]/route.ts forwards to Go; credentials include; cookie relay.'',
        o_specs := [SPEC_ui, SPEC_auth, SPEC_architecture],
        o_implementation := [(''Catch-all proxy /api/go/* '' @ [CHR 0xE2, CHR 0x86, CHR 0x92] @ '' GO_API_URL''),
          (''lib/api/client.ts '' @ em_dash @ '' prefix /api/go/api/v1''),
          ''route.test.ts with mock upstream''],
        o_acceptance := [''/api/go proxy forwards session cookie'',
          ''POST /api/go/api/v1/auth/login works'',
          ''Error envelope parsed from Go'',
          ''Proxy test with undici MockAgent'',
          ''Methods GET POST PATCH DELETE forwarded'',
          ''Content-Type application/json set'',
          ''Same-origin requests from browser''],
        o_files := [''apps/web/app/api/go/[...path]/route.ts'',
          ''apps/web/lib/api/client.ts''],
        o_tests := [''npm test -- proxy'']\<rparr>),
     RegLeaf ''E08-03'' ''E08'' ''React Query hooks for all API endpoints'' ''web''
       (no_opts\<lparr>o_depends_on := [''E08-02'',
          ''E04-07''],
        o_context := Some (''useSession, useStatus, useRepos, useIntegrations, useTicketProjects, useNotificationTargets, useSettings, usePollRuns, usePollRun, useTriggerPoll per '' @ [CHR 0xC2, CHR 0xA7] @ ''8.4.''),
        o_specs := [SPEC_ui, SPEC_api],
        o_implementation := [''apps/web/lib/hooks/use-session.ts, use-status.ts, use-repos.ts'',
          ''use-integrations.ts, use-ticket-projects.ts, use-notifications.ts'',
          ''use-settings.ts, use-poll.ts''],
        o_acceptance := [''useSession fetches GET /api/v1/auth/session'',
          ''useStatus fetches GET /api/v1/status'',
          ''useRepos CRUD mutations'',
          ''useIntegrations includes test mutation'',
          ''usePollRuns fetches paginated run list'',
          ''usePollRun fetches single run with events[]'',
          ''useTriggerPoll POST /api/v1/poll/trigger''],
        o_files := [''apps/web/lib/hooks/''],
        o_tests := [''npm test -- hooks'']\<rparr>),
     RegLeaf ''E08-04'' ''E08'' ''App shell, sidebar navigation, and logout'' ''web''
       (no_opts\<lparr>o_depends_on := [''E08-03'',
          ''E08-01''],
        o_context := Some (''COSS app shell per '' @ [CHR 0xC2, CHR 0xA7] @ ''8.1: SidebarProvider, Frame (p-frame-3), Breadcrumb (p-breadcrumb-3), global Toaster (p-toast-2) and Spinner (p-spinner-1) in root layout; sidebar links /, /repos, /integrations, /ticket-projects, /notifications, /settings; logout POST /api/v1/auth/logout; required sidebar logout control.''),
        o_specs := [SPEC_ui, SPEC_auth],
        o_implementation := [''app/(authenticated)/layout.tsx with SidebarProvider + AppFrame'',
          (''components/app-frame.tsx '' @ em_dash @ '' p-frame-3, p-breadcrumb-3''),
          ''root layout mounts <Toaster /> (p-toast-2) and Spinner (p-spinner-1)'',
          (''components/app-sidebar.tsx '' @ em_dash @ '' next/link nav''),
          ''Logout button calls auth logout''],
        o_acceptance := [(''Sidebar links match '' @ [CHR 0xC2, CHR 0xA7] @ ''8.1 routes''),
          ''Frame wraps page content with breadcrumb slot (p-frame-3)'',
          ''Breadcrumb home icon per p-breadcrumb-3'',
          ''Toaster mounted once in root layout for mutation errors'',
          ''Spinner for async loading states'',
          ''logout UI control in sidebar'',
          ''All nav labels use t() keys''],
        o_files := [''apps/web/components/app-sidebar.tsx'',
          ''apps/web/app/(authenticated)/layout.tsx''],
        o_tests := [''npm test -- sidebar'']\<rparr>),
     RegLeaf ''E08-05'' ''E08'' ''Authenticated routing and Next.js middleware'' ''web''
       (no_opts\<lparr>o_depends_on := [''E08-04''],
        o_context := Some ''middleware.ts redirects unauthenticated users to /login; public /login route.'',
        o_specs := [SPEC_auth, SPEC_ui],
        o_implementation := [''apps/web/middleware.ts'',
          ''app/login/page.tsx placeholder shell'',
          ''app/(authenticated)/ route group''],
        o_acceptance := [''/login accessible without session'',
          ''Protected pages redirect to /login'',
          ''GET /api/go/api/v1/auth/session check in middleware'',
          ''Static assets excluded from middleware'',
          ''Authenticated layout wraps dashboard pages'',
          ''matcher config correct'',
          ''No flash of protected content''],
        o_files := [''apps/web/middleware.ts'',
          ''apps/web/app/login/page.tsx''],
        o_tests := [''npm test'']\<rparr>)]"

definition E09_tasks :: "registration list" where
  "E09_tasks =
    [RegEpic ''E09'' (''Web config UI '' @ em_dash @ '' login and settings pages'') ''web''
       (no_opts\<lparr>o_depends_on := [''E08'',
          ''E04''],
        o_context := Some (''COSS UI for /login, /integrations, /ticket-projects, /repos, /notifications, /settings. Merges P19,P21'' @ [CHR 0xE2, CHR 0x80, CHR 0x93] @ ''P25.''),
        o_specs := [SPEC_ui],
        o_stack := [STACK_frontend],
        o_acceptance := [(''All '' @ [CHR 0xC2, CHR 0xA7] @ ''8.3 pages implemented''),
          ''i18n keys only'',
          ''CRUD via hooks'']\<rparr>),
     RegLeaf ''E09-01'' ''E09'' ''Login page with email/password form'' ''web''
       (no_opts\<lparr>o_depends_on := [''E08-05'',
          ''E08-03''],
        o_context := Some (''/login page per '' @ [CHR 0xC2, CHR 0xA7] @ ''8.3: p-card-1 centered container, p-field-2 email/password, p-button-1 submit; p-alert-7 on login error; POST /api/go/api/v1/auth/login; redirect to / on success.''),
        o_specs := [SPEC_ui, SPEC_auth],
        o_implementation := [(''app/login/page.tsx '' @ em_dash @ '' p-card-1, p-field-2, p-button-1, p-alert-7'')],
        o_acceptance := [''/login page renders centered p-card-1 form'',
          ''Email and password fields i18n via p-field-2'',
          ''Submit calls login mutation'',
          ''Invalid credentials show p-alert-7 error (not toast only)'',
          ''Redirect to / on success'',
          ''Already logged in redirects away'',
          ''Accessible labels and focus management''],
        o_files := [''apps/web/app/login/page.tsx''],
        o_tests := [''npm test -- login'']\<rparr>),
     RegLeaf ''E09-02'' ''E09'' (''Integrations page '' @ em_dash @ '' list, drawer CRUD, test connection'') ''web''
       (no_opts\<lparr>o_depends_on := [''E09-01'',
          ''E08-03''],
        o_context := Some (''/integrations '' @ em_dash @ '' p-table-2, p-drawer-10; all 8 kinds; Jira email field (p-field-2); hasSecret indicator; test connection p-toast-5 async feedback.''),
        o_specs := [SPEC_ui, SPEC_providers],
        o_implementation := [''app/(authenticated)/integrations/page.tsx''],
        o_acceptance := [''/integrations page lists integrations'',
          ''Create/edit drawer per kind with base_url when required'',
          ''Jira kind shows email field (p-field-2)'',
          ''hasSecret shown; token password field never re-displayed'',
          ''Test connection button with p-toast-5 async feedback'',
          ''Delete confirmation i18n'',
          ''useIntegrations hook wired''],
        o_files := [''apps/web/app/(authenticated)/integrations/page.tsx''],
        o_tests := [''npm test -- integrations'']\<rparr>),
     RegLeaf ''E09-03'' ''E09'' (''Ticket projects page '' @ em_dash @ '' status mapping and policies'') ''web''
       (no_opts\<lparr>o_depends_on := [''E09-02''],
        o_context := Some (''/ticket-projects '' @ em_dash @ '' create_config tabs, status_mapping arrays, on_open_ticket_policy select.''),
        o_specs := [SPEC_ui, SPEC_ticketProjects],
        o_implementation := [''app/(authenticated)/ticket-projects/page.tsx''],
        o_acceptance := [''/ticket-projects page CRUD'',
          ''Integration select ticket kinds only'',
          ''on_open_ticket_policy supersede|merge|skip_if_open'',
          ''status_mapping per open/done/cancelled'',
          ''create_config subform per provider'',
          ''useTicketProjects hook'',
          ''JSON validation errors shown''],
        o_files := [''apps/web/app/(authenticated)/ticket-projects/page.tsx''],
        o_tests := [''npm test'']\<rparr>),
     RegLeaf ''E09-04'' ''E09'' ''Monitored repos page'' ''web''
       (no_opts\<lparr>o_depends_on := [''E09-03''],
        o_context := Some (''/repos per '' @ [CHR 0xC2, CHR 0xA7] @ ''8.3 '' @ em_dash @ '' p-table-3 list, p-dialog-1 add/edit, p-select-1 for source/ticket project; p-checkbox-group-1 optional notification targets per monitored_repo_notifications; p-switch-1 enabled.''),
        o_specs := [SPEC_ui, SPEC_domain],
        o_implementation := [''app/(authenticated)/repos/page.tsx''],
        o_acceptance := [''/repos page lists monitored repos (p-table-3, no bulk checkboxes in MVP)'',
          ''Add/edit dialog with source_kind and ticket_project selects'',
          ''sourceIntegrationId select for gitlab/gitea/forgejo'',
          ''Optional notification targets checkbox group per repo'',
          ''enabled toggle (p-switch-1) and p-alert-dialog-1 delete confirm'',
          ''Shows last_polled_at and last_error'',
          ''useRepos hook; empty state i18n''],
        o_files := [''apps/web/app/(authenticated)/repos/page.tsx''],
        o_tests := [''npm test'']\<rparr>),
     RegLeaf ''E09-05'' ''E09'' ''Notifications page'' ''web''
       (no_opts\<lparr>o_depends_on := [''E09-01'',
          ''E08-03''],
        o_context := Some (''/notifications '' @ em_dash @ '' Shoutrrr URL, events checkboxes, test notification.''),
        o_specs := [SPEC_ui, SPEC_notifications],
        o_implementation := [''app/(authenticated)/notifications/page.tsx''],
        o_acceptance := [''/notifications page CRUD'',
          ''Shoutrrr URL password input'',
          ''events_json checkbox group create,error,supersede'',
          ''Test notification button'',
          ''useNotificationTargets hook'',
          ''enabled toggle'',
          ''Never show stored URL after save''],
        o_files := [''apps/web/app/(authenticated)/notifications/page.tsx''],
        o_tests := [''npm test'']\<rparr>),
     RegLeaf ''E09-06'' ''E09'' (''Settings page '' @ em_dash @ '' poll interval'') ''web''
       (no_opts\<lparr>o_depends_on := [''E09-01'',
          ''E08-03''],
        o_context := Some (''/settings '' @ em_dash @ '' p-number-field poll_interval_minutes min 5; PATCH /api/v1/settings.''),
        o_specs := [SPEC_ui, SPEC_api],
        o_implementation := [''app/(authenticated)/settings/page.tsx''],
        o_acceptance := [''/settings page shows poll interval'',
          ''Min 5 minutes validation'',
          ''Save calls PATCH /api/v1/settings'',
          ''Success alert i18n'',
          ''useSettings hook'',
          ''Loading and error states'',
          ''p-card-8 layout per spec particles''],
        o_files := [''apps/web/app/(authenticated)/settings/page.tsx''],
        o_tests := [''npm test'']\<rparr>)]"

definition E10_tasks :: "registration list" where
  "E10_tasks =
    [RegEpic ''E10'' (''Dashboard '' @ em_dash @ '' status, manual poll & run history'') ''web''
       (no_opts\<lparr>o_depends_on := [''E08'',
          ''E07''],
        o_context := Some ''Dashboard / with status card, manual poll button, poll run history UI. Merges P20.'',
        o_specs := [SPEC_ui, SPEC_mvp],
        o_acceptance := [''AC #14 operational visibility'',
          ''Manual poll from UI'']\<rparr>),
     RegLeaf ''E10-01'' ''E10'' ''Dashboard status card, repo table, and manual poll'' ''web''
       (no_opts\<lparr>o_depends_on := [''E09-01'',
          ''E08-03''],
        o_context := Some ''GET /api/v1/status display; repo status subset table (p-table-4); error alert (p-alert-6) from last run; POST /api/v1/poll/trigger button; useStatus, useRepos, useTriggerPoll.'',
        o_specs := [SPEC_ui, SPEC_api, SPEC_mvp],
        o_implementation := [''app/(authenticated)/page.tsx'',
          (''components/dashboard/status-card.tsx '' @ em_dash @ '' p-card-10, p-badge-5''),
          (''components/dashboard/repo-status-table.tsx '' @ em_dash @ '' p-table-4 TanStack sort+pagination''),
          (''components/dashboard/last-run-errors.tsx '' @ em_dash @ '' p-alert-6 when errors_json present'')],
        o_acceptance := [''Dashboard / shows system status card'',
          ''Repo status table (subset) with source, path, last tag, open ticket'',
          ''Error alert when last poll run has errors'',
          ''Manual poll button triggers POST /api/v1/poll/trigger'',
          ''Empty state p-empty-1 CTA links to /repos'',
          ''Loading state during poll with Spinner'',
          ''All dashboard strings use t() keys''],
        o_files := [''apps/web/app/(authenticated)/page.tsx''],
        o_tests := [''npm test -- dashboard'']\<rparr>),
     RegLeaf ''E10-02'' ''E10'' ''Poll run history table and run detail drawer'' ''web''
       (no_opts\<lparr>o_depends_on := [''E10-01'',
          ''E08-03''],
        o_context := Some ''GET /api/v1/poll/runs table; row click GET /api/v1/poll/runs/{id} drawer with events; usePollRuns, usePollRun hooks.'',
        o_specs := [SPEC_ui, SPEC_api, SPEC_domain],
        o_implementation := [''components/dashboard/poll-run-history.tsx''],
        o_acceptance := [''Poll run history UI consumes GET poll/runs'',
          ''Table data from GET /api/v1/poll/runs via usePollRuns'',
          ''Row opens drawer with usePollRun(id)'',
          ''Events show action enum labels i18n'',
          ''Status badges running|success|partial|failed'',
          ''Pagination or limit'',
          ''Empty state when no runs''],
        o_files := [''apps/web/components/dashboard/poll-run-history.tsx''],
        o_tests := [''npm test'']\<rparr>),
     RegLeaf ''E10-03'' ''E10'' ''Dashboard page integration and smoke tests'' ''web''
       (no_opts\<lparr>o_depends_on := [''E10-02''],
        o_context := Some ''Vitest/RTL smoke for dashboard; docker compose manual poll AC #14.'',
        o_specs := [SPEC_mvp, SPEC_ci],
        o_implementation := [''dashboard page tests''],
        o_acceptance := [''Dashboard renders status + history'',
          ''Manual poll flow tested mock API'',
          ''All dashboard copy uses t()'',
          ''npm test passes'',
          ''No hardcoded English in dashboard'',
          ''Links to config pages from empty states'',
          ''Responsive layout mobile''],
        o_files := [''apps/web/app/(authenticated)/page.test.tsx''],
        o_tests := [''npm test'']\<rparr>)]"

definition E11_tasks :: "registration list" where
  "E11_tasks =
    [RegEpic ''E11'' (''Ship '' @ em_dash @ '' Docker, CI/CD & MVP verification'') ''ci''
       (no_opts\<lparr>o_depends_on := [''E07'',
          ''E10''],
        o_context := Some (''Dockerfile, compose, GitHub Actions '' @ [CHR 0xC2, CHR 0xA7] @ ''11, GHCR, MVP checklist. Merges P26+P27+P28.''),
        o_specs := [SPEC_deployment, SPEC_ci, SPEC_mvp],
        o_stack := [STACK_cicd, STACK_deploy],
        o_acceptance := [''docker compose up works'',
          (''CI workflows per '' @ [CHR 0xC2, CHR 0xA7] @ ''11.2''),
          ''All 15 MVP AC documented'']\<rparr>),
     RegLeaf ''E11-01'' ''E11'' ''Multi-stage Dockerfile and entrypoint'' ''ci''
       (no_opts\<lparr>o_depends_on := [''E01'',
          ''E07''],
        o_context := Some (''Next standalone + Go binary; docker/entrypoint.sh: migrate up '' @ [CHR 0xE2, CHR 0x86, CHR 0x92] @ '' Go background '' @ [CHR 0xE2, CHR 0x86, CHR 0x92] @ '' Next foreground; single image. Non-root user when feasible.''),
        o_specs := [SPEC_deployment, SPEC_schemaMigrations],
        o_implementation := [''Dockerfile multi-stage'',
          (''docker/entrypoint.sh '' @ em_dash @ '' golang-migrate up, start Go, start Next''),
          ''next.config standalone output''],
        o_acceptance := [''Dockerfile builds successfully'',
          ''Single image release-ops'',
          ''Entrypoint runs migrate up then Go then Next'',
          ''Go on 127.0.0.1:8080 inside container'',
          ''Next on :3000 public'',
          ''VERSION not baked as secret'',
          ''Non-root user if feasible''],
        o_files := [''Dockerfile'',
          ''docker/entrypoint.sh''],
        o_tests := [''docker build -t release-ops .'']\<rparr>),
     RegLeaf ''E11-02'' ''E11'' ''docker-compose.yml single service'' ''ci''
       (no_opts\<lparr>o_depends_on := [''E11-01''],
        o_context := Some ''One service release-ops; volume /data; port 3000; env from example.'',
        o_specs := [SPEC_deployment, SPEC_mvp],
        o_implementation := [''docker-compose.yml'',
          ''.env.example''],
        o_acceptance := [''docker-compose single service release-ops'',
          ''Volume release-ops-data:/data'',
          ''Port 3000:3000'',
          ''SESSION_SECRET and APP_ENCRYPTION_KEY documented'',
          ''Health via GET /api/go/healthz or proxy'',
          ''docker compose up --build works'',
          ''AC #14 docker compose dashboard''],
        o_files := [''docker-compose.yml'',
          ''.env.example''],
        o_tests := [''docker compose config'']\<rparr>),
     RegLeaf ''E11-03'' ''E11'' ''GitHub Actions CI workflows'' ''ci''
       (no_opts\<lparr>o_depends_on := [''E01''],
        o_context := Some (''pr.yml, dev.yml, main.yml, release.yml, reusable ci.yml per '' @ [CHR 0xC2, CHR 0xA7] @ ''11.2.''),
        o_specs := [SPEC_ci, SPEC_mvp],
        o_implementation := [(''.github/workflows/ci.yml '' @ em_dash @ '' go lint/test/build, web lint/test/typecheck/build''),
          ''.github/workflows/pr.yml, dev.yml, main.yml, release.yml''],
        o_acceptance := [(''.github/workflows per '' @ [CHR 0xC2, CHR 0xA7] @ ''11.2 present''),
          ''Reusable workflows workflow_call only'',
          ''concurrency cancel-in-progress on PR/dev/main'',
          ''Parallel go and web jobs'',
          ''PR blocked on CI failure'',
          ''go test ./... in CI'',
          ''npm test and npm run typecheck in CI''],
        o_files := [''.github/workflows/ci.yml'',
          ''.github/workflows/pr.yml''],
        o_tests := [''actionlint if available'']\<rparr>),
     RegLeaf ''E11-04'' ''E11'' ''GHCR image push and prepare-release'' ''ci''
       (no_opts\<lparr>o_depends_on := [''E11-03''],
        o_context := Some ''dev push nightly+sha; release published latest+version; prepare-release on VERSION bump.'',
        o_specs := [SPEC_ci, SPEC_deployment],
        o_implementation := [''build-and-push-image.yml reusable'',
          ''prepare-release.yml + scripts/ci/create-draft-release.mjs'',
          (''dev.yml chains ci '' @ [CHR 0xE2, CHR 0x86, CHR 0x92] @ '' push-image'')],
        o_acceptance := [''dev push produces nightly image after CI'',
          ''Published release pushes latest + version tag'',
          ''main push runs prepare-release on VERSION bump'',
          ''create-draft-release script semver compare'',
          ''GHCR auth via GITHUB_TOKEN'',
          ''Docker buildcache ghcr.io/{owner}/release-ops:buildcache'',
          ''No image build on main without release''],
        o_files := [''.github/workflows/build-and-push-image.yml'',
          ''scripts/ci/create-draft-release.mjs''],
        o_tests := [''node scripts/ci/create-draft-release.mjs --dry-run'']\<rparr>),
     RegLeaf ''E11-05'' ''E11'' (''CI policy gates '' @ em_dash @ '' db:check and i18n lint'') ''ci''
       (no_opts\<lparr>o_depends_on := [''E11-03'',
          ''E01-02'',
          ''E08-01''],
        o_context := Some ''ci.yml db-migrations job npm run db:check; web-lint enforces i18next rule.'',
        o_specs := [SPEC_ci, SPEC_i18n, SPEC_schemaMigrations],
        o_implementation := [''db-migrations job in ci.yml'',
          ''sqlite3 in CI for sqldiff'',
          ''Root package.json db:check script''],
        o_acceptance := [''db:check in CI workflow'',
          ''CI fails when db/schema.sql drifts'',
          ''web-lint fails on hardcoded JSX string'',
          ''Policy gates on PR and dev push'',
          ''sqlite3 available in runner'',
          ''npm run db:check documented'',
          ''No Atlas in pipeline''],
        o_files := [''.github/workflows/ci.yml'',
          ''package.json''],
        o_tests := [''npm run db:check'']\<rparr>),
     RegLeaf ''E11-06'' ''E11'' ''MVP checklist, getting-started docs, and sign-off'' ''docs''
       (no_opts\<lparr>o_depends_on := [''E11-02'',
          ''E11-04'',
          ''E07-05''],
        o_context := Some (''docs/mvp-checklist.md maps AC #1'' @ [CHR 0xE2, CHR 0x80, CHR 0x93] @ ''15; docs/getting-started.md operator guide including docker compose up and docker exec seed-admin for manual admin creation.''),
        o_specs := [SPEC_mvp, SPEC_deployment, SPEC_env],
        o_implementation := [''docs/mvp-checklist.md'',
          ''docs/getting-started.md'',
          ''Provider mock tests verified in CI''],
        o_acceptance := [''mvp-checklist.md covers all 15 AC'',
          ''getting-started.md docker compose up'',
          (''Documents required env vars '' @ [CHR 0xC2, CHR 0xA7] @ ''9''),
          ''Documents docker exec seed-admin CLI usage'',
          ''Mock provider tests in CI AC #13'',
          ''Manual poll + dashboard AC #14'',
          ''GitHub Actions workflows AC #15''],
        o_files := [''docs/mvp-checklist.md'',
          ''docs/getting-started.md''],
        o_tests := [''npm test'',
          ''go test ./...'']\<rparr>)]"

definition registerE07E11 :: "registration list" where
  "registerE07E11 = E07_tasks @ E08_tasks @ E09_tasks @ E10_tasks @ E11_tasks"

end
