(* ===== verification/Roadmap_Import.thy ===== *)
theory Roadmap_Import
  imports Complex_Main Roadmap_Registry Js_Number
begin

section \<open>Importing the roadmap (\<open>scripts/import-roadmap-phasical.mjs\<close>)\<close>

text \<open>
  The script asks the board (a Kaneo server) and waits. The board and the clock are parameters: the
  board answers a request, and the clock tells the milliseconds, given everything done before. What
  the script reads of an answer is a value of \<open>reply\<close>; a request that fails, or an answer of another
  kind, rejects, which ends the script. A step is a function of the events so far; it may not return
  (\<^term>\<open>None\<close>), because the wait for an issue is a loop. The progress lines are left out.
\<close>

subsection \<open>Settings\<close>

type_synonym env = "string \<Rightarrow> string option"

definition ENV_LINE :: regex where
  "ENV_LINE = Seqs
     [Group 1 (Plus (Cls (\<lambda>c. (65 \<le> (of_char c :: nat) \<and> (of_char c :: nat) \<le> 90) \<or> c = CHR ''_''))), Lit ''='',
      Group 2 (Star (Cls dot_c))]"

definition load_line :: "env \<Rightarrow> string \<Rightarrow> env" where
  "load_line env line =
     (let trimmed = js_trim line
      in if trimmed = [] \<or> starts_with trimmed ''#'' then env
         else (case exec_full ENV_LINE trimmed of
                 Some m \<Rightarrow> if env (group_text 1 m) \<in> {None, Some []} then env(group_text 1 m \<mapsto> group_text 2 m) else env
               | None \<Rightarrow> env))"

definition loadEnv :: "string option \<Rightarrow> env \<Rightarrow> env" where
  "loadEnv file env = (case file of None \<Rightarrow> env | Some text \<Rightarrow> foldl load_line env (split_on LF text))"

text \<open>A finite number as a rational.\<close>

definition num_rat :: "int \<Rightarrow> int \<Rightarrow> rat" where
  "num_rat m e = (if 0 \<le> e then of_int (m * 10 ^ nat e) else of_int m / of_int (10 ^ nat (- e)))"

definition envMs :: "env \<Rightarrow> string \<Rightarrow> rat \<Rightarrow> rat" where
  "envMs env name fallback =
     (case js_Number (case env name of None \<Rightarrow> Undefined | Some v \<Rightarrow> Str v) of
        Finite m e \<Rightarrow> if 0 \<le> num_rat m e then num_rat m e else fallback
      | _ \<Rightarrow> fallback)"

definition normalizeApiBase :: "string \<Rightarrow> string" where
  "normalizeApiBase url =
     (let base = strip_one_trailing (CHR ''/'') url in if ends_with base ''/api'' then base else base @ ''/api'')"

record import_config =
  ic_apply :: bool
  ic_key :: "string option"
  ic_user :: "string option"
  ic_base :: string
  ic_delay :: rat
  ic_poll :: rat
  ic_poll_max :: rat

definition import_config_of :: "bool \<Rightarrow> env \<Rightarrow> import_config" where
  "import_config_of apply_flag env =
     \<lparr>ic_apply = apply_flag, ic_key = env ''PHASICAL_API_KEY'', ic_user = env ''PHASICAL_USER_ID'',
      ic_base = normalizeApiBase (default ''https://app.phasical.io'' (env ''PHASICAL_API_BASE'')),
      ic_delay = envMs env ''PHASICAL_DELAY_MS'' 100, ic_poll = envMs env ''PHASICAL_GITHUB_POLL_MS'' 300,
      ic_poll_max = envMs env ''PHASICAL_GITHUB_POLL_MAX_MS'' 2000\<rparr>"

definition PROJECT_ID :: string where "PROJECT_ID = ''tv679ggt5ier9r5dx70w8ks6''"
definition WORKSPACE_ID :: string where "WORKSPACE_ID = ''X3VbytvC7pKgazK2dAsOQIFtdGYRzdGH''"
definition GITHUB_REPO :: string where "GITHUB_REPO = ''mdg-labs/release-ops''"
definition READY_STATUS :: string where "READY_STATUS = ''ready''"
definition CREATE_STATUS :: string where "CREATE_STATUS = ''backlog''"

subsection \<open>The board\<close>

record new_task =
  nt_title :: string
  nt_description :: string
  nt_priority :: string
  nt_status :: string
  nt_userId :: "string option"

datatype event =
    Get_Status
  | List_Tasks
  | Get_Labels
  | Search string
  | Get_Task string
  | Post_Label string
  | Post_Task new_task
  | Put_Label string string
  | Post_Relation string string string
  | Put_Status string string
  | Sleep rat

text \<open>Method, path and body of a request; the query of a search is encoded by \<open>encode\<close>.\<close>

definition request_of :: "(string \<Rightarrow> string) \<Rightarrow> event \<Rightarrow> string \<times> string \<times> jsval" where
  "request_of encode ev =
     (case ev of
        Get_Status \<Rightarrow> (''GET'', ''/instance/status'', Undefined)
      | List_Tasks \<Rightarrow> (''GET'', ''/task/tasks/'' @ PROJECT_ID, Undefined)
      | Get_Labels \<Rightarrow> (''GET'', ''/label/workspace/'' @ WORKSPACE_ID, Undefined)
      | Search i \<Rightarrow> (''GET'', ''/search?q='' @ encode (''Roadmap ID: '' @ i) @ ''&type=tasks&workspaceId='' @ WORKSPACE_ID @
          ''&projectId='' @ PROJECT_ID @ ''&limit=5'', Undefined)
      | Get_Task i \<Rightarrow> (''GET'', ''/task/'' @ i, Undefined)
      | Post_Label n \<Rightarrow> (''POST'', ''/label'', Obj [(''name'', Str n), (''color'', Str ''#64748b''), (''workspaceId'', Str WORKSPACE_ID)])
      | Post_Task t \<Rightarrow> (''POST'', ''/task/'' @ PROJECT_ID,
          Obj [(''title'', Str (nt_title t)), (''description'', Str (nt_description t)), (''priority'', Str (nt_priority t)),
               (''status'', Str (nt_status t)), (''userId'', case nt_userId t of None \<Rightarrow> Undefined | Some u \<Rightarrow> Str u)])
      | Put_Label l i \<Rightarrow> (''PUT'', ''/label/'' @ l @ ''/task'', Obj [(''taskId'', Str i)])
      | Post_Relation src tgt ty \<Rightarrow> (''POST'', ''/task-relation'',
          Obj [(''sourceTaskId'', Str src), (''targetTaskId'', Str tgt), (''relationType'', Str ty)])
      | Put_Status i st \<Rightarrow> (''PUT'', ''/task/status/'' @ i, Obj [(''status'', Str st)])
      | Sleep _ \<Rightarrow> ([], [], Undefined))"

text \<open>A task of the board with its links (kind and text of the external identifier); a label with the
  task it is attached to, its name and identifier.\<close>

record board_task =
  bt_id :: string
  bt_description :: "string option"
  bt_links :: "(string \<times> string) list"

datatype reply =
    Done
  | Board "board_task list list" "board_task list"
  | Found "board_task list"
  | One_Task board_task
  | Label_List "(string option \<times> string option \<times> string) list"
  | Created string

record world =
  w_board :: "event list \<Rightarrow> event \<Rightarrow> string + reply"
  w_clock :: "event list \<Rightarrow> int"

subsection \<open>Steps\<close>

type_synonym 'a step = "event list \<Rightarrow> ((string + 'a) \<times> event list) option"

definition ret :: "'a \<Rightarrow> 'a step" where
  "ret x tr = Some (Inr x, tr)"

definition throw :: "string \<Rightarrow> 'a step" where
  "throw e tr = Some (Inl e, tr)"

definition bind :: "'a step \<Rightarrow> ('a \<Rightarrow> 'b step) \<Rightarrow> 'b step" where
  "bind m f tr = (case m tr of None \<Rightarrow> None | Some (Inl e, tr') \<Rightarrow> Some (Inl e, tr') | Some (Inr x, tr') \<Rightarrow> f x tr')"

definition api :: "world \<Rightarrow> event \<Rightarrow> reply step" where
  "api w ev tr = Some (w_board w tr ev, tr @ [ev])"

definition sleep :: "rat \<Rightarrow> unit step" where
  "sleep ms tr = Some (Inr (), tr @ [Sleep ms])"

definition delayAfterWrite :: "import_config \<Rightarrow> unit step" where
  "delayAfterWrite c = (if ic_delay c > 0 then sleep (ic_delay c) else ret ())"

fun each :: "('a \<Rightarrow> 's \<Rightarrow> 's step) \<Rightarrow> 'a list \<Rightarrow> 's \<Rightarrow> 's step" where
  "each f [] s = ret s"
| "each f (x # xs) s = bind (f x s) (each f xs)"

subsection \<open>Requests\<close>

definition listAllTasks :: "world \<Rightarrow> (board_task list) step" where
  "listAllTasks w = bind (api w List_Tasks)
     (\<lambda>r. case r of Board cols archived \<Rightarrow> ret (concat cols @ archived) | _ \<Rightarrow> throw ''TypeError'')"

definition has_marker :: "string \<Rightarrow> board_task \<Rightarrow> bool" where
  "has_marker ident t \<longleftrightarrow> (case bt_description t of None \<Rightarrow> False | Some d \<Rightarrow> js_includes d (ID_MARKER @ ident))"

definition search_result :: "string \<Rightarrow> board_task list \<Rightarrow> board_task option" where
  "search_result ident results =
     (case find (has_marker ident) results of
        Some t \<Rightarrow> Some t
      | None \<Rightarrow> (case results of [] \<Rightarrow> None | t # _ \<Rightarrow> Some t))"

definition searchByRoadmapId :: "world \<Rightarrow> string \<Rightarrow> (board_task option) step" where
  "searchByRoadmapId w ident = bind (api w (Search ident))
     (\<lambda>r. case r of Found results \<Rightarrow> ret (search_result ident results) | _ \<Rightarrow> throw ''TypeError'')"

text \<open>The number of the issue a task is linked to: \<open>Number(externalId)\<close>, where \<open>undefined\<close> stands for
  what is no finite number.\<close>

definition githubIssueFromTask :: "board_task \<Rightarrow> jsval option" where
  "githubIssueFromTask t =
     map_option (\<lambda>l. num_value (js_Number (Str (snd l)))) (find (\<lambda>l. fst l = ''issue'') (bt_links t))"

partial_function (option) wait_loop :: "world \<Rightarrow> rat \<Rightarrow> rat \<Rightarrow> string \<Rightarrow> (jsval option) step" where
  "wait_loop w poll deadline taskId tr =
     (if of_int (w_clock w tr) < deadline then
        (case w_board w tr (Get_Task taskId) of
           Inr (One_Task t) \<Rightarrow>
             (case githubIssueFromTask t of
                Some n \<Rightarrow> Some (Inr (Some n), tr @ [Get_Task taskId])
              | None \<Rightarrow> wait_loop w poll deadline taskId (tr @ [Get_Task taskId, Sleep poll]))
         | Inr _ \<Rightarrow> Some (Inl ''TypeError'', tr @ [Get_Task taskId])
         | Inl e \<Rightarrow> Some (Inl e, tr @ [Get_Task taskId]))
      else Some (Inr None, tr))"

definition waitForGithubIssue :: "import_config \<Rightarrow> world \<Rightarrow> string \<Rightarrow> (jsval option) step" where
  "waitForGithubIssue c w taskId tr = wait_loop w (ic_poll c) (of_int (w_clock w tr) + ic_poll_max c) taskId tr"

definition loadLabelMap :: "world \<Rightarrow> (string \<Rightarrow> string option) step" where
  "loadLabelMap w = bind (api w Get_Labels)
     (\<lambda>r. case r of
        Label_List ls \<Rightarrow> ret (foldl (\<lambda>m (task, name, i). if task \<in> {None, Some []} \<and> name \<notin> {None, Some []} then m(the name \<mapsto> i) else m)
          Map.empty ls)
      | _ \<Rightarrow> throw ''TypeError'')"

definition buildDescription :: "roadmap_task \<Rightarrow> string option \<Rightarrow> string" where
  "buildDescription t parentGithubUrl =
     (case parentGithubUrl of
        None \<Rightarrow> rt_description t
      | Some u \<Rightarrow> if rt_type t = Leaf \<and> u \<noteq> [] then ''**Parent:** '' @ u @ [LF, LF] @ rt_description t else rt_description t)"

subsection \<open>The import\<close>

record import_state =
  is_existing :: "string \<Rightarrow> board_task option"
  is_labels :: "string \<Rightarrow> string option"
  is_phasical :: "string \<Rightarrow> string option"
  is_github :: "string \<Rightarrow> jsval option"
  is_create :: "string list"
  is_skip :: "string list"

definition ensureLabel :: "import_config \<Rightarrow> world \<Rightarrow> string \<Rightarrow> import_state \<Rightarrow> (string \<times> import_state) step" where
  "ensureLabel c w name s =
     (case is_labels s name of
        Some i \<Rightarrow> ret (i, s)
      | None \<Rightarrow> bind (api w (Post_Label name))
          (\<lambda>r. case r of
             Created i \<Rightarrow> bind (delayAfterWrite c) (\<lambda>_. ret (i, s\<lparr>is_labels := (is_labels s)(name \<mapsto> i)\<rparr>))
           | _ \<Rightarrow> throw ''TypeError''))"

definition index_existing :: "board_task list \<Rightarrow> string \<Rightarrow> board_task option" where
  "index_existing existing =
     foldl (\<lambda>m t. case read_id (default [] (bt_description t)) of Some i \<Rightarrow> m(i \<mapsto> t) | None \<Rightarrow> m) Map.empty existing"

text \<open>The URL of the parent's issue, for a leaf whose parent has one.\<close>

definition parentGh :: "import_state \<Rightarrow> roadmap_task \<Rightarrow> string option" where
  "parentGh s t =
     (case Option.bind (rt_parent t) (is_github s) of
        Some n \<Rightarrow> if rt_type t = Leaf \<and> truthy n then Some (''https://github.com/'' @ GITHUB_REPO @ ''/issues/'' @ to_string n) else None
      | None \<Rightarrow> None)"

definition adopt :: "roadmap_task \<Rightarrow> board_task \<Rightarrow> import_state \<Rightarrow> import_state" where
  "adopt t b s =
     s\<lparr>is_skip := is_skip s @ [rt_id t], is_phasical := (is_phasical s)(rt_id t \<mapsto> bt_id b),
       is_github := (case githubIssueFromTask b of Some n \<Rightarrow> (is_github s)(rt_id t \<mapsto> n) | None \<Rightarrow> is_github s)\<rparr>"

text \<open>After a task was created: the wait for its issue and its label.\<close>

definition note_issue :: "string \<Rightarrow> jsval option \<Rightarrow> import_state \<Rightarrow> import_state" where
  "note_issue ident gh s =
     (case gh of Some n \<Rightarrow> if truthy n then s\<lparr>is_github := (is_github s)(ident \<mapsto> n)\<rparr> else s | None \<Rightarrow> s)"

definition link_task :: "import_config \<Rightarrow> world \<Rightarrow> roadmap_task \<Rightarrow> string \<Rightarrow> import_state \<Rightarrow> import_state step" where
  "link_task c w t i s =
     bind (waitForGithubIssue c w i)
       (\<lambda>gh. bind (ensureLabel c w (rt_domain t) (note_issue (rt_id t) gh s))
         (\<lambda>(l, s'). bind (api w (Put_Label l i)) (\<lambda>_. bind (delayAfterWrite c) (\<lambda>_. ret s'))))"

definition create_task :: "import_config \<Rightarrow> world \<Rightarrow> roadmap_task \<Rightarrow> import_state \<Rightarrow> import_state step" where
  "create_task c w t s = bind
     (api w (Post_Task \<lparr>nt_title = rt_title t, nt_description = buildDescription t (parentGh s t), nt_priority = rt_priority t,
        nt_status = CREATE_STATUS, nt_userId = ic_user c\<rparr>))
     (\<lambda>r. case r of
        Created i \<Rightarrow> link_task c w t i (s\<lparr>is_phasical := (is_phasical s)(rt_id t \<mapsto> i)\<rparr>)
      | _ \<Rightarrow> throw ''TypeError'')"

definition find_task :: "import_config \<Rightarrow> world \<Rightarrow> roadmap_task \<Rightarrow> import_state \<Rightarrow> (board_task option) step" where
  "find_task c w t s =
     (case is_existing s (rt_id t) of
        Some b \<Rightarrow> ret (Some b)
      | None \<Rightarrow> if ic_apply c then searchByRoadmapId w (rt_id t) else ret None)"

definition import_task :: "import_config \<Rightarrow> world \<Rightarrow> roadmap_task \<Rightarrow> import_state \<Rightarrow> import_state step" where
  "import_task c w t s = bind (find_task c w t s)
     (\<lambda>found. case found of
        Some b \<Rightarrow> ret (adopt t b s)
      | None \<Rightarrow> (let s' = s\<lparr>is_create := is_create s @ [rt_id t]\<rparr>
                 in if ic_apply c then create_task c w t s' else ret s'))"

text \<open>The planned relations, by roadmap identifier, and the requests for those whose ends are known.\<close>

definition leaf_relations :: "roadmap_task \<Rightarrow> (string \<times> string \<times> string) list" where
  "leaf_relations l =
     (case rt_parent l of None \<Rightarrow> [] | Some p \<Rightarrow> if p = [] then [] else [(''subtask'', p, rt_id l)]) @ map (\<lambda>b. (''blocks'', b, rt_id l)) (rt_depends_on l)"

definition board_id :: "import_state \<Rightarrow> string \<Rightarrow> string" where
  "board_id s i = default [] (is_phasical s i)"

definition relation_events :: "import_state \<Rightarrow> (string \<times> string \<times> string) list \<Rightarrow> event list" where
  "relation_events s rs =
     concat (map (\<lambda>(ty, a, b). if board_id s a \<noteq> [] \<and> board_id s b \<noteq> [] then [Post_Relation (board_id s a) (board_id s b) ty] else []) rs)"

definition ready_events :: "import_state \<Rightarrow> roadmap_task list \<Rightarrow> event list" where
  "ready_events s tasks =
     concat (map (\<lambda>t. if board_id s (rt_id t) \<noteq> [] then [Put_Status (board_id s (rt_id t)) READY_STATUS] else []) tasks)"

definition send :: "import_config \<Rightarrow> world \<Rightarrow> event \<Rightarrow> unit \<Rightarrow> unit step" where
  "send c w ev u = bind (api w ev) (\<lambda>_. delayAfterWrite c)"

definition import_start :: "import_config \<Rightarrow> world \<Rightarrow> import_state step" where
  "import_start c w =
     (let s = \<lparr>is_existing = Map.empty, is_labels = Map.empty, is_phasical = Map.empty, is_github = Map.empty, is_create = [], is_skip = []\<rparr>
      in if ic_apply c then
           bind (api w Get_Status) (\<lambda>_.
           bind (listAllTasks w) (\<lambda>existing.
           bind (loadLabelMap w) (\<lambda>labels. ret (s\<lparr>is_existing := index_existing existing, is_labels := labels\<rparr>))))
         else ret s)"

definition import_body :: "import_config \<Rightarrow> world \<Rightarrow> roadmap_task list \<Rightarrow> import_state step" where
  "import_body c w tasks =
     bind (import_start c w) (\<lambda>s0.
     bind (each (import_task c w) (epics tasks @ leaves tasks) s0) (\<lambda>s.
       if \<not> ic_apply c then ret s
       else bind (each (send c w) (relation_events s (concat (map leaf_relations (leaves tasks)))) ()) (\<lambda>_.
            bind (each (send c w) (ready_events s tasks) ()) (\<lambda>_. ret s))))"

definition import_main :: "import_config \<Rightarrow> world \<Rightarrow> roadmap_task list \<Rightarrow> import_state step" where
  "import_main c w tasks =
     (if ic_apply c \<and> ic_key c \<in> {None, Some []} then throw ''PHASICAL_API_KEY required for --apply''
      else if ic_apply c \<and> ic_user c \<in> {None, Some []} then
        throw ''PHASICAL_USER_ID required for --apply (API keys have no session user)''
      else import_body c w tasks)"

text \<open>The script: nothing is asked unless the intake audit passes.\<close>

definition import_script :: "bool \<Rightarrow> bool \<Rightarrow> env \<Rightarrow> world \<Rightarrow> roadmap_task list \<Rightarrow> import_state step" where
  "import_script audit_passed apply_flag env w tasks =
     (if \<not> audit_passed then throw ''Intake audit failed'' else import_main (import_config_of apply_flag env) w tasks)"

end
