(* ===== verification/Import_Runs.thy ===== *)
theory Import_Runs
  imports Roadmap_Import
begin

section \<open>Runs of the import\<close>

text \<open>
  Lemmas on composed steps (what a step returns, and which events it may add), and with them what a
  run of the import does: in a dry run, on a board that answers, on a second run, and how long it
  waits.
\<close>

subsection \<open>Steps\<close>

named_theorems step_returns
named_theorems step_events

lemma bind_Inr: "bind m f tr = Some (Inr y, tr') \<longleftrightarrow> (\<exists>x tr1. m tr = Some (Inr x, tr1) \<and> f x tr1 = Some (Inr y, tr'))"
  by (auto simp: bind_def split: option.splits sum.splits prod.splits)

lemma ret_Inr [simp]: "ret x tr = Some (Inr y, tr') \<longleftrightarrow> y = x \<and> tr' = tr"
  by (auto simp: ret_def)

lemma throw_Inr [simp]: "throw e tr \<noteq> Some (Inr y, tr')"
  by (simp add: throw_def)

lemma api_Inr: "api w ev tr = Some (Inr r, tr') \<longleftrightarrow> w_board w tr ev = Inr r \<and> tr' = tr @ [ev]"
  by (auto simp: api_def)

text \<open>An answer of another kind rejects, so a step that went on had the right one.\<close>

lemma reply_only:
  "(case r of Created i \<Rightarrow> m1 i | _ \<Rightarrow> throw e) tr = Some (Inr y, tr') \<longleftrightarrow> (\<exists>i. r = Created i \<and> m1 i tr = Some (Inr y, tr'))"
  "(case r of Found ts \<Rightarrow> m2 ts | _ \<Rightarrow> throw e) tr = Some (Inr y, tr') \<longleftrightarrow> (\<exists>ts. r = Found ts \<and> m2 ts tr = Some (Inr y, tr'))"
  "(case r of Board cs ar \<Rightarrow> m3 cs ar | _ \<Rightarrow> throw e) tr = Some (Inr y, tr') \<longleftrightarrow>
     (\<exists>cs ar. r = Board cs ar \<and> m3 cs ar tr = Some (Inr y, tr'))"
  by (cases r; simp)+

text \<open>A step that always returns.\<close>

definition returns :: "'a step \<Rightarrow> bool" where
  "returns m \<longleftrightarrow> (\<forall>tr. m tr \<noteq> None)"

text \<open>A step that adds events with a property only.\<close>

definition adds :: "(event \<Rightarrow> bool) \<Rightarrow> 'a step \<Rightarrow> bool" where
  "adds P m \<longleftrightarrow> (\<forall>tr r tr'. m tr = Some (r, tr') \<longrightarrow> (\<exists>new. tr' = tr @ new \<and> list_all P new))"

lemma returns_basic [step_returns]: "returns (ret x)" "returns (throw e)" "returns (api w ev)" "returns (sleep ms)"
  by (simp_all add: returns_def ret_def throw_def api_def sleep_def)

lemma returns_bind [step_returns]: "returns m \<Longrightarrow> (\<And>x. returns (f x)) \<Longrightarrow> returns (bind m f)"
  by (auto simp: returns_def bind_def split: option.splits sum.splits)

lemma returns_each: "(\<And>x s. returns (f x s)) \<Longrightarrow> returns (each f xs s)"
  by (induction xs arbitrary: s) (auto intro: step_returns)

lemma adds_basic [step_events]: "adds P (ret x)" "adds P (throw e)" "P ev \<Longrightarrow> adds P (api w ev)" "P (Sleep ms) \<Longrightarrow> adds P (sleep ms)"
  by (simp_all add: adds_def ret_def throw_def api_def sleep_def)

lemma adds_bind [step_events]:
  assumes "adds P m" and "\<And>x. adds P (f x)"
  shows "adds P (bind m f)"
  unfolding adds_def
proof (intro allI impI)
  fix tr r tr' assume b: "bind m f tr = Some (r, tr')"
  then obtain r1 tr1 where m: "m tr = Some (r1, tr1)" by (auto simp: bind_def split: option.splits)
  obtain new where new: "tr1 = tr @ new" "list_all P new" using assms(1) m unfolding adds_def by blast
  show "\<exists>new. tr' = tr @ new \<and> list_all P new"
  proof (cases r1)
    case (Inl e)
    then show ?thesis using b m new by (auto simp: bind_def)
  next
    case (Inr x)
    then have "f x tr1 = Some (r, tr')" using b m by (simp add: bind_def)
    then obtain new2 where "tr' = tr1 @ new2" "list_all P new2" using assms(2) unfolding adds_def by blast
    then show ?thesis using new by auto
  qed
qed

lemma adds_each: "(\<And>x s. x \<in> set xs \<Longrightarrow> adds P (f x s)) \<Longrightarrow> adds P (each f xs s)"
  by (induction xs arbitrary: s) (auto intro: step_events)

lemma adds_prefix: "adds (\<lambda>_. True) m \<Longrightarrow> m tr = Some (r, tr') \<Longrightarrow> set tr \<subseteq> set tr'"
  unfolding adds_def by fastforce

lemma delay_steps [step_returns, step_events]: "returns (delayAfterWrite c)" "P (Sleep (ic_delay c)) \<Longrightarrow> adds P (delayAfterWrite c)"
  by (simp_all add: delayAfterWrite_def step_returns step_events)

subsection \<open>The wait for an issue\<close>

text \<open>A clock that does not go back, and moves on by the time slept: \<open>setTimeout\<close> waits whole
  milliseconds and at least one.\<close>

definition tick :: "rat \<Rightarrow> int" where
  "tick ms = max 1 \<lfloor>ms\<rfloor>"

definition punctual :: "world \<Rightarrow> bool" where
  "punctual w \<longleftrightarrow> (\<forall>tr ev. w_clock w tr + (case ev of Sleep ms \<Rightarrow> tick ms | _ \<Rightarrow> 0) \<le> w_clock w (tr @ [ev]))"

lemma punctual_poll:
  assumes "punctual w" shows "w_clock w tr + tick ms \<le> w_clock w (tr @ [Get_Task i, Sleep ms])"
proof -
  have "w_clock w tr + 0 \<le> w_clock w (tr @ [Get_Task i])"
    using assms [unfolded punctual_def, rule_format, of tr "Get_Task i"] by simp
  moreover have "w_clock w (tr @ [Get_Task i]) + tick ms \<le> w_clock w ((tr @ [Get_Task i]) @ [Sleep ms])"
    using assms [unfolded punctual_def, rule_format, of "tr @ [Get_Task i]" "Sleep ms"] by simp
  ultimately show ?thesis by simp
qed

definition polls :: "event list \<Rightarrow> nat" where
  "polls tr = length (filter (\<lambda>ev. case ev of Get_Task _ \<Rightarrow> True | _ \<Rightarrow> False) tr)"

lemma polls_append [simp]: "polls (xs @ ys) = polls xs + polls ys"
  by (simp add: polls_def)

lemma wait_stops:
  assumes "punctual w"
  shows "\<exists>r new. wait_loop w poll deadline i tr = Some (r, tr @ new) \<and>
    list_all (\<lambda>ev. ev = Get_Task i \<or> ev = Sleep poll) new \<and>
    int (polls new) * tick poll < max 0 (\<lceil>deadline\<rceil> - w_clock w tr) + tick poll"
proof (induction "nat (\<lceil>deadline\<rceil> - w_clock w tr)" arbitrary: tr rule: less_induct)
  case less
  have pos: "0 < tick poll" by (simp add: tick_def)
  have p1: "polls [Get_Task i] = 1" "polls [] = 0" by (simp_all add: polls_def)
  show ?case
  proof (cases "of_int (w_clock w tr) < deadline")
    case False
    then have "wait_loop w poll deadline i tr = Some (Inr None, tr @ [])" by (subst wait_loop.simps) simp
    then show ?thesis using pos p1 by (intro exI conjI) (auto)
  next
    case True
    then have c: "w_clock w tr < \<lceil>deadline\<rceil>" by (simp add: less_ceiling_iff)
    have one: "int (polls [Get_Task i]) * tick poll < max 0 (\<lceil>deadline\<rceil> - w_clock w tr) + tick poll" using c by (simp add: p1)
    show ?thesis
    proof (cases "\<exists>t. w_board w tr (Get_Task i) = Inr (One_Task t) \<and> githubIssueFromTask t = None")
      case False
      then have "\<exists>r. wait_loop w poll deadline i tr = Some (r, tr @ [Get_Task i])"
        using True by (subst wait_loop.simps) (auto split: sum.splits reply.splits option.splits)
      then show ?thesis using one by fastforce
    next
      case more: True
      let ?tr = "tr @ [Get_Task i, Sleep poll]"
      have step: "wait_loop w poll deadline i tr = wait_loop w poll deadline i ?tr"
        using True more by (subst wait_loop.simps) auto
      have adv: "w_clock w tr + tick poll \<le> w_clock w ?tr" by (rule punctual_poll [OF assms])
      then have "nat (\<lceil>deadline\<rceil> - w_clock w ?tr) < nat (\<lceil>deadline\<rceil> - w_clock w tr)" using pos c by simp
      from less [OF this] obtain r new where IH: "wait_loop w poll deadline i ?tr = Some (r, ?tr @ new)"
        "list_all (\<lambda>ev. ev = Get_Task i \<or> ev = Sleep poll) new"
        "int (polls new) * tick poll < max 0 (\<lceil>deadline\<rceil> - w_clock w ?tr) + tick poll" by blast
      have p: "polls ([Get_Task i, Sleep poll] @ new) = Suc (polls new)" by (simp add: polls_def)
      have "int (polls new) * tick poll < max 0 (\<lceil>deadline\<rceil> - w_clock w tr)"
      proof (cases "\<lceil>deadline\<rceil> \<le> w_clock w ?tr")
        case True
        then have "int (polls new) * tick poll < 1 * tick poll" using IH(3) by simp
        then have "polls new = 0" using pos by (simp only: mult_less_cancel_right_pos)
        then show ?thesis using c by simp
      qed (use IH(3) adv in simp)
      then have "int (polls ([Get_Task i, Sleep poll] @ new)) * tick poll < max 0 (\<lceil>deadline\<rceil> - w_clock w tr) + tick poll"
        unfolding p by (simp add: distrib_right)
      then show ?thesis
        using step IH(1,2) by (intro exI [of _ r] exI [of _ "[Get_Task i, Sleep poll] @ new"]) simp
    qed
  qed
qed


lemma wait_events:
  "wait_loop w poll deadline i tr = Some rt \<Longrightarrow> P (Get_Task i) \<Longrightarrow> P (Sleep poll) \<Longrightarrow> \<exists>new. snd rt = tr @ new \<and> list_all P new"
proof (induction rule: wait_loop.raw_induct [rotated, consumes 1, case_names step])
  case (step f w poll deadline i tr rt)
  show ?case
  proof (cases "\<exists>t. w_board w tr (Get_Task i) = Inr (One_Task t) \<and> githubIssueFromTask t = None \<and> of_int (w_clock w tr) < deadline")
    case True
    then have "f w poll deadline i (tr @ [Get_Task i, Sleep poll]) = Some rt" using step.hyps by auto
    then obtain new where "snd rt = (tr @ [Get_Task i, Sleep poll]) @ new" "list_all P new" using step.IH step.prems by blast
    then show ?thesis using step.prems by (intro exI [of _ "[Get_Task i, Sleep poll] @ new"]) simp
  next
    case False
    then have "snd rt = tr \<or> snd rt = tr @ [Get_Task i]"
      using step.hyps by (auto split: if_splits sum.splits reply.splits option.splits)
    then show ?thesis using step.prems by auto
  qed
qed

lemma wait_steps [step_returns, step_events]:
  "punctual w \<Longrightarrow> returns (waitForGithubIssue c w i)"
  "P (Get_Task i) \<Longrightarrow> P (Sleep (ic_poll c)) \<Longrightarrow> adds P (waitForGithubIssue c w i)"
  using wait_stops [of w] wait_events [of w "ic_poll c" _ i _ _ P]
  by (auto simp: returns_def adds_def waitForGithubIssue_def) blast

subsection \<open>The parts of the import\<close>

lemma request_steps [step_returns]:
  "returns (listAllTasks w)" "returns (searchByRoadmapId w i)" "returns (loadLabelMap w)" "returns (ensureLabel c w n s)"
  by (auto simp: listAllTasks_def searchByRoadmapId_def loadLabelMap_def ensureLabel_def
      intro!: step_returns split: reply.splits option.splits)

lemma request_events [step_events]:
  "P List_Tasks \<Longrightarrow> adds P (listAllTasks w)" "P (Search i) \<Longrightarrow> adds P (searchByRoadmapId w i)" "P Get_Labels \<Longrightarrow> adds P (loadLabelMap w)"
  "P (Post_Label n) \<Longrightarrow> P (Sleep (ic_delay c)) \<Longrightarrow> adds P (ensureLabel c w n s)"
  "P ev \<Longrightarrow> P (Sleep (ic_delay c)) \<Longrightarrow> adds P (send c w ev u)"
  by (auto simp: listAllTasks_def searchByRoadmapId_def loadLabelMap_def ensureLabel_def send_def
      intro!: step_events split: reply.splits option.splits)

lemma create_returns [step_returns]: "punctual w \<Longrightarrow> returns (create_task c w t s)"
  by (auto simp: create_task_def link_task_def intro!: step_returns split: reply.splits prod.splits)

lemma task_returns [step_returns]: "punctual w \<Longrightarrow> returns (import_task c w t s)"
  by (auto simp: import_task_def find_task_def Let_def intro!: step_returns split: option.splits)

lemma start_returns [step_returns]: "returns (import_start c w)"
  by (auto simp: import_start_def Let_def intro!: step_returns)

lemma main_returns: "punctual w \<Longrightarrow> returns (import_main c w tasks)"
  by (auto simp: import_main_def import_body_def send_def intro!: step_returns returns_each)

lemma any_events: "adds (\<lambda>_. True) (create_task c w t s)" "adds (\<lambda>_. True) (import_task c w t s)"
  by (auto simp: import_task_def find_task_def create_task_def link_task_def Let_def intro!: step_events
      split: reply.splits option.splits prod.splits)


subsection \<open>What the state holds after the tasks\<close>

text \<open>The board names its tasks: no empty identifier.\<close>

definition names_tasks :: "reply \<Rightarrow> bool" where
  "names_tasks r \<longleftrightarrow>
     (case r of Created i \<Rightarrow> i \<noteq> [] | Found ts \<Rightarrow> list_all (\<lambda>t. bt_id t \<noteq> []) ts
      | Board cols archived \<Rightarrow> list_all (\<lambda>t. bt_id t \<noteq> []) (concat cols @ archived) | _ \<Rightarrow> True)"

definition named :: "world \<Rightarrow> bool" where
  "named w \<longleftrightarrow> (\<forall>tr ev r. w_board w tr ev = Inr r \<longrightarrow> names_tasks r)"

definition named_existing :: "import_state \<Rightarrow> bool" where
  "named_existing s \<longleftrightarrow> (\<forall>b \<in> ran (is_existing s). bt_id b \<noteq> [])"

definition keeps_ids :: "import_state \<Rightarrow> import_state \<Rightarrow> bool" where
  "keeps_ids s s' \<longleftrightarrow> is_existing s' = is_existing s \<and> (\<forall>i. board_id s i \<noteq> [] \<longrightarrow> board_id s' i \<noteq> [])"

lemma link_task_result:
  assumes "link_task c w t i s tr = Some (Inr s', tr')"
  shows "is_phasical s' = is_phasical s \<and> is_existing s' = is_existing s"
proof -
  obtain gh l s3 tr1 tr2 where "ensureLabel c w (rt_domain t) (note_issue (rt_id t) gh s) tr1 = Some (Inr (l, s3), tr2)" "s' = s3"
    using assms unfolding link_task_def bind_Inr case_prod_beta ret_Inr by (metis prod.collapse)
  then show ?thesis
    by (auto simp: ensureLabel_def bind_Inr reply_only note_issue_def split: option.splits if_splits)
qed

lemma create_task_result:
  assumes "create_task c w t s tr = Some (Inr s', tr')" and "named w"
  shows "keeps_ids s s' \<and> board_id s' (rt_id t) \<noteq> []"
proof -
  obtain ev i tr1 where i: "w_board w tr ev = Inr (Created i)"
    and l: "link_task c w t i (s\<lparr>is_phasical := (is_phasical s)(rt_id t \<mapsto> i)\<rparr>) tr1 = Some (Inr s', tr')"
    using assms(1) unfolding create_task_def bind_Inr api_Inr reply_only by blast
  have "i \<noteq> []" using assms(2) i by (force simp: named_def names_tasks_def)
  then show ?thesis using link_task_result [OF l] by (auto simp: keeps_ids_def board_id_def default_def)
qed

lemma search_result_in: "search_result i ts = Some b \<Longrightarrow> b \<in> set ts"
  by (auto simp: search_result_def find_Some_iff split: option.splits list.splits)

lemma import_task_result:
  assumes "import_task c w t s tr = Some (Inr s', tr')" and "ic_apply c" and "named w" and "named_existing s"
  shows "keeps_ids s s' \<and> board_id s' (rt_id t) \<noteq> []"
proof -
  obtain found tr1 where f: "find_task c w t s tr = Some (Inr found, tr1)"
    and r: "(case found of Some b \<Rightarrow> ret (adopt t b s) | None \<Rightarrow> create_task c w t (s\<lparr>is_create := is_create s @ [rt_id t]\<rparr>)) tr1 = Some (Inr s', tr')"
    using assms(1) unfolding import_task_def bind_Inr Let_def if_P [OF assms(2)] by blast
  show ?thesis
  proof (cases found)
    case (Some b)
    have "bt_id b \<noteq> []"
    proof (cases "is_existing s (rt_id t)")
      case None
      then obtain ts where "w_board w tr (Search (rt_id t)) = Inr (Found ts)" "search_result (rt_id t) ts = Some b"
        using f Some assms(2) by (auto simp: find_task_def searchByRoadmapId_def bind_Inr api_Inr reply_only)
      then show ?thesis using assms(3) search_result_in [of "rt_id t" ts b] by (force simp: named_def names_tasks_def list_all_iff)
    qed (use f Some assms(4) in \<open>auto simp: find_task_def named_existing_def ran_def\<close>)
    then show ?thesis using r Some by (auto simp: adopt_def keeps_ids_def board_id_def default_def)
  next
    case None
    then show ?thesis
      using create_task_result [of c w t "s\<lparr>is_create := is_create s @ [rt_id t]\<rparr>" tr1 s' tr'] r assms(3)
      by (simp add: keeps_ids_def board_id_def)
  qed
qed

lemma import_all_result:
  "each (import_task c w) ts s tr = Some (Inr s', tr') \<Longrightarrow> ic_apply c \<Longrightarrow> named w \<Longrightarrow> named_existing s \<Longrightarrow>
     keeps_ids s s' \<and> (\<forall>t \<in> set ts. board_id s' (rt_id t) \<noteq> [])"
proof (induction ts arbitrary: s tr)
  case Nil
  then show ?case by (simp add: keeps_ids_def)
next
  case (Cons t ts)
  then obtain s1 tr1 where 1: "import_task c w t s tr = Some (Inr s1, tr1)" and 2: "each (import_task c w) ts s1 tr1 = Some (Inr s', tr')"
    by (auto simp: bind_Inr)
  have k: "keeps_ids s s1" "board_id s1 (rt_id t) \<noteq> []" using import_task_result [OF 1 Cons.prems(2-4)] by simp_all
  have "keeps_ids s1 s' \<and> (\<forall>t \<in> set ts. board_id s' (rt_id t) \<noteq> [])"
    using Cons.IH [OF 2 Cons.prems(2,3)] Cons.prems(4) k(1) by (simp add: keeps_ids_def named_existing_def)
  then show ?case using k by (simp add: keeps_ids_def)
qed

lemma send_all: "each (send c w) evs u tr = Some (Inr u', tr') \<Longrightarrow> set tr \<union> set evs \<subseteq> set tr'"
proof (induction evs arbitrary: tr u)
  case (Cons ev evs)
  then obtain u1 tr1 where 1: "send c w ev u tr = Some (Inr u1, tr1)" and 2: "each (send c w) evs u1 tr1 = Some (Inr u', tr')"
    by (auto simp: bind_Inr)
  obtain tr0 where "tr0 = tr @ [ev]" "delayAfterWrite c tr0 = Some (Inr u1, tr1)" using 1 by (auto simp: send_def bind_Inr api_Inr)
  then have "set (tr @ [ev]) \<subseteq> set tr1" using adds_prefix [OF delay_steps(2)] by blast
  then show ?case using Cons.IH [OF 2] by auto
qed simp

lemma index_existing_get: "index_existing ts i = find (\<lambda>b. read_id (default [] (bt_description b)) = Some i) (rev ts)"
proof (induction ts rule: rev_induct)
  case (snoc b ts)
  then show ?case by (simp add: index_existing_def split: option.split)
qed (simp add: index_existing_def)

lemma index_existing_in: "index_existing ts i = Some b \<Longrightarrow> b \<in> set ts"
  unfolding index_existing_get by (drule find_SomeD) simp

lemma import_start_result:
  assumes "import_start c w tr = Some (Inr s, tr')" and "named w"
  shows "named_existing s"
proof (cases "ic_apply c")
  case True
  obtain ts tr1 tr2 where l: "listAllTasks w tr1 = Some (Inr ts, tr2)" and ex: "is_existing s = index_existing ts"
    using assms(1) unfolding import_start_def Let_def if_P [OF True] bind_Inr ret_Inr by auto
  then obtain cs ar tr0 where "w_board w tr1 List_Tasks = Inr (Board cs ar)" "ts = concat cs @ ar"
    by (auto simp: listAllTasks_def bind_Inr api_Inr reply_only)
  then have "list_all (\<lambda>b. bt_id b \<noteq> []) ts" using assms(2) by (force simp: named_def names_tasks_def)
  then show ?thesis using ex index_existing_in by (fastforce simp: named_existing_def ran_def list_all_iff)
qed (use assms(1) in \<open>simp add: import_start_def named_existing_def\<close>)


subsection \<open>Properties\<close>

text \<open>A dry run asks nothing of the board: it returns at once without a request, and it plans to
  create every task, epics first, and to skip none, whatever the board already holds.\<close>

theorem dry_run_asks_nothing:
  assumes "\<not> ic_apply c"
  shows "\<exists>s. import_main c w tasks tr = Some (Inr s, tr) \<and> is_create s = map rt_id (epics tasks @ leaves tasks) \<and> is_skip s = []"
proof -
  have "\<exists>s'. each (import_task c w) ts s tr = Some (Inr s', tr) \<and> is_create s' = is_create s @ map rt_id ts \<and> is_skip s' = is_skip s"
    if "is_existing s = Map.empty" for ts s
    using that
  proof (induction ts arbitrary: s)
    case (Cons t ts)
    have "import_task c w t s tr = Some (Inr (s\<lparr>is_create := is_create s @ [rt_id t]\<rparr>), tr)"
      using Cons.prems assms by (simp add: import_task_def find_task_def bind_def ret_def)
    then show ?case using Cons.IH [of "s\<lparr>is_create := is_create s @ [rt_id t]\<rparr>"] Cons.prems by (simp add: bind_def)
  qed (simp add: ret_def)
  moreover obtain s0 where "import_start c w tr = Some (Inr s0, tr)" "is_existing s0 = Map.empty" "is_create s0 = []" "is_skip s0 = []"
    using assms by (simp add: import_start_def ret_def)
  ultimately obtain s' where "each (import_task c w) (epics tasks @ leaves tasks) s0 tr = Some (Inr s', tr)"
    "is_create s' = map rt_id (epics tasks @ leaves tasks)" "is_skip s' = []" by (metis append_Nil)
  then show ?thesis using \<open>import_start c w tr = Some (Inr s0, tr)\<close> assms
    by (simp add: import_main_def import_body_def bind_def ret_def)
qed

definition dry_config :: import_config where "dry_config = import_config_of False Map.empty"

definition dead_board :: world where
  "dead_board = \<lparr>w_board = \<lambda>_ _. Inl ''offline'', w_clock = \<lambda>_. 0\<rparr>"

lemma dry_run_asks_nothing_witness:
  "\<exists>s. import_main dry_config dead_board [] [] = Some (Inr s, []) \<and> is_create s = map rt_id (epics [] @ leaves []) \<and> is_skip s = []"
  by (rule dry_run_asks_nothing) (simp add: dry_config_def import_config_of_def)

text \<open>C35: The import always returns if the clock goes on, however long the board takes to link an issue
  and whatever it answers; one wait asks at most once per polling interval within its time limit
  (and once more), where an interval shorter than a millisecond counts as one.\<close>

theorem import_returns:
  assumes "punctual w"
  shows "import_script audit_passed apply_flag env w tasks tr \<noteq> None \<and>
    (\<exists>r new. waitForGithubIssue c w i tr = Some (r, tr @ new) \<and>
       int (polls new) * tick (ic_poll c) < max 0 \<lceil>ic_poll_max c\<rceil> + tick (ic_poll c))"
proof
  show "import_script audit_passed apply_flag env w tasks tr \<noteq> None"
    using main_returns [OF assms, of "import_config_of apply_flag env" tasks] by (auto simp: import_script_def returns_def throw_def)
  have "\<lceil>of_int (w_clock w tr) + ic_poll_max c\<rceil> - w_clock w tr = \<lceil>ic_poll_max c\<rceil>" by (simp add: add.commute)
  then show "\<exists>r new. waitForGithubIssue c w i tr = Some (r, tr @ new) \<and>
       int (polls new) * tick (ic_poll c) < max 0 \<lceil>ic_poll_max c\<rceil> + tick (ic_poll c)"
    using wait_stops [OF assms, of "ic_poll c" "of_int (w_clock w tr) + ic_poll_max c" i tr] by (auto simp: waitForGithubIssue_def)
qed

definition slow_board :: world where
  "slow_board =
     \<lparr>w_board = \<lambda>_ _. Inr (One_Task \<lparr>bt_id = ''t'', bt_description = None, bt_links = []\<rparr>),
      w_clock = \<lambda>tr. sum_list (map (\<lambda>ev. case ev of Sleep ms \<Rightarrow> tick ms | _ \<Rightarrow> 0) tr)\<rparr>"

lemma import_returns_witness:
  "import_script True True Map.empty slow_board [] [] \<noteq> None \<and>
   (\<exists>r new. waitForGithubIssue dry_config slow_board ''t'' [] = Some (r, [] @ new) \<and>
      int (polls new) * tick (ic_poll dry_config) < max 0 \<lceil>ic_poll_max dry_config\<rceil> + tick (ic_poll dry_config))"
  by (rule import_returns) (simp add: punctual_def slow_board_def)

text \<open>The identifiers a roadmap refers to are those of its tasks.\<close>

definition refs_known :: "roadmap_task list \<Rightarrow> bool" where
  "refs_known tasks \<longleftrightarrow> list_all (\<lambda>(ty, a, b). a \<in> rt_id ` set tasks) (concat (map leaf_relations (leaves tasks)))"

definition all_wired :: "import_state \<Rightarrow> roadmap_task list \<Rightarrow> event list \<Rightarrow> bool" where
  "all_wired s tasks tr \<longleftrightarrow>
     list_all (\<lambda>t. board_id s (rt_id t) \<noteq> [] \<and> Put_Status (board_id s (rt_id t)) READY_STATUS \<in> set tr) tasks \<and>
     list_all (\<lambda>(ty, a, b). Post_Relation (board_id s a) (board_id s b) ty \<in> set tr) (concat (map leaf_relations (leaves tasks)))"

lemma leaf_relations_target: "(ty, a, b) \<in> set (concat (map leaf_relations (leaves tasks))) \<Longrightarrow> b \<in> rt_id ` set tasks"
  by (auto simp: leaf_relations_def leaves_def split: option.splits if_splits)

text \<open>An applied import of a roadmap whose references name its own tasks, when it ends without an
  error, has given every task an identifier on the board, requested every planned relation between
  those identifiers, and set every task to ready: the new ones, and also those it found on the
  board, whatever their state was.\<close>

theorem import_wires_all:
  assumes "import_main c w tasks tr = Some (Inr s, tr')" and "ic_apply c" and "named w" and "refs_known tasks"
  shows "all_wired s tasks tr'"
proof -
  obtain s0 tr0 tr1 tr2 u where st: "import_start c w tr = Some (Inr s0, tr0)"
    and im: "each (import_task c w) (epics tasks @ leaves tasks) s0 tr0 = Some (Inr s, tr1)"
    and rel: "each (send c w) (relation_events s (concat (map leaf_relations (leaves tasks)))) () tr1 = Some (Inr u, tr2)"
    and rdy: "each (send c w) (ready_events s tasks) () tr2 = Some (Inr u, tr')"
    using assms(1,2) unfolding import_main_def import_body_def by (auto simp: bind_Inr split: if_splits)
  have "set (epics tasks @ leaves tasks) = set tasks"
    by (auto simp: epics_def leaves_def intro: task_type.exhaust)
  then have ids: "\<forall>t \<in> set tasks. board_id s (rt_id t) \<noteq> []"
    using import_all_result [OF im assms(2,3) import_start_result [OF st assms(3)]] by simp
  have "Put_Status (board_id s (rt_id t)) READY_STATUS \<in> set tr'" if "t \<in> set tasks" for t
    using send_all [OF rdy] ids that by (auto simp: ready_events_def)
  moreover have "Post_Relation (board_id s a) (board_id s b) ty \<in> set tr'"
    if r: "(ty, a, b) \<in> set (concat (map leaf_relations (leaves tasks)))" for ty a b
  proof -
    have "a \<in> rt_id ` set tasks" using assms(4) r unfolding refs_known_def list_all_iff by blast
    then have "board_id s a \<noteq> []" "board_id s b \<noteq> []" using leaf_relations_target [OF r] ids by auto
    then have "Post_Relation (board_id s a) (board_id s b) ty \<in> set (relation_events s (concat (map leaf_relations (leaves tasks))))"
      using r by (force simp: relation_events_def)
    then show ?thesis using send_all [OF rel] send_all [OF rdy] by blast
  qed
  ultimately show ?thesis using ids unfolding all_wired_def list_all_iff by (fastforce simp del: set_concat set_map)
qed

definition sample_roadmap :: "roadmap_task list" where
  "sample_roadmap = run register []
     [RegEpic ''E01'' ''Epic'' ''web'' (no_opts\<lparr>o_context := Some ''A''\<rparr>), RegLeaf ''E01-01'' ''E01'' ''Leaf'' ''web'' no_opts]"

definition live_config :: import_config where
  "live_config =
     \<lparr>ic_apply = True, ic_key = Some ''k'', ic_user = Some ''u'', ic_base = normalizeApiBase ''https://board/'', ic_delay = 0, ic_poll = 0,
      ic_poll_max = 0\<rparr>"

text \<open>A board that lists nothing and finds one task, with a given description, for every search.\<close>

definition finding_board :: "string \<Rightarrow> world" where
  "finding_board d =
     \<lparr>w_board = \<lambda>tr ev. Inr (case ev of List_Tasks \<Rightarrow> Board [] [] | Get_Labels \<Rightarrow> Label_List []
        | Search i \<Rightarrow> Found [\<lparr>bt_id = ''board-'' @ i, bt_description = Some d, bt_links = []\<rparr>] | _ \<Rightarrow> Done),
      w_clock = \<lambda>_. 0\<rparr>"

lemma finding_board_named: "named (finding_board d)"
  by (auto simp: named_def names_tasks_def finding_board_def split: event.splits)

lemma import_wires_all_witness:
  "\<exists>s tr. import_main live_config (finding_board []) sample_roadmap [] = Some (Inr s, tr) \<and> all_wired s sample_roadmap tr"
proof -
  have "case import_main live_config (finding_board []) sample_roadmap [] of Some (Inr _, _) \<Rightarrow> True | _ \<Rightarrow> False" by code_simp
  then obtain s tr where r: "import_main live_config (finding_board []) sample_roadmap [] = Some (Inr s, tr)"
    by (auto split: option.splits sum.splits)
  have "ic_apply live_config" "refs_known sample_roadmap" by code_simp+
  then show ?thesis using import_wires_all [OF r _ finding_board_named] r by blast
qed


subsection \<open>Running the import again\<close>

definition issue_url :: "nat \<Rightarrow> string" where
  "issue_url n = ''https://github.com/'' @ GITHUB_REPO @ ''/issues/'' @ nat_string n"

text \<open>The descriptions the import sends for a task: its own, or below a link to its parent's issue.\<close>

definition sent_description :: "roadmap_task \<Rightarrow> string \<Rightarrow> bool" where
  "sent_description t d \<longleftrightarrow> d = buildDescription t None \<or> (\<exists>n. d = buildDescription t (Some (issue_url n)))"

lemma js_includes_hd: "js_includes d (x # m) \<Longrightarrow> x \<in> set d"
  by (induction d) (auto simp: starts_with_conv)

lemma parent_line_unmarked: "\<not> js_includes (''**Parent:** '' @ issue_url n) ID_MARKER"
proof -
  have "CHR ''*'' \<notin> set (nat_string n)" using nat_string_digits [of n] by (fastforce simp: is_digit_def)
  then have "\<not> js_includes (nat_string n) ID_MARKER"
    using js_includes_hd [of "nat_string n" "CHR ''*''" "tl ID_MARKER"] by (simp add: ID_MARKER_def) blast
  then show ?thesis by (simp add: issue_url_def GITHUB_REPO_def ID_MARKER_def)
qed

lemma read_below_line:
  assumes "\<not> js_includes q ID_MARKER"
  shows "read_id (q @ [LF, LF] @ d) = read_id d"
proof -
  have "exec_search ROADMAP_ID_RE ((q @ [LF, LF]) @ d) = map_option (apfst ((@) (q @ [LF, LF]))) (exec_search ROADMAP_ID_RE d)"
  proof (rule exec_search_skip)
    fix k assume k: "k < length (q @ [LF, LF])"
    consider "k < length q" | "k = length q" | "k = Suc (length q)" using k by fastforce
    then show "\<not> starts_with (drop k (q @ [LF, LF]) @ d) ID_MARKER"
    proof cases
      case 1
      then have e: "drop k (q @ [LF, LF]) @ d = drop k q @ LF # LF # d" by simp
      show ?thesis unfolding e using starts_with_break [OF marker_chars(1)] js_includes_drop [OF 1] assms by blast
    qed (simp_all add: ID_MARKER_def LF_def)
  qed
  then show ?thesis
    by (cases "exec_search ROADMAP_ID_RE d") (auto simp: read_id_def apfst_def map_prod_def)
qed

lemma sent_description_read: "sent_description t d \<Longrightarrow> read_id d = read_id (rt_description t)"
  using read_below_line [OF parent_line_unmarked, of _ "rt_description t"]
  by (auto simp: sent_description_def buildDescription_def)

definition posts_task :: "event \<Rightarrow> bool" where
  "posts_task ev \<longleftrightarrow> (case ev of Post_Task _ \<Rightarrow> True | _ \<Rightarrow> False)"

lemma posts_task_simps [simp]:
  "\<not> posts_task Get_Status" "\<not> posts_task List_Tasks" "\<not> posts_task Get_Labels" "\<not> posts_task (Sleep ms)"
  "\<not> posts_task (Post_Relation a b ty)" "\<not> posts_task (Put_Status a st)"
  by (simp_all add: posts_task_def)

text \<open>The board lists every task as the import sent it.\<close>

definition lists_all :: "board_task list \<Rightarrow> roadmap_task list \<Rightarrow> bool" where
  "lists_all ts tasks \<longleftrightarrow>
     list_all (\<lambda>t. list_ex (\<lambda>b. \<exists>d. bt_description b = Some d \<and> sent_description t d) ts) tasks"

definition marked :: "roadmap_task list \<Rightarrow> bool" where
  "marked tasks \<longleftrightarrow> list_all (\<lambda>t. read_id (rt_description t) = Some (rt_id t)) tasks"

lemma listed_existing:
  assumes "lists_all ts tasks" and "marked tasks" and "t \<in> set tasks"
  shows "index_existing ts (rt_id t) \<noteq> None"
proof -
  obtain b d where "b \<in> set ts" "bt_description b = Some d" "sent_description t d"
    using assms(1,3) by (auto simp: lists_all_def list_all_iff list_ex_iff)
  then have "b \<in> set ts \<and> read_id (default [] (bt_description b)) = Some (rt_id t)"
    using sent_description_read [of t d] assms(2,3) by (auto simp: default_def marked_def list_all_iff)
  then show ?thesis unfolding index_existing_get by (auto simp: find_None_iff)
qed

lemma adopt_all:
  "(\<And>t. t \<in> set ts \<Longrightarrow> is_existing s (rt_id t) \<noteq> None) \<Longrightarrow>
     \<exists>s'. each (import_task c w) ts s tr = Some (Inr s', tr) \<and> is_create s' = is_create s"
proof (induction ts arbitrary: s)
  case (Cons t ts)
  obtain b where "is_existing s (rt_id t) = Some b" using Cons.prems [of t] by auto
  then have "import_task c w t s tr = Some (Inr (adopt t b s), tr)"
    by (simp add: import_task_def find_task_def bind_def ret_def)
  moreover have "\<exists>s'. each (import_task c w) ts (adopt t b s) tr = Some (Inr s', tr) \<and> is_create s' = is_create (adopt t b s)"
    using Cons.prems by (intro Cons.IH) (simp add: adopt_def)
  ultimately show ?case by (auto simp: bind_def adopt_def)
qed (simp add: ret_def)

text \<open>Running the import again creates no task: if the board lists, for every task of a roadmap that
  passed the marker check, a task with the description the import sent, then a run makes no request
  that creates one, whatever else the board answers and even if the run ends in an error.\<close>

theorem rerun_creates_nothing:
  assumes "w_board w [Get_Status] List_Tasks = Inr (Board cols archived)" and "lists_all (concat cols @ archived) tasks"
    and "marked tasks" and "import_main c w tasks [] = Some (r, tr')" and "ic_apply c"
  shows "filter posts_task tr' = []"
proof -
  let ?ts = "concat cols @ archived"
  have tail: "adds (\<lambda>ev. \<not> posts_task ev) (each (send c w) (relation_events s rs) ())"
    "adds (\<lambda>ev. \<not> posts_task ev) (each (send c w) (ready_events s tasks) ())" for s rs
    by (auto intro!: adds_each step_events simp: relation_events_def ready_events_def split: if_splits)
  have start: "adds (\<lambda>ev. \<not> posts_task ev) (import_start c w)"
    by (auto simp: import_start_def Let_def intro!: step_events)
  have "\<exists>new. tr' = [] @ new \<and> list_all (\<lambda>ev. \<not> posts_task ev) new"
  proof (cases "import_main c w tasks = import_body c w tasks")
    case False
    then have "tr' = []" using assms(4) by (auto simp: import_main_def throw_def split: if_splits)
    then show ?thesis by simp
  next
    case True
    then have body: "import_body c w tasks [] = Some (r, tr')" using assms(4) by simp
    obtain r0 tr0 where st: "import_start c w [] = Some (r0, tr0)"
      using start_returns [of c w] by (auto simp: returns_def) blast
    obtain new0 where n0: "tr0 = [] @ new0" "list_all (\<lambda>ev. \<not> posts_task ev) new0" using start st unfolding adds_def by blast
    show ?thesis
    proof (cases r0)
      case (Inl e)
      then have "tr' = tr0" using body st by (simp add: import_body_def bind_def)
      then show ?thesis using n0 by blast
    next
      case (Inr s0)
      have ex: "is_existing s0 = index_existing ?ts"
        using st [unfolded Inr] assms(1,5) by (auto simp: import_start_def bind_Inr api_Inr listAllTasks_def reply_only)
      have "is_existing s0 (rt_id t) \<noteq> None" if "t \<in> set (epics tasks @ leaves tasks)" for t
        using that unfolding ex by (intro listed_existing [OF assms(2,3)]) (auto simp: epics_def leaves_def)
      from adopt_all [OF this] obtain s where
        im: "each (import_task c w) (epics tasks @ leaves tasks) s0 tr0 = Some (Inr s, tr0)" by blast
      let ?rest = "bind (each (send c w) (relation_events s (concat (map leaf_relations (leaves tasks)))) ())
        (\<lambda>_. bind (each (send c w) (ready_events s tasks) ()) (\<lambda>_. ret s))"
      have "import_body c w tasks [] = ?rest tr0"
        unfolding import_body_def using assms(5) st Inr im by (simp add: bind_def [of "import_start c w"] bind_def [of "each (import_task c w) ts s'" for ts s'])
      then have "?rest tr0 = Some (r, tr')" using body by simp
      moreover have "adds (\<lambda>ev. \<not> posts_task ev) ?rest" using tail by (intro step_events)
      ultimately obtain new where "tr' = tr0 @ new" "list_all (\<lambda>ev. \<not> posts_task ev) new" unfolding adds_def by blast
      then show ?thesis using n0 by simp
    qed
  qed
  then show ?thesis by (auto simp: list_all_iff filter_empty_conv)
qed


definition listing_board :: "roadmap_task list \<Rightarrow> world" where
  "listing_board tasks =
     \<lparr>w_board = \<lambda>tr ev. Inr (case ev of
          List_Tasks \<Rightarrow> Board [map (\<lambda>t. \<lparr>bt_id = rt_id t, bt_description = Some (buildDescription t None), bt_links = []\<rparr>) tasks] []
        | Get_Labels \<Rightarrow> Label_List [] | _ \<Rightarrow> Done),
      w_clock = \<lambda>_. 0\<rparr>"

lemma rerun_creates_nothing_witness:
  "\<exists>r tr. import_main live_config (listing_board sample_roadmap) sample_roadmap [] = Some (r, tr) \<and> filter posts_task tr = []"
proof -
  have "case import_main live_config (listing_board sample_roadmap) sample_roadmap [] of Some _ \<Rightarrow> True | None \<Rightarrow> False" by code_simp
  then obtain r tr where r: "import_main live_config (listing_board sample_roadmap) sample_roadmap [] = Some (r, tr)"
    by (auto split: option.splits)
  let ?ts = "map (\<lambda>t. \<lparr>bt_id = rt_id t, bt_description = Some (buildDescription t None), bt_links = []\<rparr>) sample_roadmap"
  have "w_board (listing_board sample_roadmap) [Get_Status] List_Tasks = Inr (Board [?ts] [])" by (simp add: listing_board_def)
  moreover have "lists_all (concat [?ts] @ []) sample_roadmap"
    by (auto simp: lists_all_def list_all_iff list_ex_iff sent_description_def)
  moreover have "marked sample_roadmap" "ic_apply live_config" by code_simp+
  ultimately show ?thesis using rerun_creates_nothing [of "listing_board sample_roadmap" "[?ts]" "[]"] r by blast
qed

text \<open>C36: But a task that is not listed is not always created: if the board's search answers any tasks at
  all for its marker, and none of them carries it, the first of them is taken for the task. The task
  is counted as existing and skipped, its relations are wired to that other task, and that other
  task is set to ready.\<close>

theorem search_adopts_any:
  assumes "ic_apply c" and "is_existing s (rt_id t) = None" and "w_board w tr (Search (rt_id t)) = Inr (Found (b # bs))"
    and "find (has_marker (rt_id t)) (b # bs) = None"
  shows "import_task c w t s tr = Some (Inr (adopt t b s), tr @ [Search (rt_id t)]) \<and>
    is_skip (adopt t b s) = is_skip s @ [rt_id t] \<and> board_id (adopt t b s) (rt_id t) = bt_id b"
  using assms
  by (simp add: import_task_def find_task_def searchByRoadmapId_def search_result_def bind_def api_def ret_def adopt_def
      board_id_def default_def)

definition no_state :: import_state where
  "no_state = \<lparr>is_existing = Map.empty, is_labels = Map.empty, is_phasical = Map.empty, is_github = Map.empty, is_create = [], is_skip = []\<rparr>"

definition other_task :: board_task where
  "other_task = \<lparr>bt_id = ''board-E01'', bt_description = Some ''Roadmap ID: none'', bt_links = []\<rparr>"

lemma search_adopts_any_witness:
  "\<exists>t. import_task live_config (finding_board ''Roadmap ID: none'') t no_state [] = Some (Inr (adopt t other_task no_state), [] @ [Search (rt_id t)]) \<and>
     is_skip (adopt t other_task no_state) = is_skip no_state @ [rt_id t] \<and> board_id (adopt t other_task no_state) (rt_id t) = bt_id other_task"
proof
  have i: "rt_id (hd sample_roadmap) = ''E01''" "find (has_marker ''E01'') [other_task] = None" by code_simp+
  show "import_task live_config (finding_board ''Roadmap ID: none'') (hd sample_roadmap) no_state [] =
      Some (Inr (adopt (hd sample_roadmap) other_task no_state), [] @ [Search (rt_id (hd sample_roadmap))]) \<and>
     is_skip (adopt (hd sample_roadmap) other_task no_state) = is_skip no_state @ [rt_id (hd sample_roadmap)] \<and>
     board_id (adopt (hd sample_roadmap) other_task no_state) (rt_id (hd sample_roadmap)) = bt_id other_task"
    using i by (intro search_adopts_any [where bs = "[]"]) (simp_all add: live_config_def no_state_def finding_board_def other_task_def)
qed

text \<open>A marker is also found in the description of another task whose identifier goes on.\<close>

lemma marker_of_longer: "has_marker ident (b\<lparr>bt_description := Some (withRoadmapId (ident @ rest) d)\<rparr>)"
proof -
  have "js_includes e (m @ n) \<Longrightarrow> js_includes e m" for e m n by (induction e) (auto simp: starts_with_conv)
  then show ?thesis using withRoadmapId_marked [of "ident @ rest" d] by (simp add: has_marker_def)
qed

end
