(* ===== verification/Roadmap_Audit.thy ===== *)
theory Roadmap_Audit
  imports Roadmap_Registry Import_Runs
begin

section \<open>The audits of the roadmap (\<open>scripts/audit-roadmap-spec.mjs\<close>, \<open>audit-roadmap-intake.mjs\<close>)\<close>

text \<open>
  Both audits as functions of the roadmap: the requirements with the tasks that match them, what is
  inconsistent, what blocks the import, and the exit code. What they print of this is left out. The
  registry never sets \<open>related_tasks\<close>, so the tasks have none. \<open>toLowerCase\<close> acts on ASCII letters.
\<close>

subsection \<open>Requirements\<close>

definition lower_c :: "char \<Rightarrow> char" where
  "lower_c c = (let n = (of_char c :: nat) in if 65 \<le> n \<and> n \<le> 90 then char_of (n + 32) else c)"

definition to_lower :: "string \<Rightarrow> string" where
  "to_lower s = map lower_c s"

definition task_text :: "roadmap_task \<Rightarrow> string" where
  "task_text t = to_lower (rt_title t @ [LF] @ rt_description t)"

text \<open>A \<open>match\<close> function of the table: tests of the text and of the domain.\<close>

datatype pat = Has string | In_Domain string | And pat pat | Or pat pat | Neg pat

primrec matches :: "pat \<Rightarrow> roadmap_task \<Rightarrow> bool" where
  "matches (Has s) t = js_includes (task_text t) s"
| "matches (In_Domain d) t = (rt_domain t = d)"
| "matches (And p q) t = (matches p t \<and> matches q t)"
| "matches (Or p q) t = (matches p t \<or> matches q t)"
| "matches (Neg p) t = (\<not> matches p t)"

record requirement =
  rq_id :: string
  rq_area :: string
  rq_requirement :: string
  rq_match :: pat

definition req :: "string \<Rightarrow> string \<Rightarrow> string \<Rightarrow> pat \<Rightarrow> requirement" where
  "req i a r p = \<lparr>rq_id = i, rq_area = a, rq_requirement = r, rq_match = p\<rparr>"

definition REQ_API :: "requirement list" where
  "REQ_API =
    [req ''API-AUTH-LOGIN'' ''api'' ''POST /api/v1/auth/login'' (Has ''auth/login''),
     req ''API-AUTH-LOGOUT'' ''api'' ''POST /api/v1/auth/logout'' (Has ''auth/logout''),
     req ''API-AUTH-SESSION'' ''api'' ''GET /api/v1/auth/session'' (Has ''auth/session''),
     req ''API-HEALTHZ'' ''api'' ''GET /healthz'' (Has ''/healthz''),
     req ''API-STATUS'' ''api'' ''GET /api/v1/status'' (Has ''/api/v1/status''),
     req ''API-POLL-TRIGGER'' ''api'' ''POST /api/v1/poll/trigger'' (Has ''poll/trigger''),
     req ''API-POLL-RUNS'' ''api'' ''GET /api/v1/poll/runs'' (Or (Or (Has ''get /api/v1/poll/runs paginated'') (Has ''get /api/v1/poll/runs returns'')) (And (And (Has ''poll/runs'') (Neg (Has ''poll/runs/{''))) (Neg (Has ''poll/runs/:id'')))),
     req ''API-POLL-RUN-ID'' ''api'' ''GET /api/v1/poll/runs/{id}'' (Or (Has ''poll/runs/{id}'') (Has ''poll/runs/:id'')),
     req ''API-SETTINGS-GET'' ''api'' ''GET /api/v1/settings'' (Or (Has ''get /api/v1/settings'') (And (Has ''/api/v1/settings'') (Has ''get''))),
     req ''API-SETTINGS-PATCH'' ''api'' ''PATCH /api/v1/settings'' (Or (Has ''patch /api/v1/settings'') (And (Has ''/api/v1/settings'') (Has ''patch''))),
     req ''API-INTEGRATIONS-CRUD'' ''api'' ''Integrations CRUD + test'' (Has ''/api/v1/integrations''),
     req ''API-TICKET-PROJECTS'' ''api'' ''Ticket projects CRUD'' (Has ''ticket-projects''),
     req ''API-REPOS'' ''api'' ''Monitored repos CRUD'' (Has ''/api/v1/repos''),
     req ''API-NOTIFICATIONS'' ''api'' ''Notification targets CRUD + test'' (Has ''notification-targets'')]"

definition REQ_ROUTES :: "requirement list" where
  "REQ_ROUTES =
    [req ''UI-LOGIN'' ''web'' ''/login page'' (And (In_Domain ''web'') (Or (Has ''/login'') (Has ''login page''))),
     req ''UI-DASHBOARD'' ''web'' ''Dashboard /'' (And (In_Domain ''web'') (Has ''dashboard'')),
     req ''UI-REPOS'' ''web'' ''/repos page'' (And (In_Domain ''web'') (Has ''/repos'')),
     req ''UI-INTEGRATIONS'' ''web'' ''/integrations page'' (And (In_Domain ''web'') (Has ''/integrations'')),
     req ''UI-TICKET-PROJECTS'' ''web'' ''/ticket-projects page'' (Or (And (In_Domain ''web'') (Has ''ticket-projects'')) (Has ''ticket projects'')),
     req ''UI-NOTIFICATIONS'' ''web'' ''/notifications page'' (And (In_Domain ''web'') (Has ''/notifications'')),
     req ''UI-SETTINGS'' ''web'' ''/settings page'' (And (In_Domain ''web'') (Has ''/settings''))]"

definition REQ_HOOKS :: "requirement list" where
  "REQ_HOOKS =
    [req ''HOOK-SESSION'' ''web'' ''useSession'' (Has ''usesession''),
     req ''HOOK-STATUS'' ''web'' ''useStatus'' (Has ''usestatus''),
     req ''HOOK-REPOS'' ''web'' ''useRepos'' (Has ''userepos''),
     req ''HOOK-INTEGRATIONS'' ''web'' ''useIntegrations'' (Has ''useintegrations''),
     req ''HOOK-TICKET-PROJECTS'' ''web'' ''useTicketProjects'' (Has ''useticketprojects''),
     req ''HOOK-NOTIFICATIONS'' ''web'' ''useNotificationTargets'' (Has ''usenotificationtargets''),
     req ''HOOK-SETTINGS'' ''web'' ''useSettings'' (Has ''usesettings''),
     req ''HOOK-POLL-RUNS'' ''web'' ''usePollRuns'' (Has ''usepollruns''),
     req ''HOOK-POLL-RUN'' ''web'' ''usePollRun'' (Has ''usepollrun''),
     req ''HOOK-POLL-TRIGGER'' ''web'' ''useTriggerPoll'' (Has ''usetriggerpoll'')]"

definition REQ_POLICY :: "requirement list" where
  "REQ_POLICY =
    [req ''I18N-NEXT-INTL'' ''web'' ''next-intl provider + messages/en.json'' (And (Has ''next-intl'') (Has ''messages/en.json'')),
     req ''I18N-ESLINT'' ''web'' ''eslint-plugin-i18next no-literal-string'' (Or (Has ''eslint-plugin-i18next'') (Has ''i18next/no-literal-string'')),
     req ''DB-MIGRATE-DIFF'' ''db'' ''scripts/migrate-diff.mjs sqldiff workflow'' (And (Has ''migrate-diff'') (Has ''sqldiff'')),
     req ''DB-CHECK'' ''db'' ''npm run db:check migration drift gate'' (Or (Has ''db:check'') (Has ''check-migrations-sync'')),
     req ''DB-SCHEMA-PATH'' ''db'' ''db/schema.sql canonical path'' (Has ''db/schema.sql''),
     req ''CI-DB-CHECK'' ''ci'' ''db:check in CI workflow'' (And (In_Domain ''ci'') (Has ''db:check'')),
     req ''SRC-GITHUB'' ''backend'' ''GitHub source provider'' (And (Has ''github'') (Has ''source'')),
     req ''SRC-GITLAB'' ''backend'' ''GitLab source provider'' (And (Has ''gitlab'') (Has ''source'')),
     req ''SRC-GITEA'' ''backend'' ''Gitea/Forgejo/Codeberg source'' (Or (Or (Has ''gitea'') (Has ''forgejo'')) (Has ''codeberg'')),
     req ''TKT-PHASICAL'' ''backend'' ''Phasical ticket provider'' (And (Has ''phasical'') (Has ''ticket'')),
     req ''TKT-JIRA'' ''backend'' ''Jira ticket provider'' (Or (And (Has ''jira'') (Has ''ticket'')) (Has ''jira ticket provider'')),
     req ''TKT-LINEAR'' ''backend'' ''Linear ticket provider'' (Or (And (Has ''linear'') (Has ''ticket'')) (Has ''linear ticket provider'')),
     req ''POLL-BASELINE'' ''backend'' ''baseline poll action'' (Has ''baseline''),
     req ''POLL-SKIP'' ''backend'' ''skip poll action'' (And (Has ''skip'') (Has ''poll'')),
     req ''POLL-SUPERSEDE'' ''backend'' ''supersede policy'' (Has ''supersede''),
     req ''POLL-MERGE'' ''backend'' ''merge policy'' (Or (Has ''merge policy'') (And (Has ''merge'') (Has ''open ticket''))),
     req ''POLL-SKIP-OPEN'' ''backend'' ''skip_if_open policy'' (Or (Has ''skip_if_open'') (Has ''skip open'')),
     req ''TICKET-CONTENT'' ''backend'' (''Ticket title Release: format '' @ [CHR 0xC2] @ [CHR 0xA7] @ ''5.4'') (Or (Or (Has ''release:'') (Has ''ticket content'')) (Has ([CHR 0xC2] @ [CHR 0xA7] @ ''5.4'')))]"

definition REQ_INFRA :: "requirement list" where
  "REQ_INFRA =
    [req ''DOCKER-COMPOSE'' ''ci'' ''docker-compose single service'' (Has ''docker-compose''),
     req ''DOCKERFILE'' ''ci'' ''Multi-stage Dockerfile'' (Has ''dockerfile''),
     req ''CI-WORKFLOWS'' ''ci'' (''GitHub Actions workflows '' @ [CHR 0xC2] @ [CHR 0xA7] @ ''11'') (Has ''.github/workflows''),
     req ''PROXY-GO'' ''web'' ''/api/go proxy'' (Has ''/api/go''),
     req ''LOGOUT-UI'' ''web'' ''Logout UI control'' (And (Has ''logout'') (In_Domain ''web'')),
     req ''POLL-RUNS-UI'' ''web'' ''Poll run history UI consumes GET poll/runs'' (And (And (In_Domain ''web'') (Has ''poll run'')) (Or (Has ''history'') (Has ''runs'')))]"

definition REQ_DETAIL :: "requirement list" where
  "REQ_DETAIL =
    [req ''CLASSIFY-STATUS'' ''backend'' (''ClassifyStatus helper '' @ [CHR 0xC2] @ [CHR 0xA7] @ ''5.2'') (Has ''classifystatus''),
     req ''LIVE-TICKET-STATUS'' ''backend'' (''Live GetTicketStatus before policy '' @ [CHR 0xC2] @ [CHR 0xA7] @ ''5.2'') (Or (Has ''getticketstatus'') (And (Has ''live'') (Has ''ticket status''))),
     req ''SUPERSEDE-COMMENT'' ''backend'' (''Supersede comment on old ticket '' @ [CHR 0xC2] @ [CHR 0xA7] @ ''5.2.1'') (And (Has ''supersede'') (Or (Has ''comment'') (Has ''addticketcomment''))),
     req ''TICKETS-SUPERSEDED'' ''backend'' (''tickets_superseded counter '' @ [CHR 0xC2] @ [CHR 0xA7] @ ''5.6'') (Or (Has ''tickets_superseded'') (Has ''ticketssuperseded'')),
     req ''API-HAS-SECRET'' ''api'' (''hasSecret in integration list '' @ [CHR 0xC2] @ [CHR 0xA7] @ ''7.3'') (Has ''hassecret''),
     req ''API-DELETE-409'' ''api'' (''DELETE 409 when referenced '' @ [CHR 0xC2] @ [CHR 0xA7] @ ''7.3'' @ [CHR 0xE2] @ [CHR 0x80] @ [CHR 0x93] @ ''7.4'') (And (Has ''409'') (Has ''referenced'')),
     req ''API-POLL-202'' ''api'' (''POST poll/trigger 202 async '' @ [CHR 0xC2] @ [CHR 0xA7] @ ''7.1'') (And (Has ''poll/trigger'') (Has ''202'')),
     req ''API-STATUS-FULL'' ''api'' (''GET /status full JSON repos[] '' @ [CHR 0xC2] @ [CHR 0xA7] @ ''7.1'') (And (Has ''/api/v1/status'') (Or (Has ''ticketprojectname'') (Has ''repos[]''))),
     req ''API-NOTIF-TARGET-IDS'' ''api'' (''notificationTargetIds on repos '' @ [CHR 0xC2] @ [CHR 0xA7] @ ''7.5'') (Has ''notificationtargetids''),
     req ''API-SOURCE-INTEGRATION'' ''api'' (''sourceIntegrationId on repos '' @ [CHR 0xC2] @ [CHR 0xA7] @ ''7.5'') (Has ''sourceintegrationid''),
     req ''SHELL-FRAME'' ''web'' (''COSS Frame p-frame-3 '' @ [CHR 0xC2] @ [CHR 0xA7] @ ''8.1'') (Or (Has ''p-frame-3'') (Has ''appframe'')),
     req ''SHELL-BREADCRUMB'' ''web'' (''COSS Breadcrumb p-breadcrumb-3 '' @ [CHR 0xC2] @ [CHR 0xA7] @ ''8.1'') (Or (Has ''p-breadcrumb-3'') (Has ''breadcrumb'')),
     req ''SHELL-TOASTER'' ''web'' (''COSS Toaster p-toast-2 '' @ [CHR 0xC2] @ [CHR 0xA7] @ ''8.1'') (Or (Has ''p-toast-2'') (Has ''toaster'')),
     req ''SHELL-SPINNER'' ''web'' (''COSS Spinner p-spinner-1 '' @ [CHR 0xC2] @ [CHR 0xA7] @ ''8.1'') (Or (Has ''p-spinner-1'') (Has ''spinner'')),
     req ''DASH-REPO-TABLE'' ''web'' (''Dashboard repo status table p-table-4 '' @ [CHR 0xC2] @ [CHR 0xA7] @ ''8.3'') (Or (Has ''p-table-4'') (Has ''repo status table'')),
     req ''REPOS-NOTIF-CHECKBOX'' ''web'' (''Repos notification targets checkbox '' @ [CHR 0xC2] @ [CHR 0xA7] @ ''8.3'') (Or (Has ''p-checkbox-group-1'') (Has ''notification targets checkbox'')),
     req ''MODERNC-SQLITE'' ''db'' ''modernc.org/sqlite driver stack.html'' (Has ''modernc''),
     req ''GITEA-COMPAT'' ''backend'' (''GiteaCompatibleSource shared client '' @ [CHR 0xC2] @ [CHR 0xA7] @ ''6'') (Or (Has ''giteacompatiblesource'') (Has ''gitea_compatible'')),
     req ''CI-BUILDCACHE'' ''ci'' (''GHCR buildcache tag '' @ [CHR 0xC2] @ [CHR 0xA7] @ ''11'') (Has ''buildcache''),
     req ''CI-CONCURRENCY'' ''ci'' (''cancel-in-progress concurrency '' @ [CHR 0xC2] @ [CHR 0xA7] @ ''11'') (Or (Has ''cancel-in-progress'') (Has ''concurrency'')),
     req ''PUBLISHED-AT'' ''backend'' (''publishedAt in ticket content '' @ [CHR 0xC2] @ [CHR 0xA7] @ ''5.4'') (Has ''publishedat''),
     req ''TAG-STRING-EQ'' ''backend'' (''Poll tag skip uses string equality '' @ [CHR 0xC2] @ [CHR 0xA7] @ ''5.1'') (Or (Or (Has ''string equal'') (And (Has ''exact'') (Has ''tag''))) (Has ''tag string equals'')),
     req ''ENCRYPT-WIRE'' ''backend'' (''base64 nonce+ciphertext wire format '' @ [CHR 0xC2] @ [CHR 0xA7] @ ''4.8'') (Or (Has ''base64(nonce'') (And (Has ''base64'') (Has ''nonce''))),
     req ''CRON-SCHEDULER'' ''backend'' ''robfig/cron poll scheduler'' (Has ''robfig/cron''),
     req ''BOOTSTRAP-NO-UI'' ''backend'' ''Admin bootstrap env+CLI only no register'' (Or (Has ''seed-admin'') (Has ''bootstrap_admin'')),
     req ''LINEAR-STATEID'' ''backend'' ''Linear stateId mapping MVP'' (Has ''stateid'')]"

definition REQUIREMENTS :: "requirement list" where
  "REQUIREMENTS = REQ_API @ REQ_ROUTES @ REQ_HOOKS @ REQ_POLICY @ REQ_INFRA @ REQ_DETAIL"

definition hits :: "roadmap_task list \<Rightarrow> requirement \<Rightarrow> roadmap_task list" where
  "hits tasks r = filter (matches (rq_match r)) (leaves tasks)"

definition gaps :: "roadmap_task list \<Rightarrow> requirement list" where
  "gaps tasks = filter (\<lambda>r. hits tasks r = []) REQUIREMENTS"

text \<open>\<open>coverage.find(\<dots>)?.hits.length\<close>: the number of tasks, zero for an unknown requirement.\<close>

definition covered :: "roadmap_task list \<Rightarrow> string \<Rightarrow> bool" where
  "covered tasks i = (case find (\<lambda>r. rq_id r = i) REQUIREMENTS of None \<Rightarrow> False | Some r \<Rightarrow> hits tasks r \<noteq> [])"

definition API_UI_PAIRS :: "(string \<times> string \<times> string) list" where
  "API_UI_PAIRS =
     [(''API-POLL-RUNS'', ''POLL-RUNS-UI'', ''GET poll/runs needs dashboard/history UI''),
      (''API-POLL-RUN-ID'', ''POLL-RUNS-UI'', ''GET poll/runs/{id} needs run detail UI''),
      (''API-AUTH-LOGOUT'', ''LOGOUT-UI'', ''logout endpoint needs shell logout control'')]"

definition drift :: "roadmap_task list \<Rightarrow> (string \<times> string \<times> string) list" where
  "drift tasks = filter (\<lambda>(a, ui, note). covered tasks a \<and> \<not> covered tasks ui) API_UI_PAIRS"

definition MVP_AC :: "(nat \<times> string list) list" where
  "MVP_AC =
     [(1, [''login'', ''email'', ''password'']), (2, [''eight'', ''8 kind'', ''integration'', ''hassecret'']),
      (3, [''ticket project'', ''status_mapping'', ''on_open_ticket'']), (4, [''monitored repo'', ''source'', ''ticket'']),
      (5, [''test connection'', ''integration test'']), (6, [''baseline'']), (7, [''skip'', ''identical tag'']),
      (8, [''create ticket'', ''new release'']), (9, [''supersede'', ''tickets_superseded'', ''comment'']),
      (10, [''merge'', ''skip_if_open'']), (11, [''status mapping'', ''per ticket project'']), (12, [''shoutrrr'', ''notification'']),
      (13, [''mock'', ''ci'', ''provider'']), (14, [''docker compose'', ''dashboard'', ''manual poll'']),
      (15, [''ci.yml'', ''workflow'', ''github actions''])]"

definition mvp_hits :: "roadmap_task list \<Rightarrow> (nat \<times> nat) list" where
  "mvp_hits tasks = map (\<lambda>(n, kw). (n, length (filter (\<lambda>t. list_ex (js_includes (task_text t)) kw) (leaves tasks)))) MVP_AC"

subsection \<open>Consistency\<close>

definition allText :: "roadmap_task list \<Rightarrow> string" where
  "allText tasks = to_lower (join_with [LF] (map (\<lambda>t. rt_id t @ [LF] @ rt_title t @ [LF] @ rt_description t) tasks))"

definition STALE :: "(string \<times> string \<times> string) list" where
  "STALE =
     [(''STALE-DOCS-SCHEMA'', ''docs/schema.sql'', ''Schema moved to db/schema.sql''),
      (''STALE-ATLAS'', ''atlas'', ''Atlas removed '' @ em_dash @ '' use sqldiff migrate-diff''),
      (''STALE-HAND-MIGRATION'', ''copied from docs/schema'', ''Hand-copy migrations forbidden''),
      (''STALE-MIGRATE-CREATE'', ''migrate create'', ''Use migrate-diff, not migrate create'')]"

definition staleHits :: "roadmap_task list \<Rightarrow> (string \<times> string \<times> string) list" where
  "staleHits tasks = filter (\<lambda>(i, pattern, note). i \<noteq> ''STALE-ATLAS'' \<and> js_includes (allText tasks) pattern) STALE"

text \<open>\<open>/\bw\b/.test(s)\<close> for a text \<open>w\<close> that begins and ends with word characters; \<open>before\<close>: the
  character before is one.\<close>

fun test_word :: "string \<Rightarrow> bool \<Rightarrow> string \<Rightarrow> bool" where
  "test_word w before [] = False"
| "test_word w before (c # cs) =
     ((\<not> before \<and> starts_with (c # cs) w \<and> (case drop (length w) (c # cs) of [] \<Rightarrow> True | d # _ \<Rightarrow> \<not> word_c d)) \<or>
      test_word w (word_c c) cs)"

definition atlasStale :: "roadmap_task list \<Rightarrow> bool" where
  "atlasStale tasks = list_ex (\<lambda>w. test_word w False (allText tasks)) [''atlas.hcl'', ''atlas migrate'', ''atlas oss'', ''atlas.sum'']"

definition known_ids :: "roadmap_task list \<Rightarrow> string set" where
  "known_ids tasks = set (map rt_id tasks)"

definition TASK_REF :: regex where
  "TASK_REF = Seqs [Lit ''P'', Times 2 (Cls digit_c), Lit ''-'', Times 2 (Cls digit_c)]"

text \<open>A broken reference: the task, the reference and where it stands.\<close>

definition brokenDeps :: "roadmap_task list \<Rightarrow> roadmap_task \<Rightarrow> (string \<times> string \<times> string) list" where
  "brokenDeps tasks t =
     map (\<lambda>d. (rt_id t, d, ''depends_on/related_tasks'')) (filter (\<lambda>d. d \<notin> known_ids tasks) (rt_depends_on t))"

definition brokenDescRefs :: "roadmap_task list \<Rightarrow> roadmap_task \<Rightarrow> (string \<times> string \<times> string) list" where
  "brokenDescRefs tasks t =
     map (\<lambda>r. (rt_id t, r, ''description''))
       (filter (\<lambda>r. r \<noteq> rt_id t \<and> r \<notin> known_ids tasks) (uniq (match_all TASK_REF (rt_description t))))"

definition brokenRefs :: "roadmap_task list \<Rightarrow> (string \<times> string \<times> string) list" where
  "brokenRefs tasks = concat (map (\<lambda>t. brokenDeps tasks t @ brokenDescRefs tasks t) tasks)"

definition POLL_HOOKS :: regex where
  "POLL_HOOKS = Seqs [Lit ''usepollruns'', Star (Cls dot_c), Lit ''usepollrun'', Star (Cls dot_c), Lit ''usetriggerpoll'']"

text \<open>The requirements on the text of the specification that it does not meet.\<close>

definition specGaps :: "string \<Rightarrow> string list" where
  "specGaps specs =
     (if test_search POLL_HOOKS (to_lower specs) then [] else [''SPEC-84-POLL-HOOKS'']) @
     (if js_includes specs ''db:check'' then [] else [''SPEC-114-DB-CHECK''])"

text \<open>The exit code of the spec audit is 0.\<close>

definition spec_audit :: "string \<Rightarrow> roadmap_task list \<Rightarrow> bool" where
  "spec_audit specs tasks \<longleftrightarrow>
     gaps tasks = [] \<and> drift tasks = [] \<and>
     \<not> (staleHits tasks \<noteq> [] \<or> atlasStale tasks \<or> brokenRefs tasks \<noteq> [] \<or> specGaps specs \<noteq> [])"

subsection \<open>The intake audit\<close>

record roadmap =
  rm_format :: string
  rm_mapping :: bool
  rm_tasks :: "roadmap_task list"

definition DOMAIN_LABELS :: "string list" where
  "DOMAIN_LABELS = [''backend'', ''web'', ''db'', ''config'', ''ci'', ''docs'']"

definition count_of :: "'a list \<Rightarrow> string \<Rightarrow> string list" where
  "count_of xs message = (if xs \<noteq> [] then [nat_string (length xs) @ message] else [])"

definition parent_blockers :: "roadmap_task list \<Rightarrow> string list" where
  "parent_blockers tasks =
     map (\<lambda>l. rt_id l @ '': missing or invalid parent ('' @ default ''undefined'' (rt_parent l) @ '')'')
       (filter (\<lambda>l. case rt_parent l of None \<Rightarrow> True | Some p \<Rightarrow> p = [] \<or> p \<notin> known_ids tasks) (leaves tasks))"

definition dep_blockers :: "roadmap_task list \<Rightarrow> string list" where
  "dep_blockers tasks =
     concat (map (\<lambda>t. map (\<lambda>d. rt_id t @ '': invalid depends_on '' @ d) (filter (\<lambda>d. d \<notin> known_ids tasks) (rt_depends_on t))) tasks)"

definition intake_blockers :: "bool \<Rightarrow> roadmap \<Rightarrow> string list" where
  "intake_blockers spec_ok rm =
     (let tasks = rm_tasks rm
      in (if rm_format rm \<noteq> ''phasical-intake-v2'' then [''format must be phasical-intake-v2 (got '' @ rm_format rm @ '')''] else []) @
         (if \<not> rm_mapping rm then [''meta.phasical_mapping missing''] else []) @
         parent_blockers tasks @ dep_blockers tasks @
         count_of (filter (\<lambda>t. \<not> test_search ROADMAP_ID_RE (rt_description t)) tasks) '' tasks missing **Roadmap ID:** marker (idempotency)'' @
         count_of (filter (\<lambda>t. test_search ROADMAP_ID_RE (rt_description t) \<and> read_id (rt_description t) \<noteq> Some (rt_id t)) tasks)
           '' tasks have Roadmap ID mismatch vs task.id'' @
         count_of (filter (\<lambda>t. units (rt_description t) < 200) tasks) '' tasks with description < 200 chars'' @
         map (\<lambda>d. ''unknown domain: '' @ d) (filter (\<lambda>d. d \<notin> set DOMAIN_LABELS) (uniq (map rt_domain tasks))) @
         (if spec_ok then [] else [''audit-roadmap-spec.mjs failed '' @ em_dash @ '' fix spec gaps first'']))"

definition intake_warnings :: "roadmap \<Rightarrow> string list" where
  "intake_warnings rm =
     (let tasks = rm_tasks rm
      in count_of (filter (\<lambda>t. length (default [] (rt_acceptance t)) < 5) (leaves tasks)) '' leaves with < 5 acceptance_criteria'' @
         count_of (filter (\<lambda>t. units (rt_title t) > 80) tasks) '' titles > 80 chars'' @
         [nat_string (sum_list (map (length \<circ> rt_depends_on) tasks)) @
            '' depends_on edges use roadmap IDs '' @ em_dash @ '' import script must patch to GitHub #N after sync''])"

definition intake_audit :: "string \<Rightarrow> roadmap \<Rightarrow> bool" where
  "intake_audit specs rm \<longleftrightarrow> intake_blockers (spec_audit specs (rm_tasks rm)) rm = []"

subsection \<open>What the audits promise the import\<close>

text \<open>A roadmap that passes the intake audit is fit for the import: every reference the import wires
  names one of its tasks, and the marker of every task is read back as its own identifier, so that
  an import of it that ends wires everything, and running it again creates nothing.\<close>

theorem no_blockers_fit:
  assumes "intake_blockers spec_ok rm = []"
  shows "refs_known (rm_tasks rm) \<and> marked (rm_tasks rm)"
proof -
  let ?ts = "rm_tasks rm"
  have p: "parent_blockers ?ts = []" and d: "dep_blockers ?ts = []"
    and m: "filter (\<lambda>t. \<not> test_search ROADMAP_ID_RE (rt_description t)) ?ts = []"
    and w: "filter (\<lambda>t. test_search ROADMAP_ID_RE (rt_description t) \<and> read_id (rt_description t) \<noteq> Some (rt_id t)) ?ts = []"
    using assms unfolding intake_blockers_def Let_def append_is_Nil_conv count_of_def by (auto split: if_splits)
  have "refs_known ?ts"
    using p d by (force simp: refs_known_def list_all_iff leaf_relations_def parent_blockers_def dep_blockers_def known_ids_def
        filter_empty_conv leaves_def split: option.splits if_splits)
  moreover have "marked ?ts" using m w by (auto simp: marked_def list_all_iff filter_empty_conv)
  ultimately show ?thesis by blast
qed

definition fit_roadmap :: roadmap where
  "fit_roadmap =
     (let o1 = no_opts\<lparr>o_context := Some (concat (replicate 20 ''0123456789''))\<rparr>
      in \<lparr>rm_format = ''phasical-intake-v2'', rm_mapping = True,
          rm_tasks = run register []
            [RegEpic ''E01'' ''Epic'' ''web'' o1, RegLeaf ''E01-01'' ''E01'' ''First'' ''db'' o1,
             RegLeaf ''E01-02'' ''E01'' ''Second'' ''web'' (o1\<lparr>o_depends_on := [''E01-01'']\<rparr>)]\<rparr>)"

subsection \<open>What the audits do not see\<close>

lemma exec_search_prefix:
  "exec_search r s = Some (p, m) \<Longrightarrow> \<exists>s'. s = p @ s' \<and> exec_prefix r s' = Some m"
proof (induction r s arbitrary: p rule: exec_search.induct)
  case (2 r x xs)
  show ?case
  proof (cases "exec_prefix r (x # xs)")
    case None
    then obtain q where q: "exec_search r xs = Some (q, m)" "p = x # q"
      using 2(2) by (cases "exec_search r xs") (auto simp: apfst_def map_prod_def split: prod.splits)
    then show ?thesis using 2(1) [OF None q(1)] by auto
  qed (use 2(2) in auto)
qed auto

lemma read_id_lang:
  assumes "read_id d = Some i" shows "in_lang TASK_ID i"
proof -
  obtain p m c rest where "exec_search ROADMAP_ID_RE d = Some (p, m, c, rest)" and g: "grp 1 c = Some i"
    using assms by (auto simp: read_id_def split: option.splits)
  then obtain s where "exec_prefix ROADMAP_ID_RE s = Some (m, c, rest)" using exec_search_prefix by blast
  then have "(rest, c) \<in> set (parse ROADMAP_ID_RE s [])" by (auto simp: exec_prefix_def split: list.splits)
  then have "(rest, c) \<in> set (parse (Seq (Lit ID_MARKER) (Group 1 TASK_ID)) s [])" by (simp only: ROADMAP_ID_RE_def)
  from parse_SeqE [OF this] obtain s1 c1 where 1: "(s1, c1) \<in> set (parse (Lit ID_MARKER) s [])"
    and 2: "(rest, c) \<in> set (parse (Group 1 TASK_ID) s1 c1)" .
  have "no_groups TASK_ID" by (simp add: TASK_ID_def numeral_2_eq_2)
  from parse_GroupE [OF 2 this] obtain w where "in_lang TASK_ID w" "c = (1, w) # c1" .
  then show ?thesis using g by (simp add: grp_def)
qed

lemma old_ref: "in_lang TASK_REF r \<Longrightarrow> starts_with r ''P''"
  by (auto simp: TASK_REF_def in_lang_simps)

text \<open>In a roadmap whose markers are right, the spec audit reports every reference of the form
  \<open>P01-02\<close> in a description as broken, and no reference of the form the tasks have (\<open>E01-02\<close>): it
  searches for the identifiers of an earlier roadmap only, so a reference to a task that does not
  exist is never reported.\<close>

theorem current_refs_unchecked:
  assumes "marked tasks" and "t \<in> set tasks"
  shows "brokenDescRefs tasks t = map (\<lambda>r. (rt_id t, r, ''description'')) (uniq (match_all TASK_REF (rt_description t))) \<and>
    list_all (\<lambda>(i, r, place). starts_with r ''P'') (brokenDescRefs tasks t)"
proof -
  have "starts_with (rt_id u) ''E''" if "u \<in> set tasks" for u
    using assms(1) that read_id_lang [of "rt_description u" "rt_id u"] by (auto simp: marked_def list_all_iff TASK_ID_shape)
  moreover have "starts_with r ''P''" if "r \<in> set (uniq (match_all TASK_REF (rt_description t)))" for r
    using that match_all_lang old_ref by (auto simp: uniq_def)
  ultimately have "r \<noteq> rt_id t \<and> r \<notin> known_ids tasks" if "r \<in> set (uniq (match_all TASK_REF (rt_description t)))" for r
    using that assms(2) by (fastforce simp: known_ids_def starts_with_conv)
  then show ?thesis
    using match_all_lang old_ref by (auto simp: brokenDescRefs_def list_all_iff uniq_def)
qed

lemma current_refs_unchecked_witness:
  "\<exists>t. t \<in> set (rm_tasks fit_roadmap) \<and>
     brokenDescRefs (rm_tasks fit_roadmap) t = map (\<lambda>r. (rt_id t, r, ''description'')) (uniq (match_all TASK_REF (rt_description t))) \<and>
     list_all (\<lambda>(i, r, place). starts_with r ''P'') (brokenDescRefs (rm_tasks fit_roadmap) t)"
proof -
  have "marked (rm_tasks fit_roadmap)" "rm_tasks fit_roadmap \<noteq> []" by code_simp+
  then show ?thesis using current_refs_unchecked [of "rm_tasks fit_roadmap" "hd (rm_tasks fit_roadmap)"] hd_in_set by blast
qed

definition requirement_of :: "string \<Rightarrow> requirement" where
  "requirement_of i = the (find (\<lambda>r. rq_id r = i) REQUIREMENTS)"

text \<open>Two requirements ask less than they say. Every task that mentions the hook for the list of poll
  runs also meets the requirement for the hook of a single run, whose name begins the other's; and
  every leaf that speaks of ticket projects meets the requirement for their page, of whatever domain
  it is, because the test of the domain binds to the other alternative only.\<close>

theorem loose_requirements:
  "set (hits tasks (requirement_of ''HOOK-POLL-RUNS'')) \<subseteq> set (hits tasks (requirement_of ''HOOK-POLL-RUN'')) \<and>
   set (filter (\<lambda>t. js_includes (task_text t) ''ticket projects'') (leaves tasks)) \<subseteq> set (hits tasks (requirement_of ''UI-TICKET-PROJECTS''))"
proof -
  have "rq_match (requirement_of ''HOOK-POLL-RUNS'') = Has ''usepollruns''" "rq_match (requirement_of ''HOOK-POLL-RUN'') = Has ''usepollrun''"
    "rq_match (requirement_of ''UI-TICKET-PROJECTS'') = Or (And (In_Domain ''web'') (Has ''ticket-projects'')) (Has ''ticket projects'')"
    by code_simp+
  moreover have "js_includes s (''usepollrun'' @ ''s'') \<Longrightarrow> js_includes s ''usepollrun''" for s
    by (induction s) (auto simp: starts_with_conv)
  ultimately show ?thesis by (auto simp: hits_def)
qed

end
