(* ===== verification/Roadmap_Html.thy ===== *)
theory Roadmap_Html
  imports Roadmap_Registry Js_Json
begin

section \<open>The roadmap page (\<open>scripts/generate-roadmap.mjs\<close>)\<close>

text \<open>
  The sections of the page, built as text from the tasks, with the escaping and the small markdown
  conversion, and the checks printed after it. The static frame of the page (style sheet, header,
  footer) and the audit that the script starts at its end are left out; the latter is modelled with
  the audits.
\<close>

subsection \<open>Escaping\<close>

definition AMP :: char where "AMP = CHR ''&''"

text \<open>\<open>s.replace(/x/g, t)\<close>.\<close>

definition replace_char :: "char \<Rightarrow> string \<Rightarrow> string \<Rightarrow> string" where
  "replace_char x t s = concat (map (\<lambda>c. if c = x then t else [c]) s)"

definition esc :: "string \<Rightarrow> string" where
  "esc s = replace_char (CHR 0x22) ''&quot;'' (replace_char (CHR ''>'') ''&gt;''
     (replace_char (CHR ''<'') ''&lt;'' (replace_char (CHR ''&'') ''&amp;'' s)))"

text \<open>The reference: every special character becomes its entity, once.\<close>

definition entity :: "char \<Rightarrow> string" where
  "entity c =
     (if c = CHR ''&'' then ''&amp;'' else if c = CHR ''<'' then ''&lt;'' else if c = CHR ''>'' then ''&gt;''
      else if c = CHR 0x22 then ''&quot;'' else [c])"

definition unescape1 :: "string \<Rightarrow> (char \<times> string) option" where
  "unescape1 s =
     (if s = [] then None
      else if starts_with s ''&amp;'' then Some (CHR ''&'', drop 5 s)
      else if starts_with s ''&lt;'' then Some (CHR ''<'', drop 4 s)
      else if starts_with s ''&gt;'' then Some (CHR ''>'', drop 4 s)
      else if starts_with s ''&quot;'' then Some (CHR 0x22, drop 6 s)
      else Some (hd s, tl s))"

function unescape :: "string \<Rightarrow> string" where
  "unescape s = (case unescape1 s of None \<Rightarrow> [] | Some (c, r) \<Rightarrow> c # unescape r)"
  by pat_completeness auto
termination
  by (relation "measure length") (auto simp: unescape1_def split: if_splits)

declare unescape.simps [simp del]

lemma replace_char_simps [simp]:
  "replace_char x t [] = []" "replace_char x t (c # s) = (if c = x then t else [c]) @ replace_char x t s"
  "replace_char x t (s @ r) = replace_char x t s @ replace_char x t r"
  by (simp_all add: replace_char_def)

lemma esc_entities: "esc s = concat (map entity s)"
  by (induction s) (simp_all add: esc_def entity_def)

lemma entity_cases:
  obtains "c = CHR ''&''" "entity c = ''&amp;''" | "c = CHR ''<''" "entity c = ''&lt;''" | "c = CHR ''>''" "entity c = ''&gt;''"
  | "c = CHR 0x22" "entity c = ''&quot;''"
  | "c \<noteq> CHR ''&''" "c \<noteq> CHR ''<''" "c \<noteq> CHR ''>''" "c \<noteq> CHR 0x22" "entity c = [c]"
  unfolding entity_def by metis

lemma unescape1_entity: "unescape1 (entity c @ s) = Some (c, s)"
  by (rule entity_cases [of c]) (auto simp: unescape1_def starts_with_conv)

lemma unescape_esc: "unescape (esc s) = s"
  unfolding esc_entities
  by (induction s) (subst unescape.simps, simp add: unescape1_def, subst unescape.simps, simp add: unescape1_entity)

interpretation html_text: codec esc "\<lambda>h. Some (unescape h)" "\<lambda>s. True"
  by unfold_locales (simp add: unescape_esc)

definition html_safe :: "string \<Rightarrow> bool" where
  "html_safe h \<longleftrightarrow> list_all (\<lambda>c. c \<notin> {CHR ''<'', CHR ''>'', CHR 0x22}) h"

text \<open>Escaping in four passes is the same as replacing each special character once: no entity is
  escaped again. The result holds no angle bracket or double quote, so inside a text or a quoted
  attribute of the page it cannot end its place, and the text a browser shows for it is the text
  that was escaped.\<close>

theorem html_escaping: "esc s = concat (map entity s) \<and> html_safe (esc s) \<and> unescape (esc s) = s"
proof -
  have "html_safe (entity c)" for c by (rule entity_cases [of c]) (auto simp: html_safe_def)
  then have "html_safe (concat (map entity s))" by (induction s) (simp_all add: html_safe_def)
  then show ?thesis by (simp add: esc_entities unescape_esc [unfolded esc_entities])
qed

subsection \<open>Markdown\<close>

definition line_break :: "char \<Rightarrow> bool" where
  "line_break c \<longleftrightarrow> c = CHR 0x0A \<or> c = CHR 0x0D"

definition line_end :: "string \<Rightarrow> bool" where
  "line_end s \<longleftrightarrow> s = [] \<or> line_break (hd s)"

text \<open>\<open>s.replace(/^r$/gm, f)\<close> for an expression that matches no empty text; \<open>bol\<close>: at a line start.\<close>

function replace_lines :: "regex \<Rightarrow> (string \<Rightarrow> string) \<Rightarrow> bool \<Rightarrow> string \<Rightarrow> string" where
  "replace_lines r f bol [] = []"
| "replace_lines r f bol (x # xs) =
     (case (if bol then find (\<lambda>m. line_end (fst m) \<and> length (fst m) < length (x # xs)) (parse r (x # xs) []) else None) of
        Some (rest, c) \<Rightarrow>
          if length rest < length (x # xs) then f (group_text 1 c) @ replace_lines r f False rest
          else x # replace_lines r f (line_break x) xs
      | None \<Rightarrow> x # replace_lines r f (line_break x) xs)"
  by pat_completeness auto
termination by (relation "measure (\<lambda>(r, f, bol, s). length s)") auto

definition MD_LINK :: regex where
  "MD_LINK = Seqs
     [Lit ''['', Group 1 (Plus (Cls (\<lambda>c. c \<noteq> CHR '']''))), Lit '']('', Group 2 (Plus (Cls (\<lambda>c. c \<noteq> CHR '')''))), Lit '')'']"

definition MD_HEADING :: regex where "MD_HEADING = Seq (Lit ''## '') (Group 1 (Plus (Cls dot_c)))"
definition MD_TODO :: regex where "MD_TODO = Seq (Lit ''- [ ] '') (Group 1 (Plus (Cls dot_c)))"
definition MD_CODE :: regex where
  "MD_CODE = Seqs [Lit (''- '' @ BQ), Group 1 (Plus (Cls (\<lambda>c. c \<noteq> CHR 0x60))), Lit BQ]"
definition MD_ITEM :: regex where "MD_ITEM = Seq (Lit ''- '') (Group 1 (Plus (Cls dot_c)))"

fun paragraphs :: "string \<Rightarrow> string" where
  "paragraphs (c # d # s) = (if c = LF \<and> d = LF then ''</p><p>'' @ paragraphs s else c # paragraphs (d # s))"
| "paragraphs s = s"

definition mdToHtml :: "string \<Rightarrow> string" where
  "mdToHtml md =
     replace_char LF ''<br>''
       (paragraphs
         (replace_lines MD_ITEM (\<lambda>g. ''<li>'' @ g @ ''</li>'') True
           (replace_lines MD_CODE (\<lambda>g. ''<li><code>'' @ g @ ''</code></li>'') True
             (replace_lines MD_TODO (\<lambda>g. ''<li class='' @ [CHR 0x27] @ ''ac'' @ [CHR 0x27] @ ''>'' @ g @ ''</li>'') True
               (replace_lines MD_HEADING (\<lambda>g. ''<h4>'' @ g @ ''</h4>'') True
                 (replace_all MD_LINK (\<lambda>_ c. ''<a href='' @ DQ @ group_text 2 c @ DQ @ ''>'' @ group_text 1 c @ ''</a>'')
                   (esc md)))))))"

subsection \<open>The sections\<close>

definition leavesByParent :: "roadmap_task list \<Rightarrow> string option \<Rightarrow> (roadmap_task list) option" where
  "leavesByParent tasks =
     foldl (\<lambda>m t. m(rt_parent t \<mapsto> (case m (rt_parent t) of None \<Rightarrow> [] | Some l \<Rightarrow> l) @ [t])) Map.empty (leaves tasks)"

definition children :: "roadmap_task list \<Rightarrow> roadmap_task \<Rightarrow> roadmap_task list" where
  "children tasks e = (case leavesByParent tasks (Some (rt_id e)) of None \<Rightarrow> [] | Some l \<Rightarrow> l)"

definition or_dash :: "string list \<Rightarrow> string" where
  "or_dash xs = (if xs \<noteq> [] then join_with '', '' xs else em_dash)"

text \<open>\<open>join\<close> writes nothing for \<open>undefined\<close>.\<close>

definition deps :: "roadmap_task \<Rightarrow> string" where "deps t = or_dash (rt_depends_on t)"
definition docRef :: "roadmap_task \<Rightarrow> string" where "docRef t = or_dash (map (default []) (rt_doc_ref t))"

definition ellipsis :: string where "ellipsis = [CHR 0xE2, CHR 0x80, CHR 0xA6]"
definition middot :: string where "middot = [CHR 0xC2, CHR 0xB7]"

definition desc_preview :: "string \<Rightarrow> string" where
  "desc_preview d = (if units d > 200 then replace_char LF '' '' (units_take 200 d) @ ellipsis else replace_char LF '' '' d)"

definition ac_count :: "roadmap_task \<Rightarrow> nat" where
  "ac_count t = length (default [] (rt_acceptance t))"

definition row_html :: "roadmap_task \<Rightarrow> string" where
  "row_html t = join_with [LF]
     [''        <tr data-task-id='' @ DQ @ esc (rt_id t) @ DQ @ ''>'',
      ''          <td><code>'' @ esc (rt_id t) @ ''</code></td>'',
      ''          <td class='' @ DQ @ ''cb'' @ DQ @ ''>- [ ]</td>'',
      ''          <td>'',
      ''            <strong>'' @ esc (rt_title t) @ ''</strong>'',
      ''            <details class='' @ DQ @ ''task-detail'' @ DQ @ ''>'',
      ''              <summary>'' @ esc (desc_preview (rt_description t)) @ '' <span class='' @ DQ @ ''meta'' @ DQ @ ''>('' @
        nat_string (ac_count t) @ '' AC '' @ middot @ '' '' @ esc (docRef t) @ '')</span></summary>'',
      ''              <div class='' @ DQ @ ''desc-body'' @ DQ @ ''>'' @ mdToHtml (rt_description t) @ ''</div>'',
      ''            </details>'',
      ''          </td>'',
      ''          <td><span class='' @ DQ @ ''tag'' @ DQ @ ''>'' @ esc (rt_domain t) @ ''</span></td>'',
      ''          <td>'' @ esc (deps t) @ ''</td>'',
      ''          <td>'' @ esc (docRef t) @ ''</td>'',
      ''        </tr>'']"

definition section_html :: "roadmap_task list \<Rightarrow> roadmap_task \<Rightarrow> string" where
  "section_html tasks e =
     (let rows = join_with [LF] (map row_html (children tasks e))
      in join_with [LF]
        [''  <section class='' @ DQ @ ''epic'' @ DQ @ '' id='' @ DQ @ esc (rt_id e) @ DQ @ ''>'',
         ''    <h2><code>'' @ esc (rt_id e) @ ''</code> '' @ esc (rt_title e) @ '' <span class='' @ DQ @ ''tag'' @ DQ @ ''>'' @
           esc (rt_domain e) @ ''</span></h2>'',
         ''    <div class='' @ DQ @ ''epic-body'' @ DQ @ ''>'' @ mdToHtml (rt_description e) @ ''</div>'',
         ''    <table>'',
         ''      <thead>'',
         ''        <tr><th>ID</th><th>Status</th><th>Task</th><th>Domain</th><th>Depends</th><th>Doc Ref</th></tr>'',
         ''      </thead>'',
         ''      <tbody>'',
         (if rows \<noteq> [] then rows else ''        <tr><td colspan='' @ DQ @ ''6'' @ DQ @ ''>No leaves</td></tr>''),
         ''      </tbody>'',
         ''    </table>'',
         ''  </section>''])"

definition epicSections :: "roadmap_task list \<Rightarrow> string" where
  "epicSections tasks = join_with [LF, LF] (map (section_html tasks) (epics tasks))"

definition toc_html :: "roadmap_task list \<Rightarrow> string" where
  "toc_html tasks = join_with [LF]
     (map (\<lambda>e. ''    <div><a href='' @ DQ @ ''#'' @ esc (rt_id e) @ DQ @ ''><code>'' @ esc (rt_id e) @ ''</code> '' @
        esc (rt_title e) @ ''</a></div>'') (epics tasks))"

text \<open>The warnings of the quality gate.\<close>

definition quality_gate :: "roadmap_task list \<Rightarrow> string list" where
  "quality_gate tasks =
     (let emptyDesc = filter (\<lambda>t. units (rt_description t) < 200) tasks;
          fewAc = filter (\<lambda>t. rt_type t = Leaf \<and> ac_count t < 5) tasks
      in (if emptyDesc \<noteq> [] then [''WARN: '' @ nat_string (length emptyDesc) @ '' tasks with short/missing descriptions''] else []) @
         (if fewAc \<noteq> [] then [''WARN: '' @ nat_string (length fewAc) @ '' leaves with fewer than 5 AC''] else []))"

subsection \<open>Which tasks the page lists\<close>

lemma leavesByParent_get: "(case leavesByParent tasks k of None \<Rightarrow> [] | Some l \<Rightarrow> l) = filter (\<lambda>t. rt_parent t = k) (leaves tasks)"
proof -
  have "(case foldl (\<lambda>m t. m(rt_parent t \<mapsto> (case m (rt_parent t) of None \<Rightarrow> [] | Some l \<Rightarrow> l) @ [t])) m ts k of None \<Rightarrow> [] | Some l \<Rightarrow> l) =
      (case m k of None \<Rightarrow> [] | Some l \<Rightarrow> l) @ filter (\<lambda>t. rt_parent t = k) ts" for m and ts :: "roadmap_task list"
    by (induction ts arbitrary: m) auto
  then show ?thesis by (simp add: leavesByParent_def)
qed

lemma children_filter: "children tasks e = filter (\<lambda>t. rt_parent t = Some (rt_id e)) (leaves tasks)"
  by (simp add: children_def leavesByParent_get)

text \<open>The leaves in the order of the page.\<close>

definition listed :: "roadmap_task list \<Rightarrow> roadmap_task list" where
  "listed tasks = concat (map (children tasks) (epics tasks))"

definition has_epic :: "roadmap_task list \<Rightarrow> roadmap_task \<Rightarrow> bool" where
  "has_epic tasks t \<longleftrightarrow> rt_parent t \<in> Some ` rt_id ` set (epics tasks)"

lemma listed_mset:
  "distinct (map rt_id es) \<Longrightarrow>
     mset (concat (map (\<lambda>e. filter (\<lambda>t. rt_parent t = Some (rt_id e)) ls) es)) =
     mset (filter (\<lambda>t. rt_parent t \<in> Some ` rt_id ` set es) ls)"
proof (induction es)
  case (Cons e es)
  have "mset (filter (\<lambda>t. rt_parent t \<in> Some ` rt_id ` set (e # es)) ls) =
      mset (filter (\<lambda>t. rt_parent t = Some (rt_id e)) ls) + mset (filter (\<lambda>t. rt_parent t \<in> Some ` rt_id ` set es) ls)"
    using Cons.prems by (induction ls) auto
  then show ?case using Cons by simp
qed simp

text \<open>If the epics have distinct identifiers the page lists every leaf whose parent is an epic exactly
  once, under that epic; a leaf whose parent names no epic is on the page nowhere.\<close>

theorem page_lists_leaves:
  assumes "distinct (map rt_id (epics tasks))"
  shows "mset (listed tasks) = mset (filter (has_epic tasks) (leaves tasks))"
  using listed_mset [OF assms, of "leaves tasks"] by (simp add: listed_def has_epic_def children_filter [abs_def])


definition two_tasks :: "roadmap_task list" where
  "two_tasks = run register []
     [RegEpic ''E01'' ''Epic'' ''web'' (no_opts\<lparr>o_context := Some ''A''\<rparr>), RegLeaf ''E01-01'' ''E01'' ''Leaf'' ''web'' no_opts]"

lemma page_lists_leaves_witness:
  "mset (listed two_tasks) = mset (filter (has_epic two_tasks) (leaves two_tasks)) \<and> length (listed two_tasks) = 1"
  by (intro conjI page_lists_leaves) code_simp+

end
