(* ===== verification/Roadmap_Order.thy ===== *)
theory Roadmap_Order
  imports Roadmap_Audit Roadmap_Html
begin

section \<open>Calls in the order of their dependencies\<close>

text \<open>A roadmap is a sequence of calls. If every call refers to earlier calls only, what is collected has
  distinct identifiers, no dependency or parent that blocks the import, no cycle of dependencies, and
  a page that lists every leaf.\<close>

subsection \<open>A task as its call\<close>

primrec reg_id :: "registration \<Rightarrow> string" where
  "reg_id (RegEpic i title d os) = i"
| "reg_id (RegLeaf i p title d os) = i"

primrec reg_parent :: "registration \<Rightarrow> string option" where
  "reg_parent (RegEpic i title d os) = None"
| "reg_parent (RegLeaf i p title d os) = Some p"

primrec reg_domain :: "registration \<Rightarrow> string" where
  "reg_domain (RegEpic i title d os) = d"
| "reg_domain (RegLeaf i p title d os) = d"

primrec reg_opts :: "registration \<Rightarrow> task_opts" where
  "reg_opts (RegEpic i title d os) = os"
| "reg_opts (RegLeaf i p title d os) = os"

text \<open>Every identifier is new, a task depends on tasks registered before it, and the parent of a leaf is
  an epic registered before it.\<close>

fun ordered :: "string list \<Rightarrow> string list \<Rightarrow> registration list \<Rightarrow> bool" where
  "ordered seen es [] = True"
| "ordered seen es (r # rs) =
     (reg_id r \<notin> set seen \<and> list_all (\<lambda>d. d \<in> set seen) (o_depends_on (reg_opts r)) \<and>
      (case reg_parent r of
         None \<Rightarrow> ordered (seen @ [reg_id r]) (reg_id r # es) rs
       | Some p \<Rightarrow> p \<noteq> [] \<and> p \<in> set es \<and> ordered (seen @ [reg_id r]) es rs))"

subsection \<open>From the calls to the tasks\<close>

definition task_of :: "registration \<Rightarrow> roadmap_task" where
  "task_of r = hd (register [] r)"

lemma register_task: "register ts r = ts @ [task_of r]"
  by (cases r) (simp_all add: register_def task_of_def epic_def leaf_def Let_def)

lemma run_register: "run register ts regs = ts @ map task_of regs"
  by (induction regs arbitrary: ts) (simp_all add: register_task)

lemma task_of_fields:
  "rt_id (task_of r) = reg_id r" "rt_parent (task_of r) = reg_parent r" "rt_depends_on (task_of r) = o_depends_on (reg_opts r)"
  "rt_type (task_of r) = Epic \<longleftrightarrow> reg_parent r = None" "rt_type (task_of r) = Leaf \<longleftrightarrow> reg_parent r \<noteq> None"
  by (cases r; simp add: task_of_def register_def epic_def leaf_def Let_def)+

lemma ordered_at:
  "ordered seen es (xs @ r # ys) \<Longrightarrow>
     reg_id r \<notin> set seen \<union> reg_id ` set xs \<and> set (o_depends_on (reg_opts r)) \<subseteq> set seen \<union> reg_id ` set xs \<and>
     (case reg_parent r of None \<Rightarrow> True | Some p \<Rightarrow> p \<noteq> [] \<and> p \<in> set es \<union> reg_id ` {e \<in> set xs. reg_parent e = None})"
proof (induction xs arbitrary: seen es)
  case Nil
  then show ?case by (auto simp: list_all_iff split: option.splits)
next
  case (Cons x xs)
  then show ?case
    by (cases "reg_parent x") (fastforce split: option.splits dest!: Cons.IH)+
qed

lemma ordered_distinct: "ordered seen es regs \<Longrightarrow> distinct (map reg_id regs)"
proof (induction regs rule: rev_induct)
  case (snoc r regs)
  have "ordered seen es (xs @ [y]) \<Longrightarrow> ordered seen es xs" for seen es xs y
    by (induction xs arbitrary: seen es) (auto split: option.splits)
  then show ?case using snoc ordered_at [of seen es regs r "[]"] by auto
qed simp

text \<open>The task a dependency names must be done first.\<close>

definition blocks :: "roadmap_task list \<Rightarrow> (string \<times> string) set" where
  "blocks tasks = {(d, i). \<exists>t \<in> set tasks. i = rt_id t \<and> d \<in> set (rt_depends_on t)}"

lemma takeWhile_less: "x \<in> set xs \<Longrightarrow> length (takeWhile (\<lambda>y. y \<noteq> x) xs) < length xs"
  by (induction xs) auto

lemma ordered_acyclic:
  assumes "ordered [] es regs" shows "acyclic (blocks (map task_of regs))"
proof -
  define f where "f x = length (takeWhile (\<lambda>y. y \<noteq> x) (map reg_id regs))" for x
  have "f d < f i" if di: "(d, i) \<in> blocks (map task_of regs)" for d i
  proof -
    from di obtain t where t: "t \<in> set (map task_of regs)" "i = rt_id t" "d \<in> set (rt_depends_on t)"
      by (auto simp: blocks_def)
    then obtain r where "r \<in> set regs" "t = task_of r" by auto
    then have r: "r \<in> set regs" "i = reg_id r" "d \<in> set (o_depends_on (reg_opts r))" using t by (simp_all add: task_of_fields)
    from split_list [OF r(1)] obtain xs ys where regs: "regs = xs @ r # ys" by blast
    note at = ordered_at [OF assms [unfolded regs]]
    have "d \<in> set (map reg_id xs)" using at r(3) by auto
    then have "takeWhile (\<lambda>y. y \<noteq> d) (map reg_id xs @ map reg_id (r # ys)) = takeWhile (\<lambda>y. y \<noteq> d) (map reg_id xs)"
      by (intro takeWhile_append1 [of d]) simp_all
    then have "f d < length xs"
      using takeWhile_less [OF \<open>d \<in> set (map reg_id xs)\<close>] by (simp add: f_def regs)
    moreover have "reg_id r \<notin> set (map reg_id xs)" using at by simp
    then have "\<forall>y \<in> set (map reg_id xs). y \<noteq> reg_id r" by blast
    then have "f i = length xs"
      unfolding f_def regs r(2) by (subst map_append, subst takeWhile_append2) auto
    ultimately show ?thesis by simp
  qed
  then have "blocks (map task_of regs) \<subseteq> measure f" by (auto simp: measure_def inv_image_def)
  then show ?thesis using acyclic_subset wf_acyclic wf_measure by blast
qed

lemma ordered_closed:
  assumes "ordered [] [] regs" and "r \<in> set regs"
  shows "set (o_depends_on (reg_opts r)) \<subseteq> reg_id ` set regs"
    and "reg_parent r = Some p \<Longrightarrow> p \<noteq> [] \<and> p \<in> reg_id ` {e \<in> set regs. reg_parent e = None}"
proof -
  from split_list [OF assms(2)] obtain xs ys where regs: "regs = xs @ r # ys" by blast
  note at = ordered_at [OF assms(1) [unfolded regs]]
  then have "set (o_depends_on (reg_opts r)) \<subseteq> reg_id ` set xs" by simp
  then show "set (o_depends_on (reg_opts r)) \<subseteq> reg_id ` set regs" unfolding regs by auto
  assume "reg_parent r = Some p"
  with at have "p \<noteq> [] \<and> p \<in> reg_id ` {e \<in> set xs. reg_parent e = None}" by simp
  then show "p \<noteq> [] \<and> p \<in> reg_id ` {e \<in> set regs. reg_parent e = None}" unfolding regs by auto
qed

lemma ids_of_tasks:
  "known_ids (map task_of regs) = reg_id ` set regs"
  "rt_id ` set (epics (map task_of regs)) = reg_id ` {e \<in> set regs. reg_parent e = None}"
proof -
  show "known_ids (map task_of regs) = reg_id ` set regs" by (simp add: known_ids_def task_of_fields image_image)
  have "epics (map task_of regs) = map task_of (filter (\<lambda>r. reg_parent r = None) regs)"
    by (simp add: epics_def filter_map comp_def task_of_fields)
  then show "rt_id ` set (epics (map task_of regs)) = reg_id ` {e \<in> set regs. reg_parent e = None}"
    by (simp only: set_map image_image task_of_fields set_filter)
qed

lemma ordered_dep_blockers: "ordered [] [] regs \<Longrightarrow> dep_blockers (map task_of regs) = []"
  using ordered_closed(1)
  by (fastforce simp: dep_blockers_def ids_of_tasks(1) task_of_fields filter_empty_conv)

lemma ordered_leaf:
  assumes "ordered [] [] regs" and "t \<in> set (leaves (map task_of regs))"
  shows "\<exists>p. rt_parent t = Some p \<and> p \<noteq> [] \<and> p \<in> rt_id ` set (epics (map task_of regs))"
proof -
  from assms(2) obtain r where r: "r \<in> set regs" "t = task_of r" "reg_parent r \<noteq> None"
    by (auto simp: leaves_def task_of_fields)
  then obtain p where "reg_parent r = Some p" by auto
  then show ?thesis using ordered_closed(2) [OF assms(1) r(1)] unfolding ids_of_tasks by (auto simp: r(2) task_of_fields)
qed

lemma ordered_parent_blockers:
  assumes o: "ordered [] [] regs" shows "parent_blockers (map task_of regs) = []"
proof -
  let ?ts = "map task_of regs"
  have "rt_id ` set (epics ?ts) \<subseteq> known_ids ?ts" unfolding ids_of_tasks by auto
  then have "\<exists>p. rt_parent t = Some p \<and> p \<noteq> [] \<and> p \<in> known_ids ?ts" if "t \<in> set (leaves ?ts)" for t
    using ordered_leaf [OF o that] by blast
  then show ?thesis by (fastforce simp: parent_blockers_def filter_empty_conv)
qed

lemma ordered_listed:
  assumes o: "ordered [] [] regs"
  shows "mset (listed (map task_of regs)) = mset (leaves (map task_of regs))"
proof -
  let ?ts = "map task_of regs"
  have "filter (has_epic ?ts) (leaves ?ts) = leaves ?ts"
    using ordered_leaf [OF o] unfolding has_epic_def by (intro filter_True ballI) (metis imageI)
  moreover have "map rt_id ?ts = map reg_id regs" by (simp add: task_of_fields)
  then have "distinct (map rt_id (epics ?ts))"
    using ordered_distinct [OF o] by (metis distinct_map_filter epics_def)
  then have "mset (listed ?ts) = mset (filter (has_epic ?ts) (leaves ?ts))"
    using listed_mset [of "epics ?ts" "leaves ?ts"] by (simp add: listed_def has_epic_def children_filter [abs_def])
  ultimately show ?thesis by simp
qed

end
