(* ===== verification/Roadmap_Facts.thy ===== *)
theory Roadmap_Facts
  imports Roadmap_E01_E06 Roadmap_E07_E11 Roadmap_Order
begin

section \<open>The roadmap of the project\<close>

text \<open>The tasks \<open>scripts/generate-roadmap.mjs\<close> builds from the two modules of epics, and what holds of
  them because of the order of the calls.\<close>

definition calls :: "registration list" where
  "calls = registerE01E06 @ registerE07E11"

definition ROADMAP :: "roadmap_task list" where
  "ROADMAP = run register [] calls"

lemma calls_ordered: "ordered [] [] calls"
  by code_simp

lemma ROADMAP_tasks: "ROADMAP = map task_of calls"
  by (simp add: ROADMAP_def run_register)

text \<open>C32: The roadmap of the project is sound: its identifiers are distinct, every dependency names one of
  its tasks and no chain of dependencies returns to its start, so its tasks can be done in an order;
  every leaf has an epic of the roadmap as its parent, and the generated page lists every leaf once.\<close>

theorem roadmap_sound:
  "distinct (map rt_id ROADMAP) \<and> dep_blockers ROADMAP = [] \<and> parent_blockers ROADMAP = [] \<and> acyclic (blocks ROADMAP) \<and>
   mset (listed ROADMAP) = mset (leaves ROADMAP)"
proof -
  have "map rt_id (map task_of regs) = map reg_id regs" for regs by (simp add: task_of_fields)
  then show ?thesis
    unfolding ROADMAP_tasks
    using ordered_distinct [OF calls_ordered] ordered_dep_blockers [OF calls_ordered] ordered_parent_blockers [OF calls_ordered]
      ordered_acyclic [OF calls_ordered] ordered_listed [OF calls_ordered] by (simp del: map_map)
qed

end
