(* ===== verification/Roadmap_Fit.thy ===== *)
theory Roadmap_Fit
  imports Roadmap_Facts
begin

section \<open>The roadmap of the project is fit for the import\<close>

text \<open>What the generator writes passes the intake audit. The descriptions are long texts, so what
  the audit asks of a description is shown from the texts it is put together from, and only these
  are evaluated.\<close>

definition generated :: roadmap where
  "generated = \<lparr>rm_format = ''phasical-intake-v2'', rm_mapping = True, rm_tasks = ROADMAP\<rparr>"

subsection \<open>Texts that make no marker\<close>

text \<open>The marker holds \<open>D:\<close>. A text without it that does not begin with a colon makes none when it is
  joined to others.\<close>

fun calm_after :: "bool \<Rightarrow> string \<Rightarrow> bool" where
  "calm_after d [] = True"
| "calm_after d (c # cs) = ((c = CHR '':'' \<longrightarrow> \<not> d) \<and> calm_after (c = CHR ''D'') cs)"

definition calm :: "string \<Rightarrow> bool" where
  "calm s \<longleftrightarrow> calm_after True s"

lemma calm_after_mono: "calm_after True s \<Longrightarrow> calm_after d s"
  by (cases s) auto

lemma calm_after_append: "calm_after d s \<Longrightarrow> calm_after True r \<Longrightarrow> calm_after d (s @ r)"
  by (induction s arbitrary: d) (auto intro: calm_after_mono)

lemma calm_append: "calm s \<Longrightarrow> calm r \<Longrightarrow> calm (s @ r)"
  by (simp add: calm_def calm_after_append)

lemma calm_Nil: "calm []"
  by (simp add: calm_def)

lemma calm_Cons: "c \<noteq> CHR '':'' \<Longrightarrow> calm s \<Longrightarrow> calm (c # s)"
  by (simp add: calm_def calm_after_mono)

lemma calm_join: "calm sep \<Longrightarrow> list_all calm xs \<Longrightarrow> calm (join_with sep xs)"
  by (induction sep xs rule: join_with.induct) (auto intro: calm_append calm_Nil)

lemma calm_unmarked:
  assumes "calm s" shows "\<not> js_includes s ID_MARKER"
proof
  have bad: "\<not> calm_after d (xs @ ''D:'' @ ys)" for d xs ys by (induction xs arbitrary: d) auto
  assume "js_includes s ID_MARKER"
  then obtain p q where "s = p @ ID_MARKER @ q"
    by (induction s) (auto simp: starts_with_conv, (metis append_Nil append_Cons)+)
  then have "s = (p @ ''**Roadmap I'') @ ''D:'' @ ''** '' @ q" by (simp add: ID_MARKER_def)
  then show False using assms bad unfolding calm_def by metis
qed

lemma unmarked_read:
  assumes "calm d" and "in_lang TASK_ID ident"
  shows "read_id (withRoadmapId ident d) = Some ident"
  using read_withRoadmapId [OF assms(2) calm_unmarked [OF assms(1)]] .

subsection \<open>Texts that are long enough\<close>

primrec ascii_char :: "char \<Rightarrow> bool" where
  "ascii_char (Char b0 b1 b2 b3 b4 b5 b6 b7) = (\<not> b7)"

lemma ascii_units: "ascii_char c \<Longrightarrow> units_of c = 1"
proof -
  have "ascii_char c \<longleftrightarrow> (of_char c :: nat) < 128" by (cases c) (simp add: of_char_def)
  then show "ascii_char c \<Longrightarrow> units_of c = 1" by (simp add: units_of_def Let_def)
qed

text \<open>What is left of the list when every ASCII character of the texts takes a member of it.\<close>

fun left_by :: "unit list \<Rightarrow> string \<Rightarrow> unit list" where
  "left_by [] s = []"
| "left_by (u # us) [] = u # us"
| "left_by (u # us) (c # cs) = (if ascii_char c then left_by us cs else left_by (u # us) cs)"

fun covered_by :: "unit list \<Rightarrow> string list \<Rightarrow> bool" where
  "covered_by us [] = (us = [])"
| "covered_by us (t # ts) = (case left_by us t of [] \<Rightarrow> True | v # vs \<Rightarrow> covered_by (v # vs) ts)"

lemma units_Cons: "units (c # s) = units_of c + units s"
  by (simp add: units_def)

lemma units_append: "units (s @ r) = units s + units r"
  by (simp add: units_def)

lemma left_by_units: "length us \<le> units s + length (left_by us s)"
  by (induction us s rule: left_by.induct) (auto simp: units_Cons ascii_units)

lemma covered_by_units: "covered_by us ts \<Longrightarrow> length us \<le> sum_list (map units ts)"
proof (induction us ts rule: covered_by.induct)
  case (2 us t ts)
  then show ?case using left_by_units [of us t] by (cases "left_by us t") auto
qed simp

lemma units_join: "sum_list (map units xs) \<le> units (join_with sep xs)"
  by (induction sep xs rule: join_with.induct) (simp_all add: units_append)

lemma units_bullets: "sum_list (map units xs) \<le> units (bullets before after xs)"
proof -
  have "sum_list (map units xs) \<le> sum_list (map units (map (\<lambda>x. before @ x @ after) xs))"
    by (induction xs) (simp_all add: units_append)
  also have "\<dots> \<le> units (bullets before after xs)" unfolding bullets_def by (rule units_join)
  finally show ?thesis .
qed

lemma units_part: "(\<not> given \<Longrightarrow> n = 0) \<Longrightarrow> n \<le> units body \<Longrightarrow> n \<le> sum_list (map units (part title body given))"
  by (cases given) (simp_all add: part_def units_append units_Cons)

definition link_texts :: "doc_link \<Rightarrow> string list" where
  "link_texts l = [printed (dl_label l), printed (dl_href l), default [] (dl_note l)]"

definition refs_texts :: "doc_link list \<Rightarrow> string list" where
  "refs_texts refs = concat (map link_texts refs)"

definition core_texts :: "task_opts \<Rightarrow> string list" where
  "core_texts os = default [] (o_context os) # o_implementation os @ o_acceptance os @
     refs_texts (o_specs os) @ refs_texts (o_stack os) @ refs_texts (o_schema os)"

lemma units_specRefs: "sum_list (map units (refs_texts refs)) \<le> units (specRefs refs)"
proof -
  let ?line = "\<lambda>r. ''- ['' @ printed (dl_label r) @ '']('' @ printed (dl_href r) @ '')'' @
      (case dl_note r of Some n \<Rightarrow> if n = [] then [] else '' '' @ em_dash @ '' '' @ n | None \<Rightarrow> [])"
  have "sum_list (map units (link_texts r)) \<le> units (?line r)" for r
    by (auto simp: link_texts_def default_def units_append units_Cons split: option.splits)
  then have "sum_list (map units (refs_texts refs)) \<le> sum_list (map units (map ?line refs))"
    unfolding refs_texts_def by (induction refs) (simp, simp add: add_mono del: append.simps)
  also have "\<dots> \<le> units (specRefs refs)" unfolding specRefs_def by (rule units_join)
  finally show ?thesis .
qed

lemma units_describe: "sum_list (map units (core_texts os)) \<le> units (describe os)"
proof -
  let ?c = "default [] (o_context os)"
  have c: "(case o_context os of None \<Rightarrow> [] | Some c \<Rightarrow> c) = ?c" by (simp add: default_def)
  have "units ?c \<le> sum_list (map units (part ''Context'' ?c (o_context os \<notin> {None, Some []})))"
    by (rule units_part) (auto simp: default_def units_def)
  moreover have "sum_list (map units (o_implementation os)) \<le>
      sum_list (map units (part ''Implementation notes'' (bullets ''- '' [] (o_implementation os)) (o_implementation os \<noteq> [])))"
    by (rule units_part) (simp_all add: units_bullets)
  moreover have "sum_list (map units (o_acceptance os)) \<le>
      sum_list (map units (part ''Acceptance criteria'' (bullets ''- [ ] '' [] (o_acceptance os)) (o_acceptance os \<noteq> [])))"
    by (rule units_part) (simp_all add: units_bullets)
  moreover have "sum_list (map units (refs_texts (o_specs os))) \<le>
      sum_list (map units (part ''Spec references'' (specRefs (o_specs os)) (o_specs os \<noteq> [])))"
    "sum_list (map units (refs_texts (o_stack os))) \<le>
      sum_list (map units (part ''Stack references'' (specRefs (o_stack os)) (o_stack os \<noteq> [])))"
    "sum_list (map units (refs_texts (o_schema os))) \<le>
      sum_list (map units (part ''Schema references'' (specRefs (o_schema os)) (o_schema os \<noteq> [])))"
    by (rule units_part, simp add: refs_texts_def, rule units_specRefs)+
  ultimately have "sum_list (map units (core_texts os)) \<le> sum_list (map units
     (part ''Context'' ?c (o_context os \<notin> {None, Some []}) @
      part ''Spec references'' (specRefs (o_specs os)) (o_specs os \<noteq> []) @
      part ''Stack references'' (specRefs (o_stack os)) (o_stack os \<noteq> []) @
      part ''Schema references'' (specRefs (o_schema os)) (o_schema os \<noteq> []) @
      part ''Implementation notes'' (bullets ''- '' [] (o_implementation os)) (o_implementation os \<noteq> []) @
      part ''Files'' (bullets (''- '' @ BQ) BQ (o_files os)) (o_files os \<noteq> []) @
      part ''Acceptance criteria'' (bullets ''- [ ] '' [] (o_acceptance os)) (o_acceptance os \<noteq> []) @
      part ''Tests'' (bullets (''- '' @ BQ) BQ (o_tests os)) (o_tests os \<noteq> []) @
      part ''Out of scope'' (bullets ''- '' [] (o_outOfScope os)) (o_outOfScope os \<noteq> []) @
      part ''Related roadmap tasks'' (bullets (''- '' @ BQ) BQ (o_relatedTasks os)) (o_relatedTasks os \<noteq> [])))"
    by (simp add: core_texts_def)
  also have "\<dots> \<le> units (describe os)" unfolding describe_def c by (rule units_join)
  finally show ?thesis .
qed

subsection \<open>The descriptions of the calls\<close>

definition all_texts :: "task_opts \<Rightarrow> string list" where
  "all_texts os = core_texts os @ o_files os @ o_tests os @ o_outOfScope os @ o_relatedTasks os"

lemma calm_bullets:
  assumes "calm before" "calm after" "list_all calm xs"
  shows "calm (bullets before after xs)"
  unfolding bullets_def using assms
  by (intro calm_join) (auto simp: list_all_iff LF_def intro!: calm_append, simp add: calm_def)

lemma calm_part: "calm title \<Longrightarrow> calm body \<Longrightarrow> list_all calm (part title body given)"
  unfolding part_def by (auto intro!: calm_append calm_Cons simp: LF_def)

lemma calm_specRefs: "list_all calm (refs_texts refs) \<Longrightarrow> calm (specRefs refs)"
  unfolding specRefs_def
proof (rule calm_join)
  assume c: "list_all calm (refs_texts refs)"
  have lit: "calm ''- [''" "calm '']('' " "calm '')''" "calm '' ''" "calm em_dash" by (simp_all add: calm_def em_dash_def)
  have "calm (''- ['' @ printed (dl_label r) @ '']('' @ printed (dl_href r) @ '')'' @
      (case dl_note r of Some n \<Rightarrow> if n = [] then [] else '' '' @ em_dash @ '' '' @ n | None \<Rightarrow> []))" if "r \<in> set refs" for r
  proof -
    have "calm (printed (dl_label r))" "calm (printed (dl_href r))" "calm (default [] (dl_note r))"
      using c that by (auto simp: list_all_iff link_texts_def refs_texts_def)
    then show ?thesis using lit by (intro calm_append) (auto simp: default_def calm_Nil intro!: calm_append calm_Cons split: option.splits)
  qed
  then show "list_all calm (map (\<lambda>r. ''- ['' @ printed (dl_label r) @ '']('' @ printed (dl_href r) @ '')'' @
      (case dl_note r of Some n \<Rightarrow> if n = [] then [] else '' '' @ em_dash @ '' '' @ n | None \<Rightarrow> [])) refs)"
    by (auto simp: list_all_iff)
qed (simp add: calm_def LF_def)

lemma calm_describe:
  assumes "list_all calm (all_texts os)" shows "calm (describe os)"
proof -
  have c: "(case o_context os of None \<Rightarrow> [] | Some c \<Rightarrow> c) = default [] (o_context os)" by (simp add: default_def)
  have texts: "calm (default [] (o_context os))" "list_all calm (o_implementation os)" "list_all calm (o_acceptance os)"
    "list_all calm (o_files os)" "list_all calm (o_tests os)" "list_all calm (o_outOfScope os)" "list_all calm (o_relatedTasks os)"
    "list_all calm (refs_texts (o_specs os))" "list_all calm (refs_texts (o_stack os))"
    "list_all calm (refs_texts (o_schema os))"
    using assms by (simp_all add: all_texts_def core_texts_def)
  have marks: "calm ''- ''" "calm (''- '' @ BQ)" "calm BQ" "calm ''- [ ] ''" "calm [LF, LF]"
    by (simp_all add: calm_def BQ_def LF_def)
  have titles: "calm ''Context''" "calm ''Spec references''" "calm ''Stack references''" "calm ''Schema references''"
    "calm ''Implementation notes''" "calm ''Files''" "calm ''Acceptance criteria''" "calm ''Tests''" "calm ''Out of scope''"
    "calm ''Related roadmap tasks''" by (simp_all add: calm_def)
  have bodies: "calm (specRefs (o_specs os))" "calm (specRefs (o_stack os))" "calm (specRefs (o_schema os))"
    "calm (bullets ''- '' [] (o_implementation os))" "calm (bullets (''- '' @ BQ) BQ (o_files os))"
    "calm (bullets ''- [ ] '' [] (o_acceptance os))" "calm (bullets (''- '' @ BQ) BQ (o_tests os))"
    "calm (bullets ''- '' [] (o_outOfScope os))" "calm (bullets (''- '' @ BQ) BQ (o_relatedTasks os))"
    by (simp_all only: calm_specRefs calm_bullets calm_Nil texts marks)
  show ?thesis unfolding describe_def c
    by (intro calm_join marks(5)) (simp only: list_all_append calm_part titles bodies texts(1) simp_thms)
qed

definition header_opts :: "registration \<Rightarrow> task_opts" where
  "header_opts r =
     (if reg_parent r = None then (reg_opts r)\<lparr>o_files := [], o_tests := [], o_outOfScope := [], o_relatedTasks := []\<rparr> else reg_opts r)"

lemma task_of_description:
  "o_description (reg_opts r) = None \<Longrightarrow> rt_description (task_of r) = withRoadmapId (reg_id r) (describe (header_opts r))"
  by (cases r) (simp_all add: task_of_def register_def epic_def leaf_def header_opts_def default_def Let_def)

text \<open>What is evaluated for every call.\<close>

definition fit_call :: "unit list \<Rightarrow> registration \<Rightarrow> bool" where
  "fit_call us r \<longleftrightarrow>
     o_description (reg_opts r) = None \<and> test_full TASK_ID (reg_id r) \<and> reg_domain r \<in> set DOMAIN_LABELS \<and>
     covered_by us (core_texts (reg_opts r)) \<and> list_all calm (all_texts (reg_opts r))"

lemma fit_description:
  assumes "fit_call us r"
  shows "read_id (rt_description (task_of r)) = Some (reg_id r)" and "length us \<le> units (rt_description (task_of r))"
proof -
  have d: "rt_description (task_of r) = withRoadmapId (reg_id r) (describe (header_opts r))"
    using assms by (intro task_of_description) (simp add: fit_call_def)
  have "list_all calm (all_texts (header_opts r))"
    using assms by (auto simp: fit_call_def header_opts_def all_texts_def core_texts_def)
  then have c: "calm (describe (header_opts r))" by (rule calm_describe)
  then show "read_id (rt_description (task_of r)) = Some (reg_id r)"
    using assms unfolding d by (intro unmarked_read) (simp_all add: fit_call_def test_full_lang)
  have "core_texts (header_opts r) = core_texts (reg_opts r)" by (simp add: core_texts_def header_opts_def)
  then have "length us \<le> units (describe (header_opts r))"
    using assms covered_by_units [of us] units_describe [of "header_opts r"] by (fastforce simp: fit_call_def)
  then show "length us \<le> units (rt_description (task_of r))"
    unfolding d by (simp add: withRoadmapId_def Let_def units_append)
qed

lemma calls_fit:
  "list_all (fit_call (replicate 200 ())) E01_tasks" "list_all (fit_call (replicate 200 ())) E02_tasks"
  "list_all (fit_call (replicate 200 ())) E03_tasks" "list_all (fit_call (replicate 200 ())) E04_tasks"
  "list_all (fit_call (replicate 200 ())) E05_tasks" "list_all (fit_call (replicate 200 ())) E06_tasks"
  by code_simp+

lemma calls_fit2:
  "list_all (fit_call (replicate 200 ())) E07_tasks" "list_all (fit_call (replicate 200 ())) E08_tasks"
  "list_all (fit_call (replicate 200 ())) E09_tasks" "list_all (fit_call (replicate 200 ())) E10_tasks"
  "list_all (fit_call (replicate 200 ())) E11_tasks"
  by code_simp+

lemma roadmap_description:
  assumes "t \<in> set ROADMAP"
  shows "read_id (rt_description t) = Some (rt_id t)" and "200 \<le> units (rt_description t)" and "rt_domain t \<in> set DOMAIN_LABELS"
proof -
  obtain r where r: "t = task_of r" "fit_call (replicate 200 ()) r"
    using assms calls_fit calls_fit2
    by (auto simp: ROADMAP_tasks calls_def registerE01E06_def registerE07E11_def list_all_iff)
  show "read_id (rt_description t) = Some (rt_id t)" using fit_description(1) [OF r(2)] by (simp add: r(1) task_of_fields)
  show "200 \<le> units (rt_description t)" using fit_description(2) [OF r(2)] by (simp add: r(1))
  have "rt_domain (task_of r) = reg_domain r"
    by (cases r) (simp_all add: task_of_def register_def epic_def leaf_def Let_def)
  then show "rt_domain t \<in> set DOMAIN_LABELS" using r(2) by (simp add: r(1) fit_call_def)
qed

lemma read_id_search: "read_id d = Some i \<Longrightarrow> test_search ROADMAP_ID_RE d"
  by (cases "exec_search ROADMAP_ID_RE d") (auto simp: read_id_def test_search_def)

text \<open>C39: The roadmap the generator writes passes the intake audit, given that it passes the spec audit: it
  has no blocker of any kind, down to the length of every description and the marker in it. So it is
  fit for the import: every reference the import wires names one of its tasks, and every marker is
  read back as its task.\<close>

theorem roadmap_fits_import:
  "intake_blockers True generated = [] \<and> refs_known ROADMAP \<and> marked ROADMAP"
proof -
  have "parent_blockers ROADMAP = []" "dep_blockers ROADMAP = []"
    unfolding ROADMAP_tasks by (rule ordered_parent_blockers ordered_dep_blockers calls_ordered)+
  moreover have "filter (\<lambda>t. \<not> test_search ROADMAP_ID_RE (rt_description t)) ROADMAP = []"
    "filter (\<lambda>t. test_search ROADMAP_ID_RE (rt_description t) \<and> read_id (rt_description t) \<noteq> Some (rt_id t)) ROADMAP = []"
    "filter (\<lambda>t. units (rt_description t) < 200) ROADMAP = []"
    using roadmap_description read_id_search unfolding filter_empty_conv by (metis not_less)+
  moreover have "filter (\<lambda>d. d \<notin> set DOMAIN_LABELS) (uniq (map rt_domain ROADMAP)) = []"
    using roadmap_description(3) unfolding filter_empty_conv by (auto simp: uniq_def)
  ultimately have "intake_blockers True generated = []"
    by (simp add: intake_blockers_def generated_def count_of_def Let_def)
  then show ?thesis using no_blockers_fit [of True generated] by (simp add: generated_def)
qed

end
