(* ===== verification/Roadmap_P00_P04.thy ===== *)
theory Roadmap_P00_P04
  imports Roadmap_Links
begin

section \<open>Tasks of the earlier roadmap (\<open>scripts/roadmap/epics/p00-p14.mjs\<close>)\<close>

text \<open>The calls of \<open>epic\<close> and \<open>leaf\<close> in their order; the calls of an epic with its leaves are in parts.\<close>

definition P00_part1 :: "registration list" where
  "P00_part1 =
    [RegEpic ''P00'' ''Repository scaffold & dev tooling'' ''config''
       (no_opts\<lparr>o_context := Some ''Release Ops ships as a single Docker image with a Go API (127.0.0.1:8080) and Next.js UI (:3000). Before any domain logic, the repository must match stack.html layout: Go module at repo root, apps/web for Next.js 15 App Router, internal/ packages for backend concerns, and shared lint/test tooling. This epic establishes the monorepo skeleton autonomous agents will extend through P14.'',
        o_specs := [SPEC_architecture\<lparr>dl_note := Some ''Single-container bind addresses and process responsibilities''\<rparr>, SPEC_deployment\<lparr>dl_note := Some ''Future Dockerfile expects this directory layout''\<rparr>],
        o_stack := [STACK_layout\<lparr>dl_note := Some ''Canonical folder tree: cmd/, internal/, apps/web/, migrations/''\<rparr>, STACK_quality\<lparr>dl_note := Some ''golangci-lint, ESLint, Prettier, Vitest entry points''\<rparr>],
        o_implementation := [''Create go.mod with module path github.com/mdg-labs/release-ops (or org repo path)'',
          (''cmd/server/main.go '' @ em_dash @ '' HTTP stub on GO_INTERNAL_PORT default 8080''),
          ''internal/{api,config,store,crypto,poll,providers}/ package placeholders'',
          (''apps/web '' @ em_dash @ '' Next.js 15 App Router, TypeScript, Tailwind v4, COSS components.json''),
          ''Root package.json scripts: test, lint, typecheck delegating to web + go test'',
          ''VERSION file semver without v prefix; .gitignore for app.db, node_modules, .next'',
          ''golangci-lint + ESLint/Prettier configs runnable from CI''],
        o_acceptance := [''go build ./cmd/server succeeds from clean clone'',
          ''npm run lint passes on apps/web scaffold'',
          ''npm test runs at least one Vitest smoke test'',
          ''Directory layout matches stack.html repository layout section'',
          ''COSS registry configured in apps/web/components.json'',
          ''golangci-lint run passes with zero issues on scaffold'',
          ''VERSION file present with valid semver'',
          ''.gitignore excludes app.db, node_modules, .next, agent-memory'']\<rparr>),
     RegLeaf ''P00-01'' ''P00'' ''Initialize Go module and cmd/server entrypoint'' ''config''
       (no_opts\<lparr>o_depends_on := [],
        o_context := Some ''The Go binary is the long-running server inside the container: migrations, auth, REST /api/v1, poll scheduler. Start with a minimal main that listens on 127.0.0.1:8080 per specs.html#architecture. Module path must match the GitHub org/repo for import consistency.'',
        o_specs := [SPEC_architecture\<lparr>dl_note := Some (''Go binds 127.0.0.1:GO_INTERNAL_PORT '' @ em_dash @ '' not exposed publicly'')\<rparr>, SPEC_env\<lparr>dl_note := Some ''GO_INTERNAL_PORT, PORT env vars used later by P02''\<rparr>],
        o_stack := [STACK_backend\<lparr>dl_note := Some ''Go 1.22+, chi router added in P02-02''\<rparr>, STACK_layout\<lparr>dl_note := Some ''cmd/server/main.go is the production entrypoint''\<rparr>],
        o_implementation := [''go mod init with correct module path at repo root'',
          (''cmd/server/main.go '' @ em_dash @ '' net/http or chi stub listening on :8080''),
          ''Read GO_INTERNAL_PORT from env with default 8080 (config wiring in P02-01)'',
          ''Create empty migrations/ directory for golang-migrate (P01)'',
          ''Log startup message with slog placeholder'',
          ''Graceful shutdown on SIGTERM for Docker''],
        o_acceptance := [''go.mod exists at repository root with valid module directive'',
          ''cmd/server/main.go compiles without errors'',
          ''go build -o /tmp/release-ops ./cmd/server produces runnable binary'',
          ''Binary listens on 127.0.0.1:8080 by default'',
          ''migrations/ directory exists (may be empty)'',
          ''go test ./... passes (no tests yet is OK)'',
          ''Module path matches GitHub repository import path''],
        o_files := [''go.mod'',
          ''cmd/server/main.go'',
          ''migrations/.gitkeep''],
        o_tests := [''go build ./cmd/server'']\<rparr>),
     RegLeaf ''P00-02'' ''P00'' ''Create internal package skeleton'' ''backend''
       (no_opts\<lparr>o_depends_on := [''P00-01''],
        o_context := Some ''Backend code lives under internal/ per Go conventions. Each subpackage maps to a roadmap epic: api (handlers), config (env), store (sqlc repos), crypto (AES-GCM), poll (scheduler), providers (source/ticket). Placeholders prevent import cycles and give agents clear ownership boundaries.'',
        o_specs := [SPEC_architecture\<lparr>dl_note := Some ''Go owns auth, REST, polling, credential decrypt''\<rparr>, SPEC_providers\<lparr>dl_note := Some ''internal/providers will host SourceProvider and TicketProvider''\<rparr>],
        o_stack := [STACK_layout\<lparr>dl_note := Some ''internal/ package tree per stack.html''\<rparr>, STACK_backend\<lparr>dl_note := Some ''Package-per-concern layout for sqlc and chi''\<rparr>],
        o_implementation := [(''internal/api/ '' @ em_dash @ '' HTTP handlers, router, middleware (doc.go)''),
          (''internal/config/ '' @ em_dash @ '' env loader stub''),
          (''internal/store/ '' @ em_dash @ '' DB connection + sqlc output target''),
          (''internal/crypto/ '' @ em_dash @ '' AES-256-GCM encrypt/decrypt stub''),
          (''internal/poll/ '' @ em_dash @ '' scheduler and decision engine stub''),
          ''internal/providers/source/ and internal/providers/ticket/ directories'',
          ''Each package exports package doc comment describing responsibility''],
        o_acceptance := [''internal/api, config, store, crypto, poll, providers packages exist'',
          ''go build ./... succeeds with placeholder packages'',
          ''No import cycles between internal packages'',
          ''internal/providers/source and internal/providers/ticket subdirs exist'',
          ''Each top-level internal package has doc.go or typed placeholder'',
          ''cmd/server can import internal/api without build errors'',
          ''Package names match directory names (lowercase)''],
        o_files := [''internal/api/doc.go'',
          ''internal/config/doc.go'',
          ''internal/store/doc.go'',
          ''internal/crypto/doc.go'',
          ''internal/poll/doc.go'',
          ''internal/providers/source/doc.go'',
          ''internal/providers/ticket/doc.go''],
        o_tests := [''go build ./...'']\<rparr>),
     RegLeaf ''P00-03'' ''P00'' ''Scaffold apps/web Next.js 15 App Router'' ''web''
       (no_opts\<lparr>o_context := Some ''The web UI is Next.js 15 App Router in apps/web. It proxies /api/go/* to the Go server and renders COSS components. Scaffold with TypeScript, app/ directory layout, and dev script. Auth pages come in P16/P19; this task is structure only.'',
        o_specs := [SPEC_ui\<lparr>dl_note := Some (''Next.js App Router, COSS UI '' @ em_dash @ '' pages added in P16+'')\<rparr>, SPEC_architecture\<lparr>dl_note := Some ''Next.js public on :3000, proxies to Go''\<rparr>],
        o_stack := [STACK_frontend\<lparr>dl_note := Some ''Next.js 15, TypeScript, App Router''\<rparr>, STACK_layout\<lparr>dl_note := Some ''apps/web workspace package''\<rparr>],
        o_implementation := [''apps/web/package.json with next, react, react-dom, typescript'',
          (''apps/web/app/layout.tsx '' @ em_dash @ '' root layout with html/body''),
          (''apps/web/app/page.tsx '' @ em_dash @ '' placeholder home''),
          ''apps/web/tsconfig.json extending shared or local config'',
          (''next.config.ts '' @ em_dash @ '' standalone output flag for Docker (P26)''),
          ''npm run dev starts next dev on port 3000''],
        o_acceptance := [''apps/web/package.json exists with next 15.x dependency'',
          ''app/layout.tsx and app/page.tsx render without error'',
          ''npm run dev starts Next.js dev server'',
          ''TypeScript compiles with strict mode'',
          ''App Router directory structure (not pages/)'',
          ''Root page returns 200 in dev'',
          ''package name scoped or named @release-ops/web''],
        o_files := [''apps/web/package.json'',
          ''apps/web/app/layout.tsx'',
          ''apps/web/app/page.tsx'',
          ''apps/web/tsconfig.json''],
        o_tests := [''cd apps/web && npm run build'']\<rparr>)]"

definition P00_part2 :: "registration list" where
  "P00_part2 =
    [RegLeaf ''P00-04'' ''P00'' ''Configure Tailwind CSS v4 and COSS registry'' ''web''
       (no_opts\<lparr>o_depends_on := [''P00-03''],
        o_context := Some ''Release Ops UI uses COSS (shadcn-compatible) particles per specs.html#ui. Tailwind v4 is required. components.json must point at the COSS registry so agents can `npx shadcn@latest add` primitives. globals.css imports Tailwind and COSS theme tokens.'',
        o_specs := [SPEC_ui\<lparr>dl_note := Some ''COSS particles: p-card-1, p-field-2, p-table-4, p-drawer-10, etc.''\<rparr>, SPEC_architecture\<lparr>dl_note := Some ''UI-only; no auth in Next.js''\<rparr>],
        o_stack := [STACK_frontend\<lparr>dl_note := Some ''Tailwind v4 + COSS registry URL''\<rparr>, STACK_quality\<lparr>dl_note := Some ''PostCSS/Tailwind config for lint pipeline''\<rparr>],
        o_implementation := [(''apps/web/components.json '' @ em_dash @ '' registry URL https://coss.com/ui/r/registry.json''),
          (''apps/web/app/globals.css '' @ em_dash @ '' @import tailwindcss and COSS CSS variables''),
          ''Install tailwindcss@4, @tailwindcss/postcss'',
          ''postcss.config.mjs for Tailwind v4'',
          ''Verify Button primitive installable: npx shadcn@latest add button'',
          ''lib/utils.ts with cn() helper (clsx + tailwind-merge)''],
        o_acceptance := [''Tailwind v4 configured (not v3 config format)'',
          ''components.json points at COSS registry'',
          ''globals.css imported in root layout'',
          ''At least one COSS/shadcn component (Button) installable and renders'',
          ''cn() utility available in lib/utils.ts'',
          ''npm run build succeeds with Tailwind processing'',
          ''Dark theme CSS variables present per COSS defaults''],
        o_files := [''apps/web/components.json'',
          ''apps/web/app/globals.css'',
          ''apps/web/postcss.config.mjs'',
          ''apps/web/lib/utils.ts''],
        o_tests := [''cd apps/web && npm run build'']\<rparr>),
     RegLeaf ''P00-05'' ''P00'' ''Add root package.json workspace scripts'' ''config''
       (no_opts\<lparr>o_depends_on := [''P00-03''],
        o_context := Some ''CI and local dev need a single entry point for test/lint/typecheck. Root package.json orchestrates apps/web npm scripts and go test/golangci-lint. Matches specs.html#ci parallel job expectations.'',
        o_specs := [SPEC_ci\<lparr>dl_note := Some ''CI runs go lint/test and web lint/test/typecheck in parallel''\<rparr>, SPEC_mvp\<lparr>dl_note := Some ''All quality gates must pass before MVP sign-off''\<rparr>],
        o_stack := [STACK_quality\<lparr>dl_note := Some ''Unified npm scripts at repo root''\<rparr>, STACK_cicd\<lparr>dl_note := Some ''Scripts invoked by .github/workflows/ci.yml in P27''\<rparr>],
        o_implementation := [''Root package.json with private: true'',
          ''script test: cd apps/web && npm test && go test ./...'',
          ''script lint: cd apps/web && npm run lint && golangci-lint run'',
          ''script typecheck: cd apps/web && npm run typecheck (or tsc --noEmit)'',
          ''Optional workspaces: [\"apps/web\"] if using npm workspaces'',
          ''Document scripts in README or docs/stack.html cross-ref''],
        o_acceptance := [''Root package.json exists with test, lint scripts'',
          ''npm test runs web tests and go test ./...'',
          ''npm run lint runs ESLint and golangci-lint'',
          ''npm run typecheck runs TypeScript check on apps/web'',
          ''Scripts exit non-zero on failure'',
          ''No package-lock at root required if web has own lockfile'',
          ''Scripts work from clean clone after npm install in apps/web''],
        o_files := [''package.json''],
        o_tests := [''npm test'',
          ''npm run lint'']\<rparr>),
     RegLeaf ''P00-06'' ''P00'' ''Add golangci-lint configuration'' ''config''
       (no_opts\<lparr>o_depends_on := [''P00-01''],
        o_context := Some ''Go code quality is enforced via golangci-lint in CI. Configure linters appropriate for chi, sqlc, and standard library usage. Must pass on scaffold before P02 adds real handlers.'',
        o_specs := [SPEC_ci\<lparr>dl_note := Some ''golangci-lint is a required CI step''\<rparr>, SPEC_architecture\<lparr>dl_note := Some ''All Go code under cmd/ and internal/''\<rparr>],
        o_stack := [STACK_quality\<lparr>dl_note := Some ''golangci-lint version pinned in CI''\<rparr>, STACK_backend\<lparr>dl_note := Some ''Linters: govet, staticcheck, errcheck, gosimple''\<rparr>],
        o_implementation := [''.golangci.yml at repo root'',
          ''Enable: govet, staticcheck, errcheck, ineffassign, unused'',
          (''run.go: '' @ [CHR 0x27] @ ''1.22'' @ [CHR 0x27] @ '' or project Go version''),
          ''timeout: 5m for CI'',
          ''Exclude testdata and vendor if present'',
          ''Document golangci-lint install in stack.html or CONTRIBUTING''],
        o_acceptance := [''.golangci.yml exists at repository root'',
          ''golangci-lint run exits 0 on current scaffold'',
          ''Config includes govet and staticcheck'',
          ''Go version in config matches go.mod'',
          ''No false positives on cmd/server/main.go'',
          ''Lint integrated into root npm run lint script'',
          ''CI-ready (non-interactive)''],
        o_files := [''.golangci.yml''],
        o_tests := [''golangci-lint run'']\<rparr>),
     RegLeaf ''P00-07'' ''P00'' ''Configure ESLint and Prettier for apps/web'' ''config''
       (no_opts\<lparr>o_depends_on := [''P00-03''],
        o_context := Some ''Web code uses ESLint flat config (eslint.config.mjs) and Prettier for formatting. Must integrate with Next.js and TypeScript. npm run lint is a scoped CI gate for apps/web.'',
        o_specs := [SPEC_ui\<lparr>dl_note := Some ''React/Next components will be linted here''\<rparr>, SPEC_ci\<lparr>dl_note := Some ''npm run lint required in CI web job''\<rparr>],
        o_stack := [STACK_frontend\<lparr>dl_note := Some ''ESLint 9 flat config, Prettier''\<rparr>, STACK_quality\<lparr>dl_note := Some ''eslint-config-next or equivalent''\<rparr>],
        o_implementation := [(''apps/web/eslint.config.mjs '' @ em_dash @ '' flat config with typescript-eslint''),
          (''apps/web/.prettierrc '' @ em_dash @ '' semi, singleQuote, trailingComma''),
          ''package.json scripts: lint, lint:fix, format'',
          ''Ignore .next, node_modules in eslint ignores'',
          ''Add eslint-plugin-react-hooks'',
          ''Prettier integrated or separate format script''],
        o_acceptance := [''npm run lint passes on apps/web scaffold'',
          ''eslint.config.mjs uses flat config format'',
          ''.prettierrc exists with project style'',
          ''TypeScript files (.ts, .tsx) are linted'',
          ''No lint errors on app/layout.tsx and app/page.tsx'',
          ''lint:fix auto-fixes safe issues'',
          ''ESLint ignores .next build output''],
        o_files := [''apps/web/eslint.config.mjs'',
          ''apps/web/.prettierrc''],
        o_tests := [''cd apps/web && npm run lint'']\<rparr>)]"

definition P00_part3 :: "registration list" where
  "P00_part3 =
    [RegLeaf ''P00-08'' ''P00'' ''Set up Vitest and React Testing Library'' ''web''
       (no_opts\<lparr>o_depends_on := [''P00-03''],
        o_context := Some ''Frontend tests use Vitest + React Testing Library per stack.html. At least one smoke test proves the test runner works in CI. Component tests for login, dashboard, etc. come in P19+.'',
        o_specs := [SPEC_ui\<lparr>dl_note := Some ''UI tests validate COSS component integration''\<rparr>, SPEC_mvp\<lparr>dl_note := Some ''MVP includes page-level tests per roadmap''\<rparr>],
        o_stack := [STACK_frontend\<lparr>dl_note := Some ''Vitest, @testing-library/react, jsdom''\<rparr>, STACK_quality\<lparr>dl_note := Some ''npm test invoked from root package.json''\<rparr>],
        o_implementation := [(''apps/web/vitest.config.ts '' @ em_dash @ '' environment jsdom, setupFiles''),
          (''apps/web/vitest.setup.ts '' @ em_dash @ '' import @testing-library/jest-dom''),
          (''package.json script: test '' @ [CHR 0xE2, CHR 0x86, CHR 0x92] @ '' vitest run''),
          (''Smoke test: app/page renders '' @ [CHR 0x27] @ ''Release Ops'' @ [CHR 0x27] @ '' or similar''),
          ''Path alias @/ mapped in vitest config matching tsconfig'',
          ''Optional test script in root delegates to apps/web''],
        o_acceptance := [''vitest.config.ts exists and configures jsdom'',
          ''npm test runs vitest in run mode (non-watch)'',
          ''At least one .test.tsx file passes'',
          ''@testing-library/jest-dom matchers available'',
          ''@/ path alias resolves in tests'',
          ''Tests run in CI without headed browser'',
          ''npm test from repo root succeeds''],
        o_files := [''apps/web/vitest.config.ts'',
          ''apps/web/vitest.setup.ts'',
          ''apps/web/app/page.test.tsx''],
        o_tests := [''cd apps/web && npm test'']\<rparr>),
     RegLeaf ''P00-09'' ''P00'' ''Add VERSION file and extend .gitignore'' ''config''
       (no_opts\<lparr>o_context := Some ''Release versioning uses a root VERSION file (no v prefix) read by CI prepare-release workflow (P27). .gitignore must exclude SQLite app.db, build artifacts, and agent session memory.'',
        o_specs := [SPEC_ci\<lparr>dl_note := Some ''prepare-release.yml reads VERSION for tag bump''\<rparr>, SPEC_deployment\<lparr>dl_note := Some ''app.db lives on /data volume in container''\<rparr>],
        o_stack := [STACK_cicd\<lparr>dl_note := Some ''VERSION file semver for GHCR image tags''\<rparr>, STACK_data\<lparr>dl_note := Some ''SQLite app.db path APP_DB_PATH default /data/app.db''\<rparr>],
        o_implementation := [''VERSION file containing 0.1.0 (semver, no v prefix)'',
          ''.gitignore entries: app.db, *.db, node_modules/, apps/web/node_modules/'',
          ''.gitignore: apps/web/.next/, dist/, .env, .env.local'',
          ''.gitignore: .agents/project/agent-memory/ (session files)'',
          ''Optional: coverage/, tmp/'',
          ''Document VERSION bump process in P27 prepare-release''],
        o_acceptance := [''VERSION file exists with valid semver (e.g. 0.1.0)'',
          (''VERSION does not include '' @ [CHR 0x27] @ ''v'' @ [CHR 0x27] @ '' prefix''),
          ''.gitignore covers app.db and node_modules'',
          ''.gitignore covers apps/web/.next'',
          ''.gitignore covers agent-memory directory'',
          ''.env and .env.local ignored'',
          ''git status clean after local dev artifacts generated''],
        o_files := [''VERSION'',
          ''.gitignore''],
        o_tests := [(''test -f VERSION && grep -qE '' @ [CHR 0x27] @ ''^[0-9]+'' @ [CHR 0x5C] @ ''.[0-9]+'' @ [CHR 0x5C] @ ''.[0-9]+$'' @ [CHR 0x27] @ '' VERSION'')]\<rparr>),
     RegLeaf ''P00-10'' ''P00'' ''Configure next-intl provider and message files'' ''web''
       (no_opts\<lparr>o_depends_on := [''P00-03''],
        o_context := Some (''All user-facing UI copy must use next-intl per specs.html#i18n and .claude/rules/10-i18n.md. MVP ships English only (messages/en.json) but the provider must be in place before any page ships real copy. No hardcoded strings in components '' @ em_dash @ '' enforced by ESLint in P00-11.''),
        o_specs := [SPEC_i18n\<lparr>dl_note := Some ([CHR 0xC2, CHR 0xA7] @ ''8.5 next-intl, messages/en.json, useTranslations'')\<rparr>, SPEC_ui\<lparr>dl_note := Some (''All '' @ [CHR 0xC2, CHR 0xA7] @ ''8.3 page copy via message keys'')\<rparr>],
        o_stack := [STACK_frontend\<lparr>dl_note := Some ''next-intl App Router setup''\<rparr>, STACK_quality\<lparr>dl_note := Some ''Messages colocated under apps/web/messages/''\<rparr>],
        o_implementation := [''npm install next-intl in apps/web'',
          (''apps/web/messages/en.json '' @ em_dash @ '' namespaces: common, auth, dashboard, repos, integrations, ticketProjects, notifications, settings''),
          (''apps/web/i18n/request.ts '' @ em_dash @ '' getRequestConfig default locale en''),
          (''apps/web/i18n/routing.ts '' @ em_dash @ '' locales: ['' @ [CHR 0x27] @ ''en'' @ [CHR 0x27] @ ''], defaultLocale: '' @ [CHR 0x27] @ ''en'' @ [CHR 0x27]),
          ''Wrap root layout with NextIntlClientProvider'',
          ''middleware.ts integrates next-intl middleware (coordinate with P18-04)'',
          ''Seed en.json with placeholder keys for app shell nav items''],
        o_acceptance := [''next-intl installed and configured for App Router'',
          ''apps/web/messages/en.json exists with namespaced keys'',
          ''Root layout wraps children with NextIntlClientProvider'',
          (''useTranslations('' @ [CHR 0x27] @ ''common'' @ [CHR 0x27] @ '') works in a test component''),
          ''Default locale is en'',
          ''No page component contains hardcoded English UI strings (stub pages use t())'',
          ''Document pattern in apps/web/README or comment in i18n/request.ts'',
          ''npm run build succeeds with i18n wiring''],
        o_files := [''apps/web/messages/en.json'',
          ''apps/web/i18n/request.ts'',
          ''apps/web/i18n/routing.ts'',
          ''apps/web/app/layout.tsx''],
        o_tests := [''cd apps/web && npm run build''],
        o_relatedTasks := [''P00-11'',
          ''P18-01'']\<rparr>),
     RegLeaf ''P00-11'' ''P00'' ''Add ESLint i18n no-literal-string rule'' ''web''
       (no_opts\<lparr>o_depends_on := [''P00-10'',
          ''P00-07''],
        o_context := Some ''CI and local lint must fail on hardcoded JSX text and toast strings per specs.html#i18n. Use eslint-plugin-i18next with i18next/no-literal-string. Allowlist: className, testId, route paths, technical enums.'',
        o_specs := [SPEC_i18n\<lparr>dl_note := Some ([CHR 0xC2, CHR 0xA7] @ ''8.5 CI '' @ em_dash @ '' eslint-plugin-i18next'')\<rparr>, SPEC_ci\<lparr>dl_note := Some ([CHR 0xC2, CHR 0xA7] @ ''11.4 web lint job includes i18n rule'')\<rparr>],
        o_stack := [STACK_quality\<lparr>dl_note := Some ''eslint-plugin-i18next in apps/web''\<rparr>, STACK_cicd\<lparr>dl_note := Some ''npm run lint fails on literal strings''\<rparr>],
        o_implementation := [''npm install -D eslint-plugin-i18next'',
          ''Enable i18next/no-literal-string in eslint.config.mjs'',
          (''options: mode '' @ [CHR 0x27] @ ''jsx-text-only'' @ [CHR 0x27] @ '' or '' @ [CHR 0x27] @ ''all'' @ [CHR 0x27] @ '' per plugin docs''),
          (''ignoreAttribute: ['' @ [CHR 0x27] @ ''className'' @ [CHR 0x27] @ '', '' @ [CHR 0x27] @ ''data-testid'' @ [CHR 0x27] @ '', '' @ [CHR 0x27] @ ''href'' @ [CHR 0x27] @ '', '' @ [CHR 0x27] @ ''type'' @ [CHR 0x27] @ '', '' @ [CHR 0x27] @ ''name'' @ [CHR 0x27] @ '']''),
          (''ignoreCallee: ['' @ [CHR 0x27] @ ''console.log'' @ [CHR 0x27] @ '', '' @ [CHR 0x27] @ ''Error'' @ [CHR 0x27] @ '']''),
          ''Root package.json lint script runs apps/web lint'',
          ''Add one intentional test file proving rule catches violations''],
        o_acceptance := [''eslint-plugin-i18next configured'',
          ''i18next/no-literal-string error on <span>Hardcoded</span> in test'',
          ''npm run lint passes on scaffold using t() keys only'',
          ''CI web lint job will run same config (P27-07)'',
          ''Rule documented in .claude/rules/10-i18n.md cross-ref'',
          (''aria-label must use t() '' @ em_dash @ '' not ignored by rule''),
          (''Toast messages must use t() '' @ em_dash @ '' verified in mutation hooks P17-05''),
          ''No disable comments added project-wide''],
        o_files := [''apps/web/eslint.config.mjs''],
        o_tests := [''npm run lint''],
        o_relatedTasks := [''P00-10'',
          ''P27-07'']\<rparr>)]"

definition registerP00 :: "registration list" where
  "registerP00 = P00_part1 @ P00_part2 @ P00_part3"

definition P01_part1 :: "registration list" where
  "P01_part1 =
    [RegEpic ''P01'' ''Database migrations & sqlc'' ''db''
       (no_opts\<lparr>o_depends_on := [''P00-01''],
        o_context := Some ''SQLite schema is canonical in db/schema.sql: users, sessions, integrations, ticket_projects, monitored_repos, notification_targets, poll_runs, poll_run_events. golang-migrate applies versioned SQL; sqlc generates type-safe Go from queries/. This epic is the data foundation for all store and API work.'',
        o_specs := [SPEC_schema\<lparr>dl_note := Some ''Table definitions, CHECK constraints, JSON columns''\<rparr>, SPEC_auth\<lparr>dl_note := Some ''users + sessions tables for scs session store''\<rparr>, SPEC_schemaMigrations\<lparr>dl_note := Some ''sqldiff-generated migrations only''\<rparr>],
        o_stack := [STACK_data\<lparr>dl_note := Some ''golang-migrate, sqlc, modernc.org/sqlite''\<rparr>, SCHEMA_sql\<lparr>dl_note := Some ''Source of truth for migrate-diff''\<rparr>],
        o_schema := [SCHEMA_sql\<lparr>dl_note := Some ''All 11 tables + indexes''\<rparr>, SCHEMA_html\<lparr>dl_note := Some ''Human-readable ER reference''\<rparr>],
        o_implementation := [(''scripts/migrate-diff.mjs + make migrate-diff name=init '' @ [CHR 0xE2, CHR 0x86, CHR 0x92] @ '' migrations/000001_init.{up,down}.sql''),
          (''scripts/ci/check-migrations-sync.mjs '' @ em_dash @ '' npm run db:check verifies db/schema.sql vs migrations/''),
          (''sqlc.yaml '' @ em_dash @ '' engine sqlite, schema migrations/, queries queries/''),
          ''Makefile targets: migrate-diff, migrate-up, migrate-down'',
          (''sqlc generate '' @ [CHR 0xE2, CHR 0x86, CHR 0x92] @ '' internal/store/db/*.go''),
          ''Migration smoke test with temp SQLite file''],
        o_acceptance := [''npm run db:check passes (migrations match db/schema.sql)'',
          ''Down migration cleanly drops all tables'',
          ''sqlc generate produces compilable Go code'',
          ''migrate-up applies to fresh app.db without errors'',
          ''Foreign keys enforced (PRAGMA foreign_keys=ON)'',
          ''integrations.kind CHECK includes all 8 kinds'',
          ''ticket_projects.on_open_ticket_policy CHECK: supersede|merge|skip_if_open'']\<rparr>),
     RegLeaf ''P01-01'' ''P01'' ''Generate initial migration via migrate-diff'' ''db''
       (no_opts\<lparr>o_depends_on := [''P00-01''],
        o_context := Some (''Baseline migration is generated by scripts/migrate-diff.mjs (SQLite sqldiff) from empty DB '' @ [CHR 0xE2, CHR 0x86, CHR 0x92] @ '' db/schema.sql. Must include PRAGMA foreign_keys, all CHECK constraints on integrations.kind, ticket_projects JSON validity, and poll_run_events.action enum.''),
        o_specs := [SPEC_schema\<lparr>dl_note := Some ([CHR 0xC2, CHR 0xA7] @ ''4 full table definitions'')\<rparr>, SPEC_ticketProjects\<lparr>dl_note := Some ''ticket_projects columns: create_config, status_mapping, on_open_ticket_policy''\<rparr>, SPEC_schemaMigrations\<lparr>dl_note := Some ''Never hand-write migrations/*.sql''\<rparr>],
        o_schema := [SCHEMA_sql\<lparr>dl_note := Some (''Canonical DDL '' @ em_dash @ '' migrate-diff reads this file'')\<rparr>, SCHEMA_html\<lparr>dl_note := Some ''Verify column types match''\<rparr>],
        o_implementation := [(''Add scripts/migrate-diff.mjs '' @ em_dash @ '' sqldiff between migrated DB and db/schema.sql''),
          (''make migrate-diff name=init '' @ [CHR 0xE2, CHR 0x86, CHR 0x92] @ '' migrations/000001_init.up.sql and .down.sql''),
          ''Up migration creates users, sessions, app_settings, integrations, ticket_projects'',
          ''Include monitored_repos, notification_targets, monitored_repo_notifications'',
          ''Include poll_runs, poll_run_events and all indexes'',
          ''Down migration generated by sqldiff (reverse transform)''],
        o_acceptance := [''Up migration creates all 11 tables'',
          ''integrations CHECK enforces base_url rules per kind'',
          ''ticket_projects UNIQUE(integration_id, external_project_id)'',
          ''monitored_repos UNIQUE(source_kind, project_path)'',
          ''poll_run_events.action IN baseline,skip,create,supersede,merge,skip_open,error'',
          ''Down migration removes all objects without error'',
          ''npm run db:check passes after generation''],
        o_files := [''db/schema.sql'',
          ''scripts/migrate-diff.mjs'',
          ''migrations/000001_init.up.sql'',
          ''migrations/000001_init.down.sql''],
        o_tests := [''make migrate-diff name=init'',
          ''npm run db:check'']\<rparr>),
     RegLeaf ''P01-02'' ''P01'' ''Add golang-migrate CLI targets'' ''db''
       (no_opts\<lparr>o_depends_on := [''P01-01''],
        o_context := Some ''Developers and Docker entrypoint need repeatable migrate-up/down commands. Use golang-migrate CLI with file://migrations source and sqlite3://$APP_DB_PATH database URL.'',
        o_specs := [SPEC_deployment\<lparr>dl_note := Some ''Entrypoint runs migrate up before Go server starts''\<rparr>, SPEC_env\<lparr>dl_note := Some ''APP_DB_PATH default /data/app.db''\<rparr>],
        o_stack := [STACK_data\<lparr>dl_note := Some ''golang-migrate CLI install instructions''\<rparr>, STACK_deploy\<lparr>dl_note := Some ''migrate invoked in docker/entrypoint.sh P26''\<rparr>],
        o_implementation := [''Makefile targets: migrate-diff, migrate-up, migrate-down'',
          ''DATABASE_URL=sqlite3://$APP_DB_PATH file://migrations'',
          ''Document migrate CLI install: go install github.com/golang-migrate/migrate/v4/cmd/migrate@latest'',
          ''Optional npm script wrapper in root package.json'',
          ''migrate-up creates parent dir for APP_DB_PATH if missing'',
          ''Pin migrate version in stack.html or Makefile comment''],
        o_acceptance := [''make migrate-up applies migrations to test db'',
          ''make migrate-down rolls back one version'',
          ''Works with sqlite3:// path including directory creation'',
          ''Documented in Makefile help or README'',
          ''Second migrate-up is idempotent (no error)'',
          ''migrate version table exists after up'',
          ''CLI documented for local dev without Docker''],
        o_files := [''Makefile''],
        o_tests := [''make migrate-up DATABASE_URL=sqlite3:///tmp/test.db'']\<rparr>),
     RegLeaf ''P01-03'' ''P01'' ''Configure sqlc.yaml and query directory'' ''db''
       (no_opts\<lparr>o_depends_on := [''P01-01''],
        o_context := Some ''sqlc generates Go structs and query methods from SQL in queries/. Schema path points at migrations so generated types match applied DB. Package output: internal/store/db.'',
        o_specs := [SPEC_schema\<lparr>dl_note := Some (''Column types map to Go: TEXT'' @ [CHR 0xE2, CHR 0x86, CHR 0x92] @ ''string, INTEGER'' @ [CHR 0xE2, CHR 0x86, CHR 0x92] @ ''int64'')\<rparr>, SPEC_providers\<lparr>dl_note := Some ''Queries will join integrations for decrypt in store layer''\<rparr>],
        o_stack := [STACK_data\<lparr>dl_note := Some ''sqlc v2 config format''\<rparr>, STACK_backend\<lparr>dl_note := Some ''Generated code in internal/store/db''\<rparr>],
        o_implementation := [''sqlc.yaml version 2 at repo root'',
          ''sql: schema: migrations/, queries: queries/'',
          ''gen.go: package db, out internal/store/db, sql_package database/sql'',
          ''engine: sqlite, emit_json_tags: true'',
          ''Create queries/ directory with .gitkeep or first stub'',
          ''Document sqlc install: go install github.com/sqlc-dev/sqlc/cmd/sqlc@latest''],
        o_acceptance := [''sqlc.yaml exists and validates with sqlc compile'',
          ''queries/ directory present'',
          ''Schema path includes 000001_init.up.sql tables'',
          ''Output package is internal/store/db'',
          ''emit_json_tags enabled for API serialization'',
          ''sqlc version documented'',
          ''sqlc generate runs without error (may emit empty package initially)''],
        o_files := [''sqlc.yaml'',
          ''queries/.gitkeep''],
        o_tests := [''sqlc compile'']\<rparr>)]"

definition P01_part2 :: "registration list" where
  "P01_part2 =
    [RegLeaf ''P01-04'' ''P01'' ''Wire sqlc generate into Go module'' ''db''
       (no_opts\<lparr>o_depends_on := [''P01-03''],
        o_context := Some ''After first real queries are added (P05), sqlc generate must integrate into go build. For this task, add minimal query (e.g. SELECT 1) or users stub so generate produces compilable output.'',
        o_specs := [SPEC_schema\<lparr>dl_note := Some ''users table: id, email, password_hash, created_at, updated_at''\<rparr>, SPEC_auth\<lparr>dl_note := Some ''First queries target users for P03''\<rparr>],
        o_stack := [STACK_data\<lparr>dl_note := Some ''sqlc generate in CI and pre-commit optional''\<rparr>, STACK_backend\<lparr>dl_note := Some ''import release-ops/internal/store/db''\<rparr>],
        o_implementation := [''queries/health.sql or stub query for code gen smoke test'',
          (''Run sqlc generate '' @ [CHR 0xE2, CHR 0x86, CHR 0x92] @ '' internal/store/db/*.go''),
          ''go.mod requires no extra deps for sqlc output'',
          ''Add //go:generate sqlc generate to internal/store/doc.go'',
          ''Makefile target: sqlc-generate'',
          ''Verify go build ./internal/store/... after generate''],
        o_acceptance := [''sqlc generate produces files in internal/store/db/'',
          ''go build ./... succeeds after generate'',
          ''Generated models include table name comments'',
          ''go generate ./internal/store works'',
          ''No hand-edits to generated db/*.go (regenerated only)'',
          ''sqlc diff clean after generate'',
          ''CI can run sqlc generate && git diff --exit-code''],
        o_files := [''internal/store/db/'',
          ''queries/health.sql''],
        o_tests := [''sqlc generate && go build ./...'']\<rparr>),
     RegLeaf ''P01-05'' ''P01'' ''Add migration smoke test'' ''db''
       (no_opts\<lparr>o_depends_on := [''P01-02''],
        o_context := Some ''Automated test applies up migration to temp SQLite file, verifies schema_migrations version, and optionally queries sqlite_master for expected tables. Catches drift from db/schema.sql.'',
        o_specs := [SPEC_schema\<lparr>dl_note := Some ''All tables must exist after migrate up''\<rparr>, SPEC_mvp\<lparr>dl_note := Some ''DB layer tests required for MVP confidence''\<rparr>],
        o_stack := [STACK_data\<lparr>dl_note := Some ''Test uses modernc.org/sqlite in-memory or temp file''\<rparr>, STACK_quality\<lparr>dl_note := Some ''go test ./internal/store/...''\<rparr>],
        o_implementation := [''internal/store/migrate_test.go'',
          ''Use golang-migrate programmatic API or exec migrate CLI'',
          ''Temp file :memory: or t.TempDir()/test.db'',
          ''Assert schema_migrations version = 1'',
          ''Query sqlite_master for integrations, monitored_repos tables'',
          ''Test down migration drops tables (optional subtest)''],
        o_acceptance := [''go test ./internal/store/... -run Migrate passes'',
          ''Test creates fresh DB and applies up migration'',
          ''Verifies at least integrations and users tables exist'',
          ''Test is parallel-safe (unique temp paths)'',
          ''Fails if migration SQL has syntax error'',
          ''No leftover test.db in repo'',
          ''Runs in CI without external deps''],
        o_files := [''internal/store/migrate_test.go''],
        o_tests := [''go test ./internal/store/... -run Migrate'']\<rparr>)]"

definition registerP01 :: "registration list" where
  "registerP01 = P01_part1 @ P01_part2"

definition P02_part1 :: "registration list" where
  "P02_part1 =
    [RegEpic ''P02'' ''Go server core, config & health'' ''backend''
       (no_opts\<lparr>o_depends_on := [''P01-04''],
        o_context := Some (''The Go server boots inside the container: load env config, open SQLite, run migrations, mount chi router at /api/v1, structured logging, JSON error helper, and unauthenticated GET /healthz. Foundation for auth (P03) and all REST handlers P06'' @ [CHR 0xE2, CHR 0x80, CHR 0x93] @ ''P15.''),
        o_specs := [SPEC_architecture\<lparr>dl_note := Some ''Go process responsibilities and bind address''\<rparr>, SPEC_env\<lparr>dl_note := Some ''SESSION_SECRET, APP_ENCRYPTION_KEY, APP_DB_PATH, PORT, GO_INTERNAL_PORT''\<rparr>],
        o_stack := [STACK_backend\<lparr>dl_note := Some ''chi router, slog, golang-migrate programmatic''\<rparr>, STACK_data\<lparr>dl_note := Some ''SQLite connection pool via modernc.org/sqlite''\<rparr>],
        o_implementation := [(''internal/config/config.go '' @ em_dash @ '' Load() from env with validation''),
          (''internal/api/router.go '' @ em_dash @ '' chi.NewRouter(), Mount /api/v1''),
          (''internal/store/db.go '' @ em_dash @ '' sql.Open sqlite, SetMaxOpenConns''),
          (''internal/store/migrate.go '' @ em_dash @ '' migrate.Up on startup''),
          (''internal/api/errors.go '' @ em_dash @ '' WriteError(w, code, message, status)''),
          (''internal/api/logging.go '' @ em_dash @ '' request ID middleware with slog''),
          (''internal/api/health.go '' @ em_dash @ '' GET /healthz '' @ [CHR 0xE2, CHR 0x86, CHR 0x92] @ '' 200 OK'')],
        o_acceptance := [''Server starts with valid env and runs migrations'',
          ''GET /healthz returns 200 without auth'',
          ''Missing SESSION_SECRET fails fast on startup'',
          ''Router serves /api/v1 prefix for future handlers'',
          ''JSON errors match { error: { code, message } }'',
          ''SQLite pool opens APP_DB_PATH (creates file if needed)'',
          ''Structured logs include request method and path'']\<rparr>),
     RegLeaf ''P02-01'' ''P02'' ''Implement environment config loader'' ''backend''
       (no_opts\<lparr>o_depends_on := [''P00-02''],
        o_context := Some ''Config loads from environment per specs.html#env: SESSION_SECRET (32+ bytes), APP_ENCRYPTION_KEY (64 hex chars), APP_DB_PATH, GO_INTERNAL_PORT, GO_API_URL, APP_PUBLIC_URL, BOOTSTRAP_ADMIN_EMAIL/PASSWORD. Validate on startup.'',
        o_specs := [SPEC_env\<lparr>dl_note := Some ''Full env var table with defaults and required flags''\<rparr>, SPEC_auth\<lparr>dl_note := Some ''SESSION_SECRET for scs; BOOTSTRAP_ADMIN_* for first user''\<rparr>],
        o_stack := [STACK_backend\<lparr>dl_note := Some ''Config struct in internal/config''\<rparr>, STACK_deploy\<lparr>dl_note := Some ''Env vars set in docker-compose.yml P26''\<rparr>],
        o_implementation := [''type Config struct with all env fields'',
          ''Load() reads os.Getenv with defaults: GO_INTERNAL_PORT=8080, APP_DB_PATH=/data/app.db'',
          ''Validate SESSION_SECRET min length 32'',
          ''Validate APP_ENCRYPTION_KEY is 64 hex characters (32 bytes)'',
          ''APP_PUBLIC_URL required for cookie Secure flag logic'',
          ''Export Config singleton or pass to server constructor'',
          ''Unit tests with t.Setenv for each validation rule''],
        o_acceptance := [''Load() returns error when SESSION_SECRET missing'',
          ''Load() returns error when APP_ENCRYPTION_KEY not 64 hex'',
          ''Defaults applied for GO_INTERNAL_PORT and APP_DB_PATH'',
          ''BOOTSTRAP_ADMIN_EMAIL optional (empty skips bootstrap)'',
          ''Config struct exported for injection into api/store'',
          ''go test ./internal/config/... passes'',
          ''No hardcoded secrets in source''],
        o_files := [''internal/config/config.go'',
          ''internal/config/config_test.go''],
        o_tests := [''go test ./internal/config/...'']\<rparr>),
     RegLeaf ''P02-02'' ''P02'' ''Set up chi router with /api/v1 prefix'' ''backend''
       (no_opts\<lparr>o_depends_on := [''P02-01''],
        o_context := Some ''All REST endpoints live under /api/v1 per specs.html#api. Chi subrouter pattern keeps auth, settings, integrations routes organized. Mount health outside /api/v1 or at root /healthz.'',
        o_specs := [SPEC_api\<lparr>dl_note := Some ''Base path /api/v1 for all JSON endpoints''\<rparr>, SPEC_auth\<lparr>dl_note := Some ''Auth routes: /api/v1/auth/login, logout, session''\<rparr>],
        o_stack := [STACK_backend\<lparr>dl_note := Some ''github.com/go-chi/chi/v5''\<rparr>, STACK_layout\<lparr>dl_note := Some ''internal/api/router.go central mount point''\<rparr>],
        o_implementation := [(''internal/api/router.go '' @ em_dash @ '' NewRouter(cfg, store) http.Handler''),
          ''r.Get(/healthz, healthHandler) at root router'',
          ''r.Route(/api/v1, func(r chi.Router) { ... })'',
          ''Placeholder routes or 404 for unimplemented paths'',
          ''chi middleware: RequestID, RealIP, Recoverer'',
          ''cmd/server/main.go calls api.NewRouter and ListenAndServe''],
        o_acceptance := [''GET /healthz reachable on main router'',
          ''/api/v1 subrouter exists'',
          ''Unregistered /api/v1/foo returns 404 JSON'',
          ''chi RequestID middleware active'',
          ''Router returned from constructor, not global'',
          ''main.go uses config.GoInternalPort for listen addr'',
          ''go build ./cmd/server succeeds''],
        o_files := [''internal/api/router.go'',
          ''cmd/server/main.go''],
        o_tests := [''go build ./cmd/server'']\<rparr>),
     RegLeaf ''P02-03'' ''P02'' ''Open SQLite connection pool'' ''backend''
       (no_opts\<lparr>o_depends_on := [''P02-01'',
          ''P01-04''],
        o_context := Some ''Single SQLite file app.db per specs. Use modernc.org/sqlite (pure Go) or mattn/go-sqlite3 per stack.html. Connection opened once at startup, injected into store and scs session store.'',
        o_specs := [SPEC_schema\<lparr>dl_note := Some ''SQLite single-writer; pool size 1 recommended''\<rparr>, SPEC_deployment\<lparr>dl_note := Some ''/data volume mount for app.db persistence''\<rparr>],
        o_stack := [STACK_data\<lparr>dl_note := Some ''modernc.org/sqlite driver registration''\<rparr>, SCHEMA_sql\<lparr>dl_note := Some ''PRAGMA foreign_keys=ON on each connection''\<rparr>],
        o_implementation := [(''internal/store/db.go '' @ em_dash @ '' Open(cfg Config) (*sql.DB, error)''),
          ''Import _ modernc.org/sqlite'',
          ''DSN: file:path?cache=shared&_foreign_keys=on'',
          ''SetMaxOpenConns(1) for SQLite'',
          ''Ping on open to verify writable path'',
          ''Create parent directory for APP_DB_PATH if not exists''],
        o_acceptance := [''Open() creates DB file at APP_DB_PATH'',
          ''Foreign keys enabled via connection pragma'',
          ''Ping succeeds on fresh database'',
          ''Parent directory created for /data/app.db'',
          ''Second Open reuses or errors clearly (document singleton)'',
          ''Works with :memory: in tests'',
          ''go test ./internal/store/... -run Open passes''],
        o_files := [''internal/store/db.go'',
          ''internal/store/db_test.go''],
        o_tests := [''go test ./internal/store/... -run Open'']\<rparr>)]"

definition P02_part2 :: "registration list" where
  "P02_part2 =
    [RegLeaf ''P02-04'' ''P02'' ''Run golang-migrate on server startup'' ''backend''
       (no_opts\<lparr>o_depends_on := [''P02-03'',
          ''P01-02''],
        o_context := Some ''Before accepting HTTP requests, server applies pending migrations programmatically. Same migrations/ source as CLI. Failure to migrate is fatal (log.Fatal).'',
        o_specs := [SPEC_deployment\<lparr>dl_note := Some ''Container entrypoint also migrates; server double-safe''\<rparr>, SPEC_schema\<lparr>dl_note := Some ''Schema must be current before any query''\<rparr>],
        o_stack := [STACK_data\<lparr>dl_note := Some ''migrate.NewWithDatabaseInstance with sqlite driver''\<rparr>, STACK_deploy\<lparr>dl_note := Some ''file://migrations embedded or filesystem''\<rparr>],
        o_implementation := [(''internal/store/migrate.go '' @ em_dash @ '' MigrateUp(db *sql.DB) error''),
          ''Use github.com/golang-migrate/migrate/v4'',
          ''source: file://migrations (relative to cwd or embed)'',
          ''database: sqlite3 instance from *sql.DB'',
          ''Call from main before router.Listen'',
          ''Log migration version on success''],
        o_acceptance := [''Fresh DB gets schema_migrations version 1 on startup'',
          ''Server refuses to start if migration SQL fails'',
          ''Re-start is idempotent (no re-apply error)'',
          ''migrate.Up called before HTTP listener'',
          ''Logs include current migration version'',
          ''Works with temp DB in integration test'',
          ''Down migration not called on startup''],
        o_files := [''internal/store/migrate.go''],
        o_tests := [''go test ./internal/store/... -run Migrate'']\<rparr>),
     RegLeaf ''P02-05'' ''P02'' ''Add JSON error response helper'' ''backend''
       (no_opts\<lparr>o_depends_on := [''P02-02''],
        o_context := Some ''All API errors use consistent JSON shape per specs.html#api: { \"error\": { \"code\": \"...\", \"message\": \"...\" } }. Handlers call WriteError instead of ad-hoc json.Encode.'',
        o_specs := [SPEC_api\<lparr>dl_note := Some ''Error format and HTTP status code mapping''\<rparr>, SPEC_auth\<lparr>dl_note := Some ''401 unauthorized uses same error envelope''\<rparr>],
        o_stack := [STACK_backend\<lparr>dl_note := Some ''internal/api/errors.go shared helper''\<rparr>, STACK_quality\<lparr>dl_note := Some ''Consistent API contract for web client''\<rparr>],
        o_implementation := [''type APIError struct { Code, Message string }'',
          ''WriteError(w, status, code, message string)'',
          ''Content-Type: application/json'',
          ''Common codes: unauthorized, validation_error, not_found, conflict'',
          ''WriteJSON(w, status, payload) helper for success responses'',
          ''Unit test marshals expected JSON shape''],
        o_acceptance := [''WriteError produces {\"error\":{\"code\":\"...\",\"message\":\"...\"}}'',
          ''Content-Type header is application/json'',
          ''HTTP status code matches argument'',
          ''Works with chi ResponseWriter'',
          ''validation_error code used for 400 responses'',
          ''not_found for 404, conflict for 409'',
          ''go test ./internal/api/... -run Error passes''],
        o_files := [''internal/api/errors.go'',
          ''internal/api/errors_test.go''],
        o_tests := [''go test ./internal/api/... -run Error'']\<rparr>),
     RegLeaf ''P02-06'' ''P02'' ''Add structured logging'' ''backend''
       (no_opts\<lparr>o_depends_on := [''P02-01''],
        o_context := Some ''Use log/slog (stdlib) for structured JSON or text logs. Request middleware logs method, path, status, duration. Poll engine and providers will use same logger with context attributes.'',
        o_specs := [SPEC_architecture\<lparr>dl_note := Some ''Operational visibility for poll runs and errors''\<rparr>, SPEC_domain\<lparr>dl_note := Some ''Poll errors logged and stored in poll_runs.errors_json''\<rparr>],
        o_stack := [STACK_backend\<lparr>dl_note := Some ''slog default logger or injected *slog.Logger''\<rparr>, STACK_quality\<lparr>dl_note := Some ''No fmt.Printf in production paths''\<rparr>],
        o_implementation := [(''internal/api/logging.go '' @ em_dash @ '' RequestLogger middleware''),
          ''Extract chi middleware.RequestID into log context'',
          ''Log: method, path, status, duration_ms, remote_addr'',
          ''Configure slog level from env LOG_LEVEL default info'',
          ''main.go sets slog.Default on startup'',
          ''Skip logging for /healthz (optional noise reduction)''],
        o_acceptance := [''Each HTTP request logs one line with status and duration'',
          ''Request ID present in log when chi RequestID set'',
          ''slog used instead of log.Printf in api package'',
          ''LOG_LEVEL=debug increases verbosity'',
          ''/healthz requests logged or skipped per config'',
          ''Logger injectable for tests'',
          ''No sensitive data (passwords, secrets) in logs''],
        o_files := [''internal/api/logging.go''],
        o_tests := [''go test ./internal/api/... -run Log'']\<rparr>),
     RegLeaf ''P02-07'' ''P02'' ''Implement GET /healthz'' ''backend''
       (no_opts\<lparr>o_depends_on := [''P02-02''],
        o_context := Some ''Liveness probe for Docker and load balancers. Returns 200 OK with minimal body, no auth required. Does not check DB connectivity (readiness separate if needed post-MVP).'',
        o_specs := [SPEC_api\<lparr>dl_note := Some ''Health endpoint outside auth middleware''\<rparr>, SPEC_deployment\<lparr>dl_note := Some ''Docker HEALTHCHECK can use /healthz via Next proxy or direct''\<rparr>],
        o_stack := [STACK_deploy\<lparr>dl_note := Some ''Container orchestration liveness''\<rparr>, STACK_backend\<lparr>dl_note := Some ''internal/api/health.go handler''\<rparr>],
        o_implementation := [(''internal/api/health.go '' @ em_dash @ '' HealthHandler(w,r)''),
          (''GET /healthz '' @ [CHR 0xE2, CHR 0x86, CHR 0x92] @ '' 200, body OK or {\"status\":\"ok\"}''),
          ''Register on root router, not behind auth middleware'',
          ''No database ping (keep fast)'',
          ''Test with httptest.NewRecorder''],
        o_acceptance := [''GET /healthz returns HTTP 200'',
          ''No session cookie required'',
          ''Response time < 10ms locally'',
          ''Works before migrations in test (if handler registered early)'',
          ''Not mounted under /api/v1 prefix'',
          ''go test ./internal/api/... -run Health passes'',
          ''Documented as liveness not readiness''],
        o_files := [''internal/api/health.go'',
          ''internal/api/health_test.go''],
        o_tests := [''go test ./internal/api/... -run Health'']\<rparr>)]"

definition P02_part3 :: "registration list" where
  "P02_part3 =
    [RegLeaf ''P02-08'' ''P02'' ''Add API router registration scaffold'' ''backend''
       (no_opts\<lparr>o_depends_on := [''P02-02'',
          ''P02-05''],
        o_context := Some (''Establish the chi sub-router pattern for /api/v1 before feature handlers land. Each epic (P03'' @ [CHR 0xE2, CHR 0x80, CHR 0x93] @ ''P15) registers its routes on this router. Final integration verification in P15-06. Prevents route drift and duplicate mounts across handler packages.''),
        o_specs := [SPEC_api\<lparr>dl_note := Some ([CHR 0xC2, CHR 0xA7] @ ''7 base path /api/v1 and JSON error envelope'')\<rparr>, SPEC_architecture\<lparr>dl_note := Some ''Go owns all /api/v1/* routes''\<rparr>],
        o_stack := [STACK_backend\<lparr>dl_note := Some (''internal/api/router.go '' @ em_dash @ '' MountAPI(r chi.Router)'')\<rparr>, STACK_quality\<lparr>dl_note := Some ''Route list test or compile-time registration''\<rparr>],
        o_implementation := [(''func MountAPI(r chi.Router) '' @ em_dash @ '' subrouter /api/v1''),
          ''Apply JSON Content-Type middleware on API subrouter'',
          ''Apply error recovery middleware'',
          (''Export RegisterAuthRoutes, RegisterSettingsRoutes, '' @ [CHR 0xE2, CHR 0x80, CHR 0xA6] @ '' stubs called from MountAPI''),
          ''Document registration order: auth (public routes first), then auth middleware, then protected routes'',
          ''healthz stays on root router outside /api/v1'',
          ''404 handler returns { error: { code: NOT_FOUND, message } }''],
        o_acceptance := [''MountAPI registers /api/v1 subrouter'',
          ''Unknown /api/v1 path returns JSON 404'',
          ''healthz not behind /api/v1 prefix'',
          ''Each Register*Routes function exists as stub or real mount'',
          ''No duplicate route registration on double MountAPI call'',
          ''go build ./... passes'',
          ''Router test: GET unknown path returns error envelope''],
        o_files := [''internal/api/router.go'',
          ''internal/api/routes.go''],
        o_tests := [''go test ./internal/api/... -run Router''],
        o_relatedTasks := [''P15-06'']\<rparr>)]"

definition registerP02 :: "registration list" where
  "registerP02 = P02_part1 @ P02_part2 @ P02_part3"

definition P03_part1 :: "registration list" where
  "P03_part1 =
    [RegEpic ''P03'' ''Go authentication'' ''backend''
       (no_opts\<lparr>o_depends_on := [''P02-04''],
        o_context := Some ''Auth is Go-only: alexedwards/scs sessions in SQLite sessions table, bcrypt password hashes in users, release_ops_session cookie. No Next.js auth. Endpoints: POST login, POST logout, GET session. Middleware protects all /api/v1/* except login and session. Bootstrap admin via env or seed-admin CLI.'',
        o_specs := [SPEC_auth\<lparr>dl_note := Some ''Full auth flow, cookie flags, bootstrap rules''\<rparr>, SPEC_api\<lparr>dl_note := Some ([CHR 0xC2, CHR 0xA7] @ ''7.1 auth endpoints JSON shapes'')\<rparr>],
        o_schema := [SCHEMA_sql\<lparr>dl_note := Some ''users and sessions table DDL''\<rparr>, SCHEMA_html\<lparr>dl_note := Some ''Session store BLOB format''\<rparr>],
        o_implementation := [(''queries/users.sql '' @ em_dash @ '' CreateUser, GetUserByEmail, CountUsers''),
          (''internal/api/auth/password.go '' @ em_dash @ '' HashPassword, ComparePassword (bcrypt cost 12)''),
          (''internal/api/auth/session.go '' @ em_dash @ '' scs.Manager with SQLite store''),
          ''Cookie name release_ops_session, HttpOnly, SameSite=Lax, Path=/'',
          ''POST /api/v1/auth/login, logout, GET session handlers'',
          ''Auth middleware on /api/v1 subrouter'',
          ''cmd/release-ops seed-admin CLI + bootstrap from BOOTSTRAP_ADMIN_* env''],
        o_acceptance := [''Login sets release_ops_session cookie on success'',
          ''Invalid credentials return 401 with error envelope'',
          ''GET /api/v1/auth/session returns user:null when logged out'',
          ''Protected routes return 401 without valid session'',
          ''No POST /api/v1/auth/register endpoint'',
          ''Bootstrap creates admin when users table empty'',
          ''seed-admin CLI creates user when none exists'']\<rparr>),
     RegLeaf ''P03-01'' ''P03'' ''Add users table repository'' ''backend''
       (no_opts\<lparr>o_depends_on := [''P01-04''],
        o_context := Some ''sqlc queries for users table: id (UUID text), email unique, password_hash, timestamps. Repository wraps generated queries for auth handlers and bootstrap.'',
        o_specs := [SPEC_auth\<lparr>dl_note := Some ''Single admin user model; email is login identifier''\<rparr>, SPEC_schema\<lparr>dl_note := Some ''users.id TEXT PRIMARY KEY, email UNIQUE''\<rparr>],
        o_schema := [SCHEMA_sql\<lparr>dl_note := Some ''users table definition''\<rparr>, SCHEMA_html\<lparr>dl_note := Some ''Column types and constraints''\<rparr>],
        o_implementation := [(''queries/users.sql '' @ em_dash @ '' name: CreateUser, GetUserByEmail, CountUsers''),
          ''CreateUser: INSERT id, email, password_hash, created_at, updated_at'',
          ''GetUserByEmail: SELECT * FROM users WHERE email = ?'',
          ''CountUsers: SELECT COUNT(*) FROM users'',
          (''internal/store/users.go '' @ em_dash @ '' UserRepository struct''),
          ''Generate UUID v4 for new user id'',
          ''sqlc generate after adding queries''],
        o_acceptance := [''CreateUser inserts row with valid UUID id'',
          ''GetUserByEmail returns sql.ErrNoRows equivalent for missing email'',
          ''CountUsers returns 0 on fresh DB'',
          ''Email uniqueness enforced by DB constraint'',
          ''Repository methods accept context.Context'',
          ''go test ./internal/store/... -run User passes'',
          ''sqlc models match users table columns''],
        o_files := [''queries/users.sql'',
          ''internal/store/users.go''],
        o_tests := [''go test ./internal/store/... -run User'']\<rparr>),
     RegLeaf ''P03-02'' ''P03'' ''Add bcrypt password helpers'' ''backend''
       (no_opts\<lparr>o_context := Some ''Passwords hashed with bcrypt before storage. Never log or return password_hash in API. ComparePassword constant-time via bcrypt.CompareHashAndPassword.'',
        o_specs := [SPEC_auth\<lparr>dl_note := Some ''bcrypt for password_hash column''\<rparr>, SPEC_schema\<lparr>dl_note := Some ''password_hash TEXT NOT NULL''\<rparr>],
        o_stack := [STACK_backend\<lparr>dl_note := Some ''golang.org/x/crypto/bcrypt''\<rparr>, STACK_quality\<lparr>dl_note := Some ''Unit tests with known hash''\<rparr>],
        o_implementation := [''internal/api/auth/password.go'',
          (''HashPassword(plain string) (string, error) '' @ em_dash @ '' bcrypt.GenerateFromPassword cost 12''),
          ''ComparePassword(hash, plain string) error'',
          ''Reject empty password on hash'',
          ''Test round-trip hash and compare'',
          ''Test wrong password returns error''],
        o_acceptance := [''HashPassword produces bcrypt hash starting with $2a$ or $2b$'',
          ''ComparePassword succeeds for correct password'',
          ''ComparePassword fails for wrong password'',
          ''Empty password rejected before hashing'',
          ''Cost factor >= 12'',
          ''go test ./internal/api/auth/... -run Password passes'',
          ''No password strings in test fixtures committed as plaintext in prod code paths''],
        o_files := [''internal/api/auth/password.go'',
          ''internal/api/auth/password_test.go''],
        o_tests := [''go test ./internal/api/auth/... -run Password'']\<rparr>),
     RegLeaf ''P03-03'' ''P03'' ''Configure scs session manager with SQLite store'' ''backend''
       (no_opts\<lparr>o_depends_on := [''P03-01''],
        o_context := Some ''alexedwards/scs v2 with SQLite store persisting to sessions table (token, data BLOB, expiry REAL). Session manager injected into handlers and middleware.'',
        o_specs := [SPEC_auth\<lparr>dl_note := Some ''Server-side sessions in SQLite''\<rparr>, SPEC_schema\<lparr>dl_note := Some ''sessions table for scs store''\<rparr>],
        o_schema := [SCHEMA_sql\<lparr>dl_note := Some ''sessions(token, data, expiry) + idx_sessions_expiry''\<rparr>, SCHEMA_html\<lparr>dl_note := Some ''Session expiry index for cleanup''\<rparr>],
        o_implementation := [(''internal/api/auth/session.go '' @ em_dash @ '' NewSessionManager(db, cfg)''),
          ''github.com/alexedwards/scs/v2'',
          ''scs storedatabase or custom SQLite store adapter'',
          ''Lifetime: 7 days default, IdleTimeout configurable'',
          ''Store user_id in session after login'',
          ''Cleanup expired sessions on schedule or lazy''],
        o_acceptance := [''Session data persists across server restart'',
          ''sessions table receives rows after login'',
          ''Expired sessions not accepted'',
          ''Session manager returns *scs.SessionManager'',
          ''Put user_id string in session on login'',
          ''Get user_id from session in middleware'',
          ''go test with in-memory sqlite for session round-trip''],
        o_files := [''internal/api/auth/session.go''],
        o_tests := [''go test ./internal/api/auth/... -run Session'']\<rparr>)]"

definition P03_part2 :: "registration list" where
  "P03_part2 =
    [RegLeaf ''P03-04'' ''P03'' ''Configure release_ops_session cookie'' ''backend''
       (no_opts\<lparr>o_depends_on := [''P03-03''],
        o_context := Some ''Cookie name release_ops_session per spec. HttpOnly always; SameSite=Lax; Path=/; Secure when APP_PUBLIC_URL is https.'',
        o_specs := [SPEC_auth\<lparr>dl_note := Some ''Cookie name and security flags''\<rparr>, SPEC_env\<lparr>dl_note := Some ''APP_PUBLIC_URL determines Secure flag''\<rparr>],
        o_stack := [STACK_backend\<lparr>dl_note := Some ''scs Cookie struct configuration''\<rparr>, STACK_deploy\<lparr>dl_note := Some ''HTTPS termination at reverse proxy''\<rparr>],
        o_implementation := [''sessionManager.Cookie.Name = release_ops_session'',
          ''HttpOnly: true, Path: /, SameSite: Lax'',
          ''Secure: strings.HasPrefix(cfg.AppPublicURL, https://)'',
          ''Domain: empty (host-only cookie)'',
          ''Persist session on login via sessionManager.Put'',
          ''Renew token on activity if scs supports''],
        o_acceptance := [''Set-Cookie header includes release_ops_session name'',
          ''HttpOnly flag present on login response'',
          ''SameSite=Lax in Set-Cookie'',
          ''Secure flag set when APP_PUBLIC_URL is https'',
          ''Secure omitted or false for http://localhost dev'',
          ''Cookie Path is /'',
          ''Browser devtools shows expected flags after login''],
        o_files := [''internal/api/auth/session.go''],
        o_tests := [''go test ./internal/api/auth/... -run Cookie'']\<rparr>),
     RegLeaf ''P03-05'' ''P03'' ''Implement POST /api/v1/auth/login'' ''backend''
       (no_opts\<lparr>o_depends_on := [''P03-02'',
          ''P03-04''],
        o_context := Some (''Request: { email, password }. Success 200: { user: { id, email } } + Set-Cookie. Failure 401: error envelope. No user enumeration '' @ em_dash @ '' same message for bad email vs bad password.''),
        o_specs := [SPEC_api\<lparr>dl_note := Some ''POST /api/v1/auth/login request/response JSON''\<rparr>, SPEC_auth\<lparr>dl_note := Some ''Login flow and session creation''\<rparr>],
        o_stack := [STACK_backend\<lparr>dl_note := Some ''internal/api/auth/handlers.go LoginHandler''\<rparr>, STACK_quality\<lparr>dl_note := Some ''httptest integration in P03-11''\<rparr>],
        o_implementation := [''Decode JSON { email, password }'',
          (''GetUserByEmail '' @ em_dash @ '' on miss return 401 invalid_credentials''),
          (''ComparePassword '' @ em_dash @ '' on fail return 401''),
          ''sessionManager.Put(ctx, userIDKey, user.ID)'',
          ''WriteJSON 200 { user: { id, email } }'',
          ''Register r.Post(/auth/login, LoginHandler) without auth middleware''],
        o_acceptance := [''Valid credentials return 200 and user object'',
          ''Response sets release_ops_session cookie'',
          ''Invalid email returns 401'',
          ''Invalid password returns 401'',
          ''Malformed JSON returns 400'',
          ''password_hash never in response'',
          ''Same error message for wrong email and wrong password''],
        o_files := [''internal/api/auth/handlers.go''],
        o_tests := [''go test ./internal/api/auth/... -run Login'']\<rparr>),
     RegLeaf ''P03-06'' ''P03'' ''Implement POST /api/v1/auth/logout'' ''backend''
       (no_opts\<lparr>o_depends_on := [''P03-03''],
        o_context := Some ''Destroys server session and clears cookie. Requires valid session (auth middleware). Returns 200 with empty or { ok: true }.'',
        o_specs := [SPEC_api\<lparr>dl_note := Some (''POST /api/v1/auth/logout '' @ em_dash @ '' clears session'')\<rparr>, SPEC_auth\<lparr>dl_note := Some ''Logout invalidates server-side session''\<rparr>],
        o_stack := [STACK_backend\<lparr>dl_note := Some ''sessionManager.Destroy or RenewToken''\<rparr>, STACK_frontend\<lparr>dl_note := Some ''Web calls via /api/go/api/v1/auth/logout P16''\<rparr>],
        o_implementation := [''LogoutHandler calls sessionManager.Destroy(ctx)'',
          ''Return 200 JSON {}'',
          ''Mount behind auth middleware OR allow without session (no-op)'',
          ''Clear cookie via scs Destroy response headers'',
          ''Register r.Post(/auth/logout, LogoutHandler)''],
        o_acceptance := [''Logout returns 200 when session valid'',
          ''Subsequent GET /auth/session returns user:null'',
          ''Set-Cookie clears or expires session cookie'',
          ''Server-side session row removed or invalidated'',
          ''Logout without session returns 200 or 401 per spec'',
          ''go test logout flow passes'',
          ''Cookie no longer sent grants 401 on protected routes''],
        o_files := [''internal/api/auth/handlers.go''],
        o_tests := [''go test ./internal/api/auth/... -run Logout'']\<rparr>),
     RegLeaf ''P03-07'' ''P03'' ''Implement GET /api/v1/auth/session'' ''backend''
       (no_opts\<lparr>o_depends_on := [''P03-03''],
        o_context := Some (''Always returns 200. Logged out: { user: null }. Logged in: { user: { id, email } }. No auth middleware required '' @ em_dash @ '' used by Next.js middleware to check login state.''),
        o_specs := [SPEC_api\<lparr>dl_note := Some ''GET /api/v1/auth/session response shapes''\<rparr>, SPEC_ui\<lparr>dl_note := Some ''Next middleware calls this via Go proxy''\<rparr>],
        o_stack := [STACK_frontend\<lparr>dl_note := Some ''useSession hook consumes this endpoint P17''\<rparr>, STACK_backend\<lparr>dl_note := Some ''SessionHandler reads user_id from scs''\<rparr>],
        o_implementation := [''SessionHandler: get user_id from session'',
          ''If missing: WriteJSON 200 { user: null }'',
          ''If present: load user by id, return { user: { id, email } }'',
          ''Register without auth middleware'',
          (''Handle deleted user edge case '' @ [CHR 0xE2, CHR 0x86, CHR 0x92] @ '' user:null'')],
        o_acceptance := [''Unauthenticated request returns 200 { user: null }'',
          ''Authenticated request returns 200 with id and email'',
          ''Never returns 401 for this endpoint'',
          ''password_hash never exposed'',
          ''Works with session cookie from login'',
          ''Invalid session token returns user:null'',
          ''go test ./internal/api/auth/... -run SessionHandler passes''],
        o_files := [''internal/api/auth/handlers.go''],
        o_tests := [''go test ./internal/api/auth/... -run SessionHandler'']\<rparr>)]"

definition P03_part3 :: "registration list" where
  "P03_part3 =
    [RegLeaf ''P03-08'' ''P03'' ''Add auth middleware for protected routes'' ''backend''
       (no_opts\<lparr>o_depends_on := [''P03-03''],
        o_context := Some (''Middleware checks scs session for user_id. Missing '' @ [CHR 0xE2, CHR 0x86, CHR 0x92] @ '' 401 unauthorized. Apply to /api/v1 routes except POST /auth/login and GET /auth/session. Mount via chi Group or Route with middleware.''),
        o_specs := [SPEC_auth\<lparr>dl_note := Some ''All /api/v1/* require session except login and session''\<rparr>, SPEC_api\<lparr>dl_note := Some ''401 error envelope on missing auth''\<rparr>],
        o_stack := [STACK_backend\<lparr>dl_note := Some ''internal/api/auth/middleware.go RequireAuth''\<rparr>, STACK_layout\<lparr>dl_note := Some ''Router wiring in internal/api/router.go''\<rparr>],
        o_implementation := [''RequireAuth(sessionManager) func(http.Handler) http.Handler'',
          ''Read user_id from session; if empty WriteError 401'',
          ''Store user in request context for handlers'',
          ''Apply to protected route group in router.go'',
          ''Exclude: /auth/login (POST), /auth/session (GET)'',
          ''Include: /auth/logout (POST)''],
        o_acceptance := [''GET /api/v1/settings without cookie returns 401'',
          ''GET /api/v1/auth/session without cookie returns 200'',
          ''POST /api/v1/auth/login without cookie allowed'',
          ''Valid session passes through to next handler'',
          ''User available in context in downstream handlers'',
          ''401 uses error code unauthorized'',
          ''All future API handlers inherit protection automatically''],
        o_files := [''internal/api/auth/middleware.go'',
          ''internal/api/router.go''],
        o_tests := [''go test ./internal/api/auth/... -run RequireAuth'']\<rparr>),
     RegLeaf ''P03-09'' ''P03'' ''Add seed-admin CLI command'' ''backend''
       (no_opts\<lparr>o_depends_on := [''P03-01'',
          ''P03-02''],
        o_context := Some ''CLI binary cmd/release-ops (or subcommand on server) for ops: release-ops seed-admin --email x --password y. Creates admin only when users table is empty; exits 0 with message otherwise.'',
        o_specs := [SPEC_auth\<lparr>dl_note := Some ''CLI seed when no users exist''\<rparr>, SPEC_deployment\<lparr>dl_note := Some ''Alternative to BOOTSTRAP_ADMIN env''\<rparr>],
        o_stack := [STACK_backend\<lparr>dl_note := Some ''cmd/release-ops/main.go separate from cmd/server''\<rparr>, STACK_deploy\<lparr>dl_note := Some ''Document docker exec seed-admin usage''\<rparr>],
        o_implementation := [''cmd/release-ops/main.go with cobra or flag package'',
          ''Subcommand seed-admin --email --password flags'',
          ''Open DB, run migrations, CountUsers'',
          ''If count > 0: log and exit 0 without creating'',
          ''Hash password, CreateUser with new UUID'',
          ''Print success message to stdout''],
        o_acceptance := [''seed-admin creates user when DB has zero users'',
          ''Second invocation does not create duplicate'',
          ''Requires --email and --password flags'',
          ''Exits non-zero on DB connection failure'',
          ''Password stored as bcrypt hash'',
          ''Works against APP_DB_PATH env'',
          ''go build ./cmd/release-ops succeeds''],
        o_files := [''cmd/release-ops/main.go''],
        o_tests := [''go build ./cmd/release-ops'']\<rparr>),
     RegLeaf ''P03-10'' ''P03'' ''Bootstrap admin from env on first start'' ''backend''
       (no_opts\<lparr>o_depends_on := [''P03-09''],
        o_context := Some ''On server startup after migrations: if users empty AND BOOTSTRAP_ADMIN_EMAIL and BOOTSTRAP_ADMIN_PASSWORD set, create admin user automatically. Log info message; never log password.'',
        o_specs := [SPEC_auth\<lparr>dl_note := Some ''BOOTSTRAP_ADMIN_EMAIL/PASSWORD env vars''\<rparr>, SPEC_env\<lparr>dl_note := Some ''Bootstrap vars optional''\<rparr>],
        o_stack := [STACK_deploy\<lparr>dl_note := Some ''docker-compose sets bootstrap vars for first run''\<rparr>, STACK_backend\<lparr>dl_note := Some ''internal/api/auth/bootstrap.go''\<rparr>],
        o_implementation := [(''internal/api/auth/bootstrap.go '' @ em_dash @ '' BootstrapAdmin(ctx, repo, cfg)''),
          ''Called from main.go after migrate, before Listen'',
          (''CountUsers == 0 && email && password non-empty '' @ [CHR 0xE2, CHR 0x86, CHR 0x92] @ '' CreateUser''),
          ''Skip silently if users exist'',
          ''Skip if env vars empty (no error)'',
          ''Log: Bootstrap admin created for email@example.com''],
        o_acceptance := [''First start with env vars creates exactly one user'',
          ''Second start does not create another user'',
          ''Missing env vars skips bootstrap without error'',
          ''Password never appears in logs'',
          ''Bootstrap runs after migrations'',
          ''Same user usable for POST /auth/login'',
          ''go test BootstrapAdmin with temp DB passes''],
        o_files := [''internal/api/auth/bootstrap.go'',
          ''cmd/server/main.go''],
        o_tests := [''go test ./internal/api/auth/... -run Bootstrap'']\<rparr>),
     RegLeaf ''P03-11'' ''P03'' ''Add auth handler integration tests'' ''backend''
       (no_opts\<lparr>o_depends_on := [''P03-05'',
          ''P03-07''],
        o_context := Some (''End-to-end httptest: login '' @ [CHR 0xE2, CHR 0x86, CHR 0x92] @ '' session check '' @ [CHR 0xE2, CHR 0x86, CHR 0x92] @ '' access protected route '' @ [CHR 0xE2, CHR 0x86, CHR 0x92] @ '' logout '' @ [CHR 0xE2, CHR 0x86, CHR 0x92] @ '' session null. Uses real router, in-memory SQLite, and session cookies.''),
        o_specs := [SPEC_auth\<lparr>dl_note := Some ''Full login/session/logout flow''\<rparr>, SPEC_api\<lparr>dl_note := Some ''Cookie forwarding behavior matches Next proxy needs''\<rparr>],
        o_stack := [STACK_quality\<lparr>dl_note := Some ''httptest + real migrations on :memory:''\<rparr>, STACK_backend\<lparr>dl_note := Some ''internal/api/auth/handlers_test.go''\<rparr>],
        o_implementation := [''TestMain or helper: setup test DB, migrate, router, seed user'',
          ''TestLoginSetsCookieAndSession'',
          ''TestSessionReturnsUserWhenLoggedIn'',
          ''TestProtectedRouteRequiresAuth'',
          ''TestLogoutClearsSession'',
          ''Use httptest.Server and jar for cookies''],
        o_acceptance := [(''Login '' @ [CHR 0xE2, CHR 0x86, CHR 0x92] @ '' GET session returns same user id''),
          (''Logout '' @ [CHR 0xE2, CHR 0x86, CHR 0x92] @ '' GET session returns user:null''),
          ''Protected route 401 before login, 200 after'',
          ''Tests use isolated :memory: database'',
          ''No race conditions (t.Parallel false or unique DB)'',
          ''go test ./internal/api/auth/... passes all'',
          ''CI runs without network''],
        o_files := [''internal/api/auth/handlers_test.go''],
        o_tests := [''go test ./internal/api/auth/...'']\<rparr>)]"

definition registerP03 :: "registration list" where
  "registerP03 = P03_part1 @ P03_part2 @ P03_part3"

definition P04_part1 :: "registration list" where
  "P04_part1 =
    [RegEpic ''P04'' ''Credential encryption'' ''backend''
       (no_opts\<lparr>o_depends_on := [''P02-01''],
        o_context := Some ''Integration secrets and Shoutrrr URLs stored encrypted in SQLite using AES-256-GCM. Key from APP_ENCRYPTION_KEY (64 hex chars = 32 bytes). Payload JSON marshalled per integration kind before encrypt. API never returns decrypted secrets.'',
        o_specs := [SPEC_schema\<lparr>dl_note := Some ''integrations.encrypted_payload, notification_targets.shoutrrr_url_encrypted''\<rparr>, SPEC_api\<lparr>dl_note := Some ''hasSecret boolean; one-time secret on create''\<rparr>],
        o_stack := [STACK_backend\<lparr>dl_note := Some ''internal/crypto package''\<rparr>, STACK_data\<lparr>dl_note := Some ''Encryption at rest in SQLite''\<rparr>],
        o_implementation := [(''internal/crypto/aesgcm.go '' @ em_dash @ '' Encrypt(plaintext) '' @ [CHR 0xE2, CHR 0x86, CHR 0x92] @ '' base64 or JSON wrapper v1''),
          (''Decrypt(ciphertext) '' @ [CHR 0xE2, CHR 0x86, CHR 0x92] @ '' plaintext bytes''),
          (''internal/crypto/key.go '' @ em_dash @ '' ParseKey(hex string) validates 64 hex''),
          (''internal/crypto/payload.go '' @ em_dash @ '' MarshalIntegrationSecret(kind, secret)''),
          ''Nonce prepended or embedded per AES-GCM standard'',
          ''Validate key on config load startup''],
        o_acceptance := [''Encrypt/Decrypt round-trip preserves plaintext'',
          ''Wrong key fails decrypt with clear error'',
          ''APP_ENCRYPTION_KEY invalid length rejected at startup'',
          ''Ciphertext differs for same plaintext (random nonce)'',
          ''Integration API never returns decrypted secret'',
          ''Payload JSON includes kind-specific fields before encrypt'',
          ''go test ./internal/crypto/... passes'']\<rparr>),
     RegLeaf ''P04-01'' ''P04'' ''Implement AES-256-GCM encrypt and decrypt'' ''backend''
       (no_opts\<lparr>o_context := Some ''Use crypto/aes + cipher.NewGCM. 32-byte key, 12-byte nonce, authenticate ciphertext. Store as base64(nonce|ciphertext) or JSON {v:1,nonce,ciphertext} for future versioning.'',
        o_specs := [SPEC_schema\<lparr>dl_note := Some ''encrypted_payload TEXT stores opaque blob''\<rparr>, SPEC_providers\<lparr>dl_note := Some ''Decrypted at provider factory time only''\<rparr>],
        o_stack := [STACK_backend\<lparr>dl_note := Some ''stdlib crypto/aes, crypto/cipher''\<rparr>, STACK_quality\<lparr>dl_note := Some ''Property tests for round-trip''\<rparr>],
        o_implementation := [''type Cipher struct { aead cipher.AEAD }'',
          ''NewCipher(key []byte) validates len(key)==32'',
          ''Encrypt: random nonce, Seal, encode base64'',
          ''Decrypt: decode base64, Open, verify auth tag'',
          ''Reject empty plaintext on encrypt'',
          ''Unit tests: round-trip, tampered ciphertext fails''],
        o_acceptance := [''32-byte key required'',
          ''Encrypt output is base64 string'',
          ''Decrypt(Encrypt(p)) == p for arbitrary bytes'',
          ''Tampered ciphertext returns error on decrypt'',
          ''Different nonces for repeated plaintext'',
          ''No key material in error messages'',
          ''go test ./internal/crypto/... -run AES passes''],
        o_files := [''internal/crypto/aesgcm.go'',
          ''internal/crypto/aesgcm_test.go''],
        o_tests := [''go test ./internal/crypto/...'']\<rparr>),
     RegLeaf ''P04-02'' ''P04'' ''Validate APP_ENCRYPTION_KEY on startup'' ''backend''
       (no_opts\<lparr>o_depends_on := [''P04-01''],
        o_context := Some ''Config loader calls crypto.ParseKey on APP_ENCRYPTION_KEY. Must be exactly 64 hexadecimal characters. Fail server startup if missing or malformed.'',
        o_specs := [SPEC_env\<lparr>dl_note := Some ''APP_ENCRYPTION_KEY required 64 hex chars''\<rparr>, SPEC_deployment\<lparr>dl_note := Some ''Generate with openssl rand -hex 32''\<rparr>],
        o_stack := [STACK_deploy\<lparr>dl_note := Some ''Document key generation in getting-started''\<rparr>, STACK_backend\<lparr>dl_note := Some ''internal/crypto/key.go''\<rparr>],
        o_implementation := [''ParseKey(hex string) ([]byte, error)'',
          ''encoding/hex.DecodeString after length check == 64'',
          ''Reject non-hex characters'',
          (''Wire into config.Load() '' @ em_dash @ '' required field''),
          ''Return Config.EncryptionKey []byte'',
          ''Test: valid key, short key, invalid chars''],
        o_acceptance := [''64-char hex string parses to 32 bytes'',
          ''63 or 65 char strings rejected'',
          ''Non-hex characters rejected'',
          ''Empty string rejected'',
          ''config.Load fails without APP_ENCRYPTION_KEY'',
          ''Parsed key usable by NewCipher'',
          ''go test ./internal/crypto/... -run ParseKey passes''],
        o_files := [''internal/crypto/key.go'',
          ''internal/config/config.go''],
        o_tests := [''go test ./internal/crypto/... -run ParseKey'']\<rparr>),
     RegLeaf ''P04-03'' ''P04'' ''Add integration payload marshal helpers'' ''backend''
       (no_opts\<lparr>o_depends_on := [''P04-01''],
        o_context := Some ''Before encrypt, marshal secret to JSON per integration kind: e.g. {token}, {pat}, {apiKey}, {email,apiKey}. Decrypt path unmarshals to typed struct for provider factories.'',
        o_specs := [SPEC_schema\<lparr>dl_note := Some ''integrations.kind determines payload shape''\<rparr>, SPEC_providers\<lparr>dl_note := Some ([CHR 0xC2, CHR 0xA7] @ ''6 credential fields per source/ticket kind'')\<rparr>],
        o_stack := [STACK_backend\<lparr>dl_note := Some ''internal/crypto/payload.go''\<rparr>, STACK_data\<lparr>dl_note := Some ''JSON in encrypted_payload column''\<rparr>],
        o_implementation := [''type IntegrationPayload struct with kind-specific fields'',
          ''MarshalSecret(kind string, secret map[string]string) ([]byte, error)'',
          ''UnmarshalSecret(kind string, data []byte) (map[string]string, error)'',
          (''Validate required keys per kind: github'' @ [CHR 0xE2, CHR 0x86, CHR 0x92] @ ''token, jira'' @ [CHR 0xE2, CHR 0x86, CHR 0x92] @ ''email+apiToken''),
          ''EncryptJSON(kind, fields) helper combining marshal+encrypt'',
          ''DecryptJSON(kind, blob) for handler read path''],
        o_acceptance := [''GitHub payload JSON contains token field'',
          ''Jira payload contains email and apiToken'',
          ''Unknown kind returns validation error'',
          (''Round-trip Marshal'' @ [CHR 0xE2, CHR 0x86, CHR 0x92] @ ''Encrypt'' @ [CHR 0xE2, CHR 0x86, CHR 0x92] @ ''Decrypt'' @ [CHR 0xE2, CHR 0x86, CHR 0x92] @ ''Unmarshal preserves fields''),
          ''Empty secret rejected for kinds requiring token'',
          ''Linear payload uses apiKey field'',
          ''go test ./internal/crypto/... -run Payload passes''],
        o_files := [''internal/crypto/payload.go'',
          ''internal/crypto/payload_test.go''],
        o_tests := [''go test ./internal/crypto/... -run Payload'']\<rparr>)]"

definition registerP04 :: "registration list" where
  "registerP04 = P04_part1"

end
