(* ===== verification/Roadmap_P05_P09.thy ===== *)
theory Roadmap_P05_P09
  imports Roadmap_Links
begin

section \<open>Tasks of the earlier roadmap (\<open>scripts/roadmap/epics/p00-p14.mjs\<close>)\<close>

text \<open>The calls of \<open>epic\<close> and \<open>leaf\<close> in their order; the calls of an epic with its leaves are in parts.\<close>

definition P05_part1 :: "registration list" where
  "P05_part1 =
    [RegEpic ''P05'' ''Go store layer (sqlc repositories)'' ''db''
       (no_opts\<lparr>o_depends_on := [''P01-04'',
          ''P04-01''],
        o_context := Some ''sqlc queries for all domain tables plus repository wrapper exposing typed methods for API handlers and poll engine. Handles UUID generation, timestamp UTC ISO8601, and encrypted column pass-through.'',
        o_specs := [SPEC_schema\<lparr>dl_note := Some (''All tables '' @ [CHR 0xC2, CHR 0xA7] @ ''4'')\<rparr>, SPEC_domain\<lparr>dl_note := Some ''Poll state fields on monitored_repos''\<rparr>],
        o_schema := [SCHEMA_sql\<lparr>dl_note := Some ''Full DDL for query authoring''\<rparr>, SCHEMA_html\<lparr>dl_note := Some ''FK relationships for JOIN queries''\<rparr>],
        o_implementation := [(''queries/app_settings.sql '' @ em_dash @ '' GetSettings, UpdatePollInterval''),
          (''queries/integrations.sql '' @ em_dash @ '' CRUD + ListByKind''),
          (''queries/ticket_projects.sql '' @ em_dash @ '' CRUD + ListByIntegration''),
          (''queries/monitored_repos.sql '' @ em_dash @ '' CRUD + ListEnabled + UpdatePollState''),
          ''queries/notification_targets.sql + repo_notification joins'',
          (''queries/poll_runs.sql '' @ em_dash @ '' InsertRun, FinishRun, InsertEvent, ListEvents''),
          (''internal/store/repository.go '' @ em_dash @ '' Repository facade'')],
        o_acceptance := [''All CRUD operations compile via sqlc generate'',
          ''Repository used by at least one handler test'',
          ''ListEnabled repos filters enabled=1'',
          ''UpdatePollState sets last_known_tag, open_ticket_* fields'',
          ''Foreign key violations surface as errors'',
          ''Timestamps stored as UTC ISO8601 strings'',
          ''go test ./internal/store/... passes'']\<rparr>),
     RegLeaf ''P05-01'' ''P05'' ''Add sqlc queries for app_settings'' ''db''
       (no_opts\<lparr>o_context := Some ''Singleton row id=1: poll_interval_minutes (min 5, default 360), updated_at. Get for scheduler; Patch for settings API.'',
        o_specs := [SPEC_schema\<lparr>dl_note := Some ''app_settings id CHECK (id = 1)''\<rparr>, SPEC_api\<lparr>dl_note := Some ''GET/PATCH /api/v1/settings pollIntervalMinutes''\<rparr>],
        o_schema := [SCHEMA_sql\<lparr>dl_note := Some ''app_settings table''\<rparr>, SCHEMA_html\<lparr>dl_note := Some ''poll_interval_minutes CHECK >= 5''\<rparr>],
        o_implementation := [(''queries/app_settings.sql '' @ em_dash @ '' GetAppSettings :one''),
          ''UpdatePollInterval :exec SET poll_interval_minutes, updated_at'',
          ''Seed INSERT in migration or separate seed migration P06-03'',
          ''sqlc generate models AppSetting'',
          ''Repository method GetSettings(ctx) (*AppSetting, error)'',
          ''Validate min 5 in repository or handler layer''],
        o_acceptance := [''GetAppSettings returns row id=1'',
          ''UpdatePollInterval persists new value'',
          ''CHECK constraint rejects poll_interval_minutes < 5'',
          ''updated_at changes on update'',
          ''sqlc model fields match columns'',
          ''Repository wraps generated Queries'',
          ''go test update and get round-trip''],
        o_files := [''queries/app_settings.sql'',
          ''internal/store/settings.go''],
        o_tests := [''go test ./internal/store/... -run Settings'']\<rparr>),
     RegLeaf ''P05-02'' ''P05'' ''Add sqlc queries for integrations'' ''db''
       (no_opts\<lparr>o_context := Some (''integrations: id, kind (8 values), name, base_url nullable per CHECK, encrypted_payload, timestamps. CRUD + list all + filter by kind. Never SELECT decrypted payload to API '' @ em_dash @ '' handlers add hasSecret.''),
        o_specs := [SPEC_schema\<lparr>dl_note := Some ''integrations.kind CHECK and base_url rules''\<rparr>, SPEC_api\<lparr>dl_note := Some ''Integration list/create JSON without secrets''\<rparr>],
        o_schema := [SCHEMA_sql\<lparr>dl_note := Some ''integrations table with kind CHECK''\<rparr>, SCHEMA_html\<lparr>dl_note := Some ''base_url NULL rules per kind''\<rparr>],
        o_implementation := [(''queries/integrations.sql '' @ em_dash @ '' Create, Get, List, Update, Delete''),
          ''ListIntegrations, ListIntegrationsByKind'',
          ''CreateIntegration with all columns'',
          ''UpdateIntegrationName, UpdateIntegrationSecret (encrypted_payload)'',
          ''DeleteIntegration by id'',
          (''CountReferences for delete guard (repos, ticket_projects) '' @ em_dash @ '' may defer to handler'')],
        o_acceptance := [''Create stores encrypted_payload blob'',
          ''List returns all rows without decrypting'',
          ''kind CHECK enforced: github requires base_url NULL'',
          ''gitlab insert fails without base_url'',
          ''Update name only leaves encrypted_payload unchanged'',
          ''Delete removes row when no FK references'',
          ''sqlc generates Integration model''],
        o_files := [''queries/integrations.sql'',
          ''internal/store/integrations.go''],
        o_tests := [''go test ./internal/store/... -run Integration'']\<rparr>),
     RegLeaf ''P05-03'' ''P05'' ''Add sqlc queries for ticket_projects'' ''db''
       (no_opts\<lparr>o_context := Some ''ticket_projects: integration_id FK, external_project_id, name, create_config JSON, status_mapping JSON, on_open_ticket_policy (supersede|merge|skip_if_open). UNIQUE(integration_id, external_project_id).'',
        o_specs := [SPEC_ticketProjects\<lparr>dl_note := Some ''create_config and status_mapping schemas per provider''\<rparr>, SPEC_schema\<lparr>dl_note := Some (''ticket_projects table '' @ [CHR 0xC2, CHR 0xA7] @ ''4.3'')\<rparr>],
        o_schema := [SCHEMA_sql\<lparr>dl_note := Some ''ticket_projects DDL''\<rparr>, SCHEMA_html\<lparr>dl_note := Some ''JSON validity CHECK''\<rparr>],
        o_implementation := [(''queries/ticket_projects.sql '' @ em_dash @ '' CRUD operations''),
          ''ListTicketProjects, ListByIntegrationID'',
          ''Create with create_config and status_mapping as JSON strings'',
          ''Update mapping, policy, create_config, name'',
          ''Delete by id'',
          ''GetTicketProject :one''],
        o_acceptance := [''Create stores valid JSON in create_config and status_mapping'',
          ''UNIQUE violation on duplicate integration_id+external_project_id'',
          ''ListByIntegrationID filters correctly'',
          ''on_open_ticket_policy defaults to supersede'',
          ''FK to integrations enforced'',
          ''Update preserves id and integration_id'',
          ''go test CRUD round-trip''],
        o_files := [''queries/ticket_projects.sql'',
          ''internal/store/ticket_projects.go''],
        o_tests := [''go test ./internal/store/... -run TicketProject'']\<rparr>)]"

definition P05_part2 :: "registration list" where
  "P05_part2 =
    [RegLeaf ''P05-04'' ''P05'' ''Add sqlc queries for monitored_repos'' ''db''
       (no_opts\<lparr>o_context := Some ''monitored_repos: source_kind, project_path, enabled, source_integration_id nullable, ticket_project_id FK, open_ticket_external_id, open_ticket_tag, last_known_tag, last_polled_at, last_error. Poll engine updates state fields.'',
        o_specs := [SPEC_domain\<lparr>dl_note := Some ''Per-repo poll state and open ticket tracking''\<rparr>, SPEC_schema\<lparr>dl_note := Some (''monitored_repos '' @ [CHR 0xC2, CHR 0xA7] @ ''4.4'')\<rparr>],
        o_schema := [SCHEMA_sql\<lparr>dl_note := Some ''monitored_repos columns''\<rparr>, SCHEMA_html\<lparr>dl_note := Some ''UNIQUE(source_kind, project_path)''\<rparr>],
        o_implementation := [(''queries/monitored_repos.sql '' @ em_dash @ '' CRUD''),
          ''ListMonitoredRepos, ListEnabledRepos'',
          ''UpdatePollState: last_known_tag, last_polled_at, last_error, open_ticket_*'',
          ''Create with notification target links via separate join queries'',
          ''SetEnabled toggle'',
          ''GetMonitoredRepoWithRelations for poll engine''],
        o_acceptance := [''ListEnabledRepos returns only enabled=1'',
          ''UpdatePollState clears last_error on success path'',
          ''UNIQUE on source_kind+project_path enforced'',
          ''source_integration_id nullable for github/codeberg'',
          ''ticket_project_id FK required on create'',
          ''open_ticket fields updatable by poll engine'',
          ''go test poll state update''],
        o_files := [''queries/monitored_repos.sql'',
          ''internal/store/repos.go''],
        o_tests := [''go test ./internal/store/... -run MonitoredRepo'']\<rparr>),
     RegLeaf ''P05-05'' ''P05'' ''Add sqlc queries for notification targets'' ''db''
       (no_opts\<lparr>o_context := Some ''notification_targets: name, shoutrrr_url_encrypted, events_json default [create,error,supersede], enabled. monitored_repo_notifications join for per-repo routing.'',
        o_specs := [SPEC_notifications\<lparr>dl_note := Some ''Shoutrrr URL encrypted; events filter''\<rparr>, SPEC_schema\<lparr>dl_note := Some (''notification_targets + join table '' @ [CHR 0xC2, CHR 0xA7] @ ''4.5'')\<rparr>],
        o_schema := [SCHEMA_sql\<lparr>dl_note := Some ''notification_targets, monitored_repo_notifications''\<rparr>, SCHEMA_html\<lparr>dl_note := Some ''events_json CHECK json_valid''\<rparr>],
        o_implementation := [(''queries/notification_targets.sql '' @ em_dash @ '' CRUD targets''),
          ''LinkRepoNotification, UnlinkRepoNotification, ListTargetsForRepo'',
          ''ListEnabledNotificationTargets'',
          ''Create with encrypted URL blob'',
          ''Update events_json, enabled, name, optional URL'',
          ''Delete cascades join rows''],
        o_acceptance := [''Create stores shoutrrr_url_encrypted opaque blob'',
          ''events_json defaults include create, error, supersede'',
          ''LinkRepoNotification creates join row'',
          ''ListTargetsForRepo returns linked targets only'',
          ''Empty join means global targets apply (poll layer)'',
          ''enabled=0 excluded from send list'',
          ''go test target CRUD and linking''],
        o_files := [''queries/notification_targets.sql'',
          ''internal/store/notifications.go''],
        o_tests := [''go test ./internal/store/... -run Notification'']\<rparr>),
     RegLeaf ''P05-06'' ''P05'' ''Add sqlc queries for poll_runs and events'' ''db''
       (no_opts\<lparr>o_context := Some ''poll_runs: status running|success|partial|failed, counters, errors_json. poll_run_events: action enum baseline|skip|create|supersede|merge|skip_open|error per repo.'',
        o_specs := [SPEC_domain\<lparr>dl_note := Some ''Poll run lifecycle and event actions''\<rparr>, SPEC_schema\<lparr>dl_note := Some (''poll_runs, poll_run_events '' @ [CHR 0xC2, CHR 0xA7] @ ''4.6'')\<rparr>],
        o_schema := [SCHEMA_sql\<lparr>dl_note := Some ''poll_run_events.action CHECK''\<rparr>, SCHEMA_html\<lparr>dl_note := Some ''poll_runs status enum''\<rparr>],
        o_implementation := [(''queries/poll_runs.sql '' @ em_dash @ '' CreatePollRun, FinishPollRun''),
          ''InsertPollRunEvent, ListPollRunEventsByRunID'',
          ''ListPollRuns paginated ORDER BY started_at DESC'',
          ''GetPollRunWithEvents :one + :many'',
          ''Increment counters on FinishPollRun'',
          ''errors_json as JSON array string''],
        o_acceptance := [''CreatePollRun sets status running'',
          ''FinishPollRun sets finished_at and final status'',
          ''InsertPollRunEvent records action per repo'',
          ''ListPollRuns supports LIMIT/OFFSET'',
          ''errors_json valid JSON array'',
          ''FK poll_run_id on events enforced'',
          ''go test run lifecycle''],
        o_files := [''queries/poll_runs.sql'',
          ''internal/store/poll_runs.go''],
        o_tests := [''go test ./internal/store/... -run PollRun'']\<rparr>),
     RegLeaf ''P05-07'' ''P05'' ''Add repository wrapper with domain types'' ''db''
       (no_opts\<lparr>o_depends_on := [''P05-01'',
          ''P05-02'',
          ''P05-03'',
          ''P05-04'',
          ''P05-05'',
          ''P05-06''],
        o_context := Some ''Single Repository struct embedding *db.Queries with helper methods converting sqlc types to domain structs. Injected into api handlers and poll package. Centralizes UUID and time helpers.'',
        o_specs := [SPEC_architecture\<lparr>dl_note := Some ''Store layer between handlers and sqlc''\<rparr>, SPEC_providers\<lparr>dl_note := Some ''Repository loads integration rows for factory''\<rparr>],
        o_stack := [STACK_backend\<lparr>dl_note := Some ''internal/store/repository.go''\<rparr>, STACK_data\<lparr>dl_note := Some ''Transaction support optional for multi-table creates''\<rparr>],
        o_implementation := [''type Repository struct { q *db.Queries; db *sql.DB }'',
          ''NewRepository(db) with db.New(db)'',
          ''Methods delegate to generated queries with domain mapping'',
          ''WithTx(ctx) for repo create + notification links'',
          ''NewID() UUID v4 helper'',
          ''NowUTC() ISO8601 timestamp helper'',
          ''Export all store sub-repositories or flat methods''],
        o_acceptance := [''Repository constructible from *sql.DB'',
          ''All P05-01..06 operations accessible via Repository'',
          ''Handlers import store.Repository not raw sqlc'',
          ''UUIDs generated consistently'',
          ''Timestamps in UTC Z format'',
          ''WithTx rolls back on error for repo+links create'',
          ''go build ./internal/store/... succeeds''],
        o_files := [''internal/store/repository.go''],
        o_tests := [''go test ./internal/store/...'']\<rparr>)]"

definition registerP05 :: "registration list" where
  "registerP05 = P05_part1 @ P05_part2"

definition P06_part1 :: "registration list" where
  "P06_part1 =
    [RegEpic ''P06'' ''Settings REST API'' ''backend''
       (no_opts\<lparr>o_depends_on := [''P05-07'',
          ''P03-08''],
        o_context := Some ''Global app settings exposed via GET/PATCH /api/v1/settings. MVP scope: poll_interval_minutes only. Requires auth. Validates minimum 5 minutes. Scheduler (P14) reads this value.'',
        o_specs := [SPEC_api\<lparr>dl_note := Some ([CHR 0xC2, CHR 0xA7] @ ''7.2 settings endpoints'')\<rparr>, SPEC_domain\<lparr>dl_note := Some ''Poll interval from app_settings''\<rparr>],
        o_schema := [SCHEMA_sql\<lparr>dl_note := Some ''app_settings singleton''\<rparr>, SCHEMA_html\<lparr>dl_note := Some ''poll_interval_minutes CHECK >= 5''\<rparr>],
        o_implementation := [(''internal/api/settings.go '' @ em_dash @ '' GetSettings, PatchSettings handlers''),
          (''GET /api/v1/settings '' @ [CHR 0xE2, CHR 0x86, CHR 0x92] @ '' { pollIntervalMinutes: 360 }''),
          ''PATCH body { pollIntervalMinutes } camelCase JSON'',
          ''Validate >= 5, return 400 validation_error'',
          ''Seed app_settings id=1 on migrate'',
          ''Register routes behind auth middleware''],
        o_acceptance := [''GET /api/v1/settings returns pollIntervalMinutes'',
          ''PATCH updates value in database'',
          ''PATCH with value < 5 returns 400'',
          ''Unauthenticated requests return 401'',
          ''Default 360 when row seeded'',
          ''Response uses camelCase JSON keys'',
          ''Settings API tests pass'']\<rparr>),
     RegLeaf ''P06-01'' ''P06'' ''Implement GET /api/v1/settings'' ''backend''
       (no_opts\<lparr>o_context := Some ''Authenticated GET returns current poll_interval_minutes as pollIntervalMinutes. Read from app_settings id=1 via repository.'',
        o_specs := [SPEC_api\<lparr>dl_note := Some ''GET /api/v1/settings response shape''\<rparr>, SPEC_schema\<lparr>dl_note := Some ''app_settings.poll_interval_minutes''\<rparr>],
        o_stack := [STACK_backend\<lparr>dl_note := Some ''internal/api/settings.go''\<rparr>, STACK_quality\<lparr>dl_note := Some ''httptest in P06-04''\<rparr>],
        o_implementation := [''GetSettingsHandler(repo Repository)'',
          (''repo.GetSettings(ctx) '' @ [CHR 0xE2, CHR 0x86, CHR 0x92] @ '' poll_interval_minutes''),
          ''JSON: { pollIntervalMinutes: int }'',
          ''404 or 500 if settings row missing (should not happen after seed)'',
          ''r.Get(/settings, handler) on protected router''],
        o_acceptance := [''Returns 200 with pollIntervalMinutes integer'',
          ''Requires auth cookie'',
          ''Value matches database'',
          ''Content-Type application/json'',
          ''No extra fields in response'',
          ''Handles missing row with 500 internal_error'',
          ''Camel case JSON key pollIntervalMinutes''],
        o_files := [''internal/api/settings.go''],
        o_tests := [''go test ./internal/api/... -run GetSettings'']\<rparr>),
     RegLeaf ''P06-02'' ''P06'' ''Implement PATCH /api/v1/settings'' ''backend''
       (no_opts\<lparr>o_context := Some ''Partial update of poll interval. Body: { pollIntervalMinutes: number }. Validate >= 5. Update updated_at. Return updated object.'',
        o_specs := [SPEC_api\<lparr>dl_note := Some ''PATCH /api/v1/settings request body''\<rparr>, SPEC_domain\<lparr>dl_note := Some ''Scheduler picks up new interval on next tick''\<rparr>],
        o_stack := [STACK_backend\<lparr>dl_note := Some ''Decode JSON with json.Decoder''\<rparr>, STACK_quality\<lparr>dl_note := Some ''Validation before DB write''\<rparr>],
        o_implementation := [''PatchSettingsHandler decodes { pollIntervalMinutes }'',
          ''Reject if < 5 with validation_error'',
          ''repo.UpdatePollInterval(ctx, minutes)'',
          ''Return 200 with same shape as GET'',
          ''Reject unknown JSON fields or ignore per spec'',
          ''Log setting change at info level''],
        o_acceptance := [''Valid PATCH persists and returns new value'',
          ''Value 4 returns 400 validation_error'',
          ''Value 5 accepted (minimum)'',
          ''Missing field returns 400'',
          ''Unauthenticated returns 401'',
          ''updated_at changes in DB'',
          ''Subsequent GET returns updated value''],
        o_files := [''internal/api/settings.go''],
        o_tests := [''go test ./internal/api/... -run PatchSettings'']\<rparr>),
     RegLeaf ''P06-03'' ''P06'' ''Seed app_settings singleton on migrate'' ''db''
       (no_opts\<lparr>o_depends_on := [''P05-01''],
        o_context := Some ''Ensure row id=1 exists with poll_interval_minutes=360 after first migration. Either INSERT in 000001_init.up.sql or dedicated seed in migrate.go after Up.'',
        o_specs := [SPEC_schema\<lparr>dl_note := Some ''app_settings id CHECK (id = 1) singleton''\<rparr>, SPEC_api\<lparr>dl_note := Some ''Default 360 minutes = 6 hours''\<rparr>],
        o_schema := [SCHEMA_sql\<lparr>dl_note := Some ''DEFAULT 360 on poll_interval_minutes''\<rparr>, SCHEMA_html\<lparr>dl_note := Some ''Singleton pattern''\<rparr>],
        o_implementation := [''Add to migrations/000001_init.up.sql: INSERT OR IGNORE INTO app_settings'',
          ''Values: id=1, poll_interval_minutes=360, updated_at=now'',
          ''Or MigrateUp hook: seed if COUNT app_settings = 0'',
          ''Use UTC ISO8601 for updated_at'',
          ''Idempotent on re-migrate''],
        o_acceptance := [''Fresh migrate leaves exactly one app_settings row'',
          ''poll_interval_minutes = 360 by default'',
          ''id = 1'',
          ''Re-running migrate does not duplicate row'',
          ''GET /api/v1/settings works without manual seed'',
          ''updated_at is valid ISO8601'',
          ''go test migrate includes settings row check''],
        o_files := [''migrations/000001_init.up.sql''],
        o_tests := [''go test ./internal/store/... -run SettingsSeed'']\<rparr>)]"

definition P06_part2 :: "registration list" where
  "P06_part2 =
    [RegLeaf ''P06-04'' ''P06'' ''Add settings API tests'' ''backend''
       (no_opts\<lparr>o_depends_on := [''P06-01'',
          ''P06-02''],
        o_context := Some ''Integration tests: login, GET settings, PATCH valid/invalid, verify DB. Uses httptest and test repository.'',
        o_specs := [SPEC_api\<lparr>dl_note := Some ''Settings endpoint contract''\<rparr>, SPEC_mvp\<lparr>dl_note := Some ''API tests required for MVP''\<rparr>],
        o_stack := [STACK_quality\<lparr>dl_note := Some ''go test ./internal/api/... -run Settings''\<rparr>, STACK_backend\<lparr>dl_note := Some ''handlers_test pattern from auth''\<rparr>],
        o_implementation := [''TestSettingsGetRequiresAuth'',
          ''TestSettingsGetReturnsDefault360'',
          ''TestSettingsPatchUpdatesValue'',
          ''TestSettingsPatchRejectsBelowMin'',
          ''Helper: authenticatedClient(t)'',
          ''Use migrated :memory: DB''],
        o_acceptance := [''All settings tests pass'',
          (''GET without auth '' @ [CHR 0xE2, CHR 0x86, CHR 0x92] @ '' 401''),
          (''PATCH 10 '' @ [CHR 0xE2, CHR 0x86, CHR 0x92] @ '' GET returns 10''),
          (''PATCH 3 '' @ [CHR 0xE2, CHR 0x86, CHR 0x92] @ '' 400''),
          ''Tests isolated per run'',
          ''No external network'',
          ''CI green on go test ./internal/api/... -run Settings''],
        o_files := [''internal/api/settings_test.go''],
        o_tests := [''go test ./internal/api/... -run Settings'']\<rparr>)]"

definition registerP06 :: "registration list" where
  "registerP06 = P06_part1 @ P06_part2"

definition P07_part1 :: "registration list" where
  "P07_part1 =
    [RegEpic ''P07'' ''Integrations REST API'' ''backend''
       (no_opts\<lparr>o_depends_on := [''P05-07'',
          ''P04-03'',
          ''P03-08''],
        o_context := Some ''CRUD for integrations (8 kinds: 5 source + 3 ticket). Secrets encrypted on write; API returns hasSecret never plaintext. base_url rules per kind. DELETE 409 when referenced. POST /integrations/{id}/test wired in P11/P12.'',
        o_specs := [SPEC_api\<lparr>dl_note := Some ([CHR 0xC2, CHR 0xA7] @ ''7.3 integrations endpoints'')\<rparr>, SPEC_schema\<lparr>dl_note := Some ''integrations table kind CHECK''\<rparr>],
        o_schema := [SCHEMA_sql\<lparr>dl_note := Some ''integrations DDL and constraints''\<rparr>, SCHEMA_html\<lparr>dl_note := Some ''base_url per kind matrix''\<rparr>],
        o_implementation := [(''internal/api/integrations/model.go '' @ em_dash @ '' kind validation''),
          (''GET /api/v1/integrations '' @ em_dash @ '' list with hasSecret''),
          (''POST '' @ em_dash @ '' create with secret encryption''),
          (''PATCH /api/v1/integrations/{id} '' @ em_dash @ '' name, optional secret''),
          (''DELETE '' @ em_dash @ '' 409 if referenced''),
          ''JSON camelCase: baseUrl, hasSecret''],
        o_acceptance := [''List never includes secret or encrypted_payload'',
          ''Create encrypts secret before store'',
          ''hasSecret: true when encrypted_payload non-empty'',
          ''Invalid kind returns 400'',
          ''github create rejects baseUrl'',
          ''gitlab create requires baseUrl'',
          ''DELETE returns 409 when repos reference integration'']\<rparr>),
     RegLeaf ''P07-01'' ''P07'' ''Add integration domain model and kind validation'' ''backend''
       (no_opts\<lparr>o_context := Some ''Validate kind enum and base_url presence per specs: github/codeberg/linear NULL base_url; gitlab/gitea/forgejo/phasical/jira require base_url.'',
        o_specs := [SPEC_schema\<lparr>dl_note := Some ''integrations CHECK constraint''\<rparr>, SPEC_providers\<lparr>dl_note := Some ''8 integration kinds''\<rparr>],
        o_schema := [SCHEMA_sql\<lparr>dl_note := Some ''kind IN (...) CHECK''\<rparr>, SCHEMA_html\<lparr>dl_note := Some ''base_url rules table''\<rparr>],
        o_implementation := [''internal/api/integrations/model.go'',
          ''const kinds: github, gitlab, gitea, forgejo, codeberg, phasical, jira, linear'',
          ''ValidateCreate(kind, baseUrl) error'',
          ''IsSourceKind(kind), IsTicketKind(kind) helpers'',
          ''Normalize baseUrl: trim trailing slash'',
          ''Map DB snake_case to JSON camelCase in responses''],
        o_acceptance := [''github with baseUrl fails validation'',
          ''gitlab without baseUrl fails validation'',
          ''linear allows null baseUrl'',
          ''Invalid kind string rejected'',
          ''baseUrl trimmed of trailing slash'',
          ''IsSourceKind true for 5 source kinds'',
          ''IsTicketKind true for phasical, jira, linear''],
        o_files := [''internal/api/integrations/model.go'',
          ''internal/api/integrations/model_test.go''],
        o_tests := [''go test ./internal/api/integrations/... -run Validate'']\<rparr>),
     RegLeaf ''P07-02'' ''P07'' ''Implement GET /api/v1/integrations'' ''backend''
       (no_opts\<lparr>o_depends_on := [''P07-01''],
        o_context := Some ''List all integrations: { id, kind, name, baseUrl, hasSecret, createdAt, updatedAt }. Never decrypt or expose secret.'',
        o_specs := [SPEC_api\<lparr>dl_note := Some ''Integration list response fields''\<rparr>, SPEC_auth\<lparr>dl_note := Some ''Requires session''\<rparr>],
        o_stack := [STACK_backend\<lparr>dl_note := Some ''handlers.go ListIntegrations''\<rparr>, STACK_quality\<lparr>dl_note := Some ''Test hasSecret true/false''\<rparr>],
        o_implementation := [''ListIntegrationsHandler(repo)'',
          ''Map each row to IntegrationResponse DTO'',
          ''hasSecret: len(encrypted_payload) > 0'',
          ''Omit encrypted_payload from JSON tags'',
          ''Sort by name or created_at'',
          ''r.Get(/integrations, handler)''],
        o_acceptance := [''Returns 200 array of integrations'',
          ''Each item has id, kind, name, hasSecret'',
          ''No secret field in JSON'',
          ''hasSecret false for empty payload edge case'',
          ''baseUrl null for github in JSON'',
          ''Requires authentication'',
          ''Empty list returns []''],
        o_files := [''internal/api/integrations/handlers.go''],
        o_tests := [''go test ./internal/api/integrations/... -run List'']\<rparr>),
     RegLeaf ''P07-03'' ''P07'' ''Implement POST /api/v1/integrations'' ''backend''
       (no_opts\<lparr>o_depends_on := [''P07-01''],
        o_context := Some ''Create: { kind, name, baseUrl?, secret }. Encrypt secret via crypto.EncryptJSON. Return created object without secret.'',
        o_specs := [SPEC_api\<lparr>dl_note := Some ''POST /api/v1/integrations body''\<rparr>, SPEC_schema\<lparr>dl_note := Some ''encrypted_payload NOT NULL''\<rparr>],
        o_stack := [STACK_backend\<lparr>dl_note := Some ''Uses crypto + repository CreateIntegration''\<rparr>, STACK_data\<lparr>dl_note := Some ''UUID id generation''\<rparr>],
        o_implementation := [''Decode CreateIntegrationRequest'',
          ''ValidateCreate(kind, baseUrl)'',
          ''Require non-empty secret'',
          ''encrypted := cipher.EncryptJSON(kind, secret)'',
          ''repo.CreateIntegration(id, kind, name, baseUrl, encrypted)'',
          ''Return 201 with IntegrationResponse hasSecret:true''],
        o_acceptance := [''Creates row in integrations table'',
          ''encrypted_payload not equal plaintext secret'',
          ''Response 201 with id and hasSecret:true'',
          ''secret not in response body'',
          ''Validation errors return 400'',
          ''Duplicate name allowed (no unique on name)'',
          ''DB CHECK enforced for kind/base_url combo''],
        o_files := [''internal/api/integrations/handlers.go''],
        o_tests := [''go test ./internal/api/integrations/... -run Create'']\<rparr>)]"

definition P07_part2 :: "registration list" where
  "P07_part2 =
    [RegLeaf ''P07-04'' ''P07'' ''Implement PATCH /api/v1/integrations/{id}'' ''backend''
       (no_opts\<lparr>o_depends_on := [''P07-03''],
        o_context := Some ''Update name and/or replace secret. Partial update: only provided fields. Secret replace re-encrypts entire payload.'',
        o_specs := [SPEC_api\<lparr>dl_note := Some ''PATCH optional secret replace''\<rparr>, SPEC_ui\<lparr>dl_note := Some ''UI never re-displays secret after save''\<rparr>],
        o_stack := [STACK_backend\<lparr>dl_note := Some ''chi URL param {id}''\<rparr>, STACK_quality\<lparr>dl_note := Some ''404 when id not found''\<rparr>],
        o_implementation := [''PatchIntegrationHandler'',
          (''Load integration by id '' @ em_dash @ '' 404 not_found''),
          ''Update name if provided'',
          ''If secret provided: re-encrypt with existing kind'',
          ''Cannot change kind via PATCH'',
          ''Return 200 IntegrationResponse''],
        o_acceptance := [''PATCH name only leaves encrypted_payload unchanged'',
          ''PATCH secret updates encrypted_payload'',
          ''Unknown id returns 404'',
          ''Empty body returns 400 or 200 no-op'',
          ''kind immutable on PATCH'',
          ''hasSecret remains true after secret replace'',
          ''updated_at changes''],
        o_files := [''internal/api/integrations/handlers.go''],
        o_tests := [''go test ./internal/api/integrations/... -run Patch'']\<rparr>),
     RegLeaf ''P07-05'' ''P07'' ''Implement DELETE /api/v1/integrations/{id}'' ''backend''
       (no_opts\<lparr>o_depends_on := [''P07-02''],
        o_context := Some ''Delete integration when not referenced by monitored_repos.source_integration_id or ticket_projects.integration_id. Return 409 conflict otherwise.'',
        o_specs := [SPEC_api\<lparr>dl_note := Some ''DELETE 409 when referenced''\<rparr>, SPEC_schema\<lparr>dl_note := Some ''FK ON DELETE RESTRICT''\<rparr>],
        o_schema := [SCHEMA_sql\<lparr>dl_note := Some ''FK references to integrations''\<rparr>, SCHEMA_html\<lparr>dl_note := Some ''RESTRICT on delete''\<rparr>],
        o_implementation := [''DeleteIntegrationHandler'',
          ''Count repos with source_integration_id = id'',
          ''Count ticket_projects with integration_id = id'',
          ''If any > 0: 409 conflict with message'',
          ''Else repo.DeleteIntegration(id)'',
          ''Return 204 No Content''],
        o_acceptance := [''Unreferenced integration deletes with 204'',
          ''Referenced by repo returns 409'',
          ''Referenced by ticket_project returns 409'',
          ''Unknown id returns 404'',
          ''Requires auth'',
          ''Row removed from DB on success'',
          ''Encrypted payload gone after delete''],
        o_files := [''internal/api/integrations/handlers.go''],
        o_tests := [''go test ./internal/api/integrations/... -run Delete'']\<rparr>),
     RegLeaf ''P07-06'' ''P07'' ''Add integrations API tests'' ''backend''
       (no_opts\<lparr>o_depends_on := [''P07-05''],
        o_context := Some ''Full CRUD integration test suite with encrypted secrets verification and 409 delete guard.'',
        o_specs := [SPEC_api\<lparr>dl_note := Some ''Integrations API contract''\<rparr>, SPEC_mvp\<lparr>dl_note := Some ''All 8 kinds creatable per MVP AC''\<rparr>],
        o_stack := [STACK_quality\<lparr>dl_note := Some ''go test ./internal/api/integrations/...''\<rparr>, STACK_backend\<lparr>dl_note := Some ''Test all CRUD paths''\<rparr>],
        o_implementation := [''TestCreateGitHubIntegration'',
          ''TestCreateGitLabRequiresBaseUrl'',
          ''TestListDoesNotExposeSecret'',
          ''TestPatchReplaceSecret'',
          ''TestDeleteConflictWhenReferenced'',
          ''Use test cipher with fixed key''],
        o_acceptance := [''Full test package passes'',
          ''Secret never appears in httptest response bodies'',
          ''409 delete test with seeded repo FK'',
          ''All handlers covered'',
          ''CI compatible'',
          ''No network calls'',
          ''Tests run under 30s''],
        o_files := [''internal/api/integrations/handlers_test.go''],
        o_tests := [''go test ./internal/api/integrations/...'']\<rparr>)]"

definition registerP07 :: "registration list" where
  "registerP07 = P07_part1 @ P07_part2"

definition P08_part1 :: "registration list" where
  "P08_part1 =
    [RegEpic ''P08'' ''Ticket projects REST API'' ''backend''
       (no_opts\<lparr>o_depends_on := [''P07-03''],
        o_context := Some ''ticket_projects link ticket integrations to external project/team IDs with per-project create_config, status_mapping, and on_open_ticket_policy (supersede|merge|skip_if_open). Full CRUD at /api/v1/ticket-projects.'',
        o_specs := [SPEC_ticketProjects\<lparr>dl_note := Some ([CHR 0xC2, CHR 0xA7] @ ''5.3 status mapping and policies'')\<rparr>, SPEC_api\<lparr>dl_note := Some ([CHR 0xC2, CHR 0xA7] @ ''7.4 ticket-projects endpoints'')\<rparr>],
        o_schema := [SCHEMA_sql\<lparr>dl_note := Some ''ticket_projects table''\<rparr>, SCHEMA_html\<lparr>dl_note := Some ''create_config JSON per provider''\<rparr>],
        o_implementation := [(''internal/api/ticketprojects/validate.go '' @ em_dash @ '' provider-specific JSON schemas''),
          ''GET /api/v1/ticket-projects ?integrationId='',
          ''POST create with integrationId, externalProjectId, name, createConfig, statusMapping, onOpenTicketPolicy'',
          ''PATCH update mapping, policy, configs'',
          ''DELETE 409 when monitored_repos reference''],
        o_acceptance := [''Create validates create_config per phasical/jira/linear'',
          ''status_mapping requires open, done, cancelled, superseded keys'',
          ''onOpenTicketPolicy enum validated'',
          ''Filter by integrationId query works'',
          ''DELETE 409 when repo uses ticket_project_id'',
          ''integrationId must reference ticket kind integration'',
          ''CamelCase JSON in API'']\<rparr>),
     RegLeaf ''P08-01'' ''P08'' ''Validate ticket project JSON schemas'' ''backend''
       (no_opts\<lparr>o_context := Some ''Validate create_config and status_mapping per ticket provider. Phasical: workspaceId; Jira: projectKey; Linear: teamId. status_mapping: { open: string[], done: string[], cancelled: string[], superseded: string[] }.'',
        o_specs := [SPEC_ticketProjects\<lparr>dl_note := Some ''Provider-specific create_config fields''\<rparr>, SPEC_providers\<lparr>dl_note := Some ''Ticket provider credential kinds''\<rparr>],
        o_schema := [SCHEMA_sql\<lparr>dl_note := Some ''json_valid CHECK on JSON columns''\<rparr>, SCHEMA_html\<lparr>dl_note := Some ''on_open_ticket_policy enum''\<rparr>],
        o_implementation := [''internal/api/ticketprojects/validate.go'',
          ''ValidateCreateConfig(kind, json) error'',
          (''ValidateStatusMapping(json) '' @ em_dash @ '' non-empty arrays for each status class''),
          (''ValidatePolicy(policy) '' @ em_dash @ '' supersede|merge|skip_if_open''),
          ''Unmarshal to typed structs per kind'',
          ''Return field-level validation_error messages''],
        o_acceptance := [''Phasical create_config requires workspaceId'',
          ''Jira requires projectKey'',
          ''Linear requires teamId'',
          ''Missing status_mapping key fails validation'',
          ''Invalid policy string rejected'',
          ''Empty status array rejected'',
          ''Valid payload passes all checks''],
        o_files := [''internal/api/ticketprojects/validate.go'',
          ''internal/api/ticketprojects/validate_test.go''],
        o_tests := [''go test ./internal/api/ticketprojects/... -run Validate'']\<rparr>),
     RegLeaf ''P08-02'' ''P08'' ''Implement GET /api/v1/ticket-projects'' ''backend''
       (no_opts\<lparr>o_depends_on := [''P08-01''],
        o_context := Some ''List ticket projects with optional ?integrationId= filter. Return parsed createConfig and statusMapping as JSON objects.'',
        o_specs := [SPEC_api\<lparr>dl_note := Some ''GET ticket-projects query filter''\<rparr>, SPEC_ticketProjects\<lparr>dl_note := Some ''List for UI ticket project table P22''\<rparr>],
        o_stack := [STACK_backend\<lparr>dl_note := Some ''handlers.go ListTicketProjects''\<rparr>, STACK_frontend\<lparr>dl_note := Some ''useTicketProjects hook P17''\<rparr>],
        o_implementation := [''Parse optional integrationId query param'',
          ''repo.ListTicketProjects or ListByIntegrationID'',
          ''Map to TicketProjectResponse with camelCase'',
          ''Parse create_config and status_mapping from DB strings to JSON'',
          ''Include integrationId, externalProjectId, onOpenTicketPolicy'',
          ''r.Get(/ticket-projects, handler)''],
        o_acceptance := [''Returns 200 array'',
          ''integrationId filter returns subset only'',
          ''createConfig and statusMapping are JSON objects not strings'',
          ''onOpenTicketPolicy included in each item'',
          ''Requires auth'',
          ''Empty filter returns all projects'',
          ''Sorted by name''],
        o_files := [''internal/api/ticketprojects/handlers.go''],
        o_tests := [''go test ./internal/api/ticketprojects/... -run List'']\<rparr>),
     RegLeaf ''P08-03'' ''P08'' ''Implement POST /api/v1/ticket-projects'' ''backend''
       (no_opts\<lparr>o_depends_on := [''P08-01''],
        o_context := Some (''Create ticket project linked to ticket integration. Body per spec '' @ [CHR 0xC2, CHR 0xA7] @ ''7.4. Verify integration exists and is ticket kind.''),
        o_specs := [SPEC_api\<lparr>dl_note := Some ''POST /api/v1/ticket-projects JSON example''\<rparr>, SPEC_ticketProjects\<lparr>dl_note := Some ''UNIQUE(integration_id, external_project_id)''\<rparr>],
        o_schema := [SCHEMA_sql\<lparr>dl_note := Some ''ticket_projects FK to integrations''\<rparr>, SCHEMA_html\<lparr>dl_note := Some ''external_project_id meaning per provider''\<rparr>],
        o_implementation := [''Decode CreateTicketProjectRequest'',
          (''Load integration '' @ em_dash @ '' 400 if not ticket kind''),
          ''ValidateCreateConfig and ValidateStatusMapping'',
          ''Default onOpenTicketPolicy to supersede if omitted'',
          ''repo.CreateTicketProject with JSON stringified configs'',
          ''Return 201 TicketProjectResponse''],
        o_acceptance := [''Creates row with valid JSON configs'',
          ''Duplicate externalProjectId per integration returns 409'',
          ''Invalid integrationId returns 404'',
          ''Source kind integration rejected with 400'',
          ''Default policy supersede when omitted'',
          ''Returns 201 with new id'',
          ''Configs round-trip in response''],
        o_files := [''internal/api/ticketprojects/handlers.go''],
        o_tests := [''go test ./internal/api/ticketprojects/... -run Create'']\<rparr>)]"

definition P08_part2 :: "registration list" where
  "P08_part2 =
    [RegLeaf ''P08-04'' ''P08'' ''Implement PATCH /api/v1/ticket-projects/{id}'' ''backend''
       (no_opts\<lparr>o_depends_on := [''P08-03''],
        o_context := Some ''Update name, createConfig, statusMapping, onOpenTicketPolicy. integrationId and externalProjectId immutable.'',
        o_specs := [SPEC_api\<lparr>dl_note := Some ''PATCH ticket-projects partial update''\<rparr>, SPEC_ticketProjects\<lparr>dl_note := Some ''Status mapping editable per project''\<rparr>],
        o_stack := [STACK_backend\<lparr>dl_note := Some ''PATCH handler with validation''\<rparr>, STACK_ui\<lparr>dl_note := Some ''Status mapping form P22-04''\<rparr>],
        o_implementation := [(''Load project by id '' @ em_dash @ '' 404''),
          ''Load parent integration for kind validation on config updates'',
          ''Merge partial fields'',
          ''Re-validate configs if provided'',
          ''repo.UpdateTicketProject'',
          ''Return 200 updated object''],
        o_acceptance := [''PATCH name updates name only'',
          ''PATCH statusMapping re-validates'',
          ''Cannot change integrationId via PATCH'',
          ''Invalid policy returns 400'',
          ''Unknown id 404'',
          ''updated_at changes'',
          ''Response reflects all current fields''],
        o_files := [''internal/api/ticketprojects/handlers.go''],
        o_tests := [''go test ./internal/api/ticketprojects/... -run Patch'']\<rparr>),
     RegLeaf ''P08-05'' ''P08'' ''Implement DELETE /api/v1/ticket-projects/{id}'' ''backend''
       (no_opts\<lparr>o_depends_on := [''P08-02''],
        o_context := Some ''Delete when no monitored_repos.ticket_project_id references this row. 409 conflict otherwise.'',
        o_specs := [SPEC_api\<lparr>dl_note := Some ''DELETE 409 when referenced by repos''\<rparr>, SPEC_schema\<lparr>dl_note := Some ''monitored_repos.ticket_project_id FK RESTRICT''\<rparr>],
        o_schema := [SCHEMA_sql\<lparr>dl_note := Some ''ON DELETE RESTRICT from monitored_repos''\<rparr>, SCHEMA_html\<lparr>dl_note := Some ''Delete guard''\<rparr>],
        o_implementation := [''Count monitored_repos where ticket_project_id = id'',
          ''If count > 0: 409 conflict'',
          ''repo.DeleteTicketProject(id)'',
          ''Return 204'',
          ''404 if not found''],
        o_acceptance := [''Unreferenced project deletes 204'',
          ''Referenced by repo returns 409'',
          ''Unknown id 404'',
          ''Requires auth'',
          ''Row removed from DB'',
          ''Integration row unaffected'',
          ''Subsequent GET list excludes deleted''],
        o_files := [''internal/api/ticketprojects/handlers.go''],
        o_tests := [''go test ./internal/api/ticketprojects/... -run Delete'']\<rparr>),
     RegLeaf ''P08-06'' ''P08'' ''Add ticket projects API tests'' ''backend''
       (no_opts\<lparr>o_depends_on := [''P08-05''],
        o_context := Some ''Integration tests for CRUD, validation failures, integrationId filter, and delete 409.'',
        o_specs := [SPEC_api\<lparr>dl_note := Some ''Ticket projects API''\<rparr>, SPEC_mvp\<lparr>dl_note := Some ''Ticket project CRUD in MVP AC''\<rparr>],
        o_stack := [STACK_quality\<lparr>dl_note := Some ''Full package test suite''\<rparr>, STACK_backend\<lparr>dl_note := Some ''handlers_test.go''\<rparr>],
        o_implementation := [''Seed phasical integration + ticket project'',
          ''TestCreateValidationFailure'',
          ''TestListFilterByIntegrationId'',
          ''TestPatchStatusMapping'',
          ''TestDelete409WithLinkedRepo'',
          ''Authenticated httptest client''],
        o_acceptance := [''go test ./internal/api/ticketprojects/... passes'',
          ''Validation tests for each provider kind'',
          ''409 delete with FK repo'',
          ''Filter query param tested'',
          ''No secret leakage'',
          ''CI compatible'',
          ''Coverage of all handlers''],
        o_files := [''internal/api/ticketprojects/handlers_test.go''],
        o_tests := [''go test ./internal/api/ticketprojects/...'']\<rparr>)]"

definition registerP08 :: "registration list" where
  "registerP08 = P08_part1 @ P08_part2"

definition P09_part1 :: "registration list" where
  "P09_part1 =
    [RegEpic ''P09'' ''Monitored repos REST API'' ''backend''
       (no_opts\<lparr>o_depends_on := [''P08-03''],
        o_context := Some ''CRUD for monitored_repos: links source (kind + path + optional integration) to ticket_project and notification targets. Poll engine reads enabled repos. Validates source_integration_id required for self-hosted kinds.'',
        o_specs := [SPEC_api\<lparr>dl_note := Some ([CHR 0xC2, CHR 0xA7] @ ''7.5 repos endpoints'')\<rparr>, SPEC_domain\<lparr>dl_note := Some ''Monitored repo is poll unit''\<rparr>],
        o_schema := [SCHEMA_sql\<lparr>dl_note := Some ''monitored_repos + join table''\<rparr>, SCHEMA_html\<lparr>dl_note := Some ''source_kind, project_path UNIQUE''\<rparr>],
        o_implementation := [''internal/api/repos/validate.go'',
          ''GET /api/v1/repos'',
          ''POST with notificationTargetIds optional array'',
          ''PATCH enabled, ticket project, notification links'',
          ''DELETE monitored repo'',
          ''Response includes poll state: lastKnownTag, lastError, openTicket*''],
        o_acceptance := [''gitlab repo requires sourceIntegrationId'',
          ''github repo allows null sourceIntegrationId'',
          ''POST links notification targets via join table'',
          ''UNIQUE source_kind+project_path enforced'',
          ''PATCH enabled toggle works'',
          ''Response includes ticketProjectId and sourceKind'',
          ''DELETE removes join rows cascade'']\<rparr>),
     RegLeaf ''P09-01'' ''P09'' ''Validate monitored repo create rules'' ''backend''
       (no_opts\<lparr>o_context := Some ''source_kind enum; project_path format owner/repo; source_integration_id required for gitlab, gitea, forgejo; optional for github, codeberg. ticket_project_id required.'',
        o_specs := [SPEC_schema\<lparr>dl_note := Some ''monitored_repos constraints''\<rparr>, SPEC_providers\<lparr>dl_note := Some ''Self-hosted sources need integration for auth''\<rparr>],
        o_schema := [SCHEMA_sql\<lparr>dl_note := Some ''source_integration_id nullable FK''\<rparr>, SCHEMA_html\<lparr>dl_note := Some ''project_path format''\<rparr>],
        o_implementation := [''internal/api/repos/validate.go'',
          ''ValidateCreate(sourceKind, projectPath, sourceIntegrationId, ticketProjectId)'',
          ''project_path regex: owner/repo or group/subgroup/repo for gitlab'',
          ''Verify integration kind matches source_kind when integration provided'',
          ''Verify ticket_project exists'',
          ''enabled defaults true''],
        o_acceptance := [''gitlab without sourceIntegrationId fails'',
          ''github without sourceIntegrationId passes'',
          ''Mismatched integration kind fails'',
          ''Invalid source_kind rejected'',
          ''Empty project_path rejected'',
          ''Missing ticketProjectId rejected'',
          ''Valid github/github.com/org/repo passes''],
        o_files := [''internal/api/repos/validate.go'',
          ''internal/api/repos/validate_test.go''],
        o_tests := [''go test ./internal/api/repos/... -run Validate'']\<rparr>),
     RegLeaf ''P09-02'' ''P09'' ''Implement GET /api/v1/repos'' ''backend''
       (no_opts\<lparr>o_depends_on := [''P09-01''],
        o_context := Some ''List all monitored repos with related ids and poll state fields for dashboard UI.'',
        o_specs := [SPEC_api\<lparr>dl_note := Some ''Repo list response fields''\<rparr>, SPEC_ui\<lparr>dl_note := Some ''Dashboard repo table P20-03''\<rparr>],
        o_stack := [STACK_backend\<lparr>dl_note := Some ''handlers.go ListRepos''\<rparr>, STACK_frontend\<lparr>dl_note := Some ''useRepos hook''\<rparr>],
        o_implementation := [''repo.ListMonitoredRepos'',
          ''Include notificationTargetIds from join query'',
          ''Map: id, sourceKind, projectPath, enabled, sourceIntegrationId, ticketProjectId'',
          ''Poll state: lastKnownTag, lastPolledAt, lastError, openTicketExternalId, openTicketTag'',
          ''r.Get(/repos, handler)''],
        o_acceptance := [''Returns 200 array of repos'',
          ''notificationTargetIds array per repo'',
          ''lastKnownTag null for never polled'',
          ''enabled boolean in JSON'',
          ''Requires auth'',
          ''Includes all repos enabled and disabled'',
          ''CamelCase field names''],
        o_files := [''internal/api/repos/handlers.go''],
        o_tests := [''go test ./internal/api/repos/... -run List'']\<rparr>),
     RegLeaf ''P09-03'' ''P09'' ''Implement POST /api/v1/repos'' ''backend''
       (no_opts\<lparr>o_depends_on := [''P09-01''],
        o_context := Some ''Create repo: { sourceKind, projectPath, sourceIntegrationId?, ticketProjectId, notificationTargetIds?, enabled? }. Insert join rows for notification targets.'',
        o_specs := [SPEC_api\<lparr>dl_note := Some ''POST /api/v1/repos body''\<rparr>, SPEC_notifications\<lparr>dl_note := Some ''Optional per-repo notification routing''\<rparr>],
        o_schema := [SCHEMA_sql\<lparr>dl_note := Some ''monitored_repo_notifications join''\<rparr>, SCHEMA_html\<lparr>dl_note := Some ''Empty join = global targets''\<rparr>],
        o_implementation := [''ValidateCreate from P09-01'',
          ''Transaction: insert monitored_repos, insert join rows'',
          ''Validate notification target ids exist'',
          ''Generate UUID id'',
          ''Return 201 RepoResponse'',
          ''Initial poll fields null''],
        o_acceptance := [''Creates repo row'',
          ''Links notification targets in join table'',
          ''Duplicate source_kind+project_path returns 409'',
          ''Invalid ticketProjectId returns 400'',
          ''enabled defaults true'',
          ''Returns 201 with id'',
          ''notificationTargetIds echoed in response''],
        o_files := [''internal/api/repos/handlers.go''],
        o_tests := [''go test ./internal/api/repos/... -run Create'']\<rparr>)]"

definition P09_part2 :: "registration list" where
  "P09_part2 =
    [RegLeaf ''P09-04'' ''P09'' ''Implement PATCH /api/v1/repos/{id}'' ''backend''
       (no_opts\<lparr>o_depends_on := [''P09-03''],
        o_context := Some ''Update enabled, ticketProjectId, notificationTargetIds, sourceIntegrationId. sourceKind and projectPath immutable.'',
        o_specs := [SPEC_api\<lparr>dl_note := Some ''PATCH repos partial update''\<rparr>, SPEC_domain\<lparr>dl_note := Some ''Disabling repo skips poll''\<rparr>],
        o_stack := [STACK_backend\<lparr>dl_note := Some ''Replace notification links on update''\<rparr>, STACK_ui\<lparr>dl_note := Some ''Repo enabled toggle P23-05''\<rparr>],
        o_implementation := [(''Load repo by id '' @ em_dash @ '' 404''),
          ''Update enabled, ticket_project_id if provided'',
          ''Replace notification links: delete joins, insert new'',
          ''Re-validate ticket project and integration if changed'',
          ''Cannot change sourceKind or projectPath'',
          ''Return 200 RepoResponse''],
        o_acceptance := [''PATCH enabled=false persists'',
          ''PATCH notificationTargetIds replaces all links'',
          ''Empty notificationTargetIds clears joins (global targets)'',
          ''ticketProjectId change validated'',
          ''sourceKind immutable'',
          ''404 unknown id'',
          ''updated_at changes''],
        o_files := [''internal/api/repos/handlers.go''],
        o_tests := [''go test ./internal/api/repos/... -run Patch'']\<rparr>),
     RegLeaf ''P09-05'' ''P09'' ''Implement DELETE /api/v1/repos/{id}'' ''backend''
       (no_opts\<lparr>o_depends_on := [''P09-02''],
        o_context := Some ''Delete monitored repo. Join rows cascade via ON DELETE CASCADE. Poll history events may SET NULL monitored_repo_id.'',
        o_specs := [SPEC_api\<lparr>dl_note := Some ''DELETE /api/v1/repos/{id}''\<rparr>, SPEC_schema\<lparr>dl_note := Some ''CASCADE on monitored_repo_notifications''\<rparr>],
        o_schema := [SCHEMA_sql\<lparr>dl_note := Some ''ON DELETE CASCADE join table''\<rparr>, SCHEMA_html\<lparr>dl_note := Some ''poll_run_events SET NULL on repo delete''\<rparr>],
        o_implementation := [''DeleteMonitoredRepoHandler'',
          ''repo.DeleteMonitoredRepo(id)'',
          ''404 if not found'',
          ''Return 204 No Content'',
          ''Join rows removed automatically''],
        o_acceptance := [''Deletes repo row 204'',
          ''Join notification links removed'',
          ''Unknown id 404'',
          ''Requires auth'',
          ''Integration and ticket project rows unaffected'',
          ''Subsequent GET excludes deleted repo'',
          ''No 409 guard (repos are leaf entities)''],
        o_files := [''internal/api/repos/handlers.go''],
        o_tests := [''go test ./internal/api/repos/... -run Delete'']\<rparr>),
     RegLeaf ''P09-06'' ''P09'' ''Add monitored repos API tests'' ''backend''
       (no_opts\<lparr>o_depends_on := [''P09-05''],
        o_context := Some ''Full CRUD tests including validation, notification linking, and enabled toggle.'',
        o_specs := [SPEC_api\<lparr>dl_note := Some ''Repos API contract''\<rparr>, SPEC_mvp\<lparr>dl_note := Some ''Repo CRUD in MVP''\<rparr>],
        o_stack := [STACK_quality\<lparr>dl_note := Some ''go test ./internal/api/repos/...''\<rparr>, STACK_backend\<lparr>dl_note := Some ''handlers_test.go''\<rparr>],
        o_implementation := [''Seed integration, ticket project, notification target'',
          ''TestCreateGitLabRequiresIntegration'',
          ''TestCreateWithNotificationTargets'',
          ''TestPatchDisableRepo'',
          ''TestDeleteRepo'',
          ''TestDuplicateProjectPath409''],
        o_acceptance := [''Full package tests pass'',
          ''Validation edge cases covered'',
          ''Notification join verified in DB'',
          ''409 duplicate path'',
          ''CI compatible'',
          ''No network'',
          ''All handlers tested''],
        o_files := [''internal/api/repos/handlers_test.go''],
        o_tests := [''go test ./internal/api/repos/...'']\<rparr>)]"

definition registerP09 :: "registration list" where
  "registerP09 = P09_part1 @ P09_part2"

end
