(* ===== verification/Roadmap_P10_P14.thy ===== *)
theory Roadmap_P10_P14
  imports Roadmap_Links
begin

section \<open>Tasks of the earlier roadmap (\<open>scripts/roadmap/epics/p00-p14.mjs\<close>)\<close>

text \<open>The calls of \<open>epic\<close> and \<open>leaf\<close> in their order; the calls of an epic with its leaves are in parts.\<close>

definition P10_part1 :: "registration list" where
  "P10_part1 =
    [RegEpic ''P10'' ''Notification targets REST API'' ''backend''
       (no_opts\<lparr>o_depends_on := [''P05-05'',
          ''P04-01'',
          ''P03-08''],
        o_context := Some ''CRUD for Shoutrrr notification targets. URLs encrypted at rest. API never returns shoutrrrUrl after create. events filter: create, error, supersede. POST /notification-targets/{id}/test in P13.'',
        o_specs := [SPEC_notifications\<lparr>dl_note := Some ([CHR 0xC2, CHR 0xA7] @ ''5.5 Shoutrrr integration'')\<rparr>, SPEC_api\<lparr>dl_note := Some ([CHR 0xC2, CHR 0xA7] @ ''7.6 notification-targets endpoints'')\<rparr>],
        o_schema := [SCHEMA_sql\<lparr>dl_note := Some ''notification_targets table''\<rparr>, SCHEMA_html\<lparr>dl_note := Some ''events_json default array''\<rparr>],
        o_implementation := [(''internal/api/notifications/crypto.go '' @ em_dash @ '' encrypt/decrypt URL''),
          (''GET /api/v1/notification-targets '' @ em_dash @ '' no URL in response''),
          ''POST with shoutrrrUrl one-time'',
          ''PATCH optional URL replace'',
          ''DELETE target'',
          ''events array validation''],
        o_acceptance := [''Create encrypts shoutrrr_url_encrypted'',
          ''List never returns shoutrrrUrl'',
          ''events defaults [create,error,supersede]'',
          ''enabled toggle via PATCH'',
          ''Invalid events value rejected'',
          ''DELETE returns 204'',
          ''URL never logged'']\<rparr>),
     RegLeaf ''P10-01'' ''P10'' ''Encrypt Shoutrrr URL on create and update'' ''backend''
       (no_opts\<lparr>o_depends_on := [''P04-01''],
        o_context := Some (''Shoutrrr URLs (slack://, ntfy://, etc.) encrypted with same AES-GCM cipher as integration secrets. Separate helper from integration payload '' @ em_dash @ '' raw URL string encrypted.''),
        o_specs := [SPEC_notifications\<lparr>dl_note := Some ''Shoutrrr URL stored encrypted''\<rparr>, SPEC_schema\<lparr>dl_note := Some ''shoutrrr_url_encrypted TEXT NOT NULL''\<rparr>],
        o_stack := [STACK_backend\<lparr>dl_note := Some ''internal/api/notifications/crypto.go''\<rparr>, STACK_data\<lparr>dl_note := Some ''Decrypt only at send time P13''\<rparr>],
        o_implementation := [''EncryptShoutrrrURL(cipher, url string) (string, error)'',
          ''DecryptShoutrrrURL(cipher, blob string) (string, error)'',
          ''Validate URL non-empty and contains ://'',
          ''Use cipher.Encrypt([]byte(url))'',
          ''Unit test round-trip'',
          ''Never expose decrypt in list handlers''],
        o_acceptance := [''Encrypt produces opaque base64 blob'',
          ''Decrypt round-trip preserves URL'',
          ''Empty URL rejected'',
          ''Different nonces per encrypt'',
          ''Decrypt wrong key fails'',
          ''Helper used by create and patch handlers'',
          ''go test ./internal/api/notifications/... -run Crypto passes''],
        o_files := [''internal/api/notifications/crypto.go'',
          ''internal/api/notifications/crypto_test.go''],
        o_tests := [''go test ./internal/api/notifications/... -run Crypto'']\<rparr>),
     RegLeaf ''P10-02'' ''P10'' ''Implement GET /api/v1/notification-targets'' ''backend''
       (no_opts\<lparr>o_context := Some ''List targets: { id, name, events, enabled, createdAt, updatedAt }. No shoutrrrUrl field.'',
        o_specs := [SPEC_api\<lparr>dl_note := Some ''Notification target list response''\<rparr>, SPEC_notifications\<lparr>dl_note := Some ''events filter values''\<rparr>],
        o_stack := [STACK_backend\<lparr>dl_note := Some ''handlers.go ListNotificationTargets''\<rparr>, STACK_frontend\<lparr>dl_note := Some ''useNotificationTargets P17''\<rparr>],
        o_implementation := [''repo.ListNotificationTargets'',
          ''Parse events_json to []string in response'',
          ''Omit shoutrrr_url_encrypted from DTO'',
          ''Map enabled int to boolean'',
          ''r.Get(/notification-targets, handler)''],
        o_acceptance := [''Returns 200 array'',
          ''No shoutrrrUrl in JSON'',
          ''events is string array'',
          ''enabled is boolean'',
          ''Requires auth'',
          ''Empty list returns []'',
          ''Encrypted blob never in response''],
        o_files := [''internal/api/notifications/handlers.go''],
        o_tests := [''go test ./internal/api/notifications/... -run List'']\<rparr>),
     RegLeaf ''P10-03'' ''P10'' ''Implement POST /api/v1/notification-targets'' ''backend''
       (no_opts\<lparr>o_depends_on := [''P10-01''],
        o_context := Some ''Create: { name, shoutrrrUrl, events?, enabled? }. Encrypt URL. Default events [create, error, supersede].'',
        o_specs := [SPEC_api\<lparr>dl_note := Some ''POST notification-targets body''\<rparr>, SPEC_notifications\<lparr>dl_note := Some ''Supported events: create, error, supersede''\<rparr>],
        o_schema := [SCHEMA_sql\<lparr>dl_note := Some ''events_json DEFAULT''\<rparr>, SCHEMA_html\<lparr>dl_note := Some ''enabled default 1''\<rparr>],
        o_implementation := [''Decode CreateNotificationTargetRequest'',
          ''EncryptShoutrrrURL(shoutrrrUrl)'',
          ''Validate events subset of allowed'',
          ''Default events if omitted'',
          ''repo.CreateNotificationTarget'',
          ''Return 201 without shoutrrrUrl''],
        o_acceptance := [''Creates encrypted row'',
          ''Response excludes shoutrrrUrl'',
          ''Default events applied'',
          ''Invalid event name returns 400'',
          ''enabled defaults true'',
          ''Empty name returns 400'',
          ''Returns 201 with id''],
        o_files := [''internal/api/notifications/handlers.go''],
        o_tests := [''go test ./internal/api/notifications/... -run Create'']\<rparr>)]"

definition P10_part2 :: "registration list" where
  "P10_part2 =
    [RegLeaf ''P10-04'' ''P10'' ''Implement PATCH /api/v1/notification-targets/{id}'' ''backend''
       (no_opts\<lparr>o_depends_on := [''P10-03''],
        o_context := Some ''Update name, events, enabled, optional shoutrrrUrl replace (re-encrypt).'',
        o_specs := [SPEC_api\<lparr>dl_note := Some ''PATCH optional shoutrrrUrl''\<rparr>, SPEC_ui\<lparr>dl_note := Some ''URL never re-displayed P24''\<rparr>],
        o_stack := [STACK_backend\<lparr>dl_note := Some ''Partial update handler''\<rparr>, STACK_quality\<lparr>dl_note := Some ''404 not found''\<rparr>],
        o_implementation := [(''Load target by id '' @ em_dash @ '' 404''),
          ''Update fields if provided'',
          ''If shoutrrrUrl: re-encrypt and replace blob'',
          ''Validate events if provided'',
          ''repo.UpdateNotificationTarget'',
          ''Return 200 without URL''],
        o_acceptance := [''PATCH name only preserves encrypted URL'',
          ''PATCH shoutrrrUrl re-encrypts'',
          ''PATCH events updates events_json'',
          ''PATCH enabled=false works'',
          ''Unknown id 404'',
          ''Response has no shoutrrrUrl'',
          ''updated_at changes''],
        o_files := [''internal/api/notifications/handlers.go''],
        o_tests := [''go test ./internal/api/notifications/... -run Patch'']\<rparr>),
     RegLeaf ''P10-05'' ''P10'' ''Implement DELETE /api/v1/notification-targets/{id}'' ''backend''
       (no_opts\<lparr>o_context := Some ''Delete notification target. Join rows in monitored_repo_notifications cascade.'',
        o_specs := [SPEC_api\<lparr>dl_note := Some ''DELETE notification-targets''\<rparr>, SPEC_schema\<lparr>dl_note := Some ''CASCADE on join table''\<rparr>],
        o_schema := [SCHEMA_sql\<lparr>dl_note := Some ''ON DELETE CASCADE monitored_repo_notifications''\<rparr>, SCHEMA_html\<lparr>dl_note := Some ''Delete target''\<rparr>],
        o_implementation := [''DeleteNotificationTargetHandler'',
          ''repo.DeleteNotificationTarget(id)'',
          ''404 if not found'',
          ''Return 204''],
        o_acceptance := [''Deletes row 204'',
          ''Join links to repos removed'',
          ''Unknown id 404'',
          ''Requires auth'',
          ''Encrypted URL gone from DB'',
          ''Repos unaffected'',
          ''List no longer includes target''],
        o_files := [''internal/api/notifications/handlers.go''],
        o_tests := [''go test ./internal/api/notifications/... -run Delete'']\<rparr>),
     RegLeaf ''P10-06'' ''P10'' ''Add notification targets API tests'' ''backend''
       (no_opts\<lparr>o_depends_on := [''P10-05''],
        o_context := Some ''CRUD tests verifying URL never appears in responses and encryption round-trip.'',
        o_specs := [SPEC_api\<lparr>dl_note := Some ''Notification targets API''\<rparr>, SPEC_mvp\<lparr>dl_note := Some ''Notification CRUD in MVP''\<rparr>],
        o_stack := [STACK_quality\<lparr>dl_note := Some ''go test ./internal/api/notifications/...''\<rparr>, STACK_backend\<lparr>dl_note := Some ''handlers_test.go''\<rparr>],
        o_implementation := [''TestCreateEncryptsURL'',
          ''TestListNoURL'',
          ''TestPatchReplaceURL'',
          ''TestInvalidEvents'',
          ''TestDeleteTarget'',
          ''Scan response bodies for slack:// leak''],
        o_acceptance := [''Full package passes'',
          ''No plaintext URL in any response'',
          ''Events validation tested'',
          ''Delete removes row'',
          ''CI compatible'',
          ''Uses test cipher key'',
          ''All handlers covered''],
        o_files := [''internal/api/notifications/handlers_test.go''],
        o_tests := [''go test ./internal/api/notifications/...'']\<rparr>)]"

definition registerP10 :: "registration list" where
  "registerP10 = P10_part1 @ P10_part2"

definition P11_part1 :: "registration list" where
  "P11_part1 =
    [RegEpic ''P11'' ''Source providers'' ''backend''
       (no_opts\<lparr>o_depends_on := [''P07-03''],
        o_context := Some ''Go implementations of SourceProvider for github, gitlab, gitea, forgejo, codeberg. Fetch latest stable release tag. Factory decrypts integration credentials. Connectivity test via GET /user. Wire POST /integrations/{id}/test.'',
        o_specs := [SPEC_providers\<lparr>dl_note := Some ([CHR 0xC2, CHR 0xA7] @ ''6 Source providers'')\<rparr>, SPEC_domain\<lparr>dl_note := Some ''releases/latest per platform''\<rparr>],
        o_stack := [STACK_backend\<lparr>dl_note := Some ''internal/providers/source/''\<rparr>, STACK_quality\<lparr>dl_note := Some ''httptest mocks per provider''\<rparr>],
        o_implementation := [(''internal/providers/source/types.go '' @ em_dash @ '' Release, SourceProvider interface''),
          (''github.go '' @ em_dash @ '' GET /repos/{owner}/{repo}/releases/latest''),
          (''gitlab.go '' @ em_dash @ '' GET /projects/{id}/releases/permalink/latest''),
          (''gitea.go '' @ em_dash @ '' GiteaCompatibleSource for gitea/forgejo/codeberg''),
          (''factory.go '' @ em_dash @ '' NewSourceProvider(kind, integration)''),
          (''testconn.go '' @ em_dash @ '' TestConnection per kind''),
          ''POST /api/v1/integrations/{id}/test for source kinds''],
        o_acceptance := [''GitHub 404 means no release (not error)'',
          ''GitLab uses permalink/latest endpoint'',
          ''Gitea family shares one client'',
          ''Factory returns error for ticket kinds'',
          ''Test connection calls GET /user equivalent'',
          ''Release struct: tag, name, publishedAt, url'',
          ''httptest mocks for all 5 kinds'']\<rparr>),
     RegLeaf ''P11-01'' ''P11'' ''Define Release struct and SourceProvider interface'' ''backend''
       (no_opts\<lparr>o_context := Some ''interface SourceProvider { GetLatestRelease(ctx, owner, repo) (Release, error); TestConnection(ctx) error }. Release: Tag, Name, PublishedAt, URL strings.'',
        o_specs := [SPEC_providers\<lparr>dl_note := Some ([CHR 0xC2, CHR 0xA7] @ ''6.1 SourceProvider interface'')\<rparr>, SPEC_domain\<lparr>dl_note := Some ''Tag comparison for poll decision''\<rparr>],
        o_stack := [STACK_backend\<lparr>dl_note := Some ''internal/providers/source/types.go''\<rparr>, STACK_layout\<lparr>dl_note := Some ''Provider package structure''\<rparr>],
        o_implementation := [''type Release struct { Tag, Name, PublishedAt, URL string }'',
          ''type SourceProvider interface { GetLatestRelease(...); TestConnection(...) }'',
          ''ErrNoRelease sentinel for 404 latest'',
          ''context.Context on all methods'',
          ''Document owner/repo parsing from project_path''],
        o_acceptance := [''Release struct exported'',
          ''SourceProvider interface defined'',
          ''ErrNoRelease distinct from network errors'',
          ''GetLatestRelease accepts owner, repo strings'',
          ''TestConnection returns nil on success'',
          ''Package compiles'',
          ''Godoc on interface methods''],
        o_files := [''internal/providers/source/types.go''],
        o_tests := [''go build ./internal/providers/source/...'']\<rparr>),
     RegLeaf ''P11-02'' ''P11'' ''Implement GitHub source provider'' ''backend''
       (no_opts\<lparr>o_depends_on := [''P11-01''],
        o_context := Some (''GitHub API: GET https://api.github.com/repos/{owner}/{repo}/releases/latest with Authorization token. 404 '' @ [CHR 0xE2, CHR 0x86, CHR 0x92] @ '' ErrNoRelease. Parse tag_name from response.''),
        o_specs := [SPEC_providers\<lparr>dl_note := Some ''GitHub GET releases/latest''\<rparr>, SPEC_schema\<lparr>dl_note := Some ''github integration: base_url NULL, token in payload''\<rparr>],
        o_stack := [STACK_backend\<lparr>dl_note := Some ''internal/providers/source/github.go''\<rparr>, STACK_quality\<lparr>dl_note := Some ''httptest mock GitHub API''\<rparr>],
        o_implementation := [''type GitHubSource struct { client *http.Client; token string }'',
          ''GetLatestRelease: GET /repos/{owner}/{repo}/releases/latest'',
          ''Header: Authorization Bearer {token} or token {pat}'',
          (''404 '' @ [CHR 0xE2, CHR 0x86, CHR 0x92] @ '' ErrNoRelease''),
          ''Parse JSON tag_name, name, published_at, html_url'',
          ''TestConnection: GET /user''],
        o_acceptance := [''Returns Release with tag on 200'',
          ''404 returns ErrNoRelease not error'',
          ''401 returns auth error'',
          ''TestConnection calls GET /user'',
          ''Uses project_path owner/repo split'',
          ''Rate limit headers logged on 403'',
          ''go test -run GitHub passes with mock''],
        o_files := [''internal/providers/source/github.go'',
          ''internal/providers/source/github_test.go''],
        o_tests := [''go test ./internal/providers/source/... -run GitHub'']\<rparr>),
     RegLeaf ''P11-03'' ''P11'' ''Implement GitLab source provider'' ''backend''
       (no_opts\<lparr>o_depends_on := [''P11-01''],
        o_context := Some ''GitLab API v4: GET {base_url}/api/v4/projects/{encoded_path}/releases/permalink/latest. Private token header PRIVATE-TOKEN. project_path URL-encoded.'',
        o_specs := [SPEC_providers\<lparr>dl_note := Some ''GitLab permalink/latest''\<rparr>, SPEC_schema\<lparr>dl_note := Some ''gitlab requires base_url''\<rparr>],
        o_stack := [STACK_backend\<lparr>dl_note := Some ''internal/providers/source/gitlab.go''\<rparr>, STACK_quality\<lparr>dl_note := Some ''Mock GitLab API''\<rparr>],
        o_implementation := [''GitLabSource { baseURL, token, client }'',
          ''Encode project path: url.PathEscape(group/subgroup/repo)'',
          ''GET /api/v4/projects/{path}/releases/permalink/latest'',
          ''Parse tag_name from release response'',
          ''TestConnection: GET /api/v4/user'',
          ''Handle self-hosted base_url''],
        o_acceptance := [''Uses integration base_url'',
          ''Project path URL-encoded correctly'',
          (''404 '' @ [CHR 0xE2, CHR 0x86, CHR 0x92] @ '' ErrNoRelease''),
          ''Returns tag from latest release'',
          ''TestConnection GET /api/v4/user'',
          ''Self-hosted GitLab base URL works'',
          ''go test -run GitLab passes''],
        o_files := [''internal/providers/source/gitlab.go'',
          ''internal/providers/source/gitlab_test.go''],
        o_tests := [''go test ./internal/providers/source/... -run GitLab'']\<rparr>)]"

definition P11_part2 :: "registration list" where
  "P11_part2 =
    [RegLeaf ''P11-04'' ''P11'' ''Implement GiteaCompatible source client'' ''backend''
       (no_opts\<lparr>o_depends_on := [''P11-01''],
        o_context := Some ''Shared client for gitea, forgejo, codeberg: GET {base}/api/v1/repos/{owner}/{repo}/releases/latest. Codeberg uses fixed base https://codeberg.org. Auth: Authorization token {token}.'',
        o_specs := [SPEC_providers\<lparr>dl_note := Some ''Gitea API v1 shared client''\<rparr>, SPEC_schema\<lparr>dl_note := Some (''codeberg base_url NULL '' @ em_dash @ '' default https://codeberg.org'')\<rparr>],
        o_stack := [STACK_backend\<lparr>dl_note := Some ''internal/providers/source/gitea.go''\<rparr>, STACK_quality\<lparr>dl_note := Some ''One test suite for three kinds''\<rparr>],
        o_implementation := [''GiteaCompatibleSource { kind, baseURL, token }'',
          ''Default base: codeberg.org when kind=codeberg and base null'',
          ''GET /api/v1/repos/{owner}/{repo}/releases/latest'',
          ''TestConnection: GET /api/v1/user'',
          ''Parse tag_name from Gitea release JSON'',
          ''kind field for logging only''],
        o_acceptance := [''Works for gitea, forgejo, codeberg kinds'',
          ''Codeberg default base when integration base_url null'',
          (''404 '' @ [CHR 0xE2, CHR 0x86, CHR 0x92] @ '' ErrNoRelease''),
          ''Uses token auth header'',
          ''project_path owner/repo split'',
          ''TestConnection GET /api/v1/user'',
          ''go test -run Gitea passes''],
        o_files := [''internal/providers/source/gitea.go'',
          ''internal/providers/source/gitea_test.go''],
        o_tests := [''go test ./internal/providers/source/... -run Gitea'']\<rparr>),
     RegLeaf ''P11-05'' ''P11'' ''Add source provider factory'' ''backend''
       (no_opts\<lparr>o_depends_on := [''P11-02'',
          ''P11-03'',
          ''P11-04''],
        o_context := Some ''NewSourceProvider(integration, cipher) decrypts payload, returns SourceProvider for source kinds. Error for ticket kinds or unknown kind.'',
        o_specs := [SPEC_providers\<lparr>dl_note := Some (''Factory pattern '' @ [CHR 0xC2, CHR 0xA7] @ ''6'')\<rparr>, SPEC_schema\<lparr>dl_note := Some ''integrations.kind drives factory''\<rparr>],
        o_stack := [STACK_backend\<lparr>dl_note := Some ''internal/providers/source/factory.go''\<rparr>, STACK_data\<lparr>dl_note := Some ''Decrypt integration encrypted_payload''\<rparr>],
        o_implementation := [''NewSourceProvider(row Integration, cipher) (SourceProvider, error)'',
          ''Switch on kind: github, gitlab, gitea, forgejo, codeberg'',
          (''Decrypt payload '' @ [CHR 0xE2, CHR 0x86, CHR 0x92] @ '' token (+ base_url from row)''),
          ''Return typed provider with http.Client timeout 30s'',
          ''Default http.Client with reasonable timeout'',
          ''Return error for phasical/jira/linear kinds''],
        o_acceptance := [''github kind returns GitHubSource'',
          ''gitlab returns GitLabSource with base_url'',
          ''codeberg uses default base when null'',
          ''phasical kind returns error'',
          ''Decrypt failure propagates'',
          ''HTTP client has timeout'',
          ''go test factory with mock cipher''],
        o_files := [''internal/providers/source/factory.go'',
          ''internal/providers/source/factory_test.go''],
        o_tests := [''go test ./internal/providers/source/... -run Factory'']\<rparr>),
     RegLeaf ''P11-06'' ''P11'' ''Implement source connectivity tests'' ''backend''
       (no_opts\<lparr>o_depends_on := [''P11-05''],
        o_context := Some ''TestConnection(ctx) on each provider. Used by POST /integrations/{id}/test. Returns friendly error on auth failure.'',
        o_specs := [SPEC_providers\<lparr>dl_note := Some ([CHR 0xC2, CHR 0xA7] @ ''6.3 Connectivity tests'')\<rparr>, SPEC_api\<lparr>dl_note := Some ''POST /integrations/{id}/test response''\<rparr>],
        o_stack := [STACK_backend\<lparr>dl_note := Some ''internal/providers/source/testconn.go''\<rparr>, STACK_quality\<lparr>dl_note := Some ''Mock each /user endpoint''\<rparr>],
        o_implementation := [''RunTestConnection(provider SourceProvider) error'',
          ''Map HTTP status to messages: 401 invalid credentials'',
          ''Timeout after 15s'',
          ''Log provider kind on failure'',
          ''Wrap errors with kind prefix''],
        o_acceptance := [''Success returns nil'',
          ''401 returns clear auth error'',
          ''Network timeout returns wrapped error'',
          ''Works for all 5 source kinds via factory'',
          ''Does not leak token in error message'',
          ''go test connectivity mocks pass'',
          ''Callable from API test handler''],
        o_files := [''internal/providers/source/testconn.go''],
        o_tests := [''go test ./internal/providers/source/... -run TestConn'']\<rparr>),
     RegLeaf ''P11-07'' ''P11'' ''Wire POST /integrations/{id}/test for source kinds'' ''backend''
       (no_opts\<lparr>o_depends_on := [''P11-06'',
          ''P07-02''],
        o_context := Some ''API handler loads integration, builds source provider via factory, runs TestConnection. Returns { ok: true } or 400/502 with error message.'',
        o_specs := [SPEC_api\<lparr>dl_note := Some ''POST /integrations/{id}/test''\<rparr>, SPEC_providers\<lparr>dl_note := Some ''Source vs ticket test routing''\<rparr>],
        o_stack := [STACK_backend\<lparr>dl_note := Some ''internal/api/integrations/test.go''\<rparr>, STACK_quality\<lparr>dl_note := Some ''httptest with mock provider''\<rparr>],
        o_implementation := [''TestIntegrationHandler'',
          (''Load integration by id '' @ em_dash @ '' 404''),
          ''If source kind: factory + TestConnection'',
          ''If ticket kind: delegate to P12-07 (stub or shared handler)'',
          ''Return 200 { ok: true } on success'',
          ''Return 400 { error } on connection failure''],
        o_acceptance := [''GitHub integration test returns 200 on mock success'',
          ''Invalid credentials return 400'',
          ''Ticket kind not handled here (P12)'',
          ''Unknown integration 404'',
          ''Requires auth'',
          ''Does not modify integration row'',
          ''go test integration test handler''],
        o_files := [''internal/api/integrations/test.go''],
        o_tests := [''go test ./internal/api/integrations/... -run TestIntegration'']\<rparr>)]"

definition P11_part3 :: "registration list" where
  "P11_part3 =
    [RegLeaf ''P11-08'' ''P11'' ''Add source provider httptest mocks'' ''backend''
       (no_opts\<lparr>o_depends_on := [''P11-05''],
        o_context := Some ''Shared test helpers: mock GitHub/GitLab/Gitea API servers for unit tests without network.'',
        o_specs := [SPEC_providers\<lparr>dl_note := Some ''Provider behavior contract''\<rparr>, SPEC_mvp\<lparr>dl_note := Some ''One test per source kind in CI P28''\<rparr>],
        o_stack := [STACK_quality\<lparr>dl_note := Some ''httptest.Server per platform''\<rparr>, STACK_backend\<lparr>dl_note := Some ''internal/providers/source/testing.go''\<rparr>],
        o_implementation := [''MockGitHubServer(handler) *httptest.Server'',
          ''MockGitLabServer, MockGiteaServer helpers'',
          ''Fixture JSON for latest release response'',
          ''Fixture 404 for no release case'',
          ''Tests for all providers using mocks'',
          ''Table-driven tests per kind''],
        o_acceptance := [''All source provider tests pass offline'',
          ''404 latest release case covered'',
          ''Auth header verified in mocks'',
          ''Tag parsed correctly from fixtures'',
          ''No real network in go test'',
          ''CI runs without API tokens'',
          ''go test ./internal/providers/source/... green''],
        o_files := [''internal/providers/source/testing.go'',
          ''internal/providers/source/mock_test.go''],
        o_tests := [''go test ./internal/providers/source/...'']\<rparr>)]"

definition registerP11 :: "registration list" where
  "registerP11 = P11_part1 @ P11_part2 @ P11_part3"

definition P12_part1 :: "registration list" where
  "P12_part1 =
    [RegEpic ''P12'' ''Ticket providers'' ''backend''
       (no_opts\<lparr>o_depends_on := [''P08-03''],
        o_context := Some ''TicketProvider interface for phasical, jira, linear: CreateTicket, GetStatus, AddComment, UpdateTicket. ClassifyStatus maps external status to open/done/cancelled/superseded via ticket_projects.status_mapping. Factory + POST /integrations/{id}/test for ticket kinds.'',
        o_specs := [SPEC_providers\<lparr>dl_note := Some ([CHR 0xC2, CHR 0xA7] @ ''6 Ticket providers'')\<rparr>, SPEC_ticketProjects\<lparr>dl_note := Some ''status_mapping and create_config usage''\<rparr>],
        o_stack := [STACK_backend\<lparr>dl_note := Some ''internal/providers/ticket/''\<rparr>, STACK_quality\<lparr>dl_note := Some ''Unit tests with HTTP mocks''\<rparr>],
        o_implementation := [(''internal/providers/ticket/types.go '' @ em_dash @ '' TicketProvider, StatusMapping''),
          (''classify.go '' @ em_dash @ '' ClassifyStatus(mapping, externalStatus)''),
          ''phasical.go, jira.go, linear.go implementations'',
          (''factory.go '' @ em_dash @ '' NewTicketProvider(integration)''),
          ''POST /integrations/{id}/test for ticket kinds'',
          ''Create ticket uses ticket_projects.create_config''],
        o_acceptance := [(''Phasical create/status/comment/update per spec '' @ [CHR 0xC2, CHR 0xA7] @ ''5.4''),
          ''Jira REST API v3 issue create'',
          ''Linear GraphQL mutations'',
          ''ClassifyStatus handles case-insensitive match'',
          ''Factory errors on source kinds'',
          ''Test connection per provider'',
          ''Unit tests with mocks for all 3'']\<rparr>),
     RegLeaf ''P12-01'' ''P12'' ''Define TicketProvider interface and StatusMapping'' ''backend''
       (no_opts\<lparr>o_context := Some ''interface TicketProvider { CreateTicket(ctx, CreateTicketInput) (externalId, url, error); GetStatus(ctx, externalId) (string, error); AddComment(ctx, externalId, body) error; UpdateTicket(ctx, externalId, UpdateInput) error }. StatusMapping struct with Open, Done, Cancelled, Superseded []string.'',
        o_specs := [SPEC_providers\<lparr>dl_note := Some ([CHR 0xC2, CHR 0xA7] @ ''6.2 TicketProvider interface'')\<rparr>, SPEC_ticketProjects\<lparr>dl_note := Some ''status_mapping JSON shape''\<rparr>],
        o_stack := [STACK_backend\<lparr>dl_note := Some ''internal/providers/ticket/types.go''\<rparr>, STACK_layout\<lparr>dl_note := Some ''Input/output structs''\<rparr>],
        o_implementation := [''type StatusMapping struct { Open, Done, Cancelled, Superseded []string }'',
          ''type CreateTicketInput struct { Title, Body string; Config map[string]any }'',
          ''type UpdateInput struct { Title, Body *string; Status *string }'',
          ''TicketProvider interface with 4 methods'',
          ''TicketResult { ExternalID, URL string }'',
          ''ParseStatusMapping(json string) (StatusMapping, error)''],
        o_acceptance := [''TicketProvider interface exported'',
          ''StatusMapping matches spec JSON keys'',
          ''CreateTicketInput has Title and Body'',
          ''All methods accept context.Context'',
          ''ParseStatusMapping unmarshals JSON'',
          ''Invalid JSON returns error'',
          ''Package compiles''],
        o_files := [''internal/providers/ticket/types.go''],
        o_tests := [''go build ./internal/providers/ticket/...'']\<rparr>),
     RegLeaf ''P12-02'' ''P12'' ''Implement ClassifyStatus helper'' ''backend''
       (no_opts\<lparr>o_depends_on := [''P12-01''],
        o_context := Some ''Map external status string to enum: open, done, cancelled, superseded, unknown. Case-insensitive match against status_mapping arrays.'',
        o_specs := [SPEC_ticketProjects\<lparr>dl_note := Some ''Status classification for poll policies''\<rparr>, SPEC_domain\<lparr>dl_note := Some ''Open ticket detection for supersede/merge/skip''\<rparr>],
        o_stack := [STACK_backend\<lparr>dl_note := Some ''internal/providers/ticket/classify.go''\<rparr>, STACK_quality\<lparr>dl_note := Some ''Table-driven unit tests''\<rparr>],
        o_implementation := [(''type StatusClass string '' @ em_dash @ '' open, done, cancelled, superseded, unknown''),
          ''ClassifyStatus(mapping StatusMapping, external string) StatusClass'',
          ''strings.EqualFold for comparison'',
          ''First match wins: open before done, etc.'',
          (''Empty external '' @ [CHR 0xE2, CHR 0x86, CHR 0x92] @ '' unknown''),
          ''Export for poll engine P14''],
        o_acceptance := [''Known open status returns open'',
          ''Done status returns done'',
          ''Case insensitive matching'',
          ''Unknown status returns unknown'',
          ''Empty mapping returns unknown'',
          ''Superseded statuses classified correctly'',
          ''go test -run Classify passes''],
        o_files := [''internal/providers/ticket/classify.go'',
          ''internal/providers/ticket/classify_test.go''],
        o_tests := [''go test ./internal/providers/ticket/... -run Classify'']\<rparr>),
     RegLeaf ''P12-03'' ''P12'' ''Implement Phasical ticket provider'' ''backend''
       (no_opts\<lparr>o_depends_on := [''P12-01''],
        o_context := Some (''Phasical REST API at integration base_url. Create task in project using external_project_id (Phasical projectId). Auth: Bearer api_key from encrypted payload. Status/comment/update per specs.html '' @ [CHR 0xC2, CHR 0xA7] @ ''5.4 provider table.''),
        o_specs := [SPEC_providers\<lparr>dl_note := Some ([CHR 0xC2, CHR 0xA7] @ ''6.4 Phasical '' @ em_dash @ '' POST {base_url}/task/{projectId}'')\<rparr>, SPEC_ticketProjects\<lparr>dl_note := Some ([CHR 0xC2, CHR 0xA7] @ ''5.3 create_config { status, priority }; external_project_id = projectId'')\<rparr>, SPEC_domain\<lparr>dl_note := Some ([CHR 0xC2, CHR 0xA7] @ ''5.4 ticket title/description format'')\<rparr>],
        o_stack := [STACK_backend\<lparr>dl_note := Some ''internal/providers/ticket/phasical.go''\<rparr>, STACK_quality\<lparr>dl_note := Some ''httptest mock Phasical API''\<rparr>],
        o_implementation := [''PhasicalProvider { baseURL, apiKey, httpClient }'',
          (''CreateTicket: POST {base_url}/task/{projectId} per specs.html '' @ [CHR 0xC2, CHR 0xA7] @ ''5.4 '' @ em_dash @ '' projectId from TicketProject.ExternalProjectID''),
          ''Request body uses create_config defaults: { status, priority } from ticket_projects.create_config JSON'',
          (''GetTicketStatus: GET task by external id '' @ em_dash @ '' map Phasical status slug for ClassifyStatus''),
          ''UpdateTicketStatus: transition to superseded slug from status_mapping.superseded'',
          (''AddTicketComment: POST comment on supersede with old tag '' @ [CHR 0xE2, CHR 0x86, CHR 0x92] @ '' new tag and release URL''),
          ''UpdateTicket (merge policy): PATCH title/description when tag changes'',
          ''TestConnection: lightweight authenticated GET against Phasical API base'',
          ''Auth: Bearer token from decrypted payload { api_key }''],
        o_acceptance := [''Create uses POST /task/{projectId} not a invented path'',
          (''external_project_id passed as projectId '' @ em_dash @ '' not workspaceId in create_config''),
          ''create_config.status and priority applied on create'',
          ''GetStatus returns raw Phasical status slug'',
          (''Supersede comment includes release link per '' @ [CHR 0xC2, CHR 0xA7] @ ''5.2.1''),
          ''401 on bad api key'',
          ''Uses integration.base_url from DB'',
          ''go test -run Phasical with httptest mock''],
        o_files := [''internal/providers/ticket/phasical.go'',
          ''internal/providers/ticket/phasical_test.go''],
        o_tests := [''go test ./internal/providers/ticket/... -run Phasical'']\<rparr>)]"

definition P12_part2 :: "registration list" where
  "P12_part2 =
    [RegLeaf ''P12-04'' ''P12'' ''Implement Jira ticket provider'' ''backend''
       (no_opts\<lparr>o_depends_on := [''P12-01''],
        o_context := Some ''Jira Cloud/Server REST API v3. Basic auth email+apiToken. Create issue in projectKey from create_config. GET /rest/api/3/issue/{key} for status.'',
        o_specs := [SPEC_providers\<lparr>dl_note := Some ''Jira REST v3''\<rparr>, SPEC_ticketProjects\<lparr>dl_note := Some ''create_config.projectKey''\<rparr>],
        o_stack := [STACK_backend\<lparr>dl_note := Some ''internal/providers/ticket/jira.go''\<rparr>, STACK_quality\<lparr>dl_note := Some ''Mock Jira API''\<rparr>],
        o_implementation := [''JiraProvider { baseURL, email, apiToken }'',
          ''CreateTicket: POST /rest/api/3/issue with project key'',
          (''GetStatus: GET issue '' @ [CHR 0xE2, CHR 0x86, CHR 0x92] @ '' fields.status.name''),
          ''AddComment: POST /rest/api/3/issue/{key}/comment'',
          ''UpdateTicket: PUT transition or fields update'',
          ''TestConnection: GET /rest/api/3/myself''],
        o_acceptance := [''Create returns issue key as external id'',
          ''Issue URL constructed from base and key'',
          ''GetStatus returns status name'',
          ''Basic auth header correct'',
          ''Invalid project key returns error'',
          ''TestConnection GET /myself'',
          ''go test -run Jira passes''],
        o_files := [''internal/providers/ticket/jira.go'',
          ''internal/providers/ticket/jira_test.go''],
        o_tests := [''go test ./internal/providers/ticket/... -run Jira'']\<rparr>),
     RegLeaf ''P12-05'' ''P12'' ''Implement Linear ticket provider'' ''backend''
       (no_opts\<lparr>o_depends_on := [''P12-01''],
        o_context := Some ''Linear GraphQL API https://api.linear.app/graphql. API key auth. Create issue in team from create_config.teamId.'',
        o_specs := [SPEC_providers\<lparr>dl_note := Some ''Linear GraphQL''\<rparr>, SPEC_ticketProjects\<lparr>dl_note := Some ''create_config.teamId''\<rparr>],
        o_stack := [STACK_backend\<lparr>dl_note := Some ''internal/providers/ticket/linear.go''\<rparr>, STACK_quality\<lparr>dl_note := Some ''Mock GraphQL server''\<rparr>],
        o_implementation := [''LinearProvider { apiKey, client }'',
          ''CreateTicket: mutation issueCreate with teamId'',
          ''GetStatus: query issue { state { name } }'',
          ''AddComment: mutation commentCreate'',
          ''UpdateTicket: mutation issueUpdate'',
          ''TestConnection: query { viewer { id } }''],
        o_acceptance := [''Create returns Linear issue id and url'',
          ''GetStatus returns state name'',
          ''Authorization header with api key'',
          ''GraphQL errors surfaced'',
          ''teamId from create_config required'',
          ''TestConnection viewer query'',
          ''go test -run Linear passes''],
        o_files := [''internal/providers/ticket/linear.go'',
          ''internal/providers/ticket/linear_test.go''],
        o_tests := [''go test ./internal/providers/ticket/... -run Linear'']\<rparr>),
     RegLeaf ''P12-06'' ''P12'' ''Add ticket provider factory'' ''backend''
       (no_opts\<lparr>o_depends_on := [''P12-03'',
          ''P12-04'',
          ''P12-05''],
        o_context := Some ''NewTicketProvider(integration, cipher) for phasical, jira, linear. Decrypt credentials. Error on source kinds.'',
        o_specs := [SPEC_providers\<lparr>dl_note := Some (''Factory '' @ [CHR 0xC2, CHR 0xA7] @ ''6'')\<rparr>, SPEC_schema\<lparr>dl_note := Some ''Ticket integration kinds''\<rparr>],
        o_stack := [STACK_backend\<lparr>dl_note := Some ''internal/providers/ticket/factory.go''\<rparr>, STACK_data\<lparr>dl_note := Some ''Decrypt encrypted_payload''\<rparr>],
        o_implementation := [''NewTicketProvider(row, cipher) (TicketProvider, error)'',
          ''Switch phasical, jira, linear'',
          ''Decrypt payload fields per kind'',
          ''HTTP client with 30s timeout'',
          ''Return error for github etc.'',
          ''Pass base_url to phasical/jira; linear uses fixed API URL''],
        o_acceptance := [''phasical returns PhasicalProvider'',
          ''jira returns JiraProvider with credentials'',
          ''linear returns LinearProvider'',
          ''github kind returns error'',
          ''Decrypt failure propagates'',
          ''HTTP timeout configured'',
          ''go test factory''],
        o_files := [''internal/providers/ticket/factory.go'',
          ''internal/providers/ticket/factory_test.go''],
        o_tests := [''go test ./internal/providers/ticket/... -run Factory'']\<rparr>),
     RegLeaf ''P12-07'' ''P12'' ''Wire POST /integrations/{id}/test for ticket kinds'' ''backend''
       (no_opts\<lparr>o_depends_on := [''P12-06'',
          ''P07-02''],
        o_context := Some ''Extend TestIntegrationHandler: ticket kinds use NewTicketProvider + TestConnection (viewer/myself/myself equivalent).'',
        o_specs := [SPEC_api\<lparr>dl_note := Some ''Integration test endpoint''\<rparr>, SPEC_providers\<lparr>dl_note := Some ([CHR 0xC2, CHR 0xA7] @ ''6.3 ticket connectivity tests'')\<rparr>],
        o_stack := [STACK_backend\<lparr>dl_note := Some ''internal/api/integrations/test.go''\<rparr>, STACK_quality\<lparr>dl_note := Some ''Route by integration kind''\<rparr>],
        o_implementation := [''In TestIntegrationHandler: branch on IsTicketKind'',
          ''factory NewTicketProvider + TestConnection'',
          ''Phasical: GET me; Jira: GET myself; Linear: viewer query'',
          ''Return 200 { ok: true } or 400 error'',
          ''Share handler with P11-07''],
        o_acceptance := [''Phasical test returns 200 on mock'',
          ''Jira test returns 200 on mock'',
          ''Linear test returns 200 on mock'',
          ''Source kinds still use source factory'',
          ''Bad credentials 400'',
          ''404 unknown integration'',
          ''go test covers ticket branch''],
        o_files := [''internal/api/integrations/test.go''],
        o_tests := [''go test ./internal/api/integrations/... -run TestIntegration'']\<rparr>)]"

definition P12_part3 :: "registration list" where
  "P12_part3 =
    [RegLeaf ''P12-08'' ''P12'' ''Add ticket provider unit tests with mocks'' ''backend''
       (no_opts\<lparr>o_depends_on := [''P12-06''],
        o_context := Some ''Comprehensive mock tests for all three ticket providers and ClassifyStatus integration.'',
        o_specs := [SPEC_providers\<lparr>dl_note := Some ''Ticket provider contracts''\<rparr>, SPEC_mvp\<lparr>dl_note := Some ''Ticket provider CI tests P28-02''\<rparr>],
        o_stack := [STACK_quality\<lparr>dl_note := Some ''go test ./internal/providers/ticket/...''\<rparr>, STACK_backend\<lparr>dl_note := Some ''mock_test.go fixtures''\<rparr>],
        o_implementation := [''Mock servers for Phasical, Jira, Linear'',
          ''Test create + get status flow per provider'',
          ''Test ClassifyStatus with real mapping fixtures'',
          ''Test factory for all ticket kinds'',
          ''No network in CI'',
          ''Table-driven error cases''],
        o_acceptance := [''All ticket provider tests pass'',
          ''Create and GetStatus covered per kind'',
          ''ClassifyStatus integration test'',
          ''Factory rejects source kinds'',
          ''No API keys in test output'',
          ''CI offline'',
          ''go test ./internal/providers/ticket/... green''],
        o_files := [''internal/providers/ticket/mock_test.go''],
        o_tests := [''go test ./internal/providers/ticket/...'']\<rparr>)]"

definition registerP12 :: "registration list" where
  "registerP12 = P12_part1 @ P12_part2 @ P12_part3"

definition P13_part1 :: "registration list" where
  "P13_part1 =
    [RegEpic ''P13'' ''Shoutrrr notifications'' ''backend''
       (no_opts\<lparr>o_depends_on := [''P10-03''],
        o_context := Some ''Send notifications via github.com/containrrr/shoutrrr. Router selects global vs per-repo targets. Templates for create, error, supersede events. POST /notification-targets/{id}/test sends probe message.'',
        o_specs := [SPEC_notifications\<lparr>dl_note := Some ([CHR 0xC2, CHR 0xA7] @ ''5.5 full notification flow'')\<rparr>, SPEC_domain\<lparr>dl_note := Some ''Notify after ticket actions and poll errors''\<rparr>],
        o_stack := [STACK_backend\<lparr>dl_note := Some ''internal/notifications/''\<rparr>, STACK_data\<lparr>dl_note := Some ''Decrypt URL at send time only''\<rparr>],
        o_implementation := [(''internal/notifications/shoutrrr.go '' @ em_dash @ '' Send(url, message)''),
          (''router.go '' @ em_dash @ '' ResolveTargets(repo, event)''),
          (''templates.go '' @ em_dash @ '' FormatCreate, FormatError, FormatSupersede''),
          ''POST /api/v1/notification-targets/{id}/test'',
          ''Filter by events_json and enabled'',
          ''Called from poll engine after actions''],
        o_acceptance := [''Shoutrrr Send integration works'',
          ''Global targets when no repo filter'',
          ''Per-repo filter via join table'',
          ''events_json filters event type'',
          ''Test endpoint sends probe message'',
          ''Templates include repo name and tag'',
          ''Errors logged not fatal to poll'']\<rparr>),
     RegLeaf ''P13-01'' ''P13'' ''Add Shoutrrr send wrapper'' ''backend''
       (no_opts\<lparr>o_context := Some ''Thin wrapper around shoutrrr.Send(url, message). Decrypt URL from DB blob before send.'',
        o_specs := [SPEC_notifications\<lparr>dl_note := Some ''Shoutrrr library in Go process''\<rparr>, SPEC_schema\<lparr>dl_note := Some ''shoutrrr_url_encrypted decrypt at send''\<rparr>],
        o_stack := [STACK_backend\<lparr>dl_note := Some ''internal/notifications/shoutrrr.go''\<rparr>, STACK_quality\<lparr>dl_note := Some ''Mock shoutrrr in tests''\<rparr>],
        o_implementation := [''import github.com/containrrr/shoutrrr/pkg/router'',
          ''SendNotification(ctx, decryptedURL, title, message string) error'',
          (''router.Send(decryptedURL, message) '' @ em_dash @ '' shoutrrr API''),
          ''Combine title + body for message string'',
          ''Timeout context 30s'',
          ''Log send failures at warn level''],
        o_acceptance := [''Send calls shoutrrr with decrypted URL'',
          ''Invalid URL format returns error'',
          ''Context timeout respected'',
          ''Success returns nil'',
          ''Error wrapped with target name if available'',
          ''No URL in logs'',
          ''go test with injected sender interface''],
        o_files := [''internal/notifications/shoutrrr.go'',
          ''internal/notifications/shoutrrr_test.go''],
        o_tests := [''go test ./internal/notifications/... -run Shoutrrr'']\<rparr>),
     RegLeaf ''P13-02'' ''P13'' ''Implement notification routing logic'' ''backend''
       (no_opts\<lparr>o_depends_on := [''P13-01''],
        o_context := Some ''ResolveTargets(repoID, event): if repo has join rows, only those enabled targets matching event; else all global enabled targets matching event.'',
        o_specs := [SPEC_notifications\<lparr>dl_note := Some ''Global vs per-repo routing''\<rparr>, SPEC_schema\<lparr>dl_note := Some ''monitored_repo_notifications join''\<rparr>],
        o_schema := [SCHEMA_sql\<lparr>dl_note := Some ''Empty join = all global enabled''\<rparr>, SCHEMA_html\<lparr>dl_note := Some ''events_json filter''\<rparr>],
        o_implementation := [''internal/notifications/router.go'',
          ''ResolveTargets(ctx, repo, event string) ([]Target, error)'',
          (''Query join table '' @ em_dash @ '' if rows exist, filter to those targets''),
          ''Else query all enabled notification_targets'',
          ''Filter targets where events_json contains event'',
          ''Decrypt URL for each target at send time''],
        o_acceptance := [''Repo with links gets only linked targets'',
          ''Repo without links gets all global enabled'',
          ''Disabled targets excluded'',
          ''Event create only targets with create in events'',
          ''Empty result when no matching targets'',
          ''Decrypt called per target'',
          ''go test routing scenarios''],
        o_files := [''internal/notifications/router.go'',
          ''internal/notifications/router_test.go''],
        o_tests := [''go test ./internal/notifications/... -run Router'']\<rparr>),
     RegLeaf ''P13-03'' ''P13'' ''Add event message templates'' ''backend''
       (no_opts\<lparr>o_depends_on := [''P13-01''],
        o_context := Some ''Format messages for create (new ticket), error (poll failure), supersede (old ticket superseded). Include repo path, tag, ticket URL.'',
        o_specs := [SPEC_notifications\<lparr>dl_note := Some ''Event types: create, error, supersede''\<rparr>, SPEC_domain\<lparr>dl_note := Some ''Notification content after poll actions''\<rparr>],
        o_stack := [STACK_backend\<lparr>dl_note := Some ''internal/notifications/templates.go''\<rparr>, STACK_quality\<lparr>dl_note := Some ''Snapshot or string assert tests''\<rparr>],
        o_implementation := [''FormatCreate(repo, tag, ticketURL string) string'',
          ''FormatError(repo, errMsg string) string'',
          ''FormatSupersede(repo, oldTag, newTag, ticketURL string) string'',
          ''Consistent prefix: [Release Ops]'',
          ''Include project_path and source_kind'',
          ''Plain text for Shoutrrr compatibility''],
        o_acceptance := [''FormatCreate includes tag and ticket URL'',
          ''FormatError includes repo and error message'',
          ''FormatSupersede mentions old and new tag'',
          ''All templates include [Release Ops] prefix'',
          ''No HTML in messages'',
          ''Empty URL handled gracefully'',
          ''go test template output''],
        o_files := [''internal/notifications/templates.go'',
          ''internal/notifications/templates_test.go''],
        o_tests := [''go test ./internal/notifications/... -run Template'']\<rparr>)]"

definition P13_part2 :: "registration list" where
  "P13_part2 =
    [RegLeaf ''P13-04'' ''P13'' ''Implement POST /notification-targets/{id}/test'' ''backend''
       (no_opts\<lparr>o_depends_on := [''P13-01'',
          ''P10-02''],
        o_context := Some ''Send probe message via Shoutrrr to verify target configuration. Decrypt URL, send test message, return { ok: true }.'',
        o_specs := [SPEC_api\<lparr>dl_note := Some ''POST /notification-targets/{id}/test''\<rparr>, SPEC_ui\<lparr>dl_note := Some ''Test notification button P24-04''\<rparr>],
        o_stack := [STACK_backend\<lparr>dl_note := Some ''internal/api/notifications/test.go''\<rparr>, STACK_quality\<lparr>dl_note := Some ''Mock sender in handler test''\<rparr>],
        o_implementation := [''TestNotificationTargetHandler'',
          (''Load target by id '' @ em_dash @ '' 404''),
          ''Decrypt shoutrrr_url_encrypted'',
          ''SendNotification with message Release Ops test notification'',
          ''Return 200 { ok: true } or 400 on send failure'',
          ''r.Post(/notification-targets/{id}/test, handler)''],
        o_acceptance := [''Success returns 200 { ok: true }'',
          ''Send failure returns 400 with error'',
          ''Unknown id 404'',
          ''Requires auth'',
          ''Uses decrypted URL only in memory'',
          ''Does not modify target row'',
          ''go test handler with mock sender''],
        o_files := [''internal/api/notifications/test.go''],
        o_tests := [''go test ./internal/api/notifications/... -run TestTarget'']\<rparr>),
     RegLeaf ''P13-05'' ''P13'' ''Add Shoutrrr unit tests'' ''backend''
       (no_opts\<lparr>o_depends_on := [''P13-02''],
        o_context := Some ''Unit tests for router, templates, and send wrapper with injected dependencies.'',
        o_specs := [SPEC_notifications\<lparr>dl_note := Some ''Notification subsystem tests''\<rparr>, SPEC_mvp\<lparr>dl_note := Some ''Notification delivery in MVP AC''\<rparr>],
        o_stack := [STACK_quality\<lparr>dl_note := Some ''go test ./internal/notifications/...''\<rparr>, STACK_backend\<lparr>dl_note := Some ''Full package coverage''\<rparr>],
        o_implementation := [''TestRouterGlobalVsPerRepo'',
          ''TestRouterEventFilter'',
          ''TestTemplatesAllEvents'',
          ''TestSendWrapperWithMock'',
          ''Test end-to-end resolve + format (no real send)'',
          ''Table-driven routing cases''],
        o_acceptance := [''go test ./internal/notifications/... passes'',
          ''Router global and per-repo cases'',
          ''Event filter edge cases'',
          ''Templates non-empty'',
          ''No real Shoutrrr network calls'',
          ''CI compatible'',
          ''Mock sender verifies message content''],
        o_files := [''internal/notifications/notifications_test.go''],
        o_tests := [''go test ./internal/notifications/...'']\<rparr>)]"

definition registerP13 :: "registration list" where
  "registerP13 = P13_part1 @ P13_part2"

definition P14_part1 :: "registration list" where
  "P14_part1 =
    [RegEpic ''P14'' ''Poll engine & scheduler'' ''backend''
       (no_opts\<lparr>o_depends_on := [''P11-05'',
          ''P12-06'',
          ''P09-03'',
          ''P13-02''],
        o_context := Some ''Core poll loop: for each enabled repo fetch latest release, compare tag to last_known_tag, apply baseline/skip/create, handle open ticket policies (supersede|merge|skip_if_open), record poll_runs/events, send notifications. Cron from poll_interval_minutes; mutex prevents parallel runs.'',
        o_specs := [SPEC_domain\<lparr>dl_note := Some ([CHR 0xC2, CHR 0xA7] @ ''5 Poll engine full logic'')\<rparr>, SPEC_ticketProjects\<lparr>dl_note := Some ''on_open_ticket_policy per project''\<rparr>],
        o_schema := [SCHEMA_sql\<lparr>dl_note := Some ''monitored_repos poll state columns''\<rparr>, SCHEMA_html\<lparr>dl_note := Some ''poll_run_events.action enum''\<rparr>],
        o_implementation := [(''internal/poll/decision.go '' @ em_dash @ '' baseline, skip, new tag''),
          (''ticket_status.go '' @ em_dash @ '' live open ticket check via TicketProvider''),
          ''policy_supersede.go, policy_merge.go, policy_skip.go'',
          (''recorder.go '' @ em_dash @ '' poll_runs and poll_run_events''),
          (''mutex.go '' @ em_dash @ '' single running poll guard''),
          (''scheduler.go '' @ em_dash @ '' cron from settings''),
          (''Integration tests baseline'' @ [CHR 0xE2, CHR 0x86, CHR 0x92] @ ''create'' @ [CHR 0xE2, CHR 0x86, CHR 0x92] @ ''supersede'')],
        o_acceptance := [''First sighting: baseline, no ticket, last_known_tag set'',
          ''Same tag: skip action'',
          ''New tag: create ticket'',
          ''supersede policy closes old, creates new'',
          ''merge policy adds comment to open ticket'',
          ''skip_if_open skips when open ticket exists'',
          ''No parallel poll runs'',
          ''Scheduler respects poll_interval_minutes'']\<rparr>),
     RegLeaf ''P14-01'' ''P14'' ''Implement release decision engine'' ''backend''
       (no_opts\<lparr>o_context := Some (''Pure function Decide(lastKnownTag, fetchedTag string, hadError bool) '' @ [CHR 0xE2, CHR 0x86, CHR 0x92] @ '' action baseline|skip|create|error. No ticket provider calls '' @ em_dash @ '' tag comparison only.''),
        o_specs := [SPEC_domain\<lparr>dl_note := Some ''Baseline vs genuine new release''\<rparr>, SPEC_providers\<lparr>dl_note := Some ''ErrNoRelease handling''\<rparr>],
        o_stack := [STACK_backend\<lparr>dl_note := Some ''internal/poll/decision.go''\<rparr>, STACK_quality\<lparr>dl_note := Some ''Pure function unit tests''\<rparr>],
        o_implementation := [(''type Decision string '' @ em_dash @ '' baseline, skip, create, error''),
          ''Decide(lastKnown *string, fetchedTag string, fetchErr error) (Decision, string)'',
          (''lastKnown nil + success '' @ [CHR 0xE2, CHR 0x86, CHR 0x92] @ '' baseline''),
          (''lastKnown == fetchedTag '' @ [CHR 0xE2, CHR 0x86, CHR 0x92] @ '' skip''),
          (''lastKnown != fetchedTag '' @ [CHR 0xE2, CHR 0x86, CHR 0x92] @ '' create''),
          (''fetchErr != nil '' @ [CHR 0xE2, CHR 0x86, CHR 0x92] @ '' error with message''),
          (''ErrNoRelease from provider '' @ [CHR 0xE2, CHR 0x86, CHR 0x92] @ '' skip or baseline per spec'')],
        o_acceptance := [(''Nil lastKnown + tag v1.0 '' @ [CHR 0xE2, CHR 0x86, CHR 0x92] @ '' baseline''),
          (''lastKnown v1.0 + fetched v1.0 '' @ [CHR 0xE2, CHR 0x86, CHR 0x92] @ '' skip''),
          (''lastKnown v1.0 + fetched v1.1 '' @ [CHR 0xE2, CHR 0x86, CHR 0x92] @ '' create''),
          (''Fetch error '' @ [CHR 0xE2, CHR 0x86, CHR 0x92] @ '' error decision''),
          ''ErrNoRelease handled per spec (baseline if never seen)'',
          ''Tag comparison exact string match'',
          ''go test -run Decision passes''],
        o_files := [''internal/poll/decision.go'',
          ''internal/poll/decision_test.go''],
        o_tests := [''go test ./internal/poll/... -run Decision'']\<rparr>),
     RegLeaf ''P14-02'' ''P14'' ''Add live open ticket status check'' ''backend''
       (no_opts\<lparr>o_depends_on := [''P12-02''],
        o_context := Some ''When repo has open_ticket_external_id, call TicketProvider.GetStatus and ClassifyStatus. Determine if ticket still open for policy decisions.'',
        o_specs := [SPEC_domain\<lparr>dl_note := Some ''Open ticket detection before create''\<rparr>, SPEC_ticketProjects\<lparr>dl_note := Some ''status_mapping drives classification''\<rparr>],
        o_stack := [STACK_backend\<lparr>dl_note := Some ''internal/poll/ticket_status.go''\<rparr>, STACK_quality\<lparr>dl_note := Some ''Mock TicketProvider''\<rparr>],
        o_implementation := [''CheckOpenTicket(ctx, provider, mapping, externalId) (isOpen bool, status string, err error)'',
          ''GetStatus from provider'',
          (''ClassifyStatus '' @ [CHR 0xE2, CHR 0x86, CHR 0x92] @ '' open means isOpen true''),
          (''done/cancelled/superseded '' @ [CHR 0xE2, CHR 0x86, CHR 0x92] @ '' isOpen false''),
          (''Provider error '' @ [CHR 0xE2, CHR 0x86, CHR 0x92] @ '' return error (poll records error event)''),
          ''Clear open_ticket fields when ticket closed externally''],
        o_acceptance := [''Open status returns isOpen true'',
          ''Done status returns isOpen false'',
          ''Provider error propagates'',
          ''Uses ticket_projects.status_mapping'',
          ''Unknown status treated as open (safe default) or per spec'',
          ''Nil external id returns isOpen false'',
          ''go test with mock provider''],
        o_files := [''internal/poll/ticket_status.go'',
          ''internal/poll/ticket_status_test.go''],
        o_tests := [''go test ./internal/poll/... -run TicketStatus'']\<rparr>),
     RegLeaf ''P14-03'' ''P14'' ''Implement supersede policy'' ''backend''
       (no_opts\<lparr>o_depends_on := [''P14-02''],
        o_context := Some ''Default policy: when open ticket exists and new tag detected, mark old ticket superseded status, create new ticket, update open_ticket_* fields.'',
        o_specs := [SPEC_domain\<lparr>dl_note := Some ''supersede policy default''\<rparr>, SPEC_ticketProjects\<lparr>dl_note := Some ''on_open_ticket_policy supersede''\<rparr>],
        o_stack := [STACK_backend\<lparr>dl_note := Some ''internal/poll/policy_supersede.go''\<rparr>, STACK_quality\<lparr>dl_note := Some ''Unit test with mock providers''\<rparr>],
        o_implementation := [''ApplySupersede(ctx, repo, provider, mapping, newTag, release) error'',
          (''UpdateTicket old id '' @ [CHR 0xE2, CHR 0x86, CHR 0x92] @ '' superseded status from mapping''),
          ''CreateTicket for new release'',
          ''Update repo open_ticket_external_id, open_ticket_tag'',
          ''Record poll_run_event action supersede + create'',
          ''Send supersede and create notifications'',
          ''Update last_known_tag''],
        o_acceptance := [''Old ticket gets superseded status'',
          ''New ticket created with new tag in title'',
          ''open_ticket_* fields updated'',
          ''poll_run_events: supersede then create'',
          ''Notifications sent for supersede and create'',
          ''last_known_tag updated to newTag'',
          ''go test supersede flow''],
        o_files := [''internal/poll/policy_supersede.go'',
          ''internal/poll/policy_supersede_test.go''],
        o_tests := [''go test ./internal/poll/... -run Supersede'']\<rparr>)]"

definition P14_part2 :: "registration list" where
  "P14_part2 =
    [RegLeaf ''P14-04'' ''P14'' ''Implement merge policy'' ''backend''
       (no_opts\<lparr>o_depends_on := [''P14-02''],
        o_context := Some ''merge policy: when open ticket exists, add comment with new release info, update last_known_tag, no new ticket. action merge.'',
        o_specs := [SPEC_domain\<lparr>dl_note := Some ''merge policy behavior''\<rparr>, SPEC_ticketProjects\<lparr>dl_note := Some ''on_open_ticket_policy merge''\<rparr>],
        o_stack := [STACK_backend\<lparr>dl_note := Some ''internal/poll/policy_merge.go''\<rparr>, STACK_quality\<lparr>dl_note := Some ''Mock AddComment''\<rparr>],
        o_implementation := [''ApplyMerge(ctx, repo, provider, newTag, release) error'',
          ''AddComment on open_ticket_external_id with release details'',
          ''Update last_known_tag'',
          ''Keep open_ticket_external_id unchanged'',
          ''Record poll_run_event action merge'',
          ''Optional create notification or skip per spec'',
          ''No new ticket created''],
        o_acceptance := [''AddComment called with formatted release info'',
          ''No CreateTicket call'',
          ''last_known_tag updated'',
          ''open_ticket fields unchanged'',
          ''poll_run_event action merge'',
          ''Works when ticket still open'',
          ''go test merge policy''],
        o_files := [''internal/poll/policy_merge.go'',
          ''internal/poll/policy_merge_test.go''],
        o_tests := [''go test ./internal/poll/... -run Merge'']\<rparr>),
     RegLeaf ''P14-05'' ''P14'' ''Implement skip_if_open policy'' ''backend''
       (no_opts\<lparr>o_depends_on := [''P14-02''],
        o_context := Some ''skip_if_open: when open ticket exists and new tag, skip ticket creation, update last_known_tag, record skip_open event.'',
        o_specs := [SPEC_domain\<lparr>dl_note := Some ''skip_if_open policy''\<rparr>, SPEC_ticketProjects\<lparr>dl_note := Some ''on_open_ticket_policy skip_if_open''\<rparr>],
        o_stack := [STACK_backend\<lparr>dl_note := Some ''internal/poll/policy_skip.go''\<rparr>, STACK_quality\<lparr>dl_note := Some ''Unit test skip path''\<rparr>],
        o_implementation := [''ApplySkipIfOpen(ctx, repo, newTag) error'',
          ''Update last_known_tag to newTag'',
          ''Do not create or modify ticket'',
          ''Record poll_run_event action skip_open'',
          ''Log info: skipped due to open ticket'',
          ''No create notification''],
        o_acceptance := [''No CreateTicket when open ticket exists'',
          ''last_known_tag still updated'',
          ''poll_run_event action skip_open'',
          ''open_ticket fields unchanged'',
          ''No supersede or merge calls'',
          ''Applies only when isOpen true'',
          ''go test skip_if_open''],
        o_files := [''internal/poll/policy_skip.go'',
          ''internal/poll/policy_skip_test.go''],
        o_tests := [''go test ./internal/poll/... -run Skip'']\<rparr>),
     RegLeaf ''P14-06'' ''P14'' ''Record poll_runs and poll_run_events'' ''backend''
       (no_opts\<lparr>o_depends_on := [''P05-06''],
        o_context := Some ''Recorder wraps repository poll_runs methods. Start run, append events per repo, finish with status and counters.'',
        o_specs := [SPEC_domain\<lparr>dl_note := Some ''Poll run audit trail''\<rparr>, SPEC_schema\<lparr>dl_note := Some ''poll_runs status enum, poll_run_events.action''\<rparr>],
        o_schema := [SCHEMA_sql\<lparr>dl_note := Some ''poll_runs counters and errors_json''\<rparr>, SCHEMA_html\<lparr>dl_note := Some ''Event actions list''\<rparr>],
        o_implementation := [''internal/poll/recorder.go'',
          ''type Recorder struct { repo, runID string }'',
          (''StartRun(ctx) (runID, error) '' @ em_dash @ '' status running''),
          ''RecordEvent(ctx, repoID, action, detail)'',
          ''FinishRun(ctx, status, counters, errors)'',
          ''errors_json accumulates repo-level errors''],
        o_acceptance := [''StartRun inserts poll_runs status running'',
          ''RecordEvent inserts poll_run_events row'',
          ''FinishRun sets finished_at and final status'',
          ''Counters: repos_checked, tickets_created, tickets_superseded'',
          ''partial status when some repos error'',
          ''errors_json valid JSON array'',
          ''go test recorder lifecycle''],
        o_files := [''internal/poll/recorder.go'',
          ''internal/poll/recorder_test.go''],
        o_tests := [''go test ./internal/poll/... -run Recorder'']\<rparr>),
     RegLeaf ''P14-07'' ''P14'' ''Add poll mutex and running guard'' ''backend''
       (no_opts\<lparr>o_context := Some ''sync.Mutex or atomic flag prevents concurrent poll runs. Second trigger returns early or queues (spec: no parallel).'',
        o_specs := [SPEC_domain\<lparr>dl_note := Some ''No parallel polling same run''\<rparr>, SPEC_api\<lparr>dl_note := Some ''POST /poll/trigger 202 when already running''\<rparr>],
        o_stack := [STACK_backend\<lparr>dl_note := Some ''internal/poll/mutex.go''\<rparr>, STACK_quality\<lparr>dl_note := Some ''Concurrent test with goroutines''\<rparr>],
        o_implementation := [''type RunGuard struct { mu sync.Mutex; running bool }'',
          (''TryStart() bool '' @ em_dash @ '' false if already running''),
          ''Finish() releases lock'',
          ''defer Finish in poll runner'',
          ''Expose IsRunning for status API P15'',
          ''Log when skipping duplicate start''],
        o_acceptance := [''Second TryStart returns false while running'',
          ''Finish allows next run'',
          ''defer ensures unlock on panic'',
          ''Concurrent goroutine test passes'',
          ''IsRunning reflects state'',
          ''No deadlock on normal completion'',
          ''go test -run Guard passes''],
        o_files := [''internal/poll/mutex.go'',
          ''internal/poll/mutex_test.go''],
        o_tests := [''go test ./internal/poll/... -run Guard'']\<rparr>)]"

definition P14_part3 :: "registration list" where
  "P14_part3 =
    [RegLeaf ''P14-08'' ''P14'' ''Add cron scheduler from poll_interval_minutes'' ''backend''
       (no_opts\<lparr>o_depends_on := [''P14-06'',
          ''P06-01''],
        o_context := Some ''Background scheduler reads poll_interval_minutes from app_settings, runs poll on interval. Use robfig/cron or time.Ticker. Reload interval when settings change.'',
        o_specs := [SPEC_domain\<lparr>dl_note := Some ''Interval from app_settings''\<rparr>, SPEC_api\<lparr>dl_note := Some ''Settings change affects scheduler''\<rparr>],
        o_stack := [STACK_backend\<lparr>dl_note := Some ''internal/poll/scheduler.go''\<rparr>, STACK_deploy\<lparr>dl_note := Some ''Scheduler runs in cmd/server process''\<rparr>],
        o_implementation := [''type Scheduler struct { engine *Engine; interval time.Duration }'',
          (''Start(ctx) '' @ em_dash @ '' ticker every poll_interval_minutes''),
          (''On tick: guard.TryStart '' @ [CHR 0xE2, CHR 0x86, CHR 0x92] @ '' engine.RunPoll '' @ [CHR 0xE2, CHR 0x86, CHR 0x92] @ '' guard.Finish''),
          ''ReloadSettings() reads fresh interval from repo'',
          ''Start called from main.go after server ready'',
          ''Graceful stop on SIGTERM''],
        o_acceptance := [''Poll runs automatically on interval'',
          ''Default 360 minutes from settings'',
          ''Manual trigger still works (P15)'',
          ''Scheduler stops on context cancel'',
          ''Interval reload after PATCH settings'',
          ''Missed tick does not stack runs (guard)'',
          ''go test scheduler with short interval mock''],
        o_files := [''internal/poll/scheduler.go'',
          ''internal/poll/engine.go''],
        o_tests := [''go test ./internal/poll/... -run Scheduler'']\<rparr>),
     RegLeaf ''P14-10'' ''P14'' (''Build ticket title and description per spec '' @ [CHR 0xC2, CHR 0xA7] @ ''5.4'') ''backend''
       (no_opts\<lparr>o_depends_on := [''P11-01''],
        o_context := Some (''Every ticket provider receives the same TicketInput built by the poll engine. Title must be exactly `Release: {source_kind} {project_path} {tag}`. Description is Markdown with release name, URL, and publishedAt per specs.html '' @ [CHR 0xC2, CHR 0xA7] @ ''5.4. Used by create, merge, and supersede flows '' @ em_dash @ '' single builder prevents provider drift.''),
        o_specs := [SPEC_domain\<lparr>dl_note := Some ([CHR 0xC2, CHR 0xA7] @ ''5.4 Ticket content (all providers)'')\<rparr>, SPEC_providers\<lparr>dl_note := Some ''TicketInput passed to TicketProvider.CreateTicket''\<rparr>, SPEC_ticketProjects\<lparr>dl_note := Some ''create_config merged at create time''\<rparr>],
        o_stack := [STACK_backend\<lparr>dl_note := Some ''internal/poll/ticket_content.go''\<rparr>, STACK_quality\<lparr>dl_note := Some ''Table-driven unit tests for title/description''\<rparr>],
        o_implementation := [''func BuildTicketContent(repo MonitoredRepo, release Release) TicketInput'',
          ''Title: fmt.Sprintf(\"Release: %s %s %s\", sourceKind, projectPath, release.Tag)'',
          ''Description markdown: release name, html URL link, publishedAt RFC3339'',
          ''Include source_kind and project_path in body for operator context'',
          ''Export for policy_supersede, policy_merge, and create path'',
          ''Supersede comment template references same URL fields'',
          ''No provider-specific formatting in this package''],
        o_acceptance := [''Title matches `Release: github org/repo v1.0.0` pattern exactly'',
          ''Description includes release.Name when present'',
          ''Description includes clickable/markdown URL to release.HTMLURL'',
          ''Description includes publishedAt in UTC ISO8601'',
          ''Works for all five source_kind values'',
          ''Empty release name still produces valid markdown body'',
          ''Unit tests cover GitHub-shaped Release struct'',
          ''Supersede comment builder reuses tag and URL helpers''],
        o_files := [''internal/poll/ticket_content.go'',
          ''internal/poll/ticket_content_test.go''],
        o_tests := [''go test ./internal/poll/... -run TicketContent''],
        o_relatedTasks := [''P14-03'',
          ''P14-04'',
          ''P12-03'']\<rparr>),
     RegLeaf ''P14-09'' ''P14'' ''Add poll engine integration tests'' ''backend''
       (no_opts\<lparr>o_depends_on := [''P14-03'',
          ''P14-04'',
          ''P14-05'',
          ''P14-10''],
        o_context := Some (''End-to-end test: mock source returns tags v1'' @ [CHR 0xE2, CHR 0x86, CHR 0x92] @ ''v2, mock ticket provider, verify baseline'' @ [CHR 0xE2, CHR 0x86, CHR 0x92] @ ''create'' @ [CHR 0xE2, CHR 0x86, CHR 0x92] @ ''supersede scenario.''),
        o_specs := [SPEC_domain\<lparr>dl_note := Some ''Full poll flow MVP scenario''\<rparr>, SPEC_mvp\<lparr>dl_note := Some (''baseline '' @ [CHR 0xE2, CHR 0x86, CHR 0x92] @ '' create '' @ [CHR 0xE2, CHR 0x86, CHR 0x92] @ '' supersede acceptance'')\<rparr>],
        o_stack := [STACK_quality\<lparr>dl_note := Some ''go test -run Integration''\<rparr>, STACK_backend\<lparr>dl_note := Some ''In-memory DB + mock providers''\<rparr>],
        o_implementation := [''TestPollBaselineNoTicket'',
          ''TestPollCreateOnNewTag'',
          ''TestPollSupersedePolicy'',
          ''TestPollMergePolicy'',
          ''TestPollSkipIfOpenPolicy'',
          ''Seed repo, integration, ticket project in :memory: DB'',
          ''Mock SourceProvider tag sequence''],
        o_acceptance := [''Baseline sets last_known_tag no ticket'',
          ''Second poll same tag skip'',
          ''New tag creates ticket'',
          ''Supersede flow updates old and creates new'',
          ''poll_run_events recorded correctly'',
          ''All integration tests pass'',
          ''No network calls'',
          ''CI runs go test ./internal/poll/... -run Integration''],
        o_files := [''internal/poll/integration_test.go''],
        o_tests := [''go test ./internal/poll/... -run Integration'']\<rparr>)]"

definition registerP14 :: "registration list" where
  "registerP14 = P14_part1 @ P14_part2 @ P14_part3"

end
