(* ===== verification/Roadmap_P15_P19.thy ===== *)
theory Roadmap_P15_P19
  imports Roadmap_Links
begin

section \<open>Tasks of the earlier roadmap (\<open>scripts/roadmap/epics/p15-p28.mjs\<close>)\<close>

text \<open>The calls of \<open>epic\<close> and \<open>leaf\<close> in their order; the calls of an epic with its leaves are in parts.\<close>

definition P15_part1 :: "registration list" where
  "P15_part1 =
    [RegEpic ''P15'' ''Status & poll REST API'' ''backend''
       (no_opts\<lparr>o_depends_on := [''P14-08''],
        o_context := Some (''Expose operational visibility and manual poll control through the Go REST API defined in specs.html '' @ [CHR 0xC2, CHR 0xA7] @ ''7.1. These endpoints power the dashboard summary card, manual poll button, and run history views in the web UI. Implementation must aggregate poll state, monitored repos, and in-flight poll status from the store layer built in prior phases. All responses use the standard JSON error envelope and require an authenticated session except where auth middleware already gates the router.''),
        o_specs := [SPEC_api\<lparr>dl_note := Some ([CHR 0xC2, CHR 0xA7] @ ''7.1 Status '' @ em_dash @ '' GET /status, POST /poll/trigger, GET /poll/runs'')\<rparr>, SPEC_domain\<lparr>dl_note := Some ''Poll run lifecycle and repo status fields in aggregated JSON''\<rparr>, SPEC_architecture\<lparr>dl_note := Some ''Go API on :8080; Next proxies via /api/go''\<rparr>, SPEC_mvp\<lparr>dl_note := Some ''Dashboard and manual poll depend on these endpoints''\<rparr>],
        o_stack := stackRefs
          [(''layout'', ''Handlers in internal/api; routes registered from cmd/server''),
           (''backend'', ''Go chi router, sqlc store queries for runs and repos''),
           (''frontend'', ''Consumed later by useStatus and dashboard (P17, P20)''),
           (''data'', ''Reads poll_runs, poll_run_events, monitored_repos, settings''),
           (''quality'', ''Table-driven httptest coverage in P15-05''),
           (''cicd'', ''go test ./internal/api/... in ci.yml''),
           (''deploy'', ''Same binary as rest of API; no separate service'')],
        o_schema := [SCHEMA_sql\<lparr>dl_note := Some ''poll_runs, poll_run_events, monitored_repos tables''\<rparr>, SCHEMA_html\<lparr>dl_note := Some ''Browser reference for poll and repo columns''\<rparr>],
        o_implementation := [''Register status and poll routes on the authenticated API sub-router'',
          ''Implement GET /api/v1/status aggregating settings.poll_interval, last run, repos[], isPolling'',
          ''POST /api/v1/poll/trigger starts async poll worker; return 202 with run id when accepted'',
          ''GET /api/v1/poll/runs supports limit/offset pagination (default limit 20)'',
          ''GET /api/v1/poll/runs/{id} returns run row plus events[] ordered by time'',
          (''Map store errors to VALIDATION_ERROR / NOT_FOUND per '' @ [CHR 0xC2, CHR 0xA7] @ ''7 error format''),
          ''Set isPolling true while a run is in progress (mutex or DB flag)'',
          ''Reuse poll service from internal/poll; handlers stay thin''],
        o_acceptance := [(''GET /api/v1/status returns JSON matching '' @ [CHR 0xC2, CHR 0xA7] @ ''7.1 example shape''),
          ''Status includes pollIntervalMinutes, lastRun, repos[], isPolling'',
          ''POST /api/v1/poll/trigger returns 202 when poll starts'',
          ''POST /api/v1/poll/trigger returns 409 or 429 when poll already running (per domain rules)'',
          ''GET /api/v1/poll/runs returns paginated list defaulting to 20 items'',
          ''GET /api/v1/poll/runs/{id} includes events array for the run'',
          ''Unauthenticated requests receive 401 on all status/poll routes'',
          ''Invalid run id returns 404 with standard error envelope'']\<rparr>),
     RegLeaf ''P15-01'' ''P15'' ''Implement GET /api/v1/status'' ''backend''
       (no_opts\<lparr>o_context := Some (''The status endpoint is the primary read model for the dashboard. It must join settings, the most recent completed or in-progress poll run, and every monitored repo with ticket and tag metadata. Field names and nesting must match specs.html '' @ [CHR 0xC2, CHR 0xA7] @ ''7.1 exactly so the React client can deserialize without adapters. This handler is read-only and should be efficient enough for frequent polling from the UI.''),
        o_specs := [SPEC_api\<lparr>dl_note := Some ([CHR 0xC2, CHR 0xA7] @ ''7.1 GET /api/v1/status JSON schema'')\<rparr>, SPEC_domain\<lparr>dl_note := Some ''Repo lastKnownTag, openTicketExternalId, lastError fields''\<rparr>, SPEC_schema\<lparr>dl_note := Some ''monitored_repos and poll_runs columns''\<rparr>],
        o_stack := stackRefs
          [(''layout'', ''internal/api/status.go''),
           (''backend'', ''Single handler calling store.ListReposWithStatus and store.LastPollRun''),
           (''frontend'', ''Response consumed by useStatus hook (P17-03)''),
           (''data'', ''SQL joins across repos, ticket_projects, poll state''),
           (''quality'', ''Golden JSON fixture test''),
           (''cicd'', ''Covered by go test in P15-05''),
           (''deploy'', ''No env-specific behavior beyond DB path'')],
        o_schema := [SCHEMA_sql\<lparr>dl_note := Some ''monitored_repos, poll_runs, ticket_projects''\<rparr>],
        o_implementation := [''Add StatusHandler in internal/api/status.go'',
          ''Query poll_interval_minutes from settings singleton'',
          ''Load last run summary (id, startedAt, finishedAt, status, counters, errors)'',
          ''Map each monitored repo to status DTO with sourceKind, projectPath, ticket project name'',
          ''Include openTicketExternalId, openTicketTag, lastKnownTag, lastPolledAt, lastError'',
          ''Set isPolling from poll service or active run row'',
          ''Return 200 application/json; no secrets in response''],
        o_acceptance := [''GET /api/v1/status returns 200 for authenticated session'',
          ''Response contains pollIntervalMinutes integer'',
          ''lastRun object present when at least one run exists (null otherwise)'',
          ''repos array includes all monitored repos with enabled flag'',
          ''Each repo item includes sourceKind, projectPath, ticketProjectId, ticketProjectName'',
          ''isPolling reflects true while worker is active'',
          (''JSON field names use camelCase per '' @ [CHR 0xC2, CHR 0xA7] @ ''7.1''),
          ''No integration secrets or tokens in response body''],
        o_files := [''internal/api/status.go''],
        o_relatedTasks := [''P17-03'',
          ''P20-01'']\<rparr>),
     RegLeaf ''P15-02'' ''P15'' ''Implement POST /api/v1/poll/trigger'' ''backend''
       (no_opts\<lparr>o_context := Some ''Manual poll lets admins force an immediate check outside the scheduled interval. The endpoint must start the poll worker asynchronously and return 202 Accepted with a run identifier the UI can track. Concurrent manual triggers while a poll is running should be rejected cleanly per domain rules. This reuses the same poll pipeline as the background scheduler from P14.'',
        o_specs := [SPEC_api\<lparr>dl_note := Some (''POST /api/v1/poll/trigger '' @ em_dash @ '' async 202'')\<rparr>, SPEC_domain\<lparr>dl_note := Some ''Poll worker entry and run record creation''\<rparr>, SPEC_architecture\<lparr>dl_note := Some ''Single Go process runs scheduler and API''\<rparr>],
        o_stack := stackRefs
          [(''layout'', ''internal/api/poll.go''),
           (''backend'', ''Delegate to internal/poll.Service.TriggerManual''),
           (''frontend'', ''Called from dashboard Run poll now button (P20-02)''),
           (''data'', ''Inserts poll_runs row with status running''),
           (''quality'', ''Test 202 and conflict when already polling''),
           (''cicd'', ''go test -run Trigger''),
           (''deploy'', ''No extra configuration beyond poll interval in DB'')],
        o_schema := [SCHEMA_sql\<lparr>dl_note := Some ''poll_runs status enum and timestamps''\<rparr>],
        o_implementation := [''Add TriggerPollHandler in internal/api/poll.go'',
          ''Check poll service IsRunning; return 409 if busy'',
          ''Create poll_runs row and spawn goroutine via poll.Service'',
          ''Return 202 with { runId } or Location header per project convention'',
          ''Log trigger with user/session context for audit'',
          ''Ensure scheduler does not double-start same run''],
        o_acceptance := [''POST /api/v1/poll/trigger returns 202 when poll starts'',
          ''Response body includes new run id'',
          ''Second concurrent trigger returns 409 or 429 (documented choice)'',
          ''Unauthenticated request returns 401'',
          ''Started run appears in GET /poll/runs within one request cycle'',
          ''isPolling becomes true in GET /status after trigger'',
          ''Worker completes and updates run status to success or error'',
          ''Invalid method GET on trigger path returns 405''],
        o_files := [''internal/api/poll.go''],
        o_relatedTasks := [''P14-08'',
          ''P20-02'']\<rparr>)]"

definition P15_part2 :: "registration list" where
  "P15_part2 =
    [RegLeaf ''P15-03'' ''P15'' ''Implement GET /api/v1/poll/runs'' ''backend''
       (no_opts\<lparr>o_context := Some (''Run history supports debugging and future UI expansion beyond the dashboard last-run card. The list endpoint returns recent poll runs with pagination defaulting to 20 items per specs.html '' @ [CHR 0xC2, CHR 0xA7] @ ''7.1. Each list item should include summary counters without the full events array to keep payloads small. Ordering is newest-first by startedAt.''),
        o_specs := [SPEC_api\<lparr>dl_note := Some ''GET /api/v1/poll/runs paginated default limit 20''\<rparr>, SPEC_schema\<lparr>dl_note := Some ''poll_runs table columns''\<rparr>, SPEC_domain\<lparr>dl_note := Some ''Run status values: running, success, error''\<rparr>],
        o_stack := stackRefs
          [(''layout'', ''internal/api/poll.go''),
           (''backend'', ''ListPollRuns store query with LIMIT/OFFSET''),
           (''frontend'', ''Optional future run history UI''),
           (''data'', ''Index on poll_runs.started_at for sort''),
           (''quality'', ''Pagination edge-case tests''),
           (''cicd'', ''Included in api test suite''),
           (''deploy'', ''N/A'')],
        o_schema := [SCHEMA_sql\<lparr>dl_note := Some ''poll_runs''\<rparr>],
        o_implementation := [''Parse limit (default 20, max 100) and offset query params'',
          ''Return array of run summaries: id, startedAt, finishedAt, status, counters'',
          ''Omit events[] from list response'',
          ''Include total count or hasMore if spec requires (optional X-Total-Count)'',
          ''Validate limit is positive integer'',
          ''Return empty array when no runs exist''],
        o_acceptance := [''GET /api/v1/poll/runs returns 200 with JSON array'',
          ''Default page size is 20 runs'',
          ''limit query param overrides default when valid'',
          ''Runs ordered by startedAt descending'',
          ''Each item includes id, status, reposChecked, ticketsCreated, ticketsSuperseded'',
          ''Invalid limit returns 400 VALIDATION_ERROR'',
          ''Unauthenticated request returns 401'',
          ''events array not included in list items''],
        o_files := [''internal/api/poll.go'']\<rparr>),
     RegLeaf ''P15-04'' ''P15'' ''Implement GET /api/v1/poll/runs/{id}'' ''backend''
       (no_opts\<lparr>o_context := Some ''Detail view for a single poll run includes the events timeline (per-repo actions, errors, ticket operations). This powers deep inspection when a run fails or creates unexpected tickets. The handler validates UUID format and returns 404 when the run does not exist. Events must be ordered chronologically and include enough context for support without leaking secrets.'',
        o_specs := [SPEC_api\<lparr>dl_note := Some ''GET /api/v1/poll/runs/{id} with events array''\<rparr>, SPEC_domain\<lparr>dl_note := Some ''Poll run event types: baseline, skip, create, supersede, error''\<rparr>, SPEC_schema\<lparr>dl_note := Some ''poll_run_events table''\<rparr>],
        o_stack := stackRefs
          [(''layout'', ''internal/api/poll.go''),
           (''backend'', ''GetPollRunByID with preloaded events''),
           (''frontend'', ''Future drill-down from dashboard''),
           (''data'', ''FK poll_run_events.run_id''),
           (''quality'', ''404 and malformed id tests''),
           (''cicd'', ''go test -run PollRunDetail''),
           (''deploy'', ''N/A'')],
        o_schema := [SCHEMA_sql\<lparr>dl_note := Some ''poll_runs and poll_run_events''\<rparr>, SCHEMA_html\<lparr>dl_note := Some ''Event payload columns''\<rparr>],
        o_implementation := [''Parse {id} path param as UUID'',
          ''Load run row; 404 if missing'',
          ''Load events for run_id ordered by created_at ASC'',
          ''Map event type, repoId, message, metadata JSON to response DTO'',
          ''Include full run summary fields on parent object'',
          ''Strip any secret-bearing metadata from event payloads''],
        o_acceptance := [''GET /api/v1/poll/runs/{valid-id} returns 200 with run and events'',
          ''events is non-empty array when run produced events'',
          ''Unknown id returns 404 NOT_FOUND'',
          ''Malformed id returns 400 VALIDATION_ERROR'',
          ''Each event includes type, timestamp, and human-readable message'',
          ''Run counters match sum of event outcomes where applicable'',
          ''Unauthenticated request returns 401'',
          (''Response JSON matches '' @ [CHR 0xC2, CHR 0xA7] @ ''7.1 detail shape'')],
        o_files := [''internal/api/poll.go''],
        o_relatedTasks := [''P15-05'']\<rparr>),
     RegLeaf ''P15-05'' ''P15'' ''Add status and poll API tests'' ''backend''
       (no_opts\<lparr>o_depends_on := [''P15-04''],
        o_context := Some ''Automated tests lock the status and poll API contract before the web UI depends on it. Use httptest with an in-memory or migrated SQLite fixture and authenticated session cookie. Cover happy paths, auth failures, pagination, and concurrent trigger behavior. Tests run in CI via go test ./internal/api/... -run Poll.'',
        o_specs := [SPEC_api\<lparr>dl_note := Some ([CHR 0xC2, CHR 0xA7] @ ''7.1 all status/poll endpoints'')\<rparr>, SPEC_mvp\<lparr>dl_note := Some ''API correctness underpins dashboard AC''\<rparr>, SPEC_ci\<lparr>dl_note := Some ''go test in reusable ci.yml''\<rparr>],
        o_stack := stackRefs
          [(''layout'', ''internal/api/status_test.go, poll_test.go''),
           (''backend'', ''httptest.Server with test store and session middleware''),
           (''frontend'', (''N/A '' @ em_dash @ '' backend contract tests'')),
           (''data'', ''Test fixtures seed repos and runs''),
           (''quality'', ''Table-driven subtests per endpoint''),
           (''cicd'', ''go test ./internal/api/... -run Poll''),
           (''deploy'', ''N/A'')],
        o_schema := [SCHEMA_sql\<lparr>dl_note := Some ''Migrate test DB from migrations/''\<rparr>],
        o_implementation := [''Shared test helper: newTestServer with logged-in session'',
          ''Golden file or struct comparison for GET /status JSON'',
          ''Test POST /poll/trigger 202 and verify run row created'',
          ''Test list pagination with 25 seeded runs'',
          ''Test GET run detail includes events'',
          ''Test 401 without session cookie'',
          ''Test concurrent trigger rejection'',
          ''Run golangci-lint on test files''],
        o_acceptance := [''go test ./internal/api/... -run Poll passes locally'',
          (''Status test asserts all '' @ [CHR 0xC2, CHR 0xA7] @ ''7.1 top-level keys''),
          ''Trigger test verifies 202 and run id in response'',
          ''List test asserts default limit 20'',
          ''Detail test loads events for seeded run'',
          ''Auth test proves 401 without cookie'',
          ''Concurrent trigger test documents expected status code'',
          ''Tests use t.Parallel where safe'',
          (''No flaky timing '' @ em_dash @ '' poll worker stubbed or synchronized'')],
        o_files := [''internal/api/status_test.go'',
          ''internal/api/poll_test.go''],
        o_tests := [''go test ./internal/api/... -run Poll''],
        o_relatedTasks := [''P15-01'',
          ''P15-02'',
          ''P15-03'',
          ''P15-04'']\<rparr>)]"

definition P15_part3 :: "registration list" where
  "P15_part3 =
    [RegLeaf ''P15-06'' ''P15'' ''Register all API routes on chi router'' ''backend''
       (no_opts\<lparr>o_depends_on := [''P15-04'',
          ''P02-08'',
          ''P03-08''],
        o_context := Some (''Final backend integration: mount every '' @ [CHR 0xC2, CHR 0xA7] @ ''7 handler on the /api/v1 router started in P02-08. Verifies no orphan handlers and correct middleware order (public auth routes '' @ [CHR 0xE2, CHR 0x86, CHR 0x92] @ '' session middleware '' @ [CHR 0xE2, CHR 0x86, CHR 0x92] @ '' protected CRUD). Prevents shipping UI that calls endpoints with no server route.''),
        o_specs := [SPEC_api\<lparr>dl_note := Some ([CHR 0xC2, CHR 0xA7] @ ''7 complete endpoint inventory'')\<rparr>, SPEC_auth\<lparr>dl_note := Some ''Public vs protected route list''\<rparr>, SPEC_architecture\<lparr>dl_note := Some ''Single Go process owns all routes''\<rparr>],
        o_stack := stackRefs
          [(''layout'', (''internal/api/routes.go '' @ em_dash @ '' RegisterAll(mux, deps)'')),
           (''backend'', ''chi Mount for auth, settings, integrations, ticket-projects, repos, notifications, status, poll''),
           (''frontend'', (''Every '' @ [CHR 0xC2, CHR 0xA7] @ ''8.4 hook maps to a registered route'')),
           (''data'', ''Handlers receive *store.Repository''),
           (''quality'', ''Route inventory test or OpenAPI-style checklist''),
           (''cicd'', ''go test ./internal/api/... -run Routes''),
           (''deploy'', ''cmd/server/main.go calls RegisterAll'')],
        o_implementation := [(''RegisterAuthRoutes '' @ em_dash @ '' login, logout, session (login/session public)''),
          ''RegisterSettingsRoutes, RegisterIntegrationsRoutes, RegisterTicketProjectRoutes'',
          ''RegisterReposRoutes, RegisterNotificationRoutes, RegisterStatusRoutes, RegisterPollRoutes'',
          ''Apply auth middleware after public auth routes mounted'',
          (''cmd/server/main.go: migrate '' @ [CHR 0xE2, CHR 0x86, CHR 0x92] @ '' RegisterAll '' @ [CHR 0xE2, CHR 0x86, CHR 0x92] @ '' StartScheduler''),
          (''Document route table in internal/api/routes.go comment matching specs '' @ [CHR 0xC2, CHR 0xA7] @ ''7''),
          ''404 and method-not-allowed return JSON error envelope''],
        o_acceptance := [(''Every specs.html '' @ [CHR 0xC2, CHR 0xA7] @ ''7 path has a registered handler''),
          ''GET /healthz on root router only'',
          ''POST /auth/login and GET /auth/session work without prior session'',
          ''Protected routes return 401 without cookie'',
          ''No duplicate route patterns registered'',
          ''RegisterAll callable from integration tests'',
          ''go test ./internal/api/... -run Routes passes'',
          (''Route list comment matches '' @ [CHR 0xC2, CHR 0xA7] @ ''7 tables exactly'')],
        o_files := [''internal/api/routes.go'',
          ''cmd/server/main.go''],
        o_tests := [''go test ./internal/api/... -run Routes''],
        o_relatedTasks := [''P02-08'',
          ''P15-05'']\<rparr>)]"

definition registerP15 :: "registration list" where
  "registerP15 = P15_part1 @ P15_part2 @ P15_part3"

definition P16_part1 :: "registration list" where
  "P16_part1 =
    [RegEpic ''P16'' ''Next.js scaffold & Go API proxy'' ''web''
       (no_opts\<lparr>o_depends_on := [''P00-04'',
          ''P02-07''],
        o_context := Some (''The Next.js app is UI-only; all business logic lives in Go. A same-origin catch-all proxy at /api/go forwards requests to GO_API_URL (default 127.0.0.1:8080) so the browser sends session cookies without CORS. This epic establishes the app directory layout, proxy route, and cookie forwarding required before React Query hooks can call the API. Architecture matches specs.html '' @ [CHR 0xC2, CHR 0xA7] @ ''2: one container, Go on loopback, Next on public port.''),
        o_specs := [SPEC_architecture\<lparr>dl_note := Some ''Next UI-only; Go owns auth and API''\<rparr>, SPEC_ui\<lparr>dl_note := Some ([CHR 0xC2, CHR 0xA7] @ ''8 '' @ em_dash @ '' API calls via /api/go/api/v1/...'')\<rparr>, SPEC_auth\<lparr>dl_note := Some ''Session cookie must forward through proxy''\<rparr>, SPEC_env\<lparr>dl_note := Some ''GO_API_URL env for proxy target''\<rparr>],
        o_stack := stackRefs
          [(''layout'', ''apps/web/app/ with (authenticated) and login route groups''),
           (''backend'', ''Go API unchanged; proxy is Next route handler''),
           (''frontend'', ''Next.js 15 App Router, route.ts catch-all''),
           (''data'', ''N/A at proxy layer''),
           (''quality'', ''Vitest tests for proxy in P16-04''),
           (''cicd'', ''npm test -- proxy in ci.yml web job''),
           (''deploy'', ''GO_API_URL=127.0.0.1:8080 in Docker entrypoint'')],
        o_implementation := [''Create apps/web/app/(authenticated)/ and apps/web/app/login/ layouts'',
          ''Add apps/web/app/api/go/[...path]/route.ts catch-all'',
          ''Proxy GET/POST/PATCH/DELETE to GO_API_URL preserving path and query'',
          ''Forward Cookie request header and Set-Cookie response headers'',
          ''Preserve status codes and JSON bodies unchanged'',
          ''Add health check proxy path for deployment probe'',
          ''Document GO_API_URL in .env.example''],
        o_acceptance := [''Next dev server starts with app directory layout'',
          ''/api/go/api/v1/auth/session proxies to Go and returns JSON'',
          ''Login Set-Cookie from Go reaches browser via proxy'',
          ''Authenticated API calls include session cookie automatically'',
          ''Proxy returns Go error responses without modification'',
          ''Unknown paths return Go 404, not Next 404'',
          ''GO_API_URL defaults to http://127.0.0.1:8080'',
          ''Vitest proxy tests pass (P16-04)'']\<rparr>),
     RegLeaf ''P16-01'' ''P16'' ''Create Next.js app directory layout'' ''web''
       (no_opts\<lparr>o_depends_on := [''P00-03''],
        o_context := Some (''Establish the App Router folder structure separating public login routes from authenticated app pages. The (authenticated) route group will later wrap sidebar and frame layouts. Root layout.tsx loads global styles, fonts, and providers. This task does not implement auth '' @ em_dash @ '' only directory scaffolding per stack.html.''),
        o_specs := [SPEC_ui\<lparr>dl_note := Some ([CHR 0xC2, CHR 0xA7] @ ''8 route structure: /login vs authenticated pages'')\<rparr>, SPEC_architecture\<lparr>dl_note := Some ''apps/web in monorepo layout''\<rparr>, SPEC_ui\<lparr>dl_note := Some ''apps/web/app/ directory per stack.html''\<rparr>],
        o_stack := stackRefs
          [(''layout'', ''app/(authenticated)/, app/login/, app/layout.tsx''),
           (''backend'', ''N/A''),
           (''frontend'', ''Next.js 15 App Router, TypeScript''),
           (''data'', ''N/A''),
           (''quality'', ''Lint passes on scaffold files''),
           (''cicd'', ''npm run build includes new routes''),
           (''deploy'', ''Standalone output configured later in P26'')],
        o_implementation := [''Create app/(authenticated)/layout.tsx placeholder'',
          ''Create app/login/page.tsx placeholder'',
          ''Create app/(authenticated)/page.tsx dashboard stub'',
          ''Ensure root layout.tsx wraps children with html/body'',
          ''Add globals.css import and metadata export'',
          ''Configure next.config for apps/web workspace''],
        o_acceptance := [''apps/web/app/(authenticated)/ directory exists'',
          ''apps/web/app/login/ directory exists'',
          ''npm run dev serves /login without error'',
          ''npm run dev serves / (authenticated group) without error'',
          ''Root layout applies global CSS'',
          ''TypeScript compiles with strict mode'',
          ''No business logic in layout files yet'',
          ''Route groups do not affect URL paths''],
        o_files := [''apps/web/app/(authenticated)/'',
          ''apps/web/app/login/''],
        o_relatedTasks := [''P18-05'',
          ''P19-01'']\<rparr>),
     RegLeaf ''P16-02'' ''P16'' ''Add /api/go catch-all proxy route'' ''web''
       (no_opts\<lparr>o_depends_on := [''P16-01''],
        o_context := Some ''The catch-all API route is the bridge between browser and Go. It must support all HTTP methods used by the REST API and stream request bodies for POST/PATCH. Target URL is process.env.GO_API_URL with fallback http://127.0.0.1:8080 per acceptance criteria. Path after /api/go/ is appended to the Go server root (e.g. api/v1/status).'',
        o_specs := [SPEC_ui\<lparr>dl_note := Some ([CHR 0xC2, CHR 0xA7] @ ''8.4 '' @ em_dash @ '' calls to /api/go/api/v1/...'')\<rparr>, SPEC_api\<lparr>dl_note := Some (''All '' @ [CHR 0xC2, CHR 0xA7] @ ''7 endpoints reachable via proxy'')\<rparr>, SPEC_env\<lparr>dl_note := Some ''GO_API_URL variable''\<rparr>],
        o_stack := stackRefs
          [(''layout'', ''apps/web/app/api/go/[...path]/route.ts''),
           (''backend'', ''fetch() to Go upstream''),
           (''frontend'', ''Route handlers export GET, POST, PATCH, DELETE''),
           (''data'', ''N/A''),
           (''quality'', ''Manual smoke: curl /api/go/healthz''),
           (''cicd'', ''Tested in P16-04''),
           (''deploy'', ''GO_API_URL in container env'')],
        o_implementation := [''Create [...path]/route.ts with method exports'',
          (''Build upstream URL: GO_API_URL + '' @ [CHR 0x27] @ ''/'' @ [CHR 0x27] @ '' + path.join('' @ [CHR 0x27] @ ''/'' @ [CHR 0x27] @ '')''),
          ''Forward request headers except host'',
          ''Pipe request body for mutating methods'',
          ''Return new Response with upstream status and body'',
          ''Handle connection errors with 502 JSON error''],
        o_acceptance := [''GET /api/go/api/v1/auth/session returns Go response'',
          ''Proxies to GO_API_URL default 127.0.0.1:8080'',
          ''POST with JSON body reaches Go handler'',
          ''PATCH and DELETE methods supported'',
          ''Query string preserved on upstream URL'',
          ''Go 401/404 status codes pass through'',
          ''GO_API_URL env overrides default target'',
          ''Malformed upstream connection returns 502''],
        o_files := [''apps/web/app/api/go/[...path]/route.ts''],
        o_relatedTasks := [''P16-03'',
          ''P17-01'']\<rparr>)]"

definition P16_part2 :: "registration list" where
  "P16_part2 =
    [RegLeaf ''P16-03'' ''P16'' ''Forward Cookie and Set-Cookie in proxy'' ''web''
       (no_opts\<lparr>o_depends_on := [''P16-02''],
        o_context := Some ''Go session auth depends on HTTP-only cookies set at login. The proxy must forward the incoming Cookie header to Go and relay Set-Cookie headers from Go responses back to the browser. Without this, login appears to succeed in Go but the UI remains unauthenticated. This is the critical piece enabling P17 useSession and P18 middleware.'',
        o_specs := [SPEC_auth\<lparr>dl_note := Some ''Session cookie set by POST /auth/login''\<rparr>, SPEC_ui\<lparr>dl_note := Some ([CHR 0xC2, CHR 0xA7] @ ''8.4 same-origin cookie forwarding'')\<rparr>, SPEC_architecture\<lparr>dl_note := Some (''No JWT in localStorage '' @ em_dash @ '' cookie only'')\<rparr>],
        o_stack := stackRefs
          [(''layout'', (''Same route.ts '' @ em_dash @ '' header forwarding logic'')),
           (''backend'', ''Go sets Set-Cookie on login/logout''),
           (''frontend'', ''credentials: include on client fetch (P17)''),
           (''data'', ''N/A''),
           (''quality'', ''Integration test in P16-04''),
           (''cicd'', ''npm test -- proxy''),
           (''deploy'', ''Secure cookie flags from Go in production'')],
        o_implementation := [''Copy Cookie header from incoming request to upstream fetch'',
          ''Collect Set-Cookie from upstream response headers'',
          ''Append Set-Cookie to Next response (may be multiple)'',
          ''Do not strip HttpOnly or Secure attributes'',
          ''Forward Set-Cookie on logout to clear session'',
          ''Avoid duplicating cookies on chained proxies''],
        o_acceptance := [''Login via /api/go sets session cookie in browser'',
          ''Subsequent /api/go requests include session cookie'',
          ''Logout clears cookie via Set-Cookie from Go'',
          ''Multiple Set-Cookie headers handled correctly'',
          ''Cookie not logged or exposed in error messages'',
          ''Session persists across page reload'',
          ''Unauthenticated session returns { user: null }'',
          ''Works in next dev and production standalone''],
        o_files := [''apps/web/app/api/go/[...path]/route.ts''],
        o_relatedTasks := [''P17-02'',
          ''P18-04'']\<rparr>),
     RegLeaf ''P16-04'' ''P16'' ''Add proxy route tests'' ''web''
       (no_opts\<lparr>o_depends_on := [''P16-03''],
        o_context := Some (''Vitest tests mock the upstream Go server to verify proxy path construction, method forwarding, and cookie relay without running Go in CI for every web test. Tests should fail if cookie forwarding regresses '' @ em_dash @ '' a common breakage when refactoring route handlers. Run via npm test -- proxy.''),
        o_specs := [SPEC_ui\<lparr>dl_note := Some ([CHR 0xC2, CHR 0xA7] @ ''8.4 proxy contract'')\<rparr>, SPEC_ci\<lparr>dl_note := Some ''Web test job in ci.yml''\<rparr>, SPEC_auth\<lparr>dl_note := Some ''Cookie round-trip behavior''\<rparr>],
        o_stack := stackRefs
          [(''layout'', ''apps/web/app/api/go/[...path]/route.test.ts''),
           (''backend'', ''Mock upstream with undici MockAgent or MSW''),
           (''frontend'', ''Vitest + import route handlers directly''),
           (''data'', ''N/A''),
           (''quality'', (''RTL not needed '' @ em_dash @ '' handler unit tests'')),
           (''cicd'', ''npm test -- proxy''),
           (''deploy'', ''N/A'')],
        o_implementation := [''Mock GO_API_URL to local test server'',
          ''Test GET forwards path and returns body'',
          ''Test POST forwards JSON body'',
          ''Test Cookie header forwarded upstream'',
          ''Test Set-Cookie relayed to client response'',
          ''Test 502 on upstream connection failure'',
          ''Use vi.stubEnv for GO_API_URL''],
        o_acceptance := [''npm test -- proxy passes'',
          ''Test asserts upstream receives Cookie header'',
          ''Test asserts client receives Set-Cookie'',
          ''Test covers GET and POST at minimum'',
          ''Test verifies path join for nested routes'',
          ''Tests run in CI web job'',
          ''No network calls to real Go in unit tests'',
          ''Coverage includes error path for ECONNREFUSED''],
        o_files := [''apps/web/app/api/go/[...path]/route.test.ts''],
        o_tests := [''npm test -- proxy''],
        o_relatedTasks := [''P16-02'',
          ''P16-03'']\<rparr>)]"

definition registerP16 :: "registration list" where
  "registerP16 = P16_part1 @ P16_part2"

definition P17_part1 :: "registration list" where
  "P17_part1 =
    [RegEpic ''P17'' ''React Query API client & hooks'' ''web''
       (no_opts\<lparr>o_depends_on := [''P16-03''],
        o_context := Some (''Centralize all frontend API access through a typed fetch wrapper and TanStack React Query hooks per specs.html '' @ [CHR 0xC2, CHR 0xA7] @ ''8.4. Hooks mirror REST resources: session, status, settings, repos, integrations, ticket projects, notification targets. Mutations invalidate relevant query keys and surface errors via toasts (wired in P17-05). Base URL is always /api/go/api/v1 '' @ em_dash @ '' same origin, cookies included.''),
        o_specs := [SPEC_ui\<lparr>dl_note := Some ([CHR 0xC2, CHR 0xA7] @ ''8.4 API client '' @ em_dash @ '' hooks list and proxy path'')\<rparr>, SPEC_api\<lparr>dl_note := Some ([CHR 0xC2, CHR 0xA7] @ ''7 REST shapes for hook return types'')\<rparr>, SPEC_auth\<lparr>dl_note := Some ''useSession wraps GET /auth/session''\<rparr>, SPEC_architecture\<lparr>dl_note := Some ''React Query for server state''\<rparr>],
        o_stack := stackRefs
          [(''layout'', ''apps/web/lib/api/, apps/web/lib/hooks/''),
           (''backend'', (''Types generated or hand-written from '' @ [CHR 0xC2, CHR 0xA7] @ ''7 JSON'')),
           (''frontend'', ''TanStack Query v5, fetch wrapper''),
           (''data'', (''N/A '' @ em_dash @ '' client cache only'')),
           (''quality'', ''Hook unit tests with MSW''),
           (''cicd'', ''npm test in ci.yml''),
           (''deploy'', ''N/A'')],
        o_implementation := [''Create apiClient in lib/api/client.ts with base path /api/go/api/v1'',
          ''Parse { error: { code, message } } on non-2xx'',
          ''Configure QueryClientProvider in root or authenticated layout'',
          ''Implement query hooks for each GET resource'',
          ''Implement mutation hooks with onSuccess invalidation'',
          ''Export query keys factory for consistent cache keys'',
          (''credentials: '' @ [CHR 0x27] @ ''include'' @ [CHR 0x27] @ '' on all fetch calls''),
          ''TypeScript interfaces for Status, Repo, Integration, etc.''],
        o_acceptance := [''apiClient throws typed ApiError on 4xx/5xx'',
          ''useSession returns { user } or { user: null }'',
          ''useStatus fetches GET /status with staleTime appropriate for dashboard'',
          ''useRepos, useIntegrations, useTicketProjects, useNotificationTargets list hooks work'',
          ''useSettings returns pollIntervalMinutes'',
          ''Mutation hooks invalidate affected queries on success'',
          ''All hooks use credentials include'',
          (''No direct fetch() in page components '' @ em_dash @ '' hooks only'')]\<rparr>),
     RegLeaf ''P17-01'' ''P17'' ''Add API client fetch wrapper'' ''web''
       (no_opts\<lparr>o_context := Some (''The fetch wrapper is the single choke point for HTTP to Go. It prefixes /api/go/api/v1, sets Content-Type for JSON bodies, parses errors, and always sends cookies. Downstream hooks depend on consistent behavior here '' @ em_dash @ '' especially error shape handling for form validation messages. Keep the module free of React imports for easy testing.''),
        o_specs := [SPEC_ui\<lparr>dl_note := Some ([CHR 0xC2, CHR 0xA7] @ ''8.4 '' @ em_dash @ '' /api/go/api/v1/... base path'')\<rparr>, SPEC_api\<lparr>dl_note := Some ([CHR 0xC2, CHR 0xA7] @ ''7 error envelope { error: { code, message } }'')\<rparr>, SPEC_auth\<lparr>dl_note := Some ''credentials include for session cookie''\<rparr>],
        o_stack := stackRefs
          [(''layout'', ''apps/web/lib/api/client.ts''),
           (''backend'', ''Mirrors Go JSON contracts''),
           (''frontend'', ''Native fetch, no axios''),
           (''data'', ''N/A''),
           (''quality'', ''Unit tests for error parsing''),
           (''cicd'', ''npm test -- client''),
           (''deploy'', ''N/A'')],
        o_implementation := [''Export apiClient.get/post/patch/delete helpers'',
          (''BASE = '' @ [CHR 0x27] @ ''/api/go/api/v1'' @ [CHR 0x27]),
          ''Default headers: Accept and Content-Type application/json'',
          (''credentials: '' @ [CHR 0x27] @ ''include'' @ [CHR 0x27] @ '' on every request''),
          ''Parse JSON body; throw ApiError with code and message on !ok'',
          ''Support optional signal for query cancellation'',
          ''Export ApiError class extending Error''],
        o_acceptance := [''GET helper returns parsed JSON on 200'',
          ''POST helper serializes body as JSON'',
          ''401 response throws ApiError with code UNAUTHORIZED or similar'',
          ''VALIDATION_ERROR includes message from Go'',
          ''credentials include set on all methods'',
          ''Network failure throws distinct error type'',
          ''client.ts has zero React imports'',
          ''TypeScript strict mode passes''],
        o_files := [''apps/web/lib/api/client.ts''],
        o_relatedTasks := [''P17-02'',
          ''P17-03'',
          ''P17-04'',
          ''P17-05'']\<rparr>),
     RegLeaf ''P17-02'' ''P17'' ''Add useSession hook'' ''web''
       (no_opts\<lparr>o_depends_on := [''P17-01''],
        o_context := Some (''useSession wraps GET /api/v1/auth/session and drives auth gating in middleware and layouts. It always returns 200 from Go '' @ em_dash @ '' check user === null for logged-out state. Query should refetch on window focus and after login/logout mutations. Used by P18 middleware and P19 login redirect logic.''),
        o_specs := [SPEC_auth\<lparr>dl_note := Some (''GET /auth/session '' @ em_dash @ '' user null or { id, email }'')\<rparr>, SPEC_ui\<lparr>dl_note := Some ([CHR 0xC2, CHR 0xA7] @ ''8.4 lists useSession'')\<rparr>, SPEC_api\<lparr>dl_note := Some ([CHR 0xC2, CHR 0xA7] @ ''7.0 Auth session response'')\<rparr>],
        o_stack := stackRefs
          [(''layout'', ''apps/web/lib/hooks/use-session.ts''),
           (''backend'', ''Session endpoint always 200''),
           (''frontend'', (''useQuery with key ['' @ [CHR 0x27] @ ''session'' @ [CHR 0x27] @ '']'')),
           (''data'', ''N/A''),
           (''quality'', ''MSW mock session tests''),
           (''cicd'', ''npm test''),
           (''deploy'', ''N/A'')],
        o_implementation := [(''useSession() calls apiClient.get('' @ [CHR 0x27] @ ''/auth/session'' @ [CHR 0x27] @ '')''),
          ''Return { data, isLoading, isAuthenticated: !!data?.user }'',
          (''staleTime: 0 or short '' @ em_dash @ '' auth state must be fresh''),
          ''Export useLogout mutation calling POST /auth/logout'',
          ''Invalidate session query on logout success'',
          ''Type SessionResponse { user: User | null }''],
        o_acceptance := [''useSession returns isLoading true while fetching'',
          ''Logged-in response exposes user.email'',
          ''Logged-out response has user null and isAuthenticated false'',
          (''Hook refetches after invalidateQueries(['' @ [CHR 0x27] @ ''session'' @ [CHR 0x27] @ ''])''),
          ''useLogout clears session and redirects to /login'',
          ''No infinite refetch loop on /login page'',
          ''Works with proxy cookie forwarding (P16-03)'',
          (''TypeScript types match '' @ [CHR 0xC2, CHR 0xA7] @ ''7.0 JSON'')],
        o_files := [''apps/web/lib/hooks/use-session.ts''],
        o_relatedTasks := [''P18-04'',
          ''P19-03'']\<rparr>)]"

definition P17_part2 :: "registration list" where
  "P17_part2 =
    [RegLeaf ''P17-03'' ''P17'' ''Add useStatus, useSettings, useRepos hooks'' ''web''
       (no_opts\<lparr>o_depends_on := [''P17-01''],
        o_context := Some (''Dashboard and repos pages need read hooks for operational status, app settings, and monitored repo list. useStatus maps to '' @ [CHR 0xC2, CHR 0xA7] @ ''7.1 aggregated JSON; useSettings to '' @ [CHR 0xC2, CHR 0xA7] @ ''7.2; useRepos to '' @ [CHR 0xC2, CHR 0xA7] @ ''7.5. Appropriate staleTime reduces load on dashboard while keeping manual poll feedback snappy via invalidation. These hooks are consumed in P20 and P23.''),
        o_specs := [SPEC_api\<lparr>dl_note := Some ([CHR 0xC2, CHR 0xA7] @ ''7.1 status, '' @ [CHR 0xC2, CHR 0xA7] @ ''7.2 settings, '' @ [CHR 0xC2, CHR 0xA7] @ ''7.5 repos'')\<rparr>, SPEC_ui\<lparr>dl_note := Some ([CHR 0xC2, CHR 0xA7] @ ''8.4 hook names'')\<rparr>, SPEC_domain\<lparr>dl_note := Some ''Repo fields: sourceKind, ticketProjectId, enabled''\<rparr>],
        o_stack := stackRefs
          [(''layout'', ''apps/web/lib/hooks/use-status.ts, use-settings.ts, use-repos.ts''),
           (''backend'', (''Typed responses from '' @ [CHR 0xC2, CHR 0xA7] @ ''7'')),
           (''frontend'', ''Separate files or barrel export''),
           (''data'', ''N/A''),
           (''quality'', (''MSW fixtures from '' @ [CHR 0xC2, CHR 0xA7] @ ''7 examples'')),
           (''cicd'', ''npm test''),
           (''deploy'', ''N/A'')],
        o_implementation := [(''useStatus '' @ em_dash @ '' GET /status, key ['' @ [CHR 0x27] @ ''status'' @ [CHR 0x27] @ '']''),
          (''useSettings '' @ em_dash @ '' GET /settings, key ['' @ [CHR 0x27] @ ''settings'' @ [CHR 0x27] @ '']''),
          (''useRepos '' @ em_dash @ '' GET /repos, key ['' @ [CHR 0x27] @ ''repos'' @ [CHR 0x27] @ '']''),
          ''Export TypeScript types Status, Settings, MonitoredRepo'',
          ''useStatus refetchInterval optional when isPolling true'',
          ''Document query keys in lib/api/query-keys.ts''],
        o_acceptance := [''useStatus returns pollIntervalMinutes and repos array'',
          ''useStatus includes isPolling flag'',
          ''useSettings returns pollIntervalMinutes number'',
          ''useRepos returns array of repo objects with id'',
          ''Hooks handle 401 by relying on global error boundary or redirect'',
          ''Loading and error states exposed via React Query'',
          ''Types include ticketProjectName on status repos'',
          ''Invalidation after repo mutation refreshes useRepos''],
        o_files := [''apps/web/lib/hooks/''],
        o_relatedTasks := [''P20-01'',
          ''P23-01'',
          ''P25-01'']\<rparr>),
     RegLeaf ''P17-04'' ''P17'' ''Add useIntegrations, useTicketProjects, useNotificationTargets'' ''web''
       (no_opts\<lparr>o_depends_on := [''P17-01''],
        o_context := Some (''Configuration pages need list hooks for integrations ('' @ [CHR 0xC2, CHR 0xA7] @ ''7.3), ticket projects ('' @ [CHR 0xC2, CHR 0xA7] @ ''7.4), and notification targets ('' @ [CHR 0xC2, CHR 0xA7] @ ''7.6). Responses never include secrets '' @ em_dash @ '' UI shows hasSecret flags instead. Ticket projects may filter by integrationId query param for repo form selects. Consumed by P21, P22, P23, and P24.''),
        o_specs := [SPEC_api\<lparr>dl_note := Some ([CHR 0xC2, CHR 0xA7] @ ''7.3 integrations, '' @ [CHR 0xC2, CHR 0xA7] @ ''7.4 ticket-projects, '' @ [CHR 0xC2, CHR 0xA7] @ ''7.6 notification-targets'')\<rparr>, SPEC_ticketProjects\<lparr>dl_note := Some ([CHR 0xC2, CHR 0xA7] @ ''5.3 status mapping fields in list items'')\<rparr>, SPEC_notifications\<lparr>dl_note := Some ''Shoutrrr targets without URL in GET''\<rparr>],
        o_stack := stackRefs
          [(''layout'', ''apps/web/lib/hooks/''),
           (''backend'', ''List DTOs without secret fields''),
           (''frontend'', ''Optional integrationId filter on ticket projects''),
           (''data'', ''N/A''),
           (''quality'', ''Assert no secret in mocked responses''),
           (''cicd'', ''npm test''),
           (''deploy'', ''N/A'')],
        o_implementation := [(''useIntegrations '' @ em_dash @ '' GET /integrations''),
          (''useTicketProjects(integrationId?) '' @ em_dash @ '' GET /ticket-projects''),
          (''useNotificationTargets '' @ em_dash @ '' GET /notification-targets''),
          ''Types: Integration (hasSecret), TicketProject, NotificationTarget'',
          ''Query keys include filter params when present'',
          ''Export hooks from lib/hooks/index.ts''],
        o_acceptance := [''useIntegrations returns kind, name, baseUrl, hasSecret'',
          ''No secret field in Integration type'',
          ''useTicketProjects accepts optional integrationId filter'',
          ''Ticket project includes statusMapping and onOpenTicketPolicy'',
          ''useNotificationTargets returns events array and enabled'',
          ''Shoutrrr URL never in list response type'',
          ''Hooks share consistent error handling with useRepos'',
          ''Empty lists return [] not null''],
        o_files := [''apps/web/lib/hooks/''],
        o_relatedTasks := [''P21-01'',
          ''P22-01'',
          ''P24-01'']\<rparr>),
     RegLeaf ''P17-05'' ''P17'' ''Add mutation hooks with error toasts'' ''web''
       (no_opts\<lparr>o_depends_on := [''P17-01''],
        o_context := Some (''Create, update, delete, and test actions across all resources need mutation hooks with consistent cache invalidation and user feedback. On error, surface message via toast (Toaster from P18-03). Success paths invalidate the relevant query keys '' @ em_dash @ '' e.g. useCreateIntegration invalidates ['' @ [CHR 0x27] @ ''integrations'' @ [CHR 0x27] @ '']. Test connection and test notification mutations use promise toasts per COSS p-toast-5.''),
        o_specs := [SPEC_ui\<lparr>dl_note := Some ([CHR 0xC2, CHR 0xA7] @ ''8.4 mutations; p-toast-2 / p-toast-5 feedback'')\<rparr>, SPEC_api\<lparr>dl_note := Some ([CHR 0xC2, CHR 0xA7] @ ''7 POST/PATCH/DELETE and /test endpoints'')\<rparr>, SPEC_notifications\<lparr>dl_note := Some ''Test notification async feedback''\<rparr>],
        o_stack := stackRefs
          [(''layout'', ''apps/web/lib/hooks/mutations.ts''),
           (''backend'', ''All write endpoints via apiClient''),
           (''frontend'', ''useMutation + toast from sonner or COSS''),
           (''data'', ''N/A''),
           (''quality'', ''Test onError calls toast''),
           (''cicd'', ''npm test''),
           (''deploy'', ''N/A'')],
        o_implementation := [''useCreateIntegration, useUpdateIntegration, useDeleteIntegration'',
          ''useCreateTicketProject, useUpdateTicketProject, useDeleteTicketProject'',
          ''useCreateRepo, useUpdateRepo, useDeleteRepo'',
          ''useCreateNotificationTarget, useUpdateNotificationTarget, useDeleteNotificationTarget'',
          (''useUpdateSettings '' @ em_dash @ '' PATCH /settings''),
          (''useTriggerPoll '' @ em_dash @ '' POST /poll/trigger''),
          ''useTestIntegration, useTestNotificationTarget'',
          ''onError: toast.error(message); onSuccess: invalidate + toast.success where appropriate''],
        o_acceptance := [(''Create integration invalidates ['' @ [CHR 0x27] @ ''integrations'' @ [CHR 0x27] @ '']''),
          (''Delete repo invalidates ['' @ [CHR 0x27] @ ''repos'' @ [CHR 0x27] @ ''] and ['' @ [CHR 0x27] @ ''status'' @ [CHR 0x27] @ '']''),
          (''useUpdateSettings invalidates ['' @ [CHR 0x27] @ ''settings'' @ [CHR 0x27] @ ''] and ['' @ [CHR 0x27] @ ''status'' @ [CHR 0x27] @ '']''),
          (''useTriggerPoll invalidates ['' @ [CHR 0x27] @ ''status'' @ [CHR 0x27] @ ''] on success''),
          ''API error message shown in error toast'',
          ''Test connection shows loading toast then success/failure'',
          ''409 conflict shows user-friendly message'',
          ''Mutations use credentials include via apiClient''],
        o_files := [''apps/web/lib/hooks/mutations.ts''],
        o_relatedTasks := [''P18-03'',
          ''P21-04'',
          ''P24-04'']\<rparr>)]"

definition P17_part3 :: "registration list" where
  "P17_part3 =
    [RegLeaf ''P17-06'' ''P17'' ''Add usePollRuns, usePollRun, and useTriggerPoll hooks'' ''web''
       (no_opts\<lparr>o_depends_on := [''P17-01'',
          ''P15-03''],
        o_context := Some (''Backend exposes GET /api/v1/poll/runs and GET /api/v1/poll/runs/{id} (P15-03, P15-04) plus POST /api/v1/poll/trigger (P15-02). The dashboard poll history UI (P20-06) and manual poll button (P20-02) require dedicated React Query hooks '' @ em_dash @ '' no ad-hoc fetch in components. Parity rule: every poll API endpoint has a named hook exported from lib/hooks.''),
        o_specs := [SPEC_api\<lparr>dl_note := Some ([CHR 0xC2, CHR 0xA7] @ ''7.1 poll/runs list, detail, and trigger'')\<rparr>, SPEC_ui\<lparr>dl_note := Some ([CHR 0xC2, CHR 0xA7] @ ''8.4 hook pattern '' @ em_dash @ '' extends useStatus/useSettings set'')\<rparr>, SPEC_mvp\<lparr>dl_note := Some ''AC #14 manual poll + run visibility''\<rparr>],
        o_stack := stackRefs
          [(''layout'', ''apps/web/lib/hooks/use-poll.ts''),
           (''backend'', ''Proxied via /api/go/api/v1/poll/*''),
           (''frontend'', (''useQuery + useMutation with query key ['' @ [CHR 0x27] @ ''poll-runs'' @ [CHR 0x27] @ '']'')),
           (''data'', (''Types mirror '' @ [CHR 0xC2, CHR 0xA7] @ ''7.1 poll run and event shapes'')),
           (''quality'', ''MSW tests for list, detail, trigger''),
           (''cicd'', ''npm test -- use-poll''),
           (''deploy'', ''N/A'')],
        o_implementation := [(''usePollRuns({ limit }) '' @ em_dash @ '' GET /poll/runs with pagination params''),
          (''usePollRun(id) '' @ em_dash @ '' GET /poll/runs/{id} enabled when id set''),
          (''useTriggerPoll '' @ em_dash @ '' POST /poll/trigger mutation; invalidates ['' @ [CHR 0x27] @ ''status'' @ [CHR 0x27] @ '','' @ [CHR 0x27] @ ''poll-runs'' @ [CHR 0x27] @ '']''),
          ''Export PollRun, PollRunEvent TypeScript types from API responses'',
          (''Handle 202 response from trigger '' @ em_dash @ '' return run id if present''),
          ''useTriggerPoll onError surfaces toast via mutations helper'',
          ''Re-export from lib/hooks/index.ts''],
        o_acceptance := [''usePollRuns fetches paginated run list'',
          ''usePollRun fetches single run with events[]'',
          ''useTriggerPoll POSTs to /poll/trigger'',
          ''Trigger success invalidates status and poll-runs queries'',
          ''Types include startedAt, finishedAt, status, reposChecked, ticketsCreated, ticketsSuperseded'',
          ''Event type includes action baseline|skip|create|supersede|merge|skip_open|error'',
          ''Hooks use apiClient with credentials include'',
          ''npm test -- use-poll passes''],
        o_files := [''apps/web/lib/hooks/use-poll.ts'',
          ''apps/web/lib/hooks/index.ts''],
        o_tests := [''npm test -- use-poll''],
        o_relatedTasks := [''P20-02'',
          ''P20-06'',
          ''P15-02'',
          ''P15-03'',
          ''P15-04'']\<rparr>)]"

definition registerP17 :: "registration list" where
  "registerP17 = P17_part1 @ P17_part2 @ P17_part3"

definition P18_part1 :: "registration list" where
  "P18_part1 =
    [RegEpic ''P18'' ''App shell & routing'' ''web''
       (no_opts\<lparr>o_depends_on := [''P17-02'',
          ''P00-04''],
        o_context := Some (''Authenticated pages share a COSS app shell: sidebar navigation, frame layout with breadcrumbs, global toaster, and loading spinner per specs.html '' @ [CHR 0xC2, CHR 0xA7] @ ''8.1. Next.js middleware redirects unauthenticated users to /login; protected layout wraps all (authenticated) routes. Particle references: p-frame-3, p-breadcrumb-3, p-toast-2, p-spinner-1 from coss.com/ui/r/*.json.''),
        o_specs := [SPEC_ui\<lparr>dl_note := Some ([CHR 0xC2, CHR 0xA7] @ ''8.1 shell particles '' @ em_dash @ '' Frame, Breadcrumb, Toaster, Spinner'')\<rparr>, SPEC_auth\<lparr>dl_note := Some ''Middleware auth redirect to /login''\<rparr>, SPEC_architecture\<lparr>dl_note := Some ''Route groups and protected layout''\<rparr>, SPEC_mvp\<lparr>dl_note := Some ''Nav links to all MVP pages''\<rparr>],
        o_stack := stackRefs
          [(''layout'', ''components/app-sidebar.tsx, app-frame.tsx, middleware.ts''),
           (''backend'', ''N/A''),
           (''frontend'', ''COSS Sidebar, Frame, Breadcrumb, Toaster''),
           (''data'', ''N/A''),
           (''quality'', ''Middleware unit tests''),
           (''cicd'', ''npm run build + lint''),
           (''deploy'', ''middleware runs on Edge or Node per Next config'')],
        o_implementation := [''Install COSS particles: p-frame-3, p-breadcrumb-3, p-toast-2, p-spinner-1'',
          ''Sidebar links: Dashboard, Repos, Integrations, Ticket Projects, Notifications, Settings'',
          ''Frame wraps page content with breadcrumb slot'',
          ''Toaster and Spinner in root layout.tsx'',
          ''middleware.ts checks session cookie or calls session endpoint'',
          ''(authenticated)/layout.tsx composes Sidebar + Frame''],
        o_acceptance := [''Sidebar shows all six nav links with active state'',
          ''Frame uses p-frame-3 layout pattern'',
          ''Breadcrumb uses p-breadcrumb-3 with home icon'',
          ''Toaster displays success/error toasts globally'',
          ''Unauthenticated / access redirects to /login'',
          ''/login accessible without auth'',
          ''Protected layout wraps dashboard and settings'',
          ''Spinner shown during route-level loading.tsx where used'']\<rparr>),
     RegLeaf ''P18-01'' ''P18'' ''Add SidebarProvider and navigation'' ''web''
       (no_opts\<lparr>o_context := Some ''Primary navigation lives in a persistent sidebar using COSS Sidebar primitives. Links must match MVP routes: /, /repos, /integrations, /ticket-projects, /notifications, /settings. SidebarProvider manages collapse state on desktop and sheet on mobile. Active link styling uses pathname from next/navigation.'',
        o_specs := [SPEC_ui\<lparr>dl_note := Some ([CHR 0xC2, CHR 0xA7] @ ''8.1 navigation link list'')\<rparr>, SPEC_mvp\<lparr>dl_note := Some ''All config pages reachable from nav''\<rparr>, SPEC_architecture\<lparr>dl_note := Some ''apps/web/components/app-sidebar.tsx''\<rparr>],
        o_stack := stackRefs
          [(''layout'', ''apps/web/components/app-sidebar.tsx''),
           (''backend'', ''N/A''),
           (''frontend'', ''COSS Sidebar, next/link''),
           (''data'', ''N/A''),
           (''quality'', ''Snapshot or RTL test for link hrefs''),
           (''cicd'', ''npm run lint''),
           (''deploy'', ''N/A'')],
        o_implementation := [''Create AppSidebar with SidebarProvider'',
          ''Nav items: Dashboard (/), Repos, Integrations, Ticket Projects, Notifications, Settings'',
          ''Highlight active route via usePathname()'',
          ''App title/logo in sidebar header'',
          (''Logout control in sidebar footer '' @ em_dash @ '' see P18-06 (required, not optional)''),
          ''Responsive: collapsible or sheet on narrow viewports''],
        o_acceptance := [''Links: Dashboard, Repos, Integrations, Ticket Projects, Notifications, Settings'',
          ''Each link navigates to correct path'',
          ''Active link visually distinct'',
          ''Sidebar renders inside authenticated layout only'',
          ''Keyboard navigation works on nav items'',
          ''Logout clears session and redirects to /login'',
          ''No broken links on empty app state'',
          (''Matches specs '' @ [CHR 0xC2, CHR 0xA7] @ ''8.1 route table'')],
        o_files := [''apps/web/components/app-sidebar.tsx''],
        o_relatedTasks := [''P18-05'']\<rparr>),
     RegLeaf ''P18-02'' ''P18'' ''Add Frame layout and breadcrumb'' ''web''
       (no_opts\<lparr>o_context := Some (''Page content sits inside a COSS Frame with optional breadcrumb trail per specs.html '' @ [CHR 0xC2, CHR 0xA7] @ ''8.1. Use particle p-frame-3 (https://coss.com/ui/r/p-frame-3.json) for separated header/content panels and p-breadcrumb-3 (https://coss.com/ui/r/p-breadcrumb-3.json) for sub-page context. Each page passes title and breadcrumb segments as props or slots. Frame provides consistent padding and max-width across all authenticated views.''),
        o_specs := [SPEC_ui\<lparr>dl_note := Some ([CHR 0xC2, CHR 0xA7] @ ''8.1 Frame + Breadcrumb particles'')\<rparr>, SPEC_mvp\<lparr>dl_note := Some ''Consistent page chrome for all admin pages''\<rparr>],
        o_stack := stackRefs
          [(''layout'', ''apps/web/components/app-frame.tsx''),
           (''backend'', ''N/A''),
           (''frontend'', ''p-frame-3, p-breadcrumb-3 from COSS registry''),
           (''data'', ''N/A''),
           (''quality'', ''Visual match to particle JSON''),
           (''cicd'', ''npm run build''),
           (''deploy'', ''N/A'')],
        o_implementation := [''Add shadcn/COSS Frame from https://coss.com/ui/r/p-frame-3.json'',
          ''Add Breadcrumb from https://coss.com/ui/r/p-breadcrumb-3.json'',
          ''AppFrame accepts title, breadcrumbs[], children'',
          ''Home breadcrumb links to dashboard /'',
          ''Export for use in (authenticated)/layout or per-page'',
          ''Page header slot for actions (e.g. Add button)''],
        o_acceptance := [''Frame layout matches p-frame-3 multiple panels pattern'',
          ''Breadcrumb shows home icon per p-breadcrumb-3'',
          (''Sub-pages show parent '' @ [CHR 0xE2, CHR 0x86, CHR 0x92] @ '' current trail''),
          ''Frame wraps children with consistent spacing'',
          ''Title displayed in frame header area'',
          ''Breadcrumb links are clickable except current page'',
          ''Works on mobile without horizontal overflow'',
          ''Particle JSON URLs referenced in component comments''],
        o_files := [''apps/web/components/app-frame.tsx''],
        o_relatedTasks := [''P18-05'']\<rparr>)]"

definition P18_part2 :: "registration list" where
  "P18_part2 =
    [RegLeaf ''P18-03'' ''P18'' ''Add global Toaster and Spinner'' ''web''
       (no_opts\<lparr>o_context := Some ''Global feedback components mount once in root layout.tsx. Toaster uses p-toast-2 (https://coss.com/ui/r/p-toast-2.json) for semantic success/error variants; Spinner uses p-spinner-1 (https://coss.com/ui/r/p-spinner-1.json) for loading states. Mutation hooks from P17-05 call toast() for errors and async operations. Spinner may wrap Suspense boundaries or inline button loading states.'',
        o_specs := [SPEC_ui\<lparr>dl_note := Some ([CHR 0xC2, CHR 0xA7] @ ''8.1 Toaster p-toast-2, Spinner p-spinner-1'')\<rparr>, SPEC_notifications\<lparr>dl_note := Some ''Toast for test notification feedback''\<rparr>],
        o_stack := stackRefs
          [(''layout'', ''apps/web/app/layout.tsx''),
           (''backend'', ''N/A''),
           (''frontend'', ''COSS Toaster, Spinner primitives''),
           (''data'', ''N/A''),
           (''quality'', ''Smoke: toast renders on trigger''),
           (''cicd'', ''npm run build''),
           (''deploy'', ''N/A'')],
        o_implementation := [''Install Toaster from https://coss.com/ui/r/p-toast-2.json'',
          ''Install Spinner from https://coss.com/ui/r/p-spinner-1.json'',
          ''Mount <Toaster /> in root layout after children'',
          ''Export toast helper wrapping COSS/sonner API'',
          ''Spinner component for consistent sizing'',
          ''Document toast usage in mutations.ts''],
        o_acceptance := [''Toaster mounted in root layout renders toasts'',
          ''Success toast uses semantic success styling'',
          ''Error toast uses semantic error styling'',
          ''Spinner displays when passed loading prop'',
          ''Toasts stack without overlapping nav'',
          ''toast() callable from mutation onError'',
          ''Promise toast pattern available for test buttons'',
          ''No duplicate Toaster instances''],
        o_files := [''apps/web/app/layout.tsx''],
        o_relatedTasks := [''P17-05'',
          ''P19-03'']\<rparr>),
     RegLeaf ''P18-04'' ''P18'' ''Add Next.js middleware auth redirect'' ''web''
       (no_opts\<lparr>o_depends_on := [''P17-02''],
        o_context := Some (''Edge middleware protects all (authenticated) routes by checking for a valid session before rendering. Unauthenticated requests to /, /repos, etc. redirect to /login with optional return URL. /login and /api/go paths must be excluded from auth check. Session check can inspect cookie presence or lightweight fetch '' @ em_dash @ '' prefer cookie name match for edge performance.''),
        o_specs := [SPEC_auth\<lparr>dl_note := Some (''Unauthenticated '' @ [CHR 0xE2, CHR 0x86, CHR 0x92] @ '' /login redirect'')\<rparr>, SPEC_ui\<lparr>dl_note := Some ([CHR 0xC2, CHR 0xA7] @ ''8 route protection'')\<rparr>, SPEC_api\<lparr>dl_note := Some ''Proxy routes must bypass middleware auth''\<rparr>],
        o_stack := stackRefs
          [(''layout'', ''apps/web/middleware.ts''),
           (''backend'', ''Session cookie set by Go login''),
           (''frontend'', ''Next.js middleware matcher config''),
           (''data'', ''N/A''),
           (''quality'', ''middleware.test.ts with mock request''),
           (''cicd'', ''npm test''),
           (''deploy'', ''Runs on Vercel/Node deployment'')],
        o_implementation := [''Create middleware.ts at apps/web root'',
          ''matcher: all except /login, /api/go, _next, static files'',
          ''Check session cookie exists (name from Go auth config)'',
          ''Redirect to /login?next=pathname when missing'',
          (''Allow /login when already authenticated '' @ [CHR 0xE2, CHR 0x86, CHR 0x92] @ '' redirect to /''),
          ''Export config.matcher array''],
        o_acceptance := [''Unauthenticated GET / redirects to /login'',
          ''Unauthenticated GET /repos redirects to /login'',
          ''/login loads without redirect when logged out'',
          ''/api/go/* requests not blocked by middleware'',
          ''Authenticated user accessing /login redirects to /'',
          ''next query param preserved for post-login redirect'',
          ''Static assets and _next not matched'',
          ''middleware.test.ts passes''],
        o_files := [''apps/web/middleware.ts''],
        o_relatedTasks := [''P17-02'',
          ''P18-05'']\<rparr>),
     RegLeaf ''P18-05'' ''P18'' ''Add protected layout wrapper'' ''web''
       (no_opts\<lparr>o_depends_on := [''P18-01'',
          ''P18-04''],
        o_context := Some ''The (authenticated)/layout.tsx composes SidebarProvider, AppSidebar, AppFrame, and QueryClientProvider for all protected pages. This is the single wrapper every dashboard and settings page inherits. Depends on sidebar (P18-01) and middleware (P18-04) being in place. Children render inside Frame content area.'',
        o_specs := [SPEC_ui\<lparr>dl_note := Some ([CHR 0xC2, CHR 0xA7] @ ''8.1 authenticated shell composition'')\<rparr>, SPEC_architecture\<lparr>dl_note := Some ''(authenticated) route group layout''\<rparr>, SPEC_auth\<lparr>dl_note := Some ''Layout only reachable after middleware pass''\<rparr>],
        o_stack := stackRefs
          [(''layout'', ''apps/web/app/(authenticated)/layout.tsx''),
           (''backend'', ''N/A''),
           (''frontend'', ''Sidebar + Frame + providers''),
           (''data'', ''N/A''),
           (''quality'', ''Integration: protected page renders shell''),
           (''cicd'', ''npm run build''),
           (''deploy'', ''N/A'')],
        o_implementation := [''Import SidebarProvider, AppSidebar, AppFrame'',
          ''Wrap children with QueryClientProvider if not in root'',
          ''Pass default breadcrumb from segment or let pages override'',
          ''Ensure layout is client or server component per COSS needs'',
          ''Add loading.tsx optional at group level'',
          ''Logout in sidebar footer''],
        o_acceptance := [''Dashboard at / shows sidebar and frame'',
          ''All authenticated routes share same shell'',
          ''/login does not render sidebar'',
          ''Children render inside frame content panel'',
          ''Query client available to all child hooks'',
          ''Layout does not flash unauthenticated content'',
          ''Mobile sidebar toggle works'',
          ''No duplicate providers on navigation''],
        o_files := [''apps/web/app/(authenticated)/layout.tsx''],
        o_relatedTasks := [''P20-01'',
          ''P21-01'',
          ''P25-01'']\<rparr>)]"

definition P18_part3 :: "registration list" where
  "P18_part3 =
    [RegLeaf ''P18-06'' ''P18'' ''Add sidebar logout control'' ''web''
       (no_opts\<lparr>o_depends_on := [''P18-01'',
          ''P17-02''],
        o_context := Some (''Backend POST /api/v1/auth/logout (P03-06) must have a visible UI control '' @ em_dash @ '' not optional. Sidebar footer hosts Sign out button calling useLogout from P17-02. Clears session cookie via proxy, invalidates useSession, redirects to /login. Required for operator session hygiene.''),
        o_specs := [SPEC_auth\<lparr>dl_note := Some ([CHR 0xC2, CHR 0xA7] @ ''3 POST /auth/logout clears session'')\<rparr>, SPEC_api\<lparr>dl_note := Some ([CHR 0xC2, CHR 0xA7] @ ''7.0 auth/logout endpoint'')\<rparr>, SPEC_ui\<lparr>dl_note := Some ([CHR 0xC2, CHR 0xA7] @ ''8.1 app shell '' @ em_dash @ '' operator controls in sidebar'')\<rparr>],
        o_stack := stackRefs
          [(''layout'', ''apps/web/components/app-sidebar.tsx footer''),
           (''backend'', ''POST /api/go/api/v1/auth/logout''),
           (''frontend'', ''p-button-1 ghost variant in sidebar footer''),
           (''data'', ''N/A''),
           (''quality'', (''RTL test: click logout '' @ [CHR 0xE2, CHR 0x86, CHR 0x92] @ '' redirect /login'')),
           (''cicd'', ''npm test -- sidebar''),
           (''deploy'', ''N/A'')],
        o_implementation := [''SidebarFooter with Sign out button (p-button-1)'',
          (''onClick '' @ [CHR 0xE2, CHR 0x86, CHR 0x92] @ '' useLogout.mutate()''),
          (''On success: router.push('' @ [CHR 0x27] @ ''/login'' @ [CHR 0x27] @ '')''),
          ''Show user email from useSession in footer when available'',
          ''Disable button while logout pending'',
          ''Toast on logout error''],
        o_acceptance := [''Sign out button visible on all authenticated pages'',
          ''Click calls POST /auth/logout through proxy'',
          ''Session cookie cleared after logout'',
          ''User redirected to /login'',
          ''useSession returns user:null after logout'',
          ''Protected routes inaccessible after logout without re-login'',
          ''Button accessible (keyboard + screen reader label)'',
          ''npm test covers logout click flow''],
        o_files := [''apps/web/components/app-sidebar.tsx''],
        o_tests := [''npm test -- sidebar''],
        o_relatedTasks := [''P03-06'',
          ''P17-02'',
          ''P18-01'']\<rparr>)]"

definition registerP18 :: "registration list" where
  "registerP18 = P18_part1 @ P18_part2 @ P18_part3"

definition P19_part1 :: "registration list" where
  "P19_part1 =
    [RegEpic ''P19'' ''Login page'' ''web''
       (no_opts\<lparr>o_depends_on := [''P18-03'',
          ''P17-02''],
        o_context := Some (''The login page is the only unauthenticated UI surface besides static assets. It uses COSS particles from specs.html '' @ [CHR 0xC2, CHR 0xA7] @ ''8.3 /login: p-card-1 centered container, p-field-2 required fields, p-button-1 submit, p-alert-7 on 401. Successful login sets session via Go proxy and redirects to dashboard or next param. No public sign-up '' @ em_dash @ '' MVP is single admin account seeded at deploy.''),
        o_specs := [SPEC_ui\<lparr>dl_note := Some ([CHR 0xC2, CHR 0xA7] @ ''8.3 /login '' @ em_dash @ '' p-card-1, p-field-2, p-alert-7'')\<rparr>, SPEC_auth\<lparr>dl_note := Some ''POST /auth/login email+password only''\<rparr>, SPEC_mvp\<lparr>dl_note := Some (''AC #1 '' @ em_dash @ '' admin can log in'')\<rparr>],
        o_stack := stackRefs
          [(''layout'', ''apps/web/app/login/''),
           (''backend'', ''Login via /api/go/api/v1/auth/login''),
           (''frontend'', ''COSS Card, Field, Button, Alert particles''),
           (''data'', ''N/A''),
           (''quality'', ''Vitest + RTL login tests P19-04''),
           (''cicd'', ''npm test -- login''),
           (''deploy'', ''APP_PUBLIC_URL for redirect if needed'')],
        o_implementation := [''Centered login page at /login'',
          ''Card from https://coss.com/ui/r/p-card-1.json'',
          ''Email and password fields from p-field-2'',
          ''Submit calls POST /auth/login via apiClient'',
          ''401 shows p-alert-7 error alert'',
          ''Success invalidates session and redirects to / or next''],
        o_acceptance := [''Login page renders centered card'',
          ''Email and password fields are required'',
          ''Valid credentials redirect to dashboard'',
          ''Invalid credentials show error alert without navigation'',
          ''Session cookie set after successful login'',
          ''next query param honored after login'',
          ''Page accessible without authentication'',
          (''Matches '' @ [CHR 0xC2, CHR 0xA7] @ ''8.3 particle mapping'')]\<rparr>),
     RegLeaf ''P19-01'' ''P19'' ''Build centered login card layout'' ''web''
       (no_opts\<lparr>o_context := Some (''Visual shell for login using p-card-1 (https://coss.com/ui/r/p-card-1.json) as a centered container on a minimal full-viewport layout. No form logic yet '' @ em_dash @ '' structure and typography only. Page should not include sidebar or authenticated frame.''),
        o_specs := [SPEC_ui\<lparr>dl_note := Some ([CHR 0xC2, CHR 0xA7] @ ''8.3 p-card-1 Basic card '' @ em_dash @ '' centered login container'')\<rparr>, SPEC_auth\<lparr>dl_note := Some ''Login route outside authenticated group''\<rparr>],
        o_stack := stackRefs
          [(''layout'', ''apps/web/app/login/page.tsx''),
           (''backend'', ''N/A''),
           (''frontend'', ''p-card-1 particle''),
           (''data'', ''N/A''),
           (''quality'', ''RTL renders card title''),
           (''cicd'', ''npm test''),
           (''deploy'', ''N/A'')],
        o_implementation := [''login/page.tsx with flex center min-h-screen'',
          ''Card component from COSS p-card-1'',
          ''Title: Sign in to Release Ops'',
          ''Slot for LoginForm child component'',
          ''No authenticated layout wrapper'',
          ''Metadata title for login page''],
        o_acceptance := [''p-card-1 centered on viewport'',
          ''Card visible without sidebar'',
          ''Responsive on mobile widths'',
          ''Title text present'',
          ''Login route at /login'',
          ''No auth required to view page'',
          ''Card has consistent padding per particle'',
          ''Placeholder for form inside card body''],
        o_files := [''apps/web/app/login/page.tsx''],
        o_relatedTasks := [''P19-02'']\<rparr>),
     RegLeaf ''P19-02'' ''P19'' ''Add email and password form fields'' ''web''
       (no_opts\<lparr>o_context := Some ''Login form fields use p-field-2 (https://coss.com/ui/r/p-field-2.json) required pattern for email and password. Password may use p-input-group-1 for visibility toggle if included in particle. Client-side HTML5 validation for required and email format. Submit button uses p-button-1 but wiring is P19-03.'',
        o_specs := [SPEC_ui\<lparr>dl_note := Some ([CHR 0xC2, CHR 0xA7] @ ''8.3 p-field-2 required '' @ em_dash @ '' Email, Password'')\<rparr>, SPEC_auth\<lparr>dl_note := Some ''POST body { email, password }''\<rparr>],
        o_stack := stackRefs
          [(''layout'', ''apps/web/app/login/login-form.tsx''),
           (''backend'', ''N/A''),
           (''frontend'', ''p-field-2, p-button-1''),
           (''data'', ''N/A''),
           (''quality'', ''RTL field labels and required attrs''),
           (''cicd'', ''npm test''),
           (''deploy'', ''N/A'')],
        o_implementation := [''LoginForm component with controlled or uncontrolled inputs'',
          ''Email input type=email required'',
          ''Password input type=password required'',
          ''Labels: Email, Password'',
          ''Submit button Sign in (disabled state in P19-03)'',
          ''Form prevents default on submit handler stub''],
        o_acceptance := [''p-field-2 required fields for email and password'',
          ''Empty submit blocked by HTML5 validation'',
          ''Invalid email format blocked'',
          ''Password field masks input'',
          ''Submit button labeled Sign in'',
          ''Fields accessible with associated labels'',
          (''Tab order: email '' @ [CHR 0xE2, CHR 0x86, CHR 0x92] @ '' password '' @ [CHR 0xE2, CHR 0x86, CHR 0x92] @ '' submit''),
          ''Form inside login card from P19-01''],
        o_files := [''apps/web/app/login/login-form.tsx''],
        o_relatedTasks := [''P19-03'']\<rparr>)]"

definition P19_part2 :: "registration list" where
  "P19_part2 =
    [RegLeaf ''P19-03'' ''P19'' ''Wire login submit and error alert'' ''web''
       (no_opts\<lparr>o_depends_on := [''P19-02''],
        o_context := Some ''Submit handler POSTs to /api/go/api/v1/auth/login via apiClient. On 200, invalidate useSession and redirect. On 401, show p-alert-7 (https://coss.com/ui/r/p-alert-7.json) error alert with generic invalid credentials message. Disable submit while pending; optional spinner on button. Never log password values.'',
        o_specs := [SPEC_ui\<lparr>dl_note := Some ([CHR 0xC2, CHR 0xA7] @ ''8.3 p-alert-7 error on login failure'')\<rparr>, SPEC_auth\<lparr>dl_note := Some ([CHR 0xC2, CHR 0xA7] @ ''7.0 POST /auth/login 401 on failure'')\<rparr>, SPEC_api\<lparr>dl_note := Some ''Login response { user: { id, email } }''\<rparr>],
        o_stack := stackRefs
          [(''layout'', ''login-form.tsx submit handler''),
           (''backend'', ''Go sets session cookie via proxy''),
           (''frontend'', ''useSession invalidate + router.push''),
           (''data'', ''N/A''),
           (''quality'', ''Mock 401 and 200 responses''),
           (''cicd'', ''npm test -- login''),
           (''deploy'', ''N/A'')],
        o_implementation := [(''onSubmit: apiClient.post('' @ [CHR 0x27] @ ''/auth/login'' @ [CHR 0x27] @ '', { email, password })''),
          ''onSuccess: invalidateQueries session, redirect to next or /'',
          ''on 401: set error state, render Alert p-alert-7'',
          ''Clear error on field change'',
          ''isSubmitting disables button'',
          ''useRouter from next/navigation for redirect''],
        o_acceptance := [''Valid login redirects to dashboard'',
          ''401 shows p-alert-7 error alert'',
          ''Error message does not leak whether email exists'',
          ''Session cookie present after success'',
          ''next= query param redirect works'',
          ''Submit disabled while request in flight'',
          ''Password not in URL or console logs'',
          ''Double submit prevented''],
        o_files := [''apps/web/app/login/login-form.tsx''],
        o_relatedTasks := [''P17-02'',
          ''P19-04'']\<rparr>),
     RegLeaf ''P19-04'' ''P19'' ''Add login page tests'' ''web''
       (no_opts\<lparr>o_depends_on := [''P19-03''],
        o_context := Some ''Vitest and React Testing Library tests cover render, validation, successful login redirect, and 401 error display. MSW mocks /auth/login endpoint. Run npm test -- login in CI. Tests prove MVP AC #1 at UI layer.'',
        o_specs := [SPEC_ui\<lparr>dl_note := Some ([CHR 0xC2, CHR 0xA7] @ ''8.3 login page behavior'')\<rparr>, SPEC_mvp\<lparr>dl_note := Some ''AC #1 admin login''\<rparr>, SPEC_ci\<lparr>dl_note := Some ''Web test job''\<rparr>],
        o_stack := stackRefs
          [(''layout'', ''apps/web/app/login/*.test.tsx''),
           (''backend'', ''MSW mock login API''),
           (''frontend'', ''RTL userEvent''),
           (''data'', ''N/A''),
           (''quality'', ''Coverage for happy and error paths''),
           (''cicd'', ''npm test -- login''),
           (''deploy'', ''N/A'')],
        o_implementation := [''Render login page with providers'',
          ''Test required field validation'',
          (''MSW 200 '' @ [CHR 0xE2, CHR 0x86, CHR 0x92] @ '' assert redirect or session invalidate''),
          (''MSW 401 '' @ [CHR 0xE2, CHR 0x86, CHR 0x92] @ '' assert alert visible''),
          ''Test next param redirect mock'',
          ''Mock useRouter push''],
        o_acceptance := [''npm test -- login passes'',
          ''Test renders email and password fields'',
          ''Test shows error on 401 response'',
          ''Test calls login API with credentials'',
          ''Test does not navigate on 401'',
          (''No flaky async '' @ em_dash @ '' await findByRole''),
          ''Tests isolated with MSW reset'',
          ''Runs in CI without Go server''],
        o_files := [''apps/web/app/login/login-form.test.tsx''],
        o_tests := [''npm test -- login''],
        o_relatedTasks := [''P19-01'',
          ''P19-02'',
          ''P19-03'']\<rparr>)]"

definition registerP19 :: "registration list" where
  "registerP19 = P19_part1 @ P19_part2"

end
