(* ===== verification/Roadmap_P20_P24.thy ===== *)
theory Roadmap_P20_P24
  imports Roadmap_Links
begin

section \<open>Tasks of the earlier roadmap (\<open>scripts/roadmap/epics/p15-p28.mjs\<close>)\<close>

text \<open>The calls of \<open>epic\<close> and \<open>leaf\<close> in their order; the calls of an epic with its leaves are in parts.\<close>

definition P20_part1 :: "registration list" where
  "P20_part1 =
    [RegEpic ''P20'' ''Dashboard page'' ''web''
       (no_opts\<lparr>o_depends_on := [''P18-05'',
          ''P17-03''],
        o_context := Some (''Dashboard is the home page at / showing last poll summary, manual poll trigger, and repo status table per specs.html '' @ [CHR 0xC2, CHR 0xA7] @ ''8.3 dashboard particles. Uses useStatus for data and mutation hooks for manual poll. Particles: p-card-10, p-badge-5, p-button-1, p-table-4, p-alert-6, p-empty-1.''),
        o_specs := [SPEC_ui\<lparr>dl_note := Some ([CHR 0xC2, CHR 0xA7] @ ''8.3 dashboard particles table'')\<rparr>, SPEC_api\<lparr>dl_note := Some ([CHR 0xC2, CHR 0xA7] @ ''7.1 GET /status response'')\<rparr>, SPEC_mvp\<lparr>dl_note := Some ''AC #14 dashboard and manual poll''\<rparr>, SPEC_domain\<lparr>dl_note := Some ''Repo status columns in table''\<rparr>],
        o_stack := stackRefs
          [(''layout'', ''apps/web/app/(authenticated)/page.tsx''),
           (''backend'', ''Status from proxied Go API''),
           (''frontend'', ''COSS Card, Badge, Table, Alert, Empty''),
           (''data'', (''N/A '' @ em_dash @ '' React Query cache'')),
           (''quality'', ''Dashboard Vitest suite P20-05''),
           (''cicd'', ''npm test -- dashboard''),
           (''deploy'', ''N/A'')],
        o_implementation := [''Dashboard page at (authenticated)/page.tsx'',
          ''Last poll card with p-card-10 stats'',
          ''Status badge p-badge-5 and Run poll now button'',
          ''Sortable repo table p-table-4'',
          ''Warning alert p-alert-6 for last run errors'',
          ''Empty state p-empty-1 with CTA to /repos''],
        o_acceptance := [''Dashboard loads at / inside app shell'',
          ''Last poll card shows run timestamps and counters'',
          ''Manual poll button triggers POST /poll/trigger'',
          ''Repo table lists all repos from status'',
          ''Errors from lastRun.errors shown in alert'',
          ''Empty repos shows empty state with link to /repos'',
          ''isPolling disables or shows loading on poll button'',
          ''Table sortable per p-table-4 TanStack pattern'']\<rparr>),
     RegLeaf ''P20-01'' ''P20'' ''Build last poll summary card'' ''web''
       (no_opts\<lparr>o_context := Some ''Summary card uses p-card-10 (https://coss.com/ui/r/p-card-10.json) frame header+footer showing last run startedAt, finishedAt, reposChecked, ticketsCreated, ticketsSuperseded. Data from useStatus().lastRun. Handle null lastRun with friendly first-run message. Poll interval from status.pollIntervalMinutes in card footer.'',
        o_specs := [SPEC_ui\<lparr>dl_note := Some ([CHR 0xC2, CHR 0xA7] @ ''8.3 p-card-10 Last poll summary card'')\<rparr>, SPEC_api\<lparr>dl_note := Some ([CHR 0xC2, CHR 0xA7] @ ''7.1 lastRun object fields'')\<rparr>],
        o_stack := stackRefs
          [(''layout'', ''apps/web/app/(authenticated)/page.tsx''),
           (''backend'', ''useStatus hook''),
           (''frontend'', ''p-card-10''),
           (''data'', ''N/A''),
           (''quality'', ''RTL with mock status fixture''),
           (''cicd'', ''npm test''),
           (''deploy'', ''N/A'')],
        o_implementation := [''PollSummaryCard component'',
          ''Display lastRun.startedAt, finishedAt formatted'',
          ''Show reposChecked, ticketsCreated, ticketsSuperseded'',
          ''Footer: Poll every N minutes'',
          ''Skeleton while useStatus loading'',
          ''Null lastRun: No polls yet message''],
        o_acceptance := [''p-card-10 with run stats when lastRun present'',
          ''Timestamps human-readable (locale format)'',
          ''Counters match API integers'',
          ''Poll interval shown from pollIntervalMinutes'',
          ''Loading skeleton during fetch'',
          ''Graceful empty when lastRun null'',
          ''Card header title Last poll'',
          ''No errors when repos array empty''],
        o_files := [''apps/web/app/(authenticated)/page.tsx''],
        o_relatedTasks := [''P20-02'']\<rparr>),
     RegLeaf ''P20-02'' ''P20'' ''Add run status badge and manual poll button'' ''web''
       (no_opts\<lparr>o_depends_on := [''P20-01''],
        o_context := Some ''Status badge uses p-badge-5 (https://coss.com/ui/r/p-badge-5.json) semantic colors for success/error/running. Run poll now button uses p-button-1 and calls useTriggerPoll mutation. Disable button when status.isPolling true. Invalidate status query on successful trigger.'',
        o_specs := [SPEC_ui\<lparr>dl_note := Some ([CHR 0xC2, CHR 0xA7] @ ''8.3 p-badge-5, p-button-1 Run poll now'')\<rparr>, SPEC_api\<lparr>dl_note := Some ''POST /poll/trigger 202''\<rparr>, SPEC_mvp\<lparr>dl_note := Some ''Manual poll on dashboard''\<rparr>],
        o_stack := stackRefs
          [(''layout'', ''apps/web/components/dashboard/poll-actions.tsx''),
           (''backend'', ''Trigger poll mutation''),
           (''frontend'', ''Badge + Button particles''),
           (''data'', ''N/A''),
           (''quality'', ''Test button disabled when polling''),
           (''cicd'', ''npm test''),
           (''deploy'', ''N/A'')],
        o_implementation := [''PollActions component with badge + button'',
          ''Badge maps lastRun.status to variant'',
          (''Button onClick '' @ [CHR 0xE2, CHR 0x86, CHR 0x92] @ '' useTriggerPoll.mutate()''),
          ''Disabled when isPolling or mutation pending'',
          ''Toast on trigger success/error'',
          ''Refetch status on interval while isPolling''],
        o_acceptance := [''Badge shows success/error/running semantic color'',
          ''Run poll now triggers POST /poll/trigger'',
          ''Button disabled while isPolling true'',
          ''Toast on successful 202 response'',
          ''Error toast on 409 concurrent poll'',
          ''Status refetches after trigger'',
          ''Button label Run poll now'',
          ''Badge updates when lastRun.status changes''],
        o_files := [''apps/web/components/dashboard/poll-actions.tsx''],
        o_relatedTasks := [''P15-02'',
          ''P17-05'']\<rparr>)]"

definition P20_part2 :: "registration list" where
  "P20_part2 =
    [RegLeaf ''P20-03'' ''P20'' ''Add repo status table'' ''web''
       (no_opts\<lparr>o_context := Some (''Repo status subset in dashboard table using p-table-4 (https://coss.com/ui/r/p-table-4.json) TanStack sort and pagination. Columns: source, project path, ticket project, last tag, open ticket, last error. Data from useStatus().repos '' @ em_dash @ '' not separate useRepos call. Sort by projectPath default.''),
        o_specs := [SPEC_ui\<lparr>dl_note := Some ([CHR 0xC2, CHR 0xA7] @ ''8.3 p-table-4 repo status subset'')\<rparr>, SPEC_api\<lparr>dl_note := Some ([CHR 0xC2, CHR 0xA7] @ ''7.1 repos[] in status response'')\<rparr>, SPEC_domain\<lparr>dl_note := Some ''openTicketTag, lastKnownTag columns''\<rparr>],
        o_stack := stackRefs
          [(''layout'', ''apps/web/components/dashboard/repo-table.tsx''),
           (''backend'', ''Status repos array''),
           (''frontend'', ''TanStack Table + p-table-4''),
           (''data'', ''N/A''),
           (''quality'', ''Sort column unit test''),
           (''cicd'', ''npm test''),
           (''deploy'', ''N/A'')],
        o_implementation := [''RepoStatusTable with TanStack Table'',
          ''Columns: sourceKind, projectPath, ticketProjectName, lastKnownTag, openTicketTag, lastError'',
          ''Client-side sort on columns'',
          ''Truncate long errors with tooltip'',
          ''Badge for source_kind p-badge-1 style'',
          ''Pagination if >10 repos optional''],
        o_acceptance := [''p-table-4 sortable columns'',
          ''All status.repos rows rendered'',
          ''sourceKind displayed as badge or text'',
          ''openTicketTag shown when ticket open'',
          ''lastError highlighted when non-null'',
          ''Empty table hidden when repos empty (empty state elsewhere)'',
          ''Sort toggles asc/desc on header click'',
          ''Accessible table headers''],
        o_files := [''apps/web/components/dashboard/repo-table.tsx''],
        o_relatedTasks := [''P20-04'']\<rparr>),
     RegLeaf ''P20-04'' ''P20'' ''Add error alert and empty state'' ''web''
       (no_opts\<lparr>o_context := Some ''When lastRun.errors is non-empty, show p-alert-6 (https://coss.com/ui/r/p-alert-6.json) warning with error messages. When repos array empty, show p-empty-1 (https://coss.com/ui/r/p-empty-1.json) with CTA link to /repos. These states are mutually exclusive with full dashboard content. Improves first-run onboarding.'',
        o_specs := [SPEC_ui\<lparr>dl_note := Some ([CHR 0xC2, CHR 0xA7] @ ''8.3 p-alert-6 warning, p-empty-1 no repos'')\<rparr>, SPEC_mvp\<lparr>dl_note := Some ''Dashboard usable on fresh install''\<rparr>],
        o_stack := stackRefs
          [(''layout'', ''apps/web/app/(authenticated)/page.tsx''),
           (''backend'', ''lastRun.errors from status''),
           (''frontend'', ''Alert + Empty particles''),
           (''data'', ''N/A''),
           (''quality'', ''RTL both states''),
           (''cicd'', ''npm test''),
           (''deploy'', ''N/A'')],
        o_implementation := [''Conditional render: errors alert above table'',
          ''Map lastRun.errors to alert description list'',
          ''Empty state when repos.length === 0'',
          ''CTA Button links to /repos Add your first repo'',
          ''Do not show empty when loading'',
          ''Alert dismissible optional''],
        o_acceptance := [''Warning alert when lastRun.errors non-empty'',
          ''Each error message listed in alert'',
          ''Empty state when no repos configured'',
          ''Empty CTA navigates to /repos'',
          ''No empty state while isLoading'',
          ''Alert uses p-alert-6 warning variant'',
          ''Empty uses p-empty-1 pattern'',
          ''Both states accessible to screen readers''],
        o_files := [''apps/web/app/(authenticated)/page.tsx''],
        o_relatedTasks := [''P20-05'']\<rparr>),
     RegLeaf ''P20-05'' ''P20'' ''Add dashboard page tests'' ''web''
       (no_opts\<lparr>o_depends_on := [''P20-04''],
        o_context := Some ''Integration tests for dashboard with MSW mocking GET /status and POST /poll/trigger. Verify card stats, table rows, empty state, error alert, and poll button behavior. npm test -- dashboard in CI.'',
        o_specs := [SPEC_ui\<lparr>dl_note := Some ([CHR 0xC2, CHR 0xA7] @ ''8.3 dashboard behavior'')\<rparr>, SPEC_mvp\<lparr>dl_note := Some ''Dashboard AC coverage''\<rparr>, SPEC_ci\<lparr>dl_note := Some ''Vitest in ci.yml''\<rparr>],
        o_stack := stackRefs
          [(''layout'', ''apps/web/app/(authenticated)/page.test.tsx''),
           (''backend'', ''MSW status fixtures''),
           (''frontend'', ''RTL within QueryClientProvider''),
           (''data'', ''N/A''),
           (''quality'', ''Multiple fixture scenarios''),
           (''cicd'', ''npm test -- dashboard''),
           (''deploy'', ''N/A'')],
        o_implementation := [''Mock status with lastRun and repos'',
          ''Assert poll card counters'',
          ''Assert table row count'',
          (''Mock empty repos '' @ [CHR 0xE2, CHR 0x86, CHR 0x92] @ '' empty state''),
          (''Mock errors '' @ [CHR 0xE2, CHR 0x86, CHR 0x92] @ '' alert visible''),
          (''Click poll button '' @ [CHR 0xE2, CHR 0x86, CHR 0x92] @ '' assert POST called'')],
        o_acceptance := [''npm test -- dashboard passes'',
          ''Test renders summary card with fixture data'',
          ''Test shows empty state without repos'',
          ''Test shows alert with errors fixture'',
          ''Test poll button calls trigger endpoint'',
          ''Test table renders correct column values'',
          ''Tests use MSW not live API'',
          ''No console errors in test output''],
        o_files := [''apps/web/app/(authenticated)/page.test.tsx''],
        o_tests := [''npm test -- dashboard''],
        o_relatedTasks := [''P20-01'',
          ''P20-02'',
          ''P20-03'',
          ''P20-04'']\<rparr>)]"

definition P20_part3 :: "registration list" where
  "P20_part3 =
    [RegLeaf ''P20-06'' ''P20'' ''Add poll run history table and run detail drawer'' ''web''
       (no_opts\<lparr>o_depends_on := [''P20-01'',
          ''P17-06''],
        o_context := Some (''Backend exposes GET /api/v1/poll/runs and GET /api/v1/poll/runs/{id} with events[] (P15-03, P15-04). Dashboard last-run card (P20-01) is insufficient alone '' @ em_dash @ '' operators need run history and per-repo event detail. This task closes backend/frontend drift: every poll API endpoint has a UI consumer. Use usePollRuns and usePollRun hooks from P17-06.''),
        o_specs := [SPEC_api\<lparr>dl_note := Some ([CHR 0xC2, CHR 0xA7] @ ''7.1 GET /poll/runs and /poll/runs/{id} with events'')\<rparr>, SPEC_ui\<lparr>dl_note := Some ([CHR 0xC2, CHR 0xA7] @ ''8.3 dashboard '' @ em_dash @ '' extend with run history; p-table-4, p-drawer-10'')\<rparr>, SPEC_domain\<lparr>dl_note := Some ([CHR 0xC2, CHR 0xA7] @ ''5.6 poll_run_events.action values in event list'')\<rparr>, SPEC_mvp\<lparr>dl_note := Some ''AC #14 operational visibility''\<rparr>],
        o_stack := stackRefs
          [(''layout'', ''apps/web/components/dashboard/poll-run-history.tsx''),
           (''backend'', ''usePollRuns, usePollRun hooks''),
           (''frontend'', ''p-table-4 for runs; p-drawer-10 for event timeline''),
           (''data'', ''Display action: baseline|skip|create|supersede|merge|skip_open|error''),
           (''quality'', ''MSW tests for history + drawer''),
           (''cicd'', ''npm test -- poll-run-history''),
           (''deploy'', ''N/A'')],
        o_implementation := [''PollRunHistory section below last-run card on dashboard'',
          ''Table columns: startedAt, status, reposChecked, ticketsCreated, ticketsSuperseded, errors count'',
          ''Row click opens drawer with usePollRun(id)'',
          ''Drawer lists poll_run_events: action, detail, createdAt, repo reference'',
          ''Badge colors per action type (p-badge-5 semantic)'',
          ''Empty state when no runs yet'',
          ''Pagination or load-more using poll/runs limit param'',
          ''Link from last-run card View all runs scrolls to history section''],
        o_acceptance := [''Dashboard renders poll run history table'',
          ''Table data from GET /poll/runs via usePollRuns'',
          ''Clicking run opens drawer with events from GET /poll/runs/{id}'',
          (''Each event shows action matching '' @ [CHR 0xC2, CHR 0xA7] @ ''5.6 enum''),
          ''Error events display repoId and message from detail'',
          ''Drawer uses p-drawer-10 particle'',
          ''Table uses p-table-4 sortable columns'',
          (''No direct fetch in component '' @ em_dash @ '' hooks only''),
          ''npm test -- poll-run-history passes''],
        o_files := [''apps/web/components/dashboard/poll-run-history.tsx'',
          ''apps/web/components/dashboard/poll-run-detail-drawer.tsx''],
        o_tests := [''npm test -- poll-run-history''],
        o_relatedTasks := [''P15-03'',
          ''P15-04'',
          ''P17-06'',
          ''P20-01'']\<rparr>)]"

definition registerP20 :: "registration list" where
  "registerP20 = P20_part1 @ P20_part2 @ P20_part3"

definition P21_part1 :: "registration list" where
  "P21_part1 =
    [RegEpic ''P21'' ''Integrations UI'' ''web''
       (no_opts\<lparr>o_depends_on := [''P18-05'',
          ''P17-04''],
        o_context := Some (''Integrations page at /integrations manages source and ticket provider credentials per specs.html '' @ [CHR 0xC2, CHR 0xA7] @ ''8.3 /integrations. Eight kind values supported; secrets never re-displayed after save. Test connection uses POST /integrations/{id}/test with toast feedback. Particles: p-table-2, p-drawer-10, p-field-1/2, p-input-1 password, p-toast-5.''),
        o_specs := [SPEC_ui\<lparr>dl_note := Some ([CHR 0xC2, CHR 0xA7] @ ''8.3 /integrations particle table'')\<rparr>, SPEC_api\<lparr>dl_note := Some ([CHR 0xC2, CHR 0xA7] @ ''7.3 Integrations CRUD + test'')\<rparr>, SPEC_providers\<lparr>dl_note := Some ([CHR 0xC2, CHR 0xA7] @ ''6.3 connectivity test per kind'')\<rparr>, SPEC_mvp\<lparr>dl_note := Some ''AC #2 all eight kinds''\<rparr>],
        o_stack := stackRefs
          [(''layout'', ''apps/web/app/(authenticated)/integrations/''),
           (''backend'', ''Integration API without secrets in GET''),
           (''frontend'', ''Table, Drawer, password input''),
           (''data'', ''N/A''),
           (''quality'', ''integrations test suite P21-06''),
           (''cicd'', ''npm test -- integrations''),
           (''deploy'', ''N/A'')],
        o_implementation := [''List table grouped or flat by kind'',
          ''Create/edit drawer with kind-specific baseUrl fields'',
          ''Secret field password type; blank on edit means unchanged'',
          ''Test connection button with promise toast'',
          ''Delete with 409 handling when referenced'',
          ''Mutation hooks from P17-05''],
        o_acceptance := [''Table lists all integrations with kind and name'',
          ''Create drawer supports all eight kind values'',
          ''Secret never shown after save (hasSecret only)'',
          ''Test connection shows success/failure toast'',
          ''Delete blocked with message when repos reference integration'',
          ''baseUrl shown for gitlab, gitea, forgejo, phasical, jira kinds'',
          (''Jira shows email field per '' @ [CHR 0xC2, CHR 0xA7] @ ''8.3''),
          (''Page matches '' @ [CHR 0xC2, CHR 0xA7] @ ''8.3 particle mapping'')]\<rparr>),
     RegLeaf ''P21-01'' ''P21'' ''Build integrations list table'' ''web''
       (no_opts\<lparr>o_context := Some ''Integrations list uses p-table-2 (https://coss.com/ui/r/p-table-2.json) card-style table showing name, kind, baseUrl, hasSecret, updatedAt. Row actions open edit drawer or delete. Add Integration button in page header. Data from useIntegrations hook.'',
        o_specs := [SPEC_ui\<lparr>dl_note := Some ([CHR 0xC2, CHR 0xA7] @ ''8.3 p-table-2 integration list'')\<rparr>, SPEC_api\<lparr>dl_note := Some ''GET /integrations list shape''\<rparr>],
        o_stack := stackRefs
          [(''layout'', ''apps/web/app/(authenticated)/integrations/page.tsx''),
           (''backend'', ''useIntegrations''),
           (''frontend'', ''p-table-2''),
           (''data'', ''N/A''),
           (''quality'', ''RTL table headers''),
           (''cicd'', ''npm test''),
           (''deploy'', ''N/A'')],
        o_implementation := [''IntegrationsPage with AppFrame title Integrations'',
          ''Table columns: name, kind, baseUrl, hasSecret badge, actions'',
          ''Add Integration opens create drawer'',
          ''Loading skeleton rows'',
          ''Empty state when no integrations'',
          ''Kind displayed as readable label''],
        o_acceptance := [''Table renders integration rows from API'',
          ''kind column shows github, gitlab, etc.'',
          ''hasSecret shown as Yes/No or icon'',
          ''Add button visible in header'',
          ''Edit action per row'',
          ''Empty state when list empty'',
          ''No secret column in table'',
          ''Page at /integrations''],
        o_files := [''apps/web/app/(authenticated)/integrations/page.tsx''],
        o_relatedTasks := [''P21-02'']\<rparr>),
     RegLeaf ''P21-02'' ''P21'' ''Add create and edit integration drawer'' ''web''
       (no_opts\<lparr>o_context := Some (''Create and edit use p-drawer-10 (https://coss.com/ui/r/p-drawer-10.json) mobile-friendly form. Kind select on create only; kind-specific baseUrl fields for gitlab, gitea, forgejo, phasical, jira per '' @ [CHR 0xC2, CHR 0xA7] @ ''8.3. Name field always required. Edit mode pre-fills name and baseUrl but not secret.''),
        o_specs := [SPEC_ui\<lparr>dl_note := Some ([CHR 0xC2, CHR 0xA7] @ ''8.3 p-drawer-10, p-field-1 base URL fields'')\<rparr>, SPEC_api\<lparr>dl_note := Some ''POST/PATCH integration body''\<rparr>, SPEC_providers\<lparr>dl_note := Some ''Kind-specific baseUrl requirements''\<rparr>],
        o_stack := stackRefs
          [(''layout'', ''apps/web/components/integrations/integration-drawer.tsx''),
           (''backend'', ''create/update mutations''),
           (''frontend'', ''Drawer + Select + Field''),
           (''data'', ''N/A''),
           (''quality'', ''Test kind switches visible fields''),
           (''cicd'', ''npm test''),
           (''deploy'', ''N/A'')],
        o_implementation := [''IntegrationDrawer open state from page'',
          ''Kind select on create (all 8 kinds)'',
          ''Conditional baseUrl field by kind'',
          ''Jira email field p-field-2'',
          ''Save calls create or patch mutation'',
          ''Close on success''],
        o_acceptance := [''Kind-specific base URL fields per spec'',
          ''Create sends kind, name, baseUrl?, secret'',
          ''Edit disables kind change'',
          ''Name required validation'',
          ''Drawer closes on successful save'',
          ''GitHub kind hides baseUrl'',
          ''GitLab shows baseUrl required'',
          ''Form resets on close''],
        o_files := [''apps/web/components/integrations/integration-drawer.tsx''],
        o_relatedTasks := [''P21-03'',
          ''P21-04'']\<rparr>)]"

definition P21_part2 :: "registration list" where
  "P21_part2 =
    [RegLeaf ''P21-03'' ''P21'' ''Add secret password input'' ''web''
       (no_opts\<lparr>o_context := Some ''Secret/token field uses p-input-1 (https://coss.com/ui/r/p-input-1.json) type password. On edit, placeholder indicates leave blank to keep existing; never fetch or display saved secret. Create requires non-empty secret. Aligns with API hasSecret flag in list.'',
        o_specs := [SPEC_ui\<lparr>dl_note := Some ([CHR 0xC2, CHR 0xA7] @ ''8.3 p-input-1 password '' @ em_dash @ '' never re-display'')\<rparr>, SPEC_api\<lparr>dl_note := Some ''secret one-time on POST; optional replace on PATCH''\<rparr>, SPEC_auth\<lparr>dl_note := Some ''Secrets encrypted at rest in Go''\<rparr>],
        o_stack := stackRefs
          [(''layout'', ''apps/web/components/integrations/secret-field.tsx''),
           (''backend'', ''N/A''),
           (''frontend'', ''Password input component''),
           (''data'', ''N/A''),
           (''quality'', ''Assert value cleared after save''),
           (''cicd'', ''npm test''),
           (''deploy'', ''N/A'')],
        o_implementation := [''SecretField reusable component'',
          ''type=password, autoComplete=off'',
          ''Create: required'',
          ''Edit: optional with helper text'',
          ''Clear local state after successful save'',
          ''Never log value''],
        o_acceptance := [''Never re-display secret after save'',
          ''Create requires secret non-empty'',
          ''Edit allows empty secret (unchanged)'',
          ''Helper text on edit: leave blank to keep'',
          ''Input type password masks characters'',
          ''hasSecret true in list after create without showing value'',
          ''autocomplete off on field'',
          ''No secret in React devtools persisted state''],
        o_files := [''apps/web/components/integrations/secret-field.tsx''],
        o_relatedTasks := [''P21-02'']\<rparr>),
     RegLeaf ''P21-04'' ''P21'' ''Add test connection button with toast'' ''web''
       (no_opts\<lparr>o_depends_on := [''P21-02''],
        o_context := Some ''Test connection button in drawer calls POST /integrations/{id}/test via useTestIntegration. Uses p-toast-5 (https://coss.com/ui/r/p-toast-5.json) promise pattern for async feedback. Only available after integration saved (has id). Maps Go test result to success/error toast.'',
        o_specs := [SPEC_ui\<lparr>dl_note := Some ([CHR 0xC2, CHR 0xA7] @ ''8.3 p-button-1 Test connection, p-toast-5 promise'')\<rparr>, SPEC_api\<lparr>dl_note := Some ''POST /integrations/{id}/test''\<rparr>, SPEC_providers\<lparr>dl_note := Some ([CHR 0xC2, CHR 0xA7] @ ''6.3 per-kind connectivity'')\<rparr>, SPEC_mvp\<lparr>dl_note := Some ''AC #5 integration test in UI''\<rparr>],
        o_stack := stackRefs
          [(''layout'', ''apps/web/components/integrations/test-button.tsx''),
           (''backend'', ''Test endpoint''),
           (''frontend'', ''Promise toast''),
           (''data'', ''N/A''),
           (''quality'', ''MSW test success/fail''),
           (''cicd'', ''npm test''),
           (''deploy'', ''N/A'')],
        o_implementation := [''TestConnectionButton in drawer footer'',
          ''Disabled until integration has id'',
          ''Calls useTestIntegration mutation'',
          ''toast.promise with loading/success/error'',
          ''Display message from API on failure'',
          ''Loading state on button''],
        o_acceptance := [''Test connection shows loading toast'',
          ''Success toast on 200 test result'',
          ''Error toast with API message on failure'',
          ''Button disabled during test'',
          ''Not shown on create before first save'',
          ''Works for all integration kinds'',
          ''Uses p-toast-5 promise pattern'',
          ''Does not expose secret in toast''],
        o_files := [''apps/web/components/integrations/test-button.tsx''],
        o_relatedTasks := [''P17-05'']\<rparr>),
     RegLeaf ''P21-05'' ''P21'' ''Add delete integration flow'' ''web''
       (no_opts\<lparr>o_context := Some (''Delete integration with confirmation alert-dialog. API returns 409 when repos or ticket projects still reference the integration '' @ em_dash @ '' show error toast with message. Successful delete invalidates integrations list and closes drawer if open.''),
        o_specs := [SPEC_api\<lparr>dl_note := Some ''DELETE /integrations/{id} 409 when referenced''\<rparr>, SPEC_ui\<lparr>dl_note := Some ''Delete confirmation pattern''\<rparr>],
        o_stack := stackRefs
          [(''layout'', ''apps/web/components/integrations/delete-integration.tsx''),
           (''backend'', ''useDeleteIntegration''),
           (''frontend'', ''Alert dialog confirm''),
           (''data'', ''N/A''),
           (''quality'', ''Test 409 error display''),
           (''cicd'', ''npm test''),
           (''deploy'', ''N/A'')],
        o_implementation := [''Delete button in table row and drawer'',
          ''Confirm dialog before delete'',
          ''useDeleteIntegration mutation'',
          ''Handle 409 with toast.error'',
          (''Invalidate ['' @ [CHR 0x27] @ ''integrations'' @ [CHR 0x27] @ ''] on success''),
          ''Close drawer if deleting current item''],
        o_acceptance := [''Confirm dialog before delete'',
          ''Successful delete removes row from table'',
          ''409 shows user-friendly error toast'',
          ''Delete invalidates integrations query'',
          ''Cancel closes dialog without API call'',
          ''Delete works from table row actions'',
          ''Referenced integration cannot be deleted'',
          ''No silent failure on error''],
        o_files := [''apps/web/components/integrations/delete-integration.tsx''],
        o_relatedTasks := [''P21-06'']\<rparr>)]"

definition P21_part3 :: "registration list" where
  "P21_part3 =
    [RegLeaf ''P21-06'' ''P21'' ''Add integrations UI tests'' ''web''
       (no_opts\<lparr>o_depends_on := [''P21-05''],
        o_context := Some (''Vitest suite covers list render, create flow, secret behavior, test button, delete, and 409 error. MSW mocks all '' @ [CHR 0xC2, CHR 0xA7] @ ''7.3 endpoints. npm test -- integrations.''),
        o_specs := [SPEC_ui\<lparr>dl_note := Some ([CHR 0xC2, CHR 0xA7] @ ''8.3 /integrations flows'')\<rparr>, SPEC_mvp\<lparr>dl_note := Some ''AC #2 integrations UI''\<rparr>, SPEC_ci\<lparr>dl_note := Some ''CI web tests''\<rparr>],
        o_stack := stackRefs
          [(''layout'', ''integrations/*.test.tsx''),
           (''backend'', ''MSW integrations API''),
           (''frontend'', ''RTL userEvent''),
           (''data'', ''N/A''),
           (''quality'', ''End-to-end UI flows mocked''),
           (''cicd'', ''npm test -- integrations''),
           (''deploy'', ''N/A'')],
        o_implementation := [''List render test with fixtures'',
          ''Open drawer and submit create'',
          ''Assert secret not in DOM after save'',
          ''Test connection mock'',
          ''Delete confirm flow'',
          ''409 delete error toast''],
        o_acceptance := [''npm test -- integrations passes'',
          ''Create integration API called with secret'',
          ''Secret field cleared after submit'',
          ''Test button triggers test endpoint'',
          ''Delete confirm removes item on 200'',
          ''409 delete shows error'',
          ''All tests use MSW'',
          ''No live network in CI''],
        o_files := [''apps/web/app/(authenticated)/integrations/page.test.tsx''],
        o_tests := [''npm test -- integrations''],
        o_relatedTasks := [''P21-01'',
          ''P21-02'',
          ''P21-03'',
          ''P21-04'',
          ''P21-05'']\<rparr>)]"

definition registerP21 :: "registration list" where
  "registerP21 = P21_part1 @ P21_part2 @ P21_part3"

definition P22_part1 :: "registration list" where
  "P22_part1 =
    [RegEpic ''P22'' ''Ticket projects UI'' ''web''
       (no_opts\<lparr>o_depends_on := [''P18-05'',
          ''P17-04''],
        o_context := Some (''Ticket projects page at /ticket-projects configures per-project status mapping and on_open_ticket_policy per specs.html '' @ [CHR 0xC2, CHR 0xA7] @ ''5.3 and '' @ [CHR 0xC2, CHR 0xA7] @ ''8.3. Multiple projects per ticket integration; create_config tabs vary by provider (Phasical, Jira, Linear). Particles: p-table-3, p-drawer-10, p-tabs-1, p-field-2 status mapping, p-alert-5 note.''),
        o_specs := [SPEC_ui\<lparr>dl_note := Some ([CHR 0xC2, CHR 0xA7] @ ''8.3 /ticket-projects particles'')\<rparr>, SPEC_ticketProjects\<lparr>dl_note := Some ([CHR 0xC2, CHR 0xA7] @ ''5.3 status mapping and policies'')\<rparr>, SPEC_api\<lparr>dl_note := Some ([CHR 0xC2, CHR 0xA7] @ ''7.4 Ticket Projects CRUD'')\<rparr>, SPEC_domain\<lparr>dl_note := Some ([CHR 0xC2, CHR 0xA7] @ ''5.2.1 on_open_ticket_policy values'')\<rparr>, SPEC_mvp\<lparr>dl_note := Some ''AC #3, #10, #11 ticket projects''\<rparr>],
        o_stack := stackRefs
          [(''layout'', ''apps/web/app/(authenticated)/ticket-projects/''),
           (''backend'', ''Ticket project API''),
           (''frontend'', ''Drawer, tabs, mapping form''),
           (''data'', ''N/A''),
           (''quality'', ''ticket-projects tests P22-06''),
           (''cicd'', ''npm test -- ticket-projects''),
           (''deploy'', ''N/A'')],
        o_implementation := [''Table grouped by integration'',
          ''Drawer create/edit with integration select (ticket kinds only)'',
          ''create_config tabs per provider kind'',
          ''Status mapping arrays for open/done/cancelled + superseded'',
          ''on_open_ticket_policy select: supersede, merge, skip_if_open'',
          ''Alert note: mapping differs per project''],
        o_acceptance := [''Table lists ticket projects with integration name'',
          ''Create requires ticket integration (phasical, jira, linear)'',
          (''statusMapping saved per '' @ [CHR 0xC2, CHR 0xA7] @ ''7.4 JSON shape''),
          ''onOpenTicketPolicy select with three values'',
          ''create_config tabs switch by integration kind'',
          ''externalProjectId and display name fields'',
          ''Delete 409 when repos reference project'',
          ''Alert explains per-project mapping'']\<rparr>),
     RegLeaf ''P22-01'' ''P22'' ''Build ticket projects table'' ''web''
       (no_opts\<lparr>o_context := Some ''Project list uses p-table-3 (https://coss.com/ui/r/p-table-3.json) grouped by integration. Columns: name, externalProjectId, integration, policy, actions. useTicketProjects hook loads data. Filter ticket integrations for create button context.'',
        o_specs := [SPEC_ui\<lparr>dl_note := Some ([CHR 0xC2, CHR 0xA7] @ ''8.3 p-table-3 project list grouped by integration'')\<rparr>, SPEC_api\<lparr>dl_note := Some ''GET /ticket-projects''\<rparr>, SPEC_ticketProjects\<lparr>dl_note := Some ([CHR 0xC2, CHR 0xA7] @ ''5.3 multiple projects per integration'')\<rparr>],
        o_stack := stackRefs
          [(''layout'', ''apps/web/app/(authenticated)/ticket-projects/page.tsx''),
           (''backend'', ''useTicketProjects''),
           (''frontend'', ''p-table-3''),
           (''data'', ''N/A''),
           (''quality'', ''RTL grouped rows''),
           (''cicd'', ''npm test''),
           (''deploy'', ''N/A'')],
        o_implementation := [''TicketProjectsPage with frame title'',
          ''Table with integration grouping header rows'',
          ''Columns: name, external id, policy badge'',
          ''Add Ticket Project button'',
          ''Edit/delete row actions'',
          ''Empty state when none''],
        o_acceptance := [''Table shows all ticket projects'',
          ''Grouped or sorted by integration name'',
          ''Policy displayed as readable label'',
          ''externalProjectId column present'',
          ''Add button opens drawer'',
          ''Empty state when no projects'',
          ''Page at /ticket-projects'',
          ''No create_config secrets in table''],
        o_files := [''apps/web/app/(authenticated)/ticket-projects/page.tsx''],
        o_relatedTasks := [''P22-02'']\<rparr>),
     RegLeaf ''P22-02'' ''P22'' ''Add create and edit drawer'' ''web''
       (no_opts\<lparr>o_context := Some ''Create/edit drawer uses p-drawer-10 (https://coss.com/ui/r/p-drawer-10.json). Integration select filtered to ticket kinds only (phasical, jira, linear). Fields: externalProjectId, display name via p-field-1. Foundation for tabs and mapping in later leaves.'',
        o_specs := [SPEC_ui\<lparr>dl_note := Some ([CHR 0xC2, CHR 0xA7] @ ''8.3 p-drawer-10, p-select-1 integration, p-field-1 ids'')\<rparr>, SPEC_api\<lparr>dl_note := Some ''POST /ticket-projects body''\<rparr>],
        o_stack := stackRefs
          [(''layout'', ''apps/web/components/ticket-projects/project-drawer.tsx''),
           (''backend'', ''create/update mutations''),
           (''frontend'', ''p-drawer-10''),
           (''data'', ''N/A''),
           (''quality'', ''Test integration filter''),
           (''cicd'', ''npm test''),
           (''deploy'', ''N/A'')],
        o_implementation := [''ProjectDrawer component'',
          ''Integration select from useIntegrations filtered'',
          ''externalProjectId and name fields'',
          ''Create vs edit mode'',
          ''Save POST or PATCH'',
          ''Slots for tabs and mapping subforms''],
        o_acceptance := [''p-drawer-10 used for create/edit'',
          ''Integration select shows ticket kinds only'',
          ''externalProjectId required'',
          ''Display name required'',
          ''Edit pre-fills fields'',
          ''Create POST sends integrationId'',
          ''Drawer closes on success'',
          ''Validation errors from API shown''],
        o_files := [''apps/web/components/ticket-projects/project-drawer.tsx''],
        o_relatedTasks := [''P22-03'',
          ''P22-04'',
          ''P22-05'']\<rparr>)]"

definition P22_part2 :: "registration list" where
  "P22_part2 =
    [RegLeaf ''P22-03'' ''P22'' ''Add provider-specific create_config tabs'' ''web''
       (no_opts\<lparr>o_context := Some (''create_config subform uses p-tabs-1 (https://coss.com/ui/r/p-tabs-1.json) '' @ em_dash @ '' one tab panel per ticket provider kind with fields for issueType, priority, teamId, etc. per '' @ [CHR 0xC2, CHR 0xA7] @ ''7.4 examples. Tab visible set driven by selected integration kind. JSON stored in createConfig field.''),
        o_specs := [SPEC_ui\<lparr>dl_note := Some ([CHR 0xC2, CHR 0xA7] @ ''8.3 p-tabs-1 create_config per provider'')\<rparr>, SPEC_api\<lparr>dl_note := Some ''createConfig object in POST body''\<rparr>, SPEC_providers\<lparr>dl_note := Some ''Ticket provider create payloads''\<rparr>],
        o_stack := stackRefs
          [(''layout'', ''apps/web/components/ticket-projects/create-config-tabs.tsx''),
           (''backend'', ''Provider-specific JSON schema''),
           (''frontend'', ''Tabs per kind''),
           (''data'', ''N/A''),
           (''quality'', ''Test Phasical vs Jira fields''),
           (''cicd'', ''npm test''),
           (''deploy'', ''N/A'')],
        o_implementation := [''CreateConfigTabs reads integration kind'',
          ''Phasical tab: default fields per spec'',
          ''Jira tab: issueType, priority'',
          ''Linear tab: teamId or equivalent'',
          ''Serialize to createConfig on save'',
          ''Parse existing createConfig on edit''],
        o_acceptance := [''Tabs switch fields by integration kind'',
          ''Phasical createConfig fields match spec example'',
          ''Jira issueType and priority inputs'',
          ''Linear team fields present'',
          ''createConfig included in POST/PATCH body'',
          ''Invalid JSON prevented by form validation'',
          ''Tabs hidden until integration selected'',
          ''Edit loads existing createConfig values''],
        o_files := [''apps/web/components/ticket-projects/create-config-tabs.tsx''],
        o_relatedTasks := [''P22-02'']\<rparr>),
     RegLeaf ''P22-04'' ''P22'' ''Add status mapping form'' ''web''
       (no_opts\<lparr>o_context := Some (''Status mapping form uses p-field-2 (https://coss.com/ui/r/p-field-2.json) for open/done/cancelled status arrays (comma-separated or multi-input) and superseded single value. Critical for per-project ticket state detection per '' @ [CHR 0xC2, CHR 0xA7] @ ''5.3. p-alert-5 note that mapping differs per project.''),
        o_specs := [SPEC_ticketProjects\<lparr>dl_note := Some ([CHR 0xC2, CHR 0xA7] @ ''5.3 status_mapping open/done/cancelled/superseded'')\<rparr>, SPEC_ui\<lparr>dl_note := Some ([CHR 0xC2, CHR 0xA7] @ ''8.3 p-field-2 mapping, p-alert-5 note'')\<rparr>, SPEC_mvp\<lparr>dl_note := Some ''AC #11 per-project mapping''\<rparr>],
        o_stack := stackRefs
          [(''layout'', ''apps/web/components/ticket-projects/status-mapping-form.tsx''),
           (''backend'', ''statusMapping in API''),
           (''frontend'', ''Field arrays + alert''),
           (''data'', ''N/A''),
           (''quality'', ''Serialize arrays correctly''),
           (''cicd'', ''npm test''),
           (''deploy'', ''N/A'')],
        o_implementation := [''StatusMappingForm subcomponent'',
          ''Inputs for open[], done[], cancelled[] arrays'',
          ''superseded single string field'',
          ''p-alert-5 info: mapping is different per project'',
          ''Validate non-empty open and done arrays'',
          ''Map to statusMapping camelCase JSON''],
        o_acceptance := [''open, done, cancelled arrays editable'',
          ''superseded field for supersede target status'',
          ''Alert note visible per p-alert-5'',
          (''Saved mapping matches '' @ [CHR 0xC2, CHR 0xA7] @ ''7.4 JSON shape''),
          ''Empty open array blocked on submit'',
          ''Comma-separated or tag input UX documented'',
          ''Edit loads existing mapping arrays'',
          ''Different projects can have different mappings''],
        o_files := [''apps/web/components/ticket-projects/status-mapping-form.tsx''],
        o_relatedTasks := [''P22-05'']\<rparr>),
     RegLeaf ''P22-05'' ''P22'' ''Add on_open_ticket_policy select'' ''web''
       (no_opts\<lparr>o_context := Some (''Policy select uses p-select-1 (https://coss.com/ui/r/p-select-1.json) with values supersede, merge, skip_if_open per '' @ [CHR 0xC2, CHR 0xA7] @ ''5.2.1. Default supersede for new projects. Help text explains behavior on new release when open ticket exists.''),
        o_specs := [SPEC_domain\<lparr>dl_note := Some ([CHR 0xC2, CHR 0xA7] @ ''5.2.1 on_open_ticket_policy behaviors'')\<rparr>, SPEC_ui\<lparr>dl_note := Some ([CHR 0xC2, CHR 0xA7] @ ''8.3 p-select-1 on_open_ticket_policy'')\<rparr>, SPEC_mvp\<lparr>dl_note := Some ''AC #9, #10 policy behaviors''\<rparr>],
        o_stack := stackRefs
          [(''layout'', ''apps/web/components/ticket-projects/policy-select.tsx''),
           (''backend'', ''onOpenTicketPolicy in API''),
           (''frontend'', ''Select with labels''),
           (''data'', ''N/A''),
           (''quality'', ''All three values selectable''),
           (''cicd'', ''npm test''),
           (''deploy'', ''N/A'')],
        o_implementation := [''PolicySelect component'',
          ''Options: supersede, merge, skip_if_open'',
          ''Human labels and descriptions'',
          ''Default supersede on create'',
          ''Included in drawer save payload'',
          ''Show in table as badge''],
        o_acceptance := [''Select offers supersede, merge, skip_if_open'',
          ''Default value supersede on new project'',
          ''Value saved as onOpenTicketPolicy'',
          ''Help text describes each policy'',
          ''Edit shows current policy'',
          ''Required field validation'',
          ''Policy visible in table list'',
          (''Matches '' @ [CHR 0xC2, CHR 0xA7] @ ''5.2.1 domain rules'')],
        o_files := [''apps/web/components/ticket-projects/policy-select.tsx''],
        o_relatedTasks := [''P22-06'']\<rparr>)]"

definition P22_part3 :: "registration list" where
  "P22_part3 =
    [RegLeaf ''P22-06'' ''P22'' ''Add ticket projects UI tests'' ''web''
       (no_opts\<lparr>o_depends_on := [''P22-05''],
        o_context := Some (''Test suite for ticket projects CRUD, tabs, mapping form, and policy select. MSW mocks '' @ [CHR 0xC2, CHR 0xA7] @ ''7.4. npm test -- ticket-projects.''),
        o_specs := [SPEC_ui\<lparr>dl_note := Some ([CHR 0xC2, CHR 0xA7] @ ''8.3 /ticket-projects'')\<rparr>, SPEC_ticketProjects\<lparr>dl_note := Some ([CHR 0xC2, CHR 0xA7] @ ''5.3 mapping validation'')\<rparr>, SPEC_ci\<lparr>dl_note := Some ''CI web job''\<rparr>],
        o_stack := stackRefs
          [(''layout'', ''ticket-projects/*.test.tsx''),
           (''backend'', ''MSW ticket-projects''),
           (''frontend'', ''RTL''),
           (''data'', ''N/A''),
           (''quality'', ''Full drawer flow test''),
           (''cicd'', ''npm test -- ticket-projects''),
           (''deploy'', ''N/A'')],
        o_implementation := [''List render test'',
          ''Create project with mapping'',
          ''Tab fields per kind'',
          ''Policy select value in POST body'',
          ''Edit pre-fill test'',
          ''Delete flow''],
        o_acceptance := [''npm test -- ticket-projects passes'',
          ''Create sends statusMapping object'',
          ''Policy included in payload'',
          ''createConfig varies by kind test'',
          ''Mapping alert rendered'',
          ''Edit loads existing data'',
          ''MSW isolation between tests'',
          ''No regression on integrations filter''],
        o_files := [''apps/web/app/(authenticated)/ticket-projects/page.test.tsx''],
        o_tests := [''npm test -- ticket-projects''],
        o_relatedTasks := [''P22-01'',
          ''P22-02'',
          ''P22-03'',
          ''P22-04'',
          ''P22-05'']\<rparr>)]"

definition registerP22 :: "registration list" where
  "registerP22 = P22_part1 @ P22_part2 @ P22_part3"

definition P23_part1 :: "registration list" where
  "P23_part1 =
    [RegEpic ''P23'' ''Monitored repos UI'' ''web''
       (no_opts\<lparr>o_depends_on := [''P18-05'',
          ''P17-03''],
        o_context := Some (''Repos page at /repos manages monitored repositories per specs.html '' @ [CHR 0xC2, CHR 0xA7] @ ''8.3 /repos. Table with checkboxes, dialog form for add/edit, source and ticket project selects, notification target checkboxes, enabled toggle, delete confirm. Combines source_kind, integrations, ticket projects, and notification targets.''),
        o_specs := [SPEC_ui\<lparr>dl_note := Some ([CHR 0xC2, CHR 0xA7] @ ''8.3 /repos particles'')\<rparr>, SPEC_api\<lparr>dl_note := Some ([CHR 0xC2, CHR 0xA7] @ ''7.5 Monitored Repos CRUD'')\<rparr>, SPEC_domain\<lparr>dl_note := Some ''sourceKind + ticketProjectId pairing''\<rparr>, SPEC_mvp\<lparr>dl_note := Some ''AC #4 any source/ticket combination''\<rparr>],
        o_stack := stackRefs
          [(''layout'', ''apps/web/app/(authenticated)/repos/''),
           (''backend'', ''Repos API + related selects data''),
           (''frontend'', ''Table, Dialog, Select, Checkbox, Switch''),
           (''data'', ''N/A''),
           (''quality'', ''repos tests P23-06''),
           (''cicd'', ''npm test -- repos''),
           (''deploy'', ''N/A'')],
        o_implementation := [''Table p-table-3 with row checkboxes'',
          ''Dialog p-dialog-1 add/edit form'',
          ''sourceKind and integration selects'',
          ''ticketProjectId select filtered by ticket integration'',
          ''notificationTargetIds checkbox group'',
          ''Enabled switch and delete alert-dialog''],
        o_acceptance := [''Table lists repos with source and ticket project'',
          (''Add dialog creates repo per '' @ [CHR 0xC2, CHR 0xA7] @ ''7.5 POST body''),
          ''sourceKind select drives integration visibility'',
          ''ticketProject select required'',
          ''Notification targets optional multi-select'',
          ''Enabled toggle updates via PATCH'',
          ''Delete confirms via p-alert-dialog-1'',
          ''Badges for source_kind in table'']\<rparr>),
     RegLeaf ''P23-01'' ''P23'' ''Build repos table with checkboxes'' ''web''
       (no_opts\<lparr>o_context := Some ''Repos table uses p-table-3 (https://coss.com/ui/r/p-table-3.json) with checkboxes for optional bulk enable/disable. Columns: source, path, ticket project, enabled, last tag, actions. useRepos hook for data. Row click or edit opens dialog.'',
        o_specs := [SPEC_ui\<lparr>dl_note := Some ([CHR 0xC2, CHR 0xA7] @ ''8.3 p-table-3 checkboxes repo list'')\<rparr>, SPEC_api\<lparr>dl_note := Some ''GET /repos''\<rparr>],
        o_stack := stackRefs
          [(''layout'', ''apps/web/app/(authenticated)/repos/page.tsx''),
           (''backend'', ''useRepos''),
           (''frontend'', ''p-table-3 checkboxes''),
           (''data'', ''N/A''),
           (''quality'', ''Checkbox selection test''),
           (''cicd'', ''npm test''),
           (''deploy'', ''N/A'')],
        o_implementation := [''ReposPage with Add Repo button'',
          ''Table with checkbox column'',
          ''Display sourceKind badge p-badge-1'',
          ''ticket project name column'',
          ''Enabled indicator'',
          ''Row edit/delete actions''],
        o_acceptance := [''Table renders all monitored repos'',
          ''Checkbox column per p-table-3'',
          ''source_kind badge visible'',
          ''ticket project name shown'',
          ''Enabled state visible per row'',
          ''Add Repo opens dialog'',
          ''Empty state when no repos'',
          ''Page at /repos''],
        o_files := [''apps/web/app/(authenticated)/repos/page.tsx''],
        o_relatedTasks := [''P23-02'']\<rparr>),
     RegLeaf ''P23-02'' ''P23'' ''Add add and edit repo dialog'' ''web''
       (no_opts\<lparr>o_context := Some ''Add/edit repo uses p-dialog-1 (https://coss.com/ui/r/p-dialog-1.json) form layout. projectPath text field, enabled switch stub. Full selects added in P23-03. Dialog mode create vs edit from row action.'',
        o_specs := [SPEC_ui\<lparr>dl_note := Some ([CHR 0xC2, CHR 0xA7] @ ''8.3 p-dialog-1 Add / Edit Repo'')\<rparr>, SPEC_api\<lparr>dl_note := Some ''POST/PATCH /repos''\<rparr>],
        o_stack := stackRefs
          [(''layout'', ''apps/web/components/repos/repo-dialog.tsx''),
           (''backend'', ''create/update repo mutations''),
           (''frontend'', ''Dialog form''),
           (''data'', ''N/A''),
           (''quality'', ''Open/close dialog test''),
           (''cicd'', ''npm test''),
           (''deploy'', ''N/A'')],
        o_implementation := [''RepoDialog controlled open state'',
          ''projectPath required field'',
          ''Title Add Repo vs Edit Repo'',
          ''Save button triggers mutation'',
          ''Cancel closes without save'',
          ''Form reset on close''],
        o_acceptance := [''Dialog opens for add and edit'',
          ''projectPath required'',
          ''Create POST on save for new repo'',
          ''Edit PATCH on save for existing'',
          ''Dialog closes on successful save'',
          ''Cancel discards changes'',
          ''Form clears when reopened for add'',
          ''Uses p-dialog-1 form pattern''],
        o_files := [''apps/web/components/repos/repo-dialog.tsx''],
        o_relatedTasks := [''P23-03'',
          ''P23-04'',
          ''P23-05'']\<rparr>)]"

definition P23_part2 :: "registration list" where
  "P23_part2 =
    [RegLeaf ''P23-03'' ''P23'' ''Add source and ticket project selects'' ''web''
       (no_opts\<lparr>o_context := Some ''Source configuration uses p-select-1 (https://coss.com/ui/r/p-select-1.json) for sourceKind (github, gitlab, gitea, forgejo, codeberg) and optional sourceIntegrationId when kind requires PAT. ticketProjectId select lists all ticket projects. Validates combinations per MVP AC #4.'',
        o_specs := [SPEC_ui\<lparr>dl_note := Some ([CHR 0xC2, CHR 0xA7] @ ''8.3 p-select-1 source kind, integration, ticket project'')\<rparr>, SPEC_api\<lparr>dl_note := Some ([CHR 0xC2, CHR 0xA7] @ ''7.5 POST body fields'')\<rparr>, SPEC_mvp\<lparr>dl_note := Some ''AC #4 any source/ticket combo''\<rparr>],
        o_stack := stackRefs
          [(''layout'', ''apps/web/components/repos/repo-form.tsx''),
           (''backend'', ''useIntegrations + useTicketProjects''),
           (''frontend'', ''Select fields''),
           (''data'', ''N/A''),
           (''quality'', ''Test kind changes integration list''),
           (''cicd'', ''npm test''),
           (''deploy'', ''N/A'')],
        o_implementation := [''sourceKind select all five source kinds'',
          ''sourceIntegrationId select filtered by kind'',
          ''GitHub may allow null integration if env token'',
          ''ticketProjectId select required'',
          ''Disable save until ticket project chosen'',
          ''Edit mode pre-selects values''],
        o_acceptance := [''sourceKind select lists all MVP source kinds'',
          ''sourceIntegrationId filtered by selected kind'',
          ''ticketProjectId required before save'',
          ''Any valid source+ticket combo submittable'',
          ''Edit shows current selections'',
          ''Integration select hidden when not needed'',
          ''Validation message when ticket project missing'',
          (''POST body matches '' @ [CHR 0xC2, CHR 0xA7] @ ''7.5 shape'')],
        o_files := [''apps/web/components/repos/repo-form.tsx''],
        o_relatedTasks := [''P23-02'']\<rparr>),
     RegLeaf ''P23-04'' ''P23'' ''Add notification targets checkbox group'' ''web''
       (no_opts\<lparr>o_context := Some ''Optional notification targets per repo via p-checkbox-group-1 (https://coss.com/ui/r/p-checkbox-group-1.json). Lists enabled targets from useNotificationTargets. Maps to notificationTargetIds array in POST/PATCH. Empty means no per-repo overrides (global targets still apply per domain rules).'',
        o_specs := [SPEC_ui\<lparr>dl_note := Some ([CHR 0xC2, CHR 0xA7] @ ''8.3 p-checkbox-group-1 notification targets per repo'')\<rparr>, SPEC_notifications\<lparr>dl_note := Some ([CHR 0xC2, CHR 0xA7] @ ''5.5 per-repo target assignment'')\<rparr>, SPEC_api\<lparr>dl_note := Some ''notificationTargetIds in repo body''\<rparr>],
        o_stack := stackRefs
          [(''layout'', ''apps/web/components/repos/notification-targets-field.tsx''),
           (''backend'', ''useNotificationTargets''),
           (''frontend'', ''Checkbox group''),
           (''data'', ''N/A''),
           (''quality'', ''Selected ids in payload''),
           (''cicd'', ''npm test''),
           (''deploy'', ''N/A'')],
        o_implementation := [''NotificationTargetsField component'',
          ''Checkbox per enabled target'',
          ''Label shows target name'',
          ''Controlled selectedIds state'',
          ''Include in repo form save'',
          (''Optional '' @ em_dash @ '' none selected sends [] or omit'')],
        o_acceptance := [''All enabled targets listed as checkboxes'',
          ''Selected ids sent as notificationTargetIds'',
          ''Edit pre-checks assigned targets'',
          ''Uncheck removes id from array'',
          ''Empty selection allowed'',
          ''Disabled targets not shown'',
          ''Accessible group label'',
          ''Works inside repo dialog form''],
        o_files := [''apps/web/components/repos/notification-targets-field.tsx''],
        o_relatedTasks := [''P23-02'']\<rparr>),
     RegLeaf ''P23-05'' ''P23'' ''Add enabled toggle and delete confirm'' ''web''
       (no_opts\<lparr>o_context := Some ''Enabled toggle uses p-switch-1 (https://coss.com/ui/r/p-switch-1.json) in form and optionally inline in table. Delete uses p-alert-dialog-1 (https://coss.com/ui/r/p-alert-dialog-1.json) confirmation before DELETE /repos/{id}.'',
        o_specs := [SPEC_ui\<lparr>dl_note := Some ([CHR 0xC2, CHR 0xA7] @ ''8.3 p-switch-1 enabled, p-alert-dialog-1 delete'')\<rparr>, SPEC_api\<lparr>dl_note := Some ''PATCH enabled, DELETE repo''\<rparr>, SPEC_domain\<lparr>dl_note := Some ''Disabled repos skipped in poll''\<rparr>],
        o_stack := stackRefs
          [(''layout'', ''apps/web/components/repos/repo-actions.tsx''),
           (''backend'', ''update/delete mutations''),
           (''frontend'', ''Switch + alert dialog''),
           (''data'', ''N/A''),
           (''quality'', ''Delete confirm test''),
           (''cicd'', ''npm test''),
           (''deploy'', ''N/A'')],
        o_implementation := [''Enabled switch in repo form'',
          ''Quick toggle in table row optional'',
          ''Delete button opens alert-dialog'',
          ''Confirm calls useDeleteRepo'',
          ''Invalidate repos and status on change'',
          ''Toast on success/error''],
        o_acceptance := [''Enabled toggle updates repo via PATCH'',
          ''Disabled repo shows in table as off'',
          ''Delete requires confirmation dialog'',
          ''Confirm delete calls DELETE endpoint'',
          ''Cancel delete closes dialog'',
          ''Status query invalidated after toggle'',
          ''Delete removes row on success'',
          ''Switch uses p-switch-1 pattern''],
        o_files := [''apps/web/components/repos/repo-actions.tsx''],
        o_relatedTasks := [''P23-06'']\<rparr>)]"

definition P23_part3 :: "registration list" where
  "P23_part3 =
    [RegLeaf ''P23-06'' ''P23'' ''Add repos UI tests'' ''web''
       (no_opts\<lparr>o_depends_on := [''P23-05''],
        o_context := Some (''Vitest suite for repos table, dialog CRUD, selects, notifications checkboxes, toggle, delete. MSW '' @ [CHR 0xC2, CHR 0xA7] @ ''7.5. npm test -- repos.''),
        o_specs := [SPEC_ui\<lparr>dl_note := Some ([CHR 0xC2, CHR 0xA7] @ ''8.3 /repos flows'')\<rparr>, SPEC_mvp\<lparr>dl_note := Some ''AC #4 repo combinations''\<rparr>, SPEC_ci\<lparr>dl_note := Some ''CI web tests''\<rparr>],
        o_stack := stackRefs
          [(''layout'', ''repos/*.test.tsx''),
           (''backend'', ''MSW repos API''),
           (''frontend'', ''RTL''),
           (''data'', ''N/A''),
           (''quality'', ''Full CRUD flow''),
           (''cicd'', ''npm test -- repos''),
           (''deploy'', ''N/A'')],
        o_implementation := [''Table render test'',
          ''Create repo dialog flow'',
          ''Select source and ticket project'',
          ''Notification checkboxes in payload'',
          ''Toggle enabled'',
          ''Delete confirm''],
        o_acceptance := [''npm test -- repos passes'',
          ''Create sends correct POST body'',
          ''ticketProjectId required validation'',
          ''notificationTargetIds in body when checked'',
          ''Delete confirm triggers DELETE'',
          ''Enabled toggle PATCH called'',
          ''MSW used throughout'',
          ''Codeberg+Phasical combo test case''],
        o_files := [''apps/web/app/(authenticated)/repos/page.test.tsx''],
        o_tests := [''npm test -- repos''],
        o_relatedTasks := [''P23-01'',
          ''P23-02'',
          ''P23-03'',
          ''P23-04'',
          ''P23-05'']\<rparr>)]"

definition registerP23 :: "registration list" where
  "registerP23 = P23_part1 @ P23_part2 @ P23_part3"

definition P24_part1 :: "registration list" where
  "P24_part1 =
    [RegEpic ''P24'' ''Notifications UI'' ''web''
       (no_opts\<lparr>o_depends_on := [''P18-05'',
          ''P17-04''],
        o_context := Some (''Notifications page at /notifications configures Shoutrrr targets per specs.html '' @ [CHR 0xC2, CHR 0xA7] @ ''8.3 /notifications and '' @ [CHR 0xC2, CHR 0xA7] @ ''5.5. Shoutrrr URL entered once as password-style input; events checkbox group for create, error, supersede; test notification button. Particles: p-table-2, p-drawer-10, p-input-1, p-checkbox-group-1, p-toast-5.''),
        o_specs := [SPEC_ui\<lparr>dl_note := Some ([CHR 0xC2, CHR 0xA7] @ ''8.3 /notifications particles'')\<rparr>, SPEC_notifications\<lparr>dl_note := Some ([CHR 0xC2, CHR 0xA7] @ ''5.5 Shoutrrr targets and events'')\<rparr>, SPEC_api\<lparr>dl_note := Some ([CHR 0xC2, CHR 0xA7] @ ''7.6 Notification Targets CRUD + test'')\<rparr>, SPEC_mvp\<lparr>dl_note := Some ''AC #12 notification targets''\<rparr>],
        o_stack := stackRefs
          [(''layout'', ''apps/web/app/(authenticated)/notifications/''),
           (''backend'', ''Notification targets API''),
           (''frontend'', ''Drawer, password URL, checkboxes''),
           (''data'', ''N/A''),
           (''quality'', ''notifications tests P24-05''),
           (''cicd'', ''npm test -- notifications''),
           (''deploy'', ''N/A'')],
        o_implementation := [''Table of targets: name, events, enabled'',
          ''Drawer create/edit with Shoutrrr URL field'',
          ''Events checkboxes: create, error, supersede'',
          ''Test notification button with toast'',
          ''Never re-display Shoutrrr URL after save'',
          ''Delete target flow''],
        o_acceptance := [''Table lists notification targets without URL'',
          ''Create saves shoutrrrUrl once'',
          ''Events array persisted per target'',
          ''Test sends probe via POST .../test'',
          ''Enabled flag toggleable'',
          ''Shoutrrr URL never in GET response'',
          ''Toast feedback on test success/failure'',
          (''Matches '' @ [CHR 0xC2, CHR 0xA7] @ ''8.3 particle table'')]\<rparr>),
     RegLeaf ''P24-01'' ''P24'' ''Build notification targets table'' ''web''
       (no_opts\<lparr>o_context := Some ''Target list uses p-table-2 (https://coss.com/ui/r/p-table-2.json) with columns name, events summary, enabled, actions. useNotificationTargets hook. No Shoutrrr URL column.'',
        o_specs := [SPEC_ui\<lparr>dl_note := Some ([CHR 0xC2, CHR 0xA7] @ ''8.3 p-table-2 target list'')\<rparr>, SPEC_api\<lparr>dl_note := Some ''GET /notification-targets''\<rparr>],
        o_stack := stackRefs
          [(''layout'', ''apps/web/app/(authenticated)/notifications/page.tsx''),
           (''backend'', ''useNotificationTargets''),
           (''frontend'', ''p-table-2''),
           (''data'', ''N/A''),
           (''quality'', ''RTL no URL column''),
           (''cicd'', ''npm test''),
           (''deploy'', ''N/A'')],
        o_implementation := [''NotificationsPage with Add Target'',
          ''Table columns: name, events badges, enabled, actions'',
          ''Format events array as comma list or badges'',
          ''Edit/delete row actions'',
          ''Empty state''],
        o_acceptance := [''Table shows name and events per target'',
          ''No Shoutrrr URL in table'',
          ''Enabled column shows on/off'',
          ''Add Target opens drawer'',
          ''Empty state when none'',
          ''Page at /notifications'',
          ''Events create/error/supersede displayed'',
          ''Loading state while fetching''],
        o_files := [''apps/web/app/(authenticated)/notifications/page.tsx''],
        o_relatedTasks := [''P24-02'']\<rparr>),
     RegLeaf ''P24-02'' ''P24'' ''Add create and edit drawer with Shoutrrr URL'' ''web''
       (no_opts\<lparr>o_context := Some (''Drawer p-drawer-10 with name field and Shoutrrr URL p-input-1 password style. URL never shown on edit '' @ em_dash @ '' leave blank to keep. Same pattern as integration secrets.''),
        o_specs := [SPEC_ui\<lparr>dl_note := Some ([CHR 0xC2, CHR 0xA7] @ ''8.3 p-drawer-10, p-input-1 Shoutrrr URL password-style'')\<rparr>, SPEC_notifications\<lparr>dl_note := Some ''Shoutrrr URL storage''\<rparr>, SPEC_api\<lparr>dl_note := Some ''POST/PATCH notification-targets''\<rparr>],
        o_stack := stackRefs
          [(''layout'', ''apps/web/components/notifications/target-drawer.tsx''),
           (''backend'', ''create/update mutations''),
           (''frontend'', ''Drawer + password input''),
           (''data'', ''N/A''),
           (''quality'', ''URL not in DOM after save''),
           (''cicd'', ''npm test''),
           (''deploy'', ''N/A'')],
        o_implementation := [''TargetDrawer with name input'',
          ''shoutrrrUrl password input required on create'',
          ''Optional on edit with helper text'',
          ''enabled switch default true'',
          ''Save POST or PATCH'',
          ''Close on success''],
        o_acceptance := [''Name required on create'',
          ''shoutrrrUrl required on create'',
          ''URL never re-displayed after save'',
          ''Edit allows blank URL unchanged'',
          ''Drawer uses p-drawer-10'',
          ''Password-style input masks URL'',
          ''Successful save closes drawer'',
          ''API error shown in form''],
        o_files := [''apps/web/components/notifications/target-drawer.tsx''],
        o_relatedTasks := [''P24-03'',
          ''P24-04'']\<rparr>)]"

definition P24_part2 :: "registration list" where
  "P24_part2 =
    [RegLeaf ''P24-03'' ''P24'' ''Add events checkbox group'' ''web''
       (no_opts\<lparr>o_context := Some (''Events field p-checkbox-group-1 with create, error, supersede options per '' @ [CHR 0xC2, CHR 0xA7] @ ''5.5. At least one event should be selected. Stored as events string array in API.''),
        o_specs := [SPEC_ui\<lparr>dl_note := Some ([CHR 0xC2, CHR 0xA7] @ ''8.3 p-checkbox-group-1 Events create, error, supersede'')\<rparr>, SPEC_notifications\<lparr>dl_note := Some ([CHR 0xC2, CHR 0xA7] @ ''5.5 event types'')\<rparr>, SPEC_api\<lparr>dl_note := Some ''events field in target body''\<rparr>],
        o_stack := stackRefs
          [(''layout'', ''apps/web/components/notifications/events-field.tsx''),
           (''backend'', ''events[] in API''),
           (''frontend'', ''Checkbox group''),
           (''data'', ''N/A''),
           (''quality'', ''All events combinable''),
           (''cicd'', ''npm test''),
           (''deploy'', ''N/A'')],
        o_implementation := [''EventsField with three checkboxes'',
          ''Values: create, error, supersede'',
          ''Default all checked or create+error'',
          ''Validate at least one selected'',
          ''Include in drawer save payload'',
          ''Pre-check on edit''],
        o_acceptance := [''Three event checkboxes: create, error, supersede'',
          ''At least one event required'',
          ''events array in POST body'',
          ''Edit pre-selects saved events'',
          ''Uncheck removes from array'',
          ''Group accessible label'',
          (''Matches '' @ [CHR 0xC2, CHR 0xA7] @ ''5.5 event names exactly''),
          ''Displayed in table after save''],
        o_files := [''apps/web/components/notifications/events-field.tsx''],
        o_relatedTasks := [''P24-02'']\<rparr>),
     RegLeaf ''P24-04'' ''P24'' ''Add test notification button'' ''web''
       (no_opts\<lparr>o_context := Some ''Test notification button calls POST /notification-targets/{id}/test with p-toast-5 async feedback. Only after target saved. Probe message sent via Shoutrrr in Go.'',
        o_specs := [SPEC_ui\<lparr>dl_note := Some ([CHR 0xC2, CHR 0xA7] @ ''8.3 p-button-1 Test notification, p-toast-5'')\<rparr>, SPEC_api\<lparr>dl_note := Some ''POST .../test probe''\<rparr>, SPEC_notifications\<lparr>dl_note := Some ''Test endpoint sends probe''\<rparr>, SPEC_mvp\<lparr>dl_note := Some ''AC #12 test targets''\<rparr>],
        o_stack := stackRefs
          [(''layout'', ''apps/web/components/notifications/test-button.tsx''),
           (''backend'', ''useTestNotificationTarget''),
           (''frontend'', ''Promise toast''),
           (''data'', ''N/A''),
           (''quality'', ''MSW test endpoint''),
           (''cicd'', ''npm test''),
           (''deploy'', ''N/A'')],
        o_implementation := [''TestNotificationButton in drawer'',
          ''Requires target id'',
          ''toast.promise pattern'',
          ''Show API error message on failure'',
          ''Disabled while pending''],
        o_acceptance := [''Test button calls POST .../test'',
          ''Loading toast during request'',
          ''Success toast on 200'',
          ''Error toast on failure'',
          ''Disabled before target saved'',
          ''Does not expose Shoutrrr URL'',
          ''Uses p-toast-5 pattern'',
          ''Button label Test notification''],
        o_files := [''apps/web/components/notifications/test-button.tsx''],
        o_relatedTasks := [''P24-05'']\<rparr>),
     RegLeaf ''P24-05'' ''P24'' ''Add notifications UI tests'' ''web''
       (no_opts\<lparr>o_depends_on := [''P24-04''],
        o_context := Some ''Vitest suite for notifications CRUD, events, Shoutrrr URL handling, test button. npm test -- notifications.'',
        o_specs := [SPEC_ui\<lparr>dl_note := Some ([CHR 0xC2, CHR 0xA7] @ ''8.3 /notifications'')\<rparr>, SPEC_mvp\<lparr>dl_note := Some ''AC #12''\<rparr>, SPEC_ci\<lparr>dl_note := Some ''CI web job''\<rparr>],
        o_stack := stackRefs
          [(''layout'', ''notifications/*.test.tsx''),
           (''backend'', ''MSW notification-targets''),
           (''frontend'', ''RTL''),
           (''data'', ''N/A''),
           (''quality'', ''URL secrecy test''),
           (''cicd'', ''npm test -- notifications''),
           (''deploy'', ''N/A'')],
        o_implementation := [''List render'',
          ''Create with URL and events'',
          ''URL not in document after save'',
          ''Test button mock'',
          ''Edit events change'',
          ''Delete target''],
        o_acceptance := [''npm test -- notifications passes'',
          ''Create includes shoutrrrUrl in POST'',
          ''events array in payload'',
          ''Test endpoint called on button click'',
          ''No URL in list render HTML'',
          ''At least one event validation'',
          ''MSW isolation'',
          ''Delete removes target''],
        o_files := [''apps/web/app/(authenticated)/notifications/page.test.tsx''],
        o_tests := [''npm test -- notifications''],
        o_relatedTasks := [''P24-01'',
          ''P24-02'',
          ''P24-03'',
          ''P24-04'']\<rparr>)]"

definition registerP24 :: "registration list" where
  "registerP24 = P24_part1 @ P24_part2"

end
