(* ===== verification/Roadmap_P25_P28.thy ===== *)
theory Roadmap_P25_P28
  imports Roadmap_Links
begin

section \<open>Tasks of the earlier roadmap (\<open>scripts/roadmap/epics/p15-p28.mjs\<close>)\<close>

text \<open>The calls of \<open>epic\<close> and \<open>leaf\<close> in their order; the calls of an epic with its leaves are in parts.\<close>

definition P25_part1 :: "registration list" where
  "P25_part1 =
    [RegEpic ''P25'' ''Settings UI'' ''web''
       (no_opts\<lparr>o_depends_on := [''P18-05'',
          ''P17-03''],
        o_context := Some (''Settings page at /settings configures global poll interval per specs.html '' @ [CHR 0xC2, CHR 0xA7] @ ''8.3 /settings. Single field pollIntervalMinutes with minimum 5 via p-number-field-1; save PATCHes /api/v1/settings and shows p-alert-5 success. Uses useSettings and useUpdateSettings from P17.''),
        o_specs := [SPEC_ui\<lparr>dl_note := Some ([CHR 0xC2, CHR 0xA7] @ ''8.3 /settings '' @ em_dash @ '' p-card-8, p-number-field-1, p-alert-5'')\<rparr>, SPEC_api\<lparr>dl_note := Some ([CHR 0xC2, CHR 0xA7] @ ''7.2 GET/PATCH /settings'')\<rparr>, SPEC_mvp\<lparr>dl_note := Some ''AC #14 settings interval''\<rparr>, SPEC_domain\<lparr>dl_note := Some ''Poll scheduler reads interval from DB''\<rparr>],
        o_stack := stackRefs
          [(''layout'', ''apps/web/app/(authenticated)/settings/page.tsx''),
           (''backend'', ''Settings API''),
           (''frontend'', ''Number field, save button, alert''),
           (''data'', ''N/A''),
           (''quality'', ''settings tests P25-03''),
           (''cicd'', ''npm test -- settings''),
           (''deploy'', ''N/A'')],
        o_implementation := [''Settings card p-card-8 within frame'',
          ''pollIntervalMinutes number field min 5'',
          ''Save button PATCH settings'',
          ''Success alert p-alert-5 on save'',
          ''Load current value from useSettings'',
          ''Invalidate status on save (interval in dashboard)''],
        o_acceptance := [''Settings page at /settings'',
          ''Poll interval field min 5 minutes'',
          ''Current value loaded from API'',
          ''Save PATCHes pollIntervalMinutes'',
          ''Success alert shown after save'',
          ''Validation blocks values below 5'',
          ''Error toast on API failure'',
          (''Matches '' @ [CHR 0xC2, CHR 0xA7] @ ''8.3 particle mapping'')]\<rparr>),
     RegLeaf ''P25-01'' ''P25'' ''Add poll interval number field'' ''web''
       (no_opts\<lparr>o_context := Some ''Poll interval uses p-number-field-1 (https://coss.com/ui/r/p-number-field-1.json) with min 5 per spec. Label explains scheduler frequency. Controlled input bound to useSettings data. Unit displayed as minutes.'',
        o_specs := [SPEC_ui\<lparr>dl_note := Some ([CHR 0xC2, CHR 0xA7] @ ''8.3 p-number-field-1 Poll interval min 5'')\<rparr>, SPEC_api\<lparr>dl_note := Some ([CHR 0xC2, CHR 0xA7] @ ''7.2 pollIntervalMinutes field'')\<rparr>],
        o_stack := stackRefs
          [(''layout'', ''apps/web/app/(authenticated)/settings/page.tsx''),
           (''backend'', ''useSettings''),
           (''frontend'', ''p-number-field-1''),
           (''data'', ''N/A''),
           (''quality'', ''Min validation test''),
           (''cicd'', ''npm test''),
           (''deploy'', ''N/A'')],
        o_implementation := [''SettingsPage with p-card-8 section'',
          ''NumberField for pollIntervalMinutes'',
          ''min=5, step=1'',
          ''Label: Poll interval (minutes)'',
          ''Default from API on load'',
          ''Local state until save''],
        o_acceptance := [''p-number-field-1 for poll interval'',
          ''Minimum value 5 enforced'',
          ''Value loaded from GET /settings'',
          ''Integer minutes only'',
          ''Field labeled clearly'',
          ''Shows current DB value on mount'',
          ''Cannot submit 4 or below'',
          ''Within p-card-8 settings section''],
        o_files := [''apps/web/app/(authenticated)/settings/page.tsx''],
        o_relatedTasks := [''P25-02'']\<rparr>),
     RegLeaf ''P25-02'' ''P25'' ''Wire save settings with success alert'' ''web''
       (no_opts\<lparr>o_depends_on := [''P25-01''],
        o_context := Some ''Save button p-button-1 calls useUpdateSettings PATCH. On success show p-alert-5 (https://coss.com/ui/r/p-alert-5.json) success alert Settings saved. Invalidate settings and status queries. Disable save when unchanged or invalid.'',
        o_specs := [SPEC_ui\<lparr>dl_note := Some ([CHR 0xC2, CHR 0xA7] @ ''8.3 p-button-1 Save, p-alert-5 success'')\<rparr>, SPEC_api\<lparr>dl_note := Some ''PATCH /settings body''\<rparr>],
        o_stack := stackRefs
          [(''layout'', ''settings/page.tsx save handler''),
           (''backend'', ''useUpdateSettings mutation''),
           (''frontend'', ''Button + Alert''),
           (''data'', ''N/A''),
           (''quality'', ''Save success test''),
           (''cicd'', ''npm test''),
           (''deploy'', ''N/A'')],
        o_implementation := [''Save button calls PATCH with pollIntervalMinutes'',
          ''Show p-alert-5 on success'',
          ''invalidateQueries settings and status'',
          ''Disable when value unchanged'',
          ''Loading state on button'',
          ''Error toast on failure''],
        o_acceptance := [''Save sends PATCH /settings'',
          ''Success alert p-alert-5 displayed'',
          ''Alert message Settings saved'',
          ''Save disabled when no changes'',
          ''Status refetched after save'',
          ''Error toast on validation error'',
          ''Button shows loading while saving'',
          ''Value persists after page reload''],
        o_files := [''apps/web/app/(authenticated)/settings/page.tsx''],
        o_relatedTasks := [''P25-03'']\<rparr>)]"

definition P25_part2 :: "registration list" where
  "P25_part2 =
    [RegLeaf ''P25-03'' ''P25'' ''Add settings page tests'' ''web''
       (no_opts\<lparr>o_depends_on := [''P25-02''],
        o_context := Some (''Vitest tests for settings load, min validation, save PATCH, success alert. MSW '' @ [CHR 0xC2, CHR 0xA7] @ ''7.2. npm test -- settings.''),
        o_specs := [SPEC_ui\<lparr>dl_note := Some ([CHR 0xC2, CHR 0xA7] @ ''8.3 /settings behavior'')\<rparr>, SPEC_ci\<lparr>dl_note := Some ''CI web tests''\<rparr>, SPEC_mvp\<lparr>dl_note := Some ''Settings interval AC''\<rparr>],
        o_stack := stackRefs
          [(''layout'', ''settings/page.test.tsx''),
           (''backend'', ''MSW settings API''),
           (''frontend'', ''RTL''),
           (''data'', ''N/A''),
           (''quality'', ''Save flow coverage''),
           (''cicd'', ''npm test -- settings''),
           (''deploy'', ''N/A'')],
        o_implementation := [''Load fixture pollIntervalMinutes'',
          ''Assert field shows value'',
          ''Change value and save'',
          ''Assert PATCH body'',
          ''Assert success alert'',
          ''Test min 5 validation''],
        o_acceptance := [''npm test -- settings passes'',
          ''Field renders with API value'',
          ''Save calls PATCH with new value'',
          ''Success alert appears after save'',
          ''Value below 5 blocked'',
          ''Save disabled when unchanged'',
          ''MSW used'',
          ''Error path tested''],
        o_files := [''apps/web/app/(authenticated)/settings/page.test.tsx''],
        o_tests := [''npm test -- settings''],
        o_relatedTasks := [''P25-01'',
          ''P25-02'']\<rparr>)]"

definition registerP25 :: "registration list" where
  "registerP25 = P25_part1 @ P25_part2"

definition P26_part1 :: "registration list" where
  "P26_part1 =
    [RegEpic ''P26'' ''Docker image & compose'' ''ci''
       (no_opts\<lparr>o_depends_on := [''P15-05'',
          ''P25-03''],
        o_context := Some (''Package Release Ops as a single Docker image per specs.html '' @ [CHR 0xC2, CHR 0xA7] @ ''10 Deployment: Next standalone + Go binary, one service compose file, entrypoint runs migrations then Go then Next. Image ghcr.io/{owner}/release-ops published via P27 workflows. Volume /data for app.db and persistence.''),
        o_specs := [SPEC_deployment\<lparr>dl_note := Some ([CHR 0xC2, CHR 0xA7] @ ''10 one image, compose, entrypoint order'')\<rparr>, SPEC_architecture\<lparr>dl_note := Some ''Go :8080 loopback, Next :3000 public''\<rparr>, SPEC_env\<lparr>dl_note := Some ''SESSION_SECRET, APP_ENCRYPTION_KEY, APP_PUBLIC_URL''\<rparr>, SPEC_ci\<lparr>dl_note := Some ([CHR 0xC2, CHR 0xA7] @ ''11.6 GHCR image build'')\<rparr>],
        o_stack := stackRefs
          [(''layout'', ''Dockerfile, docker/, docker-compose.yml root''),
           (''backend'', ''Go binary in image''),
           (''frontend'', ''Next standalone output''),
           (''data'', ''SQLite at /data/app.db volume''),
           (''quality'', ''Local compose smoke doc P26-04''),
           (''cicd'', ''build-and-push-image.yml''),
           (''deploy'', ''docker compose up single service'')],
        o_schema := [SCHEMA_sql\<lparr>dl_note := Some ''Migrations applied at container start''\<rparr>],
        o_implementation := [''Multi-stage Dockerfile: node build, go build, runtime'',
          ''Next output: standalone in final image'',
          ''Copy migrations/ and golang-migrate binary'',
          (''entrypoint.sh: migrate up '' @ [CHR 0xE2, CHR 0x86, CHR 0x92] @ '' go server '' @ [CHR 0xE2, CHR 0x86, CHR 0x92] @ '' next start''),
          ''docker-compose.yml one release-ops service'',
          ''Health probe GET /api/go/healthz'',
          ''Document env vars in getting-started''],
        o_acceptance := [''docker build produces single image with Go + Next'',
          ''entrypoint runs migrate before servers'',
          ''Go listens 127.0.0.1:8080 inside container'',
          ''Next listens :3000 published'',
          ''compose one service with volume /data'',
          ''Health check passes after start'',
          ''No runtime secrets baked into image'',
          (''Matches '' @ [CHR 0xC2, CHR 0xA7] @ ''10 reference compose'')]\<rparr>),
     RegLeaf ''P26-01'' ''P26'' ''Create multi-stage Dockerfile'' ''ci''
       (no_opts\<lparr>o_context := Some (''Dockerfile builds Next.js standalone and Go cmd/server into one runtime image. Stages: deps, web build, go build, final slim image with node runtime for Next standalone and Go binary. No separate web/worker images per '' @ [CHR 0xC2, CHR 0xA7] @ ''10.''),
        o_specs := [SPEC_deployment\<lparr>dl_note := Some ([CHR 0xC2, CHR 0xA7] @ ''10 Dockerfile multi-stage Next + Go'')\<rparr>, SPEC_architecture\<lparr>dl_note := Some ''Single container process supervision''\<rparr>, SPEC_ci\<lparr>dl_note := Some ''Image built by build-and-push-image.yml''\<rparr>],
        o_stack := stackRefs
          [(''layout'', ''Dockerfile at repo root''),
           (''backend'', ''go build -o /app/server ./cmd/server''),
           (''frontend'', ''next build output standalone''),
           (''data'', ''N/A in build stage''),
           (''quality'', ''docker build succeeds in CI''),
           (''cicd'', ''build-and-push-image.yml''),
           (''deploy'', ''ghcr.io/{owner}/release-ops'')],
        o_implementation := [(''Stage 1: node '' @ em_dash @ '' npm ci && npm run build in apps/web''),
          (''Stage 2: golang '' @ em_dash @ '' CGO_ENABLED=1 for sqlite''),
          (''Stage 3: runtime '' @ em_dash @ '' copy standalone, server binary, migrations''),
          ''EXPOSE 3000'',
          ''USER non-root if feasible'',
          ''COPY docker/entrypoint.sh''],
        o_acceptance := [''Next standalone + Go binary in one image'',
          ''docker build -t release-ops . succeeds'',
          ''Image size reasonable (no dev deps in final)'',
          ''Migrations directory copied to image'',
          ''Go binary statically linked or with sqlite deps'',
          ''Next standalone includes node server'',
          ''ENTRYPOINT entrypoint.sh'',
          ''No .env files in image layers''],
        o_files := [''Dockerfile''],
        o_relatedTasks := [''P26-02'',
          ''P27-03'']\<rparr>),
     RegLeaf ''P26-02'' ''P26'' ''Add docker entrypoint script'' ''ci''
       (no_opts\<lparr>o_context := Some ''entrypoint.sh orchestrates startup: golang-migrate up against /data/app.db, start Go API on 127.0.0.1:8080 in background, exec Next on :3000 foreground. Fail fast if migrate fails. Trap signals for graceful shutdown.'',
        o_specs := [SPEC_deployment\<lparr>dl_note := Some ([CHR 0xC2, CHR 0xA7] @ ''10 entrypoint migrate '' @ [CHR 0xE2, CHR 0x86, CHR 0x92] @ '' Go '' @ [CHR 0xE2, CHR 0x86, CHR 0x92] @ '' Next'')\<rparr>, SPEC_schema\<lparr>dl_note := Some ''Migrations from migrations/''\<rparr>, SPEC_env\<lparr>dl_note := Some ''DATABASE_PATH /data/app.db''\<rparr>],
        o_stack := stackRefs
          [(''layout'', ''docker/entrypoint.sh''),
           (''backend'', ''migrate up then ./server''),
           (''frontend'', ''node server.js standalone''),
           (''data'', ''SQLite file on volume''),
           (''quality'', ''Script shellcheck clean''),
           (''cicd'', ''Tested via compose smoke''),
           (''deploy'', ''ENTRYPOINT in Dockerfile'')],
        o_schema := [SCHEMA_sql\<lparr>dl_note := Some ''Applied via golang-migrate''\<rparr>],
        o_implementation := [''set -euo pipefail'',
          ''migrate -path /app/migrations -database sqlite:///data/app.db up'',
          ''Start Go server background with GO_API_URL'',
          ''Wait for Go health or short sleep'',
          ''exec node apps/web/server.js or standalone path'',
          ''Forward SIGTERM to child processes''],
        o_acceptance := [''migrate up runs before Go starts'',
          ''Go starts on 127.0.0.1:8080'',
          ''Next starts on PORT 3000'',
          ''Container exits non-zero if migrate fails'',
          ''SIGTERM stops both processes'',
          ''Uses /data volume for app.db'',
          ''GO_API_URL set for Next proxy'',
          ''Script executable in image''],
        o_files := [''docker/entrypoint.sh''],
        o_relatedTasks := [''P26-03'']\<rparr>)]"

definition P26_part2 :: "registration list" where
  "P26_part2 =
    [RegLeaf ''P26-03'' ''P26'' ''Add docker-compose.yml single service'' ''ci''
       (no_opts\<lparr>o_context := Some (''Reference docker-compose.yml with one release-ops service, port 3000:3000, volume release-ops-data:/data, required env vars from '' @ [CHR 0xC2, CHR 0xA7] @ ''9. Matches specs.html '' @ [CHR 0xC2, CHR 0xA7] @ ''10 reference compose block.''),
        o_specs := [SPEC_deployment\<lparr>dl_note := Some ([CHR 0xC2, CHR 0xA7] @ ''10 docker-compose.yml one service'')\<rparr>, SPEC_env\<lparr>dl_note := Some ''SESSION_SECRET, APP_PUBLIC_URL, APP_ENCRYPTION_KEY''\<rparr>],
        o_stack := stackRefs
          [(''layout'', ''docker-compose.yml repo root''),
           (''backend'', ''N/A''),
           (''frontend'', ''N/A''),
           (''data'', ''named volume release-ops-data''),
           (''quality'', ''compose config validates''),
           (''cicd'', ''Optional CI compose smoke''),
           (''deploy'', ''Self-host single URL'')],
        o_implementation := [''service release-ops with build or image'',
          ''ports 3000:3000'',
          ''volumes release-ops-data:/data'',
          ''environment from .env.example'',
          ''restart unless-stopped'',
          ''healthcheck curl /api/go/healthz''],
        o_acceptance := [''Exactly one service in compose file'',
          ''Port 3000 published'',
          ''Volume mounted at /data'',
          ''Required env vars documented inline or in example'',
          ''docker compose config valid'',
          ''docker compose up starts app'',
          (''Matches '' @ [CHR 0xC2, CHR 0xA7] @ ''10 reference YAML structure''),
          ''No second web/worker service''],
        o_files := [''docker-compose.yml''],
        o_relatedTasks := [''P26-04'',
          ''P28-05'']\<rparr>),
     RegLeaf ''P26-04'' ''P26'' ''Document local docker compose smoke test'' ''docs''
       (no_opts\<lparr>o_depends_on := [''P26-03''],
        o_context := Some ''Add docker compose smoke test section to docs/getting-started.md: build, up, login, verify health. Steps for local validation before CI image push. Referenced by P28-05 getting started doc.'',
        o_specs := [SPEC_deployment\<lparr>dl_note := Some ([CHR 0xC2, CHR 0xA7] @ ''10 Coolify / self-host smoke'')\<rparr>, SPEC_mvp\<lparr>dl_note := Some ''AC #14 docker compose up one service''\<rparr>, SPEC_auth\<lparr>dl_note := Some ''Login after compose up''\<rparr>],
        o_stack := stackRefs
          [(''layout'', ''docs/getting-started.md''),
           (''backend'', ''N/A''),
           (''frontend'', ''N/A''),
           (''data'', ''N/A''),
           (''quality'', ''Doc steps reproducible''),
           (''cicd'', ''N/A''),
           (''deploy'', ''Operator runbook'')],
        o_implementation := [''Section: Run with Docker Compose'',
          ''Steps: cp .env.example, docker compose up --build'',
          ''Health check URL'',
          ''Default admin login note'',
          ''Volume persistence mention'',
          ''Troubleshooting migrate failures''],
        o_acceptance := [''getting-started.md includes compose smoke steps'',
          ''Documents required env vars'',
          ''curl health check example'',
          ''Login URL http://localhost:3000/login'',
          ''Single service emphasized'',
          ''Volume path /data explained'',
          ''Build and up commands copy-pasteable'',
          ''Links to specs.html#deployment''],
        o_files := [''docs/getting-started.md''],
        o_relatedTasks := [''P28-05''],
        o_outOfScope := [''Production TLS termination'',
          ''Kubernetes manifests'']\<rparr>)]"

definition registerP26 :: "registration list" where
  "registerP26 = P26_part1 @ P26_part2"

definition P27_part1 :: "registration list" where
  "P27_part1 =
    [RegEpic ''P27'' ''CI/CD workflows'' ''ci''
       (no_opts\<lparr>o_depends_on := [''P00-05'',
          ''P26-01''],
        o_context := Some (''GitHub Actions workflows per specs.html '' @ [CHR 0xC2, CHR 0xA7] @ ''11 CI/CD and '' @ [CHR 0xC2, CHR 0xA7] @ ''11.2 layout: entrypoints pr.yml, dev.yml, main.yml, release.yml call reusable ci.yml, prepare-release.yml, build-and-push-image.yml. Parallel Go and web jobs in ci.yml; dev pushes nightly image; main prepares draft release on VERSION bump; release publishes latest image. No monolithic per-branch workflows.''),
        o_specs := [SPEC_ci\<lparr>dl_note := Some ([CHR 0xC2, CHR 0xA7] @ ''11 full CI/CD model'')\<rparr>, SPEC_deployment\<lparr>dl_note := Some ([CHR 0xC2, CHR 0xA7] @ ''11.6 GHCR tags nightly, latest, v*'')\<rparr>, SPEC_mvp\<lparr>dl_note := Some (''AC #15 workflows per '' @ [CHR 0xC2, CHR 0xA7] @ ''11'')\<rparr>, SPEC_env\<lparr>dl_note := Some ''CI secrets inherit; no runtime secrets in image''\<rparr>],
        o_stack := stackRefs
          [(''layout'', ''.github/workflows/*.yml''),
           (''backend'', ''go lint/test/build jobs''),
           (''frontend'', ''npm lint/test/typecheck/build jobs''),
           (''data'', ''N/A''),
           (''quality'', ''All jobs green required''),
           (''cicd'', ''Self-hosting CI in GitHub Actions''),
           (''deploy'', ''GHCR push on dev and release'')],
        o_implementation := [''ci.yml workflow_call with parallel jobs'',
          (''pr.yml on pull_request '' @ [CHR 0xE2, CHR 0x86, CHR 0x92] @ '' ci.yml''),
          (''dev.yml push dev '' @ [CHR 0xE2, CHR 0x86, CHR 0x92] @ '' ci '' @ [CHR 0xE2, CHR 0x86, CHR 0x92] @ '' build nightly+sha''),
          (''main.yml push main '' @ [CHR 0xE2, CHR 0x86, CHR 0x92] @ '' ci '' @ [CHR 0xE2, CHR 0x86, CHR 0x92] @ '' prepare-release''),
          (''release.yml published '' @ [CHR 0xE2, CHR 0x86, CHR 0x92] @ '' build latest+version''),
          ''prepare-release uses create-draft-release script'',
          ''Reusable workflows no on: push''],
        o_acceptance := [(''All '' @ [CHR 0xC2, CHR 0xA7] @ ''11.2 workflow files present''),
          ''Reusable workflows only workflow_call'',
          ''PR blocked on CI failure'',
          ''dev push produces nightly image after CI'',
          ''main push runs prepare-release on VERSION bump'',
          ''Published release pushes latest + version tag'',
          ''Parallel go and web jobs in ci.yml'',
          ''No --no-verify in CI scripts'']\<rparr>),
     RegLeaf ''P27-01'' ''P27'' ''Add reusable ci.yml workflow'' ''ci''
       (no_opts\<lparr>o_context := Some (''Reusable ci.yml with workflow_call only. Parallel jobs: go-lint, go-test, go-build, web-lint, web-test, web-typecheck, web-build per '' @ [CHR 0xC2, CHR 0xA7] @ ''11.4 table. All must pass; secrets: inherit from caller.''),
        o_specs := [SPEC_ci\<lparr>dl_note := Some ([CHR 0xC2, CHR 0xA7] @ ''11.4 reusable ci.yml parallel jobs'')\<rparr>, SPEC_mvp\<lparr>dl_note := Some ''AC #15 Go + web tests green in CI''\<rparr>],
        o_stack := stackRefs
          [(''layout'', ''.github/workflows/ci.yml''),
           (''backend'', ''golangci-lint run, go test, go build''),
           (''frontend'', ''npm run lint, test, typecheck, build''),
           (''data'', ''N/A''),
           (''quality'', ''All gates enforced''),
           (''cicd'', ''workflow_call entry''),
           (''deploy'', ''N/A'')],
        o_implementation := [''on: workflow_call only'',
          ''Job go-lint: golangci-lint run'',
          ''Job go-test: go test ./...'',
          ''Job go-build: go build ./cmd/server'',
          ''Job web-lint: npm run lint'',
          ''Job web-test: npm test'',
          ''Job web-typecheck: npm run typecheck'',
          ''Job web-build: npm run build in apps/web''],
        o_acceptance := [''Parallel go lint/test/build and web lint/test/typecheck/build'',
          (''workflow_call only '' @ em_dash @ '' no on: push''),
          ''go test ./... runs'',
          ''npm test runs Vitest'',
          ''npm run typecheck passes'',
          ''Production next build in web-build job'',
          ''Failed job fails workflow'',
          ''Uses actions/setup-go and setup-node''],
        o_files := [''.github/workflows/ci.yml''],
        o_relatedTasks := [''P27-02'',
          ''P27-03'',
          ''P27-04'']\<rparr>),
     RegLeaf ''P27-02'' ''P27'' ''Add pr.yml entrypoint'' ''ci''
       (no_opts\<lparr>o_depends_on := [''P27-01''],
        o_context := Some ''PR entrypoint on pull_request calls ci.yml with secrets: inherit. No image build or release. Concurrency cancel-in-progress per PR.'',
        o_specs := [SPEC_ci\<lparr>dl_note := Some ([CHR 0xC2, CHR 0xA7] @ ''11.3 pr.yml entrypoint'')\<rparr>, SPEC_mvp\<lparr>dl_note := Some ''AC #15 PR CI green''\<rparr>],
        o_stack := stackRefs
          [(''layout'', ''.github/workflows/pr.yml''),
           (''backend'', ''N/A''),
           (''frontend'', ''N/A''),
           (''data'', ''N/A''),
           (''quality'', ''CI gate on PR''),
           (''cicd'', ''on: pull_request''),
           (''deploy'', ''No images on PR'')],
        o_implementation := [''on: pull_request'',
          ''jobs.ci uses: ./.github/workflows/ci.yml'',
          ''secrets: inherit'',
          ''concurrency group per PR'',
          ''cancel-in-progress: true''],
        o_acceptance := [''pr.yml triggers on pull_request'',
          ''Calls reusable ci.yml'',
          ''secrets: inherit'',
          ''No image push job'',
          ''No release job'',
          ''Concurrency cancels stale runs'',
          ''CI failure blocks merge (branch protection)'',
          ''Works for PRs to dev and main''],
        o_files := [''.github/workflows/pr.yml''],
        o_relatedTasks := [''P27-01'']\<rparr>)]"

definition P27_part2 :: "registration list" where
  "P27_part2 =
    [RegLeaf ''P27-03'' ''P27'' ''Add dev.yml with nightly image push'' ''ci''
       (no_opts\<lparr>o_depends_on := [''P27-01''],
        o_context := Some (''dev.yml on push to dev: ci '' @ [CHR 0xE2, CHR 0x86, CHR 0x92] @ '' meta job for short_sha '' @ [CHR 0xE2, CHR 0x86, CHR 0x92] @ '' build-and-push-image with tags nightly and 7-char SHA per '' @ [CHR 0xC2, CHR 0xA7] @ ''11.3 and '' @ [CHR 0xC2, CHR 0xA7] @ ''11.6.''),
        o_specs := [SPEC_ci\<lparr>dl_note := Some ([CHR 0xC2, CHR 0xA7] @ ''11.3 dev.yml, '' @ [CHR 0xC2, CHR 0xA7] @ ''11.6 nightly tags'')\<rparr>, SPEC_deployment\<lparr>dl_note := Some ''GHCR ghcr.io/{owner}/release-ops''\<rparr>],
        o_stack := stackRefs
          [(''layout'', ''.github/workflows/dev.yml, build-and-push-image.yml''),
           (''backend'', ''N/A''),
           (''frontend'', ''N/A''),
           (''data'', ''N/A''),
           (''quality'', ''Image push only after CI success''),
           (''cicd'', ''push branches: [dev]''),
           (''deploy'', ''nightly + short_sha tags'')],
        o_implementation := [''on: push branches dev, workflow_dispatch'',
          ''Job ci uses ci.yml'',
          ''Job meta outputs short_sha from GITHUB_SHA'',
          ''Job push-image needs ci, if success'',
          ''uses build-and-push-image.yml with tags'',
          ''permissions packages: write''],
        o_acceptance := [''Push dev runs CI then image push'',
          ''Tags include nightly and 7-char SHA'',
          ''push-image skipped on CI failure'',
          ''uses build-and-push-image.yml reusable'',
          ''docker/login-action ghcr.io'',
          ''permissions packages: write on push job'',
          ''workflow_dispatch supported'',
          ''No release on dev push''],
        o_files := [''.github/workflows/dev.yml'',
          ''.github/workflows/build-and-push-image.yml''],
        o_relatedTasks := [''P27-05'',
          ''P26-01'']\<rparr>),
     RegLeaf ''P27-04'' ''P27'' ''Add main.yml and prepare-release.yml'' ''ci''
       (no_opts\<lparr>o_depends_on := [''P27-01''],
        o_context := Some (''main.yml on push main: ci '' @ [CHR 0xE2, CHR 0x86, CHR 0x92] @ '' prepare-release.yml. No image on main push per '' @ [CHR 0xC2, CHR 0xA7] @ ''11.3. prepare-release creates draft release and git tag only when VERSION semver-increases.''),
        o_specs := [SPEC_ci\<lparr>dl_note := Some ([CHR 0xC2, CHR 0xA7] @ ''11.3 main.yml, '' @ [CHR 0xC2, CHR 0xA7] @ ''11.5 VERSION and prepare-release'')\<rparr>, SPEC_deployment\<lparr>dl_note := Some ''Production images only on release published''\<rparr>],
        o_stack := stackRefs
          [(''layout'', ''.github/workflows/main.yml, prepare-release.yml''),
           (''backend'', ''N/A''),
           (''frontend'', ''N/A''),
           (''data'', ''N/A''),
           (''quality'', ''Skip release when VERSION unchanged''),
           (''cicd'', ''contents: write for tag''),
           (''deploy'', ''Draft release not production image'')],
        o_implementation := [(''main.yml on push main '' @ [CHR 0xE2, CHR 0x86, CHR 0x92] @ '' ci '' @ [CHR 0xE2, CHR 0x86, CHR 0x92] @ '' prepare-release''),
          ''prepare-release workflow_call'',
          ''permissions contents: write'',
          ''Invoke scripts/ci/create-draft-release.mjs'',
          ''No image build in main.yml'',
          ''concurrency per main branch''],
        o_acceptance := [''main.yml calls ci then prepare-release'',
          ''No image build on main push'',
          ''prepare-release is workflow_call only'',
          ''contents: write permission set'',
          ''VERSION bump creates draft release + tag'',
          ''No bump skips release'',
          ''Tag format v{X.Y.Z}'',
          (''Matches '' @ [CHR 0xC2, CHR 0xA7] @ ''11.3 main.yml example'')],
        o_files := [''.github/workflows/main.yml'',
          ''.github/workflows/prepare-release.yml''],
        o_relatedTasks := [''P27-06'']\<rparr>),
     RegLeaf ''P27-05'' ''P27'' ''Add release.yml entrypoint'' ''ci''
       (no_opts\<lparr>o_depends_on := [''P27-03''],
        o_context := Some (''release.yml on release published calls build-and-push-image with ref target_commitish and tags latest + release tag_name per '' @ [CHR 0xC2, CHR 0xA7] @ ''11.3 release.yml example.''),
        o_specs := [SPEC_ci\<lparr>dl_note := Some ([CHR 0xC2, CHR 0xA7] @ ''11.3 release.yml entrypoint'')\<rparr>, SPEC_deployment\<lparr>dl_note := Some ([CHR 0xC2, CHR 0xA7] @ ''11.6 latest + v{X.Y.Z} on publish'')\<rparr>, SPEC_mvp\<lparr>dl_note := Some ''AC #15 published release image''\<rparr>],
        o_stack := stackRefs
          [(''layout'', ''.github/workflows/release.yml''),
           (''backend'', ''N/A''),
           (''frontend'', ''N/A''),
           (''data'', ''N/A''),
           (''quality'', ''Single image per release''),
           (''cicd'', ''on: release published''),
           (''deploy'', ''latest + version tags'')],
        o_implementation := [''on: release types published'',
          ''Job push-image uses build-and-push-image.yml'',
          ''with ref: github.event.release.target_commitish'',
          ''tags: latest and release.tag_name'',
          ''No cancel-in-progress on release'',
          ''packages: write permission''],
        o_acceptance := [''release.yml triggers on release published'',
          ''Pushes one image with latest tag'',
          ''Pushes version tag matching release tag_name'',
          ''Uses target_commitish ref'',
          ''uses build-and-push-image.yml'',
          ''No CI re-run required if image from prior dev'',
          ''permissions packages: write'',
          (''Matches '' @ [CHR 0xC2, CHR 0xA7] @ ''11.3 release.yml snippet'')],
        o_files := [''.github/workflows/release.yml''],
        o_relatedTasks := [''P27-03'',
          ''P28'']\<rparr>)]"

definition P27_part3 :: "registration list" where
  "P27_part3 =
    [RegLeaf ''P27-06'' ''P27'' ''Add create-draft-release script'' ''ci''
       (no_opts\<lparr>o_depends_on := [''P00-09''],
        o_context := Some (''scripts/ci/create-draft-release.mjs implements '' @ [CHR 0xC2, CHR 0xA7] @ ''11.5: fetch-depth 0, compare VERSION at HEAD vs last v* tag, skip if not semver-greater, else tag v{VERSION} and create draft release with git log notes.''),
        o_specs := [SPEC_ci\<lparr>dl_note := Some ([CHR 0xC2, CHR 0xA7] @ ''11.5 create-draft-release script steps'')\<rparr>, SPEC_deployment\<lparr>dl_note := Some ''Tag v{X.Y.Z} matches VERSION file''\<rparr>],
        o_stack := stackRefs
          [(''layout'', ''scripts/ci/create-draft-release.mjs''),
           (''backend'', ''N/A''),
           (''frontend'', ''N/A''),
           (''data'', ''N/A''),
           (''quality'', ''Unit test version compare logic''),
           (''cicd'', ''Called from prepare-release.yml''),
           (''deploy'', ''GitHub Releases API via gh'')],
        o_implementation := [''Read VERSION file at repo root'',
          ''git tag --list v* --sort=-v:refname for last tag'',
          ''Semver compare HEAD VERSION vs tag VERSION'',
          ''Skip exit 0 if not greater'',
          ''Create and push tag v{VERSION}'',
          ''gh release create --draft with changelog'',
          ''Title: Release Ops v{VERSION}''],
        o_acceptance := [''Script reads VERSION at HEAD'',
          ''Skips when VERSION not greater than last tag'',
          ''Creates git tag v{X.Y.Z} on bump'',
          ''Creates draft GitHub release'',
          ''Release notes from git log since last tag'',
          ''No date-based release tags'',
          ''Uses gh CLI or GitHub API'',
          ''Invoked from prepare-release workflow''],
        o_files := [''scripts/ci/create-draft-release.mjs''],
        o_relatedTasks := [''P27-04'',
          ''P00-09'']\<rparr>),
     RegLeaf ''P27-07'' ''P27'' ''Add CI policy gates (db:check + i18n lint)'' ''ci''
       (no_opts\<lparr>o_depends_on := [''P27-01'',
          ''P01-01'',
          ''P00-11''],
        o_context := Some (''Specs '' @ [CHR 0xC2, CHR 0xA7] @ ''4.0 requires npm run db:check when db/schema.sql or migrations/ change; '' @ [CHR 0xC2, CHR 0xA7] @ ''8.5 requires eslint-plugin-i18next in CI. Extends reusable ci.yml: add db-migrations job running scripts/ci/check-migrations-sync.mjs; document web-lint job enforces i18next/no-literal-string from P00-11.''),
        o_specs := [SPEC_schemaMigrations\<lparr>dl_note := Some ([CHR 0xC2, CHR 0xA7] @ ''4.0 CI db:check drift gate'')\<rparr>, SPEC_i18n\<lparr>dl_note := Some ([CHR 0xC2, CHR 0xA7] @ ''8.5 i18n ESLint enforced in CI web-lint'')\<rparr>, SPEC_ci\<lparr>dl_note := Some ([CHR 0xC2, CHR 0xA7] @ ''11.4 db job + web lint includes i18n rule'')\<rparr>],
        o_stack := stackRefs
          [(''layout'', ''.github/workflows/ci.yml''),
           (''backend'', ''db-migrations job''),
           (''frontend'', ''web-lint with eslint-plugin-i18next''),
           (''data'', ''check-migrations-sync.mjs''),
           (''quality'', ''Policy gates block merge''),
           (''cicd'', ''workflow_call ci.yml extension''),
           (''deploy'', ''N/A'')],
        o_implementation := [''Add job db-migrations to ci.yml: setup-node, npm run db:check'',
          ''Install sqlite3 in CI runner (apt) for sqldiff'',
          ''Document in ci.yml comment: web-lint uses apps/web/eslint.config.mjs (i18n rule)'',
          (''Root package.json script db:check '' @ [CHR 0xE2, CHR 0x86, CHR 0x92] @ '' node scripts/ci/check-migrations-sync.mjs''),
          ''Fail workflow if db/schema.sql drifts from migrations/'',
          ''depends_on P01-01 so migrations/ exists before gate runs''],
        o_acceptance := [''ci.yml includes db-migrations job running npm run db:check'',
          ''CI fails when db/schema.sql and migrations/ diverge'',
          ''web-lint job fails on hardcoded JSX string (i18n rule)'',
          ''db:check script documented in doc-index.md phase gates'',
          ''sqlite3 available in CI job environment'',
          ''No Atlas or hand-written migration bypass'',
          ''Policy gates run on PR and dev/main push via entrypoints'',
          ''db:check skips gracefully only before P01 scaffold (documented)''],
        o_files := [''.github/workflows/ci.yml'',
          ''package.json''],
        o_tests := [''npm run db:check''],
        o_relatedTasks := [''P00-11'',
          ''P01-01'',
          ''P27-01'']\<rparr>)]"

definition registerP27 :: "registration list" where
  "registerP27 = P27_part1 @ P27_part2 @ P27_part3"

definition P28_part1 :: "registration list" where
  "P28_part1 =
    [RegEpic ''P28'' ''MVP verification & polish'' ''docs''
       (no_opts\<lparr>o_depends_on := [''P27-05'',
          ''P26-04''],
        o_context := Some (''Final MVP gate: provider mock tests in CI, poll integration test, MVP runbook mapping all 15 '' @ [CHR 0xC2, CHR 0xA7] @ ''12 acceptance criteria, and getting-started documentation. Proves the product meets specs.html '' @ [CHR 0xC2, CHR 0xA7] @ ''12 before release. Combines backend verification (P28-01'' @ [CHR 0xE2, CHR 0x80, CHR 0x93] @ ''03) with operator docs (P28-04'' @ [CHR 0xE2, CHR 0x80, CHR 0x93] @ ''05).''),
        o_specs := [SPEC_mvp\<lparr>dl_note := Some ([CHR 0xC2, CHR 0xA7] @ ''12 all 15 MVP acceptance criteria'')\<rparr>, SPEC_ci\<lparr>dl_note := Some ([CHR 0xC2, CHR 0xA7] @ ''11.7 MVP CI requirements'')\<rparr>, SPEC_providers\<lparr>dl_note := Some ([CHR 0xC2, CHR 0xA7] @ ''6 per-source and per-ticket tests'')\<rparr>, SPEC_domain\<lparr>dl_note := Some ''Poll baseline/create/supersede scenarios''\<rparr>],
        o_stack := stackRefs
          [(''layout'', ''docs/mvp-checklist.md, docs/getting-started.md, go test suites''),
           (''backend'', ''Provider and poll integration tests''),
           (''frontend'', ''N/A''),
           (''data'', ''Test fixtures and mocks''),
           (''quality'', ''Full MVP checklist sign-off''),
           (''cicd'', ''All tests green in ci.yml''),
           (''deploy'', ''docker compose smoke in docs'')],
        o_implementation := [''CI mock test per source provider kind'',
          ''CI mock test per ticket provider kind'',
          (''Poll integration: baseline '' @ [CHR 0xE2, CHR 0x86, CHR 0x92] @ '' create '' @ [CHR 0xE2, CHR 0x86, CHR 0x92] @ '' supersede''),
          (''mvp-checklist.md maps AC #1'' @ [CHR 0xE2, CHR 0x80, CHR 0x93] @ ''15''),
          ''getting-started.md operator guide'',
          ''Cross-link specs.html#mvp''],
        o_acceptance := [(''All '' @ [CHR 0xC2, CHR 0xA7] @ ''12 MVP AC items have verification step in runbook''),
          ''Source provider tests run in CI'',
          ''Ticket provider tests run in CI'',
          ''Poll integration test passes'',
          ''getting-started.md complete'',
          ''docker compose one-service documented'',
          ''Go + web CI green'',
          (''Workflow layout matches '' @ [CHR 0xC2, CHR 0xA7] @ ''11.2'')]\<rparr>),
     RegLeaf ''P28-01'' ''P28'' ''Add source provider CI mock tests'' ''backend''
       (no_opts\<lparr>o_depends_on := [''P11-08''],
        o_context := Some (''One CI test per MVP source kind (GitHub, GitLab, Gitea, Forgejo, Codeberg) using HTTP mocks per '' @ [CHR 0xC2, CHR 0xA7] @ ''12 AC #13. Tests live in internal/providers/source/ and run via go test ./internal/providers/source/.... Validates release tag fetching without live API keys.''),
        o_specs := [SPEC_providers\<lparr>dl_note := Some ([CHR 0xC2, CHR 0xA7] @ ''6 source provider interface'')\<rparr>, SPEC_mvp\<lparr>dl_note := Some ''AC #13 one test per MVP source in CI''\<rparr>, SPEC_ci\<lparr>dl_note := Some ''go test in ci.yml''\<rparr>],
        o_stack := stackRefs
          [(''layout'', ''internal/providers/source/*_test.go''),
           (''backend'', ''httptest mock servers per host API''),
           (''frontend'', ''N/A''),
           (''data'', ''N/A''),
           (''quality'', ''Table-driven per kind''),
           (''cicd'', ''go test ./internal/providers/source/...''),
           (''deploy'', ''N/A'')],
        o_implementation := [''Mock GitHub releases API'',
          ''Mock GitLab, Gitea, Forgejo, Codeberg equivalents'',
          ''Test GetLatestRelease per kind'',
          ''Test auth header forwarding with integration token'',
          ''Test error handling 404/no releases'',
          ''Run in CI without secrets''],
        o_acceptance := [''One test per source kind in CI'',
          ''GitHub mock test passes'',
          ''GitLab mock test passes'',
          ''Gitea mock test passes'',
          ''Forgejo mock test passes'',
          ''Codeberg mock test passes'',
          ''Tests use httptest not live APIs'',
          ''go test ./internal/providers/source/... green''],
        o_files := [''internal/providers/source/''],
        o_tests := [''go test ./internal/providers/source/...''],
        o_relatedTasks := [''P11-08'']\<rparr>),
     RegLeaf ''P28-02'' ''P28'' ''Add ticket provider CI mock tests'' ''backend''
       (no_opts\<lparr>o_depends_on := [''P12-08''],
        o_context := Some (''CI mock tests for Phasical, Jira, and Linear ticket providers per '' @ [CHR 0xC2, CHR 0xA7] @ ''12 AC #13. Tests in internal/providers/ticket/ validate create, status update, and comment operations against mocked APIs.''),
        o_specs := [SPEC_providers\<lparr>dl_note := Some ([CHR 0xC2, CHR 0xA7] @ ''6 ticket provider interface'')\<rparr>, SPEC_ticketProjects\<lparr>dl_note := Some ''create_config per provider''\<rparr>, SPEC_mvp\<lparr>dl_note := Some ''AC #13 ticket provider CI coverage''\<rparr>],
        o_stack := stackRefs
          [(''layout'', ''internal/providers/ticket/*_test.go''),
           (''backend'', ''Mock Phasical, Jira, Linear APIs''),
           (''frontend'', ''N/A''),
           (''data'', ''N/A''),
           (''quality'', ''Per-provider subtests''),
           (''cicd'', ''go test ./internal/providers/ticket/...''),
           (''deploy'', ''N/A'')],
        o_implementation := [''Mock Phasical task API'',
          ''Mock Jira issue REST'',
          ''Mock Linear GraphQL or REST'',
          ''Test CreateTicket with createConfig'',
          ''Test UpdateStatus with statusMapping'',
          ''Test AddComment for supersede flow''],
        o_acceptance := [''Phasical provider mock test passes'',
          ''Jira provider mock test passes'',
          ''Linear provider mock test passes'',
          ''Create ticket payload matches provider API'',
          ''Status mapping applied on update'',
          ''No live API keys in CI'',
          ''go test ./internal/providers/ticket/... green'',
          ''Tests run in parallel where safe''],
        o_files := [''internal/providers/ticket/''],
        o_tests := [''go test ./internal/providers/ticket/...''],
        o_relatedTasks := [''P12-08'']\<rparr>)]"

definition P28_part2 :: "registration list" where
  "P28_part2 =
    [RegLeaf ''P28-03'' ''P28'' ''Add poll flow integration test'' ''backend''
       (no_opts\<lparr>o_depends_on := [''P14-09''],
        o_context := Some ''End-to-end poll test in internal/poll exercising baseline (first poll sets last_known_tag, no ticket), skip (no release change), create (new release creates ticket), and supersede (policy supersede closes old ticket). Uses test DB and mocked providers. go test ./internal/poll/... -run Integration.'',
        o_specs := [SPEC_domain\<lparr>dl_note := Some ([CHR 0xC2, CHR 0xA7] @ ''5 poll lifecycle baseline/skip/create/supersede'')\<rparr>, SPEC_mvp\<lparr>dl_note := Some (''AC #6'' @ [CHR 0xE2, CHR 0x80, CHR 0x93] @ ''#10 poll behaviors'')\<rparr>, SPEC_ticketProjects\<lparr>dl_note := Some ''on_open_ticket_policy supersede''\<rparr>],
        o_stack := stackRefs
          [(''layout'', ''internal/poll/integration_test.go''),
           (''backend'', ''Full poll worker with mocks''),
           (''frontend'', ''N/A''),
           (''data'', ''SQLite test DB with migrations''),
           (''quality'', ''Integration tag -run Integration''),
           (''cicd'', ''go test ./internal/poll/... -run Integration''),
           (''deploy'', ''N/A'')],
        o_schema := [SCHEMA_sql\<lparr>dl_note := Some ''repos, tickets, poll_runs tables''\<rparr>],
        o_implementation := [''Seed repo + ticket project + integration'',
          ''First poll: assert baseline, last_known_tag set, no ticket'',
          ''Second poll same tag: skip'',
          ''Third poll new tag: create ticket mock called'',
          ''Fourth poll with open ticket + supersede: supersede + create'',
          ''Assert poll_run events and counters''],
        o_acceptance := [(''baseline '' @ [CHR 0xE2, CHR 0x86, CHR 0x92] @ '' create '' @ [CHR 0xE2, CHR 0x86, CHR 0x92] @ '' supersede scenario passes''),
          ''First poll does not create ticket'',
          ''last_known_tag updated on baseline'',
          ''Skip when tag unchanged'',
          ''Create calls ticket provider on new release'',
          ''Supersede increments tickets_superseded'',
          ''Integration test uses migrated test DB'',
          ''go test -run Integration passes''],
        o_files := [''internal/poll/integration_test.go''],
        o_tests := [''go test ./internal/poll/... -run Integration''],
        o_relatedTasks := [''P14-09'']\<rparr>),
     RegLeaf ''P28-04'' ''P28'' ''Write MVP acceptance runbook'' ''docs''
       (no_opts\<lparr>o_context := Some (''docs/mvp-checklist.md maps each of the 15 specs.html '' @ [CHR 0xC2, CHR 0xA7] @ ''12 MVP acceptance criteria to a concrete verification step (manual or automated). Checklist used for release sign-off and QA. References test commands and UI paths.''),
        o_specs := [SPEC_mvp\<lparr>dl_note := Some ([CHR 0xC2, CHR 0xA7] @ ''12 all 15 AC items mapped'')\<rparr>, SPEC_ui\<lparr>dl_note := Some ''UI paths for manual verification''\<rparr>, SPEC_ci\<lparr>dl_note := Some ''Automated steps reference CI jobs''\<rparr>],
        o_stack := stackRefs
          [(''layout'', ''docs/mvp-checklist.md''),
           (''backend'', ''go test commands per AC''),
           (''frontend'', ''npm test / manual UI steps''),
           (''data'', ''N/A''),
           (''quality'', ''Checklist complete 15/15''),
           (''cicd'', ''Links to workflow files''),
           (''deploy'', ''compose smoke step'')],
        o_implementation := [(''Section per '' @ [CHR 0xC2, CHR 0xA7] @ ''12 numbered AC''),
          ''AC #1: login steps at /login'',
          ''AC #2: create all 8 integration kinds'',
          (''AC #3'' @ [CHR 0xE2, CHR 0x80, CHR 0x93] @ ''#4: ticket projects and repos''),
          ''AC #5: test connection UI'',
          (''AC #6'' @ [CHR 0xE2, CHR 0x80, CHR 0x93] @ ''#10: poll behaviors '' @ em_dash @ '' link integration test''),
          ''AC #11: status mapping per project'',
          ''AC #12: notifications test'',
          ''AC #13: provider CI test commands'',
          ''AC #14: dashboard, manual poll, compose'',
          ''AC #15: CI workflow checklist''],
        o_acceptance := [(''Checklist maps to specs.html '' @ [CHR 0xC2, CHR 0xA7] @ ''12 MVP AC item #1 (admin login)''),
          ''Checklist maps AC #2 (eight integration kinds, no secrets in API)'',
          ''Checklist maps AC #3 (multiple ticket projects with mapping and policy)'',
          ''Checklist maps AC #4 (any source/ticket-project combination)'',
          ''Checklist maps AC #5 (integration test success/failure in UI)'',
          (''Checklist maps AC #6'' @ [CHR 0xE2, CHR 0x80, CHR 0x93] @ ''#10 (baseline, skip, create, supersede, merge, skip_if_open)''),
          ''Checklist maps AC #11 (status mapping per ticket project)'',
          ''Checklist maps AC #12 (Shoutrrr targets and events)'',
          ''Checklist maps AC #13 (CI tests per source and ticket provider)'',
          ''Checklist maps AC #14 (dashboard, manual poll, settings, docker compose one service)'',
          (''Checklist maps AC #15 (Go + web tests green, '' @ [CHR 0xC2, CHR 0xA7] @ ''11 workflow layout)'')],
        o_files := [''docs/mvp-checklist.md''],
        o_relatedTasks := [''P28-01'',
          ''P28-02'',
          ''P28-03'',
          ''P28-05'']\<rparr>),
     RegLeaf ''P28-05'' ''P28'' ''Add getting started documentation'' ''docs''
       (no_opts\<lparr>o_depends_on := [''P26-04''],
        o_context := Some (''Complete docs/getting-started.md for operators: prerequisites, env vars, docker compose, first login, initial setup flow (integration '' @ [CHR 0xE2, CHR 0x86, CHR 0x92] @ '' ticket project '' @ [CHR 0xE2, CHR 0x86, CHR 0x92] @ '' repo), and links to specs. Builds on P26-04 compose smoke section. Primary onboarding doc for self-hosters.''),
        o_specs := [SPEC_deployment\<lparr>dl_note := Some ([CHR 0xC2, CHR 0xA7] @ ''10 self-host quick start'')\<rparr>, SPEC_env\<lparr>dl_note := Some ([CHR 0xC2, CHR 0xA7] @ ''9 required variables'')\<rparr>, SPEC_mvp\<lparr>dl_note := Some ''AC #14 docker compose up''\<rparr>, SPEC_auth\<lparr>dl_note := Some ''Default admin bootstrap''\<rparr>],
        o_stack := stackRefs
          [(''layout'', ''docs/getting-started.md''),
           (''backend'', ''N/A''),
           (''frontend'', ''N/A''),
           (''data'', ''Volume /data persistence''),
           (''quality'', ''Doc review against compose''),
           (''cicd'', ''N/A''),
           (''deploy'', ''Operator-facing'')],
        o_implementation := [''Prerequisites: Docker, compose v2'',
          ''Clone and configure .env from example'',
          ''docker compose up --build'',
          ''First login and password change if applicable'',
          ''Setup wizard order: integration, ticket project, repo'',
          ''Link to mvp-checklist.md'',
          ''Troubleshooting section''],
        o_acceptance := [''getting-started.md exists and is complete'',
          (''Documents all '' @ [CHR 0xC2, CHR 0xA7] @ ''9 required env vars''),
          ''docker compose up single service documented'',
          ''Login URL and first-time setup steps'',
          ''Links to specs.html and mvp-checklist'',
          ''GHCR image pull alternative to local build'',
          ''Volume persistence explained'',
          ''Health check verification step''],
        o_files := [''docs/getting-started.md''],
        o_relatedTasks := [''P26-04''],
        o_outOfScope := [''Kubernetes helm chart'',
          ''Multi-tenant setup'']\<rparr>)]"

definition registerP28 :: "registration list" where
  "registerP28 = P28_part1 @ P28_part2"

end
