(* ===== verification/Roadmap_Earlier.thy ===== *)
theory Roadmap_Earlier
  imports Roadmap_P00_P04 Roadmap_P05_P09 Roadmap_P10_P14 Roadmap_P15_P19 Roadmap_P20_P24 Roadmap_P25_P28 Roadmap_Order
begin

section \<open>The earlier roadmap\<close>

text \<open>The epics \<open>P00\<close> to \<open>P28\<close> were merged into the epics of today; no script imports their two modules any
  more. What the registry makes of them, one module after the other.\<close>

definition registerP00P14 :: "registration list" where
  "registerP00P14 =
     registerP00 @ registerP01 @ registerP02 @ registerP03 @ registerP04 @ registerP05 @ registerP06 @ registerP07 @
     registerP08 @ registerP09 @ registerP10 @ registerP11 @ registerP12 @ registerP13 @ registerP14"

definition registerP15P28 :: "registration list" where
  "registerP15P28 =
     registerP15 @ registerP16 @ registerP17 @ registerP18 @ registerP19 @ registerP20 @ registerP21 @ registerP22 @
     registerP23 @ registerP24 @ registerP25 @ registerP26 @ registerP27 @ registerP28"

definition earlier_calls :: "registration list" where
  "earlier_calls = registerP00P14 @ registerP15P28"

definition EARLIER :: "roadmap_task list" where
  "EARLIER = run register [] earlier_calls"

lemma EARLIER_tasks: "EARLIER = map task_of earlier_calls"
  by (simp add: EARLIER_def run_register)

text \<open>The identifiers of the earlier roadmap are of another form.\<close>

definition old_call :: "registration \<Rightarrow> bool" where
  "old_call r \<longleftrightarrow> starts_with (reg_id r) ''P''"

named_theorems old_calls

lemma old_call_intros [old_calls]:
  "old_call (RegEpic (CHR ''P'' # i) t d os)" "old_call (RegLeaf (CHR ''P'' # i) p t d os)"
  "list_all old_call []" "old_call r \<Longrightarrow> list_all old_call rs \<Longrightarrow> list_all old_call (r # rs)"
  "list_all old_call rs \<Longrightarrow> list_all old_call qs \<Longrightarrow> list_all old_call (rs @ qs)"
  by (simp_all add: old_call_def)

lemma earlier_ids_P00_P04:
  "list_all old_call registerP00" "list_all old_call registerP01" "list_all old_call registerP02"
  "list_all old_call registerP03" "list_all old_call registerP04"
  unfolding registerP00_def P00_part1_def P00_part2_def P00_part3_def registerP01_def P01_part1_def P01_part2_def registerP02_def
    P02_part1_def P02_part2_def P02_part3_def registerP03_def P03_part1_def P03_part2_def P03_part3_def registerP04_def
    P04_part1_def
  by (intro old_calls)+

lemma earlier_ids_P05_P09:
  "list_all old_call registerP05" "list_all old_call registerP06" "list_all old_call registerP07"
  "list_all old_call registerP08" "list_all old_call registerP09"
  unfolding registerP05_def P05_part1_def P05_part2_def registerP06_def P06_part1_def P06_part2_def registerP07_def P07_part1_def
    P07_part2_def registerP08_def P08_part1_def P08_part2_def registerP09_def P09_part1_def P09_part2_def
  by (intro old_calls)+

lemma earlier_ids_P10_P14:
  "list_all old_call registerP10" "list_all old_call registerP11" "list_all old_call registerP12"
  "list_all old_call registerP13" "list_all old_call registerP14"
  unfolding registerP10_def P10_part1_def P10_part2_def registerP11_def P11_part1_def P11_part2_def P11_part3_def registerP12_def
    P12_part1_def P12_part2_def P12_part3_def registerP13_def P13_part1_def P13_part2_def registerP14_def P14_part1_def
    P14_part2_def P14_part3_def
  by (intro old_calls)+

lemma earlier_ids_P15_P19:
  "list_all old_call registerP15" "list_all old_call registerP16" "list_all old_call registerP17"
  "list_all old_call registerP18" "list_all old_call registerP19"
  unfolding registerP15_def P15_part1_def P15_part2_def P15_part3_def registerP16_def P16_part1_def P16_part2_def registerP17_def
    P17_part1_def P17_part2_def P17_part3_def registerP18_def P18_part1_def P18_part2_def P18_part3_def registerP19_def
    P19_part1_def P19_part2_def
  by (intro old_calls)+

lemma earlier_ids_P20_P24:
  "list_all old_call registerP20" "list_all old_call registerP21" "list_all old_call registerP22"
  "list_all old_call registerP23" "list_all old_call registerP24"
  unfolding registerP20_def P20_part1_def P20_part2_def P20_part3_def registerP21_def P21_part1_def P21_part2_def P21_part3_def
    registerP22_def P22_part1_def P22_part2_def P22_part3_def registerP23_def P23_part1_def P23_part2_def P23_part3_def
    registerP24_def P24_part1_def P24_part2_def
  by (intro old_calls)+

lemma earlier_ids_P25_P28:
  "list_all old_call registerP25" "list_all old_call registerP26" "list_all old_call registerP27"
  "list_all old_call registerP28"
  unfolding registerP25_def P25_part1_def P25_part2_def registerP26_def P26_part1_def P26_part2_def registerP27_def P27_part1_def
    P27_part2_def P27_part3_def registerP28_def P28_part1_def P28_part2_def
  by (intro old_calls)+

lemma earlier_old: "list_all old_call earlier_calls"
  by (simp only: earlier_calls_def registerP00P14_def registerP15P28_def list_all_append simp_thms
      earlier_ids_P00_P04 earlier_ids_P05_P09 earlier_ids_P10_P14 earlier_ids_P15_P19 earlier_ids_P20_P24 earlier_ids_P25_P28)

lemma old_unread:
  assumes "starts_with i ''P''" shows "read_id d \<noteq> Some i"
  using assms read_id_lang [of d i] by (auto simp: TASK_ID_shape)

text \<open>C40: The earlier roadmap cannot be imported: whatever its format says and whether or not the spec audit
  passes, the intake audit refuses every roadmap that holds a task of it, because the importer finds
  no task's identifier in its description.\<close>

theorem earlier_roadmap_refused:
  "t \<in> set EARLIER \<Longrightarrow> t \<in> set (rm_tasks rm) \<Longrightarrow> intake_blockers spec_ok rm \<noteq> []"
proof
  assume t: "t \<in> set EARLIER" "t \<in> set (rm_tasks rm)" and "intake_blockers spec_ok rm = []"
  then have "read_id (rt_description t) = Some (rt_id t)"
    using no_blockers_fit [of spec_ok rm] by (simp add: marked_def list_all_iff)
  moreover have "starts_with (rt_id t) ''P''"
    using t(1) earlier_old by (auto simp: EARLIER_tasks list_all_iff old_call_def task_of_fields)
  ultimately show False using old_unread by blast
qed

lemma earlier_roadmap_refused_witness:
  "intake_blockers True \<lparr>rm_format = ''phasical-intake-v2'', rm_mapping = True, rm_tasks = [hd EARLIER]\<rparr> \<noteq> []"
proof (rule earlier_roadmap_refused)
  have "EARLIER \<noteq> []"
    by (simp add: EARLIER_tasks earlier_calls_def registerP00P14_def registerP00_def P00_part1_def)
  then show "hd EARLIER \<in> set EARLIER" by simp
qed simp

text \<open>Two of its references are to an entry that the table of documents does not have.\<close>

lemma undefined_reference:
  "specRefs [STACK_ui\<lparr>dl_note := Some n\<rparr>] = ''- [undefined](undefined)'' @ (if n = [] then [] else '' '' @ em_dash @ '' '' @ n)"
  by (simp add: specRefs_def STACK_ui_def printed_def default_def)

end
