(* ===== verification/Ui_Parts.thy ===== *)
theory Ui_Parts
  imports View
begin

section \<open>The parts of the interface (\<open>apps/web/components/ui\<close>)\<close>

text \<open>The wrappers the pages are built from. Each draws an element, or a part of the component library
  (\<open>DialogPrimitive.Popup\<close> and so on, which stay elements), marks it with its \<open>data-slot\<close> and hands
  its props on. The props of an element are an association list; a boolean is \<open>true\<close> or \<open>false\<close>.
  Class names are left out, with the props that only choose among them (\<open>className\<close>, \<open>variant\<close> and
  \<open>size\<close>, \<open>side\<close> of a sheet), and so are the props meant for a part inside a wrapper (\<open>portalProps\<close>,
  \<open>closeProps\<close>), which no page gives. The children stand beside the props.\<close>

type_synonym props = "(string \<times> string) list"

text \<open>\<open>const { a, b, ...props } = ps\<close>: the props without those taken; a prop with its default; and
  \<open><Part {...defaults} {...ps}>\<close>: a given prop wins.\<close>

definition other_props :: "string list \<Rightarrow> props \<Rightarrow> props" where
  "other_props taken ps = filter (\<lambda>p. fst p \<notin> set taken) ps"

definition prop_or :: "props \<Rightarrow> string \<Rightarrow> string \<Rightarrow> string" where
  "prop_or ps k d = (case map_of ps k of None \<Rightarrow> d | Some v \<Rightarrow> v)"

definition spread_props :: "props \<Rightarrow> props \<Rightarrow> props" where
  "spread_props defaults ps = ps @ filter (\<lambda>p. fst p \<notin> set (map fst ps)) defaults"

definition ui_part :: "string \<Rightarrow> props \<Rightarrow> string list \<Rightarrow> props \<Rightarrow> view list \<Rightarrow> view" where
  "ui_part tag defaults taken ps children = El tag (spread_props defaults (other_props taken ps)) children"

text \<open>\<open>useRender\<close> of the library: the default tag, or the element given as \<open>render\<close>, which the library draws
  with these props and children.\<close>

definition use_render :: "string \<Rightarrow> view option \<Rightarrow> props \<Rightarrow> view list \<Rightarrow> view" where
  "use_render tag render ps children =
     (case render of None \<Rightarrow> El tag ps children | Some e \<Rightarrow> El ''useRender'' ps (e # children))"

definition render_part :: "string \<Rightarrow> view option \<Rightarrow> props \<Rightarrow> string list \<Rightarrow> props \<Rightarrow> view list \<Rightarrow> view" where
  "render_part tag render defaults taken ps = use_render tag render (spread_props defaults (other_props taken ps))"

subsection \<open>Boxes: cards, frames, alerts, empty states (\<open>card.tsx\<close>, \<open>frame.tsx\<close>, \<open>alert.tsx\<close>, \<open>empty.tsx\<close>)\<close>

definition Card :: "view option \<Rightarrow> props \<Rightarrow> view list \<Rightarrow> view" where
  "Card render = render_part ''div'' render [(''data-slot'', ''card'')] [''className'', ''render'']"

definition CardFrame :: "view option \<Rightarrow> props \<Rightarrow> view list \<Rightarrow> view" where
  "CardFrame render = render_part ''div'' render [(''data-slot'', ''card-frame'')] [''className'', ''render'']"

definition CardFrameHeader :: "view option \<Rightarrow> props \<Rightarrow> view list \<Rightarrow> view" where
  "CardFrameHeader render = render_part ''div'' render [(''data-slot'', ''card-frame-header'')] [''className'', ''render'']"

definition CardFrameTitle :: "view option \<Rightarrow> props \<Rightarrow> view list \<Rightarrow> view" where
  "CardFrameTitle render = render_part ''div'' render [(''data-slot'', ''card-frame-title'')] [''className'', ''render'']"

definition CardFrameDescription :: "view option \<Rightarrow> props \<Rightarrow> view list \<Rightarrow> view" where
  "CardFrameDescription render = render_part ''div'' render [(''data-slot'', ''card-frame-description'')] [''className'', ''render'']"

definition CardFrameAction :: "view option \<Rightarrow> props \<Rightarrow> view list \<Rightarrow> view" where
  "CardFrameAction render = render_part ''div'' render [(''data-slot'', ''card-frame-action'')] [''className'', ''render'']"

definition CardFrameFooter :: "view option \<Rightarrow> props \<Rightarrow> view list \<Rightarrow> view" where
  "CardFrameFooter render = render_part ''div'' render [(''data-slot'', ''card-frame-footer'')] [''className'', ''render'']"

definition CardHeader :: "view option \<Rightarrow> props \<Rightarrow> view list \<Rightarrow> view" where
  "CardHeader render = render_part ''div'' render [(''data-slot'', ''card-header'')] [''className'', ''render'']"

definition CardTitle :: "view option \<Rightarrow> props \<Rightarrow> view list \<Rightarrow> view" where
  "CardTitle render = render_part ''div'' render [(''data-slot'', ''card-title'')] [''className'', ''render'']"

definition CardDescription :: "view option \<Rightarrow> props \<Rightarrow> view list \<Rightarrow> view" where
  "CardDescription render = render_part ''div'' render [(''data-slot'', ''card-description'')] [''className'', ''render'']"

definition CardAction :: "view option \<Rightarrow> props \<Rightarrow> view list \<Rightarrow> view" where
  "CardAction render = render_part ''div'' render [(''data-slot'', ''card-action'')] [''className'', ''render'']"

definition CardPanel :: "view option \<Rightarrow> props \<Rightarrow> view list \<Rightarrow> view" where
  "CardPanel render = render_part ''div'' render [(''data-slot'', ''card-panel'')] [''className'', ''render'']"

definition CardFooter :: "view option \<Rightarrow> props \<Rightarrow> view list \<Rightarrow> view" where
  "CardFooter render = render_part ''div'' render [(''data-slot'', ''card-footer'')] [''className'', ''render'']"

definition Frame :: "props \<Rightarrow> view list \<Rightarrow> view" where
  "Frame = ui_part ''div'' [(''data-slot'', ''frame'')] [''className'']"

definition FramePanel :: "props \<Rightarrow> view list \<Rightarrow> view" where
  "FramePanel = ui_part ''div'' [(''data-slot'', ''frame-panel'')] [''className'']"

definition FrameHeader :: "props \<Rightarrow> view list \<Rightarrow> view" where
  "FrameHeader = ui_part ''header'' [(''data-slot'', ''frame-panel-header'')] [''className'']"

definition FrameTitle :: "props \<Rightarrow> view list \<Rightarrow> view" where
  "FrameTitle = ui_part ''div'' [(''data-slot'', ''frame-panel-title'')] [''className'']"

definition FrameDescription :: "props \<Rightarrow> view list \<Rightarrow> view" where
  "FrameDescription = ui_part ''div'' [(''data-slot'', ''frame-panel-description'')] [''className'']"

definition FrameFooter :: "props \<Rightarrow> view list \<Rightarrow> view" where
  "FrameFooter = ui_part ''footer'' [(''data-slot'', ''frame-panel-footer'')] [''className'']"

definition Alert :: "props \<Rightarrow> view list \<Rightarrow> view" where
  "Alert = ui_part ''div'' [(''data-slot'', ''alert''), (''role'', ''alert'')] [''className'', ''variant'']"

definition AlertTitle :: "props \<Rightarrow> view list \<Rightarrow> view" where
  "AlertTitle = ui_part ''div'' [(''data-slot'', ''alert-title'')] [''className'']"

definition AlertDescription :: "props \<Rightarrow> view list \<Rightarrow> view" where
  "AlertDescription = ui_part ''div'' [(''data-slot'', ''alert-description'')] [''className'']"

definition AlertAction :: "props \<Rightarrow> view list \<Rightarrow> view" where
  "AlertAction = ui_part ''div'' [(''data-slot'', ''alert-action'')] [''className'']"

definition Empty :: "props \<Rightarrow> view list \<Rightarrow> view" where
  "Empty = ui_part ''div'' [(''data-slot'', ''empty'')] [''className'']"

definition EmptyHeader :: "props \<Rightarrow> view list \<Rightarrow> view" where
  "EmptyHeader = ui_part ''div'' [(''data-slot'', ''empty-header'')] [''className'']"

definition EmptyTitle :: "props \<Rightarrow> view list \<Rightarrow> view" where
  "EmptyTitle = ui_part ''div'' [(''data-slot'', ''empty-title'')] [''className'']"

definition EmptyDescription :: "props \<Rightarrow> view list \<Rightarrow> view" where
  "EmptyDescription = ui_part ''div'' [(''data-slot'', ''empty-description'')] [''className'']"

definition EmptyContent :: "props \<Rightarrow> view list \<Rightarrow> view" where
  "EmptyContent = ui_part ''div'' [(''data-slot'', ''empty-content'')] [''className'']"

definition EmptyMedia :: "props \<Rightarrow> view list \<Rightarrow> view" where
  "EmptyMedia ps children =
     (let variant = prop_or ps ''variant'' ''default''
      in ui_part ''div'' [(''data-slot'', ''empty-media''), (''data-variant'', variant)] [''className'', ''variant''] ps
           (shown_if (variant = ''icon'') [El ''div'' [(''aria-hidden'', ''true'')] [], El ''div'' [(''aria-hidden'', ''true'')] []] @
            [El ''div'' [] children]))"


subsection \<open>Texts and marks (\<open>badge.tsx\<close>, \<open>label.tsx\<close>, \<open>separator.tsx\<close>, \<open>skeleton.tsx\<close>, \<open>spinner.tsx\<close>, \<open>breadcrumb.tsx\<close>)\<close>

definition Badge :: "view option \<Rightarrow> props \<Rightarrow> view list \<Rightarrow> view" where
  "Badge render = render_part ''span'' render [(''data-slot'', ''badge'')] [''className'', ''variant'', ''size'', ''render'']"

definition Label :: "view option \<Rightarrow> props \<Rightarrow> view list \<Rightarrow> view" where
  "Label render = render_part ''label'' render [(''data-slot'', ''label'')] [''className'', ''render'']"

definition Separator :: "props \<Rightarrow> view list \<Rightarrow> view" where
  "Separator ps =
     ui_part ''SeparatorPrimitive'' [(''data-slot'', ''separator''), (''orientation'', prop_or ps ''orientation'' ''horizontal'')]
       [''className'', ''orientation''] ps"


definition Skeleton :: "props \<Rightarrow> view list \<Rightarrow> view" where
  "Skeleton = ui_part ''div'' [(''data-slot'', ''skeleton'')] [''className'']"

definition Spinner :: "props \<Rightarrow> view list \<Rightarrow> view" where
  "Spinner = ui_part ''Loader2Icon'' [(''aria-label'', ''Loading''), (''role'', ''status'')] [''className'']"

definition Breadcrumb :: "props \<Rightarrow> view list \<Rightarrow> view" where
  "Breadcrumb = ui_part ''nav'' [(''aria-label'', ''breadcrumb''), (''data-slot'', ''breadcrumb'')] []"

definition BreadcrumbList :: "props \<Rightarrow> view list \<Rightarrow> view" where
  "BreadcrumbList = ui_part ''ol'' [(''data-slot'', ''breadcrumb-list'')] [''className'']"

definition BreadcrumbItem :: "props \<Rightarrow> view list \<Rightarrow> view" where
  "BreadcrumbItem = ui_part ''li'' [(''data-slot'', ''breadcrumb-item'')] [''className'']"

definition BreadcrumbLink :: "view option \<Rightarrow> props \<Rightarrow> view list \<Rightarrow> view" where
  "BreadcrumbLink render = render_part ''a'' render [(''data-slot'', ''breadcrumb-link'')] [''className'', ''render'']"

definition BreadcrumbPage :: "props \<Rightarrow> view list \<Rightarrow> view" where
  "BreadcrumbPage = ui_part ''span'' [(''aria-current'', ''page''), (''data-slot'', ''breadcrumb-page'')] [''className'']"

definition BreadcrumbSeparator :: "props \<Rightarrow> view list \<Rightarrow> view" where
  "BreadcrumbSeparator ps children =
     ui_part ''li'' [(''aria-hidden'', ''true''), (''data-slot'', ''breadcrumb-separator''), (''role'', ''presentation'')] [''className''] ps
       (if children = [] then [El ''ChevronRight'' [] []] else children)"


text \<open>The ellipsis has its own children; any it is given are replaced.\<close>

definition BreadcrumbEllipsis :: "props \<Rightarrow> view" where
  "BreadcrumbEllipsis ps =
     ui_part ''span'' [(''aria-hidden'', ''true''), (''data-slot'', ''breadcrumb-ellipsis''), (''role'', ''presentation'')] [''className''] ps
       [El ''MoreHorizontal'' [] [], El ''span'' [] [lit ''More'']]"


subsection \<open>Tables and tabs (\<open>table.tsx\<close>, \<open>tabs.tsx\<close>)\<close>

definition Table :: "view option \<Rightarrow> props \<Rightarrow> view list \<Rightarrow> view" where
  "Table render ps children =
     use_render ''div'' render [(''data-slot'', ''table-container''), (''data-variant'', prop_or ps ''variant'' ''default'')]
       [ui_part ''table'' [(''data-slot'', ''table'')] [''className'', ''variant'', ''render''] ps children]"


definition TableHeader :: "props \<Rightarrow> view list \<Rightarrow> view" where
  "TableHeader = ui_part ''thead'' [(''data-slot'', ''table-header'')] [''className'']"

definition TableBody :: "props \<Rightarrow> view list \<Rightarrow> view" where
  "TableBody = ui_part ''tbody'' [(''data-slot'', ''table-body'')] [''className'']"

definition TableFooter :: "props \<Rightarrow> view list \<Rightarrow> view" where
  "TableFooter = ui_part ''tfoot'' [(''data-slot'', ''table-footer'')] [''className'']"

definition TableRow :: "props \<Rightarrow> view list \<Rightarrow> view" where
  "TableRow = ui_part ''tr'' [(''data-slot'', ''table-row'')] [''className'']"

definition TableHead :: "props \<Rightarrow> view list \<Rightarrow> view" where
  "TableHead = ui_part ''th'' [(''data-slot'', ''table-head'')] [''className'']"

definition TableCell :: "props \<Rightarrow> view list \<Rightarrow> view" where
  "TableCell = ui_part ''td'' [(''data-slot'', ''table-cell'')] [''className'']"

definition TableCaption :: "props \<Rightarrow> view list \<Rightarrow> view" where
  "TableCaption = ui_part ''caption'' [(''data-slot'', ''table-caption'')] [''className'']"

definition Tabs :: "props \<Rightarrow> view list \<Rightarrow> view" where
  "Tabs = ui_part ''TabsPrimitive.Root'' [(''data-slot'', ''tabs'')] [''className'']"

definition TabsList :: "props \<Rightarrow> view list \<Rightarrow> view" where
  "TabsList ps children =
     ui_part ''TabsPrimitive.List'' [(''data-slot'', ''tabs-list'')] [''variant'', ''className''] ps
       (children @ [El ''TabsPrimitive.Indicator'' [(''data-slot'', ''tab-indicator'')] []])"


definition TabsTab :: "props \<Rightarrow> view list \<Rightarrow> view" where
  "TabsTab = ui_part ''TabsPrimitive.Tab'' [(''data-slot'', ''tabs-tab'')] [''className'']"

definition TabsPanel :: "props \<Rightarrow> view list \<Rightarrow> view" where
  "TabsPanel = ui_part ''TabsPrimitive.Panel'' [(''data-slot'', ''tabs-content'')] [''className'']"

subsection \<open>Fields (\<open>field.tsx\<close>, \<open>input.tsx\<close>, \<open>textarea.tsx\<close>, \<open>checkbox.tsx\<close>, \<open>switch.tsx\<close>)\<close>

definition Field :: "props \<Rightarrow> view list \<Rightarrow> view" where
  "Field = ui_part ''FieldPrimitive.Root'' [(''data-slot'', ''field'')] [''className'']"

definition FieldLabel :: "props \<Rightarrow> view list \<Rightarrow> view" where
  "FieldLabel = ui_part ''FieldPrimitive.Label'' [(''data-slot'', ''field-label'')] [''className'']"

definition FieldItem :: "props \<Rightarrow> view list \<Rightarrow> view" where
  "FieldItem = ui_part ''FieldPrimitive.Item'' [(''data-slot'', ''field-item'')] [''className'']"

definition FieldDescription :: "props \<Rightarrow> view list \<Rightarrow> view" where
  "FieldDescription = ui_part ''FieldPrimitive.Description'' [(''data-slot'', ''field-description'')] [''className'']"

definition FieldError :: "props \<Rightarrow> view list \<Rightarrow> view" where
  "FieldError = ui_part ''FieldPrimitive.Error'' [(''data-slot'', ''field-error'')] [''className'']"

text \<open>An input stands in a span that draws its frame; a numeric \<open>size\<close> is handed on to it.\<close>

definition size_prop :: "string \<Rightarrow> props" where
  "size_prop sz = (if sz \<noteq> [] \<and> list_all (\<lambda>c. c \<in> set ''0123456789'') sz then [(''size'', sz)] else [])"

definition Input :: "props \<Rightarrow> view list \<Rightarrow> view" where
  "Input ps children =
     (let sz = prop_or ps ''size'' ''default''; nativeInput = (prop_or ps ''nativeInput'' ''false'' = ''true'')
      in El ''span'' [(''data-size'', sz), (''data-slot'', ''input-control'')]
           [ui_part (if nativeInput then ''input'' else ''InputPrimitive'')
              ((''data-slot'', ''input'') # size_prop sz @ attr_opt ''style'' (map_of ps ''style''))
              [''className'', ''size'', ''unstyled'', ''nativeInput'', ''style''] ps children])"


text \<open>A textarea is drawn by the library's control, which gets the props it knows. The library hands its own
  props back to the \<open>render\<close> function; it is shown with those the caller gave.\<close>

definition Textarea :: "props \<Rightarrow> view list \<Rightarrow> view" where
  "Textarea ps children =
     (let props = other_props [''className'', ''size'', ''unstyled'', ''ref''] ps
      in El ''span'' [(''data-size'', prop_or ps ''size'' ''default''), (''data-slot'', ''textarea-control'')]
           [El ''FieldPrimitive.Control''
              (attr_opt ''ref'' (map_of ps ''ref'') @ concat (map (\<lambda>k. attr_opt k (map_of props k)) [''value'', ''defaultValue'', ''disabled'', ''id'', ''name'']))
              [El ''textarea'' (spread_props [(''data-slot'', ''textarea'')] props) children]])"


text \<open>The mark depends on the state the library hands to \<open>render\<close>.\<close>

definition checkbox_mark :: "bool \<Rightarrow> view" where
  "checkbox_mark indeterminate =
     El ''span'' []
       [El ''svg'' [(''aria-hidden'', ''true'')]
          [El ''path'' [(''d'', if indeterminate then ''M5.252 12h13.496'' else ''M5.252 12.7 10.2 18.63 18.748 5.37'')] []]]"

definition Checkbox :: "bool \<Rightarrow> props \<Rightarrow> view list \<Rightarrow> view" where
  "Checkbox indeterminate ps children =
     ui_part ''CheckboxPrimitive.Root'' [(''data-slot'', ''checkbox'')] [''className''] ps
       [El ''CheckboxPrimitive.Indicator'' [(''data-slot'', ''checkbox-indicator'')] [checkbox_mark indeterminate]]"


definition CheckboxGroup :: "props \<Rightarrow> view list \<Rightarrow> view" where
  "CheckboxGroup = ui_part ''CheckboxGroupPrimitive'' [] [''className'']"

definition Switch :: "props \<Rightarrow> view" where
  "Switch ps =
     ui_part ''SwitchPrimitive.Root'' [(''data-slot'', ''switch'')] [''className''] ps
       [El ''SwitchPrimitive.Thumb'' [(''data-slot'', ''switch-thumb'')] []]"


subsection \<open>Numbers (\<open>number-field.tsx\<close>)\<close>

text \<open>The field names itself to its parts through a context: its \<open>id\<close>, or one generated for it.\<close>

definition NumberField :: "string \<Rightarrow> props \<Rightarrow> view list \<Rightarrow> view" where
  "NumberField generatedId ps children =
     (let fieldId = prop_or ps ''id'' generatedId
      in El ''NumberFieldContext.Provider'' [(''fieldId'', fieldId)]
           [ui_part ''NumberFieldPrimitive.Root''
              [(''data-size'', prop_or ps ''size'' ''default''), (''data-slot'', ''number-field''), (''id'', fieldId)]
              [''id'', ''className'', ''size''] ps children])"


definition NumberFieldGroup :: "props \<Rightarrow> view list \<Rightarrow> view" where
  "NumberFieldGroup = ui_part ''NumberFieldPrimitive.Group'' [(''data-slot'', ''number-field-group'')] [''className'']"

definition NumberFieldDecrement :: "props \<Rightarrow> view" where
  "NumberFieldDecrement ps = ui_part ''NumberFieldPrimitive.Decrement'' [(''data-slot'', ''number-field-decrement'')] [''className''] ps [El ''MinusIcon'' [] []]"


definition NumberFieldIncrement :: "props \<Rightarrow> view" where
  "NumberFieldIncrement ps = ui_part ''NumberFieldPrimitive.Increment'' [(''data-slot'', ''number-field-increment'')] [''className''] ps [El ''PlusIcon'' [] []]"


definition NumberFieldInput :: "props \<Rightarrow> view list \<Rightarrow> view" where
  "NumberFieldInput = ui_part ''NumberFieldPrimitive.Input'' [(''data-slot'', ''number-field-input'')] [''className'']"

definition CursorGrowIcon :: "props \<Rightarrow> view" where
  "CursorGrowIcon ps =
     ui_part ''svg'' [(''aria-hidden'', ''true''), (''fill'', ''black''), (''height'', ''14''), (''stroke'', ''white''), (''viewBox'', ''0 0 24 14''),
         (''width'', ''26''), (''xmlns'', ''http://www.w3.org/2000/svg'')] [] ps
       [El ''path'' [(''d'', ''M19.5 5.5L6.49737 5.51844V2L1 6.9999L6.5 12L6.49737 8.5L19.5 8.5V12L25 6.9999L19.5 2V5.5Z'')] []]"


text \<open>The scrub area throws outside of a number field.\<close>

definition NumberFieldScrubArea :: "string option \<Rightarrow> props \<Rightarrow> msg \<Rightarrow> string + view" where
  "NumberFieldScrubArea context ps label =
     (case context of
        None \<Rightarrow> Inl ''NumberFieldScrubArea must be used within a NumberField component for accessibility.''
      | Some fieldId \<Rightarrow> Inr (ui_part ''NumberFieldPrimitive.ScrubArea'' [(''data-slot'', ''number-field-scrub-area'')] [''className'', ''label''] ps
          [Label None [(''htmlFor'', fieldId)] [Txt label],
           El ''NumberFieldPrimitive.ScrubAreaCursor'' [] [CursorGrowIcon []]]))"


subsection \<open>Selects (\<open>select.tsx\<close>)\<close>

definition SelectButton :: "view option \<Rightarrow> props \<Rightarrow> view list \<Rightarrow> view" where
  "SelectButton render ps children =
     render_part ''button'' render ((''data-slot'', ''select-button'') # (if render = None then [(''type'', ''button'')] else []))
       [''className'', ''size'', ''render''] ps [El ''span'' [] children, El ''ChevronsUpDownIcon'' [] []]"


definition SelectTrigger :: "props \<Rightarrow> view list \<Rightarrow> view" where
  "SelectTrigger ps children =
     ui_part ''SelectPrimitive.Trigger'' [(''data-slot'', ''select-trigger'')] [''className'', ''size''] ps
       (children @ [El ''SelectPrimitive.Icon'' [(''data-slot'', ''select-icon'')] [El ''ChevronsUpDownIcon'' [] []]])"


definition SelectValue :: "props \<Rightarrow> view list \<Rightarrow> view" where
  "SelectValue = ui_part ''SelectPrimitive.Value'' [(''data-slot'', ''select-value'')] [''className'']"

definition SelectPopup :: "props \<Rightarrow> view list \<Rightarrow> view" where
  "SelectPopup ps children =
     El ''SelectPrimitive.Portal'' []
       [El ''SelectPrimitive.Positioner''
          ([(''align'', prop_or ps ''align'' ''start''), (''alignItemWithTrigger'', prop_or ps ''alignItemWithTrigger'' ''true''),
            (''alignOffset'', prop_or ps ''alignOffset'' ''0'')] @ attr_opt ''anchor'' (map_of ps ''anchor'') @
           [(''data-slot'', ''select-positioner''), (''side'', prop_or ps ''side'' ''bottom''), (''sideOffset'', prop_or ps ''sideOffset'' ''4'')])
          [ui_part ''SelectPrimitive.Popup'' [(''data-slot'', ''select-popup'')]
             [''className'', ''side'', ''sideOffset'', ''align'', ''alignOffset'', ''alignItemWithTrigger'', ''anchor''] ps
             [El ''SelectPrimitive.ScrollUpArrow'' [(''data-slot'', ''select-scroll-up-arrow'')] [El ''ChevronUpIcon'' [] []],
              El ''div'' [] [El ''SelectPrimitive.List'' [(''data-slot'', ''select-list'')] children],
              El ''SelectPrimitive.ScrollDownArrow'' [(''data-slot'', ''select-scroll-down-arrow'')] [El ''ChevronDownIcon'' [] []]]]]"


definition SelectItem :: "props \<Rightarrow> view list \<Rightarrow> view" where
  "SelectItem ps children =
     ui_part ''SelectPrimitive.Item'' [(''data-slot'', ''select-item'')] [''className''] ps
       [El ''SelectPrimitive.ItemIndicator'' []
          [El ''svg'' [(''aria-hidden'', ''true'')] [El ''path'' [(''d'', ''M5.252 12.7 10.2 18.63 18.748 5.37'')] []]],
        El ''SelectPrimitive.ItemText'' [] children]"


definition SelectSeparator :: "props \<Rightarrow> view list \<Rightarrow> view" where
  "SelectSeparator = ui_part ''SelectPrimitive.Separator'' [(''data-slot'', ''select-separator'')] [''className'']"

definition SelectGroup :: "props \<Rightarrow> view list \<Rightarrow> view" where
  "SelectGroup = ui_part ''SelectPrimitive.Group'' [(''data-slot'', ''select-group'')] []"

definition SelectLabel :: "props \<Rightarrow> view list \<Rightarrow> view" where
  "SelectLabel = ui_part ''SelectPrimitive.Label'' [(''data-slot'', ''select-label'')] [''className'']"

definition SelectGroupLabel :: "props \<Rightarrow> view list \<Rightarrow> view" where
  "SelectGroupLabel = ui_part ''SelectPrimitive.GroupLabel'' [(''data-slot'', ''select-group-label'')] []"

subsection \<open>Tooltips and scrolling (\<open>tooltip.tsx\<close>, \<open>scroll-area.tsx\<close>)\<close>

definition TooltipTrigger :: "props \<Rightarrow> view list \<Rightarrow> view" where
  "TooltipTrigger = ui_part ''TooltipPrimitive.Trigger'' [(''data-slot'', ''tooltip-trigger'')] []"

definition TooltipPopup :: "props \<Rightarrow> view list \<Rightarrow> view" where
  "TooltipPopup ps children =
     El ''TooltipPrimitive.Portal'' []
       [El ''TooltipPrimitive.Positioner''
          ((''align'', prop_or ps ''align'' ''center'') # attr_opt ''anchor'' (map_of ps ''anchor'') @
           [(''data-slot'', ''tooltip-positioner''), (''side'', prop_or ps ''side'' ''top''), (''sideOffset'', prop_or ps ''sideOffset'' ''4'')])
          [ui_part ''TooltipPrimitive.Popup'' [(''data-slot'', ''tooltip-popup'')] [''className'', ''align'', ''sideOffset'', ''side'', ''anchor''] ps
             [El ''TooltipPrimitive.Viewport'' [(''data-slot'', ''tooltip-viewport'')] children]]]"


definition ScrollBar :: "props \<Rightarrow> view" where
  "ScrollBar ps =
     ui_part ''ScrollAreaPrimitive.Scrollbar''
       [(''data-slot'', ''scroll-area-scrollbar''), (''orientation'', prop_or ps ''orientation'' ''vertical'')] [''className'', ''orientation''] ps
       [El ''ScrollAreaPrimitive.Thumb'' [(''data-slot'', ''scroll-area-thumb'')] []]"


definition ScrollArea :: "props \<Rightarrow> view list \<Rightarrow> view" where
  "ScrollArea ps children =
     ui_part ''ScrollAreaPrimitive.Root'' []
       [''className'', ''scrollFade'', ''scrollbarGutter'', ''fill'', ''clampContentMinWidth'', ''overscrollContain''] ps
       [El ''ScrollAreaPrimitive.Viewport'' [(''data-slot'', ''scroll-area-viewport'')]
          [El ''ScrollAreaPrimitive.Content''
             ((''data-slot'', ''scroll-area-content'') #
              (if prop_or ps ''clampContentMinWidth'' ''true'' = ''true'' then [(''style'', ''min-width: 0'')] else []))
             children],
        ScrollBar [(''orientation'', ''vertical'')], ScrollBar [(''orientation'', ''horizontal'')],
        El ''ScrollAreaPrimitive.Corner'' [(''data-slot'', ''scroll-area-corner'')] []]"


subsection \<open>Dialogs (\<open>dialog.tsx\<close>)\<close>

definition DialogTrigger :: "props \<Rightarrow> view list \<Rightarrow> view" where
  "DialogTrigger = ui_part ''DialogPrimitive.Trigger'' [(''data-slot'', ''dialog-trigger'')] []"

definition DialogClose :: "props \<Rightarrow> view list \<Rightarrow> view" where
  "DialogClose = ui_part ''DialogPrimitive.Close'' [(''data-slot'', ''dialog-close'')] []"

definition DialogBackdrop :: "props \<Rightarrow> view list \<Rightarrow> view" where
  "DialogBackdrop = ui_part ''DialogPrimitive.Backdrop'' [(''data-slot'', ''dialog-backdrop'')] [''className'']"

definition DialogViewport :: "props \<Rightarrow> view list \<Rightarrow> view" where
  "DialogViewport = ui_part ''DialogPrimitive.Viewport'' [(''data-slot'', ''dialog-viewport'')] [''className'']"

definition DialogPopup :: "props \<Rightarrow> view list \<Rightarrow> view" where
  "DialogPopup ps children =
     El ''DialogPortal'' []
       [DialogBackdrop [] [],
        DialogViewport []
          [ui_part ''DialogPrimitive.Popup'' [(''data-slot'', ''dialog-popup'')] [''className'', ''showCloseButton'', ''bottomStickOnMobile''] ps
             (children @ shown_if (prop_or ps ''showCloseButton'' ''true'' = ''true'')
                [El ''DialogPrimitive.Close'' [(''aria-label'', ''Close''), (''size'', ''icon''), (''variant'', ''ghost'')] [El ''XIcon'' [] []]])]]"


definition DialogHeader :: "view option \<Rightarrow> props \<Rightarrow> view list \<Rightarrow> view" where
  "DialogHeader render = render_part ''div'' render [(''data-slot'', ''dialog-header'')] [''className'', ''render'']"

definition DialogFooter :: "view option \<Rightarrow> props \<Rightarrow> view list \<Rightarrow> view" where
  "DialogFooter render = render_part ''div'' render [(''data-slot'', ''dialog-footer'')] [''className'', ''variant'', ''render'']"

definition DialogTitle :: "props \<Rightarrow> view list \<Rightarrow> view" where
  "DialogTitle = ui_part ''DialogPrimitive.Title'' [(''data-slot'', ''dialog-title'')] [''className'']"

definition DialogDescription :: "props \<Rightarrow> view list \<Rightarrow> view" where
  "DialogDescription = ui_part ''DialogPrimitive.Description'' [(''data-slot'', ''dialog-description'')] [''className'']"

definition DialogPanel :: "view option \<Rightarrow> props \<Rightarrow> view list \<Rightarrow> view" where
  "DialogPanel render ps children =
     ScrollArea [(''overscrollContain'', ''true''), (''scrollFade'', prop_or ps ''scrollFade'' ''true'')]
       [render_part ''div'' render [(''data-slot'', ''dialog-panel'')] [''className'', ''scrollFade'', ''render''] ps children]"


subsection \<open>Sheets (\<open>sheet.tsx\<close>)\<close>

definition SheetTrigger :: "props \<Rightarrow> view list \<Rightarrow> view" where
  "SheetTrigger = ui_part ''SheetPrimitive.Trigger'' [(''data-slot'', ''sheet-trigger'')] []"

definition SheetClose :: "props \<Rightarrow> view list \<Rightarrow> view" where
  "SheetClose = ui_part ''SheetPrimitive.Close'' [(''data-slot'', ''sheet-close'')] []"

definition SheetBackdrop :: "props \<Rightarrow> view list \<Rightarrow> view" where
  "SheetBackdrop = ui_part ''SheetPrimitive.Backdrop'' [(''data-slot'', ''sheet-backdrop'')] [''className'']"

definition SheetViewport :: "props \<Rightarrow> view list \<Rightarrow> view" where
  "SheetViewport = ui_part ''SheetPrimitive.Viewport'' [(''data-slot'', ''sheet-viewport'')] [''className'', ''side'', ''variant'']"

definition SheetPopup :: "props \<Rightarrow> view list \<Rightarrow> view" where
  "SheetPopup ps children =
     El ''SheetPortal'' []
       [SheetBackdrop [] [],
        SheetViewport [(''side'', prop_or ps ''side'' ''right''), (''variant'', prop_or ps ''variant'' ''default'')]
          [ui_part ''SheetPrimitive.Popup'' [(''data-slot'', ''sheet-popup'')] [''className'', ''showCloseButton'', ''side'', ''variant''] ps
             (children @ shown_if (prop_or ps ''showCloseButton'' ''true'' = ''true'')
                [El ''SheetPrimitive.Close'' [(''aria-label'', ''Close''), (''size'', ''icon''), (''variant'', ''ghost'')] [El ''XIcon'' [] []]])]]"


definition SheetHeader :: "view option \<Rightarrow> props \<Rightarrow> view list \<Rightarrow> view" where
  "SheetHeader render = render_part ''div'' render [(''data-slot'', ''sheet-header'')] [''className'', ''render'']"

definition SheetFooter :: "view option \<Rightarrow> props \<Rightarrow> view list \<Rightarrow> view" where
  "SheetFooter render = render_part ''div'' render [(''data-slot'', ''sheet-footer'')] [''className'', ''variant'', ''render'']"

definition SheetTitle :: "props \<Rightarrow> view list \<Rightarrow> view" where
  "SheetTitle = ui_part ''SheetPrimitive.Title'' [(''data-slot'', ''sheet-title'')] [''className'']"

definition SheetDescription :: "props \<Rightarrow> view list \<Rightarrow> view" where
  "SheetDescription = ui_part ''SheetPrimitive.Description'' [(''data-slot'', ''sheet-description'')] [''className'']"

definition SheetPanel :: "view option \<Rightarrow> props \<Rightarrow> view list \<Rightarrow> view" where
  "SheetPanel render ps children =
     ScrollArea [(''overscrollContain'', ''true''), (''scrollFade'', prop_or ps ''scrollFade'' ''true'')]
       [render_part ''div'' render [(''data-slot'', ''sheet-panel'')] [''className'', ''scrollFade'', ''render''] ps children]"


subsection \<open>Alert dialogs (\<open>alert-dialog.tsx\<close>)\<close>

definition AlertDialogTrigger :: "props \<Rightarrow> view list \<Rightarrow> view" where
  "AlertDialogTrigger = ui_part ''AlertDialogPrimitive.Trigger'' [(''data-slot'', ''alert-dialog-trigger'')] []"

definition AlertDialogBackdrop :: "props \<Rightarrow> view list \<Rightarrow> view" where
  "AlertDialogBackdrop = ui_part ''AlertDialogPrimitive.Backdrop'' [(''data-slot'', ''alert-dialog-backdrop'')] [''className'']"

definition AlertDialogViewport :: "props \<Rightarrow> view list \<Rightarrow> view" where
  "AlertDialogViewport = ui_part ''AlertDialogPrimitive.Viewport'' [(''data-slot'', ''alert-dialog-viewport'')] [''className'']"

definition AlertDialogPopup :: "props \<Rightarrow> view list \<Rightarrow> view" where
  "AlertDialogPopup ps children =
     El ''AlertDialogPortal'' []
       [AlertDialogBackdrop [] [],
        AlertDialogViewport []
          [ui_part ''AlertDialogPrimitive.Popup'' [(''data-slot'', ''alert-dialog-popup'')] [''className'', ''bottomStickOnMobile''] ps children]]"


definition AlertDialogHeader :: "props \<Rightarrow> view list \<Rightarrow> view" where
  "AlertDialogHeader = ui_part ''div'' [(''data-slot'', ''alert-dialog-header'')] [''className'']"

definition AlertDialogFooter :: "props \<Rightarrow> view list \<Rightarrow> view" where
  "AlertDialogFooter = ui_part ''div'' [(''data-slot'', ''alert-dialog-footer'')] [''className'', ''variant'']"

definition AlertDialogTitle :: "props \<Rightarrow> view list \<Rightarrow> view" where
  "AlertDialogTitle = ui_part ''AlertDialogPrimitive.Title'' [(''data-slot'', ''alert-dialog-title'')] [''className'']"

definition AlertDialogDescription :: "props \<Rightarrow> view list \<Rightarrow> view" where
  "AlertDialogDescription = ui_part ''AlertDialogPrimitive.Description'' [(''data-slot'', ''alert-dialog-description'')] [''className'']"

definition AlertDialogClose :: "props \<Rightarrow> view list \<Rightarrow> view" where
  "AlertDialogClose = ui_part ''AlertDialogPrimitive.Close'' [(''data-slot'', ''alert-dialog-close'')] []"

end
