(* ===== verification/Ui_Sidebar.thy ===== *)
theory Ui_Sidebar
  imports Complex_Main Ui_Parts Sidebar_State Js_Json
begin

section \<open>The parts of the sidebar (\<open>components/ui/sidebar.tsx\<close>)\<close>

text \<open>What the provider hands to the parts of the sidebar, and the wrappers its content is built from. The
  sidebar, its button, its rail and the menu button are in \<open>Sidebar_State\<close>.\<close>

subsection \<open>The provider and its context\<close>

definition SIDEBAR_WIDTH :: string where "SIDEBAR_WIDTH = ''16rem''"
definition SIDEBAR_WIDTH_ICON :: string where "SIDEBAR_WIDTH_ICON = ''3rem''"

text \<open>The values of the context; its functions are the operations of \<open>Sidebar_State\<close>.\<close>

record SidebarContextProps =
  sc_state :: string
  sc_open :: bool
  sc_openMobile :: bool
  sc_isMobile :: bool

definition useSidebar :: "SidebarContextProps option \<Rightarrow> string + SidebarContextProps" where
  "useSidebar context =
     (case context of None \<Rightarrow> Inl ''useSidebar must be used within a SidebarProvider.'' | Some c \<Rightarrow> Inr c)"

definition contextValue :: "bool \<Rightarrow> sidebar \<Rightarrow> SidebarContextProps" where
  "contextValue isMobile s =
     \<lparr>sc_state = sidebar_state s, sc_open = sb_open s, sc_openMobile = sb_openMobile s, sc_isMobile = isMobile\<rparr>"

definition SidebarProvider :: "bool \<Rightarrow> sidebar \<Rightarrow> props \<Rightarrow> view list \<Rightarrow> view" where
  "SidebarProvider isMobile s ps children =
     (let c = contextValue isMobile s
      in El ''SidebarContext.Provider''
           ((''state'', sc_state c) # flag ''open'' (sc_open c) @ flag ''openMobile'' (sc_openMobile c) @ flag ''isMobile'' (sc_isMobile c))
           [ui_part ''div''
              [(''data-slot'', ''sidebar-wrapper''),
               (''style'', ''--sidebar-width: '' @ SIDEBAR_WIDTH @ ''; --sidebar-width-icon: '' @ SIDEBAR_WIDTH_ICON @
                  (case map_of ps ''style'' of None \<Rightarrow> [] | Some st \<Rightarrow> ''; '' @ st))]
              [''defaultOpen'', ''open'', ''onOpenChange'', ''className'', ''style''] ps children])"

subsection \<open>The wrappers\<close>

definition SidebarHeader :: "props \<Rightarrow> view list \<Rightarrow> view" where
  "SidebarHeader = ui_part ''div'' [(''data-sidebar'', ''header''), (''data-slot'', ''sidebar-header'')] [''className'']"

definition SidebarFooter :: "props \<Rightarrow> view list \<Rightarrow> view" where
  "SidebarFooter = ui_part ''div'' [(''data-sidebar'', ''footer''), (''data-slot'', ''sidebar-footer'')] [''className'']"

definition SidebarGroup :: "props \<Rightarrow> view list \<Rightarrow> view" where
  "SidebarGroup = ui_part ''div'' [(''data-sidebar'', ''group''), (''data-slot'', ''sidebar-group'')] [''className'']"

definition SidebarGroupContent :: "props \<Rightarrow> view list \<Rightarrow> view" where
  "SidebarGroupContent = ui_part ''div'' [(''data-sidebar'', ''group-content''), (''data-slot'', ''sidebar-group-content'')] [''className'']"

definition SidebarMenu :: "props \<Rightarrow> view list \<Rightarrow> view" where
  "SidebarMenu = ui_part ''ul'' [(''data-sidebar'', ''menu''), (''data-slot'', ''sidebar-menu'')] [''className'']"

definition SidebarMenuItem :: "props \<Rightarrow> view list \<Rightarrow> view" where
  "SidebarMenuItem = ui_part ''li'' [(''data-sidebar'', ''menu-item''), (''data-slot'', ''sidebar-menu-item'')] [''className'']"

definition SidebarMenuBadge :: "props \<Rightarrow> view list \<Rightarrow> view" where
  "SidebarMenuBadge = ui_part ''div'' [(''data-sidebar'', ''menu-badge''), (''data-slot'', ''sidebar-menu-badge'')] [''className'']"

definition SidebarMenuSub :: "props \<Rightarrow> view list \<Rightarrow> view" where
  "SidebarMenuSub = ui_part ''ul'' [(''data-sidebar'', ''menu-sub''), (''data-slot'', ''sidebar-menu-sub'')] [''className'']"

definition SidebarMenuSubItem :: "props \<Rightarrow> view list \<Rightarrow> view" where
  "SidebarMenuSubItem = ui_part ''li'' [(''data-sidebar'', ''menu-sub-item''), (''data-slot'', ''sidebar-menu-sub-item'')] [''className'']"

definition SidebarInset :: "props \<Rightarrow> view list \<Rightarrow> view" where
  "SidebarInset = ui_part ''main'' [(''data-slot'', ''sidebar-inset'')] [''className'']"

definition SidebarInput :: "props \<Rightarrow> view list \<Rightarrow> view" where
  "SidebarInput ps = Ui_Parts.Input (spread_props [(''data-sidebar'', ''input''), (''data-slot'', ''sidebar-input'')] (other_props [''className''] ps))"


definition SidebarSeparator :: "props \<Rightarrow> view list \<Rightarrow> view" where
  "SidebarSeparator ps = Separator (spread_props [(''data-sidebar'', ''separator''), (''data-slot'', ''sidebar-separator'')] (other_props [''className''] ps))"


definition SidebarContent :: "props \<Rightarrow> view list \<Rightarrow> view" where
  "SidebarContent ps children =
     ScrollArea [(''fill'', ''true''), (''overscrollContain'', ''true''), (''scrollFade'', ''true'')]
       [ui_part ''div'' [(''data-sidebar'', ''content''), (''data-slot'', ''sidebar-content'')] [''className''] ps children]"


definition SidebarGroupLabel :: "view option \<Rightarrow> props \<Rightarrow> view list \<Rightarrow> view" where
  "SidebarGroupLabel render = render_part ''div'' render [(''data-sidebar'', ''group-label''), (''data-slot'', ''sidebar-group-label'')] [''className'', ''render'']"

definition SidebarGroupAction :: "view option \<Rightarrow> props \<Rightarrow> view list \<Rightarrow> view" where
  "SidebarGroupAction render = render_part ''button'' render [(''data-sidebar'', ''group-action''), (''data-slot'', ''sidebar-group-action'')] [''className'', ''render'']"

definition SidebarMenuAction :: "view option \<Rightarrow> props \<Rightarrow> view list \<Rightarrow> view" where
  "SidebarMenuAction render = render_part ''button'' render [(''data-sidebar'', ''menu-action''), (''data-slot'', ''sidebar-menu-action'')] [''className'', ''showOnHover'', ''render'']"

definition SidebarMenuSubButton :: "view option \<Rightarrow> bool \<Rightarrow> props \<Rightarrow> view list \<Rightarrow> view" where
  "SidebarMenuSubButton render isActive ps =
     render_part ''a'' render
       [(''data-active'', if isActive then ''true'' else ''false''), (''data-sidebar'', ''menu-sub-button''),
        (''data-size'', prop_or ps ''size'' ''md''), (''data-slot'', ''sidebar-menu-sub-button'')]
       [''size'', ''isActive'', ''className'', ''render''] ps"


text \<open>The width of a placeholder for a menu entry is drawn once, from \<open>Math.random()\<close>.\<close>

definition skeleton_width :: "rat \<Rightarrow> int" where
  "skeleton_width random = \<lfloor>random * 40\<rfloor> + 50"

definition SidebarMenuSkeleton :: "rat \<Rightarrow> bool \<Rightarrow> props \<Rightarrow> view" where
  "SidebarMenuSkeleton random showIcon ps =
     ui_part ''div'' [(''data-sidebar'', ''menu-skeleton''), (''data-slot'', ''sidebar-menu-skeleton'')] [''className'', ''showIcon''] ps
       (shown_if showIcon [Skeleton [(''data-sidebar'', ''menu-skeleton-icon'')] []] @
        [Skeleton [(''data-sidebar'', ''menu-skeleton-text''), (''style'', ''--skeleton-width: '' @ int_string (skeleton_width random) @ ''%'')] []])"


subsection \<open>Outside and inside the provider\<close>

text \<open>A part of the sidebar throws outside of the provider and reads the provider's state inside.\<close>

lemma useSidebar_inside: "useSidebar (Some (contextValue isMobile s)) = Inr c \<longleftrightarrow> c = contextValue isMobile s"
  by (auto simp: useSidebar_def)

text \<open>The placeholders are 50 to 89 percent wide.\<close>

lemma skeleton_width_bounds:
  assumes "0 \<le> random" and "random < 1"
  shows "50 \<le> skeleton_width random \<and> skeleton_width random < 90"
  using assms by (simp add: skeleton_width_def floor_less_iff)

end
