(* ===== verification/Ui_Render.thy ===== *)
theory Ui_Render
  imports Ui_Sidebar
begin

section \<open>From the parts of the interface to elements\<close>

text \<open>The pages are modelled as trees whose nodes name the parts of \<open>Ui_Parts\<close>. Here such a tree is drawn down to
  the elements and the parts of the component library, and what the user reads and operates is shown
  to survive it: the texts, and every link and handler with whether it is enabled.\<close>

text \<open>The parts by name, as a page uses them: without \<open>render\<close> (the links of the breadcrumb, which pass a
  \<open>Link\<close> to render, are written with its target on the part: the same link). The component library decides whether a
  checkbox is drawn as indeterminate, and React generates the identifiers of number fields.\<close>

definition wrappers :: "bool \<Rightarrow> string \<Rightarrow> (string \<times> (props \<Rightarrow> view list \<Rightarrow> view)) list" where
  "wrappers indeterminate generatedId =
     [(''Card'', Card None), (''CardFrame'', CardFrame None), (''CardFrameHeader'', CardFrameHeader None),
      (''CardFrameTitle'', CardFrameTitle None), (''CardFrameDescription'', CardFrameDescription None),
      (''CardFrameAction'', CardFrameAction None), (''CardFrameFooter'', CardFrameFooter None),
      (''CardHeader'', CardHeader None), (''CardTitle'', CardTitle None),
      (''CardDescription'', CardDescription None), (''CardAction'', CardAction None),
      (''CardPanel'', CardPanel None), (''CardFooter'', CardFooter None), (''Frame'', Frame),
      (''FramePanel'', FramePanel), (''FrameHeader'', FrameHeader), (''FrameTitle'', FrameTitle),
      (''FrameDescription'', FrameDescription), (''FrameFooter'', FrameFooter), (''Alert'', Alert),
      (''AlertTitle'', AlertTitle), (''AlertDescription'', AlertDescription), (''AlertAction'', AlertAction),
      (''Empty'', Empty), (''EmptyHeader'', EmptyHeader), (''EmptyTitle'', EmptyTitle),
      (''EmptyDescription'', EmptyDescription), (''EmptyContent'', EmptyContent), (''EmptyMedia'', EmptyMedia),
      (''Badge'', Badge None), (''Label'', Label None), (''Separator'', Separator), (''Skeleton'', Skeleton),
      (''Spinner'', Spinner), (''Breadcrumb'', Breadcrumb), (''BreadcrumbList'', BreadcrumbList),
      (''BreadcrumbItem'', BreadcrumbItem), (''BreadcrumbLink'', BreadcrumbLink None),
      (''BreadcrumbPage'', BreadcrumbPage), (''BreadcrumbSeparator'', BreadcrumbSeparator),
      (''Table'', Table None), (''TableHeader'', TableHeader), (''TableBody'', TableBody),
      (''TableFooter'', TableFooter), (''TableRow'', TableRow), (''TableHead'', TableHead),
      (''TableCell'', TableCell), (''TableCaption'', TableCaption), (''Tabs'', Tabs), (''TabsList'', TabsList),
      (''TabsTab'', TabsTab), (''TabsPanel'', TabsPanel), (''Field'', Field), (''FieldLabel'', FieldLabel),
      (''FieldItem'', FieldItem), (''FieldDescription'', FieldDescription), (''FieldError'', FieldError),
      (''Input'', Ui_Parts.Input), (''Textarea'', Textarea), (''Checkbox'', Checkbox indeterminate),
      (''CheckboxGroup'', CheckboxGroup), (''Switch'', \<lambda>ps vs. Switch ps),
      (''NumberField'', NumberField generatedId), (''NumberFieldGroup'', NumberFieldGroup),
      (''NumberFieldDecrement'', \<lambda>ps vs. NumberFieldDecrement ps),
      (''NumberFieldIncrement'', \<lambda>ps vs. NumberFieldIncrement ps),
      (''NumberFieldInput'', NumberFieldInput), (''SelectButton'', SelectButton None),
      (''SelectTrigger'', SelectTrigger), (''SelectValue'', SelectValue), (''SelectPopup'', SelectPopup),
      (''SelectItem'', SelectItem), (''SelectSeparator'', SelectSeparator), (''SelectGroup'', SelectGroup),
      (''SelectLabel'', SelectLabel), (''SelectGroupLabel'', SelectGroupLabel),
      (''TooltipTrigger'', TooltipTrigger), (''TooltipPopup'', TooltipPopup),
      (''ScrollBar'', \<lambda>ps vs. ScrollBar ps), (''ScrollArea'', ScrollArea),
      (''DialogTrigger'', DialogTrigger), (''DialogClose'', DialogClose), (''DialogBackdrop'', DialogBackdrop),
      (''DialogViewport'', DialogViewport), (''DialogPopup'', DialogPopup),
      (''DialogHeader'', DialogHeader None), (''DialogFooter'', DialogFooter None),
      (''DialogTitle'', DialogTitle), (''DialogDescription'', DialogDescription),
      (''DialogPanel'', DialogPanel None), (''SheetTrigger'', SheetTrigger), (''SheetClose'', SheetClose),
      (''SheetBackdrop'', SheetBackdrop), (''SheetViewport'', SheetViewport), (''SheetPopup'', SheetPopup),
      (''SheetHeader'', SheetHeader None), (''SheetFooter'', SheetFooter None), (''SheetTitle'', SheetTitle),
      (''SheetDescription'', SheetDescription), (''SheetPanel'', SheetPanel None),
      (''AlertDialogTrigger'', AlertDialogTrigger), (''AlertDialogBackdrop'', AlertDialogBackdrop),
      (''AlertDialogViewport'', AlertDialogViewport), (''AlertDialogPopup'', AlertDialogPopup),
      (''AlertDialogHeader'', AlertDialogHeader), (''AlertDialogFooter'', AlertDialogFooter),
      (''AlertDialogTitle'', AlertDialogTitle), (''AlertDialogDescription'', AlertDialogDescription),
      (''AlertDialogClose'', AlertDialogClose), (''SidebarHeader'', SidebarHeader),
      (''SidebarFooter'', SidebarFooter), (''SidebarGroup'', SidebarGroup),
      (''SidebarGroupContent'', SidebarGroupContent), (''SidebarMenu'', SidebarMenu),
      (''SidebarMenuItem'', SidebarMenuItem), (''SidebarMenuBadge'', SidebarMenuBadge),
      (''SidebarMenuSub'', SidebarMenuSub), (''SidebarMenuSubItem'', SidebarMenuSubItem),
      (''SidebarInset'', SidebarInset), (''SidebarInput'', SidebarInput),
      (''SidebarSeparator'', SidebarSeparator), (''SidebarContent'', SidebarContent),
      (''SidebarGroupLabel'', SidebarGroupLabel None), (''SidebarGroupAction'', SidebarGroupAction None),
      (''SidebarMenuAction'', SidebarMenuAction None)]"

fun drawn :: "bool \<Rightarrow> string \<Rightarrow> view \<Rightarrow> view" where
  "drawn b g (Txt m) = Txt m"
| "drawn b g (El tag as vs) =
     (case map_of (wrappers b g) tag of
        None \<Rightarrow> El tag as (map (drawn b g) vs)
      | Some w \<Rightarrow> w as (map (drawn b g) vs))"

subsection \<open>What a tree wires\<close>

text \<open>A link or a handler; and where a tree has one, in document order: its target or handler, and whether the
  element that carries it is enabled.\<close>

definition wire :: "string \<Rightarrow> bool" where
  "wire k \<longleftrightarrow> k = ''href'' \<or> starts_with k ''on''"

definition wired_here :: "string \<Rightarrow> props \<Rightarrow> (string \<times> bool) list" where
  "wired_here k as = (case map_of as k of None \<Rightarrow> [] | Some h \<Rightarrow> [(h, map_of as ''disabled'' = None)])"

fun wired :: "string \<Rightarrow> view \<Rightarrow> (string \<times> bool) list" where
  "wired k (Txt m) = []"
| "wired k (El tag as vs) = wired_here k as @ concat (map (wired k) vs)"

lemma operable_wired: "operable k h v \<longleftrightarrow> (h, True) \<in> set (wired k v)"
  by (induction v) (auto simp: operable_def wired_here_def list_ex_iff split: option.splits)

text \<open>Props that wire nothing and disable nothing.\<close>

definition silent :: "string list \<Rightarrow> bool" where
  "silent ks \<longleftrightarrow> list_all (\<lambda>k. \<not> wire k \<and> k \<noteq> ''disabled'') ks"

definition keeps :: "(props \<Rightarrow> view list \<Rightarrow> view) \<Rightarrow> bool" where
  "keeps w \<longleftrightarrow> (\<forall>as vs k. texts (w as vs) = concat (map texts vs) \<and>
     (wire k \<longrightarrow> wired k (w as vs) = wired_here k as @ concat (map (wired k) vs)))"

named_theorems part_simps \<open>the parts of the interface and what they wire\<close>

lemma map_of_other: "k \<notin> set taken \<Longrightarrow> map_of (other_props taken ps) k = map_of ps k"
  by (induction ps) (auto simp: other_props_def)

lemma map_of_spread: "k \<notin> fst ` set d \<Longrightarrow> map_of (spread_props d ps) k = map_of ps k"
proof -
  assume "k \<notin> fst ` set d"
  then have "map_of (filter (\<lambda>p. fst p \<notin> set (map fst ps)) d) k = None" by (auto simp: map_of_eq_None_iff)
  then show ?thesis by (simp add: spread_props_def map_add_def split: option.split)
qed

lemma silent_not_wire: "silent ks \<Longrightarrow> wire k \<Longrightarrow> k \<notin> set ks \<and> ''disabled'' \<notin> set ks"
  by (auto simp: silent_def list_all_iff)

lemma wired_here_part [part_simps]:
  assumes "silent (map fst d @ taken)" and "wire k"
  shows "wired_here k (spread_props d (other_props taken ps)) = wired_here k ps"
  using silent_not_wire [OF assms] by (simp add: wired_here_def map_of_spread map_of_other cong: option.case_cong)

lemma wired_here_silent [part_simps]: "silent (map fst as) \<Longrightarrow> wire k \<Longrightarrow> wired_here k as = []"
  using silent_not_wire [of "map fst as" k] by (auto simp: wired_here_def map_of_eq_None_iff split: option.split)

lemma silent_simps [part_simps]:
  "silent []"
  "silent (k # ks) \<longleftrightarrow> (\<not> wire k \<and> k \<noteq> ''disabled'') \<and> silent ks"
  "silent (ks @ ls) \<longleftrightarrow> silent ks \<and> silent ls"
  by (auto simp: silent_def)

lemma keepsD:
  assumes "keeps w"
  shows "texts (w as vs) = concat (map texts vs)"
    and "wire k \<Longrightarrow> wired k (w as vs) = wired_here k as @ concat (map (wired k) vs)"
  using assms by (simp_all add: keeps_def)

lemma keeps_part: "silent (map fst d @ taken) \<Longrightarrow> keeps (ui_part tag d taken)"
  by (simp add: keeps_def ui_part_def wired_here_part)

lemma keeps_render_part: "silent (map fst d @ taken) \<Longrightarrow> keeps (render_part tag None d taken)"
  by (simp add: keeps_def render_part_def use_render_def wired_here_part)

lemma keeps_parts_1 [part_simps]:
  "keeps Frame" "keeps FramePanel" "keeps FrameHeader" "keeps FrameTitle" "keeps FrameDescription" "keeps FrameFooter"
  "keeps Alert" "keeps AlertTitle" "keeps AlertDescription" "keeps AlertAction" "keeps Empty" "keeps EmptyHeader"
  "keeps EmptyTitle" "keeps EmptyDescription" "keeps EmptyContent" "keeps Skeleton" "keeps Spinner" "keeps Breadcrumb"
  "keeps BreadcrumbList" "keeps BreadcrumbItem" "keeps BreadcrumbPage" "keeps TableHeader" "keeps TableBody"
  "keeps TableFooter"
  by (simp_all add: keeps_part silent_simps wire_def
    Frame_def FramePanel_def FrameHeader_def FrameTitle_def FrameDescription_def FrameFooter_def Alert_def
    AlertTitle_def AlertDescription_def AlertAction_def Empty_def EmptyHeader_def EmptyTitle_def EmptyDescription_def
    EmptyContent_def Skeleton_def Spinner_def Breadcrumb_def BreadcrumbList_def BreadcrumbItem_def BreadcrumbPage_def
    TableHeader_def TableBody_def TableFooter_def)

lemma keeps_parts_2 [part_simps]:
  "keeps TableRow" "keeps TableHead" "keeps TableCell" "keeps TableCaption" "keeps Tabs" "keeps TabsTab"
  "keeps TabsPanel" "keeps Field" "keeps FieldLabel" "keeps FieldItem" "keeps FieldDescription" "keeps FieldError"
  "keeps CheckboxGroup" "keeps NumberFieldGroup" "keeps NumberFieldInput" "keeps SelectValue" "keeps SelectSeparator"
  "keeps SelectGroup" "keeps SelectLabel" "keeps SelectGroupLabel" "keeps TooltipTrigger" "keeps DialogTrigger"
  "keeps DialogClose" "keeps DialogBackdrop"
  by (simp_all add: keeps_part silent_simps wire_def
    TableRow_def TableHead_def TableCell_def TableCaption_def Tabs_def TabsTab_def TabsPanel_def Field_def
    FieldLabel_def FieldItem_def FieldDescription_def FieldError_def CheckboxGroup_def NumberFieldGroup_def
    NumberFieldInput_def SelectValue_def SelectSeparator_def SelectGroup_def SelectLabel_def SelectGroupLabel_def
    TooltipTrigger_def DialogTrigger_def DialogClose_def DialogBackdrop_def)

lemma keeps_parts_3 [part_simps]:
  "keeps DialogViewport" "keeps DialogTitle" "keeps DialogDescription" "keeps SheetTrigger" "keeps SheetClose"
  "keeps SheetBackdrop" "keeps SheetViewport" "keeps SheetTitle" "keeps SheetDescription" "keeps AlertDialogTrigger"
  "keeps AlertDialogBackdrop" "keeps AlertDialogViewport" "keeps AlertDialogHeader" "keeps AlertDialogFooter"
  "keeps AlertDialogTitle" "keeps AlertDialogDescription" "keeps AlertDialogClose" "keeps SidebarHeader"
  "keeps SidebarFooter" "keeps SidebarGroup" "keeps SidebarGroupContent" "keeps SidebarMenu" "keeps SidebarMenuItem"
  "keeps SidebarMenuBadge"
  by (simp_all add: keeps_part silent_simps wire_def
    DialogViewport_def DialogTitle_def DialogDescription_def SheetTrigger_def SheetClose_def SheetBackdrop_def
    SheetViewport_def SheetTitle_def SheetDescription_def AlertDialogTrigger_def AlertDialogBackdrop_def
    AlertDialogViewport_def AlertDialogHeader_def AlertDialogFooter_def AlertDialogTitle_def
    AlertDialogDescription_def AlertDialogClose_def SidebarHeader_def SidebarFooter_def SidebarGroup_def
    SidebarGroupContent_def SidebarMenu_def SidebarMenuItem_def SidebarMenuBadge_def)

lemma keeps_parts_4 [part_simps]:
  "keeps SidebarMenuSub" "keeps SidebarMenuSubItem" "keeps SidebarInset"
  by (simp_all add: keeps_part silent_simps wire_def
    SidebarMenuSub_def SidebarMenuSubItem_def SidebarInset_def)

lemma keeps_rendered [part_simps]:
  "keeps (Card None)" "keeps (CardFrame None)" "keeps (CardFrameHeader None)" "keeps (CardFrameTitle None)"
  "keeps (CardFrameDescription None)" "keeps (CardFrameAction None)" "keeps (CardFrameFooter None)"
  "keeps (CardHeader None)" "keeps (CardTitle None)" "keeps (CardDescription None)" "keeps (CardAction None)"
  "keeps (CardPanel None)" "keeps (CardFooter None)" "keeps (Badge None)" "keeps (Label None)"
  "keeps (BreadcrumbLink None)" "keeps (DialogHeader None)" "keeps (DialogFooter None)" "keeps (SheetHeader None)"
  "keeps (SheetFooter None)" "keeps (SidebarGroupLabel None)" "keeps (SidebarGroupAction None)"
  "keeps (SidebarMenuAction None)"
  by (simp_all add: keeps_render_part silent_simps wire_def
    Card_def CardFrame_def CardFrameHeader_def CardFrameTitle_def CardFrameDescription_def CardFrameAction_def
    CardFrameFooter_def CardHeader_def CardTitle_def CardDescription_def CardAction_def CardPanel_def CardFooter_def
    Badge_def Label_def BreadcrumbLink_def DialogHeader_def DialogFooter_def SheetHeader_def SheetFooter_def
    SidebarGroupLabel_def SidebarGroupAction_def SidebarMenuAction_def)

lemma silent_attrs [part_simps]: "silent [k] \<Longrightarrow> silent (map fst (attr_opt k v))" "silent (map fst (size_prop sz))"
  by (auto simp: attr_opt_def size_prop_def silent_def wire_def split: option.split)

lemmas tree_simps = keeps_def part_simps ui_part_def render_part_def use_render_def shown_if_def wire_def Let_def

lemma keeps_EmptyMedia [part_simps]: "keeps EmptyMedia"
  by (auto simp: tree_simps EmptyMedia_def)

lemma keeps_Separator [part_simps]: "keeps Separator"
  by (auto simp: tree_simps Separator_def)

lemma keeps_BreadcrumbSeparator [part_simps]: "keeps BreadcrumbSeparator"
  by (auto simp: tree_simps BreadcrumbSeparator_def)

lemma keeps_Table [part_simps]: "keeps (Table None)"
  by (auto simp: tree_simps Table_def)

lemma keeps_TabsList [part_simps]: "keeps TabsList"
  by (auto simp: tree_simps TabsList_def)

lemma keeps_Input [part_simps]: "keeps Ui_Parts.Input"
  by (auto simp: tree_simps Ui_Parts.Input_def)

lemma keeps_NumberField [part_simps]: "keeps (NumberField generatedId)"
  by (auto simp: tree_simps NumberField_def)

lemma keeps_SelectButton [part_simps]: "keeps (SelectButton None)"
  by (auto simp: tree_simps SelectButton_def)

lemma keeps_SelectTrigger [part_simps]: "keeps SelectTrigger"
  by (auto simp: tree_simps SelectTrigger_def)

lemma keeps_SelectPopup [part_simps]: "keeps SelectPopup"
  by (auto simp: tree_simps SelectPopup_def)

lemma keeps_SelectItem [part_simps]: "keeps SelectItem"
  by (auto simp: tree_simps SelectItem_def)

lemma keeps_TooltipPopup [part_simps]: "keeps TooltipPopup"
  by (auto simp: tree_simps TooltipPopup_def)

lemma wired_here_Nil: "wired_here k as = [] \<longleftrightarrow> k \<notin> fst ` set as"
proof -
  have "wired_here k as = [] \<longleftrightarrow> map_of as k = None" by (simp add: wired_here_def split: option.split)
  then show ?thesis by (simp add: map_of_eq_None_iff)
qed

lemma attr_opt_keys: "fst ` set (attr_opt k v) \<subseteq> {k}"
  by (auto simp: attr_opt_def split: option.splits)

lemma attr_opt_not_wire: "\<not> wire a \<Longrightarrow> wire k \<Longrightarrow> k \<notin> fst ` set (attr_opt a v)"
  using attr_opt_keys [of a v] by auto

text \<open>The props a textarea gives to its control wire nothing.\<close>

lemma control_props:
  "wire k \<Longrightarrow> wired_here k (attr_opt ''ref'' a @ attr_opt ''value'' b @ attr_opt ''defaultValue'' c @ attr_opt ''disabled'' d @
     attr_opt ''id'' e @ attr_opt ''name'' f) = []"
  using attr_opt_not_wire [of _ k] by (simp add: wired_here_Nil image_Un wire_def [of "_ # _"])

lemma keeps_Textarea [part_simps]: "keeps Textarea"
proof -
  have "silent (map fst [(''data-slot'', ''textarea'')] @ [''className'', ''size'', ''unstyled'', ''ref''])"
      "wire k \<Longrightarrow> wired_here k [(''data-size'', x), (''data-slot'', y)] = []" for k x y
    by (auto simp: silent_def wire_def wired_here_Nil)
  then show ?thesis by (simp add: keeps_def Textarea_def Let_def control_props wired_here_part)
qed

lemma keeps_ScrollArea [part_simps]: "keeps ScrollArea"
  by (auto simp: tree_simps ScrollArea_def ScrollBar_def)

lemma keeps_DialogPopup [part_simps]: "keeps DialogPopup"
  by (auto simp: tree_simps DialogPopup_def DialogBackdrop_def DialogViewport_def)

lemma keeps_DialogPanel [part_simps]: "keeps (DialogPanel None)"
  by (auto simp: tree_simps DialogPanel_def keepsD [OF keeps_ScrollArea])

lemma keeps_SheetPopup [part_simps]: "keeps SheetPopup"
  by (auto simp: tree_simps SheetPopup_def SheetBackdrop_def SheetViewport_def)

lemma keeps_SheetPanel [part_simps]: "keeps (SheetPanel None)"
  by (auto simp: tree_simps SheetPanel_def keepsD [OF keeps_ScrollArea])

lemma keeps_AlertDialogPopup [part_simps]: "keeps AlertDialogPopup"
  by (auto simp: tree_simps AlertDialogPopup_def AlertDialogBackdrop_def AlertDialogViewport_def)

lemma keeps_SidebarInput [part_simps]: "keeps SidebarInput"
  by (auto simp: tree_simps SidebarInput_def keepsD [OF keeps_Input])

lemma keeps_SidebarSeparator [part_simps]: "keeps SidebarSeparator"
  by (auto simp: tree_simps SidebarSeparator_def keepsD [OF keeps_Separator])

lemma keeps_SidebarContent [part_simps]: "keeps SidebarContent"
  by (auto simp: tree_simps SidebarContent_def keepsD [OF keeps_ScrollArea])

subsection \<open>Parts without children\<close>

text \<open>These draw their own content, whatever they are given.\<close>

definition CHILDLESS :: "string list" where
  "CHILDLESS = [''Checkbox'', ''Switch'', ''NumberFieldDecrement'', ''NumberFieldIncrement'', ''ScrollBar'']"

fun childless :: "view \<Rightarrow> bool" where
  "childless (Txt m) \<longleftrightarrow> True"
| "childless (El tag as vs) \<longleftrightarrow> (tag \<in> set CHILDLESS \<longrightarrow> vs = []) \<and> list_all childless vs"

definition keeps_alone :: "(props \<Rightarrow> view list \<Rightarrow> view) \<Rightarrow> bool" where
  "keeps_alone w \<longleftrightarrow> (\<forall>as k. texts (w as []) = [] \<and> (wire k \<longrightarrow> wired k (w as []) = wired_here k as))"

lemma keeps_alone_parts [part_simps]:
  "keeps_alone (Checkbox b)" "keeps_alone (\<lambda>ps vs. Switch ps)" "keeps_alone (\<lambda>ps vs. NumberFieldDecrement ps)"
  "keeps_alone (\<lambda>ps vs. NumberFieldIncrement ps)" "keeps_alone (\<lambda>ps vs. ScrollBar ps)"
  by (auto simp: tree_simps keeps_alone_def Checkbox_def checkbox_mark_def Switch_def NumberFieldDecrement_def NumberFieldIncrement_def
    ScrollBar_def)

lemma wrappers_keep_all:
  "list_all (\<lambda>(tag, w). if tag \<in> set CHILDLESS then keeps_alone w else keeps w) (wrappers b g)"
  by (simp add: wrappers_def CHILDLESS_def part_simps)

lemma wrappers_keep:
  assumes "map_of (wrappers b g) tag = Some w"
  shows "if tag \<in> set CHILDLESS then keeps_alone w else keeps w"
  using wrappers_keep_all [of b g] map_of_SomeD [OF assms] by (auto simp: list_all_iff)

subsection \<open>Nothing is lost\<close>

lemma drawn_El:
  assumes "childless (El tag as vs)"
  shows "texts (drawn b g (El tag as vs)) = concat (map (texts \<circ> drawn b g) vs)"
    and "wire k \<Longrightarrow> wired k (drawn b g (El tag as vs)) = wired_here k as @ concat (map (wired k \<circ> drawn b g) vs)"
  using assms wrappers_keep [of b g tag]
  by (auto simp: keeps_def keeps_alone_def split: option.splits if_splits)

lemma drawn_texts: "childless v \<Longrightarrow> texts (drawn b g v) = texts v"
proof (induction v)
  case (El tag as vs)
  have "map (texts \<circ> drawn b g) vs = map texts vs" using El by (auto simp: list_all_iff)
  then show ?case using drawn_El(1) [OF El.prems] by (simp only: texts.simps)
qed simp

lemma drawn_wired: "childless v \<Longrightarrow> wire k \<Longrightarrow> wired k (drawn b g v) = wired k v"
proof (induction v)
  case (El tag as vs)
  have "map (wired k \<circ> drawn b g) vs = map (wired k) vs" using El by (auto simp: list_all_iff)
  then show ?case using drawn_El(2) [OF El.prems] by (simp only: wired.simps)
qed simp

lemma drawn_keeps:
  assumes "childless v"
  shows "texts (drawn b g v) = texts v" and "wire k \<Longrightarrow> wired k (drawn b g v) = wired k v"
    and "wire k \<Longrightarrow> operable k h (drawn b g v) = operable k h v"
  using assms drawn_texts drawn_wired by (simp_all add: operable_wired)

end
