(* ===== verification/Page_Drawing.thy ===== *)
theory Page_Drawing
  imports Ui_Render Profile_View App_Frame Auth_Forms Dashboard List_Views Notification_Drawer Projects_View
    Settings_View Users_View
begin

section \<open>The pages, drawn\<close>

text \<open>Every page of the application, with its dialogs and drawers, uses the interface parts as they are meant
  to be used: no part that draws its own content is given any. So drawing it loses nothing.\<close>

named_theorems child_simps \<open>the pages give no content to parts that draw their own\<close>

lemma childless_lists [child_simps]:
  "list_all childless (shown_if c vs) \<longleftrightarrow> (c \<longrightarrow> list_all childless vs)"
  "list_all childless (shown_msg m f) \<longleftrightarrow> (msg_given m \<longrightarrow> list_all childless (f (the m)))"
  "list_all childless (if c then vs else ws) \<longleftrightarrow> (if c then list_all childless vs else list_all childless ws)"
  "childless (if c then v else w) \<longleftrightarrow> (if c then childless v else childless w)"
  "list_all childless (concat vss) \<longleftrightarrow> list_all (list_all childless) vss"
  by (auto simp: shown_if_def shown_msg_def list_all_iff)

lemma childless_cases [child_simps]:
  "list_all childless (case x of None \<Rightarrow> vs | Some y \<Rightarrow> f y) \<longleftrightarrow> (case x of None \<Rightarrow> list_all childless vs | Some y \<Rightarrow> list_all childless (f y))"
  "childless (case x of None \<Rightarrow> v | Some y \<Rightarrow> g y) \<longleftrightarrow> (case x of None \<Rightarrow> childless v | Some y \<Rightarrow> childless (g y))"
  "(case x of None \<Rightarrow> True | Some y \<Rightarrow> True)"
  by (auto split: option.split)

lemmas child_rules = CHILDLESS_def list.pred_map list.pred_True comp_def Let_def

lemma childless_View [child_simps]:
  "list_all childless x4 \<Longrightarrow> childless (Button x1 x2 x3 x4)"
  "list_all childless x7 \<Longrightarrow> childless (LinkButton x5 x6 x7)"
  by (simp_all add: child_simps child_rules
      Button_def LinkButton_def
      split: prod.split option.split)

lemma childless_Page_Parts [child_simps]:
  "list_all childless x1 \<Longrightarrow> list_all childless x2 \<Longrightarrow> list_all childless x3 \<Longrightarrow> childless (PageHeader x1 x2 x3)"
  "list_all childless x4 \<Longrightarrow> list_all childless x5 \<Longrightarrow> list_all childless x6 \<Longrightarrow> list_all childless x7 \<Longrightarrow> childless (SettingsSection x4 x5 x6 x7)"
  "childless (SettingsNav x8)"
  by (simp_all add: child_simps child_rules
      PageHeader_def SettingsSection_def SettingsNav_def
      split: prod.split option.split)

lemma childless_Sidebar_State [child_simps]:
  "list_all childless x6 \<Longrightarrow> childless (Sidebar x1 x2 x3 x4 x5 x6)"
  "childless SidebarTrigger"
  "childless SidebarRail"
  "list_all childless x12 \<Longrightarrow> childless (SidebarMenuButton x7 x8 x9 x10 x11 x12)"
  by (simp_all add: child_simps child_rules
      Sidebar_def SidebarTrigger_def SidebarRail_def SidebarMenuButton_def
      split: prod.split option.split)

lemma childless_App_Frame [child_simps]:
  "list_all childless x2 \<Longrightarrow> childless (external_link x1 x2)"
  "childless (version_badge x3)"
  "childless (nav_item x4 x5 x6 x7)"
  "childless (AppSidebar x8 x9 x10 x11 x12 x13)"
  "childless (breadcrumb_item x14 x15 x16)"
  "childless (AppBreadcrumb x17)"
  "list_all childless x19 \<Longrightarrow> childless (AppFrame x18 x19)"
  "list_all childless x26 \<Longrightarrow> childless (AuthenticatedLayout x20 x21 x22 x23 x24 x25 x26)"
  by (simp_all add: child_simps child_rules
      external_link_def version_badge_def nav_item_def AppSidebar_def breadcrumb_item_def AppBreadcrumb_def AppFrame_def
      AuthenticatedLayout_def
      split: prod.split option.split)

lemma childless_Auth_Forms [child_simps]:
  "list_all childless x3 \<Longrightarrow> childless (AuthLayout x1 x2 x3)"
  "childless (AuthErrorAlert x4 x5 x6)"
  "childless (AuthSuccessAlert x7 x8)"
  "childless (auth_field x9 x10 x11 x12 x13)"
  "childless (LoginForm x14)"
  "childless (ForgotPasswordForm x15)"
  "childless (password_form x16 x17 x18 x19)"
  "childless (ConfirmEmailChangeForm x20 x21)"
  by (simp_all add: child_simps child_rules
      AuthLayout_def AuthErrorAlert_def AuthSuccessAlert_def auth_field_def LoginForm_def ForgotPasswordForm_def
      password_form_def ConfirmEmailChangeForm_def
      split: prod.split option.split)

lemma childless_Page_Size [child_simps]:
  "childless (TablePaginationControls x1 x2 x3 x4 x5 x6 x7 x8)"
  by (simp_all add: child_simps child_rules
      TablePaginationControls_def
      split: prod.split option.split)

lemma childless_Poll_History [child_simps]:
  "childless PollRunsEmptyState"
  "childless (RunTriggerBadge x1)"
  "childless (RunStatusBadge x2)"
  "childless (EventTicketCell x3 x4)"
  "childless (PollRunEventsList x5 x6 x7)"
  "childless x9 \<Longrightarrow> childless (detail_row x8 x9)"
  "childless (run_error_item x10 x11)"
  "list_all childless (run_details x12 x13 x14)"
  "childless (PollRunDetailDialog x15 x16 x17 x18)"
  "childless (history_row x19 x20)"
  "childless (PollRunHistory x21 x22 x23 x24 x25)"
  by (simp_all add: child_simps child_rules
      PollRunsEmptyState_def RunTriggerBadge_def RunStatusBadge_def EventTicketCell_def PollRunEventsList_def detail_row_def
      run_error_item_def run_details_def PollRunDetailDialog_def history_row_def PollRunHistory_def
      split: prod.split option.split)

lemma childless_Repo_Status [child_simps]:
  "list_all childless x3 \<Longrightarrow> childless (ExternalTableLink x1 x2 x3)"
  "childless ReposEmptyState"
  "childless (cell_source x4)"
  "childless (cell_path x5)"
  "childless (cell_tag x6)"
  "childless (cell_published x7 x8)"
  "childless (cell_ticket x9)"
  "childless (cell_polled x10 x11)"
  by (simp_all add: child_simps child_rules
      ExternalTableLink_def ReposEmptyState_def cell_source_def cell_path_def cell_tag_def cell_published_def
      cell_ticket_def cell_polled_def
      split: prod.split option.split)

lemma childless_columns: "childless (cell r)" if "(cid, header, sz, cell) \<in> set (columns fmt)"
  using that by (auto simp: columns_def child_simps)

lemma childless_repo_header [child_simps]: "childless (repo_header tb col)"
  by (cases col) (simp add: repo_header_def CHILDLESS_def split: option.split)

lemma childless_repo_table [child_simps]:
  "list_all childless (repo_table_body fmt isLoading tb)" "childless (RepoStatusTable fmt useReactTable repos isLoading s)"
proof -
  show body: "list_all childless (repo_table_body fmt isLoading tb)" for tb
    using childless_columns by (fastforce simp: repo_table_body_def shown_if_def list_all_iff CHILDLESS_def)
  show "childless (RepoStatusTable fmt useReactTable repos isLoading s)"
    by (simp add: RepoStatusTable_def child_simps child_rules body)
qed

lemma childless_Dashboard [child_simps]:
  "childless (LastRunSummary x1 x2)"
  "childless (StatusCard x3 x4 x5 x6 x7)"
  "list_all childless (LastRunErrors x8 x9)"
  "childless (DashboardView x10 x11 x12 x13)"
  by (simp_all add: child_simps child_rules
      LastRunSummary_def StatusCard_def LastRunErrors_def DashboardView_def
      split: prod.split option.split)

lemma childless_Delete_Flow [child_simps]:
  "childless (delete_dialog x1 x2 x3 x4 x5)"
  "childless (DeleteRepoDialog x6 x7 x8 x9)"
  "childless (DeleteIntegrationDialog x10 x11 x12 x13)"
  "childless (DeleteTicketProjectDialog x14 x15 x16 x17)"
  "childless (DeleteNotificationDialog x18 x19 x20)"
  "childless (removal_dialog x21 x22 x23 x24)"
  "childless (DeleteUserDialog x25 x26 x27)"
  "childless (RevokeInviteDialog x28 x29 x30)"
  by (simp_all add: child_simps child_rules
      delete_dialog_def DeleteRepoDialog_def DeleteIntegrationDialog_def DeleteTicketProjectDialog_def
      DeleteNotificationDialog_def removal_dialog_def DeleteUserDialog_def RevokeInviteDialog_def
      split: prod.split option.split)

lemma childless_Integration_Drawer [child_simps]:
  "list_all childless (required_mark x1)"
  "childless (i_kind_field x2 x3)"
  "childless (i_baseUrl_field x4 x5)"
  "childless (i_email_field x6 x7)"
  "childless (i_secret_field x8 x9)"
  "childless (i_default_field x10)"
  "list_all childless (form_alert x11)"
  "childless (IntegrationDrawer x12 x13)"
  by (simp_all add: child_simps child_rules
      required_mark_def i_kind_field_def i_baseUrl_field_def i_email_field_def i_secret_field_def i_default_field_def
      form_alert_def IntegrationDrawer_def
      split: prod.split option.split)

lemma childless_Repo_Dialog [child_simps]:
  "list_all childless (option_items x1)"
  "childless (select_view x2 x3 x4 x5)"
  "childless (switch_field x6 x7 x8 x9 x10)"
  "childless (rd_integration_field x11 x12)"
  "childless (rd_targets_field x13 x14)"
  "childless (RepoDialog x15 x16)"
  by (simp_all add: child_simps child_rules
      option_items_def select_view_def switch_field_def rd_integration_field_def rd_targets_field_def RepoDialog_def
      split: prod.split option.split)

lemma childless_List_Views [child_simps]:
  "childless (add_button x1 x2)"
  "childless (table_head x3 x4)"
  "childless (skeleton_table x5 x6)"
  "childless (empty_state x7 x8 x9)"
  "childless (icon_button x10 x11 x12)"
  "childless x16 \<Longrightarrow> list_all childless x17 \<Longrightarrow> childless (list_page x13 x14 x15 x16 x17)"
  "childless (repo_row x18 x19 x20 x21)"
  "childless (ReposView x22 x23 x24 x25 x26 x27 x28 x29 x30 x31)"
  "childless (integration_row x32)"
  "childless (IntegrationsView x33 x34 x35 x36 x37)"
  by (simp_all add: child_simps child_rules
      add_button_def table_head_def skeleton_table_def empty_state_def icon_button_def list_page_def repo_row_def
      ReposView_def integration_row_def IntegrationsView_def
      split: prod.split option.split)

lemma childless_Notification_Drawer [child_simps]:
  "childless (n_url_field x1 x2)"
  "childless (n_events_field x3)"
  "childless (NotificationDrawer x4 x5)"
  "childless (notification_row x6)"
  "childless (NotificationsView x7 x8 x9 x10 x11)"
  by (simp_all add: child_simps child_rules
      n_url_field_def n_events_field_def NotificationDrawer_def notification_row_def NotificationsView_def
      split: prod.split option.split)

lemma childless_Ticket_Forms [child_simps]:
  "childless (MetadataSelect x1)"
  "childless (PolicySelect x2)"
  "childless (config_select x3 x4 x5 x6 x7 x8 x9 x10)"
  "list_all childless (CreateConfigTabs x11 x12 x13 x14 x15 x16 x17)"
  "childless (note_alert x18 x19)"
  "childless (status_group x20 x21 x22 x23 x24 x25)"
  "childless (StatusMappingForm x26 x27 x28 x29)"
  "list_all childless x35 \<Longrightarrow> childless (template_field x30 x31 x32 x33 x34 x35)"
  "childless (variable_row x36)"
  "childless (ContentTemplateForm x37 x38)"
  by (simp_all add: child_simps child_rules
      MetadataSelect_def PolicySelect_def config_select_def CreateConfigTabs_def note_alert_def status_group_def
      StatusMappingForm_def template_field_def variable_row_def ContentTemplateForm_def
      split: prod.split option.split)

lemma childless_Project_Drawer [child_simps]:
  "childless (pd_integration_field x1 x2)"
  "childless (general_panel x3 x4 x5 x6)"
  "childless (ProjectDrawer x7 x8 x9 x10 x11 x12 x13 x14)"
  by (simp_all add: child_simps child_rules
      pd_integration_field_def general_panel_def ProjectDrawer_def
      split: prod.split option.split)

lemma childless_Projects_View [child_simps]:
  "childless (project_row x1 x2 x3)"
  "(\<And>y. childless (x9 y)) \<Longrightarrow> childless (TicketProjectsView x4 x5 x6 x7 x8 x9 x10)"
  by (simp_all add: child_simps child_rules
      project_row_def TicketProjectsView_def
      split: prod.split option.split)

lemma childless_Settings_View [child_simps]:
  "childless (number_field x1 x2 x3 x4 x5 x6)"
  "childless (SettingsView x7 x8 x9 x10)"
  by (simp_all add: child_simps child_rules
      number_field_def SettingsView_def
      split: prod.split option.split)

lemma childless_Users_View [child_simps]:
  "childless (InviteDialog x1)"
  "childless (tooltip_button x2 x3 x4)"
  "childless (action_button x5 x6 x7 x8)"
  "childless (user_row x9 x10 x11 x12)"
  "childless (invitation_row x13 x14 x15 x16)"
  "list_all childless x22 \<Longrightarrow> childless (users_section x17 x18 x19 x20 x21 x22)"
  "childless (UsersView x23 x24 x25 x26 x27 x28 x29 x30 x31 x32)"
  by (simp_all add: child_simps child_rules
      InviteDialog_def tooltip_button_def action_button_def user_row_def invitation_row_def users_section_def UsersView_def
      split: prod.split option.split)

lemma childless_Profile_View [child_simps]:
  "childless (profile_input x1 x2 x3 x4 x5)"
  "childless (success_note x6 x7)"
  "list_all childless (form_foot x8 x9 x10 x11 x12 x13)"
  "childless (ProfileView x14 x15 x16 x17)"
  by (simp_all add: child_simps child_rules
      profile_input_def success_note_def form_foot_def ProfileView_def
      split: prod.split option.split)

subsection \<open>Nothing is lost\<close>

text \<open>C11: The interface parts lose nothing of a page and add no handler of their own (the close button of
  a popup, which the library wires, has none in the view): whatever the state of the
  sign-in forms, of the frame and of the eight pages with their drawers and dialogs, drawing them down to elements
  shows the page's texts in its order, and has its links and its handlers in its order, each enabled exactly
  where the page has it enabled.\<close>

theorem pages_drawn:
  "list_all (\<lambda>page. texts (drawn b g page) = texts page \<and>
       list_all (\<lambda>k. wired k (drawn b g page) = wired k page)
         [''href'', ''onClick'', ''onChange'', ''onValueChange'', ''onCheckedChange'', ''onOpenChange'', ''onSubmit''])
     [LoginForm login, ForgotPasswordForm forgot, password_form pw1 pw2 token password, ConfirmEmailChangeForm confirm_token confirm,
      AuthenticatedLayout mobile sb path session sq loggingOut [],
      DashboardView fmt useReactTable rt dash, PollRunHistory origin_of fmt runs run_q history,
      ReposView fmt cmp repos projects integrations targets rdialog rsaving rd rdel,
      IntegrationsView intgs idialog isaving idr idel, NotificationsView notes ndialog nsaving ndr ndel,
      TicketProjectsView cmp tps integrations pdialog psaving (\<lambda>props. ProjectDrawer props pd m1 m2 m3 m4 m5 m6) pdel,
      SettingsView settings_path st_q ssaving settings, UsersView fmt users_path me st uq iq sending invite udel vdel,
      ProfileView profile_q emailBusy passwordBusy profile]"
  by (simp add: drawn_keeps child_simps wire_def)

end
