(* ===== verification/Docs_Sync.thy ===== *)
theory Docs_Sync
  imports Js_Regex Js_Json
begin

section \<open>The document of the site (\<open>scripts/sync-docs-content.mjs\<close>)\<close>

text \<open>The script copies one document of the repository into the content of the documentation site, with its
  links rewritten. Reading and writing the file are left out: the script is the function from the
  text it reads to the text it writes. The texts are UTF-8 bytes.\<close>

subsection \<open>Links\<close>

definition ASTRO_BASE :: "string option" where "ASTRO_BASE = Some ''/release-ops''"

definition site_base :: "string option \<Rightarrow> string" where
  "site_base astro_base = strip_trailing (CHR ''/'') (case astro_base of None \<Rightarrow> [] | Some b \<Rightarrow> b)"

definition withBase :: "string option \<Rightarrow> string \<Rightarrow> string" where
  "withBase astro_base path = site_base astro_base @ path"

definition REPO_BLOB :: string where "REPO_BLOB = ''https://github.com/mdg-labs/release-ops/blob/dev''"

definition linkMap :: "string option \<Rightarrow> (string \<times> string) list" where
  "linkMap astro_base = [(''getting-started.md'', withBase astro_base ''/getting-started/'')]"

definition repoOnlyDocs :: "string list" where
  "repoOnlyDocs = [''specs.html'', ''stack.html'', ''schema.html'', ''mvp-checklist.md'', ''roadmap.html'']"

text \<open>The escaped name of a file matches that name only.\<close>

definition DOC_LINK :: "string \<Rightarrow> regex" where
  "DOC_LINK file = Seqs [Lit (''](''), Lit file, Opt (Seq (Lit ''#'') (Star (Cls (\<lambda>c. c \<noteq> CHR '')'')))), Lit '')'']"

definition page_link :: "string \<Rightarrow> string \<times> string \<Rightarrow> string" where
  "page_link out fromto = replace_all (Lit (''](''  @ fst fromto)) (\<lambda>_ _. '']('' @ snd fromto) out"

definition github_link :: "string \<Rightarrow> string \<Rightarrow> string" where
  "github_link out file = replace_all (DOC_LINK file) (\<lambda>_ _. '']('' @ REPO_BLOB @ ''/docs/'' @ file @ '')'') out"

definition rewriteLinks :: "string option \<Rightarrow> string \<Rightarrow> string" where
  "rewriteLinks astro_base content = foldl github_link (foldl page_link content (linkMap astro_base)) repoOnlyDocs"

subsection \<open>The page\<close>

definition frontmatter :: "string \<Rightarrow> string \<Rightarrow> string" where
  "frontmatter title description =
     (let nl = CHR 0x0A; quoted = (\<lambda>s. case json_text (Str s) of None \<Rightarrow> [] | Some j \<Rightarrow> j)
      in ''---'' @ [nl] @ ''title: '' @ quoted title @ [nl] @ ''description: '' @ quoted description @ [nl] @ ''---'' @ [nl, nl])"

text \<open>The path below the content directory, and the text written there.\<close>

definition mdToDoc :: "string option \<Rightarrow> string \<Rightarrow> string \<Rightarrow> string \<Rightarrow> string \<Rightarrow> string \<times> string" where
  "mdToDoc astro_base slug title description source = (slug @ ''.md'', frontmatter title description @ rewriteLinks astro_base source)"

definition getting_started :: "string \<Rightarrow> string \<times> string" where
  "getting_started source =
     mdToDoc ASTRO_BASE ''getting-started'' ''Getting started''
       ''Docker Compose setup, environment variables, admin bootstrap, and troubleshooting.'' source"

subsection \<open>What is rewritten\<close>

lemma replace_all_unmatched:
  "(\<And>p q. s = p @ q \<Longrightarrow> q \<noteq> [] \<Longrightarrow> exec_prefix r q = None) \<Longrightarrow> replace_all r f s = s"
proof (induction s)
  case (Cons x xs)
  have "exec_prefix r (x # xs) = None" using Cons.prems [of "[]"] by simp
  moreover have "replace_all r f xs = xs"
    using Cons.prems by (intro Cons.IH) (metis append_Cons)
  ultimately show ?case by simp
qed simp

lemma link_start:
  assumes "exec_prefix r s = Some (m, c, rest)" and "in_lang r m \<Longrightarrow> \<exists>w. m = ''](''  @ w"
  shows "\<exists>w. s = '']('' @ w"
  using exec_prefix_lang [OF assms(1)] assms(2) by auto

lemma no_link_kept:
  assumes "\<not> js_includes s ''](''" and "\<And>m. in_lang r m \<Longrightarrow> \<exists>w. m = ''](''  @ w"
  shows "replace_all r f s = s"
proof (rule replace_all_unmatched)
  fix p q assume s: "s = p @ q"
  have sub: "js_includes (p @ ''](''  @ w) ''](''" for w by (induction p) (auto simp: starts_with_conv)
  show "exec_prefix r q = None"
  proof (rule ccontr)
    assume "exec_prefix r q \<noteq> None"
    then obtain m c rest where "exec_prefix r q = Some (m, c, rest)" by auto
    then obtain w where "q = '']('' @ w" using link_start assms(2) by blast
    then show False using sub assms(1) s by metis
  qed
qed

text \<open>A document without links is copied as it is.\<close>

lemma copied_without_links:
  assumes "\<not> js_includes source ''](''"
  shows "rewriteLinks base source = source"
proof -
  have "page_link source x = source" for x
    unfolding page_link_def using assms by (intro no_link_kept) (simp_all only: in_lang_Lit, auto)
  moreover have "github_link source name = source" for name
    unfolding github_link_def using assms
    by (intro no_link_kept) (auto simp: DOC_LINK_def in_lang_simps in_lang_Lit simp del: Lit.simps)
  ultimately show ?thesis by (simp add: rewriteLinks_def linkMap_def repoOnlyDocs_def)
qed

lemma link_examples:
  "rewriteLinks ASTRO_BASE ''[a](specs.html#env)'' = ''[a](https://github.com/mdg-labs/release-ops/blob/dev/docs/specs.html)''"
  "rewriteLinks ASTRO_BASE ''[b](getting-started.md#env)'' = ''[b](/release-ops/getting-started/#env)''"
  by code_simp+

end
