(* ===== verification/App_Config.thy ===== *)
theory App_Config
  imports Toasts Date_Format Docs_Sync
begin

section \<open>The root of the application and the documentation site\<close>

text \<open>What surrounds every page of the web application (\<open>app/layout.tsx\<close>, \<open>app/providers.tsx\<close>,
  \<open>i18n/request.ts\<close>), and the contents of the documentation site (\<open>apps/docs/astro.config.mjs\<close>). Fonts and
  style sheets are left out. The query client the providers create is that of \<open>Query_Cache\<close>.\<close>

subsection \<open>Every page\<close>

text \<open>The configuration of a request: one language, the time zone of the container, and the catalogue of that
  language, by the name of its file.\<close>

record request_config =
  rq_locale :: string
  rq_timeZone :: string
  rq_messages :: string

definition request_config_of :: "(string \<Rightarrow> bool) \<Rightarrow> string option \<Rightarrow> request_config" where
  "request_config_of valid env =
     (let locale = ''en''
      in \<lparr>rq_locale = locale, rq_timeZone = getAppTimeZone valid env, rq_messages = ''../messages/'' @ locale @ ''.json''\<rparr>)"

definition generateMetadata :: "(string \<times> msg) list" where
  "generateMetadata = [(''title'', t0 ''common.appTitle''), (''description'', t0 ''common.appDescription'')]"

definition Providers :: "toast list \<Rightarrow> view list \<Rightarrow> view" where
  "Providers shown_toasts children = El ''QueryClientProvider'' [] [ToastProvider None shown_toasts children]"

definition RootLayout :: "request_config \<Rightarrow> toast list \<Rightarrow> view list \<Rightarrow> view" where
  "RootLayout rq shown_toasts children =
     El ''html'' [(''lang'', rq_locale rq)]
       [El ''body'' []
          [El ''NextIntlClientProvider'' [(''locale'', rq_locale rq), (''messages'', rq_messages rq), (''timeZone'', rq_timeZone rq)]
             [Providers shown_toasts children]]]"

text \<open>Whatever the environment says, dates are formatted in a time zone the platform knows; the page is shown
  first, and after it the toasts, at the lower right.\<close>

lemma root_layout_shows:
  assumes "valid ''UTC''"
  shows "valid (rq_timeZone (request_config_of valid env))"
    and "texts (RootLayout rq shown_toasts children) =
      concat (map texts children) @ texts (Toast_stack ''bottom-right'' shown_toasts)"
  using assms by (simp_all add: request_config_of_def time_zone_valid RootLayout_def Providers_def ToastProvider_def)

subsection \<open>The documentation site\<close>

definition docs_site :: string where "docs_site = ''https://mdg-labs.github.io''"

text \<open>The sidebar: its groups, and the label and the slug of their pages.\<close>

definition docs_sidebar :: "(string \<times> (string \<times> string) list) list" where
  "docs_sidebar =
     [(''Start here'', [(''Getting started'', ''getting-started''), (''FAQ'', ''faq'')]),
      (''User guide'',
       [(''First steps'', ''guide/first-steps''), (''Dashboard'', ''guide/dashboard''), (''Integrations'', ''guide/integrations''),
        (''Ticket projects'', ''guide/ticket-projects''), (''Repos'', ''guide/repos''), (''Poll runs'', ''guide/poll-runs''),
        (''Notifications'', ''guide/notifications''), (''Settings'', ''guide/settings''), (''Users'', ''guide/users''),
        (''Profile'', ''guide/profile''), (''Signing in'', ''guide/signing-in'')]),
      (''Concepts'',
       [(''Product overview'', ''concepts/product-overview''), (''How release detection works'', ''concepts/release-detection''),
        (''Status mapping'', ''concepts/status-mapping''), (''Open-ticket policy'', ''concepts/open-ticket-policy'')])]"

definition docs_page :: "string \<Rightarrow> string" where
  "docs_page slug = withBase ASTRO_BASE (''/'' @ slug @ ''/'')"

text \<open>No page is listed twice, and every page the docs sync links to is one of them.\<close>

lemma docs_sidebar_complete:
  "distinct (map snd (concat (map snd docs_sidebar)))"
  "list_all (\<lambda>(file, target). target \<in> set (map (docs_page \<circ> snd) (concat (map snd docs_sidebar)))) (linkMap ASTRO_BASE)"
  by (simp_all add: docs_sidebar_def docs_page_def linkMap_def)

end
