(* ===== verification/Proxied_Client.thy ===== *)
theory Proxied_Client
  imports Go_Proxy
begin

section \<open>The client through the proxy\<close>

text \<open>The API client of the browser with the route handler between it and the Go server: the \<open>fetch\<close> of the
  client is the browser's, which sends the request to the handler, whose \<open>fetch\<close> asks the Go server
  (\<open>go\<close>). What the browser does is a parameter or written out here: it adds its own headers and the
  cookies (\<open>extra\<close>), sends header names in lower case and a missing body as an empty one, and gives the
  answer's body to \<open>JSON.parse\<close> (\<open>parse\<close>).\<close>

definition lower_char :: "char \<Rightarrow> char" where
  "lower_char c = (if 65 \<le> (of_char c :: nat) \<and> (of_char c :: nat) \<le> 90 then char_of ((of_char c :: nat) + 32) else c)"

definition lower_name :: "string \<Rightarrow> string" where
  "lower_name n = map lower_char n"

definition browser_request :: "headers \<Rightarrow> fetch_request \<Rightarrow> proxy_request" where
  "browser_request extra fr =
     \<lparr>pr_search = dropWhile (\<lambda>c. c \<noteq> CHR ''?'') (freq_url fr),
      pr_headers = map (\<lambda>h. (lower_name (fst h), snd h)) (freq_headers fr) @ extra,
      pr_body = Some (case freq_body fr of None \<Rightarrow> [] | Some b \<Rightarrow> b)\<rparr>"

definition response_of :: "(string \<Rightarrow> jsval option) \<Rightarrow> (nat \<Rightarrow> string) \<Rightarrow> http_response \<Rightarrow> response" where
  "response_of parse reason r =
     \<lparr>status = hr_status r, status_text = reason (hr_status r),
      body_read = (case Option.bind (hr_body r) parse of None \<Rightarrow> Body_Syntax_Error | Some v \<Rightarrow> Body_Json v)\<rparr>"

definition route_of :: "fetch_request \<Rightarrow> string list" where
  "route_of fr = route_segments (takeWhile (\<lambda>c. c \<noteq> CHR ''?'') (freq_url fr))"

definition through_proxy ::
  "(string \<Rightarrow> jsval option) \<Rightarrow> (nat \<Rightarrow> string) \<Rightarrow> string option \<Rightarrow> (upstream_request \<Rightarrow> http_response option) \<Rightarrow> headers \<Rightarrow>
   fetch_request \<Rightarrow> fetch_outcome" where
  "through_proxy parse reason env go extra fr =
     Fetched (response_of parse reason (proxyRequest env go (browser_request extra fr) (route_of fr) (freq_method fr)))"

subsection \<open>What the Go server gets\<close>

definition forwarded :: "string option \<Rightarrow> headers \<Rightarrow> fetch_request \<Rightarrow> upstream_request option" where
  "forwarded env extra fr = upstream_request_of env (browser_request extra fr) (route_of fr) (freq_method fr)"

lemma lower_names:
  "lower_name ''Accept'' = ''accept''" "lower_name ''Content-Type'' = ''content-type''"
  by code_simp+

lemma json_text_not_empty: "json_text v \<noteq> Some []"
proof -
  have "nat_string n \<noteq> []" for n by (subst nat_string.simps) simp
  then show ?thesis by (cases v) (simp_all add: int_string_def decimal_text_def Let_def json_quote_def)
qed

text \<open>A call always makes its request, with its method; a body arrives as its JSON text, announced as JSON
  (unless the browser sends a content type on its own).\<close>

lemma forwarded_some: "\<exists>u. forwarded env extra (fetch_request_of mth path options) = Some u \<and> up_method u = mth"
  by (simp add: forwarded_def upstream_request_of_def browser_request_def fetch_request_of_def Let_def)

definition body_of :: "request_options option \<Rightarrow> jsval" where
  "body_of options = (case options of None \<Rightarrow> Undefined | Some o' \<Rightarrow> opt_body o')"

lemma forwarded_body:
  assumes "mth \<noteq> ''GET''" and "mth \<noteq> ''HEAD''" and "body_of options \<noteq> Undefined" and "header_values extra ''content-type'' = []"
    and "forwarded env extra (fetch_request_of mth path options) = Some u"
  shows "up_body u = json_text (body_of options) \<and> map_of (up_headers u) ''content-type'' = Some ''application/json''"
proof -
  let ?fr = "fetch_request_of mth path options"
  obtain req where req: "req = browser_request extra ?fr" by simp
  obtain t where t: "json_text (body_of options) = Some t" using assms(3) by (cases "body_of options") simp_all
  have "header_values (pr_headers req) ''content-type'' = [''application/json'']"
    using assms(3,4) by (simp add: req browser_request_def fetch_request_of_def body_of_def lower_names header_values_def Let_def)
  then have "header_get (pr_headers req) ''content-type'' = Some ''application/json''" by (simp add: header_get_def)
  then have "map_of (buildUpstreamHeaders (pr_headers req)) ''content-type'' = Some ''application/json''"
    unfolding upstream_headers_pick map_of_pick by (simp add: FORWARD_REQUEST_HEADERS_def given_def)
  moreover have "pr_body req = Some t" "t \<noteq> []"
    using assms(3) t json_text_not_empty [of "body_of options"] by (auto simp: req browser_request_def fetch_request_of_def body_of_def)
  moreover have "upstream_request_of env req (route_of ?fr) mth = Some u"
    using assms(5) by (simp add: forwarded_def req fetch_request_of_def Let_def)
  ultimately show ?thesis
    using assms(1,2) t unfolding upstream_request_of_def by (auto simp: Let_def)
qed

subsection \<open>What the caller gets\<close>

text \<open>The outcome of a call that Go's own answer decides, and the error of a call it does not.\<close>

definition settled :: "response \<Rightarrow> jsval js_result" where
  "settled r =
     (if \<not> resp_ok r then Inl (parseApiError r)
      else if status r = 204 then Inr Undefined
      else (case body_read r of Body_Json v \<Rightarrow> Inr v | Body_Aborted \<Rightarrow> Inl AbortError | _ \<Rightarrow> Inl NetworkError))"

definition upstream_error :: js_error where
  "upstream_error = ApiError (Str ''UPSTREAM_ERROR'') ''Failed to connect to Go API'' 502"

text \<open>The body of the handler's error answer, as its text and as the value it stands for.\<close>

definition error_value :: jsval where
  "error_value = Obj [(''error'', Obj [(''code'', Str ''UPSTREAM_ERROR''), (''message'', Str ''Failed to connect to Go API'')])]"

lemma request_settled: "fetch (fetch_request_of mth path options) = Fetched r \<Longrightarrow> request fetch mth path options = settled r"
  by (simp add: request_def request_try_def request_catch_def settled_def json_of_def parseApiError_def Let_def
    split: body_read.split option.split)

lemma settled_error:
  assumes "parse (the (json_text error_value)) = Some error_value"
  shows "settled (response_of parse reason upstreamErrorResponse) = Inl upstream_error"
proof -
  obtain t where t: "json_text error_value = Some t" by (auto simp: error_value_def)
  then have "response_of parse reason upstreamErrorResponse =
      \<lparr>status = 502, status_text = reason 502, body_read = Body_Json error_value\<rparr>"
    using assms by (simp add: response_of_def upstreamErrorResponse_def error_value_def del: json_text.simps)
  then show ?thesis
    by (simp add: settled_def resp_ok_def upstream_error_def parseApiError_def json_of_def error_value_def Let_def or_default_def opt_prop_def)
qed

text \<open>What an answer of the Go server means to the caller, said of its status and body: nothing for a 204,
  the JSON value of any other success, a network error where such a body is no JSON, and else the
  error with the code and the message of the body's \<open>error\<close> object, where it has them, and the status.\<close>

definition error_field :: "jsval option \<Rightarrow> string \<Rightarrow> jsval option" where
  "error_field data k =
     (case data of
        Some (Obj ps) \<Rightarrow>
          (case map_of ps ''error'' of
             Some (Obj fs) \<Rightarrow>
               (case map_of fs k of None \<Rightarrow> None | Some v \<Rightarrow> if v = Null \<or> v = Undefined then None else Some v)
           | _ \<Rightarrow> None)
      | _ \<Rightarrow> None)"

definition go_answer :: "(string \<Rightarrow> jsval option) \<Rightarrow> (nat \<Rightarrow> string) \<Rightarrow> http_response \<Rightarrow> jsval js_result" where
  "go_answer parse reason up =
     (let data = Option.bind (hr_body up) parse; st = hr_status up
      in if st = 204 then Inr Undefined
         else if st \<in> {200..299} then (case data of Some v \<Rightarrow> Inr v | None \<Rightarrow> Inl NetworkError)
         else Inl (ApiError (case error_field data ''code'' of Some c \<Rightarrow> c | None \<Rightarrow> Str ''UNKNOWN_ERROR'')
                            (case error_field data ''message'' of Some m \<Rightarrow> to_string m | None \<Rightarrow> reason st) st))"

lemma parsed_error:
  "parseApiError \<lparr>status = st, status_text = txt, body_read = (case data of None \<Rightarrow> Body_Syntax_Error | Some v \<Rightarrow> Body_Json v)\<rparr> =
     ApiError (case error_field data ''code'' of Some c \<Rightarrow> c | None \<Rightarrow> Str ''UNKNOWN_ERROR'')
              (case error_field data ''message'' of Some m \<Rightarrow> to_string m | None \<Rightarrow> txt) st"
proof (cases data)
  case None
  then show ?thesis by (simp add: parseApiError_def json_of_def error_field_def)
next
  case (Some d)
  have default: "or_default v w = (if v = Null \<or> v = Undefined then w else v)" for v w
    by (cases v) (simp_all add: or_default_def)
  show ?thesis
  proof (cases d)
    case (Obj ps)
    then show ?thesis using Some
      by (simp add: parseApiError_def json_of_def error_field_def default opt_prop_def split: option.split jsval.split)
  qed (simp_all add: Some parseApiError_def json_of_def error_field_def default opt_prop_def)
qed

lemma settled_answer: "settled (response_of parse reason up) = go_answer parse reason up"
  by (simp add: settled_def response_of_def go_answer_def resp_ok_def parsed_error Let_def split: option.split)

text \<open>C3: Through the proxy, where the browser reaches it and the call is not aborted, a call settles in
  exactly these ways. Where the Go server answers and its answer
  can be relayed, the caller gets what the answer means: \<open>undefined\<close> for a 204, the JSON value of
  any other success, \<open>NetworkError\<close> where such a body is no JSON, and for every other status an \<open>ApiError\<close>
  with the code and the message of the body's error object (\<open>UNKNOWN_ERROR\<close> and the status text where it
  has none) and the status. In every other case it gets the error \<open>UPSTREAM_ERROR\<close> with status 502. The
  server is asked once, with the call's method; where the call is a POST or PATCH with a body and the browser
  sends no content type of its own, the body reaches the server as its JSON text, announced as JSON.\<close>

theorem answers_reach_caller:
  assumes "parse (the (json_text error_value)) = Some error_value"
  shows "request (through_proxy parse reason env go extra) mth path options =
      (case Option.bind (forwarded env extra (fetch_request_of mth path options)) go of
         None \<Rightarrow> Inl upstream_error
       | Some up \<Rightarrow> if relayable up then go_answer parse reason up else Inl upstream_error) \<and>
    (\<exists>u. forwarded env extra (fetch_request_of mth path options) = Some u \<and> up_method u = mth \<and>
       (mth \<in> {''POST'', ''PATCH''} \<and> body_of options \<noteq> Undefined \<and> header_values extra ''content-type'' = [] \<longrightarrow>
          up_body u = json_text (body_of options) \<and> map_of (up_headers u) ''content-type'' = Some ''application/json''))"
proof -
  let ?fr = "fetch_request_of mth path options"
  have m: "freq_method ?fr = mth" by (simp add: fetch_request_of_def Let_def)
  have "request (through_proxy parse reason env go extra) mth path options =
      settled (response_of parse reason (proxyRequest env go (browser_request extra ?fr) (route_of ?fr) mth))"
    by (rule request_settled) (simp add: through_proxy_def m)
  moreover have "settled (response_of parse reason (proxyRequest env go (browser_request extra ?fr) (route_of ?fr) mth)) =
      (case Option.bind (forwarded env extra ?fr) go of None \<Rightarrow> Inl upstream_error
       | Some up \<Rightarrow> if relayable up then settled (response_of parse reason up) else Inl upstream_error)"
    using settled_error [of parse reason] assms proxy_outcome [of env go "browser_request extra ?fr" "route_of ?fr" mth]
    by (auto simp: forwarded_def m response_of_def split: option.splits if_splits)
  moreover obtain u where u: "forwarded env extra ?fr = Some u" "up_method u = mth" using forwarded_some by blast
  moreover have "up_body u = json_text (body_of options) \<and> map_of (up_headers u) ''content-type'' = Some ''application/json''"
    if "mth \<in> {''POST'', ''PATCH''}" "body_of options \<noteq> Undefined" "header_values extra ''content-type'' = []"
    using that u(1) by (intro forwarded_body) auto
  ultimately show ?thesis unfolding settled_answer [symmetric] by simp
qed

text \<open>A conflict the Go server answers, an answer without content, a page instead of JSON, and a server that is down.\<close>

theorem answers_reach_caller_witness:
  "let conflict = Obj [(''error'', Obj [(''code'', Str ''CONFLICT''), (''message'', Str ''Name is taken'')])];
       parse = (\<lambda>t. if t = the (json_text error_value) then Some error_value else if t = ''C'' then Some conflict else None);
       call = (\<lambda>go. request (through_proxy parse (\<lambda>_. []) None go []) ''POST'' ''/repos'' (Some \<lparr>opt_body = Null, opt_signal = None\<rparr>))
   in call (\<lambda>_. Some \<lparr>hr_status = 409, hr_headers = [], hr_body = Some ''C''\<rparr>) = Inl (ApiError (Str ''CONFLICT'') ''Name is taken'' 409) \<and>
      call (\<lambda>_. Some \<lparr>hr_status = 204, hr_headers = [], hr_body = None\<rparr>) = Inr Undefined \<and>
      call (\<lambda>_. Some \<lparr>hr_status = 200, hr_headers = [], hr_body = Some ''<html>''\<rparr>) = Inl NetworkError \<and>
      call (\<lambda>_. None) = Inl upstream_error"
proof -
  let ?conflict = "Obj [(''error'', Obj [(''code'', Str ''CONFLICT''), (''message'', Str ''Name is taken'')])]"
  let ?parse = "\<lambda>t. if t = the (json_text error_value) then Some error_value else if t = ''C'' then Some ?conflict else None"
  let ?options = "Some \<lparr>opt_body = Null, opt_signal = None :: nat option\<rparr>"
  have parse: "?parse (the (json_text error_value)) = Some error_value" by simp
  have "''C'' \<noteq> the (json_text error_value)" "''<html>'' \<noteq> the (json_text error_value)"
    by (simp_all add: error_value_def)
  then have parse_C: "?parse ''<html>'' = None" "?parse ''C'' = Some ?conflict" by simp_all
  note reach = answers_reach_caller [where parse = ?parse and reason = "\<lambda>_. []" and env = None and extra = "[]" and mth = "''POST''"
      and path = "''/repos''" and options = ?options, OF parse]
  obtain u where u: "forwarded None [] (fetch_request_of ''POST'' ''/repos'' ?options) = Some u" using forwarded_some by blast
  have "go_answer ?parse (\<lambda>_. []) \<lparr>hr_status = 409, hr_headers = [], hr_body = Some ''C''\<rparr> =
      Inl (ApiError (Str ''CONFLICT'') ''Name is taken'' 409)"
    using parse_C by (simp add: go_answer_def error_field_def)
  then show ?thesis
    unfolding Let_def using reach parse_C by (simp add: u relayable_def go_answer_def)
qed

end
