(* ===== verification/Spec2Isabelle.thy ===== *)
theory Spec2Isabelle
  imports Profile_View App_Frame Toasts Release_Script Audit_Mark
    Page_Requests Roadmap_Fit Roadmap_Earlier Page_Drawing App_Config Proxied_Client
begin

text \<open>
  A verification library of Release Ops, a self-hosted service that watches source repositories for
  new releases and files tickets for them. The repository holds a web application (\<open>apps/web\<close>, Next.js),
  command-line scripts (\<open>scripts\<close>), a documentation site (\<open>apps/docs\<close>) and the server, which is written
  in Go. This library models the JavaScript and TypeScript code: the web application and the scripts.

  \<^bold>\<open>How the program works.\<close> A page request first meets the session guard (\<open>apps/web/middleware.ts\<close>), which
  asks the Go server whether the visitor is signed in and lets the request pass, sends it to the login
  page with the wanted path as a parameter, or sends a signed-in visitor away from it. The login form
  goes back to that path after it has made it safe (\<open>lib/auth/safe-redirect.ts\<close>). Every page reads its
  data through queries and changes it through mutations (\<open>lib/hooks\<close>, \<open>hooks\<close>), which call the API client
  (\<open>lib/api/client.ts\<close>); its requests go to the proxy route (\<open>app/api/go/[...path]/route.ts\<close>), which
  forwards them to the Go server with chosen headers. The pages list rows, edit them in drawers and
  dialogs, and delete them after a confirmation. The scripts draft releases, check security audit
  reports, build the roadmap, audit it, import it into a ticket board, and copy a document into the site.

  \<^bold>\<open>How code is modelled.\<close> A component of React is a record of its state, a function from properties and
  state to the tree it renders (\<open>View\<close>), and its handlers. A handler with an \<open>await\<close> is two functions:
  the code before it, and the code after it for each outcome; what it does besides changing state is a
  list of commands (\<open>Commands\<close>). Runs are sequences of such steps, in any order the disabled controls
  allow (\<open>stepper\<close> in \<open>Prelude\<close>). Effects that feed each other run in rounds, one per render (\<open>Effects\<close>).
  A script is a function of its input and of a parameter that answers its commands or requests, given
  everything done before; its result lists them. What the sources only call is such a parameter, too: the
  host parser of URLs, \<open>fetch\<close>, \<open>localeCompare\<close>, the formatter of dates, the row model of the tables, git
  and the GitHub command line, the ticket board and the clock. Where a property needs a documented fact
  of one of them it is a hypothesis, and its witness has a concrete function in its place.

  \<^bold>\<open>The theories.\<close>
  Language and library: \<open>Prelude\<close> (strings, JavaScript values, outcomes, the locales of runs and of
  round trips), \<open>Js_Url\<close> (the URL parser behind the host), \<open>Js_Number\<close>, \<open>Js_Json\<close>, \<open>Js_Regex\<close> (a
  backtracking matcher with its language), \<open>View\<close>, \<open>Commands\<close>, \<open>Effects\<close>, \<open>Form_Contract\<close> (what a submit
  handler promises, a locale that eight forms interpret).
  Access: \<open>Auth_Middleware\<close>, \<open>Safe_Redirect\<close>, \<open>Auth_Forms\<close> (login, forgotten and new password, invitation,
  confirmation of an address), \<open>Api_Client\<close>, \<open>Go_Proxy\<close>, \<open>Proxied_Client\<close> (the client through the proxy).
  Data: \<open>Api_Types\<close> (\<open>lib/query/types.ts\<close>), \<open>Query_Cache\<close> (keys, paths and invalidations of every hook),
  \<open>Date_Format\<close>, \<open>Page_Size\<close> (stored page sizes, page controls), \<open>Integration_Model\<close>, \<open>Ticket_Config\<close>.
  Pages: \<open>Dashboard\<close>, \<open>Repo_Status\<close>, \<open>Poll_History\<close>, \<open>Page_Parts\<close>, \<open>List_Views\<close>, \<open>Delete_Flow\<close> (a locale of
  confirmed deletes), \<open>Integration_Drawer\<close>, \<open>Repo_Dialog\<close>, \<open>Notification_Drawer\<close>, \<open>Ticket_Forms\<close>,
  \<open>Project_Drawer\<close>, \<open>Projects_View\<close>, \<open>Settings_View\<close>, \<open>Users_View\<close>, \<open>Profile_View\<close>, \<open>Sidebar_State\<close>,
  \<open>App_Frame\<close>, \<open>Toasts\<close>; \<open>Page_Requests\<close> has what their commands send and which URLs their queries ask for.
  Drawing: \<open>Ui_Parts\<close> and \<open>Ui_Sidebar\<close> (the parts of \<open>components/ui\<close> the pages are built from), \<open>Ui_Render\<close> (a
  page drawn down to elements, by a table of the parts), \<open>Page_Drawing\<close> (all pages so drawn), \<open>App_Config\<close>
  (the root layout, the providers, the configuration of a request, the contents of the documentation site).
  Scripts: \<open>Release_Script\<close> (\<open>scripts/ci/create-draft-release.mjs\<close>); \<open>Audit_Report\<close> and \<open>Audit_Mark\<close>
  (\<open>scripts/audit-report.mjs\<close>); \<open>Roadmap_Registry\<close> and \<open>Roadmap_Html\<close> (\<open>scripts/roadmap/registry.mjs\<close>,
  \<open>spec-links.mjs\<close>, \<open>scripts/generate-roadmap.mjs\<close>); \<open>Roadmap_Import\<close> and \<open>Import_Runs\<close>
  (\<open>scripts/import-roadmap-phasical.mjs\<close>); \<open>Roadmap_Audit\<close> (\<open>scripts/audit-roadmap-spec.mjs\<close>,
  \<open>audit-roadmap-intake.mjs\<close>); \<open>Roadmap_Links\<close>, \<open>Roadmap_E01_E06\<close> and \<open>Roadmap_E07_E11\<close> (the tasks of the
  roadmap) with \<open>Roadmap_Order\<close>, \<open>Roadmap_Facts\<close> and \<open>Roadmap_Fit\<close> about them; \<open>Roadmap_P00_P04\<close> to
  \<open>Roadmap_P25_P28\<close> and \<open>Roadmap_Earlier\<close> (the tasks of an earlier roadmap, which no script imports any
  more); \<open>Docs_Sync\<close> (\<open>scripts/sync-docs-content.mjs\<close>).

  \<^bold>\<open>What the lemmas show.\<close>
  Access: which requests the guard lets pass, that any failure of the session check locks, that a redirect
  stays on the site (and the detours behind which it does not), that a deep link survives the
  login, what the proxy forwards, how a call through it settles, that a form has one request at most
  in flight, and shows it.
  Forms and pages: that a submit sends its one request exactly for a valid form, that a secret cannot be
  carried to another address, that a choice resets what depended on the former one, that an untouched
  edit saves what was stored, that effects come to rest, that the answer to an abandoned delete is
  harmless where attempts are numbered, that paging shows every run once and ends, which links are rendered.
  Across components (in this theory): that whatever a page sends refreshes the queries it shows, that what
  a query asks is what the Go server is asked for, that the audit of the roadmap makes its import
  complete and repeatable; and (in \<open>Page_Drawing\<close>) that the interface parts lose nothing of a page.
  Scripts: the grammar and order of versions and when a release is made; that marking a finding of an
  audit report changes its entry only, and that the script's loops stop; that the roadmap is ordered,
  listed completely and fit for the import, that a failed push is not made up for, that markers are read back, that an import returns, wires
  everything and creates nothing the second time.
  Some theorems show a fault: they state what the code does where its comments or its purpose say
  otherwise. They are named in the findings of the manifest.

  \<^bold>\<open>Bounds.\<close> The effects of the repository dialog settle within five rounds and those of the project drawer
  within four (\<open>rd_settle\<close>, \<open>pd_settle\<close>): the theorems say that the state reached is quiet, so a larger
  bound gives the same. Paging through the poll history takes no fuel: the number of presses until the Next
  button is disabled is stated.
  The wait for an issue in the import and the loops of the audit script may not end; they are partial
  functions, and that they return is proved (for the wait: on a clock that moves on).

  \<^bold>\<open>Approximations.\<close> Strings are lists of code units below 256; an em dash or an arrow in a literal of the
  web application is its UTF-8 bytes, whose length nothing there measures. The texts of the roadmap and
  of the documents are UTF-8 bytes throughout, and lengths count UTF-16 units of them (\<open>units\<close>).
  \<open>toLowerCase\<close> acts on ASCII letters. A request of the import answers or rejects (its \<open>fetch\<close> has no
  time limit), and a delay is the time given (\<open>setTimeout\<close> takes one above 2147483647 ms as none). Numbers are exact where JavaScript rounds to a double. Class
  names, icons and repeated ARIA labels of the rendered trees are left out, as are the lines the scripts
  print on their way where no decision depends on them.

  \<^bold>\<open>Not modelled.\<close> Class names and other styles, and the props that only choose among them; the parts of the
  component library, which stay elements; the options of the build tools; the static frame of the roadmap
  page; reading and writing files; the Go server, the migrations and the workflows, which are not JavaScript.
\<close>

section \<open>From a page to its queries and to the server\<close>

text \<open>C4: A page shows what it saved: whatever the user enters in its dialog, drawer or settings form, and
  whichever row is deleted, revoked or polled, the change these send marks the queries of the page for a
  refetch when it succeeds, and the status query where the dashboard shows the changed rows. (The forms of
  the profile page, which refresh nothing, are not among them.) The cache may match keys in any way that
  a key matches its beginnings.\<close>

theorem saves_refresh_pages:
  assumes prefix: "\<And>pattern rest. fits (pattern @ rest) pattern"
  shows "sent_refresh fits (snd (rd_handleSubmit rp r)) [useRepos_list, useStatus] \<and>
    sent_refresh fits (snd (repos_confirm rdel)) [useRepos_list, useStatus] \<and>
    sent_refresh fits (snd (i_handleSubmit ip it)) [useIntegrations_list] \<and>
    sent_refresh fits (snd (integrations_confirm idel)) [useIntegrations_list] \<and>
    sent_refresh fits (snd (pd_handleSubmit pp pd)) [useTicketProjects_list filter_id, useStatus] \<and>
    sent_refresh fits (snd (projects_confirm pdel)) [useTicketProjects_list filter_id, useStatus] \<and>
    sent_refresh fits (snd (n_handleSubmit np nt)) [useNotificationTargets_list] \<and>
    sent_refresh fits (snd (notifications_confirm ndel)) [useNotificationTargets_list] \<and>
    sent_refresh fits (snd (handleSave sp)) [useSettings_query, useStatus] \<and>
    sent_refresh fits (snd (invite_submit iv)) [useInvitations_list] \<and>
    sent_refresh fits (snd (revoke_confirm vdel)) [useInvitations_list] \<and>
    sent_refresh fits (snd (users_confirm udel)) [useUsers_list] \<and>
    sent_refresh fits (snd (handleRunPoll dash)) [usePollRuns params, useStatus]"
proof -
  have facts: "refreshes fits (createRepo b) [useRepos_list, useStatus]" "refreshes fits (updateRepo i b) [useRepos_list, useStatus]"
    "refreshes fits (deleteRepo i) [useRepos_list, useStatus]"
    "refreshes fits (createIntegration b) [useIntegrations_list]" "refreshes fits (updateIntegration i b) [useIntegrations_list]"
    "refreshes fits (deleteIntegration i) [useIntegrations_list]"
    "refreshes fits (createTicketProject b) [useTicketProjects_list filter_id, useStatus]"
    "refreshes fits (updateTicketProject i b) [useTicketProjects_list filter_id, useStatus]"
    "refreshes fits (deleteTicketProject i) [useTicketProjects_list filter_id, useStatus]"
    "refreshes fits (createNotificationTarget b) [useNotificationTargets_list]"
    "refreshes fits (updateNotificationTarget i b) [useNotificationTargets_list]"
    "refreshes fits (deleteNotificationTarget i) [useNotificationTargets_list]"
    "refreshes fits (updateSettings b) [useSettings_query, useStatus]" "refreshes fits (createInvitation b) [useInvitations_list]"
    "refreshes fits (revokeInvitation i) [useInvitations_list]" "refreshes fits (deleteUser i) [useUsers_list]"
    "refreshes fits useTriggerPoll [usePollRuns params, useStatus]" for b i
    using mutations_refresh_lists [of fits b i filter_id params, OF prefix] by simp_all
  show ?thesis
    unfolding repos_confirm_def integrations_confirm_def projects_confirm_def notifications_confirm_def revoke_confirm_def users_confirm_def
    by (intro conjI sent_refreshI) (auto simp: facts handleRunPoll_def dest!: page_mutations confirm_mutations)
qed

lemma saves_refresh_pages_witness:
  "let s = del_init\<lparr>deleteTarget := Some \<lparr>uli_id = ''u1'', uli_email = ''a@b'', uli_created_at = []\<rparr>\<rparr>
   in mutations (snd (users_confirm s)) = [deleteUser ''u1''] \<and>
      sent_refresh (\<lambda>key pattern. prefix pattern key) (snd (users_confirm s)) [useUsers_list]"
proof -
  have "prefix pattern (pattern @ rest)" for pattern rest :: query_key by simp
  then have "sent_refresh (\<lambda>key pattern. prefix pattern key) (snd (users_confirm udel)) [useUsers_list]" for udel
    by (intro saves_refresh_pages [of "\<lambda>key pattern. prefix pattern key", THEN conjunct2, THEN conjunct2, THEN conjunct2, THEN conjunct2,
          THEN conjunct2, THEN conjunct2, THEN conjunct2, THEN conjunct2, THEN conjunct2, THEN conjunct2, THEN conjunct2, THEN conjunct1])
  then have "sent_refresh (\<lambda>key pattern. prefix pattern key) (snd (users_confirm
      (del_init\<lparr>deleteTarget := Some \<lparr>uli_id = ''u1'', uli_email = ''a@b'', uli_created_at = []\<rparr>\<rparr>))) [useUsers_list]" .
  moreover have "mutations (snd (users_confirm
      (del_init\<lparr>deleteTarget := Some \<lparr>uli_id = ''u1'', uli_email = ''a@b'', uli_created_at = []\<rparr>\<rparr>))) = [deleteUser ''u1'']"
    by (simp add: users_confirm_def plain_confirm_def del_init_def)
  ultimately show ?thesis unfolding Let_def by blast
qed

text \<open>C2: What a query of the application asks the Go server is asked: for every query, the request of the
  browser's client passes the route handler and reaches the server at \<open>/api/v1\<close> followed by exactly
  the path of the query with its parameters, whatever identifiers the server gave out, with any
  ASCII text as a project or workspace, and with and without a slash at the end of the server's address.\<close>

theorem queries_reach_go:
  assumes "plain_call c"
  shows "asked_url base hs (qu_path (query_of c)) = Some (on_server base (qu_path (query_of c)))"
proof (cases c)
  case (Q_Poll_Run r)
  then obtain j where j: "r = Some j" "list_all id_c j" using assms by (auto simp: plain_id_def split: option.splits)
  then show ?thesis using asked_plain [of "''/poll/runs/'' @ j"] plain_ids(4) [OF j(2)]
    by (simp add: Q_Poll_Run usePollRun_def starts_with_conv)
next
  case (Q_Ticket_Projects i)
  show ?thesis
  proof (cases "truthy_text i")
    case True
    then obtain j where j: "i = Some j" "list_all id_c j"
      using assms Q_Ticket_Projects by (auto simp: plain_id_def split: option.splits)
    have "ticketProjectsPath i = ''/ticket-projects'' @ ''?'' @ params_string [(''integrationId'', j)]"
      using True j plain_ids(1,2) [OF j(2)] plain_ids(2) [of "''integrationId''"]
      by (simp add: ticketProjectsPath_def params_string_def id_c_def digit_c_def alpha_c_def)
    moreover have "\<forall>(k, v) \<in> set [(''integrationId'', j)]. ascii k \<and> ascii v" using plain_ids(3) [OF j(2)] by (simp add: ascii_def)
    ultimately show ?thesis using asked_params [of "[(''integrationId'', j)]" "''/ticket-projects''"]
      by (simp add: Q_Ticket_Projects useTicketProjects_list_def starts_with_conv)
  next
    case False
    then show ?thesis using asked_plain [of "''/ticket-projects''"]
      by (simp add: Q_Ticket_Projects useTicketProjects_list_def ticketProjectsPath_def starts_with_conv)
  qed
next
  case (Q_Workspaces i e)
  then show ?thesis using asked_scoped [of i None "[]" "''workspaces''"] workspaces_path [of i "''workspaces''" "[]"] assms
    by (simp add: useTicketMetadataWorkspaces_def plain_scope_def ascii_def)
next
  case (Q_Poll_Runs p)
  then show ?thesis using asked_runs by (simp add: usePollRuns_def)
qed (use assms asked_plain asked_scoped in \<open>simp_all add: query_simps starts_with_conv ascii_def\<close>)

lemma queries_reach_go_witness:
  "asked_url ''http://go:8080/'' [] (qu_path (query_of (Q_Projects (Some ''i-1'') (Some ''a b'') True))) =
     Some (on_server ''http://go:8080/'' (qu_path (query_of (Q_Projects (Some ''i-1'') (Some ''a b'') True))))"
  by (rule queries_reach_go) (simp add: plain_id_def plain_scope_def id_c_def digit_c_def alpha_c_def ascii_def)


section \<open>From the audit of the roadmap to its import\<close>

text \<open>C37: If the import script ends without an error it has imported all of the roadmap: it only starts when the
  intake audit of the roadmap passed, and then it has posted, on any board, every parent and
  dependency of the roadmap as a relation between the tasks of the board that stand for the two ends,
  and set the task of every entry to ready.\<close>

theorem audited_import_wires:
  assumes "import_script (intake_blockers spec_ok rm = []) True env w (rm_tasks rm) [] = Some (Inr s, tr)" and "named w"
  shows "all_wired s (rm_tasks rm) tr"
proof -
  have audit: "intake_blockers spec_ok rm = []"
    and run: "import_main (import_config_of True env) w (rm_tasks rm) [] = Some (Inr s, tr)"
    using assms(1) by (auto simp: import_script_def throw_def split: if_splits)
  have "ic_apply (import_config_of True env)" by (simp add: import_config_of_def)
  then show ?thesis using import_wires_all [OF run _ assms(2)] no_blockers_fit [OF audit] by blast
qed

definition import_env :: env where
  "import_env = [''PHASICAL_API_KEY'' \<mapsto> ''k'', ''PHASICAL_USER_ID'' \<mapsto> ''u'']"

lemma audited_import_wires_witness:
  "\<exists>s tr. import_script (intake_blockers True fit_roadmap = []) True import_env (finding_board []) (rm_tasks fit_roadmap) [] = Some (Inr s, tr) \<and>
     all_wired s (rm_tasks fit_roadmap) tr"
proof -
  have "intake_blockers True fit_roadmap = []" by code_simp
  moreover have "case import_script True True import_env (finding_board []) (rm_tasks fit_roadmap) [] of Some (Inr _, _) \<Rightarrow> True | _ \<Rightarrow> False"
    by code_simp
  ultimately obtain s tr where
    r: "import_script (intake_blockers True fit_roadmap = []) True import_env (finding_board []) (rm_tasks fit_roadmap) [] = Some (Inr s, tr)"
    by (auto split: option.splits sum.splits)
  then show ?thesis using audited_import_wires [OF r finding_board_named] by blast
qed

text \<open>C38: Importing an audited roadmap again creates no task: if the board lists a task for every entry, with the
  description the import sent, a run of the script creates none, whatever else the board answers,
  whether the audit passes or not, and even if the run ends in an error.\<close>

theorem audited_rerun_creates_nothing:
  assumes "import_script (intake_blockers spec_ok rm = []) True env w (rm_tasks rm) [] = Some (r, tr)"
    and "w_board w [Get_Status] List_Tasks = Inr (Board cols archived)" and "lists_all (concat cols @ archived) (rm_tasks rm)"
  shows "filter posts_task tr = []"
proof (cases "intake_blockers spec_ok rm = []")
  case True
  then have "import_main (import_config_of True env) w (rm_tasks rm) [] = Some (r, tr)"
    using assms(1) by (simp add: import_script_def)
  moreover have "ic_apply (import_config_of True env)" by (simp add: import_config_of_def)
  ultimately show ?thesis using rerun_creates_nothing [OF assms(2,3)] no_blockers_fit [OF True] by blast
next
  case False
  then show ?thesis using assms(1) by (simp add: import_script_def throw_def)
qed

lemma audited_rerun_creates_nothing_witness:
  "\<exists>r tr. import_script (intake_blockers True fit_roadmap = []) True import_env (listing_board (rm_tasks fit_roadmap)) (rm_tasks fit_roadmap) [] =
       Some (r, tr) \<and> filter posts_task tr = []"
proof -
  let ?w = "listing_board (rm_tasks fit_roadmap)"
  let ?ts = "map (\<lambda>t. \<lparr>bt_id = rt_id t, bt_description = Some (buildDescription t None), bt_links = []\<rparr>) (rm_tasks fit_roadmap)"
  have "intake_blockers True fit_roadmap = []" by code_simp
  moreover have "case import_script True True import_env ?w (rm_tasks fit_roadmap) [] of Some _ \<Rightarrow> True | _ \<Rightarrow> False" by code_simp
  ultimately obtain r tr where
    r: "import_script (intake_blockers True fit_roadmap = []) True import_env ?w (rm_tasks fit_roadmap) [] = Some (r, tr)"
    by (auto split: option.splits)
  have "w_board ?w [Get_Status] List_Tasks = Inr (Board [?ts] [])" by (simp add: listing_board_def)
  moreover have "lists_all (concat [?ts] @ []) (rm_tasks fit_roadmap)"
    by (auto simp: lists_all_def list_all_iff list_ex_iff sent_description_def)
  ultimately show ?thesis using audited_rerun_creates_nothing [OF r, of "[?ts]" "[]"] r by blast
qed

end
